(* ===== verification/Prelude.thy ===== *)
theory Prelude
  imports Main "HOL-Library.Word"
begin

text \<open>
  Shared vocabulary of the development: the exceptions of the Python sources as values
  (\<open>exn\<close>), results that are an exception or a value (\<open>exn + 'a\<close>), stateful computations
  that may raise (\<open>('s, 'a) act\<close>: the state survives an exception, as a mutated object does),
  NumPy arrays (\<open>ndarray\<close>: a dtype, a shape, the elements in C order), and the generic lemmas
  about casts, integer square roots and lists that the components share.
\<close>

unbundle bit_operations_syntax

named_theorems res_simps "unfolding rules of the result and action combinators"

section \<open>Exceptions, results and actions\<close>

text \<open>\<open>Diverges\<close> is no exception of the sources: it is the outcome of a modelled loop whose fuel is
  used up. A component that uses it proves how much fuel is enough.\<close>

datatype exn = ValueError | TypeError | RuntimeError | AssertionError | TimeoutError
  | ZeroDivisionError | IndexError | KeyError | OSError | SystemExit | MemoryError | OverflowError
  | StructError | SpiError | StopIteration | AttributeError | CalledProcessError | Diverges

type_synonym 'a res = "exn + 'a"

type_synonym ('s, 'a) act = "'s \<Rightarrow> 'a res \<times> 's"

definition rbind :: "'a res \<Rightarrow> ('a \<Rightarrow> 'b res) \<Rightarrow> 'b res" where
  "rbind m f = (case m of Inl e \<Rightarrow> Inl e | Inr x \<Rightarrow> f x)"

fun rmap :: "('a \<Rightarrow> 'b res) \<Rightarrow> 'a list \<Rightarrow> 'b list res" where
  "rmap f [] = Inr []"
| "rmap f (x # xs) = rbind (f x) (\<lambda>y. rbind (rmap f xs) (\<lambda>ys. Inr (y # ys)))"

definition ret :: "'a \<Rightarrow> ('s, 'a) act" where
  "ret x s = (Inr x, s)"

definition raise :: "exn \<Rightarrow> ('s, 'a) act" where
  "raise e s = (Inl e, s)"

definition bind :: "('s, 'a) act \<Rightarrow> ('a \<Rightarrow> ('s, 'b) act) \<Rightarrow> ('s, 'b) act" where
  "bind m f s = (case m s of (Inl e, s') \<Rightarrow> (Inl e, s') | (Inr x, s') \<Rightarrow> f x s')"

definition bseq :: "('s, unit) act \<Rightarrow> ('s, 'b) act \<Rightarrow> ('s, 'b) act" where
  "bseq m k = bind m (\<lambda>_. k)"

definition modify :: "('s \<Rightarrow> 's) \<Rightarrow> ('s, unit) act" where
  "modify f s = (Inr (), f s)"

definition gets :: "('s \<Rightarrow> 'a) \<Rightarrow> ('s, 'a) act" where
  "gets f s = (Inr (f s), s)"

definition require :: "bool \<Rightarrow> exn \<Rightarrow> ('s, unit) act" where
  "require b e s = (if b then (Inr (), s) else (Inl e, s))"

definition lift_res :: "'a res \<Rightarrow> ('s, 'a) act" where
  "lift_res r s = (r, s)"

fun mapM_act :: "('a \<Rightarrow> ('s, 'b) act) \<Rightarrow> 'a list \<Rightarrow> ('s, 'b list) act" where
  "mapM_act f [] = ret []"
| "mapM_act f (x # xs) = bind (f x) (\<lambda>y. bind (mapM_act f xs) (\<lambda>ys. ret (y # ys)))"

text \<open>\<open>try: m except: h; raise\<close>: the handler changes the state, the exception goes on.\<close>

definition on_error :: "('s, 'a) act \<Rightarrow> ('s \<Rightarrow> 's) \<Rightarrow> ('s, 'a) act" where
  "on_error m h s = (case m s of (Inl e, s') \<Rightarrow> (Inl e, h s') | (Inr x, s') \<Rightarrow> (Inr x, s'))"

text \<open>\<open>try: m finally: h\<close>: the handler runs on either way, and its own exception wins.\<close>

definition finally' :: "('s, 'a) act \<Rightarrow> ('s, unit) act \<Rightarrow> ('s, 'a) act" where
  "finally' m h s = (case m s of (r, s') \<Rightarrow> (case h s' of (Inl e, t) \<Rightarrow> (Inl e, t) | (Inr _, t) \<Rightarrow> (r, t)))"

lemma rbind_simps [simp, res_simps]:
  "rbind (Inl e) f = Inl e" "rbind (Inr x) f = f x"
  by (simp_all add: rbind_def)

lemma rbind_Inr_iff [simp]: "rbind m f = Inr y \<longleftrightarrow> (\<exists>x. m = Inr x \<and> f x = Inr y)"
  by (cases m) (auto simp: rbind_def)

lemma rbind_Inl_iff:
  "rbind m f = Inl e \<longleftrightarrow> m = Inl e \<or> (\<exists>x. m = Inr x \<and> f x = Inl e)"
  by (cases m) (auto simp: rbind_def)

lemma rbind_assoc: "rbind (rbind m f) g = rbind m (\<lambda>x. rbind (f x) g)"
  by (cases m) auto

lemma rmap_length: "rmap f xs = Inr ys \<Longrightarrow> length ys = length xs"
  by (induction xs arbitrary: ys) auto

lemma rmap_total:
  assumes "\<And>x. x \<in> set xs \<Longrightarrow> f x = Inr (g x)"
  shows "rmap f xs = Inr (map g xs)"
  using assms by (induction xs) auto

lemma ret_apply [simp, res_simps]: "ret x s = (Inr x, s)" by (simp add: ret_def)
lemma raise_apply [simp, res_simps]: "raise e s = (Inl e, s)" by (simp add: raise_def)
lemma modify_apply [simp, res_simps]: "modify f s = (Inr (), f s)" by (simp add: modify_def)
lemma gets_apply [simp, res_simps]: "gets f s = (Inr (f s), s)" by (simp add: gets_def)
lemma lift_res_apply [simp, res_simps]: "lift_res r s = (r, s)" by (simp add: lift_res_def)

lemma bind_Inl [res_simps]: "m s = (Inl e, s') \<Longrightarrow> bind m f s = (Inl e, s')"
  by (simp add: bind_def)

lemma bind_Inr [res_simps]: "m s = (Inr x, s') \<Longrightarrow> bind m f s = f x s'"
  by (simp add: bind_def)

lemma bind_Inr_iff:
  "bind m f s = (Inr y, t) \<longleftrightarrow> (\<exists>x s'. m s = (Inr x, s') \<and> f x s' = (Inr y, t))"
  by (auto simp: bind_def split: prod.splits sum.splits)

lemma bind_ret [simp]: "bind (ret x) f = f x"
  by (rule ext) (simp add: bind_def)

lemma bind_gets [simp]: "bind (gets g) f s = f (g s) s"
  by (simp add: bind_def)

lemma bseq_Inr_iff:
  "bseq m k s = (Inr y, t) \<longleftrightarrow> (\<exists>s'. m s = (Inr (), s') \<and> k s' = (Inr y, t))"
  by (auto simp: bseq_def bind_Inr_iff)

lemma require_Inr_iff [simp]: "require b e s = (Inr u, t) \<longleftrightarrow> b \<and> s = t"
  by (auto simp: require_def)

text \<open>An invariant of the state that each part keeps, whether it raises or not.\<close>

definition keeps :: "('s \<Rightarrow> bool) \<Rightarrow> ('s, 'a) act \<Rightarrow> bool" where
  "keeps I m \<longleftrightarrow> (\<forall>s. I s \<longrightarrow> I (snd (m s)))"

named_theorems keeps_intros "rules that build keeps I m from the parts of m"

lemma keepsD: "keeps I m \<Longrightarrow> I s \<Longrightarrow> I (snd (m s))"
  by (simp add: keeps_def)

lemma keeps_ret [keeps_intros]: "keeps I (ret x)" by (simp add: keeps_def)
lemma keeps_raise [keeps_intros]: "keeps I (raise e)" by (simp add: keeps_def)
lemma keeps_gets [keeps_intros]: "keeps I (gets f)" by (simp add: keeps_def)
lemma keeps_lift [keeps_intros]: "keeps I (lift_res r)" by (simp add: keeps_def)
lemma keeps_require [keeps_intros]: "keeps I (require b e)" by (simp add: keeps_def require_def)

lemma keeps_modify [keeps_intros]: "(\<And>s. I s \<Longrightarrow> I (f s)) \<Longrightarrow> keeps I (modify f)"
  by (simp add: keeps_def)

lemma keeps_bind [keeps_intros]:
  assumes "keeps I m" and "\<And>x. keeps I (f x)"
  shows "keeps I (bind m f)"
  unfolding keeps_def
proof (intro allI impI)
  fix s assume "I s"
  then have "I (snd (m s))" using assms(1) by (rule keepsD [rotated])
  then show "I (snd (bind m f s))"
    using assms(2) by (auto simp: bind_def keeps_def split: prod.splits sum.splits)
qed

lemma keeps_bseq [keeps_intros]: "keeps I m \<Longrightarrow> keeps I k \<Longrightarrow> keeps I (bseq m k)"
  by (auto simp: bseq_def intro: keeps_intros)

lemma keeps_mapM [keeps_intros]: "(\<And>x. keeps I (f x)) \<Longrightarrow> keeps I (mapM_act f xs)"
  by (induction xs) (auto intro!: keeps_intros)

lemma keeps_on_error [keeps_intros]:
  "keeps I m \<Longrightarrow> (\<And>s. I s \<Longrightarrow> I (h s)) \<Longrightarrow> keeps I (on_error m h)"
  by (fastforce simp: keeps_def on_error_def split: prod.splits sum.splits)

lemma keeps_if [keeps_intros]: "keeps I m \<Longrightarrow> keeps I k \<Longrightarrow> keeps I (if b then m else k)"
  by simp

text \<open>A total step on a part of the state, and one that may raise.\<close>

definition zoom :: "('s \<Rightarrow> 'd) \<Rightarrow> ('d \<Rightarrow> 's \<Rightarrow> 's) \<Rightarrow> ('d \<Rightarrow> 'a \<times> 'd) \<Rightarrow> ('s, 'a) act" where
  "zoom get put f s = (case f (get s) of (x, d) \<Rightarrow> (Inr x, put d s))"

definition zoom_res :: "('s \<Rightarrow> 'd) \<Rightarrow> ('d \<Rightarrow> 's \<Rightarrow> 's) \<Rightarrow> ('d, 'a) act \<Rightarrow> ('s, 'a) act" where
  "zoom_res get put f s = (case f (get s) of (r, d) \<Rightarrow> (r, put d s))"

text \<open>\<open>for x in xs: f(x)\<close> for its effect.\<close>

fun for_each :: "('a \<Rightarrow> ('s, unit) act) \<Rightarrow> 'a list \<Rightarrow> ('s, unit) act" where
  "for_each f [] = ret ()"
| "for_each f (x # xs) = bseq (f x) (for_each f xs)"

text \<open>\<open>any(p(x) for x in xs)\<close>: stops at the first hit.\<close>

fun any_act :: "('a \<Rightarrow> ('s, bool) act) \<Rightarrow> 'a list \<Rightarrow> ('s, bool) act" where
  "any_act f [] = ret False"
| "any_act f (x # xs) = bind (f x) (\<lambda>b. if b then ret True else any_act f xs)"

lemma keeps_zoom [keeps_intros]: "(\<And>d s. I s \<Longrightarrow> I (put d s)) \<Longrightarrow> keeps I (zoom get put f)"
  by (simp add: keeps_def zoom_def split: prod.splits)

lemma keeps_zoom_res [keeps_intros]: "(\<And>d s. I s \<Longrightarrow> I (put d s)) \<Longrightarrow> keeps I (zoom_res get put f)"
  by (simp add: keeps_def zoom_res_def split: prod.splits)

lemma keeps_for_each [keeps_intros]: "(\<And>x. x \<in> set xs \<Longrightarrow> keeps I (f x)) \<Longrightarrow> keeps I (for_each f xs)"
  by (induction xs) (auto intro!: keeps_intros)

lemma keeps_any_act [keeps_intros]: "(\<And>x. keeps I (f x)) \<Longrightarrow> keeps I (any_act f xs)"
  by (induction xs) (auto intro!: keeps_intros)

section \<open>Numbers as text\<close>

text \<open>The decimal digits of a number.\<close>

fun str_of_nat :: "nat \<Rightarrow> string" where
  "str_of_nat n = (if n < 10 then [''0123456789'' ! n] else str_of_nat (n div 10) @ [''0123456789'' ! (n mod 10)])"

declare str_of_nat.simps [simp del]

section \<open>Outcomes of an action\<close>

text \<open>\<open>outcome m s Q E\<close>: from \<open>s\<close> the action returns a value and state with \<open>Q\<close>, or raises with \<open>E\<close>
  of the exception and the state it leaves. The equations of \<open>outcome_simps\<close> compute it backwards
  through a handler.\<close>

definition outcome :: "('s, 'a) act \<Rightarrow> 's \<Rightarrow> ('a \<Rightarrow> 's \<Rightarrow> bool) \<Rightarrow> (exn \<Rightarrow> 's \<Rightarrow> bool) \<Rightarrow> bool" where
  "outcome m s Q E = (case m s of (Inr x, t) \<Rightarrow> Q x t | (Inl e, t) \<Rightarrow> E e t)"

named_theorems outcome_simps "backward computation of outcomes"

lemma outcomeD:
  assumes "outcome m s Q E"
  shows "m s = (Inr x, t) \<Longrightarrow> Q x t" "m s = (Inl e, t) \<Longrightarrow> E e t"
  using assms by (simp_all add: outcome_def)

lemma outcome_mono:
  assumes "outcome m s Q E" "\<And>x t. Q x t \<Longrightarrow> Q' x t" "\<And>e t. E e t \<Longrightarrow> E' e t"
  shows "outcome m s Q' E'"
  using assms by (auto simp: outcome_def split: prod.splits sum.splits)

lemma outcome_ret [outcome_simps]: "outcome (ret x) s Q E = Q x s"
  by (simp add: outcome_def)

lemma outcome_raise [outcome_simps]: "outcome (raise e) s Q E = E e s"
  by (simp add: outcome_def)

lemma outcome_modify [outcome_simps]: "outcome (modify f) s Q E = Q () (f s)"
  by (simp add: outcome_def)

lemma outcome_gets [outcome_simps]: "outcome (gets g) s Q E = Q (g s) s"
  by (simp add: outcome_def)

lemma outcome_require [outcome_simps]: "outcome (require b e) s Q E = (if b then Q () s else E e s)"
  by (simp add: outcome_def require_def)

lemma outcome_lift [outcome_simps]:
  "outcome (lift_res r) s Q E = (case r of Inr x \<Rightarrow> Q x s | Inl e \<Rightarrow> E e s)"
  by (auto simp: outcome_def split: sum.splits)

lemma outcome_bind [outcome_simps]:
  "outcome (bind m f) s Q E = outcome m s (\<lambda>x t. outcome (f x) t Q E) E"
  by (auto simp: outcome_def bind_def split: prod.splits sum.splits)

lemma outcome_bseq [outcome_simps]:
  "outcome (bseq m k) s Q E = outcome m s (\<lambda>_ t. outcome k t Q E) E"
  by (simp add: bseq_def outcome_bind)

lemma outcome_on_error [outcome_simps]:
  "outcome (on_error m h) s Q E = outcome m s Q (\<lambda>e t. E e (h t))"
  by (auto simp: outcome_def on_error_def split: prod.splits sum.splits)

lemma outcome_zoom [outcome_simps]:
  "outcome (zoom get put f) s Q E = Q (fst (f (get s))) (put (snd (f (get s))) s)"
  by (auto simp: outcome_def zoom_def split: prod.splits)

lemma outcome_zoom_res [outcome_simps]:
  "outcome (zoom_res get put f) s Q E = outcome f (get s) (\<lambda>x d. Q x (put d s)) (\<lambda>e d. E e (put d s))"
  by (auto simp: outcome_def zoom_res_def split: prod.splits sum.splits)

lemma outcome_if [outcome_simps]:
  "outcome (if b then m else k) s Q E = (if b then outcome m s Q E else outcome k s Q E)"
  by simp

lemma outcome_trivial: "outcome m s (\<lambda>_ _. True) (\<lambda>_ _. True)"
  by (auto simp: outcome_def split: prod.splits sum.splits)

lemma keeps_outcome: "keeps I m \<Longrightarrow> I s \<Longrightarrow> outcome m s (\<lambda>_ t. I t) (\<lambda>_ t. I t)"
  by (auto simp: keeps_def outcome_def split: prod.splits sum.splits)

text \<open>A loop whose body returns \<open>g x\<close> from every state of the invariant.\<close>

lemma mapM_act_inv:
  assumes "\<And>x s. x \<in> set xs \<Longrightarrow> I s \<Longrightarrow> \<exists>t. f x s = (Inr (g x), t) \<and> I t" "I s"
  shows "\<exists>t. mapM_act f xs s = (Inr (map g xs), t) \<and> I t"
  using assms
proof (induction xs arbitrary: s)
  case (Cons x xs)
  obtain t where t: "f x s = (Inr (g x), t)" "I t" using Cons.prems(1) [of x s] Cons.prems(2) by auto
  obtain u where "mapM_act f xs t = (Inr (map g xs), u)" "I u"
    using Cons.IH [of t] Cons.prems(1) t(2) by auto
  then show ?case using t(1) by (simp add: bind_def)
qed simp

lemma outcome_finally [outcome_simps]:
  "outcome (finally' m h) s Q E = outcome m s (\<lambda>x t. outcome h t (\<lambda>_ u. Q x u) E) (\<lambda>e t. outcome h t (\<lambda>_ u. E e u) E)"
  by (auto simp: outcome_def finally'_def split: prod.splits sum.splits)

end
