(* ===== verification/Rounding.thy ===== *)
theory Rounding
  imports Prelude
begin

text \<open>
  The rounding primitive of the numerical contract and its five implementations.
  \<open>rne_div\<close> and \<open>sat16\<close> are \<open>ref/sfpu_ref.py\<close>; \<open>rne_shift\<close> is the vectorised form of
  \<open>ref/gpt2_quantized.py\<close> (magnitude shift on int64); \<open>rounded_product\<close> is the host form of
  \<open>zynq/m4_offload.py\<close> (int64 product, then divmod). The locale \<open>nearest_even\<close> states what
  round-half-to-even promises; every implementation is an interpretation of it, so they agree
  wherever both are defined (\<open>nearest_even_unique\<close>).
\<close>

section \<open>The contract\<close>

lemma nearest_even_unique:
  fixes q q' n d :: int
  assumes d: "0 < d"
    and q: "2 * \<bar>q * d - n\<bar> \<le> d" "2 * \<bar>q * d - n\<bar> = d \<Longrightarrow> even q"
    and q': "2 * \<bar>q' * d - n\<bar> \<le> d" "2 * \<bar>q' * d - n\<bar> = d \<Longrightarrow> even q'"
  shows "q = q'"
proof -
  define t where "t = \<bar>q - q'\<bar>"
  have td: "t * d = \<bar>q * d - q' * d\<bar>"
    using d by (simp add: t_def abs_mult flip: left_diff_distrib)
  then have "t * d \<le> 1 * d" using q(1) q'(1) by (smt (verit))
  then have t1: "t \<le> 1" by (simp only: mult_le_cancel_right_pos [OF d])
  show ?thesis
  proof (cases "t = 1")
    case True
    then have "\<bar>q * d - q' * d\<bar> = d" using td by simp
    then have "2 * \<bar>q * d - n\<bar> = d" "2 * \<bar>q' * d - n\<bar> = d"
      using q(1) q'(1) by (smt (verit))+
    then have "even (q - q')" using q(2) q'(2) by simp
    moreover have "q - q' = 1 \<or> q - q' = -1" using True by (auto simp: t_def abs_if split: if_splits)
    then have "odd (q - q')" by (metis odd_one even_minus)
    ultimately show ?thesis by blast
  next
    case False
    with t1 show ?thesis by (auto simp: t_def)
  qed
qed

locale nearest_even =
  fixes rnd :: "int \<Rightarrow> 'k \<Rightarrow> int" and den :: "'k \<Rightarrow> int" and ok :: "int \<Rightarrow> 'k \<Rightarrow> bool"
  assumes den_pos: "ok n k \<Longrightarrow> 0 < den k"
    and near: "ok n k \<Longrightarrow> 2 * \<bar>rnd n k * den k - n\<bar> \<le> den k"
    and tie: "ok n k \<Longrightarrow> 2 * \<bar>rnd n k * den k - n\<bar> = den k \<Longrightarrow> even (rnd n k)"
begin

lemma unique:
  assumes "ok n k" "2 * \<bar>q * den k - n\<bar> \<le> den k" "2 * \<bar>q * den k - n\<bar> = den k \<Longrightarrow> even q"
  shows "rnd n k = q"
  by (rule nearest_even_unique [OF den_pos [OF assms(1)] near [OF assms(1)] tie [OF assms(1)]
        assms(2,3)])

lemma exact: "ok n k \<Longrightarrow> n = q * den k \<Longrightarrow> rnd n k = q"
  by (rule unique) (auto dest: den_pos)

lemma mono:
  assumes ok: "ok m k" "ok n k" and le: "m \<le> n"
  shows "rnd m k \<le> rnd n k"
proof (rule ccontr)
  assume "\<not> ?thesis"
  then have "rnd n k + 1 \<le> rnd m k" by simp
  then have "(rnd n k + 1) * den k \<le> rnd m k * den k"
    using den_pos [OF ok(1)] by (simp only: mult_le_cancel_right) linarith
  then have gap: "rnd n k * den k + den k \<le> rnd m k * den k" by (simp add: algebra_simps)
  have "2 * \<bar>rnd m k * den k - m\<bar> \<le> den k" "2 * \<bar>rnd n k * den k - n\<bar> \<le> den k"
    using near ok by blast+
  with gap le have "m = n" by (smt (verit))
  with gap den_pos [OF ok(1)] show False by simp
qed

lemma abs_bound:
  assumes ok: "ok n k" and b: "\<bar>n\<bar> \<le> c * den k"
  shows "\<bar>rnd n k\<bar> \<le> c"
proof (rule ccontr)
  assume "\<not> ?thesis"
  then have "(c + 1) * den k \<le> \<bar>rnd n k\<bar> * den k"
    using den_pos [OF ok] by (simp only: mult_le_cancel_right) linarith
  also have "\<dots> = \<bar>rnd n k * den k\<bar>" using den_pos [OF ok] by (simp add: abs_mult)
  finally have "c * den k + den k \<le> \<bar>rnd n k * den k\<bar>" by (simp add: algebra_simps)
  with b near [OF ok] den_pos [OF ok] show False by (smt (verit))
qed

lemma half_bound:
  assumes ok: "ok n k" and b: "2 * \<bar>n\<bar> < (2 * c + 1) * den k"
  shows "\<bar>rnd n k\<bar> \<le> c"
proof (rule ccontr)
  assume "\<not> ?thesis"
  then have "(c + 1) * den k \<le> \<bar>rnd n k\<bar> * den k"
    using den_pos [OF ok] by (simp only: mult_le_cancel_right) linarith
  also have "\<dots> = \<bar>rnd n k * den k\<bar>" using den_pos [OF ok] by (simp add: abs_mult)
  finally have "2 * (c * den k) + 2 * den k \<le> 2 * \<bar>rnd n k * den k\<bar>" by (simp add: algebra_simps)
  moreover have "2 * \<bar>n\<bar> < 2 * (c * den k) + den k" using b by (simp add: algebra_simps)
  ultimately show False using near [OF ok] by (smt (verit))
qed

lemma half_above:
  assumes ok: "ok n k" and b: "(2 * c - 1) * den k < 2 * n"
  shows "c \<le> rnd n k"
proof (rule ccontr)
  assume "\<not> ?thesis"
  then have "rnd n k * den k \<le> (c - 1) * den k"
    using den_pos [OF ok] by (simp only: mult_le_cancel_right) linarith
  then have "2 * (rnd n k * den k) + 2 * den k \<le> 2 * (c * den k)" by (simp add: algebra_simps)
  moreover have "2 * (c * den k) - den k < 2 * n" using b by (simp add: algebra_simps)
  ultimately show False using near [OF ok] by (smt (verit))
qed

end

lemma nearest_even_agree:
  assumes "nearest_even r1 d1 ok1" and "nearest_even r2 d2 ok2"
    and "ok1 n k" "ok2 n j" "d1 k = d2 j"
  shows "r1 n k = r2 n j"
  by (rule nearest_even.unique [OF assms(1,3)])
    (use nearest_even.near [OF assms(2,4)] nearest_even.tie [OF assms(2,4)] assms(5) in simp_all)

section \<open>The implementations\<close>

text \<open>The nonnegative step all of them share: quotient, remainder, increment on > half or on
  a tie with an odd quotient.\<close>

definition rne_up :: "int \<Rightarrow> int \<Rightarrow> int" where
  "rne_up magnitude denominator =
     (let quotient = magnitude div denominator; remainder = magnitude mod denominator
      in if 2 * remainder > denominator \<or> (2 * remainder = denominator \<and> odd quotient)
         then quotient + 1 else quotient)"

definition rne_val :: "int \<Rightarrow> int \<Rightarrow> int" where
  "rne_val numerator denominator =
     (let quotient = rne_up \<bar>numerator\<bar> denominator
      in if numerator < 0 then - quotient else quotient)"

definition rne_div :: "int \<Rightarrow> int \<Rightarrow> int res" where
  "rne_div numerator denominator =
     (if denominator \<le> 0 then Inl ValueError else Inr (rne_val numerator denominator))"

definition sat16 :: "int \<Rightarrow> int" where
  "sat16 value = max (-32768) (min 32767 value)"

text \<open>\<open>rne_shift\<close>: elementwise on an int64 array; the magnitude is shifted, not divided.\<close>

definition rne_shift1 :: "int \<Rightarrow> nat \<Rightarrow> int" where
  "rne_shift1 v shift =
     (let magnitude = \<bar>v\<bar>;
          quotient = drop_bit shift magnitude;
          remainder = magnitude - push_bit shift quotient;
          denominator = push_bit shift 1;
          quotient = quotient + of_bool (2 * remainder > denominator
                       \<or> (2 * remainder = denominator \<and> quotient AND 1 \<noteq> 0))
      in if v < 0 then - quotient else quotient)"

definition rne_shift :: "int list \<Rightarrow> int \<Rightarrow> int list res" where
  "rne_shift values shift =
     (if \<not> (0 \<le> shift \<and> shift \<le> 31) \<or> list_ex (\<lambda>v. v = - (2 ^ 63)) values then Inl ValueError
      else Inr (map (\<lambda>v. rne_shift1 v (nat shift)) values))"

text \<open>\<open>rounded_product\<close>: the product and its magnitude are int64, so they wrap.\<close>

definition rounded_product1 :: "int \<Rightarrow> int \<Rightarrow> nat \<Rightarrow> int" where
  "rounded_product1 x mult shift =
     (let product = signed_take_bit 63 (x * mult);
          magnitude = signed_take_bit 63 \<bar>product\<bar>;
          quotient = magnitude div push_bit shift 1;
          remainder = magnitude mod push_bit shift 1;
          quotient = quotient + of_bool (remainder * 2 > push_bit shift 1
                       \<or> (remainder * 2 = push_bit shift 1 \<and> quotient mod 2 = 1))
      in if product < 0 then - quotient else quotient)"

definition rounded_product :: "int list \<Rightarrow> int list \<Rightarrow> nat \<Rightarrow> int list" where
  "rounded_product x mult shift = map2 (\<lambda>v m. rounded_product1 v m shift) x mult"

section \<open>Every implementation satisfies the contract\<close>

lemma rne_up_near:
  assumes "0 < d"
  shows "2 * \<bar>rne_up m d * d - m\<bar> \<le> d"
    and "2 * \<bar>rne_up m d * d - m\<bar> = d \<Longrightarrow> even (rne_up m d)"
proof -
  define q r where "q = m div d" and "r = m mod d"
  have m: "m = q * d + r" and r: "0 \<le> r" "r < d"
    using assms by (simp_all add: q_def r_def)
  have up: "rne_up m d = (if 2 * r > d \<or> (2 * r = d \<and> odd q) then q + 1 else q)"
    by (simp add: rne_up_def q_def r_def Let_def)
  have near: "rne_up m d * d - m = (if 2 * r > d \<or> (2 * r = d \<and> odd q) then d - r else - r)"
    unfolding up by (subst m) (simp add: algebra_simps)
  show "2 * \<bar>rne_up m d * d - m\<bar> \<le> d" unfolding near using r by auto
  show "even (rne_up m d)" if "2 * \<bar>rne_up m d * d - m\<bar> = d"
    using that r unfolding near by (subst up) (auto split: if_splits)
qed

interpretation rne: nearest_even rne_val "\<lambda>d. d" "\<lambda>n d. 0 < d"
proof unfold_locales
  fix n d :: int
  assume d: "0 < d"
  have eq: "\<bar>rne_val n d * d - n\<bar> = \<bar>rne_up \<bar>n\<bar> d * d - \<bar>n\<bar>\<bar>"
  proof (cases "n < 0")
    case True
    then have "rne_val n d * d - n = - (rne_up \<bar>n\<bar> d * d - \<bar>n\<bar>)"
      by (simp add: rne_val_def Let_def)
    then show ?thesis by (simp only: abs_minus_cancel)
  qed (simp add: rne_val_def Let_def)
  have ev: "even (rne_val n d) = even (rne_up \<bar>n\<bar> d)"
    by (simp add: rne_val_def Let_def)
  show "2 * \<bar>rne_val n d * d - n\<bar> \<le> d" unfolding eq by (rule rne_up_near [OF d])
  show "even (rne_val n d)" if "2 * \<bar>rne_val n d * d - n\<bar> = d"
    using that unfolding eq ev by (rule rne_up_near [OF d])
qed auto

lemma rne_shift1_eq: "rne_shift1 v s = rne_val v (2 ^ s)"
  by (simp add: rne_shift1_def rne_val_def rne_up_def Let_def drop_bit_eq_div push_bit_eq_mult
      minus_div_mult_eq_mod and_one_eq odd_iff_mod_2_eq_one)

lemma rounded_product1_eq:
  assumes "\<bar>x * m\<bar> < 2 ^ 63"
  shows "rounded_product1 x m s = rne_val (x * m) (2 ^ s)"
proof -
  define p where "p = x * m"
  have "signed_take_bit 63 p = p" "signed_take_bit 63 \<bar>p\<bar> = \<bar>p\<bar>"
    using assms by (auto simp: p_def intro!: signed_take_bit_int_eq_self)
  then show ?thesis
    unfolding rounded_product1_def rne_val_def rne_up_def Let_def p_def [symmetric]
    by (simp only: push_bit_eq_mult odd_iff_mod_2_eq_one mult.commute mult_1_right)
      (simp add: algebra_simps)
qed

interpretation shift: nearest_even rne_shift1 "\<lambda>s. 2 ^ s" "\<lambda>n s. True"
  by unfold_locales (use rne.near rne.tie in \<open>auto simp: rne_shift1_eq\<close>)

interpretation product: nearest_even "\<lambda>n (m, s). rounded_product1 (n div m) m s"
  "\<lambda>(m, s). 2 ^ s" "\<lambda>n (m, s). m \<noteq> 0 \<and> m dvd n \<and> \<bar>n\<bar> < 2 ^ 63"
  by unfold_locales (use rne.near rne.tie in \<open>auto simp: rounded_product1_eq\<close>)

section \<open>Facts the components use\<close>

lemma rne_val_0 [simp]: "0 < d \<Longrightarrow> rne_val 0 d = 0"
  by (rule rne.exact) auto

lemma rne_val_neg: "0 < d \<Longrightarrow> rne_val (- n) d = - rne_val n d"
  by (cases "n = 0") (simp_all add: rne_val_def rne_up_def Let_def)

lemma rne_val_nonneg: "0 \<le> n \<Longrightarrow> 0 < d \<Longrightarrow> 0 \<le> rne_val n d"
  using rne.mono [of d 0 n] by simp

lemma rne_div_Inr [simp]: "0 < d \<Longrightarrow> rne_div n d = Inr (rne_val n d)"
  by (simp add: rne_div_def)

lemma sat16_range [simp]: "-32768 \<le> sat16 v" "sat16 v \<le> 32767"
  by (auto simp: sat16_def)

lemma sat16_id: "-32768 \<le> v \<Longrightarrow> v \<le> 32767 \<Longrightarrow> sat16 v = v"
  by (simp add: sat16_def)

lemma sat16_mono: "v \<le> w \<Longrightarrow> sat16 v \<le> sat16 w"
  by (auto simp: sat16_def)

end
