(* ===== verification/Ndarray.thy ===== *)
theory Ndarray
  imports Prelude
begin

text \<open>
  The fragment of NumPy the sources use: an array is a dtype, a shape and its elements in C order.
  Casts (\<open>astype\<close>, \<open>view\<close> between equal widths) are the two's-complement casts of C, written with
  \<open>signed_take_bit\<close> and \<open>take_bit\<close>; views between bytes and 32-bit words are little-endian, as
  the dtypes \<open>'<u4'\<close>, \<open>'<i4'\<close> of the sources say.
\<close>

section \<open>Types of elements\<close>

datatype dtype = Int8 | Int16 | Int32 | Int64 | UInt8 | UInt16 | UInt32 | UInt64 | Bool | Float64

fun np_signed :: "dtype \<Rightarrow> bool" where
  "np_signed Int8 = True" | "np_signed Int16 = True" | "np_signed Int32 = True"
| "np_signed Int64 = True" | "np_signed _ = False"

fun np_unsigned :: "dtype \<Rightarrow> bool" where
  "np_unsigned UInt8 = True" | "np_unsigned UInt16 = True" | "np_unsigned UInt32 = True"
| "np_unsigned UInt64 = True" | "np_unsigned _ = False"

definition np_integer :: "dtype \<Rightarrow> bool" where
  "np_integer d \<longleftrightarrow> np_signed d \<or> np_unsigned d"

text \<open>The cast to an integer dtype; a boolean is 0 or 1. (Float64 holds no \<open>int\<close> here.)\<close>

fun np_cast :: "dtype \<Rightarrow> int \<Rightarrow> int" where
  "np_cast Int8 v = signed_take_bit 7 v"
| "np_cast Int16 v = signed_take_bit 15 v"
| "np_cast Int32 v = signed_take_bit 31 v"
| "np_cast Int64 v = signed_take_bit 63 v"
| "np_cast UInt8 v = take_bit 8 v"
| "np_cast UInt16 v = take_bit 16 v"
| "np_cast UInt32 v = take_bit 32 v"
| "np_cast UInt64 v = take_bit 64 v"
| "np_cast Bool v = of_bool (v \<noteq> 0)"
| "np_cast Float64 v = v"

definition in_dtype :: "dtype \<Rightarrow> int \<Rightarrow> bool" where
  "in_dtype d v \<longleftrightarrow> np_cast d v = v"

lemma in_dtype_simps [simp]:
  "in_dtype Int8 v \<longleftrightarrow> -128 \<le> v \<and> v < 128"
  "in_dtype Int16 v \<longleftrightarrow> -32768 \<le> v \<and> v < 32768"
  "in_dtype Int32 v \<longleftrightarrow> -(2 ^ 31) \<le> v \<and> v < 2 ^ 31"
  "in_dtype Int64 v \<longleftrightarrow> -(2 ^ 63) \<le> v \<and> v < 2 ^ 63"
  "in_dtype UInt8 v \<longleftrightarrow> 0 \<le> v \<and> v < 256"
  "in_dtype UInt16 v \<longleftrightarrow> 0 \<le> v \<and> v < 65536"
  "in_dtype UInt32 v \<longleftrightarrow> 0 \<le> v \<and> v < 2 ^ 32"
  by (auto simp: in_dtype_def signed_take_bit_int_eq_self_iff take_bit_int_eq_self_iff)

lemma np_cast_self [simp]: "in_dtype d v \<Longrightarrow> np_cast d v = v"
  by (simp add: in_dtype_def)

section \<open>Arrays\<close>

record ndarray =
  nd_dtype :: dtype
  nd_shape :: "nat list"
  nd_elems :: "int list"

definition nd_wf :: "ndarray \<Rightarrow> bool" where
  "nd_wf a \<longleftrightarrow> length (nd_elems a) = prod_list (nd_shape a) \<and> list_all (in_dtype (nd_dtype a)) (nd_elems a)"

abbreviation ndim :: "ndarray \<Rightarrow> nat" where "ndim a \<equiv> length (nd_shape a)"

definition vec :: "dtype \<Rightarrow> int list \<Rightarrow> ndarray" where
  "vec d xs = \<lparr>nd_dtype = d, nd_shape = [length xs], nd_elems = map (np_cast d) xs\<rparr>"

definition mat :: "dtype \<Rightarrow> nat \<Rightarrow> nat \<Rightarrow> int list \<Rightarrow> ndarray" where
  "mat d r c xs = \<lparr>nd_dtype = d, nd_shape = [r, c], nd_elems = map (np_cast d) xs\<rparr>"

definition astype :: "dtype \<Rightarrow> ndarray \<Rightarrow> ndarray" where
  "astype d a = a\<lparr>nd_dtype := d, nd_elems := map (np_cast d) (nd_elems a)\<rparr>"

text \<open>The element of a rank-2 array; the callers index inside the shape.\<close>

definition at2 :: "ndarray \<Rightarrow> nat \<Rightarrow> nat \<Rightarrow> int" where
  "at2 a i j = nd_elems a ! (i * (nd_shape a ! 1) + j)"

lemma vec_simps [simp]:
  "nd_dtype (vec d xs) = d" "nd_shape (vec d xs) = [length xs]"
  "nd_elems (vec d xs) = map (np_cast d) xs"
  by (simp_all add: vec_def)

lemma mat_simps [simp]:
  "nd_dtype (mat d r c xs) = d" "nd_shape (mat d r c xs) = [r, c]"
  "nd_elems (mat d r c xs) = map (np_cast d) xs"
  by (simp_all add: mat_def)

lemma astype_simps [simp]:
  "nd_dtype (astype d a) = d" "nd_shape (astype d a) = nd_shape a"
  "nd_elems (astype d a) = map (np_cast d) (nd_elems a)"
  by (simp_all add: astype_def)

lemma map_np_cast_self: "list_all (in_dtype d) xs \<Longrightarrow> map (np_cast d) xs = xs"
  by (induction xs) auto

lemma vec_wf: "nd_wf (vec d xs)" if "list_all (in_dtype d) xs"
  using that by (simp add: nd_wf_def map_np_cast_self)

section \<open>Rows of a matrix built in C order\<close>

definition rows_of :: "nat \<Rightarrow> nat \<Rightarrow> (nat \<Rightarrow> nat \<Rightarrow> 'a) \<Rightarrow> 'a list" where
  "rows_of r c f = concat (map (\<lambda>i. map (f i) [0..<c]) [0..<r])"

lemma length_concat_const:
  "(\<And>x. x \<in> set xs \<Longrightarrow> length (f x) = c) \<Longrightarrow> length (concat (map f xs)) = length xs * c"
  by (induction xs) auto

lemma length_rows_of [simp]: "length (rows_of r c f) = r * c"
  unfolding rows_of_def by (subst length_concat_const [where c = c]) auto

lemma nth_concat_const:
  assumes "\<And>x. x \<in> set xs \<Longrightarrow> length (f x) = c" "i < length xs" "j < c"
  shows "concat (map f xs) ! (i * c + j) = f (xs ! i) ! j"
  using assms
proof (induction xs arbitrary: i)
  case (Cons x xs)
  show ?case
  proof (cases i)
    case 0
    with Cons.prems show ?thesis by (simp add: nth_append)
  next
    case (Suc k)
    with Cons.prems Cons.IH [of k] show ?thesis by (simp add: nth_append add.assoc)
  qed
qed simp

lemma nth_rows_of [simp]: "i < r \<Longrightarrow> j < c \<Longrightarrow> rows_of r c f ! (i * c + j) = f i j"
  unfolding rows_of_def by (subst nth_concat_const) auto

lemma index_split: "k < r * (c::nat) \<Longrightarrow> k div c < r \<and> k mod c < c \<and> k = (k div c) * c + k mod c"
  by (metis div_mod_decomp less_mult_imp_div_less mod_less_divisor mult_0_right not_gr_zero not_less_zero)

lemma rows_of_eqI:
  assumes "length xs = r * c" "\<And>i j. i < r \<Longrightarrow> j < c \<Longrightarrow> xs ! (i * c + j) = f i j"
  shows "xs = rows_of r c f"
proof (rule nth_equalityI)
  fix k assume "k < length xs"
  then have "k div c < r \<and> k mod c < c \<and> k = (k div c) * c + k mod c"
    using assms(1) index_split by simp
  then show "xs ! k = rows_of r c f ! k"
    using assms(2) [of "k div c" "k mod c"] nth_rows_of [of "k div c" r "k mod c" c f] by simp
qed (simp add: assms(1))

lemma rows_of_cong:
  "(\<And>i j. i < r \<Longrightarrow> j < c \<Longrightarrow> f i j = g i j) \<Longrightarrow> rows_of r c f = rows_of r c g"
  by (auto simp: rows_of_def intro!: arg_cong [where f = concat])

lemma map_rows_of: "map h (rows_of r c f) = rows_of r c (\<lambda>i j. h (f i j))"
  by (simp add: rows_of_def map_concat comp_def)

lemma list_all_rows_of:
  "list_all P (rows_of r c f) \<longleftrightarrow> (\<forall>i<r. \<forall>j<c. P (f i j))"
  by (auto simp: rows_of_def list_all_iff)

section \<open>Lanes of a word\<close>

lemma or_push_bit: "0 \<le> x \<Longrightarrow> x < 2 ^ n \<Longrightarrow> x OR push_bit n y = x + y * 2 ^ n" for x :: int
  using concat_bit_eq [of n x y] take_bit_int_eq_self [of x n]
  by (simp add: concat_bit_def push_bit_eq_mult)

lemma and_255: "v AND 255 = take_bit 8 v" for v :: int
  using take_bit_eq_mask [of 8 v] by (simp add: mask_eq_exp_minus_1)

lemma and_65535: "v AND 65535 = take_bit 16 v" for v :: int
  using take_bit_eq_mask [of 16 v] by (simp add: mask_eq_exp_minus_1)

lemma take_bit_less: "take_bit n v < 2 ^ n" "0 \<le> take_bit n v" for v :: int
  by (simp_all add: take_bit_int_less_exp)

section \<open>Views: bytes and little-endian words\<close>

fun bytes_word :: "int list \<Rightarrow> int" where
  "bytes_word [] = 0"
| "bytes_word (b # bs) = take_bit 8 b + 256 * bytes_word bs"

definition word_bytes :: "int \<Rightarrow> int list" where
  "word_bytes w = map (\<lambda>i. take_bit 8 (drop_bit (8 * i) w)) [0..<4]"

fun view_words :: "int list \<Rightarrow> int list" where
  "view_words (a # b # c # d # r) = bytes_word [a, b, c, d] # view_words r"
| "view_words _ = []"

definition view_bytes :: "int list \<Rightarrow> int list" where
  "view_bytes ws = concat (map word_bytes ws)"

lemma length_view_words: "length (view_words bs) = length bs div 4"
  by (induction bs rule: view_words.induct) auto

lemma length_view_bytes [simp]: "length (view_bytes ws) = 4 * length ws"
  unfolding view_bytes_def by (subst length_concat_const [where c = 4]) (auto simp: word_bytes_def)

lemma word_bytes_list: "word_bytes w =
    [take_bit 8 w, take_bit 8 (drop_bit 8 w), take_bit 8 (drop_bit 16 w), take_bit 8 (drop_bit 24 w)]"
  by (simp add: word_bytes_def upt_rec)

lemma bytes_word_bytes: "bytes_word (word_bytes w) = take_bit 32 w"
proof -
  have step: "take_bit (n + 8) w = take_bit n w + 2 ^ n * take_bit 8 (drop_bit n w)" for n
    by (simp add: take_bit_eq_mod drop_bit_eq_div power_add zmod_zmult2_eq)
  show ?thesis
    using step [of 8] step [of 16] step [of 24] by (simp add: word_bytes_list)
qed

lemma view_words_bytes: "view_words (view_bytes ws) = map (take_bit 32) ws"
proof (induction ws)
  case (Cons w ws)
  then show ?case
    using bytes_word_bytes [of w] by (simp add: view_bytes_def word_bytes_list)
qed (simp add: view_bytes_def)

lemma view_words_append:
  "length xs mod 4 = 0 \<Longrightarrow> view_words (xs @ ys) = view_words xs @ view_words ys"
proof (induction xs rule: view_words.induct)
  case (1 a b c d r)
  then show ?case by (simp add: mod_Suc split: if_splits)
qed (auto simp: mod_Suc split: if_splits)

end
