(* ===== verification/SfpuRef.thy ===== *)
theory SfpuRef
  imports Rounding Ndarray SfpuTables
begin

text \<open>
  The bit-exact integer operators of \<open>ref/sfpu_ref.py\<close>, one definition per function: input checks
  (\<open>checked_vector\<close>), GELU, LayerNorm, the LUT exponential and softmax, addition, affine,
  requantisation and the dynamic int8 scale. A function that raises is a sum (\<open>exn + 'a\<close>) with the
  source's exception; the high-precision float64 functions of that file (\<open>gelu_high\<close>,
  \<open>layernorm_high\<close>, \<open>softmax_high\<close>) are error-budget references and are not modelled.
\<close>

section \<open>Integer square root (\<open>math.isqrt\<close>)\<close>

function isqrt :: "int \<Rightarrow> int" where
  "isqrt n = (if n < 2 then n else
     let r = 2 * isqrt (n div 4) in if (r + 1) * (r + 1) \<le> n then r + 1 else r)"
  by pat_completeness auto
termination
  by (relation "measure nat") auto

declare isqrt.simps [simp del]

definition math_isqrt :: "int \<Rightarrow> int res" where
  "math_isqrt n = (if n < 0 then Inl ValueError else Inr (isqrt n))"

lemma isqrt_spec:
  "0 \<le> n \<Longrightarrow> 0 \<le> isqrt n \<and> isqrt n * isqrt n \<le> n \<and> n < (isqrt n + 1) * (isqrt n + 1)"
proof (induction n rule: isqrt.induct)
  case (1 n)
  show ?case
  proof (cases "n < 2")
    case True
    then have "isqrt n = n" by (subst isqrt.simps) simp
    moreover have "n = 0 \<or> n = 1" using True "1.prems" by auto
    ultimately show ?thesis by auto
  next
    case False
    define m where "m = n div 4"
    define s where "s = isqrt m"
    have IH: "0 \<le> s \<and> s * s \<le> m \<and> m < (s + 1) * (s + 1)"
      using "1.IH" False by (simp add: s_def m_def)
    have n: "4 * m \<le> n" "n < 4 * m + 4" by (simp_all add: m_def)
    have lo: "(2 * s) * (2 * s) \<le> n" using IH n by (simp add: algebra_simps)
    have hi: "n < (2 * s + 2) * (2 * s + 2)" using IH n by (simp add: algebra_simps)
    have eq: "isqrt n = (if (2 * s + 1) * (2 * s + 1) \<le> n then 2 * s + 1 else 2 * s)"
      using False by (subst isqrt.simps) (simp add: Let_def s_def m_def)
    have b: "0 \<le> isqrt n" "isqrt n * isqrt n \<le> n" using IH lo unfolding eq by auto
    have "n < (isqrt n + 1) * (isqrt n + 1)"
    proof (cases "(2 * s + 1) * (2 * s + 1) \<le> n")
      case True
      then have "isqrt n + 1 = 2 * s + 2" unfolding eq by simp
      then show ?thesis using hi by (simp only:)
    next
      case False
      then have "isqrt n + 1 = 2 * s + 1" unfolding eq by simp
      then show ?thesis using False by (simp only: not_le)
    qed
    with b show ?thesis by blast
  qed
qed

lemma isqrt_pos: "0 < n \<Longrightarrow> 0 < isqrt n"
  using isqrt_spec [of n] by (cases "isqrt n = 0") auto

section \<open>Input checks\<close>

definition ACT_SCALE :: int where "ACT_SCALE = 256"
definition PROB_SCALE :: int where "PROB_SCALE = 32768"
definition MAX_VECTOR :: nat where "MAX_VECTOR = 3072"
definition MAX_SOFTMAX :: nat where "MAX_SOFTMAX = 1024"

definition checked_vector :: "ndarray \<Rightarrow> nat \<Rightarrow> int \<Rightarrow> int \<Rightarrow> int list res" where
  "checked_vector array maximum lower upper =
     (if ndim array \<noteq> 1 \<or> \<not> (1 \<le> hd (nd_shape array) \<and> hd (nd_shape array) \<le> maximum)
      then Inl ValueError
      else if \<not> np_integer (nd_dtype array) then Inl TypeError
      else if list_ex (\<lambda>v. v < lower) (nd_elems array) \<or> list_ex (\<lambda>v. v > upper) (nd_elems array)
      then Inl ValueError
      else Inr (nd_elems array))"

abbreviation checked16 :: "ndarray \<Rightarrow> int list res" where
  "checked16 a \<equiv> checked_vector a MAX_VECTOR (-32768) 32767"

abbreviation checked31 :: "ndarray \<Rightarrow> int \<Rightarrow> int list res" where
  "checked31 a lower \<equiv> checked_vector a MAX_VECTOR lower (2 ^ 31 - 1)"

section \<open>GELU\<close>

definition gelu1 :: "int \<Rightarrow> int" where
  "gelu1 raw =
     (let magnitude = \<bar>raw\<bar>;
          positive = (if magnitude \<le> 2048 then gelu_table ! nat magnitude else magnitude)
      in if 0 \<le> raw then positive else positive - magnitude)"

definition gelu_int :: "ndarray \<Rightarrow> ndarray res" where
  "gelu_int values = rbind (checked16 values) (\<lambda>x. Inr (vec Int16 (map gelu1 x)))"

section \<open>LayerNorm\<close>

definition ln_variance :: "int list \<Rightarrow> int" where
  "ln_variance x = int (length x) * (\<Sum>v\<leftarrow>x. v * v) - sum_list x * sum_list x"

definition ln_radicand :: "int list \<Rightarrow> int res" where
  "ln_radicand x = rbind (rne_div (int (length x) * int (length x) * 2 ^ 40) 100000)
     (\<lambda>epsilon_term. Inr (push_bit 24 (ln_variance x) + epsilon_term))"

definition ln_out :: "int list \<Rightarrow> int \<Rightarrow> int \<Rightarrow> int \<Rightarrow> int \<Rightarrow> int res" where
  "ln_out x denominator raw scale offset =
     rbind (rne_div ((int (length x) * raw - sum_list x) * scale * ACT_SCALE) denominator)
       (\<lambda>q. Inr (sat16 (q + offset)))"

definition layernorm_int :: "ndarray \<Rightarrow> ndarray \<Rightarrow> ndarray \<Rightarrow> ndarray res" where
  "layernorm_int values gain bias =
     rbind (checked16 values) (\<lambda>x.
     rbind (checked16 gain) (\<lambda>g.
     rbind (checked16 bias) (\<lambda>b.
       if length x \<noteq> length g \<or> length x \<noteq> length b then Inl ValueError
       else
         rbind (ln_radicand x) (\<lambda>radicand.
         rbind (math_isqrt radicand) (\<lambda>denominator.
           if denominator \<le> 0 then Inl AssertionError
           else rbind (rmap (\<lambda>(raw, scale, offset). ln_out x denominator raw scale offset)
                        (zip x (zip g b)))
                  (\<lambda>result. Inr (vec Int16 result)))))))"

section \<open>Softmax\<close>

definition exp_negative_int :: "int \<Rightarrow> int res" where
  "exp_negative_int difference =
     (if difference < 0 then Inl ValueError
      else if 4096 \<le> difference then Inr 0
      else let index = nat (difference div 16); fraction = difference mod 16
           in rne_div (exp_table ! index * (16 - fraction) + exp_table ! (index + 1) * fraction) 16)"

fun py_max :: "int list \<Rightarrow> int" where
  "py_max [] = 0"
| "py_max (x # xs) = fold max xs x"

text \<open>The mass correction: +1 to the first \<open>remainder\<close> entries of nonzero weight.\<close>

fun correct_mass :: "int list \<Rightarrow> int list \<Rightarrow> int \<Rightarrow> int list \<times> int" where
  "correct_mass (w # ws) (q # qs) r =
     (if w \<noteq> 0 \<and> r \<noteq> 0
      then (case correct_mass ws qs (r - 1) of (out, left) \<Rightarrow> ((q + 1) # out, left))
      else (case correct_mass ws qs r of (out, left) \<Rightarrow> (q # out, left)))"
| "correct_mass _ qs r = (qs, r)"

definition normalize_weights :: "int list \<Rightarrow> int list res" where
  "normalize_weights weights =
     (let total = sum_list weights
      in if total = 0 then Inl ZeroDivisionError
         else let quantized = map (\<lambda>weight. weight * PROB_SCALE div total) weights;
                  remainder = PROB_SCALE - sum_list quantized;
                  (out, left) = correct_mass weights quantized remainder
              in if left \<noteq> 0 then Inl AssertionError else Inr out)"

definition softmax_int :: "ndarray \<Rightarrow> ndarray \<Rightarrow> ndarray res" where
  "softmax_int values valid =
     rbind (checked_vector values MAX_SOFTMAX (-32768) 32767) (\<lambda>x.
       if nd_dtype valid \<noteq> Bool \<or> nd_shape valid \<noteq> [length x] then Inl ValueError
       else let mask = map (\<lambda>v. v \<noteq> 0) (nd_elems valid)
            in if True \<notin> set mask then Inr (vec UInt16 (replicate (length x) 0))
               else let maximum = py_max (map fst (filter snd (zip x mask)))
                    in rbind (rmap (\<lambda>(raw, keep). if keep then exp_negative_int (maximum - raw)
                                                  else Inr 0) (zip x mask)) (\<lambda>weights.
                       rbind (normalize_weights weights) (\<lambda>quantized.
                         Inr (vec UInt16 quantized))))"

section \<open>Addition, affine, requantisation\<close>

definition add_int :: "ndarray \<Rightarrow> ndarray \<Rightarrow> ndarray res" where
  "add_int values other =
     rbind (checked16 values) (\<lambda>x.
     rbind (checked16 other) (\<lambda>y.
       if length x \<noteq> length y then Inl ValueError
       else Inr (vec Int16 (map2 (\<lambda>a b. sat16 (a + b)) x y))))"

definition affine_int :: "ndarray \<Rightarrow> ndarray \<Rightarrow> ndarray \<Rightarrow> int \<Rightarrow> ndarray res" where
  "affine_int values multipliers biases shift =
     rbind (checked31 values (-(2 ^ 31))) (\<lambda>x.
     rbind (checked31 multipliers 0) (\<lambda>scales.
     rbind (checked31 biases (-(2 ^ 31))) (\<lambda>b.
       if \<not> (0 \<le> shift \<and> shift \<le> 31) \<or> length x \<noteq> length scales \<or> length x \<noteq> length b
       then Inl ValueError
       else rbind (rmap (\<lambda>(raw, scale, bias).
                           rbind (rne_div (raw * scale) (push_bit (nat shift) 1))
                             (\<lambda>q. Inr (sat16 (q + bias)))) (zip x (zip scales b)))
              (\<lambda>result. Inr (vec Int16 result)))))"

definition requantize_int8 :: "ndarray \<Rightarrow> int \<Rightarrow> int \<Rightarrow> ndarray res" where
  "requantize_int8 values multiplier shift =
     rbind (checked31 values (-(2 ^ 31))) (\<lambda>x.
       if \<not> (0 \<le> multiplier \<and> multiplier < push_bit 31 1) \<or> \<not> (0 \<le> shift \<and> shift \<le> 31)
       then Inl ValueError
       else rbind (rmap (\<lambda>raw. rbind (rne_div (raw * multiplier) (push_bit (nat shift) 1))
                           (\<lambda>q. Inr (max (-128) (min 127 q)))) x)
              (\<lambda>result. Inr (vec Int8 result)))"

definition dynamic_int8_parameters :: "ndarray \<Rightarrow> (int \<times> int) res" where
  "dynamic_int8_parameters values =
     rbind (checked_vector values MAX_VECTOR (-32768) 32768) (\<lambda>x.
       let maximum = py_max (map abs x)
       in if maximum \<noteq> 0 then rbind (rne_div (push_bit 24 127) maximum) (\<lambda>m. Inr (m, 24))
          else Inr (0, 24))"

end
