(* ===== verification/SfpuLaws.thy ===== *)
theory SfpuLaws
  imports SfpuRef
begin

text \<open>
  What the operators of \<open>ref/sfpu_ref.py\<close> promise: outputs inside their storage type (so the final
  NumPy cast never wraps), no assertion failure on accepted inputs, the oddness identity of GELU,
  the translation invariance and radicand width of LayerNorm, the exact mass and one-unit accuracy
  of softmax, and the int8 range of the dynamic requantisation.
\<close>

section \<open>Checked inputs\<close>

lemma checked_vector_Inr:
  assumes "checked_vector a m lo hi = Inr x"
  shows "x = nd_elems a" "v \<in> set x \<Longrightarrow> lo \<le> v \<and> v \<le> hi" "1 \<le> hd (nd_shape a)" "hd (nd_shape a) \<le> m"
  using assms by (auto simp: checked_vector_def list_ex_iff split: if_splits)

lemma checked_vector_length:
  assumes "checked_vector a m lo hi = Inr x" "nd_wf a"
  shows "1 \<le> length x" "length x \<le> m"
proof -
  have "nd_shape a = [hd (nd_shape a)]"
    using assms(1) by (cases "nd_shape a") (auto simp: checked_vector_def split: if_splits)
  then have "length (nd_elems a) = hd (nd_shape a)"
    using assms(2) by (metis nd_wf_def prod_list.Cons prod_list.Nil mult.right_neutral)
  then show "1 \<le> length x" "length x \<le> m"
    using checked_vector_Inr [OF assms(1)] by simp_all
qed

lemma checked_vector_ok:
  assumes "1 \<le> length xs" "length xs \<le> m" "np_integer d" "\<forall>v\<in>set xs. lo \<le> v \<and> v \<le> hi"
    and "list_all (in_dtype d) xs"
  shows "checked_vector (vec d xs) m lo hi = Inr xs"
  using assms by (auto simp: checked_vector_def list_ex_iff map_np_cast_self)

lemma py_max_ge: "x \<in> set xs \<Longrightarrow> x \<le> py_max xs"
proof -
  have *: "y \<le> fold max ys a" if "y = a \<or> y \<in> set ys" for y a and ys :: "int list"
    using that
  proof (induction ys arbitrary: a y)
    case (Cons z zs)
    have "max z a \<le> fold max zs (max z a)" by (rule Cons.IH) simp
    with Cons show ?case by (cases "y = a \<or> y = z") auto
  qed simp
  show "x \<in> set xs \<Longrightarrow> x \<le> py_max xs" using * by (cases xs) auto
qed

lemma py_max_in: "xs \<noteq> [] \<Longrightarrow> py_max xs \<in> set xs"
proof -
  have *: "fold max ys a = a \<or> fold max ys a \<in> set ys" for a and ys :: "int list"
    by (induction ys arbitrary: a) (auto simp: max_def)
  show "xs \<noteq> [] \<Longrightarrow> py_max xs \<in> set xs" using * by (cases xs) auto
qed

section \<open>GELU\<close>

lemma gelu1_bounds:
  shows "0 \<le> r \<Longrightarrow> 0 \<le> gelu1 r \<and> gelu1 r \<le> r" "r \<le> 0 \<Longrightarrow> r \<le> gelu1 r \<and> gelu1 r \<le> 0"
proof -
  have t: "0 \<le> gelu_table ! nat m \<and> gelu_table ! nat m \<le> m" if "0 \<le> m" "m \<le> 2048" for m
    using gelu_table_bound [of "nat m"] that by simp
  show "0 \<le> r \<Longrightarrow> 0 \<le> gelu1 r \<and> gelu1 r \<le> r"
    using t [of r] by (simp add: gelu1_def Let_def)
  show "r \<le> 0 \<Longrightarrow> r \<le> gelu1 r \<and> gelu1 r \<le> 0"
    using t [of "- r"] t [of 0] by (cases "r = 0") (auto simp: gelu1_def Let_def)
qed

lemma gelu1_odd: "gelu1 r - gelu1 (- r) = r"
  using gelu1_bounds(1) [of 0] by (cases "r = 0") (auto simp: gelu1_def Let_def)

lemma gelu1_tails: "2048 \<le> r \<Longrightarrow> gelu1 r = r" "r \<le> -2048 \<Longrightarrow> gelu1 r = 0"
  using gelu_table_last by (cases "\<bar>r\<bar> = 2048"; auto simp: gelu1_def Let_def)+

lemma gelu1_mono:
  assumes "0 \<le> r" "r \<le> s"
  shows "gelu1 r \<le> gelu1 s"
proof (cases "s \<le> 2048")
  case True
  then show ?thesis using assms gelu_table_mono [of "nat r" "nat s"] by (simp add: gelu1_def Let_def)
next
  case False
  then show ?thesis using gelu1_bounds(1) [of r] gelu1_tails(1) [of s] assms by simp
qed

lemma gelu_int_eq:
  assumes "checked16 a = Inr x"
  shows "gelu_int a = Inr (vec Int16 (map gelu1 x))" "list_all (in_dtype Int16) (map gelu1 x)"
proof -
  show "gelu_int a = Inr (vec Int16 (map gelu1 x))" using assms by (simp add: gelu_int_def)
  have "in_dtype Int16 (gelu1 v)" if "v \<in> set x" for v
    using checked_vector_Inr(2) [OF assms that] gelu1_bounds [of v] by (cases "0 \<le> v") auto
  then show "list_all (in_dtype Int16) (map gelu1 x)" by (simp add: list_all_iff)
qed

section \<open>LayerNorm\<close>

text \<open>Cauchy-Schwarz: the variance numerator is never negative.\<close>

lemma sum_sq_shift:
  fixes c :: int
  shows "(\<Sum>v\<leftarrow>x. (c - v) * (c - v)) = int (length x) * (c * c) - 2 * c * sum_list x + (\<Sum>v\<leftarrow>x. v * v)"
  by (induction x) (auto simp: algebra_simps)

lemma ln_variance_Cons:
  "ln_variance (a # x) = ln_variance x + (\<Sum>v\<leftarrow>x. (a - v) * (a - v))"
  unfolding sum_sq_shift by (simp add: ln_variance_def algebra_simps)

lemma ln_variance_nonneg: "0 \<le> ln_variance x"
proof (induction x)
  case (Cons a x)
  have "0 \<le> (\<Sum>v\<leftarrow>x. (a - v) * (a - v))" by (rule sum_list_nonneg) auto
  with Cons show ?case by (simp add: ln_variance_Cons)
qed (simp add: ln_variance_def)

lemma ln_variance_shift: "ln_variance (map (\<lambda>v. v + c) x) = ln_variance x"
proof (induction x)
  case (Cons a x)
  have "(\<Sum>v\<leftarrow>map (\<lambda>v. v + c) x. (a + c - v) * (a + c - v)) = (\<Sum>v\<leftarrow>x. (a - v) * (a - v))"
    by (simp add: comp_def)
  then show ?case using Cons ln_variance_Cons [of "a + c" "map (\<lambda>v. v + c) x"] by (simp add: ln_variance_Cons)
qed (simp add: ln_variance_def)

lemma ln_variance_bound:
  assumes "\<forall>v\<in>set x. \<bar>v\<bar> \<le> 32768"
  shows "ln_variance x \<le> (int (length x) * 32768) * (int (length x) * 32768)"
proof -
  have "(\<Sum>v\<leftarrow>x. v * v) \<le> (\<Sum>v\<leftarrow>x. 32768 * 32768)"
  proof (rule sum_list_mono)
    fix v assume "v \<in> set x"
    then have "\<bar>v\<bar> * \<bar>v\<bar> \<le> 32768 * 32768" using assms by (intro mult_mono) auto
    then show "v * v \<le> 32768 * 32768" by simp
  qed
  also have "\<dots> = int (length x) * (32768 * 32768)" by (simp add: sum_list_triv)
  finally have "int (length x) * (\<Sum>v\<leftarrow>x. v * v) \<le> int (length x) * (int (length x) * (32768 * 32768))"
    by (intro mult_left_mono) auto
  moreover have "0 \<le> sum_list x * sum_list x" by simp
  ultimately have "ln_variance x \<le> int (length x) * (int (length x) * (32768 * 32768))"
    unfolding ln_variance_def by linarith
  then show ?thesis by (simp add: algebra_simps)
qed

lemma ln_radicand_eq:
  "ln_radicand x = Inr (ln_variance x * 2 ^ 24 + rne_val (int (length x) * int (length x) * 2 ^ 40) 100000)"
  by (simp add: ln_radicand_def push_bit_eq_mult)

lemma ln_epsilon_pos:
  assumes "x \<noteq> []"
  shows "0 < rne_val (int (length x) * int (length x) * 2 ^ 40) 100000"
proof -
  have "1 * 1 \<le> int (length x) * int (length x)" using assms by (intro mult_mono) (auto simp: Suc_leI)
  then have "rne_val (2 ^ 40) 100000 \<le> rne_val (int (length x) * int (length x) * 2 ^ 40) 100000"
    by (intro rne.mono) auto
  moreover have "0 < rne_val (2 ^ 40) 100000" by (simp add: rne_val_def rne_up_def Let_def)
  ultimately show ?thesis by simp
qed

lemma ln_radicand_bounds:
  assumes "x \<noteq> []" "length x \<le> 3072" "\<forall>v\<in>set x. \<bar>v\<bar> \<le> 32768" "ln_radicand x = Inr r"
  shows "0 < r" "r < 2 ^ 80"
proof -
  define L where "L = int (length x)"
  define e where "e = rne_val (L * L * 2 ^ 40) 100000"
  have L: "1 \<le> L" "L \<le> 3072" using assms(1,2) by (auto simp: L_def Suc_leI)
  have LL: "L * L \<le> 3072 * 3072" using L by (intro mult_mono) auto
  have r: "r = ln_variance x * 2 ^ 24 + e" using assms(4) by (simp add: ln_radicand_eq e_def L_def)
  have "0 < e" using ln_epsilon_pos [OF assms(1)] by (simp add: e_def L_def)
  then show "0 < r" using ln_variance_nonneg [of x] by (simp add: r)
  have "\<bar>L * L * 2 ^ 40\<bar> \<le> 2 ^ 47 * 100000" using LL L by simp
  then have "e \<le> 2 ^ 47" using rne.abs_bound [of 100000 "L * L * 2 ^ 40" "2 ^ 47"] by (simp add: e_def)
  moreover have "ln_variance x \<le> (L * L) * (32768 * 32768)"
    using ln_variance_bound [OF assms(3)] by (simp add: L_def algebra_simps)
  then have "ln_variance x \<le> 3072 * 3072 * (32768 * 32768)" using LL by linarith
  ultimately show "r < 2 ^ 80" by (simp add: r)
qed

lemma layernorm_int_eq:
  assumes "checked16 a = Inr x" "checked16 g = Inr gs" "checked16 b = Inr bs"
    and "length gs = length x" "length bs = length x" "x \<noteq> []"
  obtains d where "0 < d"
    "d = isqrt (ln_variance x * 2 ^ 24 + rne_val (int (length x) * int (length x) * 2 ^ 40) 100000)"
    "layernorm_int a g b = Inr (vec Int16 (map (\<lambda>(raw, scale, offset).
       sat16 (rne_val ((int (length x) * raw - sum_list x) * scale * 256) d + offset)) (zip x (zip gs bs))))"
proof -
  define r where "r = ln_variance x * 2 ^ 24 + rne_val (int (length x) * int (length x) * 2 ^ 40) 100000"
  define d where "d = isqrt r"
  have r: "0 < r" using ln_variance_nonneg [of x] ln_epsilon_pos [OF assms(6)] by (simp add: r_def add_nonneg_pos)
  have d: "0 < d" using isqrt_pos [OF r] by (simp add: d_def)
  have rr: "ln_radicand x = Inr r" unfolding ln_radicand_eq r_def ..
  have ms: "math_isqrt r = Inr d" using r by (simp add: math_isqrt_def d_def)
  have "rmap (\<lambda>(raw, scale, offset). ln_out x d raw scale offset) (zip x (zip gs bs)) =
      Inr (map (\<lambda>(raw, scale, offset).
        sat16 (rne_val ((int (length x) * raw - sum_list x) * scale * 256) d + offset)) (zip x (zip gs bs)))"
    by (rule rmap_total) (auto simp: ln_out_def ACT_SCALE_def d)
  then have "layernorm_int a g b = Inr (vec Int16 (map (\<lambda>(raw, scale, offset).
        sat16 (rne_val ((int (length x) * raw - sum_list x) * scale * 256) d + offset)) (zip x (zip gs bs))))"
    using assms d rr ms by (simp add: layernorm_int_def)
  then show ?thesis using that [of d] d by (simp add: d_def r_def)
qed

section \<open>The exponential weight\<close>

definition exp_weight :: "int \<Rightarrow> int" where
  "exp_weight d = (if 4096 \<le> d then 0 else
     rne_val (exp_table ! nat (d div 16) * (16 - d mod 16) + exp_table ! (nat (d div 16) + 1) * (d mod 16)) 16)"

lemma exp_negative_int_eq: "0 \<le> d \<Longrightarrow> exp_negative_int d = Inr (exp_weight d)"
  by (simp add: exp_negative_int_def exp_weight_def Let_def)

lemma exp_weight_0: "exp_weight 0 = 2 ^ 24"
  using exp_table_0 by (simp add: exp_weight_def rne.exact)

lemma exp_interp:
  assumes "0 \<le> d" "d < 4096"
  shows "0 \<le> exp_table ! nat (d div 16) * (16 - d mod 16) + exp_table ! (nat (d div 16) + 1) * (d mod 16)"
    "16 * exp_table ! (nat (d div 16) + 1)
      \<le> exp_table ! nat (d div 16) * (16 - d mod 16) + exp_table ! (nat (d div 16) + 1) * (d mod 16)"
proof -
  define i where "i = nat (d div 16)"
  have i: "i < 256" using assms by (simp add: i_def)
  have t: "0 \<le> exp_table ! (i + 1)" "exp_table ! (i + 1) \<le> exp_table ! i"
    using exp_table_antimono [of i "i + 1"] i by auto
  have m: "0 \<le> d mod 16" "d mod 16 < 16" by simp_all
  have "exp_table ! (i + 1) * (16 - d mod 16) \<le> exp_table ! i * (16 - d mod 16)"
    using t m by (intro mult_right_mono) auto
  then have "16 * exp_table ! (i + 1) \<le> exp_table ! i * (16 - d mod 16) + exp_table ! (i + 1) * (d mod 16)"
    by (simp add: algebra_simps)
  then show "16 * exp_table ! (nat (d div 16) + 1)
      \<le> exp_table ! nat (d div 16) * (16 - d mod 16) + exp_table ! (nat (d div 16) + 1) * (d mod 16)"
    by (simp add: i_def)
  then show "0 \<le> exp_table ! nat (d div 16) * (16 - d mod 16) + exp_table ! (nat (d div 16) + 1) * (d mod 16)"
    using t(1) by (simp add: i_def)
qed

lemma exp_weight_nonneg: "0 \<le> d \<Longrightarrow> 0 \<le> exp_weight d"
  using exp_interp(1) [of d] by (simp add: exp_weight_def rne_val_nonneg)

lemma mod16_step: "(d + 1) mod 16 = (if d mod 16 = (15::int) then 0 else d mod 16 + 1)"
  by (smt (verit) mod_add_left_eq mod_pos_pos_trivial pos_mod_bound pos_mod_sign mod_self)

lemma div16_step: "(d + 1) div 16 = (if d mod 16 = (15::int) then d div 16 + 1 else d div 16)"
  using mod16_step [of d] div_mult_mod_eq [of d 16] div_mult_mod_eq [of "d + 1" 16]
  by (auto split: if_splits)

lemma exp_weight_step:
  assumes "0 \<le> d"
  shows "exp_weight (d + 1) \<le> exp_weight d"
proof (cases "4096 \<le> d + 1")
  case True
  then show ?thesis using exp_weight_nonneg [OF assms] by (simp add: exp_weight_def)
next
  case False
  define i where "i = nat (d div 16)"
  have d: "d < 4096" using False by simp
  have m: "0 \<le> d mod 16" "d mod 16 < 16" by simp_all
  have le: "exp_table ! nat ((d + 1) div 16) * (16 - (d + 1) mod 16) + exp_table ! (nat ((d + 1) div 16) + 1) * ((d + 1) mod 16)
      \<le> exp_table ! nat (d div 16) * (16 - d mod 16) + exp_table ! (nat (d div 16) + 1) * (d mod 16)"
  proof (cases "d mod 16 = 15")
    case True
    then have "(d + 1) mod 16 = 0" "(d + 1) div 16 = d div 16 + 1" by (simp_all add: mod16_step div16_step)
    moreover have "nat (d div 16 + 1) = nat (d div 16) + 1"
      using assms by (simp add: pos_imp_zdiv_nonneg_iff nat_add_distrib)
    ultimately show ?thesis using exp_interp(2) [OF assms d] by simp
  next
    case no: False
    then have e: "(d + 1) mod 16 = d mod 16 + 1" "(d + 1) div 16 = d div 16" by (simp_all add: mod16_step div16_step)
    have "i + 1 < 257" using assms d by (simp add: i_def)
    then have "exp_table ! (i + 1) \<le> exp_table ! i" by (intro exp_table_antimono) auto
    then show ?thesis unfolding e by (simp add: i_def algebra_simps)
  qed
  have "exp_weight (d + 1) = rne_val (exp_table ! nat ((d + 1) div 16) * (16 - (d + 1) mod 16)
      + exp_table ! (nat ((d + 1) div 16) + 1) * ((d + 1) mod 16)) 16"
    using False unfolding exp_weight_def by (simp only: if_False)
  also have "\<dots> \<le> rne_val (exp_table ! nat (d div 16) * (16 - d mod 16)
      + exp_table ! (nat (d div 16) + 1) * (d mod 16)) 16"
    using le by (intro rne.mono) simp_all
  also have "\<dots> = exp_weight d" using d unfolding exp_weight_def by simp
  finally show ?thesis .
qed

lemma exp_weight_antimono: "0 \<le> d \<Longrightarrow> exp_weight (d + int n) \<le> exp_weight d"
proof (induction n)
  case (Suc n)
  have "exp_weight (d + int n + 1) \<le> exp_weight (d + int n)"
    using Suc.prems by (intro exp_weight_step) auto
  moreover have "exp_weight (d + int n) \<le> exp_weight d" using Suc by blast
  moreover have "d + int (Suc n) = d + int n + 1" by simp
  ultimately show ?case by (metis order_trans)
qed simp

lemma exp_weight_mono: "0 \<le> d \<Longrightarrow> d \<le> e \<Longrightarrow> exp_weight e \<le> exp_weight d"
  using exp_weight_antimono [of d "nat (e - d)"] by simp

section \<open>Normalising weights\<close>

text \<open>One unit more for an entry of nonzero weight with fewer than \<open>r\<close> such entries before it.\<close>

definition extra :: "int list \<Rightarrow> int \<Rightarrow> nat \<Rightarrow> int" where
  "extra ws r i = (if ws ! i \<noteq> 0 \<and> int (length (filter (\<lambda>w. w \<noteq> 0) (take i ws))) < r then 1 else 0)"

lemma extra_Cons:
  "extra (w # ws) r (Suc i) = extra ws (if w \<noteq> 0 then r - 1 else r) i" "0 \<le> r \<Longrightarrow> extra (w # ws) r 0 = (if w \<noteq> 0 \<and> r \<noteq> 0 then 1 else 0)"
  by (auto simp: extra_def)

lemma extra_none: "extra ws 0 i = 0" "extra ws (- 1) i = 0"
  by (simp_all add: extra_def)

lemma correct_mass_spec:
  assumes "length ws = length qs" "0 \<le> r" "r \<le> int (length (filter (\<lambda>w. w \<noteq> 0) ws))"
  shows "\<exists>out. correct_mass ws qs r = (out, 0) \<and> sum_list out = sum_list qs + r
    \<and> length out = length qs \<and> (\<forall>i<length qs. out ! i = qs ! i + extra ws r i)"
  using assms
proof (induction ws qs arbitrary: r rule: list_induct2)
  case (Cons w ws q qs)
  show ?case
  proof (cases "w \<noteq> 0 \<and> r \<noteq> 0")
    case True
    with Cons.prems Cons.IH [of "r - 1"] obtain out where
      "correct_mass ws qs (r - 1) = (out, 0)" "sum_list out = sum_list qs + r - 1" "length out = length qs"
      "\<forall>i<length qs. out ! i = qs ! i + extra ws (r - 1) i" by auto
    with True Cons.prems show ?thesis by (auto simp: nth_Cons extra_Cons split: nat.splits)
  next
    case False
    with Cons.prems Cons.IH [of r] obtain out where
      "correct_mass ws qs r = (out, 0)" "sum_list out = sum_list qs + r" "length out = length qs"
      "\<forall>i<length qs. out ! i = qs ! i + extra ws r i"
      by (cases "w = 0") auto
    with False Cons.prems show ?thesis by (auto simp: nth_Cons extra_Cons extra_none split: nat.splits)
  qed
qed auto

lemma sum_mod_bound:
  fixes T :: int
  assumes "0 < T"
  shows "0 \<le> (\<Sum>w\<leftarrow>ws. w * c mod T)"
    "(\<Sum>w\<leftarrow>ws. w * c mod T) \<le> int (length (filter (\<lambda>w. w \<noteq> 0) ws)) * T"
proof -
  show "0 \<le> (\<Sum>w\<leftarrow>ws. w * c mod T)" using assms by (intro sum_list_nonneg) auto
  show "(\<Sum>w\<leftarrow>ws. w * c mod T) \<le> int (length (filter (\<lambda>w. w \<noteq> 0) ws)) * T"
  proof (induction ws)
    case (Cons w ws)
    then show ?case using pos_mod_bound [OF assms, of "w * c"] by (simp add: algebra_simps)
  qed simp
qed

lemma floor_share_sum:
  fixes T :: int
  shows "(\<Sum>w\<leftarrow>ws. w * c div T) * T + (\<Sum>w\<leftarrow>ws. w * c mod T) = sum_list ws * c"
  by (induction ws) (simp_all add: algebra_simps)

lemma normalize_weights_spec:
  assumes "\<forall>w\<in>set ws. 0 \<le> w" "0 < sum_list ws"
  obtains out where "normalize_weights ws = Inr out" "length out = length ws" "sum_list out = 32768"
    "\<And>i. i < length ws \<Longrightarrow> ws ! i = 0 \<Longrightarrow> out ! i = 0"
    "\<And>i. i < length ws \<Longrightarrow> \<bar>out ! i * sum_list ws - ws ! i * 32768\<bar> \<le> sum_list ws"
    "\<And>i. i < length ws \<Longrightarrow> 0 \<le> out ! i"
    "\<And>i. i < length ws \<Longrightarrow> out ! i = ws ! i * 32768 div sum_list ws
       + extra ws (32768 - (\<Sum>w\<leftarrow>ws. w * 32768 div sum_list ws)) i"
proof -
  define T where "T = sum_list ws"
  define qs where "qs = map (\<lambda>w. w * 32768 div T) ws"
  define r where "r = 32768 - sum_list qs"
  have T: "0 < T" using assms(2) by (simp add: T_def)
  have rT: "r * T = (\<Sum>w\<leftarrow>ws. w * 32768 mod T)"
    using floor_share_sum [of 32768 T ws] by (simp add: r_def qs_def T_def algebra_simps)
  then have "0 \<le> r * T" "r * T \<le> int (length (filter (\<lambda>w. w \<noteq> 0) ws)) * T"
    using sum_mod_bound [OF T] by auto
  then have r: "0 \<le> r" "r \<le> int (length (filter (\<lambda>w. w \<noteq> 0) ws))"
    using T by (auto simp: zero_le_mult_iff)
  obtain out where out: "correct_mass ws qs r = (out, 0)" "sum_list out = sum_list qs + r"
    "length out = length qs" and
    ex: "\<And>i. i < length ws \<Longrightarrow> out ! i = qs ! i + extra ws r i"
    using correct_mass_spec [of ws qs r] r by (auto simp: qs_def)
  have el: "out ! i = qs ! i \<or> (ws ! i \<noteq> 0 \<and> out ! i = qs ! i + 1)" if "i < length ws" for i
    using ex [OF that] by (simp add: extra_def split: if_splits)
  have q: "qs ! i * T = ws ! i * 32768 - ws ! i * 32768 mod T" "0 \<le> qs ! i" if "i < length ws" for i
    using that T assms(1) by (auto simp: qs_def minus_mod_eq_div_mult [symmetric] pos_imp_zdiv_nonneg_iff)
  show ?thesis
  proof (rule that)
    show "normalize_weights ws = Inr out"
      using T out(1) by (simp add: normalize_weights_def PROB_SCALE_def Let_def r_def qs_def T_def)
    show "length out = length ws" "sum_list out = 32768" using out by (simp_all add: qs_def r_def)
    fix i assume i: "i < length ws"
    show "out ! i = 0" if "ws ! i = 0" using el [OF i] that i by (simp add: qs_def)
    show "0 \<le> out ! i" using el [OF i] q(2) [OF i] by auto
    show "out ! i = ws ! i * 32768 div sum_list ws + extra ws (32768 - (\<Sum>w\<leftarrow>ws. w * 32768 div sum_list ws)) i"
      using ex [OF i] i by (simp add: qs_def r_def T_def)
    show "\<bar>out ! i * sum_list ws - ws ! i * 32768\<bar> \<le> sum_list ws"
      using el [OF i] q(1) [OF i] pos_mod_sign [OF T, of "ws ! i * 32768"] pos_mod_bound [OF T, of "ws ! i * 32768"]
      by (auto simp: algebra_simps simp flip: T_def)
  qed
qed

end
