(* ===== verification/SfpuProps.thy ===== *)
theory SfpuProps
  imports SfpuLaws
begin

text \<open>
  The properties of the integer operators, each with a witness on a concrete input.
\<close>

section \<open>Rounding\<close>

text \<open>\<open>rne_div\<close> returns the quotient rounded half to even, and nothing else: an integer is
  the result exactly when it is within half of the denominator and even on a tie.\<close>

theorem rne_div_half_even:
  assumes "0 < d"
  shows "rne_div n d = Inr q \<longleftrightarrow> 2 * \<bar>q * d - n\<bar> \<le> d \<and> (2 * \<bar>q * d - n\<bar> = d \<longrightarrow> even q)"
  using rne.near [OF assms, of n] rne.tie [OF assms, of n] rne.unique [where n = n and k = d and q = q] assms by auto

theorem rne_div_half_even_witness:
  "rne_div (-7) 2 = Inr (-4) \<and> rne_div 5 2 = Inr 2"
  using rne_div_half_even [of 2 "-7" "-4"] rne_div_half_even [of 2 5 2] by simp_all

text \<open>The vectorised shift of the quantised reference and the divmod form of the board
  runtime compute the same rounded products, on every int64 product that does not overflow.\<close>

theorem rounding_implementations_agree:
  assumes "s \<le> 31" "\<forall>(v, m)\<in>set (zip xs ms). \<bar>v * m\<bar> < 2 ^ 63"
  shows "rne_shift (map2 (*) xs ms) (int s) = Inr (rounded_product xs ms s)"
proof -
  have "\<not> list_ex (\<lambda>v. v = - (2 ^ 63)) (map2 (*) xs ms)"
    using assms(2) by (fastforce simp: list_ex_iff)
  moreover have "map (\<lambda>v. rne_shift1 v s) (map2 (*) xs ms) = rounded_product xs ms s"
    using assms(2) by (auto simp: rounded_product_def rne_shift1_eq rounded_product1_eq split: prod.splits)
  ultimately show ?thesis using assms(1) by (simp add: rne_shift_def)
qed

theorem rounding_implementations_agree_witness:
  "rne_shift [15, -15] 1 = Inr (rounded_product [5, -5] [3, 3] 1)"
  using rounding_implementations_agree [of 1 "[5, -5]" "[3, 3]"] by simp

section \<open>GELU\<close>

text \<open>GELU on an accepted vector never raises and never wraps in int16; it lies between 0 and
  its input, is the identity from 8.0 up and zero from -8.0 down, and the two halves satisfy
  gelu(x) - gelu(-x) = x.\<close>

theorem gelu_contract:
  assumes "checked16 a = Inr x"
  shows "gelu_int a = Inr (vec Int16 (map gelu1 x)) \<and> nd_elems (vec Int16 (map gelu1 x)) = map gelu1 x
    \<and> (\<forall>r. gelu1 r - gelu1 (- r) = r \<and> min 0 r \<le> gelu1 r \<and> gelu1 r \<le> max 0 r)
    \<and> (\<forall>t. gelu1 (2048 + \<bar>t\<bar>) = 2048 + \<bar>t\<bar> \<and> gelu1 (- 2048 - \<bar>t\<bar>) = 0)"
proof -
  have "min 0 r \<le> gelu1 r \<and> gelu1 r \<le> max 0 r" for r
    using gelu1_bounds [of r] by (cases "0 \<le> r") auto
  moreover have "nd_elems (vec Int16 (map gelu1 x)) = map gelu1 x"
    by (simp only: vec_simps map_np_cast_self [OF gelu_int_eq(2) [OF assms]])
  ultimately show ?thesis
    using gelu_int_eq(1) [OF assms] gelu1_odd gelu1_tails by simp
qed

theorem gelu_contract_witness:
  "gelu_int (vec Int16 [5000, -5000, 0]) = Inr (vec Int16 [5000, 0, 0])"
proof -
  have "checked16 (vec Int16 [5000, -5000, 0]) = Inr [5000, -5000, 0]" by code_simp
  from gelu_contract [OF this] show ?thesis
    using gelu1_tails(1) [of 5000] gelu1_tails(2) [of "-5000"] gelu1_bounds(1) [of 0] by simp
qed

section \<open>LayerNorm\<close>

text \<open>On three accepted vectors of one length LayerNorm always returns (its assertion and the
  square root of a negative number are unreachable), one output per input, and the final cast to
  int16 changes nothing.\<close>

theorem layernorm_total:
  assumes "checked16 a = Inr x" "checked16 g = Inr gs" "checked16 b = Inr bs"
    and "length gs = length x" "length bs = length x" "nd_wf a"
  shows "\<exists>out. layernorm_int a g b = Inr (vec Int16 out) \<and> length out = length x
    \<and> nd_elems (vec Int16 out) = out \<and> list_all (in_dtype Int16) out"
proof -
  have "x \<noteq> []" using checked_vector_length [OF assms(1,6)] by auto
  from layernorm_int_eq [OF assms(1-5) this] obtain d where
    out: "layernorm_int a g b = Inr (vec Int16 (map (\<lambda>(raw, scale, offset).
       sat16 (rne_val ((int (length x) * raw - sum_list x) * scale * 256) d + offset)) (zip x (zip gs bs))))"
    by blast
  define o' where "o' = map (\<lambda>(raw, scale, offset).
       sat16 (rne_val ((int (length x) * raw - sum_list x) * scale * 256) d + offset)) (zip x (zip gs bs))"
  have r: "list_all (in_dtype Int16) o'"
    unfolding o'_def list_all_iff using sat16_range
    by (auto simp: le_less_trans [of _ 32767] split: prod.splits)
  then have "nd_elems (vec Int16 o') = o'" by (simp only: vec_simps map_np_cast_self)
  moreover have "length o' = length x" using assms(4,5) by (simp add: o'_def)
  ultimately show ?thesis using out r unfolding o'_def [symmetric] by blast
qed

theorem layernorm_total_witness:
  "\<exists>out. layernorm_int (vec Int16 [256, -256]) (vec Int16 [4096, 4096]) (vec Int16 [0, 10])
      = Inr (vec Int16 out) \<and> length out = 2"
proof -
  have c: "checked16 (vec Int16 [256, -256]) = Inr [256, -256]"
    "checked16 (vec Int16 [4096, 4096]) = Inr [4096, 4096]"
    "checked16 (vec Int16 [0, 10]) = Inr [0, 10]" by code_simp+
  have "nd_wf (vec Int16 [256, -256])" by code_simp
  from layernorm_total [OF c _ _ this] show ?thesis by auto
qed

text \<open>LayerNorm is exactly translation invariant: adding one constant to every activation
  leaves every output word unchanged, as long as the shifted vector is still accepted.\<close>

theorem layernorm_translation:
  assumes "checked16 a = Inr x" "checked16 a' = Inr (map (\<lambda>v. v + c) x)"
    and "checked16 g = Inr gs" "checked16 b = Inr bs"
    and "length gs = length x" "length bs = length x" "nd_wf a"
  shows "layernorm_int a' g b = layernorm_int a g b"
proof -
  have ne: "x \<noteq> []" using checked_vector_length [OF assms(1,7)] by auto
  have sum: "sum_list (map (\<lambda>v. v + c) x) = sum_list x + int (length x) * c"
    by (simp add: sum_list_addf sum_list_triv)
  have zip: "zip (map (\<lambda>v. v + c) x) zs = map (\<lambda>(r, z). (r + c, z)) (zip x zs)" for zs :: "(int \<times> int) list"
    by (simp add: zip_map1)
  obtain d where d: "d = isqrt (ln_variance x * 2 ^ 24 + rne_val (int (length x) * int (length x) * 2 ^ 40) 100000)"
    "layernorm_int a g b = Inr (vec Int16 (map (\<lambda>(raw, scale, offset).
       sat16 (rne_val ((int (length x) * raw - sum_list x) * scale * 256) d + offset)) (zip x (zip gs bs))))"
    by (rule layernorm_int_eq [OF assms(1,3-6) ne])
  obtain d' where d': "d' = isqrt (ln_variance (map (\<lambda>v. v + c) x) * 2 ^ 24 + rne_val (int (length (map (\<lambda>v. v + c) x)) * int (length (map (\<lambda>v. v + c) x)) * 2 ^ 40) 100000)"
    "layernorm_int a' g b = Inr (vec Int16 (map (\<lambda>(raw, scale, offset).
       sat16 (rne_val ((int (length (map (\<lambda>v. v + c) x)) * raw - sum_list (map (\<lambda>v. v + c) x)) * scale * 256) d' + offset))
         (zip (map (\<lambda>v. v + c) x) (zip gs bs))))"
    by (rule layernorm_int_eq [OF assms(2-4)]) (use assms(5,6) ne in auto)
  have "d' = d" unfolding d(1) d'(1) by (simp add: ln_variance_shift)
  have sh: "int (length x) * (r + c) - (sum_list x + int (length x) * c) = int (length x) * r - sum_list x" for r
    by (simp add: algebra_simps)
  show ?thesis
    unfolding d(2) d'(2) sum zip \<open>d' = d\<close> by (simp add: case_prod_unfold comp_def sh)
qed

theorem layernorm_translation_witness:
  "layernorm_int (vec Int16 [356, -156]) (vec Int16 [4096, 4096]) (vec Int16 [0, 10])
   = layernorm_int (vec Int16 [256, -256]) (vec Int16 [4096, 4096]) (vec Int16 [0, 10])"
proof (rule layernorm_translation [where c = 100])
  show "checked16 (vec Int16 [256, -256]) = Inr [256, -256]"
    "checked16 (vec Int16 [356, -156]) = Inr (map (\<lambda>v. v + 100) [256, -256])"
    "checked16 (vec Int16 [4096, 4096]) = Inr [4096, 4096]"
    "checked16 (vec Int16 [0, 10]) = Inr [0, 10]" "nd_wf (vec Int16 [256, -256])" by code_simp+
qed simp_all

text \<open>The LayerNorm radicand is positive and fits in unsigned 80 bits, the width the datapath
  gives it, for every accepted vector.\<close>

theorem layernorm_radicand_80_bits:
  assumes "checked16 a = Inr x" "nd_wf a" "ln_radicand x = Inr r"
  shows "0 < r \<and> r < 2 ^ 80"
proof -
  have "x \<noteq> []" "length x \<le> 3072"
    using checked_vector_length [OF assms(1,2)] by (auto simp: MAX_VECTOR_def)
  moreover have "\<forall>v\<in>set x. \<bar>v\<bar> \<le> 32768"
    using checked_vector_Inr(2) [OF assms(1)] by fastforce
  ultimately show ?thesis using ln_radicand_bounds [OF _ _ _ assms(3)] by blast
qed

theorem layernorm_radicand_80_bits_witness:
  "\<exists>r. ln_radicand [32767, -32768] = Inr r \<and> 0 < r \<and> r < 2 ^ 80"
proof -
  have "checked16 (vec Int16 [32767, -32768]) = Inr [32767, -32768]"
    "nd_wf (vec Int16 [32767, -32768])" by code_simp+
  from layernorm_radicand_80_bits [OF this] show ?thesis unfolding ln_radicand_eq by blast
qed

section \<open>Softmax\<close>

text \<open>The weights of a score vector: the exponential of the distance to the largest valid score, 0 where masked.\<close>

definition softmax_weights :: "int list \<Rightarrow> int list \<Rightarrow> int list" where
  "softmax_weights x valid =
     (let M = Max {x ! i | i. i < length x \<and> valid ! i \<noteq> 0}
      in map (\<lambda>i. if valid ! i = 0 then 0 else exp_weight (M - x ! i)) [0..<length x])"

lemma softmax_int_eq:
  assumes c: "checked_vector a MAX_SOFTMAX (-32768) 32767 = Inr x"
    and v: "nd_dtype valid = Bool" "nd_shape valid = [length x]" "nd_wf valid"
    and any: "k < length x" "nd_elems valid ! k \<noteq> 0"
  obtains ws out where "ws = softmax_weights x (nd_elems valid)" "0 < sum_list ws"
    "softmax_int a valid = Inr (vec UInt16 out)" "length out = length x" "sum_list out = 32768"
    "\<And>i. i < length x \<Longrightarrow> 0 \<le> out ! i"
    "\<And>i. i < length x \<Longrightarrow> ws ! i = 0 \<Longrightarrow> out ! i = 0"
    "\<And>i. i < length x \<Longrightarrow> \<bar>out ! i * sum_list ws - ws ! i * 32768\<bar> \<le> sum_list ws"
    "\<And>i. i < length x \<Longrightarrow> out ! i = ws ! i * 32768 div sum_list ws + extra ws (32768 - (\<Sum>w\<leftarrow>ws. w * 32768 div sum_list ws)) i"
proof -
  define mask where "mask = map (\<lambda>v. v \<noteq> 0) (nd_elems valid)"
  have lm: "length mask = length x" using v by (simp add: mask_def nd_wf_def)
  define M where "M = py_max (map fst (filter snd (zip x mask)))"
  have kin: "(x ! k, True) \<in> set (zip x mask)" "True \<in> set mask"
    using any lm nth_mem [of k "nd_elems valid"] by (auto simp: in_set_zip mask_def)
  define f where "f = (\<lambda>(raw, keep). if keep then exp_weight (M - raw) else 0 :: int)"
  have le: "raw \<le> M" if "(raw, True) \<in> set (zip x mask)" for raw
    unfolding M_def by (rule py_max_ge) (use that in force)
  have rm: "rmap (\<lambda>(raw, keep). if keep then exp_negative_int (M - raw) else Inr 0) (zip x mask)
      = Inr (map f (zip x mask))"
  proof (rule rmap_total, clarify)
    fix raw keep assume "(raw, keep) \<in> set (zip x mask)"
    then show "(if keep then exp_negative_int (M - raw) else Inr 0) = Inr (f (raw, keep))"
      using le [of raw] by (auto simp: f_def exp_negative_int_eq)
  qed
  define ws where "ws = map f (zip x mask)"
  have nn: "\<forall>w\<in>set ws. 0 \<le> w"
    by (auto simp: ws_def f_def dest!: le intro!: exp_weight_nonneg split: if_splits)
  have "M \<in> set (map fst (filter snd (zip x mask)))"
    unfolding M_def by (rule py_max_in) (use kin(1) in \<open>force simp: filter_empty_conv\<close>)
  then have Min: "(M, True) \<in> set (zip x mask)" by auto
  then have "2 ^ 24 \<in> set ws" by (force simp: ws_def f_def exp_weight_0)
  then have pos: "0 < sum_list ws" using member_le_sum_list [of "2 ^ 24" ws] nn
    by (smt (verit) power_eq_0_iff zero_less_power zero_less_numeral sum_list_nonneg)
  have lw: "length ws = length x" using lm by (simp add: ws_def)
  have "Max {x ! i | i. i < length x \<and> nd_elems valid ! i \<noteq> 0} = M"
  proof (rule Max_eqI)
    show "y \<le> M" if y: "y \<in> {x ! i | i. i < length x \<and> nd_elems valid ! i \<noteq> 0}" for y
    proof -
      from y obtain i where i: "y = x ! i" "i < length x" "nd_elems valid ! i \<noteq> 0" by blast
      then have "mask ! i" using lm by (simp add: mask_def)
      then show ?thesis using i lm by (intro le) (auto simp: in_set_zip)
    qed
    show "M \<in> {x ! i | i. i < length x \<and> nd_elems valid ! i \<noteq> 0}"
      using Min lm by (auto simp: in_set_zip mask_def)
  qed simp
  then have W: "ws = softmax_weights x (nd_elems valid)"
    using lm by (intro nth_equalityI) (simp_all add: softmax_weights_def Let_def ws_def f_def mask_def)
  obtain out where out: "normalize_weights ws = Inr out" "length out = length ws" "sum_list out = 32768"
    "\<And>i. i < length ws \<Longrightarrow> ws ! i = 0 \<Longrightarrow> out ! i = 0"
    "\<And>i. i < length ws \<Longrightarrow> \<bar>out ! i * sum_list ws - ws ! i * 32768\<bar> \<le> sum_list ws"
    "\<And>i. i < length ws \<Longrightarrow> 0 \<le> out ! i"
    "\<And>i. i < length ws \<Longrightarrow> out ! i = ws ! i * 32768 div sum_list ws + extra ws (32768 - (\<Sum>w\<leftarrow>ws. w * 32768 div sum_list ws)) i"
    using normalize_weights_spec [OF nn pos] by blast
  show ?thesis
  proof (rule that [OF W pos])
    show "softmax_int a valid = Inr (vec UInt16 out)"
      using c v(1,2) kin(2) rm out(1)
      by (simp add: softmax_int_def Let_def flip: mask_def M_def ws_def)
  qed (use out lw in simp_all)
qed

text \<open>C36: Softmax over an accepted score vector with at least one valid position always returns
  (no zero division, the correction always fits), and delivers a determined share of the mass: with the
  weights \<open>w\<close> - the table exponential of the distance to the largest valid score, 0 where masked - every word is
  \<open>w * 32768\<close> divided by their sum and rounded down, plus one unit for the first live positions, as many as
  the rounding has lost. So the words sum to exactly 32768, masked positions are 0, every word is within one unit
  of its exact share, and the cast to uint16 is exact.\<close>

theorem softmax_mass:
  assumes "checked_vector a MAX_SOFTMAX (-32768) 32767 = Inr x"
    and "nd_dtype valid = Bool" "nd_shape valid = [length x]" "nd_wf valid"
    and "k < length x" "nd_elems valid ! k \<noteq> 0"
  shows "let M = Max {x ! i | i. i < length x \<and> nd_elems valid ! i \<noteq> 0};
      ws = map (\<lambda>i. if nd_elems valid ! i = 0 then 0 else exp_weight (M - x ! i)) [0..<length x];
      lost = 32768 - (\<Sum>w\<leftarrow>ws. w * 32768 div sum_list ws)
    in \<exists>out. softmax_int a valid = Inr (vec UInt16 out) \<and> nd_elems (vec UInt16 out) = out
      \<and> length out = length x \<and> sum_list out = 32768
      \<and> (\<forall>i<length x. out ! i = ws ! i * 32768 div sum_list ws
             + (if ws ! i \<noteq> 0 \<and> int (length (filter (\<lambda>w. w \<noteq> 0) (take i ws))) < lost then 1 else 0)
           \<and> \<bar>out ! i * sum_list ws - ws ! i * 32768\<bar> \<le> sum_list ws)"
proof -
  obtain ws out where ws: "ws = softmax_weights x (nd_elems valid)" "0 < sum_list ws"
    and out: "softmax_int a valid = Inr (vec UInt16 out)" "length out = length x" "sum_list out = 32768"
    "\<And>i. i < length x \<Longrightarrow> 0 \<le> out ! i"
    "\<And>i. i < length x \<Longrightarrow> ws ! i = 0 \<Longrightarrow> out ! i = 0"
    "\<And>i. i < length x \<Longrightarrow> \<bar>out ! i * sum_list ws - ws ! i * 32768\<bar> \<le> sum_list ws"
    "\<And>i. i < length x \<Longrightarrow> out ! i = ws ! i * 32768 div sum_list ws + extra ws (32768 - (\<Sum>w\<leftarrow>ws. w * 32768 div sum_list ws)) i"
    by (rule softmax_int_eq [OF assms]) (rule that, assumption+)
  have "0 \<le> v \<and> v \<le> 32768" if "v \<in> set out" for v
    using that out(2,4) member_le_sum_list [of v out] out(3) by (fastforce simp: in_set_conv_nth)
  then have "list_all (in_dtype UInt16) out" by (fastforce simp: list_all_iff)
  then have cast: "nd_elems (vec UInt16 out) = out" by (simp only: vec_simps map_np_cast_self)
  have weights: "map (\<lambda>i. if nd_elems valid ! i = 0 then 0 else exp_weight (Max {x ! i | i. i < length x \<and> nd_elems valid ! i \<noteq> 0} - x ! i)) [0..<length x] = ws"
    by (simp add: ws(1) softmax_weights_def Let_def)
  show ?thesis
    unfolding Let_def weights by (intro exI [of _ out] conjI allI impI cast out(1-3,6) out(7) [unfolded extra_def])
qed

theorem softmax_mass_witness:
  "\<exists>out. softmax_int (vec Int16 [0, 300, 100]) (vec Bool [1, 1, 0]) = Inr (vec UInt16 out)
     \<and> sum_list out = 32768 \<and> out ! 2 = 0"
proof -
  have c: "checked_vector (vec Int16 [0, 300, 100]) MAX_SOFTMAX (-32768) 32767 = Inr [0, 300, 100]"
    "nd_dtype (vec Bool [1, 1, 0]) = Bool" "nd_shape (vec Bool [1, 1, 0]) = [length [0 :: int, 300, 100]]"
    "nd_wf (vec Bool [1, 1, 0])" "0 < length [0 :: int, 300, 100]" "nd_elems (vec Bool [1, 1, 0]) ! 0 \<noteq> 0"
    by code_simp+
  have "nd_elems (vec Bool [1, 1, 0]) = [1, 1, 0]" by code_simp
  then show ?thesis using softmax_mass [OF c] by (auto simp: Let_def)
qed

text \<open>The one-unit bound of the mass correction is attained, so it cannot be sharpened to a
  strict one: for these four scores the first weight's exact share is 16384 units and the
  correction delivers 16385.\<close>

theorem softmax_error_of_one_unit:
  "softmax_int (vec Int16 [0, -1, -1428, -3093]) (vec Bool [1, 1, 1, 1])
     = Inr (vec UInt16 [16385, 16322, 61, 0])
   \<and> map exp_negative_int [0, 1, 1428, 3093] = [Inr 16777216, Inr 16713686, Inr 63435, Inr 95]
   \<and> 16777216 * PROB_SCALE = 16384 * (16777216 + 16713686 + 63435 + 95)"
  by code_simp

section \<open>Requantisation\<close>

lemma dynamic_multiplier:
  fixes M :: int
  assumes "0 < M" "M \<le> 32768"
  shows "0 \<le> rne_val (127 * 2 ^ 24) M" "rne_val (127 * 2 ^ 24) M < 2 ^ 31"
    "2 * \<bar>rne_val (127 * 2 ^ 24) M * M - 127 * 2 ^ 24\<bar> \<le> M"
proof -
  show "0 \<le> rne_val (127 * 2 ^ 24) M" using assms by (simp add: rne_val_nonneg)
  have "127 * 2 ^ 24 * 1 \<le> 127 * 2 ^ 24 * M" using assms by (intro mult_left_mono) auto
  then have "\<bar>127 * 2 ^ 24\<bar> \<le> 127 * 2 ^ 24 * M" by simp
  from rne.abs_bound [OF assms(1) this] show "rne_val (127 * 2 ^ 24) M < 2 ^ 31" by simp
  show "2 * \<bar>rne_val (127 * 2 ^ 24) M * M - 127 * 2 ^ 24\<bar> \<le> M"
    using rne.near [OF assms(1), of "127 * 2 ^ 24"] .
qed

lemma dynamic_code:
  fixes M v m :: int
  assumes M: "0 < M" "M \<le> 32768" "\<bar>v\<bar> \<le> M" and m: "0 \<le> m" "2 * \<bar>m * M - 127 * 2 ^ 24\<bar> \<le> M"
  shows "\<bar>rne_val (v * m) (2 ^ 24)\<bar> \<le> 127" "\<bar>v\<bar> = M \<Longrightarrow> \<bar>rne_val (v * m) (2 ^ 24)\<bar> = 127"
proof -
  have "\<bar>v * m\<bar> \<le> M * m" using M(3) m(1) by (simp add: abs_mult mult_right_mono)
  then have "\<bar>v * m\<bar> \<le> 127 * 2 ^ 24 + 16384" using m(2) M(2) by (smt (verit) mult.commute)
  then show le: "\<bar>rne_val (v * m) (2 ^ 24)\<bar> \<le> 127"
    by (intro rne.half_bound) auto
  show "\<bar>rne_val (v * m) (2 ^ 24)\<bar> = 127" if "\<bar>v\<bar> = M"
  proof -
    have Mm: "127 * 2 ^ 24 - 16384 \<le> M * m" using m(2) M(2) by (smt (verit) mult.commute)
    then have "127 \<le> rne_val (M * m) (2 ^ 24)" by (intro rne.half_above) auto
    moreover have "v * m = M * m \<or> v * m = - (M * m)" using that by (auto simp: abs_if split: if_splits)
    ultimately show ?thesis using le by (auto simp: rne_val_neg)
  qed
qed

text \<open>Dynamic int8 scaling: with the multiplier chosen from the vector's maximum, every code
  lies in -127..127 (the saturation of REQUANT8 is inactive), the largest magnitude maps to
  exactly 127, and AFFINE with that multiplier, zero bias and shift 24 delivers the same codes.\<close>

theorem dynamic_requantisation:
  assumes "checked_vector a MAX_VECTOR (-32768) 32768 = Inr x" "nd_wf a"
    and "dynamic_int8_parameters a = Inr (m, s)"
  shows "\<exists>codes. s = 24 \<and> requantize_int8 a m s = Inr (vec Int8 codes) \<and> length codes = length x
    \<and> list_all (\<lambda>c. \<bar>c\<bar> \<le> 127) codes
    \<and> (\<forall>i<length x. x ! i \<noteq> 0 \<and> \<bar>x ! i\<bar> = py_max (map abs x) \<longrightarrow> \<bar>codes ! i\<bar> = 127)
    \<and> affine_int a (vec Int32 (replicate (length x) m)) (vec Int32 (replicate (length x) 0)) s
        = Inr (vec Int16 codes)"
proof -
  define M where "M = py_max (map abs x)"
  have ne: "1 \<le> length x" "length x \<le> MAX_VECTOR" using checked_vector_length [OF assms(1,2)] by auto
  have rng: "-32768 \<le> v \<and> v \<le> 32768" if "v \<in> set x" for v
    using checked_vector_Inr(2) [OF assms(1) that] .
  have le: "\<bar>v\<bar> \<le> M" if "v \<in> set x" for v unfolding M_def using that by (intro py_max_ge) auto
  have "M \<in> set (map abs x)" unfolding M_def using ne by (intro py_max_in) auto
  then obtain v where "v \<in> set x" "M = \<bar>v\<bar>" by auto
  then have M: "0 \<le> M" "M \<le> 32768" using rng [of v] by auto
  have m: "s = 24" "m = (if M = 0 then 0 else rne_val (127 * 2 ^ 24) M)"
    using assms(1,3) M by (auto simp: dynamic_int8_parameters_def Let_def push_bit_eq_mult split: if_splits simp flip: M_def)
  have mr: "0 \<le> m" "m < 2 ^ 31" "M = 0 \<or> 2 * \<bar>m * M - 127 * 2 ^ 24\<bar> \<le> M"
    using dynamic_multiplier [of M] M by (auto simp: m(2))
  have code: "\<bar>rne_val (v * m) (2 ^ 24)\<bar> \<le> 127"
    "v \<noteq> 0 \<and> \<bar>v\<bar> = M \<Longrightarrow> \<bar>rne_val (v * m) (2 ^ 24)\<bar> = 127" if "v \<in> set x" for v
    using dynamic_code [of M v m] le [OF that] M mr by (cases "M = 0"; force)+
  define codes where "codes = map (\<lambda>v. rne_val (v * m) (2 ^ 24)) x"
  have checked: "checked31 a (-(2 ^ 31)) = Inr x"
    using assms(1) rng by (auto simp: checked_vector_def list_ex_iff split: if_splits)
  have "rmap (\<lambda>raw. rbind (rne_div (raw * m) (push_bit (nat s) 1)) (\<lambda>q. Inr (max (-128) (min 127 q)))) x = Inr codes"
    unfolding codes_def using code(1) by (intro rmap_total) (force simp: m(1) push_bit_eq_mult)
  then have req: "requantize_int8 a m s = Inr (vec Int8 codes)"
    using checked mr by (simp add: requantize_int8_def m(1) push_bit_eq_mult)
  have c2: "checked31 (vec Int32 (replicate (length x) m)) 0 = Inr (replicate (length x) m)"
    "checked31 (vec Int32 (replicate (length x) 0)) (-(2 ^ 31)) = Inr (replicate (length x) 0)"
    using ne mr by (intro checked_vector_ok; simp add: np_integer_def list_all_iff MAX_VECTOR_def)+
  have "rmap (\<lambda>(raw, scale, bias). rbind (rne_div (raw * scale) (push_bit (nat s) 1)) (\<lambda>q. Inr (sat16 (q + bias))))
      (zip x (zip (replicate (length x) m) (replicate (length x) (0::int))))
    = Inr (map (\<lambda>(raw, scale, bias). rne_val (raw * m) (2 ^ 24)) (zip x (zip (replicate (length x) m) (replicate (length x) (0::int)))))"
    using code(1) by (intro rmap_total)
      (fastforce simp: m(1) push_bit_eq_mult sat16_def set_zip in_set_conv_nth)
  moreover have "map (\<lambda>(raw, scale, bias). rne_val (raw * m) (2 ^ 24)) (zip x (zip (replicate (length x) m) (replicate (length x) (0::int)))) = codes"
    by (intro nth_equalityI) (auto simp: codes_def)
  ultimately have "affine_int a (vec Int32 (replicate (length x) m)) (vec Int32 (replicate (length x) 0)) s = Inr (vec Int16 codes)"
    unfolding affine_int_def checked c2 rbind_simps by (simp add: m(1))
  then show ?thesis using req code m(1)
    by (intro exI [of _ codes]) (auto simp: codes_def list_all_iff simp flip: M_def)
qed

theorem dynamic_requantisation_witness:
  "\<exists>codes. requantize_int8 (vec Int32 [0, -300, 32768]) 65024 24 = Inr (vec Int8 codes)
     \<and> length codes = 3 \<and> \<bar>codes ! 2\<bar> = 127"
proof -
  have c: "checked_vector (vec Int32 [0, -300, 32768]) MAX_VECTOR (-32768) 32768 = Inr [0, -300, 32768]"
    "nd_wf (vec Int32 [0, -300, 32768])" "dynamic_int8_parameters (vec Int32 [0, -300, 32768]) = Inr (65024, 24)"
    by code_simp+
  obtain codes where "requantize_int8 (vec Int32 [0, -300, 32768]) 65024 24 = Inr (vec Int8 codes)"
    "length codes = length [0 :: int, -300, 32768]" and
    p: "\<forall>i<length [0 :: int, -300, 32768]. [0 :: int, -300, 32768] ! i \<noteq> 0
      \<and> \<bar>[0 :: int, -300, 32768] ! i\<bar> = py_max (map abs [0 :: int, -300, 32768]) \<longrightarrow> \<bar>codes ! i\<bar> = 127"
    using dynamic_requantisation [OF c] by blast
  moreover have "\<bar>codes ! 2\<bar> = 127" using p [rule_format, of 2] by simp
  ultimately show ?thesis by auto
qed

end
