(* ===== verification/GemmRef.thy ===== *)
theory GemmRef
  imports Rounding Ndarray
begin

text \<open>
  The GEMM contract of \<open>ref/gemm_ref.py\<close> (M2: int8 operands, one final int16 saturation, K up to
  768) and \<open>ref/gemm_v3_ref.py\<close> (the wide int32 result, K up to 3072), with both stream packers:
  the word-by-word M2 packer and the vectorised v3 packer that lays out padded bytes and views
  them as little-endian words. A descriptor is the dataclass of the sources; the M3 subclass
  overrides \<open>validate\<close> and \<open>output_words\<close>.
\<close>

section \<open>Descriptors\<close>

record descriptor =
  d_m :: int
  d_n :: int
  d_k :: int
  d_tag :: int
  d_flags :: int

definition Descriptor :: "int \<Rightarrow> int \<Rightarrow> int \<Rightarrow> int \<Rightarrow> int \<Rightarrow> descriptor" where
  "Descriptor m' n' k' tag' flags' = \<lparr>d_m = m', d_n = n', d_k = k', d_tag = tag', d_flags = flags'\<rparr>"

definition MAX_M :: int where "MAX_M = 16"
definition MAX_N :: int where "MAX_N = 16"
definition MAX_K :: int where "MAX_K = 768"
definition MIN_INT16 :: int where "MIN_INT16 = - push_bit 15 1"
definition MAX_INT16 :: int where "MAX_INT16 = push_bit 15 1 - 1"

definition validate :: "descriptor \<Rightarrow> unit res" where
  "validate d =
     (if \<not> (1 \<le> d_m d \<and> d_m d \<le> MAX_M) then Inl ValueError
      else if \<not> (1 \<le> d_n d \<and> d_n d \<le> MAX_N) then Inl ValueError
      else if \<not> (1 \<le> d_k d \<and> d_k d \<le> MAX_K) then Inl ValueError
      else if d_flags d \<noteq> 0 then Inl ValueError
      else Inr ())"

definition a_words_per_row :: "descriptor \<Rightarrow> int" where
  "a_words_per_row d = (d_k d + 3) div 4"

definition input_words :: "descriptor \<Rightarrow> int" where
  "input_words d = d_m d * a_words_per_row d + d_k d * 4"

definition output_words :: "descriptor \<Rightarrow> int" where
  "output_words d = d_m d * 8"

definition macs :: "descriptor \<Rightarrow> int" where
  "macs d = d_m d * d_n d * d_k d"

section \<open>The M2 product\<close>

definition as_int8_matrix :: "ndarray \<Rightarrow> int \<times> int \<Rightarrow> ndarray res" where
  "as_int8_matrix array shape =
     (if map int (nd_shape array) \<noteq> [fst shape, snd shape] then Inl ValueError
      else if \<not> np_signed (nd_dtype array) then Inl TypeError
      else if list_ex (\<lambda>v. v < -128) (nd_elems array) \<or> list_ex (\<lambda>v. v > 127) (nd_elems array)
      then Inl ValueError
      else Inr (astype Int8 array))"

text \<open>The int64 matrix product; a NumPy integer product wraps, so the sum is cast.\<close>

definition matmul64 :: "ndarray \<Rightarrow> ndarray \<Rightarrow> int list" where
  "matmul64 a b =
     rows_of (nd_shape a ! 0) (nd_shape b ! 1)
       (\<lambda>i j. signed_take_bit 63 (\<Sum>t\<leftarrow>[0..<nd_shape a ! 1]. at2 a i t * at2 b t j))"

definition gemm_int8_int16 :: "ndarray \<Rightarrow> ndarray \<Rightarrow> ndarray res" where
  "gemm_int8_int16 a b =
     (if ndim a \<noteq> 2 \<or> ndim b \<noteq> 2 then Inl ValueError
      else if nd_shape a ! 1 \<noteq> nd_shape b ! 0 then Inl ValueError
      else let d = Descriptor (int (nd_shape a ! 0)) (int (nd_shape b ! 1)) (int (nd_shape a ! 1)) 0 0
           in rbind (validate d) (\<lambda>_.
              rbind (as_int8_matrix a (d_m d, d_k d)) (\<lambda>a_i8.
              rbind (as_int8_matrix b (d_k d, d_n d)) (\<lambda>b_i8.
                Inr (mat Int16 (nat (d_m d)) (nat (d_n d))
                  (map (\<lambda>v. max MIN_INT16 (min MAX_INT16 v))
                    (matmul64 (astype Int64 a_i8) (astype Int64 b_i8))))))))"

section \<open>The M2 stream\<close>

definition pack_i8_word :: "int list \<Rightarrow> int" where
  "pack_i8_word values =
     fold (\<lambda>(lane, value) word. word OR push_bit (8 * lane) (value AND 0xFF)) (enumerate 0 values) 0"

definition pack_input_words :: "descriptor \<Rightarrow> ndarray \<Rightarrow> ndarray \<Rightarrow> int list res" where
  "pack_input_words d a b =
     rbind (validate d) (\<lambda>_.
     rbind (as_int8_matrix a (d_m d, d_k d)) (\<lambda>a_i8.
     rbind (as_int8_matrix b (d_k d, d_n d)) (\<lambda>b_i8.
       let a_words = rows_of (nat (d_m d)) (nat (a_words_per_row d)) (\<lambda>row base.
             pack_i8_word (map (\<lambda>column. if int column < d_k d then at2 a_i8 row column else 0)
               [4 * base..<4 * base + 4]));
           b_words = rows_of (nat (d_k d)) 4 (\<lambda>inner base.
             pack_i8_word (map (\<lambda>column. if int column < d_n d then at2 b_i8 inner column else 0)
               [4 * base..<4 * base + 4]));
           words = a_words @ b_words
       in if int (length words) \<noteq> input_words d then Inl AssertionError else Inr words)))"

definition pack_output_words :: "descriptor \<Rightarrow> ndarray \<Rightarrow> int list res" where
  "pack_output_words d result =
     rbind (validate d) (\<lambda>_.
       if map int (nd_shape result) \<noteq> [d_m d, d_n d] then Inl ValueError
       else if list_ex (\<lambda>v. v < MIN_INT16) (nd_elems result)
             \<or> list_ex (\<lambda>v. v > MAX_INT16) (nd_elems result) then Inl ValueError
       else let result_i16 = astype Int16 result;
                words = rows_of (nat (d_m d)) 8 (\<lambda>row half.
                  let base = 2 * half;
                      lo = if int base < d_n d then at2 result_i16 row base else 0;
                      hi = if int base + 1 < d_n d then at2 result_i16 row (base + 1) else 0
                  in (lo AND 0xFFFF) OR push_bit 16 (hi AND 0xFFFF))
            in if int (length words) \<noteq> output_words d then Inl AssertionError else Inr words)"

definition unpack_output_words :: "descriptor \<Rightarrow> int list \<Rightarrow> ndarray res" where
  "unpack_output_words d packed =
     rbind (validate d) (\<lambda>_.
       if int (length packed) \<noteq> output_words d then Inl ValueError
       else let padded = (\<lambda>row column.
                  let word = packed ! (row * 8 + column div 2)
                  in if even column then signed_take_bit 15 (word AND 0xFFFF)
                     else signed_take_bit 15 (drop_bit 16 word AND 0xFFFF))
            in Inr (mat Int16 (nat (d_m d)) (nat (d_n d)) (rows_of (nat (d_m d)) (nat (d_n d)) padded)))"

definition evaluate_packed :: "descriptor \<Rightarrow> ndarray \<Rightarrow> ndarray \<Rightarrow> (int list \<times> int list) res" where
  "evaluate_packed d a b =
     rbind (pack_input_words d a b) (\<lambda>inputs.
     rbind (gemm_int8_int16 a b) (\<lambda>c.
     rbind (pack_output_words d c) (\<lambda>outputs. Inr (inputs, outputs))))"

section \<open>The M3 wide extension\<close>

definition WIDE_RESULT_V1 :: int where "WIDE_RESULT_V1 = 0x100"
definition MAX_WIDE_K :: int where "MAX_WIDE_K = 3072"

definition validate_v3 :: "descriptor \<Rightarrow> unit res" where
  "validate_v3 d =
     (if d_flags d = 0 then validate d
      else if d_flags d = WIDE_RESULT_V1
      then (if \<not> (1 \<le> d_m d \<and> d_m d \<le> 16) \<or> \<not> (1 \<le> d_n d \<and> d_n d \<le> 16)
              \<or> \<not> (1 \<le> d_k d \<and> d_k d \<le> MAX_WIDE_K) then Inl ValueError else Inr ())
      else Inl ValueError)"

definition output_words_v3 :: "descriptor \<Rightarrow> int" where
  "output_words_v3 d = d_m d * (if d_flags d = WIDE_RESULT_V1 then 16 else 8)"

definition signed_int8_operand :: "ndarray \<Rightarrow> unit res" where
  "signed_int8_operand x =
     (if \<not> np_signed (nd_dtype x) then Inl TypeError
      else if list_ex (\<lambda>v. v < -128) (nd_elems x) \<or> list_ex (\<lambda>v. v > 127) (nd_elems x)
      then Inl ValueError else Inr ())"

definition gemm_wide_int32 :: "ndarray \<Rightarrow> ndarray \<Rightarrow> ndarray res" where
  "gemm_wide_int32 a b =
     (if ndim a \<noteq> 2 \<or> ndim b \<noteq> 2 \<or> nd_shape a ! 1 \<noteq> nd_shape b ! 0 then Inl ValueError
      else rbind (validate_v3 (Descriptor (int (nd_shape a ! 0)) (int (nd_shape b ! 1))
                                (int (nd_shape a ! 1)) 0 WIDE_RESULT_V1)) (\<lambda>_.
           rbind (signed_int8_operand a) (\<lambda>_.
           rbind (signed_int8_operand b) (\<lambda>_.
             Inr (mat Int32 (nd_shape a ! 0) (nd_shape b ! 1)
               (matmul64 (astype Int64 a) (astype Int64 b)))))))"

definition pack_input_v3 :: "descriptor \<Rightarrow> ndarray \<Rightarrow> ndarray \<Rightarrow> int list res" where
  "pack_input_v3 d a b =
     rbind (validate_v3 d) (\<lambda>_.
       if map int (nd_shape a) \<noteq> [d_m d, d_k d] \<or> map int (nd_shape b) \<noteq> [d_k d, d_n d] then Inl ValueError
       else rbind (signed_int8_operand a) (\<lambda>_.
            rbind (signed_int8_operand b) (\<lambda>_.
              let padded_a = rows_of (nat (d_m d)) (nat (a_words_per_row d * 4))
                    (\<lambda>i j. if int j < d_k d then np_cast Int8 (at2 a i j) else 0);
                  padded_b = rows_of (nat (d_k d)) 16
                    (\<lambda>i j. if int j < d_n d then np_cast Int8 (at2 b i j) else 0)
              in Inr (view_words (padded_a @ padded_b)))))"

definition pack_output_v3 :: "descriptor \<Rightarrow> ndarray \<Rightarrow> int list res" where
  "pack_output_v3 d result =
     rbind (validate_v3 d) (\<lambda>_.
       if d_flags d = 0 then pack_output_words d result
       else if map int (nd_shape result) \<noteq> [d_m d, d_n d] then Inl ValueError
       else if \<not> np_signed (nd_dtype result)
             \<or> list_ex (\<lambda>v. v < - push_bit 26 1) (nd_elems result)
             \<or> list_ex (\<lambda>v. v \<ge> push_bit 26 1) (nd_elems result) then Inl ValueError
       else Inr (map (np_cast UInt32) (rows_of (nat (d_m d)) 16
                   (\<lambda>i j. if int j < d_n d then np_cast Int32 (at2 result i j) else 0))))"

end
