(* ===== verification/GemmLaws.thy ===== *)
theory GemmLaws
  imports GemmRef
begin

text \<open>
  Lemmas about the GEMM model: the width of a dot product of int8 operands, the word packer as a
  little-endian view of bytes, and the two packers row by row.
\<close>

section \<open>Operands and dot products\<close>

definition int8_matrix :: "ndarray \<Rightarrow> nat \<Rightarrow> nat \<Rightarrow> bool" where
  "int8_matrix a r c \<longleftrightarrow> nd_shape a = [r, c] \<and> nd_wf a \<and> np_signed (nd_dtype a)
     \<and> list_all (\<lambda>v. -128 \<le> v \<and> v \<le> 127) (nd_elems a)"

definition dot :: "ndarray \<Rightarrow> ndarray \<Rightarrow> nat \<Rightarrow> nat \<Rightarrow> int" where
  "dot a b i j = (\<Sum>t\<leftarrow>[0..<nd_shape a ! 1]. at2 a i t * at2 b t j)"

lemma row_index: "i < r \<Longrightarrow> j < c \<Longrightarrow> i * c + j < r * (c :: nat)"
  by (metis add_less_mono1 less_le_trans mult.commute mult_Suc mult_le_mono1 Suc_leI add.commute)

lemma int8_matrix_at2:
  assumes "int8_matrix a r c" "i < r" "j < c"
  shows "-128 \<le> at2 a i j \<and> at2 a i j \<le> 127" "nd_elems a ! (i * c + j) = at2 a i j"
    "i * c + j < length (nd_elems a)"
proof -
  have l: "length (nd_elems a) = r * c" using assms(1) by (simp add: int8_matrix_def nd_wf_def)
  show lt: "i * c + j < length (nd_elems a)" using row_index [OF assms(2,3)] by (simp add: l)
  show "nd_elems a ! (i * c + j) = at2 a i j" using assms(1) by (simp add: at2_def int8_matrix_def)
  then show "-128 \<le> at2 a i j \<and> at2 a i j \<le> 127"
    using assms(1) lt by (metis int8_matrix_def list_all_length)
qed

lemma int8_matrix_cast:
  assumes "int8_matrix a r c" "d \<in> {Int8, Int16, Int32, Int64}"
  shows "nd_elems (astype d a) = nd_elems a"
proof -
  have "np_cast d v = v" if "-128 \<le> v" "v \<le> 127" for v
    using that assms(2) by (auto simp: signed_take_bit_int_eq_self_iff)
  then show ?thesis using assms(1) by (auto simp: int8_matrix_def list_all_iff intro: map_idI)
qed

lemma int8_matrix_astype:
  assumes "int8_matrix a r c" "d \<in> {Int8, Int16, Int32, Int64}"
  shows "nd_elems (astype d a) = nd_elems a" "at2 (astype d a) i j = at2 a i j"
    "int8_matrix (astype d a) r c"
proof -
  show e: "nd_elems (astype d a) = nd_elems a"
    using assms by (intro int8_matrix_cast) auto
  then show "at2 (astype d a) i j = at2 a i j" by (simp add: at2_def)
  have "list_all (in_dtype d) (nd_elems a)"
    using assms by (auto simp: int8_matrix_def list_all_iff)
  then show "int8_matrix (astype d a) r c"
    using assms e by (auto simp: int8_matrix_def nd_wf_def)
qed

lemma as_int8_matrix_ok:
  assumes "int8_matrix a r c"
  shows "as_int8_matrix a (int r, int c) = Inr (astype Int8 a)"
  using assms by (auto simp: as_int8_matrix_def int8_matrix_def list_ex_iff list_all_iff)

lemma signed_int8_operand_ok: "int8_matrix a r c \<Longrightarrow> signed_int8_operand a = Inr ()"
  by (auto simp: signed_int8_operand_def int8_matrix_def list_ex_iff list_all_iff)

lemma abs_sum_list_le:
  fixes f :: "'a \<Rightarrow> int"
  assumes "\<And>x. x \<in> set xs \<Longrightarrow> \<bar>f x\<bar> \<le> c"
  shows "\<bar>\<Sum>x\<leftarrow>xs. f x\<bar> \<le> int (length xs) * c"
  using assms
proof (induction xs)
  case (Cons x xs)
  then have "\<bar>f x\<bar> \<le> c" "\<bar>\<Sum>y\<leftarrow>xs. f y\<bar> \<le> int (length xs) * c" by auto
  then show ?case by (simp add: algebra_simps)
qed simp

lemma dot_bound:
  assumes "int8_matrix a r c" "int8_matrix b c s" "i < r" "j < s"
  shows "\<bar>dot a b i j\<bar> \<le> int c * 16384"
proof -
  have "\<bar>at2 a i t * at2 b t j\<bar> \<le> 16384" if "t < c" for t
  proof -
    have "\<bar>at2 a i t\<bar> * \<bar>at2 b t j\<bar> \<le> 128 * 128"
      using int8_matrix_at2(1) [OF assms(1,3) that] int8_matrix_at2(1) [OF assms(2) that assms(4)]
      by (intro mult_mono) auto
    then show ?thesis by (simp add: abs_mult)
  qed
  then have "\<bar>dot a b i j\<bar> \<le> int (length [0..<nd_shape a ! 1]) * 16384"
    unfolding dot_def using assms(1) by (intro abs_sum_list_le) (auto simp: int8_matrix_def)
  then show ?thesis using assms(1) by (simp add: int8_matrix_def)
qed

lemma matmul64_exact:
  assumes "int8_matrix a r c" "int8_matrix b c s" "c \<le> 3072" "da \<in> {Int8, Int16, Int32, Int64}"
  shows "matmul64 (astype Int64 (astype da a)) (astype Int64 (astype da b)) = rows_of r s (dot a b)"
proof -
  have "at2 (astype Int64 (astype da x)) i j = at2 x i j" if "int8_matrix x p q" for x p q i j
    using int8_matrix_astype(2) [OF int8_matrix_astype(3) [OF that assms(4)], of Int64]
      int8_matrix_astype(2) [OF that assms(4)] by simp
  moreover have "signed_take_bit 63 (dot a b i j) = dot a b i j" if "i < r" "j < s" for i j
    using dot_bound [OF assms(1,2) that] assms(3) by (intro signed_take_bit_int_eq_self) auto
  ultimately show ?thesis
    using assms(1,2) unfolding matmul64_def
    by (auto simp: int8_matrix_def dot_def intro!: rows_of_cong)
qed

lemma at2_mat:
  assumes "i < r" "j < c"
  shows "at2 (mat d r c (rows_of r c f)) i j = np_cast d (f i j)"
  using assms row_index [OF assms] by (simp add: at2_def)

section \<open>Packing words\<close>

lemma pack_i8_word_bytes: "pack_i8_word [a, b, c, d] = bytes_word [a, b, c, d]"
proof -
  define p q r s where "p = take_bit 8 a" and "q = take_bit 8 b" and "r = take_bit 8 c" and "s = take_bit 8 d"
  have b: "0 \<le> p \<and> p < 256" "0 \<le> q \<and> q < 256" "0 \<le> r \<and> r < 256"
    using take_bit_less [of 8] by (auto simp: p_def q_def r_def)
  have "pack_i8_word [a, b, c, d] = ((p OR push_bit 8 q) OR push_bit 16 r) OR push_bit 24 s"
    by (simp add: pack_i8_word_def and_255 p_def q_def r_def s_def)
  also have "p OR push_bit 8 q = p + q * 2 ^ 8" using b by (intro or_push_bit) auto
  also have "(p + q * 2 ^ 8) OR push_bit 16 r = p + q * 2 ^ 8 + r * 2 ^ 16" using b by (intro or_push_bit) auto
  also have "(p + q * 2 ^ 8 + r * 2 ^ 16) OR push_bit 24 s = p + q * 2 ^ 8 + r * 2 ^ 16 + s * 2 ^ 24"
    using b by (intro or_push_bit) auto
  finally show ?thesis by (simp add: p_def q_def r_def s_def)
qed

lemma upt_4: "map f [4 * w..<4 * w + 4] = [f (4 * w), f (4 * w + 1), f (4 * w + 2), f (4 * w + 3)]"
  by (simp add: upt_rec eval_nat_numeral)

lemma view_words_row:
  "view_words (map f [0..<4 * c]) = map (\<lambda>w. bytes_word (map f [4 * w..<4 * w + 4])) [0..<c]"
proof (induction c)
  case (Suc c)
  have "[0..<4 * Suc c] = [0..<4 * c] @ [4 * c..<4 * c + 4]"
    using upt_add_eq_append [of 0 "4 * c" 4] by (simp add: add.commute)
  then have "view_words (map f [0..<4 * Suc c])
      = view_words (map f [0..<4 * c]) @ view_words (map f [4 * c..<4 * c + 4])"
    by (simp add: view_words_append)
  then show ?case using Suc.IH by (simp only: upt_4 view_words.simps upt_Suc_append map_append) simp
qed simp

lemma view_words_rows:
  "view_words (rows_of r (4 * c) f) = rows_of r c (\<lambda>i w. bytes_word (map (f i) [4 * w..<4 * w + 4]))"
proof (induction r)
  case (Suc r)
  have "rows_of (Suc r) (4 * c) f = rows_of r (4 * c) f @ map (f r) [0..<4 * c]"
    by (simp add: rows_of_def)
  then show ?case
    using Suc by (simp add: view_words_append view_words_row) (simp add: rows_of_def)
qed (simp add: rows_of_def)

end
