(* ===== verification/GemmProps.thy ===== *)
theory GemmProps
  imports GemmLaws
begin

text \<open>
  The properties of the GEMM references and their stream packers.
\<close>

section \<open>Products\<close>

text \<open>C37: The M2 reference is the exact int8 product saturated once: on every legal shape it
  returns, each element is the clipped dot product, and the dot product stays inside the signed
  25-bit accumulator of the contract (so neither int64 nor the accumulator ever wraps).\<close>

theorem gemm_exact:
  assumes "int8_matrix a M K" "int8_matrix b K N"
    and "1 \<le> M" "M \<le> 16" "1 \<le> N" "N \<le> 16" "1 \<le> K" "K \<le> 768"
  shows "\<exists>c. gemm_int8_int16 a b = Inr c \<and> nd_shape c = [M, N]
    \<and> (\<forall>i<M. \<forall>j<N. at2 c i j = sat16 (dot a b i j)
         \<and> - (2 ^ 24) \<le> dot a b i j \<and> dot a b i j < 2 ^ 24)"
proof -
  have sh: "nd_shape a = [M, K]" "nd_shape b = [K, N]" using assms(1,2) by (simp_all add: int8_matrix_def)
  have "validate (Descriptor (int M) (int N) (int K) 0 0) = Inr ()"
    using assms(3-8) by (simp add: validate_def Descriptor_def MAX_M_def MAX_N_def MAX_K_def)
  then have g: "gemm_int8_int16 a b =
      Inr (mat Int16 M N (rows_of M N (\<lambda>i j. max MIN_INT16 (min MAX_INT16 (dot a b i j)))))"
    using assms(8) matmul64_exact [OF assms(1,2), of Int8]
    by (simp add: gemm_int8_int16_def sh as_int8_matrix_ok [OF assms(1)] as_int8_matrix_ok [OF assms(2)]
        map_rows_of Descriptor_def)
  have s: "max MIN_INT16 (min MAX_INT16 v) = sat16 v" for v
    by (simp add: sat16_def MIN_INT16_def MAX_INT16_def push_bit_eq_mult)
  have t: "np_cast Int16 (sat16 v) = sat16 v" for v
    using sat16_range [of v] by (intro np_cast_self) (simp add: le_less_trans [of _ 32767])
  have "at2 (mat Int16 M N (rows_of M N (\<lambda>i j. max MIN_INT16 (min MAX_INT16 (dot a b i j))))) i j
      = sat16 (dot a b i j)" if "i < M" "j < N" for i j
    by (simp only: at2_mat [OF that] s t)
  moreover have "- (2 ^ 24) \<le> dot a b i j \<and> dot a b i j < 2 ^ 24" if "i < M" "j < N" for i j
    using dot_bound [OF assms(1,2) that] assms(8) by auto
  ultimately show ?thesis unfolding g by auto
qed

theorem gemm_exact_witness:
  "\<exists>c. gemm_int8_int16 (mat Int8 1 2 [-128, 127]) (mat Int8 2 1 [3, -2]) = Inr c \<and> at2 c 0 0 = -638"
proof -
  have c: "int8_matrix (mat Int8 1 2 [-128, 127]) 1 2" "int8_matrix (mat Int8 2 1 [3, -2]) 2 1"
    by code_simp+
  have "sat16 (dot (mat Int8 1 2 [-128, 127]) (mat Int8 2 1 [3, -2]) 0 0) = -638" by code_simp
  then show ?thesis using gemm_exact [OF c] by fastforce
qed

text \<open>The wide GEMM returns the exact dot product as int32, K up to 3072, and every sum is in
  the signed 27-bit accumulator domain that the output packer accepts.\<close>

theorem gemm_wide_exact:
  assumes "int8_matrix a M K" "int8_matrix b K N"
    and "1 \<le> M" "M \<le> 16" "1 \<le> N" "N \<le> 16" "1 \<le> K" "K \<le> 3072"
  shows "\<exists>c. gemm_wide_int32 a b = Inr c \<and> nd_shape c = [M, N] \<and> nd_dtype c = Int32
    \<and> (\<forall>i<M. \<forall>j<N. at2 c i j = dot a b i j \<and> - (2 ^ 26) \<le> at2 c i j \<and> at2 c i j < 2 ^ 26)"
proof -
  have sh: "nd_shape a = [M, K]" "nd_shape b = [K, N]" using assms(1,2) by (simp_all add: int8_matrix_def)
  have "validate_v3 (Descriptor (int M) (int N) (int K) 0 WIDE_RESULT_V1) = Inr ()"
    using assms(3-8) by (simp add: validate_v3_def Descriptor_def WIDE_RESULT_V1_def MAX_WIDE_K_def)
  then have g: "gemm_wide_int32 a b =
      Inr (mat Int32 M N (matmul64 (astype Int64 a) (astype Int64 b)))"
    by (simp add: gemm_wide_int32_def sh signed_int8_operand_ok [OF assms(1)] signed_int8_operand_ok [OF assms(2)])
  have idem: "astype Int64 (astype Int64 x) = astype Int64 x" for x
    by (simp add: astype_def)
  have mm: "matmul64 (astype Int64 a) (astype Int64 b) = rows_of M N (dot a b)"
    using matmul64_exact [OF assms(1,2,8), of Int64] unfolding idem by simp
  have r: "- (2 ^ 26) \<le> dot a b i j \<and> dot a b i j < 2 ^ 26" if "i < M" "j < N" for i j
    using dot_bound [OF assms(1,2) that] assms(8) by auto
  have "at2 (mat Int32 M N (rows_of M N (dot a b))) i j = dot a b i j" if "i < M" "j < N" for i j
    unfolding at2_mat [OF that] using r [OF that] by (intro np_cast_self) simp
  then show ?thesis unfolding g mm using r by auto
qed

theorem gemm_wide_exact_witness:
  "\<exists>c. gemm_wide_int32 (mat Int8 1 3 [-128, -128, -128]) (mat Int8 3 1 [-128, -128, -128]) = Inr c
     \<and> at2 c 0 0 = 49152"
proof -
  have c: "int8_matrix (mat Int8 1 3 [-128, -128, -128]) 1 3" "int8_matrix (mat Int8 3 1 [-128, -128, -128]) 3 1"
    by code_simp+
  have "dot (mat Int8 1 3 [-128, -128, -128]) (mat Int8 3 1 [-128, -128, -128]) 0 0 = 49152" by code_simp
  then show ?thesis using gemm_wide_exact [OF c] by fastforce
qed

section \<open>Packets\<close>

lemma output_word_split:
  "signed_take_bit 15 ((lo AND 0xFFFF OR push_bit 16 (hi AND 0xFFFF)) AND 0xFFFF) = signed_take_bit 15 lo"
  "signed_take_bit 15 (drop_bit 16 (lo AND 0xFFFF OR push_bit 16 (hi AND 0xFFFF)) AND 0xFFFF) = signed_take_bit 15 hi"
  for lo hi :: int
proof -
  have w: "lo AND 0xFFFF OR push_bit 16 (hi AND 0xFFFF) = concat_bit 16 lo (take_bit 16 hi)"
    by (simp add: concat_bit_def and_65535)
  show "signed_take_bit 15 ((lo AND 0xFFFF OR push_bit 16 (hi AND 0xFFFF)) AND 0xFFFF) = signed_take_bit 15 lo"
    unfolding w and_65535 by (intro bit_eqI) (auto simp: bit_simps)
  show "signed_take_bit 15 (drop_bit 16 (lo AND 0xFFFF OR push_bit 16 (hi AND 0xFFFF)) AND 0xFFFF) = signed_take_bit 15 hi"
    unfolding w and_65535 by (intro bit_eqI) (auto simp: bit_simps min_def)
qed

text \<open>The output packet is lossless: unpacking the packed words of an int16 result under the
  same valid descriptor gives back the result, padding lanes dropped.\<close>

theorem output_packet_roundtrip:
  assumes "validate d = Inr ()" "nd_shape r = [nat (d_m d), nat (d_n d)]" "nd_wf r" "nd_dtype r = Int16"
  shows "\<exists>words. pack_output_words d r = Inr words \<and> int (length words) = output_words d
    \<and> unpack_output_words d words = Inr r"
proof -
  define M N where "M = nat (d_m d)" and "N = nat (d_n d)"
  have MN: "d_m d = int M" "d_n d = int N" "N \<le> 16"
    using assms(1) by (auto simp: M_def N_def validate_def MAX_N_def split: if_splits)
  have el: "in_dtype Int16 v" if "v \<in> set (nd_elems r)" for v
    using assms(3,4) that by (simp add: nd_wf_def list_all_iff del: in_dtype_simps)
  have lr: "length (nd_elems r) = M * N" using assms(2,3) by (simp add: nd_wf_def M_def N_def)
  have self: "astype Int16 r = r"
    using map_np_cast_self [of "nd_dtype r" "nd_elems r"] assms(3,4)
    by (cases r) (simp add: astype_def nd_wf_def del: np_cast.simps in_dtype_simps)
  define lo hi where "lo = (\<lambda>row half. if int (2 * half) < d_n d then at2 r row (2 * half) else 0)"
    and "hi = (\<lambda>row half. if int (2 * half) + 1 < d_n d then at2 r row (2 * half + 1) else 0)"
  define W where "W = (\<lambda>row half. (lo row half AND 0xFFFF) OR push_bit 16 (hi row half AND 0xFFFF))"
  have pk: "pack_output_words d r = Inr (rows_of M 8 W)"
    using assms(1,2) el MN
    unfolding pack_output_words_def self W_def lo_def hi_def Let_def
    by (fastforce simp: output_words_def list_ex_iff MIN_INT16_def MAX_INT16_def simp flip: M_def N_def)
  define pad where "pad = (\<lambda>row column. let word = rows_of M 8 W ! (row * 8 + column div 2)
      in if even column then signed_take_bit 15 (word AND 0xFFFF)
         else signed_take_bit 15 (drop_bit 16 word AND 0xFFFF))"
  have up: "unpack_output_words d (rows_of M 8 W) = Inr (mat Int16 M N (rows_of M N pad))"
    using assms(1) MN by (simp add: unpack_output_words_def output_words_def pad_def Let_def)
  have pad: "pad i j = at2 r i j" if "i < M" "j < N" for i j
  proof -
    have "j div 2 < 8" using that MN by auto
    then have w: "rows_of M 8 W ! (i * 8 + j div 2) = W i (j div 2)" using that by simp
    have Wi: "W i (j div 2) = (lo i (j div 2) AND 0xFFFF) OR push_bit 16 (hi i (j div 2) AND 0xFFFF)"
      by (simp only: W_def)
    have "at2 r i j \<in> set (nd_elems r)"
      using row_index [OF that] lr assms(2) by (simp add: at2_def M_def N_def)
    then have "in_dtype Int16 (at2 r i j)" by (rule el)
    then have s: "signed_take_bit 15 (at2 r i j) = at2 r i j" by (simp add: in_dtype_def del: in_dtype_simps)
    show ?thesis
    proof (cases "even j")
      case True
      then have "pad i j = signed_take_bit 15 (lo i (j div 2))"
        by (simp only: pad_def Let_def w Wi output_word_split if_True)
      moreover have "2 * (j div 2) = j" using True by simp
      then have "lo i (j div 2) = at2 r i j"
        using that MN unfolding lo_def by (metis of_nat_less_iff)
      ultimately show ?thesis using s by simp
    next
      case False
      then have "pad i j = signed_take_bit 15 (hi i (j div 2))"
        by (simp only: pad_def Let_def w Wi output_word_split if_False)
      moreover have "2 * (j div 2) + 1 = j" using False by simp
      then have "hi i (j div 2) = at2 r i j"
        using that MN unfolding hi_def by (metis of_nat_1 of_nat_add of_nat_less_iff)
      ultimately show ?thesis using s by simp
    qed
  qed
  have "rows_of M N pad = nd_elems r"
    using rows_of_eqI [of "nd_elems r" M N pad] pad lr assms(2) by (simp add: at2_def M_def N_def)
  then have "mat Int16 M N (rows_of M N pad) = r"
    using assms(2,4) self by (cases r) (simp add: mat_def M_def N_def astype_def)
  then show ?thesis using pk up MN by (simp add: output_words_def)
qed

theorem output_packet_roundtrip_witness:
  "\<exists>words. pack_output_words (Descriptor 1 3 4 0 0) (mat Int16 1 3 [-32768, 7, -1]) = Inr words
     \<and> unpack_output_words (Descriptor 1 3 4 0 0) words = Inr (mat Int16 1 3 [-32768, 7, -1])"
proof -
  have "validate (Descriptor 1 3 4 0 0) = Inr ()"
    "nd_shape (mat Int16 1 3 [-32768, 7, -1]) = [nat (d_m (Descriptor 1 3 4 0 0)), nat (d_n (Descriptor 1 3 4 0 0))]"
    "nd_wf (mat Int16 1 3 [-32768, 7, -1])" "nd_dtype (mat Int16 1 3 [-32768, 7, -1]) = Int16"
    by code_simp+
  from output_packet_roundtrip [OF this] show ?thesis by blast
qed

text \<open>C38: The vectorised v3 packer and the word-by-word M2 packer emit the same input packet for
  every legal M2 descriptor, and its length is the descriptor's word count.\<close>

theorem packers_agree:
  assumes "validate d = Inr ()"
    and "int8_matrix a (nat (d_m d)) (nat (d_k d))" "int8_matrix b (nat (d_k d)) (nat (d_n d))"
  shows "pack_input_v3 d a b = pack_input_words d a b
    \<and> (\<exists>words. pack_input_words d a b = Inr words \<and> int (length words) = input_words d)"
proof -
  define M N K where "M = nat (d_m d)" and "N = nat (d_n d)" and "K = nat (d_k d)"
  have MN: "d_m d = int M" "d_n d = int N" "d_k d = int K" "d_flags d = 0"
    using assms(1) by (auto simp: M_def N_def K_def validate_def split: if_splits)
  define A where "A = nat (a_words_per_row d)"
  have A: "a_words_per_row d = int A" "nat (a_words_per_row d * 4) = 4 * A"
    using MN by (simp_all add: A_def a_words_per_row_def)
  define fa fb where "fa = (\<lambda>i j. if int j < d_k d then at2 a i j else 0)"
    and "fb = (\<lambda>i j. if int j < d_n d then at2 b i j else 0)"
  have e: "int8_matrix a M K" "int8_matrix b K N" using assms by (simp_all add: M_def N_def K_def)
  have cast: "at2 (astype Int8 a) i j = at2 a i j" "at2 (astype Int8 b) i j = at2 b i j" for i j
    using int8_matrix_astype(2) [OF e(1)] int8_matrix_astype(2) [OF e(2)] by simp_all
  have words: "pack_input_words d a b = Inr (rows_of M A (\<lambda>i w. bytes_word (map (fa i) [4 * w..<4 * w + 4]))
      @ rows_of K 4 (\<lambda>i w. bytes_word (map (fb i) [4 * w..<4 * w + 4])))"
    using assms(1) as_int8_matrix_ok [OF e(1)] as_int8_matrix_ok [OF e(2)] A(1)
    by (simp add: pack_input_words_def MN(1-3) input_words_def cast upt_4 pack_i8_word_bytes fa_def fb_def
        Let_def del: bytes_word.simps cong: if_cong)
  have "np_cast Int8 (at2 a i j) = at2 a i j" if "i < M" "int j < d_k d" for i j
    using int8_matrix_at2(1) [OF e(1) that(1), of j] that(2) MN by (intro np_cast_self) auto
  then have pa: "rows_of M (4 * A) (\<lambda>i j. if int j < d_k d then np_cast Int8 (at2 a i j) else 0) = rows_of M (4 * A) fa"
    by (intro rows_of_cong) (auto simp: fa_def)
  have "np_cast Int8 (at2 b i j) = at2 b i j" if "i < K" "int j < d_n d" for i j
    using int8_matrix_at2(1) [OF e(2) that(1), of j] that(2) MN by (intro np_cast_self) auto
  then have pb: "rows_of K (4 * 4) (\<lambda>i j. if int j < d_n d then np_cast Int8 (at2 b i j) else 0) = rows_of K (4 * 4) fb"
    by (intro rows_of_cong) (auto simp: fb_def)
  have sh: "nd_shape a = [M, K]" "nd_shape b = [K, N]" using e by (simp_all add: int8_matrix_def)
  have "pack_input_v3 d a b = Inr (view_words (rows_of M (4 * A) fa @ rows_of K (4 * 4) fb))"
    using assms(1) MN A sh signed_int8_operand_ok [OF e(1)] signed_int8_operand_ok [OF e(2)]
    unfolding pa [symmetric] pb [symmetric]
    by (simp add: pack_input_v3_def validate_v3_def Let_def)
  also have "view_words (rows_of M (4 * A) fa @ rows_of K (4 * 4) fb)
      = rows_of M A (\<lambda>i w. bytes_word (map (fa i) [4 * w..<4 * w + 4]))
      @ rows_of K 4 (\<lambda>i w. bytes_word (map (fb i) [4 * w..<4 * w + 4]))"
    by (subst view_words_append) (simp_all only: length_rows_of view_words_rows mod_mult_self1_is_0 mult.left_commute [of M])
  finally show ?thesis
    using words A MN by (simp add: input_words_def algebra_simps)
qed

theorem packers_agree_witness:
  "pack_input_v3 (Descriptor 1 2 3 9 0) (mat Int8 1 3 [1, -2, 3]) (mat Int8 3 2 [4, 5, -6, 7, 8, 9])
   = pack_input_words (Descriptor 1 2 3 9 0) (mat Int8 1 3 [1, -2, 3]) (mat Int8 3 2 [4, 5, -6, 7, 8, 9])"
proof -
  have "validate (Descriptor 1 2 3 9 0) = Inr ()"
    "int8_matrix (mat Int8 1 3 [1, -2, 3]) (nat (d_m (Descriptor 1 2 3 9 0))) (nat (d_k (Descriptor 1 2 3 9 0)))"
    "int8_matrix (mat Int8 3 2 [4, 5, -6, 7, 8, 9]) (nat (d_k (Descriptor 1 2 3 9 0))) (nat (d_n (Descriptor 1 2 3 9 0)))"
    by code_simp+
  from packers_agree [OF this] show ?thesis by blast
qed

end
