(* ===== verification/SfpuStream.thy ===== *)
theory SfpuStream
  imports SfpuLaws
begin

text \<open>
  The SFPU descriptor and packet reference of \<open>ref/sfpu_stream.py\<close>: the operation codes, the
  descriptor's validation, the packing of the input planes into 32-bit words, the evaluation by
  the integer operators, and the cycle accounting of the controller.
\<close>

section \<open>Operations\<close>

datatype op = GELU | LAYERNORM | SOFTMAX | AFFINE | REQUANT8 | AFFINE_GELU | ADD

fun op_code :: "op \<Rightarrow> int" where
  "op_code GELU = 1" | "op_code LAYERNORM = 2" | "op_code SOFTMAX = 3" | "op_code AFFINE = 4"
| "op_code REQUANT8 = 5" | "op_code AFFINE_GELU = 6" | "op_code ADD = 7"

definition op_of :: "int \<Rightarrow> op option" where
  "op_of n = find (\<lambda>x. op_code x = n) [GELU, LAYERNORM, SOFTMAX, AFFINE, REQUANT8, AFFINE_GELU, ADD]"

lemma op_of_code [simp]: "op_of (op_code x) = Some x"
  by (cases x) (simp_all add: op_of_def)

lemma op_of_eq_Some [simp]: "op_of n = Some x \<longleftrightarrow> n = op_code x"
proof
  assume "op_of n = Some x"
  then show "n = op_code x" unfolding op_of_def find_Some_iff by auto
qed simp

lemma op_code_inj [simp]: "op_code x = op_code y \<longleftrightarrow> x = y"
  by (metis op_of_code option.inject)

text \<open>An \<open>IntEnum\<close> is ordered by its value.\<close>

instantiation op :: linorder
begin

definition less_eq_op :: "op \<Rightarrow> op \<Rightarrow> bool" where
  "less_eq_op x y \<longleftrightarrow> op_code x \<le> op_code y"

definition less_op :: "op \<Rightarrow> op \<Rightarrow> bool" where
  "less_op x y \<longleftrightarrow> op_code x < op_code y"

instance
  by standard (auto simp: less_eq_op_def less_op_def simp flip: op_code_inj)

end

section \<open>Descriptors\<close>

record sfpu_descriptor =
  sd_op :: int
  sd_length :: int
  sd_shift :: int
  sd_multiplier :: int
  sd_tag :: int

definition SfpuDescriptor :: "int \<Rightarrow> int \<Rightarrow> int \<Rightarrow> int \<Rightarrow> int \<Rightarrow> sfpu_descriptor" where
  "SfpuDescriptor op' length' shift' multiplier' tag' =
     \<lparr>sd_op = op', sd_length = length', sd_shift = shift', sd_multiplier = multiplier', sd_tag = tag'\<rparr>"

definition sfpu_validate :: "sfpu_descriptor \<Rightarrow> unit res" where
  "sfpu_validate d =
     (case op_of (sd_op d) of None \<Rightarrow> Inl ValueError
      | Some x \<Rightarrow>
        if \<not> (1 \<le> sd_length d \<and> sd_length d \<le> (if x = SOFTMAX then 1024 else 3072)) then Inl ValueError
        else if x \<in> {AFFINE, AFFINE_GELU} \<and> (\<not> (0 \<le> sd_shift d \<and> sd_shift d \<le> 31) \<or> sd_multiplier d \<noteq> 0)
        then Inl ValueError
        else if x = REQUANT8 \<and> (\<not> (0 \<le> sd_shift d \<and> sd_shift d \<le> 31)
                 \<or> \<not> (0 \<le> sd_multiplier d \<and> sd_multiplier d < push_bit 31 1))
        then Inl ValueError
        else if x \<notin> {AFFINE, AFFINE_GELU, REQUANT8} \<and> (sd_shift d \<noteq> 0 \<or> sd_multiplier d \<noteq> 0)
        then Inl ValueError
        else if \<not> (0 \<le> sd_tag d \<and> sd_tag d \<le> 0xffffffff) then Inl ValueError
        else Inr ())"

definition sd_planes :: "sfpu_descriptor \<Rightarrow> int" where
  "sd_planes d = (if sd_op d \<in> {2, 4, 6} then 3 else if sd_op d = 7 then 2 else 1)"

definition sd_input_words :: "sfpu_descriptor \<Rightarrow> int" where
  "sd_input_words d = sd_planes d * sd_length d"

section \<open>Evaluation\<close>

definition as_words :: "int list \<Rightarrow> int list" where
  "as_words xs = map (np_cast UInt32) (map (np_cast Int32) xs)"

definition sfpu_result :: "sfpu_descriptor \<Rightarrow> op \<Rightarrow> ndarray list \<Rightarrow> ndarray res" where
  "sfpu_result d x arrays =
     (case x of
        GELU \<Rightarrow> gelu_int (arrays ! 0)
      | LAYERNORM \<Rightarrow> layernorm_int (arrays ! 0) (arrays ! 1) (arrays ! 2)
      | SOFTMAX \<Rightarrow> softmax_int (arrays ! 0) (arrays ! 1)
      | AFFINE \<Rightarrow> affine_int (arrays ! 0) (arrays ! 1) (arrays ! 2) (sd_shift d)
      | AFFINE_GELU \<Rightarrow>
          rbind (affine_int (arrays ! 0) (arrays ! 1) (arrays ! 2) (sd_shift d)) gelu_int
      | REQUANT8 \<Rightarrow> requantize_int8 (arrays ! 0) (sd_multiplier d) (sd_shift d)
      | ADD \<Rightarrow> add_int (arrays ! 0) (arrays ! 1))"

definition evaluate_and_pack :: "sfpu_descriptor \<Rightarrow> ndarray list \<Rightarrow> (int list \<times> int list) res" where
  "evaluate_and_pack d arrays =
     rbind (sfpu_validate d) (\<lambda>_.
       case op_of (sd_op d) of None \<Rightarrow> Inl ValueError
       | Some x \<Rightarrow>
         let expected_planes = (if x = SOFTMAX then 2 else sd_planes d)
         in if int (length arrays) \<noteq> expected_planes
               \<or> list_ex (\<lambda>p. map int (nd_shape p) \<noteq> [sd_length d]) arrays
            then Inl ValueError
            else rbind (sfpu_result d x arrays) (\<lambda>result.
              let inputs = (if x = SOFTMAX
                    then map2 (\<lambda>w v. (w AND 0xffff) OR push_bit 16 v)
                           (as_words (nd_elems (arrays ! 0)))
                           (map (np_cast UInt32) (nd_elems (arrays ! 1)))
                    else as_words (concat (map nd_elems arrays)))
              in Inr (inputs, as_words (nd_elems result))))"

section \<open>Cycles of the v1 controller\<close>

text \<open>\<open>int(x[valid].max()) - x\<close> keeps the array's dtype, so the difference wraps at its width.\<close>

definition softmax_positive :: "ndarray \<Rightarrow> ndarray \<Rightarrow> int" where
  "softmax_positive x valid =
     (let mask = map (\<lambda>v. v \<noteq> 0) (nd_elems valid);
          kept = map fst (filter snd (zip (nd_elems x) mask))
      in if True \<in> set mask
         then int (length (filter (\<lambda>v. np_cast (nd_dtype x) (py_max kept - v) < 4096) kept))
         else 0)"

definition expected_compute_cycles :: "sfpu_descriptor \<Rightarrow> ndarray list \<Rightarrow> int" where
  "expected_compute_cycles d planes =
     (if sd_op d = op_code GELU then 6 * sd_length d
      else if sd_op d = op_code LAYERNORM then 281 * sd_length d + 313
      else if sd_op d = op_code SOFTMAX
      then 15 * sd_length d + 137 * softmax_positive (planes ! 0) (planes ! 1)
      else if sd_op d = op_code AFFINE_GELU then 77 * sd_length d
      else if sd_op d = op_code ADD then 4 * sd_length d
      else 75 * sd_length d)"

end
