(* ===== verification/StreamProps.thy ===== *)
theory StreamProps
  imports SfpuStream SfpuProps
begin

text \<open>
  What the SFPU packet reference promises: every valid descriptor with planes in range evaluates,
  the packet has the announced number of 32-bit words, the results stay in the operation's output
  range, the softmax packet carries score and mask losslessly, and the cycle accounting charges
  exactly the positions of positive weight.
\<close>

section \<open>Every operation returns\<close>

definition lane_ok :: "ndarray \<Rightarrow> int \<Rightarrow> int \<Rightarrow> bool" where
  "lane_ok p lo hi \<longleftrightarrow> np_integer (nd_dtype p) \<and> list_all (\<lambda>v. lo \<le> v \<and> v \<le> hi) (nd_elems p)"

definition planes_ok :: "sfpu_descriptor \<Rightarrow> op \<Rightarrow> ndarray list \<Rightarrow> bool" where
  "planes_ok d x ps \<longleftrightarrow> list_all (\<lambda>p. nd_wf p \<and> nd_shape p = [nat (sd_length d)]) ps \<and>
     (case x of
        SOFTMAX \<Rightarrow> length ps = 2 \<and> lane_ok (ps ! 0) (-32768) 32767 \<and> nd_dtype (ps ! 1) = Bool
      | GELU \<Rightarrow> length ps = 1 \<and> lane_ok (ps ! 0) (-32768) 32767
      | ADD \<Rightarrow> length ps = 2 \<and> list_all (\<lambda>p. lane_ok p (-32768) 32767) ps
      | LAYERNORM \<Rightarrow> length ps = 3 \<and> list_all (\<lambda>p. lane_ok p (-32768) 32767) ps
      | REQUANT8 \<Rightarrow> length ps = 1 \<and> lane_ok (ps ! 0) (-(2 ^ 31)) (2 ^ 31 - 1)
      | _ \<Rightarrow> length ps = 3 \<and> lane_ok (ps ! 0) (-(2 ^ 31)) (2 ^ 31 - 1) \<and> lane_ok (ps ! 1) 0 (2 ^ 31 - 1)
               \<and> lane_ok (ps ! 2) (-(2 ^ 31)) (2 ^ 31 - 1))"

text \<open>The output range of an operation.\<close>

definition op_low :: "op \<Rightarrow> int" where
  "op_low x = (if x = REQUANT8 then -128 else if x = SOFTMAX then 0 else -32768)"

definition op_high :: "op \<Rightarrow> int" where
  "op_high x = (if x = REQUANT8 then 127 else if x = SOFTMAX then 32768 else 32767)"

definition good_result :: "op \<Rightarrow> nat \<Rightarrow> ndarray res \<Rightarrow> bool" where
  "good_result x n r \<longleftrightarrow> (\<exists>a. r = Inr a \<and> nd_wf a \<and> nd_shape a = [n] \<and> np_integer (nd_dtype a)
     \<and> list_all (\<lambda>v. op_low x \<le> v \<and> v \<le> op_high x) (nd_elems a))"

lemma good_resultI:
  assumes "r = Inr (vec t xs)" "length xs = n" "np_integer t" "list_all (\<lambda>v. op_low x \<le> v \<and> v \<le> op_high x) xs"
    and "\<And>v. op_low x \<le> v \<Longrightarrow> v \<le> op_high x \<Longrightarrow> in_dtype t v"
  shows "good_result x n r"
proof -
  have "list_all (in_dtype t) xs" using assms(4,5) by (simp add: list_all_iff)
  then show ?thesis
    using assms(1-4) vec_wf [of t xs] by (auto simp: good_result_def map_np_cast_self)
qed

lemma checked_lane:
  assumes "nd_wf p" "nd_shape p = [n]" "lane_ok p lo hi" "1 \<le> n" "n \<le> m"
  shows "checked_vector p m lo hi = Inr (nd_elems p)" "length (nd_elems p) = n"
  using assms by (auto simp: checked_vector_def lane_ok_def list_all_iff list_ex_iff nd_wf_def)

lemma gelu_good:
  assumes "checked16 p = Inr x" "length x = n"
  shows "good_result GELU n (gelu_int p)"
  by (rule good_resultI [OF gelu_int_eq(1) [OF assms(1)]])
    (use assms gelu_int_eq(2) [OF assms(1)] in \<open>auto simp: op_low_def op_high_def np_integer_def list_all_iff\<close>)

lemma layernorm_good:
  assumes "checked16 a = Inr x" "checked16 g = Inr gs" "checked16 b = Inr bs"
    and "length x = n" "length gs = n" "length bs = n" "0 < n"
  shows "good_result LAYERNORM n (layernorm_int a g b)"
proof -
  obtain d where "layernorm_int a g b = Inr (vec Int16 (map (\<lambda>(raw, scale, offset).
       sat16 (rne_val ((int (length x) * raw - sum_list x) * scale * 256) d + offset)) (zip x (zip gs bs))))"
    using layernorm_int_eq [OF assms(1-3)] assms(4-7) by (metis less_numeral_extra(3) list.size(3))
  then show ?thesis
    by (rule good_resultI) (use assms in \<open>auto simp: op_low_def op_high_def np_integer_def list_all_iff\<close>)
qed

lemma softmax_good:
  assumes "checked_vector a MAX_SOFTMAX (-32768) 32767 = Inr x"
    and v: "nd_dtype valid = Bool" "nd_shape valid = [length x]" "nd_wf valid"
  shows "good_result SOFTMAX (length x) (softmax_int a valid)"
proof (cases "\<exists>k<length x. nd_elems valid ! k \<noteq> 0")
  case True
  then obtain k where "k < length x" "nd_elems valid ! k \<noteq> 0" by blast
  from softmax_int_eq [OF assms this] obtain out where
    out: "softmax_int a valid = Inr (vec UInt16 out)" "length out = length x" "sum_list out = 32768"
    "\<And>i. i < length x \<Longrightarrow> 0 \<le> out ! i" by metis
  have "0 \<le> w \<and> w \<le> 32768" if "w \<in> set out" for w
    using that out(2-4) member_le_sum_list [of w out] by (fastforce simp: in_set_conv_nth)
  then show ?thesis
    by (intro good_resultI [OF out(1,2)]) (auto simp: op_low_def op_high_def np_integer_def list_all_iff)
next
  case False
  have "length (nd_elems valid) = length x" using v by (simp add: nd_wf_def)
  then have "True \<notin> set (map (\<lambda>v. v \<noteq> 0) (nd_elems valid))"
    using False by (auto simp: in_set_conv_nth)
  then have "softmax_int a valid = Inr (vec UInt16 (replicate (length x) 0))"
    using assms(1) v by (simp add: softmax_int_def)
  then show ?thesis
    by (rule good_resultI) (auto simp: op_low_def op_high_def np_integer_def list_all_iff)
qed

lemma affine_good:
  assumes "checked31 a (-(2 ^ 31)) = Inr x" "checked31 m 0 = Inr ms" "checked31 b (-(2 ^ 31)) = Inr bs"
    and "length x = n" "length ms = n" "length bs = n" "0 \<le> s" "s \<le> 31"
  shows "good_result AFFINE n (affine_int a m b s)"
proof -
  have "rmap (\<lambda>(raw, scale, bias). rbind (rne_div (raw * scale) (push_bit (nat s) 1)) (\<lambda>q. Inr (sat16 (q + bias))))
      (zip x (zip ms bs))
    = Inr (map (\<lambda>(raw, scale, bias). sat16 (rne_val (raw * scale) (2 ^ nat s) + bias)) (zip x (zip ms bs)))"
    by (rule rmap_total) (auto simp: push_bit_eq_mult)
  then have "affine_int a m b s =
      Inr (vec Int16 (map (\<lambda>(raw, scale, bias). sat16 (rne_val (raw * scale) (2 ^ nat s) + bias)) (zip x (zip ms bs))))"
    using assms by (simp add: affine_int_def)
  then show ?thesis
    by (rule good_resultI) (use assms in \<open>auto simp: op_low_def op_high_def np_integer_def list_all_iff\<close>)
qed

lemma requantize_good:
  assumes "checked31 a (-(2 ^ 31)) = Inr x" "length x = n" "0 \<le> m" "m < 2 ^ 31" "0 \<le> s" "s \<le> 31"
  shows "good_result REQUANT8 n (requantize_int8 a m s)"
proof -
  have "rmap (\<lambda>raw. rbind (rne_div (raw * m) (push_bit (nat s) 1)) (\<lambda>q. Inr (max (-128) (min 127 q)))) x
    = Inr (map (\<lambda>raw. max (-128) (min 127 (rne_val (raw * m) (2 ^ nat s)))) x)"
    by (rule rmap_total) (simp add: push_bit_eq_mult)
  then have "requantize_int8 a m s =
      Inr (vec Int8 (map (\<lambda>raw. max (-128) (min 127 (rne_val (raw * m) (2 ^ nat s)))) x))"
    using assms by (simp add: requantize_int8_def push_bit_eq_mult)
  then show ?thesis
    by (rule good_resultI) (use assms in \<open>auto simp: op_low_def op_high_def np_integer_def list_all_iff\<close>)
qed

lemma add_good:
  assumes "checked16 a = Inr x" "checked16 b = Inr y" "length x = n" "length y = n"
  shows "good_result ADD n (add_int a b)"
  by (rule good_resultI [where t = Int16 and xs = "map2 (\<lambda>a b. sat16 (a + b)) x y"])
    (use assms in \<open>auto simp: add_int_def op_low_def op_high_def np_integer_def list_all_iff\<close>)

lemma affine_gelu_good:
  assumes "good_result AFFINE n r" "1 \<le> n" "n \<le> 3072"
  shows "good_result AFFINE_GELU n (rbind r gelu_int)"
proof -
  obtain a where a: "r = Inr a" "nd_wf a" "nd_shape a = [n]" "lane_ok a (-32768) 32767"
    using assms(1) by (auto simp: good_result_def lane_ok_def op_low_def op_high_def)
  from checked_lane [OF a(2-4) assms(2)] assms(3) have "checked16 a = Inr (nd_elems a)" "length (nd_elems a) = n"
    by (auto simp: MAX_VECTOR_def)
  from gelu_good [OF this] show ?thesis
    using a(1) by (simp add: good_result_def op_low_def op_high_def)
qed

text \<open>A valid descriptor and planes in range: the operation returns.\<close>

lemma sfpu_result_good:
  assumes v: "sfpu_validate d = Inr ()" and x: "op_of (sd_op d) = Some x" and p: "planes_ok d x ps"
  shows "good_result x (nat (sd_length d)) (sfpu_result d x ps)"
proof -
  define n where "n = nat (sd_length d)"
  have n: "1 \<le> n" "n \<le> MAX_VECTOR" "x = SOFTMAX \<Longrightarrow> n \<le> MAX_SOFTMAX"
    using v x by (auto simp: sfpu_validate_def n_def MAX_VECTOR_def MAX_SOFTMAX_def split: if_splits)
  have s: "0 \<le> sd_shift d" "sd_shift d \<le> 31" if "x \<in> {AFFINE, AFFINE_GELU, REQUANT8}"
    using v x that by (auto simp: sfpu_validate_def split: if_splits)
  have m: "0 \<le> sd_multiplier d" "sd_multiplier d < 2 ^ 31" if "x = REQUANT8"
    using v x that by (auto simp: sfpu_validate_def split: if_splits)
  have sh: "nd_wf (ps ! i) \<and> nd_shape (ps ! i) = [n]" if "i < length ps" for i
    using p that by (auto simp: planes_ok_def n_def list_all_iff)
  note L = checked_lane [OF sh [THEN conjunct1] sh [THEN conjunct2] _ n(1)]
  have c16: "checked16 (ps ! i) = Inr (nd_elems (ps ! i))" "length (nd_elems (ps ! i)) = n"
    if "i < length ps" "lane_ok (ps ! i) (-32768) 32767" for i
    using L [OF that(1,1,2) n(2)] by auto
  have c31: "checked31 (ps ! i) lo = Inr (nd_elems (ps ! i))" "length (nd_elems (ps ! i)) = n"
    if "i < length ps" "lane_ok (ps ! i) lo (2 ^ 31 - 1)" for i lo
    using L [OF that(1,1,2) n(2)] by auto
  have aff: "good_result AFFINE n (affine_int (ps ! 0) (ps ! 1) (ps ! 2) (sd_shift d))" if "x \<in> {AFFINE, AFFINE_GELU}"
    by (rule affine_good [OF c31(1) c31(1) c31(1) c31(2) c31(2) c31(2)])
      (use that p s in \<open>auto simp: planes_ok_def\<close>)
  show ?thesis unfolding n_def [symmetric]
  proof (cases x)
    case GELU
    then show "good_result x n (sfpu_result d x ps)"
      using p gelu_good [OF c16 [of 0]] by (simp add: sfpu_result_def planes_ok_def)
  next
    case LAYERNORM
    then show "good_result x n (sfpu_result d x ps)"
      using p n layernorm_good [OF c16(1) [of 0] c16(1) [of 1] c16(1) [of 2] c16(2) c16(2) c16(2)]
      by (simp add: sfpu_result_def planes_ok_def list_all_length)
  next
    case SOFTMAX
    then have l: "lane_ok (ps ! 0) (-32768) 32767" "length ps = 2" using p by (auto simp: planes_ok_def)
    from L [of 0, OF _ _ l(1) n(3) [OF SOFTMAX]] l(2)
    have c: "checked_vector (ps ! 0) MAX_SOFTMAX (-32768) 32767 = Inr (nd_elems (ps ! 0))"
      "length (nd_elems (ps ! 0)) = n" by auto
    from softmax_good [OF c(1), of "ps ! 1"] show "good_result x n (sfpu_result d x ps)"
      using SOFTMAX p sh [of 1] c(2) l(2) by (simp add: sfpu_result_def planes_ok_def)
  next
    case REQUANT8
    then show "good_result x n (sfpu_result d x ps)"
      using p requantize_good [OF c31 [of 0 "- (2 ^ 31)"]] s m by (simp add: sfpu_result_def planes_ok_def)
  next
    case ADD
    then show "good_result x n (sfpu_result d x ps)"
      using p add_good [OF c16(1) [of 0] c16(1) [of 1] c16(2) c16(2)]
      by (simp add: sfpu_result_def planes_ok_def list_all_length)
  next
    case AFFINE
    then show "good_result x n (sfpu_result d x ps)" using aff by (simp add: sfpu_result_def)
  next
    case AFFINE_GELU
    then show "good_result x n (sfpu_result d x ps)"
      using aff affine_gelu_good [of n] n by (simp add: sfpu_result_def MAX_VECTOR_def)
  qed
qed

section \<open>Packets\<close>

lemma as_words_back: "list_all (\<lambda>v. -(2 ^ 31) \<le> v \<and> v < 2 ^ 31) xs \<Longrightarrow> map (np_cast Int32) (as_words xs) = xs"
  by (induction xs)
    (auto simp: as_words_def signed_take_bit_take_bit signed_take_bit_int_eq_self)

lemma as_words_u32: "list_all (in_dtype UInt32) (as_words xs)"
  by (simp add: as_words_def list_all_iff in_dtype_def del: in_dtype_simps)

lemma length_as_words [simp]: "length (as_words xs) = length xs" by (simp add: as_words_def)

definition softmax_word :: "int \<Rightarrow> int \<Rightarrow> int" where
  "softmax_word w v = (w AND 0xffff) OR push_bit 16 v"

lemma softmax_word_eq: "softmax_word w v = take_bit 16 w + v * 2 ^ 16"
  by (simp only: softmax_word_def and_65535 or_push_bit take_bit_less)

lemma softmax_word_u32: "v \<in> {0, 1} \<Longrightarrow> in_dtype UInt32 (softmax_word w v)"
  using take_bit_less [of 16 w] by (auto simp: softmax_word_eq)

lemma softmax_word_back:
  assumes "v \<in> {0, 1}" "-32768 \<le> w" "w \<le> 32767"
  shows "signed_take_bit 15 (softmax_word (np_cast UInt32 (np_cast Int32 w)) v) = w"
    "bit (softmax_word (np_cast UInt32 (np_cast Int32 w)) v) 16 = (v = 1)"
proof -
  have w: "softmax_word u v = concat_bit 16 u v" for u
    by (simp add: softmax_word_def concat_bit_def and_65535)
  have "signed_take_bit 15 (softmax_word (np_cast UInt32 (np_cast Int32 w)) v) = signed_take_bit 15 w"
    unfolding w by (intro bit_eqI) (auto simp: bit_simps min_def)
  also have "\<dots> = w" using assms by (intro signed_take_bit_int_eq_self) auto
  finally show "signed_take_bit 15 (softmax_word (np_cast UInt32 (np_cast Int32 w)) v) = w" .
  show "bit (softmax_word (np_cast UInt32 (np_cast Int32 w)) v) 16 = (v = 1)"
    using assms(1) unfolding w by (auto simp: bit_simps)
qed

lemma evaluate_and_pack_eq:
  assumes v: "sfpu_validate d = Inr ()" and x: "op_of (sd_op d) = Some x" and p: "planes_ok d x ps"
  obtains r where "evaluate_and_pack d ps = Inr (if x = SOFTMAX
        then map2 softmax_word (as_words (nd_elems (ps ! 0))) (map (np_cast UInt32) (nd_elems (ps ! 1)))
        else as_words (concat (map nd_elems ps)), as_words (nd_elems r))"
    "sfpu_result d x ps = Inr r" "nd_wf r" "nd_shape r = [nat (sd_length d)]"
    "list_all (\<lambda>v. op_low x \<le> v \<and> v \<le> op_high x) (nd_elems r)"
proof -
  obtain r where r: "sfpu_result d x ps = Inr r" "nd_wf r" "nd_shape r = [nat (sd_length d)]"
    "list_all (\<lambda>v. op_low x \<le> v \<and> v \<le> op_high x) (nd_elems r)"
    using sfpu_result_good [OF assms] by (auto simp: good_result_def)
  have len: "0 \<le> sd_length d" using v x by (auto simp: sfpu_validate_def split: if_splits)
  have shape: "\<not> list_ex (\<lambda>p. map int (nd_shape p) \<noteq> [sd_length d]) ps"
    using p len by (auto simp: planes_ok_def list_all_iff list_ex_iff)
  have n: "int (length ps) = (if x = SOFTMAX then 2 else sd_planes d)"
    using p x by (cases x) (auto simp: planes_ok_def sd_planes_def)
  show ?thesis
    by (rule that [OF _ r])
      (use v x shape n r(1) in \<open>simp add: evaluate_and_pack_def softmax_word_def Let_def cong: if_cong\<close>)
qed

lemma planes_wf:
  assumes "planes_ok d x ps" "i < length ps"
  shows "nd_wf (ps ! i)" "nd_shape (ps ! i) = [nat (sd_length d)]" "length (nd_elems (ps ! i)) = nat (sd_length d)"
  using assms by (auto simp: planes_ok_def list_all_length nd_wf_def)

lemma bool_elems: "nd_wf p \<Longrightarrow> nd_dtype p = Bool \<Longrightarrow> v \<in> set (nd_elems p) \<Longrightarrow> v \<in> {0, 1}"
  by (fastforce simp: nd_wf_def list_all_iff in_dtype_def of_bool_def split: if_splits)

text \<open>The input packet: its length and its words.\<close>

lemma input_packet:
  fixes d x ps
  defines "ins \<equiv> (if x = SOFTMAX
        then map2 softmax_word (as_words (nd_elems (ps ! 0))) (map (np_cast UInt32) (nd_elems (ps ! 1)))
        else as_words (concat (map nd_elems ps)))"
  assumes p: "planes_ok d x ps" and x: "op_of (sd_op d) = Some x" and len: "0 \<le> sd_length d"
  shows "int (length ins) = sd_input_words d" "list_all (in_dtype UInt32) ins"
proof -
  have c: "length (concat (map nd_elems ps)) = length ps * nat (sd_length d)"
    using planes_wf(3) [OF p] by (subst length_concat_const [where c = "nat (sd_length d)"]) (auto simp: in_set_conv_nth)
  have s: "length ps = 2" "nd_dtype (ps ! 1) = Bool" if "x = SOFTMAX" using p that by (auto simp: planes_ok_def)
  have n: "x \<noteq> SOFTMAX \<Longrightarrow> int (length ps) = sd_planes d" "x = SOFTMAX \<Longrightarrow> sd_planes d = 1"
    using p x by (cases x; simp add: planes_ok_def sd_planes_def)+
  show "int (length ins) = sd_input_words d"
  proof (cases "x = SOFTMAX")
    case True
    then show ?thesis using s(1) n(2) planes_wf(3) [OF p, of 0] planes_wf(3) [OF p, of 1] len
      by (simp add: ins_def sd_input_words_def)
  next
    case False
    then show ?thesis using n(1) c len by (simp add: ins_def sd_input_words_def)
  qed
  show "list_all (in_dtype UInt32) ins"
  proof (cases "x = SOFTMAX")
    case True
    have "v \<in> {0, 1}" if "v \<in> set (nd_elems (ps ! 1))" for v
      using bool_elems [OF planes_wf(1) [OF p] s(2) [OF True] that] s(1) [OF True] by simp
    then have *: "np_cast UInt32 v \<in> {0, 1}" if "v \<in> set (nd_elems (ps ! 1))" for v using that by fastforce
    have "in_dtype UInt32 (softmax_word (fst p) (snd p))"
      if "p \<in> set (zip (as_words (nd_elems (ps ! 0))) (map (np_cast UInt32) (nd_elems (ps ! 1))))" for p
    proof (rule softmax_word_u32)
      have "snd p \<in> np_cast UInt32 ` set (nd_elems (ps ! 1))"
        using set_zip_rightD [of "fst p" "snd p"] that by (metis prod.collapse set_map)
      then obtain u where "u \<in> set (nd_elems (ps ! 1))" "snd p = np_cast UInt32 u" by (rule imageE)
      then show "snd p \<in> {0, 1}" using * by (simp only:)
    qed
    then show ?thesis using True by (simp add: ins_def list_all_iff case_prod_beta del: np_cast.simps in_dtype_simps)
  next
    case False
    then show ?thesis using as_words_u32 by (simp add: ins_def del: in_dtype_simps)
  qed
qed

text \<open>C39: A valid descriptor with planes in range always evaluates: the input packet has the
  announced number of words, the output packet one word per element, every word is a uint32, and
  the output words read back as int32 lie in the operation's range.\<close>

theorem stream_contract:
  assumes "sfpu_validate d = Inr ()" "op_of (sd_op d) = Some x" "planes_ok d x ps"
  shows "\<exists>ins outs. evaluate_and_pack d ps = Inr (ins, outs)
    \<and> int (length ins) = sd_input_words d \<and> int (length outs) = sd_length d
    \<and> list_all (in_dtype UInt32) ins \<and> list_all (in_dtype UInt32) outs
    \<and> list_all (\<lambda>w. op_low x \<le> np_cast Int32 w \<and> np_cast Int32 w \<le> op_high x) outs"
proof -
  obtain r where e: "evaluate_and_pack d ps = Inr (if x = SOFTMAX
        then map2 softmax_word (as_words (nd_elems (ps ! 0))) (map (np_cast UInt32) (nd_elems (ps ! 1)))
        else as_words (concat (map nd_elems ps)), as_words (nd_elems r))"
    and r: "nd_wf r" "nd_shape r = [nat (sd_length d)]"
      "list_all (\<lambda>v. op_low x \<le> v \<and> v \<le> op_high x) (nd_elems r)"
    by (rule evaluate_and_pack_eq [OF assms])
  have len: "0 \<le> sd_length d" using assms(1,2) by (auto simp: sfpu_validate_def split: if_splits)
  have "list_all (\<lambda>v. -(2 ^ 31) \<le> v \<and> v < 2 ^ 31) (nd_elems r)"
    using r(3) by (auto simp: list_all_iff op_low_def op_high_def split: if_splits)
  then have "list_all (\<lambda>v. op_low x \<le> v \<and> v \<le> op_high x) (map (np_cast Int32) (as_words (nd_elems r)))"
    using as_words_back [of "nd_elems r"] r(3) by (simp only:)
  then have range: "list_all (\<lambda>w. op_low x \<le> np_cast Int32 w \<and> np_cast Int32 w \<le> op_high x) (as_words (nd_elems r))"
    by (simp only: list.pred_map comp_def)
  have outs: "int (length (as_words (nd_elems r))) = sd_length d" using r(1,2) len by (simp add: nd_wf_def)
  note ip = input_packet [OF assms(3,2) len]
  show ?thesis
    by (intro exI conjI, rule e)
      (rule ip as_words_u32 outs range)+
qed

theorem stream_contract_witness:
  "\<exists>ins outs. evaluate_and_pack (SfpuDescriptor 6 2 4 0 9)
       [vec Int32 [5, -70000], vec Int32 [16, 100], vec Int32 [0, 3]] = Inr (ins, outs)
     \<and> length ins = 6 \<and> length outs = 2"
proof -
  have c: "sfpu_validate (SfpuDescriptor 6 2 4 0 9) = Inr ()"
    "op_of (sd_op (SfpuDescriptor 6 2 4 0 9)) = Some AFFINE_GELU"
    "planes_ok (SfpuDescriptor 6 2 4 0 9) AFFINE_GELU
       [vec Int32 [5, -70000], vec Int32 [16, 100], vec Int32 [0, 3]]"
    by code_simp+
  from stream_contract [OF c] obtain ins outs where
    "evaluate_and_pack (SfpuDescriptor 6 2 4 0 9)
       [vec Int32 [5, -70000], vec Int32 [16, 100], vec Int32 [0, 3]] = Inr (ins, outs)"
    "int (length ins) = sd_input_words (SfpuDescriptor 6 2 4 0 9)"
    "int (length outs) = sd_length (SfpuDescriptor 6 2 4 0 9)" by blast
  moreover have "sd_input_words (SfpuDescriptor 6 2 4 0 9) = 6" "sd_length (SfpuDescriptor 6 2 4 0 9) = 2"
    by code_simp+
  ultimately show ?thesis by auto
qed

text \<open>The softmax packet is lossless: each input word carries its score in the low half (sign
  extension gives it back) and its mask in bit 16, so the device sees exactly the two planes.\<close>

theorem softmax_packet_lossless:
  assumes "sfpu_validate d = Inr ()" "op_of (sd_op d) = Some SOFTMAX" "planes_ok d SOFTMAX [scores, valid]"
    and "evaluate_and_pack d [scores, valid] = Inr (ins, outs)"
  shows "map (signed_take_bit 15) ins = nd_elems scores
    \<and> map (\<lambda>w. bit w 16) ins = map (\<lambda>v. v = 1) (nd_elems valid)"
proof -
  have ins: "ins = map2 softmax_word (as_words (nd_elems scores)) (map (np_cast UInt32) (nd_elems valid))"
    by (rule evaluate_and_pack_eq [OF assms(1-3)]) (use assms(4) in simp)
  have l: "length (nd_elems scores) = length (nd_elems valid)"
    using planes_wf(3) [OF assms(3), of 0] planes_wf(3) [OF assms(3), of 1] by simp
  have b: "v \<in> {0, 1} \<and> np_cast UInt32 v = v" if "v \<in> set (nd_elems valid)" for v
    using bool_elems [of valid v] planes_wf(1) [OF assms(3), of 1] assms(3) that
    by (auto simp: planes_ok_def)
  have s: "-32768 \<le> w \<and> w \<le> 32767" if "w \<in> set (nd_elems scores)" for w
    using assms(3) that by (auto simp: planes_ok_def lane_ok_def list_all_iff)
  have "signed_take_bit 15 (ins ! i) = nd_elems scores ! i \<and> bit (ins ! i) 16 = (nd_elems valid ! i = 1)"
    if "i < length (nd_elems scores)" for i
    using that l b [of "nd_elems valid ! i"] s [of "nd_elems scores ! i"]
      softmax_word_back [of "nd_elems valid ! i" "nd_elems scores ! i"]
    by (simp add: ins as_words_def del: np_cast.simps)
  then show ?thesis using l by (auto simp: list_eq_iff_nth_eq ins)
qed

theorem softmax_packet_lossless_witness:
  "\<exists>ins outs. evaluate_and_pack (SfpuDescriptor 3 2 0 0 0) [vec Int32 [-5, 32767], vec Bool [1, 0]] = Inr (ins, outs)
     \<and> map (signed_take_bit 15) ins = [-5, 32767] \<and> map (\<lambda>w. bit w 16) ins = [True, False]"
proof -
  have e: "evaluate_and_pack (SfpuDescriptor 3 2 0 0 0) [vec Int32 [-5, 32767], vec Bool [1, 0]]
    = Inr ([131067, 32767], [32768, 0])" by code_simp
  have c: "sfpu_validate (SfpuDescriptor 3 2 0 0 0) = Inr ()"
    "op_of (sd_op (SfpuDescriptor 3 2 0 0 0)) = Some SOFTMAX"
    "planes_ok (SfpuDescriptor 3 2 0 0 0) SOFTMAX [vec Int32 [-5, 32767], vec Bool [1, 0]]"
    by code_simp+
  have "nd_elems (vec Int32 [-5, 32767]) = [-5, 32767]"
    "map (\<lambda>v. v = 1) (nd_elems (vec Bool [1, 0])) = [True, False]" by code_simp+
  with softmax_packet_lossless [OF c e] e show ?thesis by metis
qed

section \<open>Cycle accounting\<close>

lemma exp_weight_pos:
  assumes "0 \<le> e" "e < 4096"
  shows "0 < exp_weight e"
proof -
  define i where "i = nat (e div 16)"
  have i: "i + 1 \<le> 256" using assms by (simp add: i_def)
  have "exp_table ! 256 = 2" by code_simp
  then have "2 \<le> exp_table ! (i + 1)" using exp_table_antimono [of "i + 1" 256] i by simp
  then have "2 * 16 \<le> exp_table ! i * (16 - e mod 16) + exp_table ! (i + 1) * (e mod 16)"
    using exp_interp(2) [OF assms] by (simp add: i_def)
  from rne.mono [OF _ _ this, of 16] have "2 \<le> exp_weight e"
    using assms rne.exact [of 16 32 2] by (simp add: exp_weight_def i_def)
  then show ?thesis by simp
qed

text \<open>The softmax cycle count charges the weighted states exactly for the valid positions whose
  exponential weight is nonzero, when the scores are held at 32 or 64 bits.\<close>

theorem softmax_cycles:
  assumes "checked_vector a MAX_SOFTMAX (-32768) 32767 = Inr x" "nd_dtype a = Int32 \<or> nd_dtype a = Int64"
    and "sd_op d = op_code SOFTMAX"
  shows "expected_compute_cycles d [a, valid] = 15 * sd_length d + 137 *
    (let kept = map fst (filter snd (zip x (map (\<lambda>v. v \<noteq> 0) (nd_elems valid))))
     in int (length (filter (\<lambda>raw. exp_negative_int (py_max kept - raw) \<noteq> Inr 0) kept)))"
proof -
  define kept where "kept = map fst (filter snd (zip x (map (\<lambda>v. v \<noteq> 0) (nd_elems valid))))"
  have x: "x = nd_elems a" using checked_vector_Inr(1) [OF assms(1)] .
  have rng: "-32768 \<le> v \<and> v \<le> 32767" if "v \<in> set kept" for v
    using that checked_vector_Inr(2) [OF assms(1), of v] by (auto simp: kept_def dest: set_zip_leftD)
  have eq: "(np_cast (nd_dtype a) (py_max kept - v) < 4096) = (exp_negative_int (py_max kept - v) \<noteq> Inr 0)"
    if "v \<in> set kept" for v
  proof -
    have "py_max kept \<in> set kept" by (rule py_max_in) (use that in auto)
    then have "py_max kept - v < 65536" using rng [OF that] rng [of "py_max kept"] by linarith
    moreover have ge: "v \<le> py_max kept" using py_max_ge [OF that] .
    ultimately have "np_cast (nd_dtype a) (py_max kept - v) = py_max kept - v"
      using assms(2) by (intro np_cast_self) auto
    then show ?thesis
      using ge exp_weight_pos [of "py_max kept - v"] exp_negative_int_eq [of "py_max kept - v"]
      by (auto simp: exp_weight_def)
  qed
  have fc: "filter (\<lambda>v. np_cast (nd_dtype a) (py_max kept - v) < 4096) kept
      = filter (\<lambda>v. exp_negative_int (py_max kept - v) \<noteq> Inr 0) kept"
    by (rule filter_cong [OF refl eq])
  have "softmax_positive a valid =
      (if True \<in> set (map (\<lambda>v. v \<noteq> 0) (nd_elems valid))
       then int (length (filter (\<lambda>v. exp_negative_int (py_max kept - v) \<noteq> Inr 0) kept)) else 0)"
    unfolding softmax_positive_def Let_def x [symmetric] kept_def [symmetric] fc ..
  moreover have "kept = []" if "True \<notin> set (map (\<lambda>v. v \<noteq> 0) (nd_elems valid))"
    using that by (auto simp: kept_def filter_empty_conv dest!: set_zip_rightD)
  ultimately have "softmax_positive a valid =
      int (length (filter (\<lambda>v. exp_negative_int (py_max kept - v) \<noteq> Inr 0) kept))"
    by auto
  then show ?thesis using assms(3) by (simp add: expected_compute_cycles_def kept_def Let_def)
qed

theorem softmax_cycles_witness:
  "expected_compute_cycles (SfpuDescriptor 3 3 0 0 0) [vec Int32 [0, -32768, 32767], vec Bool [1, 1, 0]]
     = 15 * 3 + 137 * 1"
proof -
  have c: "checked_vector (vec Int32 [0, -32768, 32767]) MAX_SOFTMAX (-32768) 32767 = Inr [0, -32768, 32767]"
    "nd_dtype (vec Int32 [0, -32768, 32767]) = Int32 \<or> nd_dtype (vec Int32 [0, -32768, 32767]) = Int64"
    "sd_op (SfpuDescriptor 3 3 0 0 0) = op_code SOFTMAX" by code_simp+
  show ?thesis unfolding softmax_cycles [OF c] by code_simp
qed

text \<open>For int16 scores, which the packet reference accepts, the difference wraps in int16 and the
  count is too high: the far score has weight 0 but is charged.\<close>

theorem softmax_cycles_int16_wrap:
  "expected_compute_cycles (SfpuDescriptor 3 2 0 0 0) [vec Int16 [32767, -32768], vec Bool [1, 1]] = 15 * 2 + 137 * 2
   \<and> expected_compute_cycles (SfpuDescriptor 3 2 0 0 0) [vec Int32 [32767, -32768], vec Bool [1, 1]] = 15 * 2 + 137
   \<and> evaluate_and_pack (SfpuDescriptor 3 2 0 0 0) [vec Int16 [32767, -32768], vec Bool [1, 1]]
       = evaluate_and_pack (SfpuDescriptor 3 2 0 0 0) [vec Int32 [32767, -32768], vec Bool [1, 1]]"
  by code_simp

end
