(* ===== verification/M3Packets.thy ===== *)
theory M3Packets
  imports SfpuRef
begin

text \<open>
  The packet files of \<open>ref/m3_packets.py\<close>: the three wire formats read from bytes with a cursor
  (the closure \<open>words\<close>), the patch of dependent input lanes between two steps of a chain, and the
  dynamic int8 scale computed on the host.
\<close>

section \<open>Packets\<close>

record packet =
  pk_kind :: int
  pk_parameters :: "int list"
  pk_tag :: int
  pk_inputs :: "int list"
  pk_expected :: "int list"
  pk_cycles :: int
  pk_source :: int
  pk_mode :: int
  pk_count :: int
  pk_destination :: int
  pk_offset :: int
  pk_result_count :: int
  pk_scenario :: int

text \<open>\<open>np.prod\<close> of Python ints is an int64 product.\<close>

definition packet_macs :: "packet \<Rightarrow> int" where
  "packet_macs p =
     (if pk_kind p = 0 then np_cast Int64 (prod_list (take 3 (pk_parameters p))) else 0)"

section \<open>The reader\<close>

definition words :: "int list \<Rightarrow> int \<Rightarrow> (nat, int list) act" where
  "words data count cursor =
     (if \<not> (0 \<le> count \<and> count \<le> 100000) \<or> int cursor + 4 * count > int (length data)
      then (Inl ValueError, cursor)
      else (Inr (view_words (take (4 * nat count) (drop cursor data))), cursor + 4 * nat count))"

definition read_packet :: "int list \<Rightarrow> int \<Rightarrow> (nat, packet) act" where
  "read_packet data magic =
     (if magic = 0x334e4843 then
        bind (words data 16) (\<lambda>m.
        bind (words data (m ! 6)) (\<lambda>inputs.
        bind (words data (m ! 7)) (\<lambda>expected.
          ret \<lparr>pk_kind = m ! 0, pk_parameters = [m ! 1, m ! 2, m ! 3, m ! 4], pk_tag = m ! 5,
               pk_inputs = inputs, pk_expected = expected, pk_cycles = m ! 8, pk_source = m ! 9,
               pk_mode = m ! 10, pk_count = m ! 11, pk_destination = m ! 12, pk_offset = m ! 13,
               pk_result_count = m ! 14, pk_scenario = m ! 15\<rparr>)))
      else if magic = 0x33504653 then
        bind (words data 8) (\<lambda>m.
        bind (words data (m ! 5)) (\<lambda>inputs.
        bind (words data (m ! 6)) (\<lambda>expected.
          ret \<lparr>pk_kind = 1, pk_parameters = [m ! 0, m ! 1, m ! 2, m ! 3], pk_tag = m ! 4,
               pk_inputs = inputs, pk_expected = expected, pk_cycles = m ! 7, pk_source = 0,
               pk_mode = 0, pk_count = 0, pk_destination = 0, pk_offset = 0, pk_result_count = 0,
               pk_scenario = 0\<rparr>)))
      else if magic = 0x324d4547 then
        bind (words data 7) (\<lambda>m.
        bind (words data (m ! 5)) (\<lambda>inputs.
        bind (words data (m ! 6)) (\<lambda>expected.
          ret \<lparr>pk_kind = 0, pk_parameters = [m ! 0, m ! 1, m ! 2, m ! 4], pk_tag = m ! 3,
               pk_inputs = inputs, pk_expected = expected,
               pk_cycles = ((m ! 0 + 3) div 4) * (m ! 2 + 6) + m ! 0 * (if m ! 4 \<noteq> 0 then 16 else 8),
               pk_source = 0, pk_mode = 0, pk_count = 0, pk_destination = 0, pk_offset = 0,
               pk_result_count = 0, pk_scenario = 0\<rparr>)))
      else raise ValueError)"

definition read_packets :: "int list \<Rightarrow> (packet list \<times> int) res" where
  "read_packets data = fst
     (bind (words data 3) (\<lambda>header.
      let magic = header ! 0; count = header ! 1; seed = header ! 2 in
      bseq (require (\<not> (count < 1 \<or> count > 100000)) ValueError)
       (bind (mapM_act (\<lambda>_. read_packet data magic) [0..<nat count]) (\<lambda>packets.
        bind (gets (\<lambda>cursor. cursor \<noteq> length data)) (\<lambda>trailing.
        bseq (require (\<not> trailing) ValueError) (ret (packets, seed)))))) 0)"

section \<open>Chains\<close>

text \<open>\<open>xs[:n]\<close>, and \<open>xs[:n] = ys\<close> of NumPy: the lengths agree, or one element is broadcast.\<close>

definition upto :: "int \<Rightarrow> 'a list \<Rightarrow> 'a list" where
  "upto n xs = take (nat (if n < 0 then int (length xs) + n else n)) xs"

definition assign_upto :: "int \<Rightarrow> 'a list \<Rightarrow> 'a list \<Rightarrow> 'a list res" where
  "assign_upto n ys xs =
     (let m = length (upto n xs) in
      if length ys = m then Inr (ys @ drop m xs)
      else if length ys = 1 then Inr (replicate m (hd ys) @ drop m xs)
      else Inl ValueError)"

text \<open>\<open>a op b\<close> of two vectors, with NumPy's broadcast of a single element.\<close>

definition np_map2 :: "('a \<Rightarrow> 'b \<Rightarrow> 'c) \<Rightarrow> 'a list \<Rightarrow> 'b list \<Rightarrow> 'c list res" where
  "np_map2 f xs ys =
     (if length xs = length ys then Inr (map2 f xs ys)
      else if length xs = 1 then Inr (map (f (hd xs)) ys)
      else if length ys = 1 then Inr (map (\<lambda>x. f x (hd ys)) xs)
      else Inl ValueError)"

definition patch_input :: "packet \<Rightarrow> int list \<Rightarrow> int list \<Rightarrow> int list res" where
  "patch_input packet source target =
     (let n = pk_count packet in
      if int (length source) < n then Inl ValueError
      else if pk_mode packet = 1 then assign_upto n (upto n source) target
      else if pk_mode packet = 2 then
        rbind (assign_upto n (map (\<lambda>v. np_cast UInt8 (v AND 255)) (upto n source)) (view_bytes target))
          (\<lambda>bytes. Inr (view_words bytes))
      else if pk_mode packet = 3 then
        rbind (np_map2 (\<lambda>t s. (t AND 0x10000) OR (s AND 0xffff)) (upto n target) (upto n source))
          (\<lambda>lanes. assign_upto n lanes target)
      else Inl ValueError)"

definition runtime_requant_parameters :: "int list \<Rightarrow> (int \<times> int) res" where
  "runtime_requant_parameters source =
     (let values = map (np_cast Int32) source in
      if values = [] then Inl ValueError
      else let maximum = py_max (map abs values) in
        if maximum = 0 then Inr (0, 24)
        else let quotient = push_bit 24 127 div maximum; remainder = push_bit 24 127 mod maximum;
                 quotient = quotient + of_bool (2 * remainder > maximum
                              \<or> (2 * remainder = maximum \<and> quotient AND 1 \<noteq> 0))
             in Inr (quotient, 24))"

end
