(* ===== verification/PacketProps.thy ===== *)
theory PacketProps
  imports M3Packets SfpuLaws
begin

text \<open>
  Packet files: the reader inverts the writers of the vector generators on all three formats and
  accepts a file only when it consumes every byte of it; the lane patch touches the dependent lanes
  alone; the host's dynamic scale is the reference's.
\<close>

section \<open>Reading words\<close>

lemma u32_self: "list_all (in_dtype UInt32) ws \<Longrightarrow> map (take_bit 32) ws = ws"
  using map_np_cast_self [of UInt32 ws] by (metis map_eq_conv np_cast.simps(7))

lemma words_at:
  assumes "list_all (in_dtype UInt32) ws" "length ws \<le> 100000" "c = length pre" "n = int (length ws)"
  shows "words (pre @ view_bytes ws @ post) n c = (Inr ws, c + 4 * length ws)"
  using assms u32_self [OF assms(1)] by (simp add: words_def view_words_bytes)

lemma words_Inr:
  assumes "words data n c = (Inr ws, c')"
  shows "0 \<le> n" "length ws = nat n" "c' = c + 4 * nat n" "c' \<le> length data"
  using assms by (auto simp: words_def length_view_words split: if_splits)

section \<open>The writers\<close>

text \<open>The words of a packet in each of the three formats: chain, SFPU, GEMM.\<close>

definition encode_packet :: "int \<Rightarrow> packet \<Rightarrow> int list" where
  "encode_packet magic p =
     (let q = pk_parameters p; ni = int (length (pk_inputs p)); no = int (length (pk_expected p))
      in if magic = 0x334e4843 then
           pk_kind p # q @ [pk_tag p, ni, no, pk_cycles p, pk_source p, pk_mode p, pk_count p,
             pk_destination p, pk_offset p, pk_result_count p, pk_scenario p]
         else if magic = 0x33504653 then q @ [pk_tag p, ni, no, pk_cycles p]
         else [q ! 0, q ! 1, q ! 2, pk_tag p, q ! 3, ni, no])
     @ pk_inputs p @ pk_expected p"

definition plain :: "packet \<Rightarrow> bool" where
  "plain p \<longleftrightarrow> pk_source p = 0 \<and> pk_mode p = 0 \<and> pk_count p = 0 \<and> pk_destination p = 0
     \<and> pk_offset p = 0 \<and> pk_result_count p = 0 \<and> pk_scenario p = 0"

definition encodable :: "int \<Rightarrow> packet \<Rightarrow> bool" where
  "encodable magic p \<longleftrightarrow>
     list_all (in_dtype UInt32) (encode_packet magic p) \<and> length (pk_parameters p) = 4
     \<and> length (pk_inputs p) \<le> 100000 \<and> length (pk_expected p) \<le> 100000
     \<and> (magic = 0x334e4843 \<or> (magic = 0x33504653 \<and> pk_kind p = 1 \<and> plain p)
        \<or> (magic = 0x324d4547 \<and> pk_kind p = 0 \<and> plain p \<and> pk_cycles p =
            (let q = pk_parameters p in
             ((q ! 0 + 3) div 4) * (q ! 2 + 6) + q ! 0 * (if q ! 3 \<noteq> 0 then 16 else 8))))"

definition encode_packets :: "int \<Rightarrow> int \<Rightarrow> packet list \<Rightarrow> int list" where
  "encode_packets magic seed ps =
     view_bytes ([magic, int (length ps), seed] @ concat (map (encode_packet magic) ps))"

lemma view_bytes_append: "view_bytes (xs @ ys) = view_bytes xs @ view_bytes ys"
  by (simp add: view_bytes_def)

lemma list4: "length q = 4 \<Longrightarrow> q = [q ! 0, q ! 1, q ! 2, q ! 3]"
  by (simp add: list_eq_iff_nth_eq nth_Cons' numeral_eq_Suc less_Suc_eq)

text \<open>One packet: a header, then its inputs, then its expected words.\<close>

lemma words_three:
  assumes "list_all (in_dtype UInt32) (h @ a @ b)" "length h \<le> 16" "length a \<le> 100000" "length b \<le> 100000"
    and "n = int (length h)" "i = int (length a)" "j = int (length b)"
  shows "words (pre @ view_bytes (h @ a @ b) @ post) n (length pre) = (Inr h, length pre + 4 * length h)"
    "words (pre @ view_bytes (h @ a @ b) @ post) i (length pre + 4 * length h)
      = (Inr a, length pre + 4 * length h + 4 * length a)"
    "words (pre @ view_bytes (h @ a @ b) @ post) j (length pre + 4 * length h + 4 * length a)
      = (Inr b, length pre + 4 * length (h @ a @ b))"
proof -
  have p: "list_all (in_dtype UInt32) h" "list_all (in_dtype UInt32) a" "list_all (in_dtype UInt32) b"
    using assms(1) by auto
  show "words (pre @ view_bytes (h @ a @ b) @ post) n (length pre) = (Inr h, length pre + 4 * length h)"
    using words_at [OF p(1), of "length pre" pre n "view_bytes a @ view_bytes b @ post"] assms
    by (simp add: view_bytes_append)
  show "words (pre @ view_bytes (h @ a @ b) @ post) i (length pre + 4 * length h)
      = (Inr a, length pre + 4 * length h + 4 * length a)"
    using words_at [OF p(2), of "length pre + 4 * length h" "pre @ view_bytes h" i "view_bytes b @ post"] assms
    by (simp add: view_bytes_append)
  show "words (pre @ view_bytes (h @ a @ b) @ post) j (length pre + 4 * length h + 4 * length a)
      = (Inr b, length pre + 4 * length (h @ a @ b))"
    using words_at [OF p(3), of "length pre + 4 * length h + 4 * length a" "pre @ view_bytes h @ view_bytes a" j post] assms
    by (simp add: view_bytes_append)
qed

lemma read_packet_encode:
  assumes "encodable magic p"
  shows "read_packet (pre @ view_bytes (encode_packet magic p) @ post) magic (length pre)
    = (Inr p, length pre + 4 * length (encode_packet magic p))"
proof -
  define q where "q = pk_parameters p"
  define h where "h = (let ni = int (length (pk_inputs p)); no = int (length (pk_expected p))
      in if magic = 0x334e4843 then
           pk_kind p # q @ [pk_tag p, ni, no, pk_cycles p, pk_source p, pk_mode p, pk_count p,
             pk_destination p, pk_offset p, pk_result_count p, pk_scenario p]
         else if magic = 0x33504653 then q @ [pk_tag p, ni, no, pk_cycles p]
         else [q ! 0, q ! 1, q ! 2, pk_tag p, q ! 3, ni, no])"
  have e: "encode_packet magic p = h @ pk_inputs p @ pk_expected p"
    by (simp add: encode_packet_def h_def q_def Let_def)
  have lq: "length q = 4" using assms by (simp add: encodable_def q_def)
  then obtain a b c d where q: "q = [a, b, c, d]" using list4 by blast
  have lh: "length h \<le> 16" by (simp add: h_def lq Let_def)
  have u: "list_all (in_dtype UInt32) (h @ pk_inputs p @ pk_expected p)"
    "length (pk_inputs p) \<le> 100000" "length (pk_expected p) \<le> 100000"
    using assms by (simp_all add: encodable_def e del: in_dtype_simps)
  note W = words_three [OF u(1) lh u(2,3), where pre = pre and post = post]
  consider "magic = 0x334e4843" | "magic = 0x33504653" "pk_kind p = 1" "plain p"
    | "magic = 0x324d4547" "pk_kind p = 0" "plain p"
      "pk_cycles p = ((a + 3) div 4) * (c + 6) + a * (if d \<noteq> 0 then 16 else 8)"
    using assms by (auto simp: encodable_def Let_def q simp flip: q_def)
  then show ?thesis
  proof cases
    case 1
    then have "h = [pk_kind p, a, b, c, d, pk_tag p, int (length (pk_inputs p)), int (length (pk_expected p)),
      pk_cycles p, pk_source p, pk_mode p, pk_count p, pk_destination p, pk_offset p, pk_result_count p, pk_scenario p]"
      by (simp add: h_def q Let_def)
    with W 1 show ?thesis unfolding e by (simp add: read_packet_def bind_def q flip: q_def)
  next
    case 2
    then have "h = [a, b, c, d, pk_tag p, int (length (pk_inputs p)), int (length (pk_expected p)), pk_cycles p]"
      by (simp add: h_def q Let_def)
    with W 2 show ?thesis unfolding e by (simp add: read_packet_def bind_def q plain_def flip: q_def)
  next
    case 3
    then have "h = [a, b, c, pk_tag p, d, int (length (pk_inputs p)), int (length (pk_expected p))]"
      by (simp add: h_def q Let_def)
    with W 3 show ?thesis unfolding e by (simp add: read_packet_def bind_def q plain_def flip: q_def)
  qed
qed

lemma read_all_encode:
  assumes "list_all (encodable magic) ps" "length us = length ps"
  shows "mapM_act (\<lambda>_. read_packet (pre @ view_bytes (concat (map (encode_packet magic) ps)) @ post) magic)
      us (length pre)
    = (Inr ps, length pre + 4 * length (concat (map (encode_packet magic) ps)))"
  using assms
proof (induction ps arbitrary: pre us)
  case (Cons p ps)
  then obtain u vs where us: "us = u # vs" "length vs = length ps" by (cases us) auto
  define pre' where "pre' = pre @ view_bytes (encode_packet magic p)"
  define D where "D = pre @ view_bytes (concat (map (encode_packet magic) (p # ps))) @ post"
  have d: "D = pre' @ view_bytes (concat (map (encode_packet magic) ps)) @ post"
    by (simp add: D_def pre'_def view_bytes_append)
  have r: "read_packet D magic (length pre) = (Inr p, length pre')"
    using read_packet_encode [of magic p pre "view_bytes (concat (map (encode_packet magic) ps)) @ post"] Cons.prems(1)
    by (simp add: D_def pre'_def view_bytes_append)
  have IH: "mapM_act (\<lambda>_. read_packet D magic) vs (length pre')
    = (Inr ps, length pre' + 4 * length (concat (map (encode_packet magic) ps)))"
    unfolding d by (rule Cons.IH) (use Cons.prems us in simp_all)
  have "mapM_act (\<lambda>_. read_packet D magic) us (length pre)
    = (Inr (p # ps), length pre' + 4 * length (concat (map (encode_packet magic) ps)))"
    by (simp add: us bind_def r IH)
  then show ?case by (simp add: D_def pre'_def)
qed simp

text \<open>C40: The reader inverts the writer on every format (chain, SFPU, GEMM): the packets and the
  seed come back.\<close>

theorem packets_roundtrip:
  assumes "list_all (encodable magic) ps" "1 \<le> length ps" "length ps \<le> 100000"
    and "in_dtype UInt32 magic" "in_dtype UInt32 seed"
  shows "read_packets (encode_packets magic seed ps) = Inr (ps, seed)"
proof -
  define h where "h = [magic, int (length ps), seed]"
  define body where "body = concat (map (encode_packet magic) ps)"
  have u: "list_all (in_dtype UInt32) h" using assms by (simp add: h_def)
  have d: "encode_packets magic seed ps = view_bytes h @ view_bytes body @ []"
    by (simp add: encode_packets_def h_def body_def view_bytes_append [symmetric])
  have w: "words (encode_packets magic seed ps) 3 0 = (Inr h, 12)"
    using words_at [OF u, of 0 "[]" 3 "view_bytes body"] by (simp add: d h_def)
  have all: "mapM_act (\<lambda>_. read_packet (encode_packets magic seed ps) magic) [0..<length ps] 12
      = (Inr ps, length (encode_packets magic seed ps))"
    using read_all_encode [OF assms(1), of "[0..<length ps]" "view_bytes h" "[]"]
    by (simp add: d h_def flip: body_def)
  have ne: "ps \<noteq> []" using assms(2) by auto
  show ?thesis
    unfolding read_packets_def bind_Inr [of "words (encode_packets magic seed ps) 3", OF w]
    using assms(3) ne all by (simp add: h_def bseq_def bind_def require_def Let_def)
qed

theorem packets_roundtrip_witness:
  "read_packets (encode_packets 0x324d4547 77
     [\<lparr>pk_kind = 0, pk_parameters = [2, 1, 4, 0], pk_tag = 5, pk_inputs = [1, 4294967295], pk_expected = [3],
       pk_cycles = 26, pk_source = 0, pk_mode = 0, pk_count = 0, pk_destination = 0, pk_offset = 0,
       pk_result_count = 0, pk_scenario = 0\<rparr>])
   = Inr ([\<lparr>pk_kind = 0, pk_parameters = [2, 1, 4, 0], pk_tag = 5, pk_inputs = [1, 4294967295], pk_expected = [3],
       pk_cycles = 26, pk_source = 0, pk_mode = 0, pk_count = 0, pk_destination = 0, pk_offset = 0,
       pk_result_count = 0, pk_scenario = 0\<rparr>], 77)"
  by (rule packets_roundtrip) (simp_all add: encodable_def encode_packet_def plain_def Let_def)

section \<open>Acceptance consumes the file\<close>

definition header_words :: "int \<Rightarrow> nat" where
  "header_words magic = (if magic = 0x334e4843 then 16 else if magic = 0x33504653 then 8 else 7)"

definition packet_words :: "int \<Rightarrow> packet \<Rightarrow> nat" where
  "packet_words magic p = header_words magic + length (pk_inputs p) + length (pk_expected p)"

lemma read_packet_span:
  assumes "read_packet data magic c = (Inr p, c')"
  shows "magic \<in> {0x334e4843, 0x33504653, 0x324d4547}" "c' = c + 4 * packet_words magic p" "c' \<le> length data"
proof -
  show m: "magic \<in> {0x334e4843, 0x33504653, 0x324d4547}"
    using assms by (auto simp: read_packet_def split: if_splits)
  obtain n h i a j b c1 c2 where
    w: "words data n c = (Inr h, c1)" "n = int (header_words magic)" "words data i c1 = (Inr a, c2)"
      "words data j c2 = (Inr b, c')" "pk_inputs p = a" "pk_expected p = b"
    using assms m by (fastforce simp: read_packet_def bind_Inr_iff header_words_def split: if_splits)
  show "c' = c + 4 * packet_words magic p" "c' \<le> length data"
    using words_Inr [OF w(1)] words_Inr [OF w(3)] words_Inr [OF w(4)] w(2,5,6)
    by (simp_all add: packet_words_def)
qed

lemma read_all_span:
  "mapM_act (\<lambda>_. read_packet data magic) us c = (Inr ps, c')
    \<Longrightarrow> length ps = length us \<and> c' = c + 4 * (\<Sum>p\<leftarrow>ps. packet_words magic p)"
proof (induction us arbitrary: c ps)
  case (Cons u us)
  then obtain p qs c1 where "read_packet data magic c = (Inr p, c1)" "ps = p # qs"
    "mapM_act (\<lambda>_. read_packet data magic) us c1 = (Inr qs, c')"
    by (auto simp: bind_Inr_iff)
  then show ?case using Cons.IH read_packet_span(2) by fastforce
qed simp

lemma read_all_magic:
  assumes "mapM_act (\<lambda>_. read_packet data magic) us c = (Inr ps, c')" "us \<noteq> []"
  shows "magic \<in> {0x334e4843, 0x33504653, 0x324d4547}"
proof (cases us)
  case (Cons u vs)
  then obtain p c1 where "read_packet data magic c = (Inr p, c1)"
    using assms(1) by (auto simp: bind_Inr_iff)
  then show ?thesis by (rule read_packet_span(1))
qed (use assms(2) in simp)

text \<open>A file is accepted only when its packets cover it: the packet count is the header's and
  in 1..100000, the magic is one of the three, and the words read add up to the file's length.\<close>

theorem packets_cover_file:
  assumes "read_packets data = Inr (ps, seed)"
  shows "\<exists>magic. view_words (take 12 data) = [magic, int (length ps), seed]
    \<and> magic \<in> {0x334e4843, 0x33504653, 0x324d4547} \<and> 1 \<le> length ps \<and> length ps \<le> 100000
    \<and> length data = 12 + 4 * (\<Sum>p\<leftarrow>ps. packet_words magic p)"
proof -
  define run where "run = bind (words data 3) (\<lambda>header.
      let magic = header ! 0; count = header ! 1; seed = header ! 2 in
      bseq (require (\<not> (count < 1 \<or> count > 100000)) ValueError)
       (bind (mapM_act (\<lambda>_. read_packet data magic) [0..<nat count]) (\<lambda>packets.
        bind (gets (\<lambda>cursor. cursor \<noteq> length data)) (\<lambda>trailing.
        bseq (require (\<not> trailing) ValueError) (ret (packets, seed))))))"
  have "run 0 = (Inr (ps, seed), snd (run 0))"
    using assms by (simp add: read_packets_def run_def prod_eq_iff)
  then obtain h c where h: "words data 3 0 = (Inr h, c)" and
    rest: "\<not> (h ! 1 < 1 \<or> h ! 1 > 100000)"
      "bind (mapM_act (\<lambda>_. read_packet data (h ! 0)) [0..<nat (h ! 1)]) (\<lambda>packets.
        bind (gets (\<lambda>cursor. cursor \<noteq> length data)) (\<lambda>trailing.
        bseq (require (\<not> trailing) ValueError) (ret (packets, h ! 2)))) c = (Inr (ps, seed), snd (run 0))"
    unfolding run_def Let_def bind_Inr_iff [of "words data 3"] bseq_Inr_iff require_Inr_iff by blast
  from rest(2) obtain c' where
    all': "mapM_act (\<lambda>_. read_packet data (h ! 0)) [0..<nat (h ! 1)] c = (Inr ps, c')"
    and c': "c' = length data" "seed = h ! 2"
    by (auto simp: bind_Inr_iff [of "mapM_act _ _"] bseq_Inr_iff)
  have count: "1 \<le> h ! 1" "h ! 1 \<le> 100000" using rest(1) by auto
  have w: "h = view_words (take 12 data)" "length h = 3" "c = 12"
    using h words_Inr [OF h] by (auto simp: words_def split: if_splits)
  have all: "mapM_act (\<lambda>_. read_packet data (h ! 0)) [0..<nat (h ! 1)] 12 = (Inr ps, c')"
    using all' w(3) by simp
  note span = read_all_span [OF all]
  then have ps: "int (length ps) = h ! 1" using count by simp
  have "[0..<nat (h ! 1)] \<noteq> []" using count by simp
  then have "h ! 0 \<in> {0x334e4843, 0x33504653, 0x324d4547}" by (rule read_all_magic [OF all])
  moreover obtain x y z where xyz: "h = [x, y, z]"
    using w(2) by (auto simp: length_Suc_conv numeral_3_eq_3)
  ultimately have m: "x \<in> {0x334e4843, 0x33504653, 0x324d4547}" "y = int (length ps)" "z = seed"
    using ps c'(2) by (simp_all add: numeral_eq_Suc)
  have sum: "length data = 12 + 4 * (\<Sum>p\<leftarrow>ps. packet_words x p)" "1 \<le> length ps" "length ps \<le> 100000"
    using span count ps c'(1) xyz by auto
  show ?thesis
    unfolding w(1) [symmetric] xyz m(2,3) by (intro exI [of _ x] conjI refl m(1) sum)
qed

theorem packets_cover_file_witness:
  "\<exists>magic. magic \<in> {0x334e4843, 0x33504653, 0x324d4547}
     \<and> length (view_bytes [0x33504653, 1, 9, 1, 1, 0, 0, 4, 1, 1, 6, 20, 21 :: int]) = 12 + 4 * 10
     \<and> packet_words magic \<lparr>pk_kind = 1, pk_parameters = [1, 1, 0, 0], pk_tag = 4, pk_inputs = [20],
         pk_expected = [21], pk_cycles = 6, pk_source = 0, pk_mode = 0, pk_count = 0, pk_destination = 0,
         pk_offset = 0, pk_result_count = 0, pk_scenario = 0\<rparr> = 10"
proof -
  have "read_packets (view_bytes [0x33504653, 1, 9, 1, 1, 0, 0, 4, 1, 1, 6, 20, 21]) = Inr ([\<lparr>pk_kind = 1,
      pk_parameters = [1, 1, 0, 0], pk_tag = 4, pk_inputs = [20], pk_expected = [21], pk_cycles = 6,
      pk_source = 0, pk_mode = 0, pk_count = 0, pk_destination = 0, pk_offset = 0, pk_result_count = 0,
      pk_scenario = 0\<rparr>], 9)" by code_simp
  from packets_cover_file [OF this] show ?thesis by auto
qed

section \<open>Dependent lanes\<close>

lemma word_bytes_word:
  assumes "\<forall>v\<in>{a, b, c, d}. 0 \<le> v \<and> v < 256"
  shows "word_bytes (bytes_word [a, b, c, d]) = [a, b, c, d]"
proof -
  have t: "take_bit 8 v = v" if "v \<in> {a, b, c, d}" for v
    using assms that by (intro take_bit_int_eq_self) auto
  have "bytes_word [a, b, c, d] = a + 256 * (b + 256 * (c + 256 * d))" using t by simp
  moreover have "take_bit 8 (x + 256 * y) = take_bit 8 x" for x y :: int
    by (simp add: take_bit_eq_mod)
  moreover have "drop_bit 8 (x + 256 * y) = y" if "0 \<le> x" "x < 256" for x y :: int
    using that by (simp add: drop_bit_eq_div)
  moreover have "drop_bit 16 w = drop_bit 8 (drop_bit 8 w)" "drop_bit 24 w = drop_bit 8 (drop_bit 8 (drop_bit 8 w))"
    for w :: int by simp_all
  ultimately show ?thesis using t assms by (simp add: word_bytes_list del: drop_bit_drop_bit distrib_left_numeral)
qed

lemma view_bytes_words:
  "length bs mod 4 = 0 \<Longrightarrow> list_all (in_dtype UInt8) bs \<Longrightarrow> view_bytes (view_words bs) = bs"
proof (induction bs rule: view_words.induct)
  case (1 a b c d r)
  then show ?case
    using word_bytes_word [of a b c d]
    by (simp add: view_bytes_def mod_Suc del: bytes_word.simps split: if_splits)
qed (auto simp: view_bytes_def mod_Suc split: if_splits)

lemma u8_view_bytes: "list_all (in_dtype UInt8) (view_bytes ws)"
  by (auto simp: view_bytes_def word_bytes_def list_all_iff in_dtype_def simp del: in_dtype_simps)

text \<open>Patching with enough source lanes and room returns a packet of the same length in which only
  the dependent lanes changed: whole words in mode 1, single bytes in mode 2, and in mode 3 the low
  half of a softmax word with its mask bit retained.\<close>

theorem patch_touches_dependent_lanes:
  assumes "0 \<le> pk_count p" "nat (pk_count p) = n" "n \<le> length source"
    and "n \<le> (if pk_mode p = 2 then 4 * length target else length target)" "pk_mode p \<in> {1, 2, 3}"
  shows "\<exists>out. patch_input p source target = Inr out \<and> length out = length target
    \<and> (pk_mode p = 1 \<longrightarrow> out = take n source @ drop n target)
    \<and> (pk_mode p = 2 \<longrightarrow> view_bytes out = map (take_bit 8) (take n source) @ drop n (view_bytes target))
    \<and> (pk_mode p = 3 \<longrightarrow> drop n out = drop n target
         \<and> (\<forall>i<n. out ! i = (target ! i AND 0x10000) OR take_bit 16 (source ! i)))"
proof -
  have c: "int n = pk_count p" using assms(1,2) by simp
  have up: "upto (pk_count p) xs = take n xs" for xs :: "int list"
    using assms(1,2) by (simp add: upto_def)
  have ass: "assign_upto (pk_count p) ys xs = Inr (ys @ drop n xs)" if "length ys = n" "n \<le> length xs" for ys xs :: "int list"
    using that by (simp add: assign_upto_def up Let_def)
  have enough: "\<not> int (length source) < pk_count p" using assms(3) c by linarith
  consider "pk_mode p = 1" | "pk_mode p = 2" | "pk_mode p = 3" using assms(5) by auto
  then show ?thesis
  proof cases
    case 1
    then have "patch_input p source target = Inr (take n source @ drop n target)"
      using enough ass [of "take n source" target] assms(3,4) by (simp add: patch_input_def Let_def up)
    then show ?thesis using 1 assms(3,4) by simp
  next
    case 2
    define bs where "bs = map (take_bit 8) (take n source) @ drop n (view_bytes target)"
    have "map (\<lambda>v. np_cast UInt8 (v AND 255)) (take n source) = map (take_bit 8) (take n source)"
      by (simp add: and_255)
    then have "assign_upto (pk_count p) (map (\<lambda>v. np_cast UInt8 (v AND 255)) (upto (pk_count p) source)) (view_bytes target)
        = Inr bs"
      using ass [of "map (take_bit 8) (take n source)" "view_bytes target"] assms(3,4) 2
      by (simp only: up bs_def) simp
    then have "patch_input p source target = Inr (view_words bs)"
      using 2 enough by (simp add: patch_input_def Let_def del: np_cast.simps)
    moreover have lb: "length bs = 4 * length target" using assms(3,4) 2 by (simp add: bs_def)
    moreover have "list_all (in_dtype UInt8) bs"
      using u8_view_bytes [of target]
      by (auto simp: bs_def list_all_iff in_dtype_def simp del: in_dtype_simps dest: in_set_dropD)
    ultimately show ?thesis
      using view_bytes_words [of bs] 2 by (simp add: length_view_words) (simp add: bs_def)
  next
    case 3
    define ys where "ys = map2 (\<lambda>t s. (t AND 0x10000) OR (s AND 0xffff)) (take n target) (take n source)"
    have l: "length ys = n" using assms(3,4) 3 by (simp add: ys_def)
    have "np_map2 (\<lambda>t s. (t AND 0x10000) OR (s AND 0xffff)) (take n target) (take n source) = Inr ys"
      using assms(3,4) 3 by (simp add: np_map2_def ys_def)
    then have "patch_input p source target = Inr (ys @ drop n target)"
      using enough ass [OF l, of target] assms(4) 3 by (simp add: patch_input_def Let_def up)
    moreover have "ys ! i = (target ! i AND 0x10000) OR take_bit 16 (source ! i)" if "i < n" for i
      using that assms(3,4) 3 by (simp add: ys_def and_65535)
    ultimately show ?thesis using 3 l assms(4) by (simp add: nth_append)
  qed
qed

theorem patch_touches_dependent_lanes_witness:
  "\<exists>out. patch_input \<lparr>pk_kind = 1, pk_parameters = [], pk_tag = 0, pk_inputs = [], pk_expected = [],
       pk_cycles = 0, pk_source = 0, pk_mode = 3, pk_count = 1, pk_destination = 0, pk_offset = 0,
       pk_result_count = 0, pk_scenario = 0\<rparr> [4294967291] [0x10007, 9] = Inr out
     \<and> drop 1 out = [9] \<and> out ! 0 = 0x1fffb"
proof -
  let ?p = "\<lparr>pk_kind = 1, pk_parameters = [], pk_tag = 0, pk_inputs = [], pk_expected = [],
       pk_cycles = 0, pk_source = 0, pk_mode = 3, pk_count = 1, pk_destination = 0, pk_offset = 0,
       pk_result_count = 0, pk_scenario = 0\<rparr>"
  obtain out where o: "patch_input ?p [4294967291] [0x10007, 9] = Inr out" "drop 1 out = [9]"
    "out ! 0 = (0x10007 AND 0x10000) OR take_bit 16 4294967291"
    using patch_touches_dependent_lanes [of ?p 1 "[4294967291]" "[0x10007, 9]"] by auto
  moreover have "(0x10007 AND 0x10000) OR take_bit 16 4294967291 = (0x1fffb :: int)" by code_simp
  ultimately show ?thesis by metis
qed

section \<open>The dynamic scale\<close>

lemma runtime_quotient:
  fixes maximum :: int
  assumes "0 < maximum"
  shows "push_bit 24 127 div maximum + of_bool (2 * (push_bit 24 127 mod maximum) > maximum
      \<or> (2 * (push_bit 24 127 mod maximum) = maximum \<and> push_bit 24 127 div maximum AND 1 \<noteq> 0))
    = rne_val (push_bit 24 127) maximum"
proof -
  have "\<bar>push_bit 24 127\<bar> = (push_bit 24 127 :: int)" "\<not> push_bit 24 127 < (0 :: int)" by (simp_all add: push_bit_eq_mult)
  then show ?thesis
    unfolding rne_val_def rne_up_def Let_def and_one_eq odd_iff_mod_2_eq_one by simp
qed

text \<open>The host's vectorised dynamic scale equals the reference's on every accepted vector.\<close>

theorem runtime_requant_agrees:
  assumes "checked_vector a MAX_VECTOR (-32768) 32768 = Inr x" "nd_wf a"
  shows "runtime_requant_parameters (map (np_cast UInt32) (map (np_cast Int32) x)) = dynamic_int8_parameters a"
proof -
  have ne: "x \<noteq> []" using checked_vector_length [OF assms] by auto
  have "np_cast Int32 (np_cast UInt32 (np_cast Int32 v)) = v" if "v \<in> set x" for v
    using checked_vector_Inr(2) [OF assms(1) that]
    by (simp add: signed_take_bit_take_bit signed_take_bit_int_eq_self)
  then have vals: "map (np_cast Int32) (map (np_cast UInt32) (map (np_cast Int32) x)) = x"
    by (simp add: map_idI)
  define M where "M = py_max (map abs x)"
  have "M \<in> set (map abs x)" unfolding M_def by (rule py_max_in) (use ne in simp)
  then have "0 \<le> M" by auto
  then show ?thesis
    unfolding runtime_requant_parameters_def dynamic_int8_parameters_def vals assms(1) rbind_simps
      Let_def M_def [symmetric]
    using ne runtime_quotient [of M] by simp
qed

theorem runtime_requant_agrees_witness:
  "runtime_requant_parameters [4294966996, 32768] = Inr (65024, 24)"
proof -
  have c: "checked_vector (vec Int32 [-300, 32768]) MAX_VECTOR (-32768) 32768 = Inr [-300, 32768]"
    "nd_wf (vec Int32 [-300, 32768])" by code_simp+
  have "map (np_cast UInt32) (map (np_cast Int32) [-300, 32768]) = [4294966996, 32768]"
    "dynamic_int8_parameters (vec Int32 [-300, 32768]) = Inr (65024, 24)" by code_simp+
  with runtime_requant_agrees [OF c] show ?thesis by metis
qed

end
