(* ===== verification/M5Arena.thy ===== *)
theory M5Arena
  imports Ndarray
begin

text \<open>
  The bounded arena of \<open>ref/m5_arena.py\<close>: the fixed order of the model's arrays, their placement in
  the model region, the regions with their guards, the binary header, the export of the model image
  and its verification. The image is the list of its bytes; JSON documents are records; the hash is
  a parameter (\<open>sha\<close>, the code's \<open>hashlib.sha256\<close>), fed with the bytes in the order the code feeds it.
\<close>

section \<open>Constants\<close>

definition PACK_SHA :: string where
  "PACK_SHA = ''d2aafeffd3e4b8a134b8e48796a1b0cf8f296a3bd150b79f07e2de037fae8fd6''"

definition CANDIDATE_SHA :: string where
  "CANDIDATE_SHA = ''a8d80d03c1aacc8a40f0f84962acd4033f0a1afb1343fd9e1ab0e9c50d0c397d''"

definition ARENA_BASE :: int where "ARENA_BASE = 0x40000000"
definition ARENA_BYTES :: int where "ARENA_BYTES = 256 * 1024 * 1024"
definition HEADER_BYTES :: int where "HEADER_BYTES = 65536"
definition PAGE_BYTES :: int where "PAGE_BYTES = 4096"
definition ARRAY_TABLE :: int where "ARRAY_TABLE = 128"
definition REGION_TABLE :: int where "REGION_TABLE = 8192"
definition CHUNK_BYTES :: int where "CHUNK_BYTES = 1024 * 1024"

definition DTYPES :: "string \<Rightarrow> (int \<times> int) res" where
  "DTYPES t = (if t = ''|i1'' then Inr (1, 1) else if t = ''<i2'' then Inr (2, 2)
     else if t = ''<f8'' then Inr (3, 8) else Inl KeyError)"

definition align :: "int \<Rightarrow> int \<Rightarrow> int" where
  "align value alignment = (value + alignment - 1) div alignment * alignment"

section \<open>The order of the arrays\<close>

type_synonym array_spec = "string \<times> string \<times> int list"

definition linear_specs :: "string \<Rightarrow> int \<Rightarrow> int \<Rightarrow> array_spec list" where
  "linear_specs name k n =
     [(name @ ''.tiles'', ''|i1'', [(n + 15) div 16, k, 16]), (name @ ''.scale'', ''<f8'', [n]),
      (name @ ''.bias'', ''<f8'', [n]), (name @ ''.smooth'', ''<f8'', [k])]"

definition norm_specs :: "string \<Rightarrow> array_spec list" where
  "norm_specs name = [(name @ ''.gain'', ''<f8'', [768]), (name @ ''.bias'', ''<f8'', [768])]"

definition layer_name :: "nat \<Rightarrow> string \<Rightarrow> string" where
  "layer_name layer op = ''h.'' @ str_of_nat layer @ ''.'' @ op"

definition LAYER_LINEARS :: "(string \<times> int \<times> int) list" where
  "LAYER_LINEARS = [(''attn.c_attn'', 768, 2304), (''attn.c_proj'', 768, 768),
     (''mlp.c_fc'', 768, 3072), (''mlp.c_proj'', 3072, 768)]"

definition array_specs :: "array_spec list" where
  "array_specs =
     [(''embedding'', ''<i2'', [50257, 768]), (''position'', ''<i2'', [1024, 768])]
     @ concat (map (\<lambda>layer.
         concat (map (\<lambda>(op, k, n). linear_specs (layer_name layer op) k n) LAYER_LINEARS)
         @ norm_specs (layer_name layer ''ln_1'') @ norm_specs (layer_name layer ''ln_2'')) [0..<12])
     @ norm_specs ''ln_f'' @ linear_specs ''lm_head'' 768 50257"

section \<open>Documents\<close>

record source_array =
  sa_file :: string
  sa_sha256 :: string
  sa_shape :: "int list"
  sa_dtype :: string
  sa_payload_bytes :: int

record pack_manifest =
  pm_schema :: int
  pm_candidate_sha256 :: string
  pm_layout :: string
  pm_arrays :: "(string \<times> source_array) list"
  pm_payload_bytes :: int
  pm_linears :: "(string \<times> int list) list"
  pm_norms :: "string list"

record array_entry =
  ae_id :: nat
  ae_name :: string
  ae_offset :: int
  ae_bytes :: int
  ae_dtype :: string
  ae_shape :: "int list"
  ae_source_file :: string
  ae_source_sha256 :: string

record region =
  rg_id :: nat
  rg_name :: string
  rg_offset :: int
  rg_bytes :: int
  rg_permissions :: int

record layout =
  la_schema :: int
  la_status :: string
  la_source_pack_sha256 :: string
  la_candidate_sha256 :: string
  la_arena_base :: int
  la_arena_bytes :: int
  la_header_bytes :: int
  la_model_bytes :: int
  la_model_payload_bytes :: int
  la_mapped_bytes :: int
  la_unmapped_bytes :: int
  la_arrays :: "array_entry list"
  la_regions :: "region list"

section \<open>Placement\<close>

definition spec_bytes :: "array_spec \<Rightarrow> int res" where
  "spec_bytes spec = (case spec of (name, dtype, shape) \<Rightarrow>
     rbind (DTYPES dtype) (\<lambda>(code, width). Inr (prod_list shape * width)))"

fun place :: "(string \<times> source_array) list \<Rightarrow> nat \<Rightarrow> array_spec list \<Rightarrow> int \<Rightarrow> int
    \<Rightarrow> (array_entry list \<times> int \<times> int) res" where
  "place arrays index [] cursor payload = Inr ([], cursor, payload)"
| "place arrays index ((name, dtype, shape) # specs) cursor payload =
     (case map_of arrays name of None \<Rightarrow> Inl KeyError
      | Some source \<Rightarrow>
        rbind (spec_bytes (name, dtype, shape)) (\<lambda>nbytes.
          if sa_shape source \<noteq> shape \<or> sa_dtype source \<noteq> dtype \<or> sa_payload_bytes source \<noteq> nbytes
          then Inl ValueError
          else let offset = align cursor 64 in
            rbind (place arrays (index + 1) specs (offset + nbytes) (payload + nbytes)) (\<lambda>(entries, c, p).
              Inr (\<lparr>ae_id = index, ae_name = name, ae_offset = offset, ae_bytes = nbytes,
                    ae_dtype = dtype, ae_shape = shape, ae_source_file = sa_file source,
                    ae_source_sha256 = sa_sha256 source\<rparr> # entries, c, p))))"

text \<open>The closure \<open>region\<close>; the state is the list of regions and the cursor.\<close>

definition region_at :: "string \<Rightarrow> int \<Rightarrow> int \<Rightarrow> (region list \<times> int, unit) act" where
  "region_at name nbytes permissions = (\<lambda>(regions, cursor).
     if nbytes \<le> 0 \<or> nbytes mod PAGE_BYTES \<noteq> 0 \<or> cursor + nbytes > ARENA_BYTES
     then (Inl ValueError, (regions, cursor))
     else (Inr (), (regions @ [\<lparr>rg_id = length regions, rg_name = name, rg_offset = cursor,
                                rg_bytes = nbytes, rg_permissions = permissions\<rparr>], cursor + nbytes)))"

definition GUARDED :: "(string \<times> int) list" where
  "GUARDED = [(''k'', 12 * 12 * 1024 * 64 * 2), (''v'', 12 * 12 * 1024 * 64 * 2),
     (''k8'', 12 * 12 * 1024 * 64), (''kunits'', 12 * 12 * 1024 * 8),
     (''work'', 4 * 1024 * 1024), (''trace'', 8 * 1024 * 1024)]"

definition build_regions :: "int \<Rightarrow> (region list \<times> int, unit) act" where
  "build_regions model_end =
     bseq (region_at ''model'' model_end 1)
     (bseq (bind (mapM_act (\<lambda>(name, nbytes).
              bseq (region_at (''guard_before_'' @ name) PAGE_BYTES 0) (region_at name nbytes 3)) GUARDED)
             (\<lambda>_. ret ()))
     (bseq (region_at ''guard_after_trace'' PAGE_BYTES 0)
     (bind (gets snd) (\<lambda>cursor. region_at ''unused'' (ARENA_BYTES - cursor) 0))))"

definition build_layout :: "pack_manifest \<Rightarrow> layout res" where
  "build_layout m =
     (let specs = array_specs; arrays = pm_arrays m in
      if pm_schema m \<noteq> 1 \<or> pm_candidate_sha256 m \<noteq> CANDIDATE_SHA
         \<or> pm_layout m \<noteq> ''N16_K_16_signed_int8'' \<or> set (map fst arrays) \<noteq> set (map fst specs)
      then Inl ValueError
      else rbind (place arrays 0 specs HEADER_BYTES 0) (\<lambda>(entries, cursor, payload_bytes).
        if payload_bytes \<noteq> pm_payload_bytes m then Inl ValueError
        else let model_end = align cursor PAGE_BYTES in
          case build_regions model_end ([], 0) of (Inl e, _) \<Rightarrow> Inl e
          | (Inr _, (regions, _)) \<Rightarrow>
            if length entries \<noteq> 248 \<or> ARRAY_TABLE + int (length entries) * 32 > REGION_TABLE then Inl ValueError
            else if REGION_TABLE + int (length regions) * 32 > HEADER_BYTES then Inl ValueError
            else Inr \<lparr>la_schema = 1, la_status = ''SERIALIZED_NOT_PHYSICALLY_QUALIFIED'',
              la_source_pack_sha256 = PACK_SHA, la_candidate_sha256 = CANDIDATE_SHA,
              la_arena_base = ARENA_BASE, la_arena_bytes = ARENA_BYTES, la_header_bytes = HEADER_BYTES,
              la_model_bytes = model_end, la_model_payload_bytes = payload_bytes,
              la_mapped_bytes = sum_list (map rg_bytes (filter (\<lambda>x. rg_permissions x \<noteq> 0) regions)),
              la_unmapped_bytes = sum_list (map rg_bytes (filter (\<lambda>x. rg_permissions x = 0) regions)),
              la_arrays = entries, la_regions = regions\<rparr>))"

section \<open>The header\<close>

text \<open>\<open>bytearray(n)\<close>.\<close>

definition zeros :: "nat \<Rightarrow> int list" where
  "zeros n = replicate n 0"

text \<open>\<open>struct.pack_into('<nI', buffer, offset, ...)\<close>: every field a uint32, inside the buffer.\<close>

definition poke :: "int list \<Rightarrow> nat \<Rightarrow> int list \<Rightarrow> int list" where
  "poke bs offset src = take offset bs @ src @ drop (offset + length src) bs"

definition pack_into :: "int list \<Rightarrow> nat \<Rightarrow> int list \<Rightarrow> int list res" where
  "pack_into vals offset buffer =
     (if \<not> list_all (in_dtype UInt32) vals \<or> offset + 4 * length vals > length buffer
      then Inl StructError else Inr (poke buffer offset (view_bytes vals)))"

definition hex_digit :: "char \<Rightarrow> int" where
  "hex_digit c = (let n = int (of_char c) in if n < 58 then n - 48 else n - 87)"

fun fromhex :: "string \<Rightarrow> int list" where
  "fromhex (a # b # r) = (16 * hex_digit a + hex_digit b) # fromhex r"
| "fromhex _ = []"

fun pack_rows :: "nat \<Rightarrow> (nat \<times> int list) list \<Rightarrow> int list \<Rightarrow> int list res" where
  "pack_rows table [] header = Inr header"
| "pack_rows table ((i, vals) # rows) header =
     rbind (pack_into vals (table + i * 32) header) (pack_rows table rows)"

definition array_row :: "array_entry \<Rightarrow> int list res" where
  "array_row e = rbind (DTYPES (ae_dtype e)) (\<lambda>(code, width).
     Inr ([int (ae_id e), ae_offset e, ae_bytes e, code, int (length (ae_shape e))]
          @ ae_shape e @ replicate (3 - length (ae_shape e)) 0))"

definition region_row :: "region \<Rightarrow> int list" where
  "region_row r = [int (rg_id r), rg_offset r, rg_bytes r, rg_permissions r, 0, 0, 0, 0]"

definition header_fields :: "layout \<Rightarrow> int list" where
  "header_fields l = [0x354d4150, 1, HEADER_BYTES, ARENA_BYTES, int (length (la_arrays l)), 32,
     ARRAY_TABLE, int (length (la_regions l)), 32, REGION_TABLE, la_model_bytes l, 1024, 12, 12, 768, 50257]"

definition make_header :: "layout \<Rightarrow> int list res" where
  "make_header l =
     rbind (pack_into (header_fields l) 0 (zeros (nat HEADER_BYTES))) (\<lambda>header.
     rbind (rmap (\<lambda>e. rbind (array_row e) (\<lambda>row. Inr (ae_id e, row))) (la_arrays l)) (\<lambda>arrays.
     rbind (pack_rows (nat ARRAY_TABLE) arrays
             (poke (poke header 64 (fromhex PACK_SHA)) 96 (fromhex CANDIDATE_SHA))) (\<lambda>header.
       pack_rows (nat REGION_TABLE) (map (\<lambda>r. (rg_id r, region_row r)) (la_regions l)) header)))"

section \<open>Export and verification\<close>

function chunks_of :: "nat \<Rightarrow> 'a list \<Rightarrow> 'a list list" where
  "chunks_of n xs = (if xs = [] \<or> n = 0 then [] else take n xs # chunks_of n (drop n xs))"
  by pat_completeness auto
termination
  by (relation "measure (length \<circ> snd)") auto

declare chunks_of.simps [simp del]

definition chunks :: "'a list \<Rightarrow> 'a list list" where
  "chunks view = chunks_of (nat CHUNK_BYTES) view"

text \<open>\<open>seek\<close> and \<open>write\<close> of a chunk at the cursor of a file: a write past the end extends it,
  with zeros in the gap.\<close>

definition write_at :: "int list \<Rightarrow> nat \<Rightarrow> int list \<Rightarrow> int list" where
  "write_at bs offset src = poke (bs @ zeros (offset - length bs)) offset src"

text \<open>The chunks of one array: the file, its cursor and the digest's input grow together.\<close>

fun write_chunks :: "int list list \<Rightarrow> int list \<times> nat \<times> int list \<Rightarrow> int list \<times> nat \<times> int list" where
  "write_chunks [] s = s"
| "write_chunks (c # cs) (file, cursor, digest) =
     write_chunks cs (write_at file cursor c, cursor + length c, digest @ c)"

fun write_arrays :: "(int list \<Rightarrow> string) \<Rightarrow> (string \<Rightarrow> int list option) \<Rightarrow> array_entry list
    \<Rightarrow> int list \<Rightarrow> (int list \<times> string list) res" where
  "write_arrays sha payload [] file = Inr (file, [])"
| "write_arrays sha payload (e # es) file =
     (case payload (ae_name e) of None \<Rightarrow> Inl KeyError
      | Some view \<Rightarrow>
        (case write_chunks (chunks view) (file, nat (ae_offset e), []) of (file', _, digest) \<Rightarrow>
           rbind (write_arrays sha payload es file') (\<lambda>(out, digests). Inr (out, sha digest # digests))))"

record export =
  ex_layout :: layout
  ex_payload_sha256 :: "string list"
  ex_model_sha256 :: string
  ex_model :: "int list"

text \<open>The documents and the image that \<open>export_model\<close> leaves in the directory, from a pack that
  \<open>load_frozen_pack\<close> has accepted. The refusal of a directory that exists, the digest of the exporter's own
  source and the final call of \<open>verify_export\<close> are outside the definition.\<close>

definition export_model :: "(int list \<Rightarrow> string) \<Rightarrow> pack_manifest \<Rightarrow> (string \<Rightarrow> int list option) \<Rightarrow> export res" where
  "export_model sha m payload =
     rbind (build_layout m) (\<lambda>layout.
     rbind (make_header layout) (\<lambda>header.
     rbind (write_arrays sha payload (la_arrays layout)
             (write_at (zeros (nat (la_model_bytes layout))) 0 header)) (\<lambda>(model, digests).
       Inr \<lparr>ex_layout = layout, ex_payload_sha256 = digests, ex_model_sha256 = sha model, ex_model = model\<rparr>)))"

fun compare_chunks :: "int list \<Rightarrow> int list list \<Rightarrow> nat \<times> int list \<times> nat \<Rightarrow> (nat \<times> int list \<times> nat) res" where
  "compare_chunks model [] s = Inr s"
| "compare_chunks model (c # cs) (cursor, digest, compared) =
     (let actual = take (length c) (drop cursor model) in
      if actual \<noteq> c then Inl ValueError
      else compare_chunks model cs (cursor + length c, digest @ actual, compared + length c))"

fun compare_arrays :: "(int list \<Rightarrow> string) \<Rightarrow> (string \<Rightarrow> int list option) \<Rightarrow> int list
    \<Rightarrow> (array_entry \<times> string option) list \<Rightarrow> nat \<times> nat \<Rightarrow> (nat \<times> nat) res" where
  "compare_arrays sha payload model [] s = Inr s"
| "compare_arrays sha payload model ((e, expected) # es) (cursor, compared) =
     (if list_ex (\<lambda>b. b \<noteq> 0) (take (nat (ae_offset e) - cursor) (drop cursor model)) then Inl ValueError
      else case payload (ae_name e) of None \<Rightarrow> Inl KeyError
      | Some view \<Rightarrow>
        rbind (compare_chunks model (chunks view) (nat (ae_offset e), [], compared)) (\<lambda>(cursor, digest, compared).
          case expected of None \<Rightarrow> Inl KeyError
          | Some wanted \<Rightarrow>
            if sha digest \<noteq> wanted then Inl ValueError
            else compare_arrays sha payload model es (cursor, compared)))"

definition verify_export :: "(int list \<Rightarrow> string) \<Rightarrow> pack_manifest \<Rightarrow> (string \<Rightarrow> int list option)
    \<Rightarrow> export \<Rightarrow> nat res" where
  "verify_export sha m payload x =
     rbind (build_layout m) (\<lambda>expected.
       if length (la_arrays (ex_layout x)) \<noteq> length (la_arrays expected) then Inl ValueError
       else if ex_layout x \<noteq> expected then Inl ValueError
       else let model = ex_model x in
       if int (length model) \<noteq> la_model_bytes (ex_layout x) \<or> sha model \<noteq> ex_model_sha256 x then Inl ValueError
       else rbind (make_header expected) (\<lambda>header.
         if take (nat HEADER_BYTES) model \<noteq> header then Inl ValueError
         else rbind (compare_arrays sha payload model
                      (zip (la_arrays (ex_layout x)) (map Some (ex_payload_sha256 x)
                        @ replicate (length (la_arrays (ex_layout x))) None)) (nat HEADER_BYTES, 0))
                (\<lambda>(cursor, compared).
           if list_ex (\<lambda>b. b \<noteq> 0) (drop cursor model) then Inl ValueError else Inr compared)))"

end
