(* ===== verification/ArenaLaws.thy ===== *)
theory ArenaLaws
  imports M5Arena
begin

text \<open>
  Facts about the arena: alignment, the chain of offsets that placement produces, the size of the
  frozen model, the regions, the chunked writes and comparisons, the image of a list of arrays.
\<close>

section \<open>Alignment and placement\<close>

lemma align_ge: "0 < a \<Longrightarrow> v \<le> align v a"
  using pos_mod_bound [of a "v + a - 1"] unfolding align_def minus_mod_eq_div_mult [symmetric] by linarith

lemma align_less: "0 < a \<Longrightarrow> align v a < v + a"
  using pos_mod_sign [of a "v + a - 1"] unfolding align_def minus_mod_eq_div_mult [symmetric] by linarith

lemma align_dvd [simp]: "a dvd align v a" by (simp add: align_def)

lemma align_least: "0 < a \<Longrightarrow> a dvd w \<Longrightarrow> v \<le> w \<Longrightarrow> align v a \<le> w"
proof -
  assume a: "0 < a" "a dvd w" "v \<le> w"
  then obtain k where w: "w = a * k" by (elim dvdE)
  have "(v + a - 1) div a \<le> (a * k + (a - 1)) div a" using a w by (intro zdiv_mono1) auto
  also have "\<dots> = k" using a by simp
  finally show "align v a \<le> w" using a by (simp add: align_def w mult.commute)
qed

definition spec_size :: "array_spec \<Rightarrow> int" where
  "spec_size s = (case spec_bytes s of Inr v \<Rightarrow> v | Inl _ \<Rightarrow> 0)"

definition end_of :: "array_spec list \<Rightarrow> int \<Rightarrow> int" where
  "end_of specs c = fold (\<lambda>s c. align c 64 + spec_size s) specs c"

text \<open>The offsets run through the entries: each starts at the next multiple of 64.\<close>

fun chained :: "int \<Rightarrow> array_entry list \<Rightarrow> int \<Rightarrow> bool" where
  "chained c [] e = (c = e)"
| "chained c (x # xs) e = (ae_offset x = align c 64 \<and> 0 \<le> ae_bytes x \<and> chained (align c 64 + ae_bytes x) xs e)"

definition source_ok :: "(string \<times> source_array) list \<Rightarrow> array_spec \<Rightarrow> bool" where
  "source_ok arrays s = (case s of (name, dtype, shape) \<Rightarrow>
     (case map_of arrays name of None \<Rightarrow> False
      | Some sa \<Rightarrow> sa_shape sa = shape \<and> sa_dtype sa = dtype \<and> spec_bytes s = Inr (sa_payload_bytes sa)))"

lemma place_Inr:
  "place arrays i specs c p = Inr r \<Longrightarrow> list_all (source_ok arrays) specs"
proof (induction arrays i specs c p arbitrary: r rule: place.induct)
  case (2 arrays i name dtype shape specs c p)
  then obtain sa v r' where sa: "map_of arrays name = Some sa" "spec_bytes (name, dtype, shape) = Inr v"
      "sa_shape sa = shape" "sa_dtype sa = dtype" "sa_payload_bytes sa = v"
      "place arrays (i + 1) specs (align c 64 + v) (p + v) = Inr r'"
    by (auto simp: Let_def split: option.splits if_splits)
  then have "list_all (source_ok arrays) specs" by (intro "2.IH") simp_all
  then show ?case using sa(1-5) by (simp add: source_ok_def [of _ "(name, dtype, shape)"])
qed simp

lemma place_error:
  assumes "place arrays i specs c p = Inl e"
  shows "e = ValueError \<or> (\<exists>s\<in>set specs. map_of arrays (fst s) = None \<or> spec_bytes s = Inl e)"
  using assms
proof (induction arrays i specs c p arbitrary: e rule: place.induct)
  case (2 arrays i name dtype shape specs c p)
  show ?case
  proof (cases "map_of arrays name")
    case (Some sa)
    show ?thesis
    proof (cases "spec_bytes (name, dtype, shape)")
      case (Inr v)
      then show ?thesis
        using 2 Some by (auto simp: Let_def rbind_Inl_iff split: if_splits)
    qed (use 2 Some in simp)
  qed (use 2 in auto)
qed simp

lemma place_ok:
  assumes "list_all (source_ok arrays) specs" "\<forall>s\<in>set specs. 0 \<le> spec_size s"
  obtains es where "place arrays i specs c p = Inr (es, end_of specs c, p + sum_list (map spec_size specs))"
    "chained c es (end_of specs c)" "length es = length specs" "map ae_id es = [i..<i + length specs]"
    "map ae_bytes es = map spec_size specs" "map (\<lambda>e. (ae_name e, ae_dtype e, ae_shape e)) es = specs"
  using assms
proof (induction specs arbitrary: i c p thesis)
  case Nil
  then show ?case by (simp add: end_of_def)
next
  case (Cons s specs)
  obtain name dtype shape where s: "s = (name, dtype, shape)" by (cases s) auto
  obtain sa where sa: "map_of arrays name = Some sa" "sa_shape sa = shape" "sa_dtype sa = dtype"
    "spec_bytes s = Inr (sa_payload_bytes sa)"
    using Cons.prems(2) by (auto simp: s source_ok_def split: option.splits)
  then have v: "spec_size s = sa_payload_bytes sa" by (simp add: spec_size_def)
  obtain es where es: "place arrays (i + 1) specs (align c 64 + spec_size s) (p + spec_size s)
      = Inr (es, end_of specs (align c 64 + spec_size s), p + spec_size s + sum_list (map spec_size specs))"
    "chained (align c 64 + spec_size s) es (end_of specs (align c 64 + spec_size s))"
    "length es = length specs" "map ae_id es = [i + 1..<i + 1 + length specs]"
    "map ae_bytes es = map spec_size specs" "map (\<lambda>e. (ae_name e, ae_dtype e, ae_shape e)) es = specs"
    using Cons.IH [of "i + 1" "align c 64 + spec_size s" "p + spec_size s"] Cons.prems(2,3) by auto
  define e where "e = \<lparr>ae_id = i, ae_name = name, ae_offset = align c 64, ae_bytes = spec_size s,
    ae_dtype = dtype, ae_shape = shape, ae_source_file = sa_file sa, ae_source_sha256 = sa_sha256 sa\<rparr>"
  show ?case
  proof (rule Cons.prems(1))
    show "place arrays i (s # specs) c p
        = Inr (e # es, end_of (s # specs) c, p + sum_list (map spec_size (s # specs)))"
      using sa es(1) v by (simp add: s e_def end_of_def Let_def add.assoc)
    show "map ae_id (e # es) = [i..<i + length (s # specs)]"
      using es(4) upt_rec [of i "i + length (s # specs)"] by (simp add: e_def)
  qed (use es Cons.prems(3) in \<open>simp_all add: e_def s end_of_def\<close>)
qed

lemma chained_le: "chained c es e \<Longrightarrow> c \<le> e"
proof (induction c es e rule: chained.induct)
  case (2 c x xs e)
  then have "align c 64 + ae_bytes x \<le> e" "0 \<le> ae_bytes x" by simp_all
  then show ?case using align_ge [of 64 c] by linarith
qed simp

lemma chained_in:
  assumes "chained c es e" "x \<in> set es"
  shows "c \<le> ae_offset x \<and> 64 dvd ae_offset x \<and> ae_offset x + ae_bytes x \<le> e \<and> 0 \<le> ae_bytes x"
  using assms
proof (induction c es e rule: chained.induct)
  case (2 c y ys e)
  have a: "c \<le> align c 64" by (rule align_ge) simp
  have y: "ae_offset y = align c 64" "0 \<le> ae_bytes y" "chained (align c 64 + ae_bytes y) ys e"
    using "2.prems"(1) by simp_all
  show ?case
  proof (cases "x = y")
    case True
    then show ?thesis using y a chained_le [OF y(3)] by simp
  next
    case False
    then have "align c 64 + ae_bytes y \<le> ae_offset x \<and> 64 dvd ae_offset x \<and> ae_offset x + ae_bytes x \<le> e \<and> 0 \<le> ae_bytes x"
      using "2.IH" "2.prems"(2) y(3) by simp
    then show ?thesis using y a by linarith
  qed
qed simp

lemma chained_disjoint:
  assumes "chained c es e" "i < j" "j < length es"
  shows "ae_offset (es ! i) + ae_bytes (es ! i) \<le> ae_offset (es ! j)"
  using assms
proof (induction c es e arbitrary: i j rule: chained.induct)
  case (2 c y ys e)
  then obtain k where j: "j = Suc k" by (cases j) auto
  show ?case
  proof (cases i)
    case 0
    then show ?thesis using 2 j chained_in [of "align c 64 + ae_bytes y" ys e "ys ! k"] by simp
  next
    case (Suc l)
    then show ?thesis using 2 j by simp
  qed
qed simp

section \<open>The frozen model\<close>

lemma model_numbers:
  "length array_specs = 248"
  "list_all (\<lambda>s. 0 \<le> spec_size s \<and> spec_size s < 2 ^ 32) array_specs"
  "end_of array_specs 65536 = 205337472"
  "sum_list (map spec_size array_specs) = 205271824"
  by code_simp+

section \<open>The names are distinct\<close>

lemma distinct_concat_tag:
  assumes "distinct (map g ks)" "\<And>i. i \<in> set ks \<Longrightarrow> distinct (f i) \<and> (\<forall>x\<in>set (f i). tag x = g i)"
  shows "distinct (concat (map f ks))"
  using assms
proof (induction ks)
  case (Cons k ks)
  have "distinct (concat (map f ks))" using Cons by simp
  moreover have "x \<notin> set (concat (map f ks))" if x: "x \<in> set (f k)" for x
  proof
    assume "x \<in> set (concat (map f ks))"
    then obtain l where "l \<in> set ks" "x \<in> set (f l)" by auto
    then have "g l = g k" using Cons.prems(2) [of l] Cons.prems(2) [of k] x by auto
    moreover have "g k \<notin> g ` set ks" using Cons.prems(1) by simp
    ultimately show False using \<open>l \<in> set ks\<close> by (metis image_eqI)
  qed
  ultimately show ?case using Cons.prems(2) [of k] by auto
qed simp

definition layer_tag :: "string \<Rightarrow> string" where
  "layer_tag name = takeWhile (\<lambda>c. c \<noteq> CHR ''.'') (drop 2 name)"

definition layer_ops :: "string list" where
  "layer_ops = map fst (concat (map (\<lambda>(op, k, n). linear_specs op k n) LAYER_LINEARS)
     @ norm_specs ''ln_1'' @ norm_specs ''ln_2'')"

definition name_groups :: "string list list" where
  "name_groups = [[''embedding''], [''position'']] @ map (\<lambda>layer. map (layer_name layer) layer_ops) [0..<12]
     @ [map fst (norm_specs ''ln_f''), map fst (linear_specs ''lm_head'' 768 50257)]"

lemma names_grouped: "map fst array_specs = concat name_groups"
  by (simp add: array_specs_def name_groups_def layer_ops_def map_concat comp_def layer_name_def
      linear_specs_def norm_specs_def LAYER_LINEARS_def del: upt_Suc)

lemma layer_group:
  assumes "layer < 12"
  shows "distinct (map (layer_name layer) layer_ops)"
    "x \<in> set (map (layer_name layer) layer_ops) \<Longrightarrow> layer_tag x = str_of_nat layer"
proof -
  have "distinct layer_ops" by code_simp
  then show "distinct (map (layer_name layer) layer_ops)"
    by (simp add: distinct_map inj_on_def layer_name_def)
  have "list_all (\<lambda>i. CHR ''.'' \<notin> set (str_of_nat i)) [0..<12]" by code_simp
  then have "CHR ''.'' \<notin> set (str_of_nat layer)" using assms by (auto simp: list_all_iff)
  then show "x \<in> set (map (layer_name layer) layer_ops) \<Longrightarrow> layer_tag x = str_of_nat layer"
    by (auto simp: layer_tag_def layer_name_def takeWhile_append2 takeWhile_append1 intro!: takeWhile_append2 [of "str_of_nat layer", THEN trans])
qed

lemma names_distinct: "distinct (map fst array_specs)"
proof -
  define tags where "tags = [''bedding'', ''sition''] @ map str_of_nat [0..<12] @ [''_f'', ''_head'']"
  have d: "distinct tags" unfolding tags_def by code_simp
  have l: "length tags = length name_groups" by (simp add: tags_def name_groups_def)
  have outer: "list_all (\<lambda>(g, t). distinct g \<and> list_all (\<lambda>x. layer_tag x = t) g)
      [([''embedding''], ''bedding''), ([''position''], ''sition''), (map fst (norm_specs ''ln_f''), ''_f''),
       (map fst (linear_specs ''lm_head'' 768 50257), ''_head'')]" by code_simp
  have "distinct (fst p) \<and> (\<forall>x\<in>set (fst p). layer_tag x = snd p)" if "p \<in> set (zip name_groups tags)" for p
    using that outer layer_group
    by (auto simp: name_groups_def tags_def list_all_iff zip_append1 zip_map_map zip_same_conv_map simp del: upt_Suc)
  then have "distinct (concat (map fst (zip name_groups tags)))"
    using d l by (intro distinct_concat_tag [where tag = layer_tag and g = snd]) (auto simp: map_snd_zip)
  then show ?thesis using l by (simp add: names_grouped)
qed

section \<open>Manifests that are accepted\<close>

definition accepted :: "pack_manifest \<Rightarrow> bool" where
  "accepted m \<longleftrightarrow> pm_schema m = 1 \<and> pm_candidate_sha256 m = CANDIDATE_SHA
     \<and> pm_layout m = ''N16_K_16_signed_int8'' \<and> set (map fst (pm_arrays m)) = set (map fst array_specs)
     \<and> list_all (source_ok (pm_arrays m)) array_specs
     \<and> pm_payload_bytes m = sum_list (map spec_size array_specs)"

text \<open>A manifest that is accepted, its files named after the arrays.\<close>

definition plain_manifest :: pack_manifest where
  "plain_manifest = \<lparr>pm_schema = 1, pm_candidate_sha256 = CANDIDATE_SHA,
     pm_layout = ''N16_K_16_signed_int8'',
     pm_arrays = map (\<lambda>(name, dtype, shape). (name, \<lparr>sa_file = name, sa_sha256 = name, sa_shape = shape,
       sa_dtype = dtype, sa_payload_bytes = spec_size (name, dtype, shape)\<rparr>)) array_specs,
     pm_payload_bytes = 205271824, pm_linears = [], pm_norms = []\<rparr>"

lemma specs_sized: "s \<in> set array_specs \<Longrightarrow> spec_bytes s = Inr (spec_size s)"
proof -
  have "list_all (\<lambda>s. \<not> (case spec_bytes s of Inl _ \<Rightarrow> True | Inr _ \<Rightarrow> False)) array_specs" by code_simp
  then show "s \<in> set array_specs \<Longrightarrow> spec_bytes s = Inr (spec_size s)"
    by (auto simp: list_all_iff spec_size_def split: sum.splits)
qed

lemma plain_accepted: "accepted plain_manifest"
proof -
  have f: "map fst (pm_arrays plain_manifest) = map fst array_specs"
    by (auto simp: plain_manifest_def)
  have "source_ok (pm_arrays plain_manifest) s" if s: "s \<in> set array_specs" for s
  proof -
    obtain name dtype shape where n: "s = (name, dtype, shape)" by (cases s) auto
    have "(name, \<lparr>sa_file = name, sa_sha256 = name, sa_shape = shape, sa_dtype = dtype,
        sa_payload_bytes = spec_size s\<rparr>) \<in> set (pm_arrays plain_manifest)"
      using s n by (force simp: plain_manifest_def)
    then have "map_of (pm_arrays plain_manifest) name = Some \<lparr>sa_file = name, sa_sha256 = name,
        sa_shape = shape, sa_dtype = dtype, sa_payload_bytes = spec_size s\<rparr>"
      using names_distinct f by (intro map_of_is_SomeI) simp_all
    then show ?thesis using specs_sized [OF s] by (simp add: source_ok_def n)
  qed
  then show ?thesis
    using f by (simp add: accepted_def list_all_iff model_numbers) (simp add: plain_manifest_def)
qed

section \<open>Regions\<close>

fun contiguous :: "int \<Rightarrow> region list \<Rightarrow> int \<Rightarrow> bool" where
  "contiguous c [] e = (c = e)"
| "contiguous c (r # rs) e = (rg_offset r = c \<and> 0 < rg_bytes r \<and> rg_bytes r mod PAGE_BYTES = 0
     \<and> contiguous (c + rg_bytes r) rs e)"

text \<open>A writable region has an inaccessible one on both sides.\<close>

fun guarded :: "region list \<Rightarrow> bool" where
  "guarded (a # b # c # r) = ((rg_permissions b = 3 \<longrightarrow> rg_permissions a = 0 \<and> rg_permissions c = 0)
     \<and> guarded (b # c # r))"
| "guarded _ = True"

definition model_regions :: "region list" where
  "model_regions = fst (snd (build_regions 205340672 ([], 0)))"

lemma model_regions:
  "build_regions 205340672 ([], 0) = (Inr (), (model_regions, 268435456))"
  "length model_regions = 15" "contiguous 0 model_regions 268435456" "guarded model_regions"
  "map rg_id model_regions = [0..<15]"
  "list_all (\<lambda>r. list_all (in_dtype UInt32) (region_row r)) model_regions"
  "rg_bytes (hd model_regions) = 205340672 \<and> rg_permissions (hd model_regions) = 1 \<and> rg_permissions (last model_regions) = 0"
  by code_simp+

definition frozen_layout :: "array_entry list \<Rightarrow> layout" where
  "frozen_layout es = \<lparr>la_schema = 1, la_status = ''SERIALIZED_NOT_PHYSICALLY_QUALIFIED'',
      la_source_pack_sha256 = PACK_SHA, la_candidate_sha256 = CANDIDATE_SHA,
      la_arena_base = ARENA_BASE, la_arena_bytes = ARENA_BYTES, la_header_bytes = HEADER_BYTES,
      la_model_bytes = 205340672, la_model_payload_bytes = 205271824,
      la_mapped_bytes = sum_list (map rg_bytes (filter (\<lambda>x. rg_permissions x \<noteq> 0) model_regions)),
      la_unmapped_bytes = sum_list (map rg_bytes (filter (\<lambda>x. rg_permissions x = 0) model_regions)),
      la_arrays = es, la_regions = model_regions\<rparr>"

lemma frozen_layout_simps [simp]:
  "la_arrays (frozen_layout es) = es" "la_regions (frozen_layout es) = model_regions"
  "la_model_bytes (frozen_layout es) = 205340672" "la_model_payload_bytes (frozen_layout es) = 205271824"
  by (simp_all add: frozen_layout_def)

text \<open>The entries of an accepted layout.\<close>

definition placed :: "array_entry list \<Rightarrow> bool" where
  "placed es \<longleftrightarrow> chained 65536 es 205337472 \<and> length es = 248 \<and> map ae_id es = [0..<248]
     \<and> map ae_bytes es = map spec_size array_specs
     \<and> map (\<lambda>e. (ae_name e, ae_dtype e, ae_shape e)) es = array_specs"

lemma build_layout_accepted:
  assumes "accepted m"
  obtains es where "build_layout m = Inr (frozen_layout es)" "placed es"
proof -
  obtain es where es: "place (pm_arrays m) 0 array_specs 65536 0
      = Inr (es, end_of array_specs 65536, 0 + sum_list (map spec_size array_specs))"
    "chained 65536 es (end_of array_specs 65536)" "length es = length array_specs"
    "map ae_id es = [0..<0 + length array_specs]" "map ae_bytes es = map spec_size array_specs"
    "map (\<lambda>e. (ae_name e, ae_dtype e, ae_shape e)) es = array_specs"
    using place_ok [of "pm_arrays m" array_specs 0 65536 0] assms model_numbers(2)
    by (auto simp: accepted_def list_all_iff)
  have a: "align 205337472 4096 = 205340672" by (simp add: align_def)
  have "build_layout m = Inr (frozen_layout es)"
    using assms es(1,3) model_numbers model_regions(1,2) a
    by (simp add: build_layout_def accepted_def Let_def HEADER_BYTES_def PAGE_BYTES_def ARRAY_TABLE_def
        REGION_TABLE_def frozen_layout_def)
  moreover have "placed es" using es model_numbers by (simp add: placed_def)
  ultimately show ?thesis by (rule that)
qed

lemma build_layout_rejects: "\<not> accepted m \<Longrightarrow> build_layout m = Inl ValueError"
proof -
  assume na: "\<not> accepted m"
  show ?thesis
  proof (cases "pm_schema m \<noteq> 1 \<or> pm_candidate_sha256 m \<noteq> CANDIDATE_SHA
         \<or> pm_layout m \<noteq> ''N16_K_16_signed_int8'' \<or> set (map fst (pm_arrays m)) \<noteq> set (map fst array_specs)")
    case True
    then show ?thesis by (simp add: build_layout_def)
  next
    case ok: False
    show ?thesis
    proof (cases "place (pm_arrays m) 0 array_specs HEADER_BYTES 0")
      case (Inl e)
      have "e = ValueError"
        using place_error [OF Inl] ok specs_sized by (auto simp: map_of_eq_None_iff)
      then show ?thesis using ok Inl by (simp add: build_layout_def Let_def)
    next
      case (Inr r)
      have s: "list_all (source_ok (pm_arrays m)) array_specs" by (rule place_Inr [OF Inr])
      obtain es where "place (pm_arrays m) 0 array_specs HEADER_BYTES 0
          = Inr (es, end_of array_specs HEADER_BYTES, 0 + sum_list (map spec_size array_specs))"
        using place_ok [OF s, of 0 HEADER_BYTES 0] model_numbers(2) by (auto simp: list_all_iff)
      moreover have "pm_payload_bytes m \<noteq> sum_list (map spec_size array_specs)"
        using na ok s by (auto simp: accepted_def)
      ultimately show ?thesis using ok by (simp add: build_layout_def Let_def)
    qed
  qed
qed

lemma build_layout_Inr:
  assumes "build_layout m = Inr l"
  obtains es where "l = frozen_layout es" "placed es" "accepted m"
proof -
  have acc: "accepted m" using build_layout_rejects [of m] assms by (cases "accepted m") auto
  obtain es where "build_layout m = Inr (frozen_layout es)" "placed es"
    by (rule build_layout_accepted [OF acc])
  then show ?thesis using assms acc by (intro that [of es]) simp_all
qed

end
