(* ===== verification/ArenaProps.thy ===== *)
theory ArenaProps
  imports ArenaLaws
begin

text \<open>
  What the arena promises: the accepted manifests are exactly the complete ones, the regions tile
  the 256 MiB with guards, the header reads back to its tables, an exported image verifies, and a
  verified image carries every array byte for byte with zeros everywhere else.
\<close>

section \<open>Layout\<close>

text \<open>C8: A manifest is accepted exactly when it is the complete frozen inventory (names, shapes,
  dtypes, sizes, total); every other manifest is rejected with \<open>ValueError\<close>.\<close>

theorem arena_accepts:
  "\<exists>l. build_layout m = (if accepted m then Inr l else Inl ValueError)"
proof (cases "accepted m")
  case True
  then obtain es where "build_layout m = Inr (frozen_layout es)" by (rule build_layout_accepted)
  then show ?thesis using True by simp
next
  case False
  then show ?thesis using build_layout_rejects [of m] by simp
qed

text \<open>C2: In an accepted layout the regions tile the arena from 0 to 256 MiB in whole pages, writable
  regions have an inaccessible page on both sides, the model region is read-only, and its 248 arrays
  lie in it after the header, 64-byte aligned and pairwise disjoint.\<close>

theorem arena_layout_safe:
  assumes "build_layout m = Inr l"
  shows "contiguous 0 (la_regions l) ARENA_BYTES \<and> guarded (la_regions l)
    \<and> rg_permissions (hd (la_regions l)) = 1 \<and> rg_bytes (hd (la_regions l)) = la_model_bytes l
    \<and> rg_permissions (last (la_regions l)) = 0 \<and> length (la_arrays l) = 248
    \<and> la_mapped_bytes l + la_unmapped_bytes l = ARENA_BYTES
    \<and> (\<forall>e\<in>set (la_arrays l). HEADER_BYTES \<le> ae_offset e \<and> 64 dvd ae_offset e
         \<and> ae_offset e + ae_bytes e \<le> la_model_bytes l)
    \<and> (\<forall>i j. i < j \<longrightarrow> j < 248 \<longrightarrow>
         ae_offset (la_arrays l ! i) + ae_bytes (la_arrays l ! i) \<le> ae_offset (la_arrays l ! j))"
proof -
  obtain es where l: "l = frozen_layout es" "placed es" by (rule build_layout_Inr [OF assms])
  have es: "chained 65536 es 205337472" "length es = 248" using l(2) by (simp_all add: placed_def)
  have "la_mapped_bytes (frozen_layout []) + la_unmapped_bytes (frozen_layout []) = ARENA_BYTES" by code_simp
  then have sum: "la_mapped_bytes l + la_unmapped_bytes l = ARENA_BYTES" by (simp add: l frozen_layout_def)
  have "HEADER_BYTES \<le> ae_offset e \<and> 64 dvd ae_offset e \<and> ae_offset e + ae_bytes e \<le> 205340672"
    if "e \<in> set es" for e
    using chained_in [OF es(1) that] by (simp add: HEADER_BYTES_def)
  moreover have "contiguous 0 model_regions ARENA_BYTES" using model_regions(3) by (simp add: ARENA_BYTES_def)
  ultimately show ?thesis
    using sum model_regions(4,7) es(2) chained_disjoint [OF es(1)] by (simp add: l(1))
qed

theorem arena_layout_safe_witness:
  "\<exists>l. build_layout plain_manifest = Inr l \<and> contiguous 0 (la_regions l) ARENA_BYTES \<and> guarded (la_regions l)"
proof -
  obtain es where l: "build_layout plain_manifest = Inr (frozen_layout es)"
    by (rule build_layout_accepted [OF plain_accepted])
  then show ?thesis using arena_layout_safe [OF l] by blast
qed

section \<open>The header\<close>

lemma length_zeros [simp]: "length (zeros n) = n" by (simp add: zeros_def)
lemma zeros_0 [simp]: "zeros 0 = []" by (simp add: zeros_def)

lemma zeros_add: "zeros m @ zeros n = zeros (m + n)" by (simp add: zeros_def replicate_add)

lemma poke_zeros:
  assumes "length p \<le> k" "k + length x \<le> length p + n"
  shows "poke (p @ zeros n) k x
    = p @ zeros (k - length p) @ x @ zeros (length p + n - k - length x)"
  using assms by (simp add: poke_def zeros_def)

lemma pack_rows_zeros:
  assumes "\<forall>f\<in>set fs. length f = 8 \<and> list_all (in_dtype UInt32) f" "length p = table + i * 32"
    and "32 * length fs \<le> n"
  shows "pack_rows table (zip [i..<i + length fs] fs) (p @ zeros n)
    = Inr (p @ view_bytes (concat fs) @ zeros (n - 32 * length fs))"
  using assms
proof (induction fs arbitrary: i p n)
  case Nil
  then show ?case by (simp add: view_bytes_def)
next
  case (Cons f fs)
  have z: "zip [i..<i + length (f # fs)] (f # fs) = (i, f) # zip [i + 1..<i + 1 + length fs] fs"
    using upt_rec [of i "i + length (f # fs)"] by simp
  have "pack_into f (table + i * 32) (p @ zeros n) = Inr ((p @ view_bytes f) @ zeros (n - 32))"
    using Cons.prems by (simp add: pack_into_def poke_zeros del: in_dtype_simps)
  moreover have "pack_rows table (zip [i + 1..<i + 1 + length fs] fs) ((p @ view_bytes f) @ zeros (n - 32))
      = Inr ((p @ view_bytes f) @ view_bytes (concat fs) @ zeros (n - 32 - 32 * length fs))"
    using Cons.prems by (intro Cons.IH) simp_all
  ultimately show ?case unfolding z by (simp add: view_bytes_def del: upt_Suc)
qed

lemma sha_bytes: "length (fromhex PACK_SHA) = 32" "length (fromhex CANDIDATE_SHA) = 32"
  by code_simp+

definition the_row :: "array_entry \<Rightarrow> int list" where
  "the_row e = (case array_row e of Inr r \<Rightarrow> r | Inl _ \<Rightarrow> [])"

lemma array_rows_ok:
  assumes "placed es" "e \<in> set es"
  shows "array_row e = Inr (the_row e) \<and> length (the_row e) = 8 \<and> list_all (in_dtype UInt32) (the_row e)"
proof -
  have es: "chained 65536 es 205337472" "map ae_id es = [0..<248]"
    "map (\<lambda>e. (ae_name e, ae_dtype e, ae_shape e)) es = array_specs"
    using assms(1) by (simp_all add: placed_def)
  have "list_all (\<lambda>(name, dtype, shape). length shape \<le> 3 \<and> list_all (\<lambda>v. 0 \<le> v \<and> v < 2 ^ 32) shape
      \<and> (case DTYPES dtype of Inr (c, w) \<Rightarrow> 0 \<le> c \<and> c < 2 ^ 32 | _ \<Rightarrow> False)) array_specs" by code_simp
  moreover have "(ae_name e, ae_dtype e, ae_shape e) \<in> set array_specs"
    using assms(2) by (simp flip: es(3))
  ultimately have spec: "length (ae_shape e) \<le> 3 \<and> list_all (\<lambda>v. 0 \<le> v \<and> v < 2 ^ 32) (ae_shape e)
    \<and> (case DTYPES (ae_dtype e) of Inr (c, w) \<Rightarrow> 0 \<le> c \<and> c < 2 ^ 32 | _ \<Rightarrow> False)"
    unfolding list_all_iff by fast
  then obtain c w where d: "DTYPES (ae_dtype e) = Inr (c, w)" "0 \<le> c" "c < 2 ^ 32"
    by (auto split: sum.splits)
  have "ae_id e \<in> set [0..<248]" using assms(2) by (simp only: es(2) [symmetric] set_map imageI)
  then have "ae_id e < 248" by simp
  moreover have "65536 \<le> ae_offset e" "ae_offset e + ae_bytes e \<le> 205337472" "0 \<le> ae_bytes e"
    using chained_in [OF es(1) assms(2)] by simp_all
  ultimately show ?thesis
    using d spec by (auto simp: the_row_def array_row_def list_all_iff)
qed

text \<open>The header of an accepted layout is written without error and is exactly the sixteen fields,
  the two digests, the array table and the region table at their declared offsets, zeros between:
  no table overwrites another, and its length is the declared 65536 bytes.\<close>

theorem header_image:
  assumes "build_layout m = Inr l"
  shows "make_header l = Inr (view_bytes (header_fields l) @ fromhex PACK_SHA @ fromhex CANDIDATE_SHA
      @ view_bytes (concat (map the_row (la_arrays l))) @ zeros 128
      @ view_bytes (concat (map region_row (la_regions l))) @ zeros 56864)
    \<and> length (view_bytes (header_fields l) @ fromhex PACK_SHA @ fromhex CANDIDATE_SHA) = nat ARRAY_TABLE
    \<and> nat ARRAY_TABLE + 4 * length (concat (map the_row (la_arrays l))) + 128 = nat REGION_TABLE
    \<and> nat REGION_TABLE + 4 * length (concat (map region_row (la_regions l))) + 56864 = nat HEADER_BYTES"
proof -
  obtain es where l: "l = frozen_layout es" "placed es" by (rule build_layout_Inr [OF assms])
  have es: "length es = 248" "map ae_id es = [0..<248]" using l(2) by (simp_all add: placed_def)
  note row = array_rows_ok [OF l(2), THEN conjunct1] array_rows_ok [OF l(2), THEN conjunct2, THEN conjunct1]
    array_rows_ok [OF l(2), THEN conjunct2, THEN conjunct2]
  define F where "F = view_bytes (header_fields l) @ fromhex PACK_SHA @ fromhex CANDIDATE_SHA"
  define A where "A = view_bytes (concat (map the_row es))"
  define R where "R = view_bytes (concat (map region_row model_regions))"
  have lf: "length (view_bytes (header_fields l)) = 64" by (simp add: header_fields_def)
  have u: "list_all (in_dtype UInt32) (header_fields l)"
    by (simp add: header_fields_def l(1) es(1) model_regions(2) HEADER_BYTES_def ARENA_BYTES_def ARRAY_TABLE_def REGION_TABLE_def)
  have la: "length A = 7936"
    using row(2) es(1) by (simp add: A_def length_concat_const [where c = 8])
  have lr: "length (concat (map region_row model_regions)) = 120"
    using model_regions(2) by (subst length_concat_const [where c = 8]) (auto simp: region_row_def)
  have s1: "pack_into (header_fields l) 0 (zeros (nat HEADER_BYTES))
      = Inr (view_bytes (header_fields l) @ zeros 65472)"
    using u poke_zeros [of "[]" 0 "view_bytes (header_fields l)" 65536] lf
    by (simp add: pack_into_def header_fields_def HEADER_BYTES_def)
  have s2: "poke (poke (view_bytes (header_fields l) @ zeros 65472) 64 (fromhex PACK_SHA)) 96 (fromhex CANDIDATE_SHA)
      = F @ zeros 65408"
    using poke_zeros [of "view_bytes (header_fields l)" 64 "fromhex PACK_SHA" 65472]
      poke_zeros [of "view_bytes (header_fields l) @ fromhex PACK_SHA" 96 "fromhex CANDIDATE_SHA" 65440]
      lf sha_bytes by (simp add: F_def)
  have rows: "rmap (\<lambda>e. rbind (array_row e) (\<lambda>row. Inr (ae_id e, row))) es = Inr (zip [0..<0 + length (map the_row es)] (map the_row es))"
  proof -
    have "rmap (\<lambda>e. rbind (array_row e) (\<lambda>row. Inr (ae_id e, row))) es = Inr (map (\<lambda>e. (ae_id e, the_row e)) es)"
      by (rule rmap_total) (simp add: row(1))
    moreover have "map (\<lambda>e. (ae_id e, the_row e)) es = zip (map ae_id es) (map the_row es)"
      by (simp add: zip_map_map zip_same_conv_map)
    ultimately show ?thesis using es by simp
  qed
  have s3: "pack_rows (nat ARRAY_TABLE) (zip [0..<0 + length (map the_row es)] (map the_row es)) (F @ zeros 65408)
      = Inr ((F @ A) @ zeros 57472)"
    unfolding A_def by (subst pack_rows_zeros) (use row(2,3) es(1) lf sha_bytes in \<open>auto simp: F_def ARRAY_TABLE_def\<close>)
  have rr: "map (\<lambda>r. (rg_id r, region_row r)) model_regions
      = zip [0..<0 + length (map region_row model_regions)] (map region_row model_regions)"
  proof -
    have "map (\<lambda>r. (rg_id r, region_row r)) model_regions = zip (map rg_id model_regions) (map region_row model_regions)"
      by (simp add: zip_map_map zip_same_conv_map)
    then show ?thesis using model_regions(2,5) by simp
  qed
  have s4: "pack_rows (nat REGION_TABLE) (map (\<lambda>r. (rg_id r, region_row r)) model_regions) ((F @ A) @ zeros 57472)
      = Inr ((F @ A @ zeros 128) @ R @ zeros 56864)"
  proof -
    have z: "(F @ A) @ zeros 57472 = (F @ A @ zeros 128) @ zeros 57344"
      by (simp add: zeros_add)
    show ?thesis unfolding rr z R_def
      by (subst pack_rows_zeros)
        (use model_regions(2,6) la lf sha_bytes in \<open>auto simp: F_def REGION_TABLE_def region_row_def list_all_iff\<close>)
  qed
  have "make_header l = Inr (F @ A @ zeros 128 @ R @ zeros 56864)"
    using s1 s2 rows s3 s4 by (simp add: make_header_def l(1))
  then show ?thesis
    using la lr lf sha_bytes by (simp add: F_def A_def R_def l(1) ARRAY_TABLE_def REGION_TABLE_def HEADER_BYTES_def)
qed

theorem header_image_witness:
  "\<exists>l h. build_layout plain_manifest = Inr l \<and> make_header l = Inr h \<and> length h = nat HEADER_BYTES"
proof -
  obtain es where l: "build_layout plain_manifest = Inr (frozen_layout es)"
    by (rule build_layout_accepted [OF plain_accepted])
  from header_image [OF l] show ?thesis using l by (fastforce simp: ARRAY_TABLE_def)
qed

end
