(* ===== verification/ArenaImage.thy ===== *)
theory ArenaImage
  imports ArenaProps
begin

text \<open>
  The model image: chunked writes and comparisons, the bytes of a list of placed arrays, the
  export of an accepted pack and the verification of an exported directory.
\<close>

section \<open>The image\<close>

text \<open>The bytes from the cursor on: gaps of zeros and the payloads in order.\<close>

fun body :: "(string \<Rightarrow> int list option) \<Rightarrow> nat \<Rightarrow> array_entry list \<Rightarrow> int list" where
  "body payload c [] = []"
| "body payload c (e # es) = zeros (nat (ae_offset e) - c) @ the (payload (ae_name e))
     @ body payload (nat (ae_offset e) + length (the (payload (ae_name e)))) es"

text \<open>Every payload is present with its declared size (what the pack reader checked).\<close>

definition payloads_ok :: "(string \<Rightarrow> int list option) \<Rightarrow> array_entry list \<Rightarrow> bool" where
  "payloads_ok payload es \<longleftrightarrow> (\<forall>e\<in>set es. \<exists>v. payload (ae_name e) = Some v \<and> int (length v) = ae_bytes e)"

lemma payloads_ok_Cons: "payloads_ok payload (x # es) \<longleftrightarrow>
    (\<exists>v. payload (ae_name x) = Some v \<and> int (length v) = ae_bytes x) \<and> payloads_ok payload es"
  by (auto simp: payloads_ok_def)

lemma concat_chunks_of: "0 < n \<Longrightarrow> concat (chunks_of n xs) = xs"
proof (induction n xs rule: chunks_of.induct)
  case (1 n xs)
  then show ?case by (subst chunks_of.simps) (simp add: chunks_of.simps)
qed

lemma concat_chunks [simp]: "concat (chunks v) = v"
  by (simp add: chunks_def concat_chunks_of CHUNK_BYTES_def)

lemma poke_poke: "length a = n \<Longrightarrow> off + n + length b \<le> length f
    \<Longrightarrow> poke (poke f off a) (off + n) b = poke f off (a @ b)"
  by (simp add: poke_def add_ac)

lemma length_poke: "off + length x \<le> length f \<Longrightarrow> length (poke f off x) = length f"
  by (simp add: poke_def)

lemma write_chunks_eq:
  "c + length (concat cs) \<le> length f
    \<Longrightarrow> write_chunks cs (f, c, d) = (poke f c (concat cs), c + length (concat cs), d @ concat cs)"
proof (induction cs arbitrary: f c d)
  case Nil
  then show ?case by (simp add: poke_def)
next
  case (Cons x cs)
  have w: "write_at f c x = poke f c x" using Cons.prems by (simp add: write_at_def)
  have "write_chunks cs (poke f c x, c + length x, d @ x)
      = (poke (poke f c x) (c + length x) (concat cs), c + length x + length (concat cs), (d @ x) @ concat cs)"
    using Cons.prems by (intro Cons.IH) (simp add: length_poke)
  then show ?case using Cons.prems by (simp add: w poke_poke add.assoc)
qed

lemma compare_chunks_eq:
  "compare_chunks model cs (c, d, k) =
     (if take (length (concat cs)) (drop c model) = concat cs
      then Inr (c + length (concat cs), d @ concat cs, k + length (concat cs)) else Inl ValueError)"
proof (induction cs arbitrary: c d k)
  case (Cons x cs)
  show ?case
  proof (cases "take (length x) (drop c model) = x")
    case True
    then have "take (length (concat (x # cs))) (drop c model) = x @ take (length (concat cs)) (drop (c + length x) model)"
      by (simp add: take_add add.commute)
    then show ?thesis using True Cons.IH [of "c + length x" "d @ x" "k + length x"] by (simp add: Let_def add.assoc)
  next
    case False
    have "take (length (concat (x # cs))) (drop c model) \<noteq> concat (x # cs)"
    proof
      assume "take (length (concat (x # cs))) (drop c model) = concat (x # cs)"
      then have "take (length x) (take (length (concat (x # cs))) (drop c model)) = x" by simp
      then show False using False by (simp add: min_absorb1)
    qed
    then show ?thesis using False by (simp add: Let_def)
  qed
qed simp

lemma take_zeros_iff: "\<not> list_ex (\<lambda>b. b \<noteq> 0) xs \<longleftrightarrow> xs = zeros (length xs)"
  by (induction xs) (auto simp: zeros_def)

lemma length_body:
  "chained (int c) es e \<Longrightarrow> payloads_ok payload es \<Longrightarrow> int (length (body payload c es)) = e - int c"
proof (induction es arbitrary: c)
  case (Cons x es)
  obtain v where v: "payload (ae_name x) = Some v" "int (length v) = ae_bytes x"
    using Cons.prems(2) by (auto simp: payloads_ok_def)
  have off: "int c \<le> ae_offset x" using Cons.prems(1) align_ge [of 64 "int c"] by simp
  have "chained (int (nat (ae_offset x) + length v)) es e" using Cons.prems(1) off v(2) by simp
  then have "int (length (body payload (nat (ae_offset x) + length v) es)) = e - int (nat (ae_offset x) + length v)"
    using Cons.prems(2) by (intro Cons.IH) (simp_all add: payloads_ok_Cons)
  then show ?case using v off by simp
qed simp

lemma write_arrays_eq:
  assumes "chained (int c) es e" "payloads_ok payload es" "length pre = c" "e \<le> int (c + n)"
  shows "write_arrays sha payload es (pre @ zeros n)
    = Inr (pre @ body payload c es @ zeros (c + n - nat e), map (\<lambda>x. sha (the (payload (ae_name x)))) es)"
  using assms
proof (induction es arbitrary: c pre n)
  case (Cons x es)
  obtain v where v: "payload (ae_name x) = Some v" "int (length v) = ae_bytes x"
    using Cons.prems(2) by (auto simp: payloads_ok_Cons)
  define off where "off = nat (ae_offset x)"
  have o: "c \<le> off" "ae_offset x = int off" using Cons.prems(1) align_ge [of 64 "int c"] by (simp_all add: off_def)
  have ch: "chained (int (off + length v)) es e" using Cons.prems(1) o(2) v(2) by simp
  then have e: "int (off + length v) \<le> e" by (rule chained_le)
  define pre' where "pre' = pre @ zeros (off - c) @ v"
  have lp: "length pre' = off + length v" using Cons.prems(3) o(1) by (simp add: pre'_def)
  have "write_chunks (chunks v) (pre @ zeros n, off, []) = (pre' @ zeros (c + n - off - length v), off + length v, v)"
    using e Cons.prems(3,4) o(1) by (simp add: write_chunks_eq poke_zeros pre'_def)
  moreover have "write_arrays sha payload es (pre' @ zeros (c + n - off - length v))
      = Inr (pre' @ body payload (off + length v) es @ zeros (off + length v + (c + n - off - length v) - nat e),
          map (\<lambda>x. sha (the (payload (ae_name x)))) es)"
    using ch Cons.prems(2,4) lp e by (intro Cons.IH) (simp_all add: payloads_ok_Cons)
  moreover have "off + length v + (c + n - off - length v) = c + n" using e Cons.prems(4) by linarith
  ultimately have "write_arrays sha payload (x # es) (pre @ zeros n)
      = Inr (pre' @ body payload (off + length v) es @ zeros (c + n - nat e),
          sha v # map (\<lambda>x. sha (the (payload (ae_name x)))) es)"
    by (simp only: write_arrays.simps v(1) option.case off_def [symmetric] prod.case rbind_simps)
  then show ?case by (simp add: v(1) pre'_def off_def)
next
  case Nil
  then have "nat e = c" by auto
  then show ?case by simp
qed

lemma compare_arrays_sound:
  assumes "compare_arrays sha payload model xs (c, k) = Inr (c', k')" "chained (int c) (map fst xs) e"
    and "payloads_ok payload (map fst xs)" "e \<le> int (length model)"
  shows "take (nat e - c) (drop c model) = body payload c (map fst xs) \<and> c' = nat e
    \<and> int k' = int k + sum_list (map (ae_bytes \<circ> fst) xs)"
  using assms
proof (induction xs arbitrary: c k)
  case (Cons p xs)
  obtain x w where p: "p = (x, w)" by (cases p)
  obtain v where v: "payload (ae_name x) = Some v" "int (length v) = ae_bytes x"
    using Cons.prems(3) by (auto simp: payloads_ok_Cons p)
  define off where "off = nat (ae_offset x)"
  have o: "c \<le> off" "ae_offset x = int off"
    using Cons.prems(2) align_ge [of 64 "int c"] by (simp_all add: off_def p)
  have ch: "chained (int (off + length v)) (map fst xs) e" using Cons.prems(2) o(2) v(2) by (simp add: p)
  then have e: "int (off + length v) \<le> e" by (rule chained_le)
  have gap: "take (off - c) (drop c model) = zeros (off - c)"
    using Cons.prems(1,4) e o(1) take_zeros_iff [of "take (off - c) (drop c model)"]
    by (simp add: p min_absorb2 flip: off_def split: if_splits)
  have pay: "take (length v) (drop off model) = v"
    using Cons.prems(1) by (auto simp: p v(1) compare_chunks_eq simp flip: off_def split: if_splits)
  have rest: "compare_arrays sha payload model xs (off + length v, k + length v) = Inr (c', k')"
    using Cons.prems(1) by (auto simp: p v(1) compare_chunks_eq simp flip: off_def split: if_splits option.splits)
  have IH: "take (nat e - (off + length v)) (drop (off + length v) model) = body payload (off + length v) (map fst xs)
      \<and> c' = nat e \<and> int k' = int (k + length v) + sum_list (map (ae_bytes \<circ> fst) xs)"
    using rest ch Cons.prems(3,4) by (intro Cons.IH) (simp_all add: payloads_ok_Cons p)
  have d: "drop (off - c + c) model = drop off model" using o(1) by simp
  have "nat e - c = (off - c) + (length v + (nat e - (off + length v)))" using o(1) e by linarith
  then have "take (nat e - c) (drop c model) = take (off - c) (drop c model)
      @ take (length v) (drop off model) @ take (nat e - (off + length v)) (drop (off + length v) model)"
    using d by (simp only: take_add drop_drop) (simp add: add.commute)
  then show ?case using gap pay IH v by (simp add: p comp_def flip: off_def)
next
  case Nil
  then show ?case by auto
qed

lemma compare_arrays_complete:
  assumes "chained (int c) es e" "payloads_ok payload es" "length pre = c"
  shows "compare_arrays sha payload (pre @ body payload c es @ post)
      (zip es (map Some (map (\<lambda>x. sha (the (payload (ae_name x)))) es) @ ds)) (c, k)
    = Inr (nat e, k + nat (sum_list (map ae_bytes es)))"
  using assms
proof (induction es arbitrary: c pre k)
  case (Cons x es)
  obtain v where v: "payload (ae_name x) = Some v" "int (length v) = ae_bytes x"
    using Cons.prems(2) by (auto simp: payloads_ok_Cons)
  define off where "off = nat (ae_offset x)"
  have o: "c \<le> off" "ae_offset x = int off" using Cons.prems(1) align_ge [of 64 "int c"] by (simp_all add: off_def)
  have ch: "chained (int (off + length v)) es e" using Cons.prems(1) o(2) v(2) by simp
  define pre' where "pre' = pre @ zeros (off - c) @ v"
  have lp: "length pre' = off + length v" using Cons.prems(3) o(1) by (simp add: pre'_def)
  define model where "model = pre @ body payload c (x # es) @ post"
  have m: "model = pre' @ body payload (off + length v) es @ post"
    by (simp add: model_def pre'_def v(1) flip: off_def)
  have gap: "take (off - c) (drop c model) = zeros (off - c)" and pay: "take (length v) (drop off model) = v"
    using Cons.prems(3) o(1) by (simp_all add: m pre'_def)
  have S: "0 \<le> sum_list (map ae_bytes es)"
    using Cons.prems(2) by (intro sum_list_nonneg) (fastforce simp: payloads_ok_def)
  have "compare_arrays sha payload model (zip es (map Some (map (\<lambda>x. sha (the (payload (ae_name x)))) es) @ ds)) (off + length v, k + length v)
      = Inr (nat e, k + length v + nat (sum_list (map ae_bytes es)))"
    unfolding m using ch Cons.prems(2) lp by (intro Cons.IH) (simp_all add: payloads_ok_Cons)
  moreover have "\<not> list_ex (\<lambda>b. b \<noteq> 0) (take (off - c) (drop c model))" unfolding gap by (simp add: take_zeros_iff)
  moreover have "length v + nat (sum_list (map ae_bytes es)) = nat (sum_list (map ae_bytes (x # es)))"
    using S by (simp add: nat_add_distrib flip: v(2))
  ultimately have "compare_arrays sha payload model
      ((x, Some (sha v)) # zip es (map Some (map (\<lambda>x. sha (the (payload (ae_name x)))) es) @ ds)) (c, k)
    = Inr (nat e, k + nat (sum_list (map ae_bytes (x # es))))"
    using pay
    by (simp only: compare_arrays.simps v(1) option.case off_def [symmetric] if_False compare_chunks_eq concat_chunks
        if_True rbind_simps prod.case append_Nil add.assoc not_not) simp
  then show ?case by (simp add: model_def v(1))
next
  case Nil
  then have "nat e = c" by auto
  then show ?case by simp
qed

section \<open>Export and verification\<close>

text \<open>Payloads of the declared sizes.\<close>

definition payload_sized :: "(string \<Rightarrow> int list option) \<Rightarrow> bool" where
  "payload_sized payload \<longleftrightarrow> (\<forall>s\<in>set array_specs. \<exists>v. payload (fst s) = Some v \<and> int (length v) = spec_size s)"

lemma placed_payloads:
  assumes "placed es" "payload_sized payload"
  shows "payloads_ok payload es"
proof -
  have e: "map (\<lambda>e. (ae_name e, ae_dtype e, ae_shape e)) es = array_specs" "map ae_bytes es = map spec_size array_specs"
    using assms(1) by (simp_all add: placed_def)
  have "\<exists>v. payload (ae_name (es ! i)) = Some v \<and> int (length v) = ae_bytes (es ! i)" if i: "i < length es" for i
  proof -
    have l: "length array_specs = length es" using e(1) by (metis length_map)
    have a: "array_specs ! i = (ae_name (es ! i), ae_dtype (es ! i), ae_shape (es ! i))"
      using i by (simp flip: e(1))
    have b: "ae_bytes (es ! i) = spec_size (array_specs ! i)"
      using i l arg_cong [OF e(2), of "\<lambda>xs. xs ! i"] by simp
    have "array_specs ! i \<in> set array_specs" using i l by simp
    then show ?thesis using assms(2) a b unfolding payload_sized_def by fastforce
  qed
  then show ?thesis unfolding payloads_ok_def by (metis in_set_conv_nth)
qed

text \<open>The image of a layout: its header, its arrays, zeros to the end of the model region.\<close>

definition image_of :: "layout \<Rightarrow> (string \<Rightarrow> int list option) \<Rightarrow> int list" where
  "image_of l payload = (case make_header l of Inl _ \<Rightarrow> [] | Inr h \<Rightarrow>
     h @ body payload 65536 (la_arrays l) @ zeros 3200)"

lemma image_parts:
  assumes "build_layout m = Inr l" "payload_sized payload"
  obtains es h where "l = frozen_layout es" "placed es" "make_header l = Inr h" "length h = 65536"
    "payloads_ok payload es" "length (body payload 65536 es) = 205271936"
    "sum_list (map ae_bytes es) = 205271824" "chained (int 65536) es 205337472"
proof -
  obtain es where l: "l = frozen_layout es" "placed es" by (rule build_layout_Inr [OF assms(1)])
  obtain h where h: "make_header l = Inr h" "length h = nat HEADER_BYTES"
    using header_image [OF assms(1)] by (fastforce simp: ARRAY_TABLE_def)
  have p: "payloads_ok payload es" using l(2) assms(2) by (rule placed_payloads)
  have c: "chained (int 65536) es 205337472" using l(2) by (simp add: placed_def)
  have "sum_list (map ae_bytes es) = 205271824" using l(2) model_numbers(4) by (simp add: placed_def)
  moreover have "length (body payload 65536 es) = 205271936" using length_body [OF c p] by simp
  ultimately show ?thesis using l h p c by (intro that [of es h]) (simp_all add: HEADER_BYTES_def)
qed

lemma export_model_eq:
  assumes "build_layout m = Inr l" "payload_sized payload"
  shows "export_model sha m payload = Inr \<lparr>ex_layout = l,
      ex_payload_sha256 = map (\<lambda>x. sha (the (payload (ae_name x)))) (la_arrays l),
      ex_model_sha256 = sha (image_of l payload), ex_model = image_of l payload\<rparr>"
proof -
  obtain es h where p: "l = frozen_layout es" "make_header l = Inr h" "length h = 65536"
    "payloads_ok payload es" "chained (int 65536) es 205337472"
    by (rule image_parts [OF assms])
  have w: "write_at (zeros (nat (la_model_bytes l))) 0 h = h @ zeros 205275136"
    using p(3) poke_zeros [of "[]" 0 h 205340672] by (simp add: write_at_def p(1))
  have a: "write_arrays sha payload (la_arrays l) (h @ zeros 205275136)
      = Inr (h @ body payload 65536 es @ zeros 3200, map (\<lambda>x. sha (the (payload (ae_name x)))) es)"
    using write_arrays_eq [OF p(5,4,3), of 205275136 sha] by (simp add: p(1))
  show ?thesis
    using assms(1) p(2) w a by (simp add: export_model_def image_of_def) (simp add: p(1))
qed

lemma exported_verifies:
  assumes "accepted m" "payload_sized payload"
  shows "\<exists>x. export_model sha m payload = Inr x \<and> verify_export sha m payload x = Inr 205271824"
proof -
  obtain es where b: "build_layout m = Inr (frozen_layout es)"
    by (rule build_layout_accepted [OF assms(1)])
  obtain es' h where p: "frozen_layout es = frozen_layout es'" "make_header (frozen_layout es) = Inr h"
    "length h = 65536" "payloads_ok payload es'" "length (body payload 65536 es') = 205271936"
    "sum_list (map ae_bytes es') = 205271824" "chained (int 65536) es' 205337472"
    by (rule image_parts [OF b assms(2)])
  have e: "es' = es" using arg_cong [OF p(1), of la_arrays] by simp
  define img where "img = h @ body payload 65536 es @ zeros 3200"
  have img: "image_of (frozen_layout es) payload = img" by (simp add: image_of_def p(2) img_def)
  define digests where "digests = map (\<lambda>x. sha (the (payload (ae_name x)))) es"
  have len: "int (length img) = 205340672" using p(3,5) by (simp add: img_def e)
  have tail: "\<not> list_ex (\<lambda>b. b \<noteq> 0) (drop 205337472 img)"
    using p(3,5) by (simp add: img_def e take_zeros_iff)
  have cmp: "compare_arrays sha payload img (zip es (map Some digests @ replicate (length es) None)) (65536, 0)
      = Inr (205337472, 205271824)"
    using compare_arrays_complete [OF p(7,4,3), of sha "zeros 3200" "replicate (length es) None" 0] p(6)
    by (simp add: img_def digests_def e)
  have "verify_export sha m payload \<lparr>ex_layout = frozen_layout es, ex_payload_sha256 = digests,
      ex_model_sha256 = sha img, ex_model = img\<rparr> = Inr 205271824"
    using b p(2,3) len tail cmp by (simp add: verify_export_def Let_def HEADER_BYTES_def) (simp add: img_def)
  then show ?thesis
    using export_model_eq [OF b assms(2), of sha] by (simp add: img digests_def)
qed

text \<open>A payload of zeros of the declared sizes.\<close>

definition blank_payload :: "string \<Rightarrow> int list option" where
  "blank_payload name = map_option (\<lambda>(dtype, shape). zeros (nat (spec_size (name, dtype, shape))))
     (map_of array_specs name)"

lemma blank_payload_sized: "payload_sized blank_payload"
  unfolding payload_sized_def
proof
  fix s assume s: "s \<in> set array_specs"
  obtain name dtype shape where n: "s = (name, dtype, shape)" by (cases s) auto
  have "map_of array_specs name = Some (dtype, shape)"
    using names_distinct s by (simp add: n)
  moreover have "0 \<le> spec_size s" using model_numbers(2) s by (auto simp: list_all_iff)
  ultimately show "\<exists>v. blank_payload (fst s) = Some v \<and> int (length v) = spec_size s"
    by (simp add: blank_payload_def n)
qed

text \<open>C4: Exporting a complete pack whose arrays have their declared sizes always succeeds, and the
  exported directory verifies with the full payload count, whatever the hash function.\<close>

theorem export_verifies:
  assumes "accepted m" "payload_sized payload"
  shows "\<exists>x. export_model sha m payload = Inr x \<and> verify_export sha m payload x = Inr 205271824"
  by (rule exported_verifies [OF assms])

theorem export_verifies_witness:
  "\<exists>x. export_model (\<lambda>_. ''digest'') plain_manifest blank_payload = Inr x
     \<and> verify_export (\<lambda>_. ''digest'') plain_manifest blank_payload x = Inr 205271824"
  by (rule export_verifies [OF plain_accepted blank_payload_sized])

text \<open>C3: Verification accepts one model file only: when it succeeds, the file is byte for byte the
  image the exporter writes (header, every array at its offset, zeros elsewhere).\<close>

theorem verified_image_unique:
  assumes "verify_export sha m payload x = Inr n" "payload_sized payload"
  shows "\<exists>y. export_model sha m payload = Inr y \<and> ex_model x = ex_model y \<and> ex_layout x = ex_layout y
    \<and> n = 205271824"
proof -
  obtain l where b: "build_layout m = Inr l" using assms(1) by (auto simp: verify_export_def)
  obtain es h where p: "l = frozen_layout es" "make_header l = Inr h" "length h = 65536" "payloads_ok payload es"
    "length (body payload 65536 es) = 205271936" "sum_list (map ae_bytes es) = 205271824"
    "chained (int 65536) es 205337472"
    by (rule image_parts [OF b assms(2)])
  define model where "model = ex_model x"
  define xs where "xs = zip es (map Some (ex_payload_sha256 x) @ replicate (length es) None)"
  have l: "ex_layout x = l" "int (length model) = 205340672" "take 65536 model = h"
    using assms(1) b p(2) by (auto simp: verify_export_def Let_def model_def HEADER_BYTES_def p(1) split: if_splits)
  obtain c' where c: "compare_arrays sha payload model xs (65536, 0) = Inr (c', n)"
    "\<not> list_ex (\<lambda>b. b \<noteq> 0) (drop c' model)"
    using assms(1) b p(2) l(1)
    by (auto simp: verify_export_def Let_def model_def HEADER_BYTES_def xs_def p(1) split: if_splits)
  have f: "map fst xs = es" by (simp add: xs_def map_fst_zip_take)
  have s: "take (nat 205337472 - 65536) (drop 65536 model) = body payload 65536 es \<and> c' = nat 205337472
      \<and> int n = int 0 + sum_list (map (ae_bytes \<circ> fst) xs)"
    using compare_arrays_sound [OF c(1), of 205337472] p(4,7) l(2) by (simp add: f)
  have m: "model = take 65536 model @ take 205271936 (drop 65536 model) @ drop 205337472 model"
    using append_take_drop_id [of 65536 model] append_take_drop_id [of 205271936 "drop 65536 model"] by simp
  have "drop 205337472 model = zeros 3200"
    using c(2) s l(2) by (simp add: take_zeros_iff)
  then have "model = h @ body payload 65536 es @ zeros 3200" using m s l(3) by simp
  moreover have "sum_list (map (ae_bytes \<circ> fst) xs) = sum_list (map ae_bytes es)"
    by (simp flip: f add: comp_def)
  ultimately show ?thesis
    using export_model_eq [OF b assms(2), of sha] l(1) p(1,2,6) s
    by (simp add: image_of_def flip: model_def)
qed

theorem verified_image_unique_witness:
  "\<exists>x y n. verify_export (\<lambda>_. ''digest'') plain_manifest blank_payload x = Inr n
     \<and> export_model (\<lambda>_. ''digest'') plain_manifest blank_payload = Inr y \<and> ex_model x = ex_model y"
proof -
  have "\<exists>x n. verify_export (\<lambda>_. ''digest'') plain_manifest blank_payload x = Inr n"
    using exported_verifies [OF plain_accepted blank_payload_sized, of "\<lambda>_. ''digest''"] by blast
  then obtain x n where v: "verify_export (\<lambda>_. ''digest'') plain_manifest blank_payload x = Inr n" by blast
  from verified_image_unique [OF v blank_payload_sized] show ?thesis using v by blast
qed

end
