(* ===== verification/ModelPack.thy ===== *)
theory ModelPack
  imports M5Arena
begin

text \<open>
  The frozen model pack of \<open>ref/m4_model_pack.py\<close>: the tiling of a weight matrix into columns of 16
  and the reader that checks the manifest, every file and every array before use. The file system,
  the hash and NumPy's loader are parameters (\<open>pack_files\<close>); a float64 element is its 64-bit
  pattern, so finiteness and sign are bit tests.
\<close>

section \<open>Files\<close>

record loaded =
  ld_array :: ndarray
  ld_contiguous :: bool

text \<open>The directory: whether a file resolves inside it, its bytes, and what \<open>np.load\<close> makes of it.\<close>

record pack_files =
  pf_inside :: "string \<Rightarrow> bool"
  pf_bytes :: "string \<Rightarrow> int list res"
  pf_load :: "string \<Rightarrow> loaded res"

text \<open>\<open>file_sha256\<close>: the digest is fed one read of a mebibyte at a time.\<close>

definition file_sha256 :: "(int list \<Rightarrow> string) \<Rightarrow> int list \<Rightarrow> string" where
  "file_sha256 sha source = sha (fold (\<lambda>chunk digest. digest @ chunk) (chunks_of (nat (push_bit 20 1)) source) [])"

section \<open>Tiling\<close>

definition tile_weights :: "ndarray \<Rightarrow> ndarray res" where
  "tile_weights weights =
     (if nd_dtype weights \<noteq> Int8 \<or> ndim weights \<noteq> 2 \<or> \<not> (1 \<le> nd_shape weights ! 0 \<and> nd_shape weights ! 0 \<le> 3072)
         \<or> nd_shape weights ! 1 < 1
      then Inl ValueError
      else let k = nd_shape weights ! 0; n = nd_shape weights ! 1; tiles = (n + 15) div 16
           in Inr \<lparr>nd_dtype = Int8, nd_shape = [tiles, k, 16],
                nd_elems = concat (map (\<lambda>tile. let count = min 16 (n - tile * 16)
                   in rows_of k 16 (\<lambda>row lane. if lane < count then at2 weights row (tile * 16 + lane) else 0))
                   [0..<tiles])\<rparr>)"

section \<open>The reader\<close>

fun dtype_str :: "dtype \<Rightarrow> string" where
  "dtype_str Int8 = ''|i1''" | "dtype_str Int16 = ''<i2''" | "dtype_str Int32 = ''<i4''"
| "dtype_str Int64 = ''<i8''" | "dtype_str UInt8 = ''|u1''" | "dtype_str UInt16 = ''<u2''"
| "dtype_str UInt32 = ''<u4''" | "dtype_str UInt64 = ''<u8''" | "dtype_str Bool = ''|b1''"
| "dtype_str Float64 = ''<f8''"

fun dtype_width :: "dtype \<Rightarrow> nat" where
  "dtype_width Int8 = 1" | "dtype_width UInt8 = 1" | "dtype_width Bool = 1"
| "dtype_width Int16 = 2" | "dtype_width UInt16 = 2" | "dtype_width Int32 = 4" | "dtype_width UInt32 = 4"
| "dtype_width _ = 8"

definition f64_finite :: "int \<Rightarrow> bool" where
  "f64_finite w \<longleftrightarrow> take_bit 11 (drop_bit 52 w) \<noteq> 2047"

text \<open>\<open>x <= 0\<close> of a finite pattern: the sign is set or the magnitude is zero.\<close>

definition f64_nonpositive :: "int \<Rightarrow> bool" where
  "f64_nonpositive w \<longleftrightarrow> f64_finite w \<and> (bit w 63 \<or> take_bit 63 w = 0)"

definition expected_linears :: "(string \<times> int list) list" where
  "expected_linears =
     concat (map (\<lambda>i. map (\<lambda>(op, k, n). (layer_name i op, [k, n])) LAYER_LINEARS) [0..<12])
     @ [(''lm_head'', [768, 50257])]"

definition expected_norms :: "string list" where
  "expected_norms = concat (map (\<lambda>i. [layer_name i ''ln_1'', layer_name i ''ln_2'']) [0..<12]) @ [''ln_f'']"

record model_pack =
  mk_manifest :: pack_manifest
  mk_arrays :: "(string \<times> ndarray) list"
  mk_linears :: "(string \<times> ndarray \<times> ndarray \<times> ndarray \<times> int \<times> int) list"
  mk_smoothing :: "(string \<times> ndarray) list"
  mk_norms :: "(string \<times> ndarray \<times> ndarray) list"

definition lookup :: "(string \<times> 'a) list \<Rightarrow> string \<Rightarrow> 'a res" where
  "lookup xs name = (case map_of xs name of None \<Rightarrow> Inl KeyError | Some x \<Rightarrow> Inr x)"

definition load_array :: "(int list \<Rightarrow> string) \<Rightarrow> pack_files \<Rightarrow> bool \<Rightarrow> string \<times> source_array \<Rightarrow> (string \<times> ndarray) res" where
  "load_array sha files verify = (\<lambda>(name, entry).
     if \<not> pf_inside files (sa_file entry) then Inl ValueError
     else rbind (if verify then rbind (pf_bytes files (sa_file entry)) (\<lambda>bs.
                   Inr (file_sha256 sha bs \<noteq> sa_sha256 entry)) else Inr False) (\<lambda>mismatch.
       if mismatch then Inl ValueError
       else rbind (pf_load files (sa_file entry)) (\<lambda>l.
         let array = ld_array l in
         if map int (nd_shape array) \<noteq> sa_shape entry \<or> dtype_str (nd_dtype array) \<noteq> sa_dtype entry
            \<or> \<not> ld_contiguous l
         then Inl ValueError else Inr (name, array))))"

text \<open>Nonzero padding lanes of the last tile.\<close>

definition padded_nonzero :: "ndarray \<Rightarrow> nat \<Rightarrow> nat \<Rightarrow> bool" where
  "padded_nonzero weight k n \<longleftrightarrow>
     (let base = ((n + 15) div 16 - 1) * (k * 16)
      in list_ex (\<lambda>i. i mod 16 \<ge> n mod 16 \<and> nd_elems weight ! (base + i) \<noteq> 0) [0..<k * 16])"

definition load_linear :: "(string \<times> ndarray) list \<Rightarrow> string \<times> int list
    \<Rightarrow> ((string \<times> ndarray \<times> ndarray \<times> ndarray \<times> int \<times> int) \<times> (string \<times> ndarray)) res" where
  "load_linear arrays = (\<lambda>(name, shape). case shape of [k, n] \<Rightarrow>
       rbind (lookup arrays (name @ ''.tiles'')) (\<lambda>weight.
       rbind (lookup arrays (name @ ''.scale'')) (\<lambda>scale.
       rbind (lookup arrays (name @ ''.bias'')) (\<lambda>bias.
         if map int (nd_shape weight) \<noteq> [(n + 15) div 16, k, 16] \<or> nd_dtype weight \<noteq> Int8
            \<or> map int (nd_shape scale) \<noteq> [n] \<or> map int (nd_shape bias) \<noteq> [n] then Inl ValueError
         else if nd_dtype scale \<noteq> Float64 \<or> nd_dtype bias \<noteq> Float64 then Inl ValueError
         else if \<not> list_all f64_finite (nd_elems scale) \<or> list_ex f64_nonpositive (nd_elems scale)
            \<or> \<not> list_all f64_finite (nd_elems bias) then Inl ValueError
         else if n mod 16 \<noteq> 0 \<and> padded_nonzero weight (nat k) (nat n) then Inl ValueError
         else rbind (lookup arrays (name @ ''.smooth'')) (\<lambda>smooth.
           if map int (nd_shape smooth) \<noteq> [k] \<or> nd_dtype smooth \<noteq> Float64 then Inl ValueError
           else if \<not> list_all f64_finite (nd_elems smooth) \<or> list_ex f64_nonpositive (nd_elems smooth)
           then Inl ValueError
           else Inr ((name, weight, scale, bias, k, n), (name, smooth))))))
     | _ \<Rightarrow> Inl ValueError)"

definition load_norm :: "(string \<times> ndarray) list \<Rightarrow> string \<Rightarrow> (string \<times> ndarray \<times> ndarray) res" where
  "load_norm arrays name =
     rbind (lookup arrays (name @ ''.gain'')) (\<lambda>gain.
     rbind (lookup arrays (name @ ''.bias'')) (\<lambda>bias.
       if list_ex (\<lambda>x. nd_shape x \<noteq> [768] \<or> nd_dtype x \<noteq> Float64) [gain, bias] then Inl ValueError
       else if list_ex (\<lambda>x. \<not> list_all f64_finite (nd_elems x)) [gain, bias] then Inl ValueError
       else Inr (name, gain, bias)))"

definition ModelPack :: "(int list \<Rightarrow> string) \<Rightarrow> pack_files \<Rightarrow> pack_manifest \<Rightarrow> string \<Rightarrow> bool \<Rightarrow> model_pack res" where
  "ModelPack sha files m expected_candidate_sha256 verify =
     (if pm_schema m \<noteq> 1 \<or> pm_candidate_sha256 m \<noteq> expected_candidate_sha256 then Inl ValueError
      else if pm_layout m \<noteq> ''N16_K_16_signed_int8'' then Inl ValueError
      else if set (pm_linears m) \<noteq> set expected_linears \<or> set (pm_norms m) \<noteq> set expected_norms then Inl ValueError
      else rbind (rmap (load_array sha files verify) (pm_arrays m)) (\<lambda>arrays.
        rbind (lookup arrays ''embedding'') (\<lambda>embedding.
        rbind (lookup arrays ''position'') (\<lambda>position.
          if map int (nd_shape embedding) \<noteq> [50257, 768] \<or> map int (nd_shape position) \<noteq> [1024, 768] then Inl ValueError
          else if nd_dtype embedding \<noteq> Int16 \<or> nd_dtype position \<noteq> Int16 then Inl ValueError
          else rbind (rmap (load_linear arrays) (pm_linears m)) (\<lambda>linears.
            rbind (rmap (load_norm arrays) (pm_norms m)) (\<lambda>norms.
              Inr \<lparr>mk_manifest = m, mk_arrays = arrays, mk_linears = map fst linears,
                   mk_smoothing = map snd linears, mk_norms = norms\<rparr>))))))"

definition payload_bytes :: "model_pack \<Rightarrow> nat" where
  "payload_bytes p = sum_list (map (\<lambda>(name, a). prod_list (nd_shape a) * dtype_width (nd_dtype a)) (mk_arrays p))"

section \<open>The frozen pack\<close>

text \<open>\<open>load_frozen_pack\<close>: the manifest's own digest is pinned.\<close>

definition load_frozen_pack :: "(int list \<Rightarrow> string) \<Rightarrow> pack_files \<Rightarrow> (int list \<Rightarrow> pack_manifest res) \<Rightarrow> model_pack res" where
  "load_frozen_pack sha files parse =
     rbind (pf_bytes files ''manifest.json'') (\<lambda>bs.
       if file_sha256 sha bs \<noteq> PACK_SHA then Inl ValueError
       else rbind (parse bs) (\<lambda>m. ModelPack sha files m CANDIDATE_SHA True))"

end
