(* ===== verification/Driver.thy ===== *)
theory Driver
  imports ModelPack SfpuStream GemmRef
begin

text \<open>
  The single-owner DMA backend of \<open>zynq/m4_driver.py\<close>. The overlay (register files, DMA channels,
  clock, contiguous memory) is PYNQ and hardware: a parameter \<open>'d device\<close> whose operations the
  handlers call in the code's order. The driver's own state is the record \<open>driver\<close>; every handler is
  an action on it, so what a handler did before it raised stays done. The polling loops carry fuel.
\<close>

section \<open>The overlay\<close>

datatype channel = Send | Recv

record 'd device =
  read_reg :: "nat \<Rightarrow> int \<Rightarrow> 'd \<Rightarrow> int \<times> 'd"
  write_reg :: "nat \<Rightarrow> int \<Rightarrow> int \<Rightarrow> 'd \<Rightarrow> 'd"
  reset_write :: "int \<Rightarrow> int \<Rightarrow> 'd \<Rightarrow> 'd"
  dma_read :: "int \<Rightarrow> 'd \<Rightarrow> int \<times> 'd"
  dma_write :: "int \<Rightarrow> int \<Rightarrow> 'd \<Rightarrow> 'd"
  send_transfer :: "int list \<Rightarrow> ('d, unit) act"
  recv_transfer :: "nat \<Rightarrow> ('d, unit) act"
  chan_idle :: "channel \<Rightarrow> 'd \<Rightarrow> bool \<times> 'd"
  chan_error :: "channel \<Rightarrow> 'd \<Rightarrow> bool \<times> 'd"
  chan_wait :: "channel \<Rightarrow> ('d, unit) act"
  chan_transferred :: "channel \<Rightarrow> 'd \<Rightarrow> int \<times> 'd"
  chan_running :: "channel \<Rightarrow> 'd \<Rightarrow> bool \<times> 'd"
  first_transfer :: "channel \<Rightarrow> 'd \<Rightarrow> 'd"
  monotonic :: "'d \<Rightarrow> int \<times> 'd"
  rx_memory :: "'d \<Rightarrow> int list"
  alloc :: "nat \<Rightarrow> ('d, unit) act"
  freebuffer :: "nat \<Rightarrow> 'd \<Rightarrow> 'd"

section \<open>The driver's state\<close>

record 'd driver =
  dr_dev :: 'd
  dr_timeout :: int
  dr_failed :: bool
  dr_closed :: bool
  dr_tag :: int
  dr_counts :: "string \<Rightarrow> int"
  dr_route :: int
  dr_completed :: "int list"
  dr_tx :: "int list"
  dr_tx_views :: "nat list"
  dr_rx_views :: "nat list"
  dr_retained :: bool

definition TX_WORDS :: nat where "TX_WORDS = 24576"
definition RX_WORDS :: nat where "RX_WORDS = 3072"

abbreviation dev :: "('d \<Rightarrow> 'a \<times> 'd) \<Rightarrow> ('d driver, 'a) act" where
  "dev \<equiv> zoom dr_dev (\<lambda>d s. s\<lparr>dr_dev := d\<rparr>)"

abbreviation dev_res :: "('d, 'a) act \<Rightarrow> ('d driver, 'a) act" where
  "dev_res \<equiv> zoom_res dr_dev (\<lambda>d s. s\<lparr>dr_dev := d\<rparr>)"

abbreviation dev_do :: "('d \<Rightarrow> 'd) \<Rightarrow> ('d driver, unit) act" where
  "dev_do f \<equiv> modify (\<lambda>s. s\<lparr>dr_dev := f (dr_dev s)\<rparr>)"

definition count :: "string \<Rightarrow> int \<Rightarrow> ('d driver, unit) act" where
  "count key n = modify (\<lambda>s. s\<lparr>dr_counts := (dr_counts s)(key := dr_counts s key + n)\<rparr>)"

section \<open>Packing\<close>

definition pack_gemm_into :: "int list \<Rightarrow> ndarray \<Rightarrow> ndarray \<Rightarrow> (int list \<times> nat) res" where
  "pack_gemm_into target a weight_tile =
     (if ndim a \<noteq> 2 \<or> nd_dtype a \<noteq> Int8 \<or> nd_dtype weight_tile \<noteq> Int8 then Inl ValueError
      else let m = nd_shape a ! 0; k = nd_shape a ! 1 in
        if \<not> (1 \<le> m \<and> m \<le> 16) \<or> \<not> (1 \<le> k \<and> k \<le> 3072) \<or> nd_shape weight_tile \<noteq> [k, 16] then Inl ValueError
        else let stride = (k + 3) div 4 * 4; words = (m * stride + 16 * k) div 4 in
          if length target < words then Inl ValueError
          else let first = rows_of m stride (\<lambda>i j. if j < k then at2 a i j else 0);
                   rest = rows_of k 16 (at2 weight_tile)
               in Inr (view_words (first @ rest) @ drop words target, words))"

section \<open>Checks and waiting\<close>

definition read_all :: "'d device \<Rightarrow> nat \<Rightarrow> int list \<Rightarrow> ('d driver, int list) act" where
  "read_all D e offsets = mapM_act (\<lambda>off. dev (read_reg D e off)) offsets"

definition check_capabilities :: "'d device \<Rightarrow> ('d driver, unit) act" where
  "check_capabilities D =
     bind (read_all D 0 [0, 0x3c, 0x44, 0x48, 0x4c]) (\<lambda>gemm.
     bseq (require (gemm = [0x50414732, 0x03001010, 1, 3072, 0x30001]) RuntimeError)
     (bind (read_all D 1 [0, 0x3c, 0x44, 0x48, 0x4c]) (\<lambda>sfpu.
     bseq (require (sfpu = [0x50415333, 0x01000c00, 0xfe, 0x30001, 1024]) RuntimeError)
     (bind (any_act (\<lambda>e. bind (dev (read_reg D e 0x38)) (\<lambda>err.
              if err \<noteq> 0 then ret True
              else bind (dev (read_reg D e 4)) (\<lambda>status. ret (status AND 2 \<noteq> 0)))) [0, 1])
        (\<lambda>busy. require (\<not> busy) RuntimeError)))))"

text \<open>\<open>while not done(): poll\<close>, where the poll may raise and the clock bounds the loop.\<close>

fun poll_until :: "nat \<Rightarrow> 'd device \<Rightarrow> ('d driver, bool) act \<Rightarrow> ('d driver, unit) act \<Rightarrow> int
    \<Rightarrow> ('d driver, unit) act" where
  "poll_until 0 D finished check deadline = raise Diverges"
| "poll_until (Suc fuel) D finished check deadline =
     bind finished (\<lambda>b. if b then ret ()
       else bseq check (bind (dev (monotonic D)) (\<lambda>now.
         if now \<ge> deadline then raise TimeoutError
         else poll_until fuel D finished check deadline)))"

definition wait :: "nat \<Rightarrow> 'd device \<Rightarrow> channel \<Rightarrow> ('d driver, unit) act" where
  "wait fuel D ch =
     bind (dev (monotonic D)) (\<lambda>now. bind (gets dr_timeout) (\<lambda>timeout.
     bseq (poll_until fuel D (dev (chan_idle D ch))
             (bind (dev (chan_error D ch)) (\<lambda>err. require (\<not> err) RuntimeError)) (now + timeout))
       (dev_res (chan_wait D ch))))"

definition select :: "'d device \<Rightarrow> int \<Rightarrow> ('d driver, unit) act" where
  "select D route =
     bind (gets dr_route) (\<lambda>current.
       if route \<noteq> current then
         bind (any_act (\<lambda>e. bind (dev (read_reg D e 4)) (\<lambda>status. ret (status AND 2 \<noteq> 0))) [0, 1]) (\<lambda>busy.
         bseq (require (\<not> busy) RuntimeError)
         (bseq (dev_do (write_reg D 1 0x50 route))
         (bind (dev (read_reg D 1 0x50)) (\<lambda>back.
          bind (if back \<noteq> route then ret True
                else bind (dev (read_reg D 1 0x38)) (\<lambda>err. ret (err \<noteq> 0))) (\<lambda>rejected.
          bseq (require (\<not> rejected) RuntimeError)
            (modify (\<lambda>s. s\<lparr>dr_route := route\<rparr>)))))))
       else ret ())"

definition require_ready :: "('d driver, unit) act" where
  "require_ready = bind (gets (\<lambda>s. dr_closed s \<or> dr_failed s)) (\<lambda>bad. require (\<not> bad) RuntimeError)"

section \<open>One packet\<close>

definition as_int32 :: "int list \<Rightarrow> int list" where
  "as_int32 ws = map (np_cast Int32) ws"

text \<open>The body of the \<open>try\<close> block: the descriptor, the two transfers, the completion, the counts.\<close>

definition start :: "'d device \<Rightarrow> nat \<Rightarrow> int list \<Rightarrow> ('d driver, int) act" where
  "start D route parameters =
     bseq (modify (\<lambda>s. s\<lparr>dr_tag := (dr_tag s + 1) AND 0xffffffff\<rparr>))
     (bind (gets dr_tag) (\<lambda>tag.
      bseq (for_each (\<lambda>(i, v). dev_do (write_reg D route (8 + 4 * int i) v)) (enumerate 0 parameters))
     (bseq (dev_do (write_reg D route 0x18 tag))
     (bseq (dev_do (write_reg D route 0x1c 1))
     (bind (dev (read_reg D route 0x38)) (\<lambda>err.
      bseq (require (err = 0) RuntimeError) (ret tag)))))))"

definition move_data :: "nat \<Rightarrow> 'd device \<Rightarrow> nat \<Rightarrow> nat \<Rightarrow> ('d driver, unit) act" where
  "move_data fuel D ni no =
     bseq (dev_res (recv_transfer D no))
     (bind (gets (\<lambda>s. take ni (dr_tx s))) (\<lambda>view.
      bseq (dev_res (send_transfer D view))
     (bseq (wait fuel D Send)
     (bseq (wait fuel D Recv)
     (bind (dev (chan_transferred D Send)) (\<lambda>sent.
      bind (if sent \<noteq> 4 * int ni then ret True
            else bind (dev (chan_transferred D Recv)) (\<lambda>got. ret (got \<noteq> 4 * int no))) (\<lambda>short.
      require (\<not> short) RuntimeError)))))))"

definition check_completion :: "'d device \<Rightarrow> nat \<Rightarrow> int \<Rightarrow> ('d driver, unit) act" where
  "check_completion D route tag =
     bseq (modify (\<lambda>s. s\<lparr>dr_completed := (dr_completed s)[route := (dr_completed s ! route + 1) AND 0xffffffff]\<rparr>))
     (bind (dev (read_reg D route 0x38)) (\<lambda>err.
      bind (if err \<noteq> 0 then ret True
            else bind (dev (read_reg D route 0x20)) (\<lambda>t.
              if t \<noteq> tag then ret True
              else bind (dev (read_reg D route 0x34)) (\<lambda>n. gets (\<lambda>s. n \<noteq> dr_completed s ! route)))) (\<lambda>mismatch.
      require (\<not> mismatch) RuntimeError)))"

definition account :: "'d device \<Rightarrow> nat \<Rightarrow> nat \<Rightarrow> nat \<Rightarrow> ('d driver, unit) act" where
  "account D route ni no =
     bseq (count ''dma_input_bytes'' (4 * int ni))
     (bseq (count ''dma_output_bytes'' (4 * int no))
     (bseq (count (''packets_'' @ str_of_nat route) 1)
     (bind (dev (read_reg D route 0x24)) (\<lambda>cycles.
      count (''compute_cycles_'' @ str_of_nat route) cycles))))"

definition submit :: "nat \<Rightarrow> 'd device \<Rightarrow> nat \<Rightarrow> int list \<Rightarrow> nat \<Rightarrow> nat \<Rightarrow> ('d driver, int list) act" where
  "submit fuel D route parameters ni no =
     bseq (select D (int route))
     (bseq (require (route < 2) IndexError)
     (bind (start D route parameters) (\<lambda>tag.
      bseq (move_data fuel D ni no)
     (bseq (check_completion D route tag)
     (bseq (account D route ni no)
       (gets (\<lambda>s. as_int32 (take no (rx_memory D (dr_dev s))))))))))"

definition remember :: "nat \<Rightarrow> nat list \<Rightarrow> nat list" where
  "remember n views = (if n \<in> set views then views else views @ [n])"

definition execute :: "nat \<Rightarrow> 'd device \<Rightarrow> nat \<Rightarrow> int list \<Rightarrow> nat \<Rightarrow> nat \<Rightarrow> ('d driver, int list) act" where
  "execute fuel D route parameters ni no =
     bseq require_ready
     (bind (gets (\<lambda>s. length (dr_tx s))) (\<lambda>capacity.
      bseq (require (1 \<le> ni \<and> ni \<le> capacity \<and> 1 \<le> no \<and> no \<le> RX_WORDS) ValueError)
     (bseq (modify (\<lambda>s. s\<lparr>dr_tx_views := remember ni (dr_tx_views s), dr_rx_views := remember no (dr_rx_views s)\<rparr>))
       (on_error (submit fuel D route parameters ni no) (\<lambda>s. s\<lparr>dr_failed := True\<rparr>)))))"

section \<open>GEMM and SFPU\<close>

definition tile_at :: "ndarray \<Rightarrow> nat \<Rightarrow> nat \<Rightarrow> ndarray" where
  "tile_at tiles k t = \<lparr>nd_dtype = nd_dtype tiles, nd_shape = [k, 16],
     nd_elems = take (k * 16) (drop (t * (k * 16)) (nd_elems tiles))\<rparr>"

definition gemm_tile :: "nat \<Rightarrow> 'd device \<Rightarrow> ndarray \<Rightarrow> ndarray \<Rightarrow> nat \<Rightarrow> nat \<Rightarrow> ('d driver, int list) act" where
  "gemm_tile fuel D a tiles n t =
     (let m = nd_shape a ! 0; k = nd_shape a ! 1; width = min 16 (n - t * 16) in
      bind (gets dr_tx) (\<lambda>target.
      bind (lift_res (pack_gemm_into target a (tile_at tiles k t))) (\<lambda>(target', ni).
      bseq (modify (\<lambda>s. s\<lparr>dr_tx := target'\<rparr>))
     (bind (execute fuel D 0 [int m, int width, int k, 0x100] ni (m * 16)) (\<lambda>delivered.
        if width < 16 \<and> list_ex (\<lambda>i. i mod 16 \<ge> width \<and> delivered ! i \<noteq> 0) [0..<m * 16]
        then bseq (modify (\<lambda>s. s\<lparr>dr_failed := True\<rparr>)) (raise RuntimeError)
        else ret delivered)))))"

definition gemm :: "nat \<Rightarrow> 'd device \<Rightarrow> ndarray \<Rightarrow> ndarray \<Rightarrow> nat \<Rightarrow> ('d driver, ndarray) act" where
  "gemm fuel D a tiles n =
     bseq require_ready
     (if ndim a \<noteq> 2 \<or> nd_dtype a \<noteq> Int8 \<or> \<not> (1 \<le> n \<and> n \<le> 50257) then raise ValueError
      else let m = nd_shape a ! 0; k = nd_shape a ! 1 in
        if nd_shape tiles \<noteq> [(n + 15) div 16, k, 16] \<or> nd_dtype tiles \<noteq> Int8 then raise ValueError
        else bind (mapM_act (gemm_tile fuel D a tiles n) [0..<(n + 15) div 16]) (\<lambda>delivered.
          bseq (count ''gemm_macs'' (int (m * k * n)))
            (ret \<lparr>nd_dtype = Int32, nd_shape = [m, n],
                  nd_elems = rows_of m n (\<lambda>i j. delivered ! (j div 16) ! (i * 16 + j mod 16))\<rparr>)))"

definition sfpu :: "nat \<Rightarrow> 'd device \<Rightarrow> sfpu_descriptor \<Rightarrow> ndarray \<Rightarrow> ('d driver, int list) act" where
  "sfpu fuel D d words =
     bseq require_ready
     (bseq (lift_res (sfpu_validate d))
     (bseq (require (nd_dtype words \<in> {UInt32, Int32} \<and> map int (nd_shape words) = [sd_input_words d]) ValueError)
     (bseq (modify (\<lambda>s. s\<lparr>dr_tx := poke (dr_tx s) 0 (map (np_cast UInt32) (nd_elems words))\<rparr>))
     (bind (execute fuel D 1 [sd_op d, sd_length d, sd_shift d, sd_multiplier d]
              (length (nd_elems words)) (nat (sd_length d))) (\<lambda>result.
      bseq (count (''sfpu_'' @ str_of_nat (nat (sd_op d))) 1) (ret result))))))"

section \<open>Reset, recovery, close\<close>

definition deadline_from_now :: "'d device \<Rightarrow> ('d driver, int) act" where
  "deadline_from_now D = bind (dev (monotonic D)) (\<lambda>now. gets (\<lambda>s. now + dr_timeout s))"

definition reset_dma :: "nat \<Rightarrow> 'd device \<Rightarrow> ('d driver, unit) act" where
  "reset_dma fuel D =
     bseq (dev_do (dma_write D 0 4))
     (bind (deadline_from_now D)
       (poll_until fuel D (bind (dev (dma_read D 0)) (\<lambda>v. ret (v AND 4 = 0))) (ret ())))"

text \<open>What \<open>recover\<close> does between setting and clearing the latch.\<close>

definition restart :: "nat \<Rightarrow> 'd device \<Rightarrow> ('d driver, unit) act" where
  "restart fuel D =
     bseq (reset_dma fuel D)
     (bseq (for_each (\<lambda>e. bseq (dev_do (write_reg D e 0x1c 4)) (dev_do (write_reg D e 0x1c 2))) [0, 1])
     (bseq (for_each (\<lambda>(off, ch).
              bseq (dev_do (dma_write D off 1))
              (bind (deadline_from_now D) (\<lambda>deadline.
               bseq (poll_until fuel D (dev (chan_running D ch)) (ret ()) deadline)
                 (dev_do (first_transfer D ch))))) [(0, Send), (0x30, Recv)])
     (bind (mapM_act (\<lambda>e. dev (read_reg D e 0x34)) [0, 1]) (\<lambda>completed.
      bseq (modify (\<lambda>s. s\<lparr>dr_completed := completed\<rparr>))
     (bind (dev (read_reg D 1 0x50)) (\<lambda>route.
      bseq (modify (\<lambda>s. s\<lparr>dr_route := route\<rparr>)) (check_capabilities D)))))))"

definition recover :: "nat \<Rightarrow> 'd device \<Rightarrow> ('d driver, unit) act" where
  "recover fuel D =
     bind (gets dr_closed) (\<lambda>closed.
     bseq (require (\<not> closed) RuntimeError)
     (bseq (modify (\<lambda>s. s\<lparr>dr_failed := True\<rparr>))
     (bseq (restart fuel D)
       (modify (\<lambda>s. s\<lparr>dr_failed := False\<rparr>)))))"

definition close :: "nat \<Rightarrow> 'd device \<Rightarrow> ('d driver, unit) act" where
  "close fuel D =
     bind (gets dr_closed) (\<lambda>closed.
       if closed then ret ()
       else bseq (on_error (reset_dma fuel D) (\<lambda>s. s\<lparr>dr_failed := True, dr_retained := True\<rparr>))
           (bseq (modify (\<lambda>s. s\<lparr>dr_tx_views := [], dr_rx_views := []\<rparr>))
           (bseq (dev_do (freebuffer D RX_WORDS))
           (bseq (dev_do (freebuffer D TX_WORDS))
             (modify (\<lambda>s. s\<lparr>dr_closed := True\<rparr>))))))"

section \<open>Construction\<close>

definition BIT_SHA :: string where
  "BIT_SHA = ''78fc22f0e9263759ed2ac6417345ce8c6ef7815438febd9c6a4332532790be5b''"

definition HWH_SHA :: string where
  "HWH_SHA = ''20a2f3caa860b3dd644b9f4b5e7fa9bb8e7a70dc6a51dbd280e7e9347a3eafd6''"

text \<open>The bytes of the two files; the timeout is a finite number of clock units.\<close>

definition FpgaBackend :: "(int list \<Rightarrow> string) \<Rightarrow> 'd device \<Rightarrow> int list \<Rightarrow> int list \<Rightarrow> int \<Rightarrow> ('d driver, unit) act" where
  "FpgaBackend sha D bitstream hwh timeout =
     bseq (require (file_sha256 sha bitstream = BIT_SHA \<and> file_sha256 sha hwh = HWH_SHA) ValueError)
     (bseq (require (timeout > 0) ValueError)
     (bseq (dev_do (reset_write D 4 0))
     (bseq (dev_do (reset_write D 0 0))
     (bseq (modify (\<lambda>s. s\<lparr>dr_timeout := timeout, dr_failed := False, dr_closed := False, dr_tag := 0,
              dr_counts := (\<lambda>_. 0), dr_tx_views := [], dr_rx_views := [], dr_retained := False\<rparr>))
     (bind (dev (read_reg D 1 0x50)) (\<lambda>route.
      bseq (modify (\<lambda>s. s\<lparr>dr_route := route\<rparr>))
     (bind (mapM_act (\<lambda>e. dev (read_reg D e 0x34)) [0, 1]) (\<lambda>completed.
      bseq (modify (\<lambda>s. s\<lparr>dr_completed := completed\<rparr>))
     (bseq (check_capabilities D)
     (bseq (dev_res (alloc D TX_WORDS))
     (bseq (on_error (dev_res (alloc D RX_WORDS)) (\<lambda>s. s\<lparr>dr_dev := freebuffer D TX_WORDS (dr_dev s)\<rparr>))
       (modify (\<lambda>s. s\<lparr>dr_tx := zeros TX_WORDS\<rparr>)))))))))))))"

definition cma_bytes :: nat where
  "cma_bytes = 4 * TX_WORDS + 4 * RX_WORDS"

end
