(* ===== verification/DriverLaws.thy ===== *)
theory DriverLaws
  imports Driver GemmLaws
begin

text \<open>
  Frames of the driver's handlers: what a device access, a wait, a route selection and a whole
  submission can change of the driver's state, on success and on every exception.
\<close>

lemma outcome_bindI: "outcome m s (\<lambda>x t. outcome (f x) t Q E) E \<Longrightarrow> outcome (bind m f) s Q E"
  by (simp add: outcome_bind)

lemma outcome_bseqI: "outcome m s (\<lambda>_ t. outcome k t Q E) E \<Longrightarrow> outcome (bseq m k) s Q E"
  by (simp add: outcome_bseq)

lemma outcome_modifyI: "Q () (f s) \<Longrightarrow> outcome (modify f) s Q E"
  by (simp add: outcome_modify)

lemma outcome_getsI: "Q (g s) s \<Longrightarrow> outcome (gets g) s Q E"
  by (simp add: outcome_gets)

lemma outcome_retI: "Q x s \<Longrightarrow> outcome (ret x) s Q E"
  by (simp add: outcome_ret)

lemma outcome_requireI: "(b \<Longrightarrow> Q () s) \<Longrightarrow> (\<not> b \<Longrightarrow> E e s) \<Longrightarrow> outcome (require b e) s Q E"
  by (simp add: outcome_require)

lemma outcome_ifI:
  "(b \<Longrightarrow> outcome m s Q E) \<Longrightarrow> (\<not> b \<Longrightarrow> outcome k s Q E) \<Longrightarrow> outcome (if b then m else k) s Q E"
  by simp

section \<open>Device accesses change the device only\<close>

definition dev_only :: "('d driver, 'a) act \<Rightarrow> bool" where
  "dev_only m \<longleftrightarrow> (\<forall>s. \<exists>d. snd (m s) = s\<lparr>dr_dev := d\<rparr>)"

named_theorems dev_only_intros "accesses that change the device only"

lemma dev_onlyD: "dev_only m \<Longrightarrow> m s = (r, s') \<Longrightarrow> \<exists>d. s' = s\<lparr>dr_dev := d\<rparr>"
  unfolding dev_only_def by (metis snd_conv)

lemma dev_only_dev [dev_only_intros]: "dev_only (dev f)"
  by (auto simp: dev_only_def zoom_def split: prod.splits)

lemma dev_only_res [dev_only_intros]: "dev_only (dev_res f)"
  by (auto simp: dev_only_def zoom_res_def split: prod.splits)

lemma dev_only_do [dev_only_intros]: "dev_only (dev_do f)"
  by (auto simp: dev_only_def)

lemma driver_id: "\<exists>d. s = s\<lparr>dr_dev := d\<rparr>" for s :: "'d driver"
  by (rule exI [of _ "dr_dev s"]) simp

lemma dev_only_stay:
  "dev_only (ret x)" "dev_only (raise e)" "dev_only (gets f)" "dev_only (require b e)" "dev_only (lift_res r)"
  unfolding dev_only_def require_def by (simp_all add: driver_id)

lemma dev_only_bind [dev_only_intros]:
  assumes "dev_only m" "\<And>x. dev_only (f x)"
  shows "dev_only (bind m f)"
  unfolding dev_only_def
proof
  fix s
  obtain r t where m: "m s = (r, t)" by (cases "m s")
  obtain d where t: "t = s\<lparr>dr_dev := d\<rparr>" using dev_onlyD [OF assms(1) m] by blast
  show "\<exists>d. snd (bind m f s) = s\<lparr>dr_dev := d\<rparr>"
  proof (cases r)
    case (Inl e)
    then show ?thesis using m t by (auto simp: bind_def)
  next
    case (Inr x)
    obtain d' where "snd (f x t) = t\<lparr>dr_dev := d'\<rparr>" using assms(2) by (auto simp: dev_only_def)
    then show ?thesis using m t Inr by (auto simp: bind_def)
  qed
qed

lemma dev_only_bseq [dev_only_intros]: "dev_only m \<Longrightarrow> dev_only k \<Longrightarrow> dev_only (bseq m k)"
  unfolding bseq_def by (intro dev_only_intros)

lemma dev_only_any [dev_only_intros]: "(\<And>x. dev_only (f x)) \<Longrightarrow> dev_only (any_act f xs)"
  by (induction xs) (auto intro!: dev_only_intros dev_only_stay)

lemma dev_only_mapM [dev_only_intros]: "(\<And>x. dev_only (f x)) \<Longrightarrow> dev_only (mapM_act f xs)"
  by (induction xs) (auto intro!: dev_only_intros dev_only_stay)

lemma dev_only_for [dev_only_intros]: "(\<And>x. dev_only (f x)) \<Longrightarrow> dev_only (for_each f xs)"
  by (induction xs) (auto intro!: dev_only_intros dev_only_stay)

lemma dev_only_if [dev_only_intros]: "dev_only m \<Longrightarrow> dev_only k \<Longrightarrow> dev_only (if b then m else k)"
  by simp

lemma dev_only_poll [dev_only_intros]:
  "dev_only fin \<Longrightarrow> dev_only check \<Longrightarrow> dev_only (poll_until fuel D fin check deadline)"
  by (induction fuel) (auto intro!: dev_only_intros dev_only_stay)

lemma dev_only_wait [dev_only_intros]: "dev_only (wait fuel D ch)"
  unfolding wait_def by (intro dev_only_intros dev_only_stay)

lemma dev_only_check [dev_only_intros]: "dev_only (check_capabilities D)"
  unfolding check_capabilities_def read_all_def by (intro dev_only_intros dev_only_stay)

lemma dev_only_reset [dev_only_intros]: "dev_only (reset_dma fuel D)"
  unfolding reset_dma_def deadline_from_now_def by (intro dev_only_intros dev_only_stay)

lemma dev_only_outcome:
  assumes "dev_only m" "\<And>x d. Q x (s\<lparr>dr_dev := d\<rparr>)" "\<And>e d. E e (s\<lparr>dr_dev := d\<rparr>)"
  shows "outcome m s Q E"
  using assms dev_onlyD [OF assms(1), of s] by (fastforce simp: outcome_def split: prod.splits sum.splits)

lemma dev_outcome: "(\<And>x d. Q x (s\<lparr>dr_dev := d\<rparr>)) \<Longrightarrow> outcome (dev f) s Q E"
  by (simp add: outcome_zoom)

lemma dev_res_outcome:
  "(\<And>x d. Q x (s\<lparr>dr_dev := d\<rparr>)) \<Longrightarrow> (\<And>e d. E e (s\<lparr>dr_dev := d\<rparr>)) \<Longrightarrow> outcome (dev_res f) s Q E"
  by (rule dev_only_outcome) (auto intro: dev_only_intros)

section \<open>Selection and submission\<close>

lemma select_outcome:
  assumes "\<And>d. Q () (s\<lparr>dr_dev := d, dr_route := route\<rparr>)" "\<And>e d. E e (s\<lparr>dr_dev := d\<rparr>)"
  shows "outcome (select D route) s Q E"
proof -
  have any: "outcome (any_act (\<lambda>e. bind (dev (read_reg D e 4)) (\<lambda>status. ret (status AND 2 \<noteq> 0))) [0, 1]) s Q' E'"
    if "\<And>x d. Q' x (s\<lparr>dr_dev := d\<rparr>)" "\<And>e d. E' e (s\<lparr>dr_dev := d\<rparr>)" for Q' E'
    by (rule dev_only_outcome) (use that in \<open>intro dev_only_intros dev_only_stay | simp\<close>)+
  show ?thesis
  proof (cases "route = dr_route s")
    case True
    have "Q () s" using assms(1) [of "dr_dev s"] True by simp
    then show ?thesis using True by (simp add: select_def outcome_simps)
  next
    case False
    then show ?thesis
      unfolding select_def using assms
      by (auto simp: outcome_simps intro!: any)
  qed
qed

lemma writes_outcome:
  assumes "\<And>d. Q () (s\<lparr>dr_dev := d\<rparr>)"
  shows "outcome (for_each (\<lambda>(i, v). dev_do (write_reg D route (8 + 4 * int i) v)) xs) s Q E"
  using assms by (induction xs arbitrary: s) (auto simp: outcome_simps, metis driver.surjective driver.update_convs(1))

lemma dev_do_outcome: "(\<And>d. Q () (s\<lparr>dr_dev := d\<rparr>)) \<Longrightarrow> outcome (dev_do f) s Q E"
  by (simp add: outcome_modify)

lemmas driver_outcomes = outcome_bseqI outcome_bindI select_outcome writes_outcome dev_outcome
  dev_res_outcome dev_do_outcome outcome_modifyI outcome_getsI outcome_requireI outcome_ifI outcome_retI

text \<open>What stays fixed whatever happens, and what a completed packet changes.\<close>

definition same_setup :: "'d driver \<Rightarrow> 'd driver \<Rightarrow> bool" where
  "same_setup s t \<longleftrightarrow> dr_timeout t = dr_timeout s \<and> dr_closed t = dr_closed s \<and> dr_failed t = dr_failed s
     \<and> dr_tx t = dr_tx s \<and> dr_tx_views t = dr_tx_views s \<and> dr_rx_views t = dr_rx_views s
     \<and> dr_retained t = dr_retained s"

definition next_tag :: "int \<Rightarrow> int" where
  "next_tag n = (n + 1) AND 0xffffffff"

definition counted :: "nat \<Rightarrow> nat \<Rightarrow> nat \<Rightarrow> int \<Rightarrow> (string \<Rightarrow> int) \<Rightarrow> string \<Rightarrow> int" where
  "counted route ni no cycles c =
     (let c1 = c(''dma_input_bytes'' := c ''dma_input_bytes'' + 4 * int ni);
          c2 = c1(''dma_output_bytes'' := c1 ''dma_output_bytes'' + 4 * int no);
          p = ''packets_'' @ str_of_nat route; c3 = c2(p := c2 p + 1);
          q = ''compute_cycles_'' @ str_of_nat route
      in c3(q := c3 q + cycles))"

lemma same_setup_refl [simp]: "same_setup s s"
  by (simp add: same_setup_def)

lemma same_setup_trans: "same_setup s t \<Longrightarrow> same_setup t u \<Longrightarrow> same_setup s u"
  by (simp add: same_setup_def)

text \<open>The bookkeeping of a request, field by field.\<close>

definition books :: "int \<Rightarrow> int \<Rightarrow> int list \<Rightarrow> 'd driver \<Rightarrow> 'd driver \<Rightarrow> bool" where
  "books route tag finished s t \<longleftrightarrow> same_setup s t \<and> dr_route t = route \<and> dr_tag t = tag \<and> dr_completed t = finished"

lemma start_outcome:
  "outcome (start D route parameters) s
     (\<lambda>tag t. books (dr_route s) (next_tag (dr_tag s)) (dr_completed s) s t \<and> dr_counts t = dr_counts s
        \<and> tag = next_tag (dr_tag s))
     (\<lambda>e t. same_setup s t)"
  unfolding start_def by (rule driver_outcomes | (simp add: same_setup_def books_def next_tag_def; fail))+

lemma move_data_outcome:
  "outcome (move_data fuel D ni no) s
     (\<lambda>_ t. books (dr_route s) (dr_tag s) (dr_completed s) s t \<and> dr_counts t = dr_counts s) (\<lambda>e t. same_setup s t)"
  by (rule dev_only_outcome) (unfold move_data_def, intro dev_only_intros dev_only_stay, simp_all add: books_def same_setup_def)

lemma check_completion_outcome:
  "outcome (check_completion D route tag) s
     (\<lambda>_ t. books (dr_route s) (dr_tag s) ((dr_completed s)[route := next_tag (dr_completed s ! route)]) s t
        \<and> dr_counts t = dr_counts s)
     (\<lambda>e t. same_setup s t)"
  unfolding check_completion_def by (rule driver_outcomes | (simp add: same_setup_def books_def next_tag_def; fail))+

lemma account_outcome:
  "outcome (account D route ni no) s
     (\<lambda>_ t. books (dr_route s) (dr_tag s) (dr_completed s) s t
        \<and> (\<exists>cycles. dr_counts t = counted route ni no cycles (dr_counts s))) (\<lambda>e t. same_setup s t)"
  unfolding account_def count_def
  by (rule driver_outcomes | (auto simp: counted_def Let_def same_setup_def books_def; fail))+

definition completed :: "nat \<Rightarrow> nat \<Rightarrow> nat \<Rightarrow> 'd driver \<Rightarrow> 'd driver \<Rightarrow> bool" where
  "completed route ni no s t \<longleftrightarrow>
     books (int route) (next_tag (dr_tag s)) ((dr_completed s)[route := next_tag (dr_completed s ! route)]) s t
     \<and> (\<exists>cycles. dr_counts t = counted route ni no cycles (dr_counts s))"

lemma submit_outcome:
  "outcome (submit fuel D route parameters ni no) s
     (\<lambda>ws t. completed route ni no s t \<and> ws = as_int32 (take no (rx_memory D (dr_dev t))))
     (\<lambda>e t. same_setup s t)"
  unfolding submit_def
proof (intro outcome_bseqI outcome_bindI outcome_requireI select_outcome)
  fix d
  let ?s = "s\<lparr>dr_dev := d, dr_route := int route\<rparr>"
  show "outcome (start D route parameters) ?s
     (\<lambda>tag t. outcome (bseq (move_data fuel D ni no) (bseq (check_completion D route tag)
      (bseq (account D route ni no) (gets (\<lambda>s. as_int32 (take no (rx_memory D (dr_dev s)))))))) t
       (\<lambda>ws t. completed route ni no s t \<and> ws = as_int32 (take no (rx_memory D (dr_dev t))))
       (\<lambda>e t. same_setup s t)) (\<lambda>e t. same_setup s t)"
    apply (rule outcome_mono [OF start_outcome])
     apply (rule outcome_bseqI, rule outcome_mono [OF move_data_outcome])
      apply (rule outcome_bseqI, rule outcome_mono [OF check_completion_outcome])
       apply (rule outcome_bseqI, rule outcome_mono [OF account_outcome])
        apply (rule outcome_getsI)
        apply (force simp: completed_def books_def same_setup_def)
       apply (simp_all add: books_def same_setup_def)
    done
qed (simp_all add: same_setup_def)

section \<open>Execution\<close>

text \<open>Every outcome of a request: refused untouched, or completed, or failed with the latch set.\<close>

lemma execute_outcome:
  "outcome (execute fuel D route parameters ni no) s
     (\<lambda>ws t. \<not> dr_failed s \<and> \<not> dr_closed s \<and> 1 \<le> ni \<and> ni \<le> length (dr_tx s) \<and> 1 \<le> no \<and> no \<le> RX_WORDS
        \<and> completed route ni no (s\<lparr>dr_tx_views := remember ni (dr_tx_views s), dr_rx_views := remember no (dr_rx_views s)\<rparr>) t
        \<and> ws = as_int32 (take no (rx_memory D (dr_dev t))))
     (\<lambda>e t. (e = RuntimeError \<and> (dr_failed s \<or> dr_closed s) \<and> t = s)
        \<or> (e = ValueError \<and> \<not> (1 \<le> ni \<and> ni \<le> length (dr_tx s) \<and> 1 \<le> no \<and> no \<le> RX_WORDS) \<and> t = s)
        \<or> (dr_failed t \<and> dr_closed t = dr_closed s \<and> dr_tx t = dr_tx s \<and> dr_timeout t = dr_timeout s))"
  unfolding execute_def require_ready_def
  by (auto simp: outcome_bseq outcome_bind outcome_gets outcome_require outcome_modify outcome_on_error
      intro!: outcome_mono [OF submit_outcome] simp: same_setup_def)

end
