(* ===== verification/DriverProps.thy ===== *)
theory DriverProps
  imports DriverLaws PacketProps
begin

text \<open>
  What the DMA backend promises: a failed or closed driver touches nothing, every exception of a
  submission latches the failure, a completed packet advances exactly the books, the first poll that
  finds something decides a wait, and a recovery or a close that returns has seen the reset done.
\<close>

section \<open>The packet buffer\<close>

lemma view_words_masked: "view_words (map (take_bit 8) bs) = view_words bs"
  by (induction bs rule: view_words.induct) simp_all

lemma view_bytes_words_masked: "length bs mod 4 = 0 \<Longrightarrow> view_bytes (view_words bs) = map (take_bit 8) bs"
  using view_bytes_words [of "map (take_bit 8) bs"]
  by (simp add: view_words_masked list_all_iff in_dtype_def del: in_dtype_simps)

lemma int8_at2_cast:
  assumes "int8_matrix a r c" "i < r" "j < c"
  shows "signed_take_bit 7 (at2 a i j) = at2 a i j"
  using int8_matrix_at2(1) [OF assms] by (intro signed_take_bit_int_eq_self) auto

lemma pack_gemm_ok:
  assumes "int8_matrix a m k" "nd_dtype a = Int8" "nd_shape w = [k, 16]" "nd_dtype w = Int8"
    and "1 \<le> m" "m \<le> 16" "1 \<le> k" "k \<le> 3072" "(m * ((k + 3) div 4 * 4) + 16 * k) div 4 \<le> length target"
  shows "pack_gemm_into target a w =
    Inr (view_words (rows_of m ((k + 3) div 4 * 4) (\<lambda>i j. if j < k then at2 a i j else 0) @ rows_of k 16 (at2 w))
      @ drop ((m * ((k + 3) div 4 * 4) + 16 * k) div 4) target, (m * ((k + 3) div 4 * 4) + 16 * k) div 4)"
  using assms by (simp add: pack_gemm_into_def int8_matrix_def Let_def not_less)

text \<open>C7: The driver's in-place packer and the reference packer emit the same words: the prefix of
  the buffer that is sent is the v3 input packet of a full-width wide descriptor, and the rest of
  the buffer is untouched.\<close>

theorem driver_packet_is_reference:
  assumes "int8_matrix a m k" "nd_dtype a = Int8" "int8_matrix w k 16" "nd_dtype w = Int8"
    and "1 \<le> m" "m \<le> 16" "1 \<le> k" "k \<le> 3072" "length target = TX_WORDS"
  shows "\<exists>packet. pack_input_v3 (Descriptor (int m) 16 (int k) 0 WIDE_RESULT_V1) a w = Inr packet
    \<and> pack_gemm_into target a w = Inr (packet @ drop (length packet) target, length packet)"
proof -
  define S where "S = (k + 3) div 4 * 4"
  define body where "body = rows_of m S (\<lambda>i j. if j < k then at2 a i j else 0) @ rows_of k 16 (at2 w)"
  have sh: "nd_shape a = [m, k]" "nd_shape w = [k, 16]" using assms(1,3) by (simp_all add: int8_matrix_def)
  have "(k + 3) div 4 \<le> (3072 + 3) div 4" using assms(8) by (intro div_le_mono) simp
  then have "S \<le> 3072" by (simp add: S_def)
  then have "m * S \<le> 16 * 3072" using assms(6) by (intro mult_le_mono) auto
  then have fits: "(m * S + 16 * k) div 4 \<le> length target" using assms(8,9) by (simp add: TX_WORDS_def)
  have gem: "pack_gemm_into target a w = Inr (view_words body @ drop ((m * S + 16 * k) div 4) target, (m * S + 16 * k) div 4)"
    using pack_gemm_ok [OF assms(1,2) sh(2) assms(4-8)] fits by (simp add: S_def body_def)
  have v: "validate_v3 (Descriptor (int m) 16 (int k) 0 WIDE_RESULT_V1) = Inr ()"
    using assms(5-8) by (simp add: validate_v3_def Descriptor_def WIDE_RESULT_V1_def MAX_WIDE_K_def)
  have d: "d_m (Descriptor (int m) 16 (int k) 0 WIDE_RESULT_V1) = int m" "d_n (Descriptor (int m) 16 (int k) 0 WIDE_RESULT_V1) = 16"
    "d_k (Descriptor (int m) 16 (int k) 0 WIDE_RESULT_V1) = int k" by (simp_all add: Descriptor_def)
  have s: "nat (a_words_per_row (Descriptor (int m) 16 (int k) 0 WIDE_RESULT_V1) * 4) = S"
    by (simp add: a_words_per_row_def d S_def nat_mult_distrib nat_div_distrib nat_add_distrib)
  have ra: "rows_of m S (\<lambda>i j. if int j < int k then np_cast Int8 (at2 a i j) else 0) = rows_of m S (\<lambda>i j. if j < k then at2 a i j else 0)"
    using int8_at2_cast [OF assms(1)] by (intro rows_of_cong) simp
  have rw: "rows_of k 16 (\<lambda>i j. if int j < 16 then np_cast Int8 (at2 w i j) else 0) = rows_of k 16 (at2 w)"
    using int8_at2_cast [OF assms(3)] by (intro rows_of_cong) simp
  have "pack_input_v3 (Descriptor (int m) 16 (int k) 0 WIDE_RESULT_V1) a w = Inr (view_words body)"
    using v sh signed_int8_operand_ok [OF assms(1)] signed_int8_operand_ok [OF assms(3)] ra rw
    by (simp add: pack_input_v3_def d s body_def)
  moreover have "length (view_words body) = (m * S + 16 * k) div 4"
    by (simp add: length_view_words body_def)
  ultimately show ?thesis using gem by simp
qed

theorem driver_packet_is_reference_witness:
  "\<exists>packet. pack_input_v3 (Descriptor 1 16 2 0 WIDE_RESULT_V1) (mat Int8 1 2 [3, -4]) (mat Int8 2 16 (replicate 32 (-1))) = Inr packet
    \<and> pack_gemm_into (zeros TX_WORDS) (mat Int8 1 2 [3, -4]) (mat Int8 2 16 (replicate 32 (-1)))
       = Inr (packet @ drop (length packet) (zeros TX_WORDS), length packet)"
proof -
  have "int8_matrix (mat Int8 1 2 [3, -4]) 1 2" "nd_dtype (mat Int8 1 2 [3, -4]) = Int8"
    "int8_matrix (mat Int8 2 16 (replicate 32 (-1))) 2 16" "nd_dtype (mat Int8 2 16 (replicate 32 (-1))) = Int8"
    by (simp_all add: int8_matrix_def nd_wf_def mat_def list_all_iff)
  from driver_packet_is_reference [OF this, of "zeros TX_WORDS"] show ?thesis by (simp add: zeros_def)
qed

section \<open>A device that answers\<close>

text \<open>The wide product a packet asks for, read back from its words: rows of A padded to four bytes,
  then K rows of 16 weights.\<close>

definition packet_gemm :: "nat \<Rightarrow> nat \<Rightarrow> int list \<Rightarrow> int list" where
  "packet_gemm m k ws =
     (let bs = map (np_cast Int8) (view_bytes ws); stride = (k + 3) div 4 * 4
      in rows_of m 16 (\<lambda>i j. \<Sum>t\<leftarrow>[0..<k]. bs ! (i * stride + t) * bs ! (m * stride + (t * 16 + j))))"

text \<open>The register file, memory and clock of an overlay without faults: a write to the start
  register is accepted, the input transfer runs the product and completes, every poll is ready and
  takes one unit of time.\<close>

record overlay =
  ov_regs :: "nat \<Rightarrow> int \<Rightarrow> int"
  ov_rx :: "int list"
  ov_sent :: int
  ov_got :: int
  ov_clock :: int

definition ov_finish :: "int list \<Rightarrow> overlay \<Rightarrow> overlay" where
  "ov_finish ws d =
     (let g = ov_regs d 0 in
      d\<lparr>ov_rx := map (np_cast UInt32) (packet_gemm (nat (g 8)) (nat (g 16)) ws), ov_sent := 4 * int (length ws),
        ov_regs := (ov_regs d)(0 := g(0x20 := g 0x18, 0x34 := next_tag (g 0x34), 0x24 := g 16))\<rparr>)"

definition fault_free :: "overlay device" where
  "fault_free = \<lparr>
     read_reg = (\<lambda>e off d. (ov_regs d e off, d)),
     write_reg = (\<lambda>e off v d. if off = 0x1c then d
        else d\<lparr>ov_regs := (ov_regs d)(e := (ov_regs d e)(off := v))\<rparr>),
     reset_write = (\<lambda>off v d. d),
     dma_read = (\<lambda>off d. (0, d)), dma_write = (\<lambda>off v d. d),
     send_transfer = (\<lambda>ws d. (Inr (), ov_finish ws d)),
     recv_transfer = (\<lambda>n d. (Inr (), d\<lparr>ov_got := 4 * int n\<rparr>)),
     chan_idle = (\<lambda>ch d. (True, d)), chan_error = (\<lambda>ch d. (False, d)),
     chan_wait = (\<lambda>ch d. (Inr (), d)),
     chan_transferred = (\<lambda>ch d. (if ch = Send then ov_sent d else ov_got d, d)),
     chan_running = (\<lambda>ch d. (True, d)), first_transfer = (\<lambda>ch d. d),
     monotonic = (\<lambda>d. (ov_clock d, d\<lparr>ov_clock := ov_clock d + 1\<rparr>)),
     rx_memory = ov_rx, alloc = (\<lambda>n d. (Inr (), d)), freebuffer = (\<lambda>n d. d)\<rparr>"

definition overlay_regs :: "nat \<Rightarrow> int \<Rightarrow> int" where
  "overlay_regs e off = (if e = 0 then
       (case map_of [(0, 0x50414732), (0x3c, 0x03001010), (0x44, 1), (0x48, 3072), (0x4c, 0x30001)] off of Some v \<Rightarrow> v | None \<Rightarrow> 0)
     else (case map_of [(0, 0x50415333), (0x3c, 0x01000c00), (0x44, 0xfe), (0x48, 0x30001), (0x4c, 1024)] off of Some v \<Rightarrow> v | None \<Rightarrow> 0))"

definition fresh_overlay :: overlay where
  "fresh_overlay = \<lparr>ov_regs = overlay_regs, ov_rx = [], ov_sent = 0, ov_got = 0, ov_clock = 0\<rparr>"

definition fresh_driver :: "overlay driver" where
  "fresh_driver = \<lparr>dr_dev = fresh_overlay, dr_timeout = 10, dr_failed = False, dr_closed = False, dr_tag = 0,
     dr_counts = (\<lambda>_. 0), dr_route = 0, dr_completed = [0, 0], dr_tx = zeros TX_WORDS, dr_tx_views = [],
     dr_rx_views = [], dr_retained = False\<rparr>"

section \<open>Refusal and books\<close>

text \<open>A failed or closed driver refuses every request with \<open>RuntimeError\<close> and touches neither its
  own state (transmit buffer, tag, counts) nor the device.\<close>

theorem latched_driver_untouched:
  assumes "dr_failed s \<or> dr_closed s"
  shows "execute fuel D route parameters ni no s = (Inl RuntimeError, s)
    \<and> gemm fuel D a tiles n s = (Inl RuntimeError, s) \<and> sfpu fuel D d ws s = (Inl RuntimeError, s)"
proof -
  have "require_ready s = (Inl RuntimeError, s)" using assms by (auto simp: require_ready_def bind_def require_def)
  then show ?thesis by (simp add: execute_def gemm_def sfpu_def bseq_def bind_def)
qed

theorem latched_driver_untouched_witness:
  "gemm 3 fault_free (mat Int8 1 1 [1]) (mat Int8 1 1 [1]) 1 (fresh_driver\<lparr>dr_failed := True\<rparr>)
     = (Inl RuntimeError, fresh_driver\<lparr>dr_failed := True\<rparr>)"
  using latched_driver_untouched [of "fresh_driver\<lparr>dr_failed := True\<rparr>"] by simp

text \<open>C1: Every outcome of a request: completed, with the tag, the engine's completion count and the
  four counters advanced by exactly one packet and everything else in place; refused untouched by
  the latch or by the buffer bounds; or failed with the latch set, the transmit buffer intact.\<close>

theorem request_outcomes:
  "outcome (execute fuel D route parameters ni no) s
     (\<lambda>ws t. \<not> dr_failed s \<and> \<not> dr_closed s \<and> 1 \<le> ni \<and> ni \<le> length (dr_tx s) \<and> 1 \<le> no \<and> no \<le> RX_WORDS
        \<and> completed route ni no (s\<lparr>dr_tx_views := remember ni (dr_tx_views s), dr_rx_views := remember no (dr_rx_views s)\<rparr>) t
        \<and> ws = as_int32 (take no (rx_memory D (dr_dev t))))
     (\<lambda>e t. (e = RuntimeError \<and> (dr_failed s \<or> dr_closed s) \<and> t = s)
        \<or> (e = ValueError \<and> \<not> (1 \<le> ni \<and> ni \<le> length (dr_tx s) \<and> 1 \<le> no \<and> no \<le> RX_WORDS) \<and> t = s)
        \<or> (dr_failed t \<and> dr_closed t = dr_closed s \<and> dr_tx t = dr_tx s \<and> dr_timeout t = dr_timeout s))"
  by (rule execute_outcome)

section \<open>Polling\<close>

text \<open>The device after a number of polls: each asks whether the loop is done, then for an error, then for the time.\<close>

definition poll_step :: "('d \<Rightarrow> 'd) \<Rightarrow> ('d \<Rightarrow> 'd) \<Rightarrow> 'd device \<Rightarrow> 'd \<Rightarrow> 'd" where
  "poll_step fd cd D d = snd (monotonic D (cd (fd d)))"

lemma poll_until_step:
  assumes fin: "\<And>s :: 'd driver. fin s = (Inr (F (dr_dev s)), s\<lparr>dr_dev := fd (dr_dev s)\<rparr>)"
    and check: "\<And>s :: 'd driver. check s = (if X (dr_dev s) then Inl RuntimeError else Inr (), s\<lparr>dr_dev := cd (dr_dev s)\<rparr>)"
  shows "poll_until (Suc fuel) D fin check deadline s =
     (let d = dr_dev s in
      if F d then (Inr (), s\<lparr>dr_dev := fd d\<rparr>) else if X (fd d) then (Inl RuntimeError, s\<lparr>dr_dev := cd (fd d)\<rparr>)
      else if deadline \<le> fst (monotonic D (cd (fd d))) then (Inl TimeoutError, s\<lparr>dr_dev := poll_step fd cd D d\<rparr>)
      else poll_until fuel D fin check deadline (s\<lparr>dr_dev := poll_step fd cd D d\<rparr>))"
  by (simp add: bind_def bseq_def zoom_def fin check Let_def poll_step_def split: prod.splits)

text \<open>The first poll that finds something decides the loop.\<close>

lemma poll_until_decided:
  fixes s :: "'d driver"
  assumes fin: "\<And>s :: 'd driver. fin s = (Inr (F (dr_dev s)), s\<lparr>dr_dev := fd (dr_dev s)\<rparr>)"
    and check: "\<And>s :: 'd driver. check s = (if X (dr_dev s) then Inl RuntimeError else Inr (), s\<lparr>dr_dev := cd (dr_dev s)\<rparr>)"
    and "k < fuel" "d = (poll_step fd cd D ^^ k) (dr_dev s)"
    and "\<forall>j<k. let d = (poll_step fd cd D ^^ j) (dr_dev s) in \<not> F d \<and> \<not> X (fd d) \<and> fst (monotonic D (cd (fd d))) < deadline"
    and "F d \<or> X (fd d) \<or> deadline \<le> fst (monotonic D (cd (fd d)))"
  shows "poll_until fuel D fin check deadline s =
     (if F d then (Inr (), s\<lparr>dr_dev := fd d\<rparr>) else if X (fd d) then (Inl RuntimeError, s\<lparr>dr_dev := cd (fd d)\<rparr>)
      else (Inl TimeoutError, s\<lparr>dr_dev := poll_step fd cd D d\<rparr>))"
  using assms(3-)
proof (induction k arbitrary: fuel s)
  case 0
  then obtain n where "fuel = Suc n" by (cases fuel) simp_all
  with 0 show ?case by (auto simp: poll_until_step [OF fin check] Let_def simp del: poll_until.simps)
next
  case (Suc k)
  then obtain n where n: "fuel = Suc n" by (cases fuel) simp_all
  have first: "\<not> F (dr_dev s) \<and> \<not> X (fd (dr_dev s)) \<and> fst (monotonic D (cd (fd (dr_dev s)))) < deadline"
    using Suc.prems(3) [rule_format, of 0] by (simp add: Let_def)
  have rest: "\<forall>j<k. let d = (poll_step fd cd D ^^ j) (poll_step fd cd D (dr_dev s)) in
      \<not> F d \<and> \<not> X (fd d) \<and> fst (monotonic D (cd (fd d))) < deadline"
  proof (intro allI impI)
    fix j assume "j < k"
    then show "let d = (poll_step fd cd D ^^ j) (poll_step fd cd D (dr_dev s)) in
      \<not> F d \<and> \<not> X (fd d) \<and> fst (monotonic D (cd (fd d))) < deadline"
      using Suc.prems(3) [rule_format, of "Suc j"] by (simp only: Suc_less_eq funpow_Suc_right o_apply)
  qed
  have "poll_until n D fin check deadline (s\<lparr>dr_dev := poll_step fd cd D (dr_dev s)\<rparr>) =
     (if F d then (Inr (), s\<lparr>dr_dev := fd d\<rparr>) else if X (fd d) then (Inl RuntimeError, s\<lparr>dr_dev := cd (fd d)\<rparr>)
      else (Inl TimeoutError, s\<lparr>dr_dev := poll_step fd cd D d\<rparr>))"
    using Suc.IH [of n "s\<lparr>dr_dev := poll_step fd cd D (dr_dev s)\<rparr>"] Suc.prems(1,2,4) rest n
    by (simp add: funpow_Suc_right del: funpow.simps)
  then show ?case using first unfolding n by (simp add: poll_until_step [OF fin check] Let_def del: poll_until.simps)
qed

lemma first_such: "P n \<Longrightarrow> \<exists>k\<le>n. P k \<and> (\<forall>j<k. \<not> P (j :: nat))"
  using LeastI [of P n] Least_le [of P n] not_less_Least by blast

text \<open>A loop that returns has seen its condition.\<close>

lemma poll_until_seen:
  fixes s :: "'d driver"
  assumes fin: "\<And>s :: 'd driver. fin s = (Inr (F (dr_dev s)), s\<lparr>dr_dev := fd (dr_dev s)\<rparr>)"
    and check: "\<And>s :: 'd driver. check s = (if X (dr_dev s) then Inl RuntimeError else Inr (), s\<lparr>dr_dev := cd (dr_dev s)\<rparr>)"
  shows "outcome (poll_until fuel D fin check deadline) s
     (\<lambda>_ t. \<exists>k<fuel. F ((poll_step fd cd D ^^ k) (dr_dev s)) \<and> t = s\<lparr>dr_dev := fd ((poll_step fd cd D ^^ k) (dr_dev s))\<rparr>)
     (\<lambda>_ _. True)"
proof (induction fuel arbitrary: s)
  case (Suc fuel)
  define u where "u = s\<lparr>dr_dev := poll_step fd cd D (dr_dev s)\<rparr>"
  have next': "\<exists>k<Suc fuel. F ((poll_step fd cd D ^^ k) (dr_dev s)) \<and> t = s\<lparr>dr_dev := fd ((poll_step fd cd D ^^ k) (dr_dev s))\<rparr>"
    if "\<exists>k<fuel. F ((poll_step fd cd D ^^ k) (dr_dev u)) \<and> t = u\<lparr>dr_dev := fd ((poll_step fd cd D ^^ k) (dr_dev u))\<rparr>" for t
  proof -
    from that obtain k where "k < fuel" "F ((poll_step fd cd D ^^ k) (dr_dev u))" "t = u\<lparr>dr_dev := fd ((poll_step fd cd D ^^ k) (dr_dev u))\<rparr>" by blast
    then show ?thesis by (intro exI [of _ "Suc k"]) (simp add: u_def funpow_Suc_right del: funpow.simps)
  qed
  have "outcome (poll_until fuel D fin check deadline) u
     (\<lambda>_ t. \<exists>k<Suc fuel. F ((poll_step fd cd D ^^ k) (dr_dev s)) \<and> t = s\<lparr>dr_dev := fd ((poll_step fd cd D ^^ k) (dr_dev s))\<rparr>) (\<lambda>_ _. True)"
    by (rule outcome_mono [OF Suc.IH]) (simp_all add: next')
  then show ?case
    by (auto simp: outcome_def poll_until_step [OF fin check] Let_def u_def simp del: poll_until.simps intro!: exI [of _ 0])
qed (simp add: outcome_raise)

section \<open>Waiting\<close>

text \<open>One poll of a channel's wait: the idle flag, the error flag, the time, and the device after them.\<close>

definition idle_at :: "'d device \<Rightarrow> channel \<Rightarrow> 'd \<Rightarrow> bool" where
  "idle_at D ch d = fst (chan_idle D ch d)"

definition error_at :: "'d device \<Rightarrow> channel \<Rightarrow> 'd \<Rightarrow> bool" where
  "error_at D ch d = fst (chan_error D ch (snd (chan_idle D ch d)))"

definition time_at :: "'d device \<Rightarrow> channel \<Rightarrow> 'd \<Rightarrow> int" where
  "time_at D ch d = fst (monotonic D (snd (chan_error D ch (snd (chan_idle D ch d)))))"

definition after_poll :: "'d device \<Rightarrow> channel \<Rightarrow> 'd \<Rightarrow> 'd" where
  "after_poll D ch d = snd (monotonic D (snd (chan_error D ch (snd (chan_idle D ch d)))))"

text \<open>C5: Waiting for a channel is decided by the first poll that finds something: if one of the polls that the fuel
  allows finds the channel idle, or its error flag, or the deadline reached - the timeout after the clock's
  reading at the start -, then the wait ends, and with what the first such poll found, in this order: idle, it
  returns or raises as the channel's own \<open>wait\<close>; error, it raises RuntimeError; late, it raises TimeoutError.
  Nothing is assumed of the clock.\<close>

theorem wait_decided:
  assumes "deadline = fst (monotonic D (dr_dev s)) + dr_timeout s" "d0 = snd (monotonic D (dr_dev s))"
    and "n < fuel" "d = (after_poll D ch ^^ n) d0"
    and "idle_at D ch d \<or> error_at D ch d \<or> deadline \<le> time_at D ch d"
  shows "\<exists>k\<le>n. \<exists>e. e = (after_poll D ch ^^ k) d0
     \<and> (\<forall>j<k. let e = (after_poll D ch ^^ j) d0 in \<not> idle_at D ch e \<and> \<not> error_at D ch e \<and> time_at D ch e < deadline)
     \<and> (if idle_at D ch e then wait fuel D ch s = dev_res (chan_wait D ch) (s\<lparr>dr_dev := snd (chan_idle D ch e)\<rparr>)
        else if error_at D ch e then wait fuel D ch s = (Inl RuntimeError, s\<lparr>dr_dev := snd (chan_error D ch (snd (chan_idle D ch e)))\<rparr>)
        else deadline \<le> time_at D ch e \<and> wait fuel D ch s = (Inl TimeoutError, s\<lparr>dr_dev := after_poll D ch e\<rparr>))"
proof -
  define fd where "fd = (\<lambda>d. snd (chan_idle D ch d))"
  define cd where "cd = (\<lambda>d. snd (chan_error D ch d))"
  define X where "X = (\<lambda>d. fst (chan_error D ch d))"
  have step: "after_poll D ch = poll_step fd cd D"
    by (simp add: fun_eq_iff after_poll_def poll_step_def fd_def cd_def)
  have err: "error_at D ch d = X (fd d)" and time: "time_at D ch d = fst (monotonic D (cd (fd d)))" for d
    by (simp_all add: error_at_def time_at_def X_def fd_def cd_def)
  have fin: "dev (chan_idle D ch) s = (Inr (idle_at D ch (dr_dev s)), s\<lparr>dr_dev := fd (dr_dev s)\<rparr>)" for s :: "'a driver"
    by (simp add: zoom_def idle_at_def fd_def split: prod.splits)
  have check: "bind (dev (chan_error D ch)) (\<lambda>err. require (\<not> err) RuntimeError) s
      = (if X (dr_dev s) then Inl RuntimeError else Inr (), s\<lparr>dr_dev := cd (dr_dev s)\<rparr>)" for s :: "'a driver"
    by (simp add: bind_def zoom_def require_def X_def cd_def split: prod.splits)
  define hit where "hit = (\<lambda>k. let e = (after_poll D ch ^^ k) d0 in idle_at D ch e \<or> error_at D ch e \<or> deadline \<le> time_at D ch e)"
  have "hit n" using assms(4,5) by (simp add: hit_def)
  from first_such [of hit, OF this] obtain k where k: "k \<le> n" "hit k" "\<forall>j<k. \<not> hit j" by blast
  define e where "e = (after_poll D ch ^^ k) d0"
  have before: "\<forall>j<k. let e = (after_poll D ch ^^ j) d0 in \<not> idle_at D ch e \<and> \<not> error_at D ch e \<and> time_at D ch e < deadline"
    using k(3) by (simp add: hit_def Let_def not_le)
  have hit_e: "idle_at D ch e \<or> error_at D ch e \<or> deadline \<le> time_at D ch e" using k(2) by (simp add: hit_def e_def Let_def)
  define u where "u = s\<lparr>dr_dev := d0\<rparr>"
  have w: "wait fuel D ch s = bseq (poll_until fuel D (dev (chan_idle D ch)) (bind (dev (chan_error D ch)) (\<lambda>err. require (\<not> err) RuntimeError)) deadline)
      (dev_res (chan_wait D ch)) u"
    by (simp add: wait_def bind_def zoom_def u_def assms(1,2) split: prod.splits)
  have "poll_until fuel D (dev (chan_idle D ch)) (bind (dev (chan_error D ch)) (\<lambda>err. require (\<not> err) RuntimeError)) deadline u =
     (if idle_at D ch e then (Inr (), u\<lparr>dr_dev := fd e\<rparr>) else if X (fd e) then (Inl RuntimeError, u\<lparr>dr_dev := cd (fd e)\<rparr>)
      else (Inl TimeoutError, u\<lparr>dr_dev := poll_step fd cd D e\<rparr>))"
  proof (rule poll_until_decided [OF fin check])
    show "k < fuel" using k(1) assms(3) by simp
    show "e = (poll_step fd cd D ^^ k) (dr_dev u)" by (simp add: e_def step u_def)
    show "\<forall>j<k. let d = (poll_step fd cd D ^^ j) (dr_dev u) in \<not> idle_at D ch d \<and> \<not> X (fd d) \<and> fst (monotonic D (cd (fd d))) < deadline"
      using before by (simp add: step err time u_def)
    show "idle_at D ch e \<or> X (fd e) \<or> deadline \<le> fst (monotonic D (cd (fd e)))"
      using hit_e by (simp add: err time)
  qed
  then have "if idle_at D ch e then wait fuel D ch s = dev_res (chan_wait D ch) (s\<lparr>dr_dev := snd (chan_idle D ch e)\<rparr>)
        else if error_at D ch e then wait fuel D ch s = (Inl RuntimeError, s\<lparr>dr_dev := snd (chan_error D ch (snd (chan_idle D ch e)))\<rparr>)
        else deadline \<le> time_at D ch e \<and> wait fuel D ch s = (Inl TimeoutError, s\<lparr>dr_dev := after_poll D ch e\<rparr>)"
    using hit_e by (auto simp: w bseq_def bind_def u_def err time step fd_def cd_def)
  then show ?thesis using k(1) before e_def by blast
qed

text \<open>A device whose channels never become idle: the third poll is late.\<close>

theorem wait_decided_witness:
  "wait 10 (fault_free\<lparr>chan_idle := \<lambda>ch d. (False, d)\<rparr>) Recv (fresh_driver\<lparr>dr_timeout := 3\<rparr>)
     = (Inl TimeoutError, fresh_driver\<lparr>dr_timeout := 3, dr_dev := fresh_overlay\<lparr>ov_clock := 4\<rparr>\<rparr>)"
proof -
  define D where "D = fault_free\<lparr>chan_idle := \<lambda>ch d. (False, d)\<rparr>"
  define at' where "at' = (\<lambda>n :: nat. fresh_overlay\<lparr>ov_clock := 1 + int n\<rparr>)"
  have step: "after_poll D Recv (at' n) = at' (Suc n)" for n
    by (simp add: after_poll_def D_def fault_free_def at'_def)
  have polls: "(after_poll D Recv ^^ n) (at' 0) = at' n" for n
    by (induction n) (simp_all add: step)
  have seen: "\<not> idle_at D Recv (at' n)" "\<not> error_at D Recv (at' n)" "time_at D Recv (at' n) = 1 + int n" for n
    by (simp_all add: idle_at_def error_at_def time_at_def D_def fault_free_def at'_def)
  have start: "3 = fst (monotonic D (dr_dev (fresh_driver\<lparr>dr_timeout := 3\<rparr>))) + dr_timeout (fresh_driver\<lparr>dr_timeout := 3\<rparr>)"
      "at' 0 = snd (monotonic D (dr_dev (fresh_driver\<lparr>dr_timeout := 3\<rparr>)))"
    by (simp_all add: D_def fault_free_def fresh_driver_def fresh_overlay_def at'_def)
  obtain k where k: "k \<le> 2" "3 \<le> time_at D Recv (at' k)"
      "wait 10 D Recv (fresh_driver\<lparr>dr_timeout := 3\<rparr>) = (Inl TimeoutError, fresh_driver\<lparr>dr_timeout := 3, dr_dev := after_poll D Recv (at' k)\<rparr>)"
    using wait_decided [OF start, of 2 10 "at' 2" Recv] by (auto simp: polls seen)
  then have "k = 2" by (simp add: seen)
  moreover have "at' (Suc 2) = fresh_overlay\<lparr>ov_clock := 4\<rparr>" by (simp add: at'_def)
  ultimately show ?thesis using k(3) by (simp add: step flip: D_def)
qed

section \<open>Recovery and closing\<close>

text \<open>\<open>e\<close> is the device after the first poll, of those that follow one reading of the clock, that answers True.\<close>

definition polled_until :: "('d \<Rightarrow> bool \<times> 'd) \<Rightarrow> 'd device \<Rightarrow> 'd \<Rightarrow> 'd \<Rightarrow> bool" where
  "polled_until f D d e \<longleftrightarrow> (\<exists>n. let c = (poll_step (\<lambda>d. snd (f d)) (\<lambda>d. d) D ^^ n) (snd (monotonic D d)) in fst (f c) \<and> e = snd (f c))"

text \<open>The reset bit written, and read back as clear.\<close>

definition reset_seen :: "'d device \<Rightarrow> 'd \<Rightarrow> 'd \<Rightarrow> bool" where
  "reset_seen D d e \<longleftrightarrow> polled_until (\<lambda>d. (fst (dma_read D 0 d) AND 4 = 0, snd (dma_read D 0 d))) D (dma_write D 0 4 d) e"

text \<open>A channel told to run, seen running, and set to its first transfer.\<close>

definition channel_seen :: "'d device \<Rightarrow> int \<Rightarrow> channel \<Rightarrow> 'd \<Rightarrow> 'd \<Rightarrow> bool" where
  "channel_seen D off ch d e \<longleftrightarrow> (\<exists>c. polled_until (chan_running D ch) D (dma_write D off 1 d) c \<and> e = first_transfer D ch c)"

definition engines_reset :: "'d device \<Rightarrow> 'd \<Rightarrow> 'd" where
  "engines_reset D d = write_reg D 1 0x1c 2 (write_reg D 1 0x1c 4 (write_reg D 0 0x1c 2 (write_reg D 0 0x1c 4 d)))"

lemma poll_for:
  fixes s :: "'d driver"
  assumes fin: "\<And>s :: 'd driver. fin s = (Inr (fst (f (dr_dev s))), s\<lparr>dr_dev := snd (f (dr_dev s))\<rparr>)"
    and s: "s = u\<lparr>dr_dev := snd (monotonic D d)\<rparr>"
  shows "outcome (poll_until fuel D fin (ret ()) deadline) s
     (\<lambda>_ t. \<exists>e. polled_until f D d e \<and> t = u\<lparr>dr_dev := e\<rparr>) (\<lambda>_ t. t = u\<lparr>dr_dev := dr_dev t\<rparr>)"
proof -
  have check: "ret () t = (if (\<lambda>_. False) (dr_dev t) then Inl RuntimeError else Inr (), t\<lparr>dr_dev := (\<lambda>d. d) (dr_dev t)\<rparr>)" for t :: "'d driver"
    by simp
  have seen: "outcome (poll_until fuel D fin (ret ()) deadline) s
     (\<lambda>_ t. \<exists>e. polled_until f D d e \<and> t = u\<lparr>dr_dev := e\<rparr>) (\<lambda>_ _. True)"
    by (rule outcome_mono [OF poll_until_seen [OF fin check]]) (auto simp: s polled_until_def Let_def)
  have "dev_only fin" unfolding dev_only_def fin by auto
  then have "dev_only (poll_until fuel D fin (ret ()) deadline)" by (intro dev_only_poll dev_only_stay)
  then obtain d' where "snd (poll_until fuel D fin (ret ()) deadline s) = u\<lparr>dr_dev := d'\<rparr>"
    unfolding dev_only_def by (metis s driver.update_convs(1) driver.surjective)
  then show ?thesis using seen by (auto simp: outcome_def split: prod.splits sum.splits)
qed

lemma reset_dma_seen:
  "outcome (reset_dma fuel D) s (\<lambda>_ t. \<exists>d. reset_seen D (dr_dev s) d \<and> t = s\<lparr>dr_dev := d\<rparr>) (\<lambda>_ t. t = s\<lparr>dr_dev := dr_dev t\<rparr>)"
proof -
  define f where "f = (\<lambda>d. (fst (dma_read D 0 d) AND 4 = 0, snd (dma_read D 0 d)))"
  have fin: "bind (dev (dma_read D 0)) (\<lambda>v. ret (v AND 4 = 0)) s = (Inr (fst (f (dr_dev s))), s\<lparr>dr_dev := snd (f (dr_dev s))\<rparr>)" for s :: "'a driver"
    by (simp add: bind_def zoom_def f_def split: prod.splits)
  show ?thesis
    unfolding reset_dma_def deadline_from_now_def outcome_bseq outcome_bind outcome_modify outcome_zoom outcome_gets
    by (rule outcome_mono [OF poll_for [OF fin, where d = "dma_write D 0 4 (dr_dev s)" and u = s]])
      (auto simp: reset_seen_def f_def)
qed

lemma channel_restart_seen:
  "outcome (bseq (dev_do (dma_write D off 1)) (bind (deadline_from_now D) (\<lambda>deadline.
         bseq (poll_until fuel D (dev (chan_running D ch)) (ret ()) deadline) (dev_do (first_transfer D ch))))) s
     (\<lambda>_ t. \<exists>d. channel_seen D off ch (dr_dev s) d \<and> t = s\<lparr>dr_dev := d\<rparr>) (\<lambda>_ t. t = s\<lparr>dr_dev := dr_dev t\<rparr>)"
proof -
  have fin: "dev (chan_running D ch) s = (Inr (fst (chan_running D ch (dr_dev s))), s\<lparr>dr_dev := snd (chan_running D ch (dr_dev s))\<rparr>)" for s :: "'a driver"
    by (simp add: zoom_def split: prod.splits)
  show ?thesis
    unfolding deadline_from_now_def outcome_bseq outcome_bind outcome_modify outcome_zoom outcome_gets
    by (rule outcome_mono [OF poll_for [OF fin, where d = "dma_write D off 1 (dr_dev s)" and u = s]])
      (auto simp: channel_seen_def)
qed

text \<open>What a completed recovery has seen and read back, in this order.\<close>

definition restarted :: "'d device \<Rightarrow> 'd driver \<Rightarrow> 'd driver \<Rightarrow> bool" where
  "restarted D s t \<longleftrightarrow> (\<exists>d1 d2 d3. reset_seen D (dr_dev s) d1 \<and> channel_seen D 0 Send (engines_reset D d1) d2
     \<and> channel_seen D 0x30 Recv d2 d3
     \<and> (case read_reg D 0 0x34 d3 of (n0, d4) \<Rightarrow> case read_reg D 1 0x34 d4 of (n1, d5) \<Rightarrow> case read_reg D 1 0x50 d5 of (route, d6) \<Rightarrow>
          t = s\<lparr>dr_completed := [n0, n1], dr_route := route, dr_dev := dr_dev t\<rparr>
          \<and> check_capabilities D (t\<lparr>dr_dev := d6\<rparr>) = (Inr (), t)))"

lemma outcome_self: "outcome m s (\<lambda>x t. m s = (Inr x, t)) (\<lambda>e t. m s = (Inl e, t))"
  by (auto simp: outcome_def split: prod.splits sum.splits)

lemma check_capabilities_seen:
  "outcome (check_capabilities D) s (\<lambda>_ t. check_capabilities D s = (Inr (), t) \<and> t = s\<lparr>dr_dev := dr_dev t\<rparr>) (\<lambda>_ t. t = s\<lparr>dr_dev := dr_dev t\<rparr>)"
proof -
  have "outcome (check_capabilities D) s (\<lambda>_ t. t = s\<lparr>dr_dev := dr_dev t\<rparr>) (\<lambda>_ t. t = s\<lparr>dr_dev := dr_dev t\<rparr>)"
    by (rule dev_only_outcome [OF dev_only_check]) simp_all
  then show ?thesis using outcome_self [of "check_capabilities D" s] by (auto simp: outcome_def split: prod.splits sum.splits)
qed

lemma restart_outcome:
  "outcome (restart fuel D) s (\<lambda>_ t. restarted D s t) (\<lambda>_ t. dr_closed t = dr_closed s \<and> dr_failed t = dr_failed s)"
proof -
  let ?E = "\<lambda>_ t. dr_closed t = dr_closed s \<and> dr_failed t = dr_failed s"
  have frame: "?E e t" if "t = u\<lparr>dr_dev := dr_dev t\<rparr>" "dr_closed u = dr_closed s" "dr_failed u = dr_failed s" for e :: exn and t u :: "'a driver"
    using that by (metis driver.ext_inject driver.surjective driver.update_convs(1))
  have books: "outcome (bind (mapM_act (\<lambda>e. dev (read_reg D e 0x34)) [0, 1]) (\<lambda>completed.
      bseq (modify (\<lambda>s. s\<lparr>dr_completed := completed\<rparr>))
     (bind (dev (read_reg D 1 0x50)) (\<lambda>route.
      bseq (modify (\<lambda>s. s\<lparr>dr_route := route\<rparr>)) (check_capabilities D))))) (s\<lparr>dr_dev := d3\<rparr>) (\<lambda>_. restarted D s) ?E"
    if "reset_seen D (dr_dev s) d1" "channel_seen D 0 Send (engines_reset D d1) d2" "channel_seen D 0x30 Recv d2 d3" for d1 d2 d3
  proof -
    obtain n0 d4 n1 d5 route d6 where r: "read_reg D 0 0x34 d3 = (n0, d4)" "read_reg D 1 0x34 d4 = (n1, d5)" "read_reg D 1 0x50 d5 = (route, d6)"
      by (metis surj_pair)
    have "outcome (check_capabilities D) (s\<lparr>dr_completed := [n0, n1], dr_dev := d6, dr_route := route\<rparr>) (\<lambda>_. restarted D s) ?E"
    proof (rule outcome_mono [OF check_capabilities_seen])
      fix x and t :: "'a driver"
      let ?u = "s\<lparr>dr_completed := [n0, n1], dr_dev := d6, dr_route := route\<rparr>"
      assume t: "check_capabilities D ?u = (Inr (), t) \<and> t = ?u\<lparr>dr_dev := dr_dev t\<rparr>"
      define d' where "d' = dr_dev t"
      have t': "t = s\<lparr>dr_completed := [n0, n1], dr_route := route, dr_dev := d'\<rparr>" using t by (simp add: d'_def)
      then have "t\<lparr>dr_dev := d6\<rparr> = ?u" by simp
      then have c: "check_capabilities D (t\<lparr>dr_dev := d6\<rparr>) = (Inr (), t)" using t by simp
      have "t = s\<lparr>dr_completed := [n0, n1], dr_route := route, dr_dev := dr_dev t\<rparr>" using t' by simp
      then have "case read_reg D 0 0x34 d3 of (n0, d4) \<Rightarrow> case read_reg D 1 0x34 d4 of (n1, d5) \<Rightarrow> case read_reg D 1 0x50 d5 of (route, d6) \<Rightarrow>
          t = s\<lparr>dr_completed := [n0, n1], dr_route := route, dr_dev := dr_dev t\<rparr> \<and> check_capabilities D (t\<lparr>dr_dev := d6\<rparr>) = (Inr (), t)"
        unfolding r prod.case using c by blast
      then show "restarted D s t" unfolding restarted_def
        by (intro exI [of _ d3] exI [of _ d2] exI [of _ d1] conjI that)
    qed (rule frame, assumption, simp_all)
    then show ?thesis
      unfolding mapM_act.simps outcome_bind outcome_zoom outcome_ret outcome_bseq outcome_modify by (simp add: r del: One_nat_def)
  qed
  have engines: "outcome (for_each (\<lambda>e. bseq (dev_do (write_reg D e 0x1c 4)) (dev_do (write_reg D e 0x1c 2))) [0, 1]) (s\<lparr>dr_dev := d\<rparr>) Q E
      = Q () (s\<lparr>dr_dev := engines_reset D d\<rparr>)" for d Q and E :: "exn \<Rightarrow> 'a driver \<Rightarrow> bool"
    by (simp add: outcome_simps engines_reset_def)
  show ?thesis
    unfolding restart_def
  proof (rule outcome_bseqI, rule outcome_mono [OF reset_dma_seen])
    fix x and t :: "'a driver" assume "\<exists>d. reset_seen D (dr_dev s) d \<and> t = s\<lparr>dr_dev := d\<rparr>"
    then obtain d1 where d1: "reset_seen D (dr_dev s) d1" "t = s\<lparr>dr_dev := d1\<rparr>" by blast
    have seen: "outcome (case (off, ch) of (off, ch) \<Rightarrow> bseq (dev_do (dma_write D off 1)) (bind (deadline_from_now D) (\<lambda>deadline.
         bseq (poll_until fuel D (dev (chan_running D ch)) (ret ()) deadline) (dev_do (first_transfer D ch))))) (s\<lparr>dr_dev := d\<rparr>) Q ?E"
      if "\<And>e. channel_seen D off ch d e \<Longrightarrow> Q () (s\<lparr>dr_dev := e\<rparr>)" for off ch d Q
      unfolding prod.case
    proof (rule outcome_mono [OF channel_restart_seen])
      show "Q x t" if "\<exists>e. channel_seen D off ch (dr_dev (s\<lparr>dr_dev := d\<rparr>)) e \<and> t = s\<lparr>dr_dev := d, dr_dev := e\<rparr>" for x t
        using that \<open>\<And>e. channel_seen D off ch d e \<Longrightarrow> Q () (s\<lparr>dr_dev := e\<rparr>)\<close> by (cases x) auto
    qed (rule frame, assumption, simp_all)
    show "outcome (bseq (for_each (\<lambda>e. bseq (dev_do (write_reg D e 0x1c 4)) (dev_do (write_reg D e 0x1c 2))) [0, 1])
       (bseq (for_each (\<lambda>(off, ch). bseq (dev_do (dma_write D off 1)) (bind (deadline_from_now D) (\<lambda>deadline.
           bseq (poll_until fuel D (dev (chan_running D ch)) (ret ()) deadline) (dev_do (first_transfer D ch))))) [(0, Send), (0x30, Recv)])
       (bind (mapM_act (\<lambda>e. dev (read_reg D e 0x34)) [0, 1]) (\<lambda>completed. bseq (modify (\<lambda>s. s\<lparr>dr_completed := completed\<rparr>))
         (bind (dev (read_reg D 1 0x50)) (\<lambda>route. bseq (modify (\<lambda>s. s\<lparr>dr_route := route\<rparr>)) (check_capabilities D))))))) t (\<lambda>_. restarted D s) ?E"
      unfolding d1(2) outcome_bseq [of "for_each f xs" for f xs] engines
      unfolding for_each.simps outcome_bseq outcome_ret by (intro seen books) (rule d1(1), assumption+)
  qed (rule frame, assumption, simp_all)
qed

lemma close_sees_reset:
  "outcome (close fuel D) s
     (\<lambda>_ t. if dr_closed s then t = s
        else \<exists>d. reset_seen D (dr_dev s) d \<and> t = s\<lparr>dr_dev := freebuffer D TX_WORDS (freebuffer D RX_WORDS d),
               dr_tx_views := [], dr_rx_views := [], dr_closed := True\<rparr>)
     (\<lambda>e t. \<not> dr_closed s \<and> fst (reset_dma fuel D s) = Inl e
        \<and> t = s\<lparr>dr_dev := dr_dev (snd (reset_dma fuel D s)), dr_failed := True, dr_retained := True\<rparr>)"
proof -
  have "outcome (reset_dma fuel D) s (\<lambda>_ t. \<exists>d. reset_seen D (dr_dev s) d \<and> t = s\<lparr>dr_dev := d\<rparr>)
     (\<lambda>e t. fst (reset_dma fuel D s) = Inl e \<and> t = s\<lparr>dr_dev := dr_dev (snd (reset_dma fuel D s))\<rparr>)"
    using reset_dma_seen [of fuel D s] by (auto simp: outcome_def split: prod.splits sum.splits)
  then show ?thesis
    unfolding close_def by (auto simp: outcome_simps elim!: outcome_mono)
qed

text \<open>C6: A recovery that returns has seen the reset bit of the DMA read back as clear, has reset both engines, has
  seen both channels running, and has read the completion counts and the route back and checked the capabilities,
  in this order; only then is the latch cleared. Every other recovery raises with the latch set, or refuses a
  closed driver untouched. A close that returns has seen the reset bit clear before it freed the two buffers; when
  the reset raises, so does the close, with the same exception, nothing freed, the buffers retained, the driver open
  and failed. Closing a closed driver does nothing.\<close>

theorem recovery_and_closing:
  "outcome (recover fuel D) s (\<lambda>_ t. \<not> dr_closed s \<and> \<not> dr_failed t \<and> restarted D (s\<lparr>dr_failed := True\<rparr>) (t\<lparr>dr_failed := True\<rparr>))
     (\<lambda>e t. (dr_closed s \<and> e = RuntimeError \<and> t = s) \<or> (\<not> dr_closed s \<and> \<not> dr_closed t \<and> dr_failed t))
   \<and> outcome (close fuel D) s
     (\<lambda>_ t. if dr_closed s then t = s
        else \<exists>d. reset_seen D (dr_dev s) d \<and> t = s\<lparr>dr_dev := freebuffer D TX_WORDS (freebuffer D RX_WORDS d),
               dr_tx_views := [], dr_rx_views := [], dr_closed := True\<rparr>)
     (\<lambda>e t. \<not> dr_closed s \<and> fst (reset_dma fuel D s) = Inl e
        \<and> t = s\<lparr>dr_dev := dr_dev (snd (reset_dma fuel D s)), dr_failed := True, dr_retained := True\<rparr>)"
proof
  have "t\<lparr>dr_failed := True\<rparr> = t" if again: "restarted D (s\<lparr>dr_failed := True\<rparr>) t" for t
  proof -
    obtain c r d where "t = s\<lparr>dr_failed := True, dr_completed := c, dr_route := r, dr_dev := d\<rparr>"
      using again unfolding restarted_def case_prod_beta by blast
    then show ?thesis by simp
  qed
  then show "outcome (recover fuel D) s (\<lambda>_ t. \<not> dr_closed s \<and> \<not> dr_failed t \<and> restarted D (s\<lparr>dr_failed := True\<rparr>) (t\<lparr>dr_failed := True\<rparr>))
     (\<lambda>e t. (dr_closed s \<and> e = RuntimeError \<and> t = s) \<or> (\<not> dr_closed s \<and> \<not> dr_closed t \<and> dr_failed t))"
    unfolding recover_def
    by (auto simp: outcome_simps intro!: outcome_mono [OF restart_outcome])
qed (rule close_sees_reset)

end
