(* ===== verification/Float64.thy ===== *)
theory Float64
  imports Complex_Main SfpuRef
begin

text \<open>
  IEEE binary64, the \<open>float\<close> of Python and the \<open>float64\<close> of NumPy, as far as the sources use it: a
  value is a rational, an infinity or not a number, and an operation is the exact rational
  operation rounded to nearest even (\<open>round64\<close>: 53 bits, subnormals below \<open>2 ^ -1022\<close>, infinity from
  \<open>2 ^ 1024\<close>). Not kept: the sign of a zero, which nothing here observes. What the hardware or the
  maths library decides is a parameter (\<open>numpy\<close>): the conversion to an integer type of a float
  that does not fit it, and \<open>log2\<close>.
\<close>

section \<open>Values and rounding\<close>

datatype f64 = Fin rat | PosInf | NegInf | NaN

record numpy =
  np_log2 :: "f64 \<Rightarrow> f64"
  np_wild :: "f64 \<Rightarrow> int"

text \<open>The binary exponent of a positive rational: \<open>2 ^ e <= q < 2 ^ (e + 1)\<close>.\<close>

function ilog2 :: "rat \<Rightarrow> int" where
  "ilog2 q = (if q \<le> 0 then 0 else if 2 \<le> q then ilog2 (q / 2) + 1 else if q < 1 then ilog2 (2 * q) - 1 else 0)"
  by pat_completeness auto
termination
proof (relation "measure (\<lambda>q. if 1 \<le> q then nat \<lfloor>q\<rfloor> else Suc (nat \<lfloor>1 / q\<rfloor>))", goal_cases)
  case 1
  show ?case by simp
next
  case (2 q)
  then have q: "2 \<le> q" by simp
  have "\<lfloor>q / 2\<rfloor> < \<lfloor>q\<rfloor>"
  proof -
    have "q / 2 \<le> q - 1" using q by simp
    then have "\<lfloor>q / 2\<rfloor> \<le> \<lfloor>q - 1\<rfloor>" by (rule floor_mono)
    then show ?thesis by simp
  qed
  moreover have "0 \<le> \<lfloor>q / 2\<rfloor>" using q by simp
  ultimately show ?case using q by (simp add: nat_less_iff)
next
  case (3 q)
  then have q: "0 < q" "q < 1" by simp_all
  define y where "y = 1 / q"
  have y: "1 < y" using q by (simp add: y_def)
  have h: "1 / (2 * q) = y / 2" by (simp add: y_def)
  show ?case
  proof (cases "1 \<le> 2 * q")
    case True
    have "\<lfloor>2 * q\<rfloor> = 1" using True q by (simp add: floor_eq_iff)
    moreover have "1 \<le> \<lfloor>y\<rfloor>" using y by (simp add: le_floor_iff)
    ultimately show ?thesis using True q by (simp add: y_def)
  next
    case False
    then have "2 < y" using q by (simp add: y_def field_simps)
    then have "y / 2 \<le> y - 1" by simp
    then have "\<lfloor>y / 2\<rfloor> \<le> \<lfloor>y - 1\<rfloor>" by (rule floor_mono)
    then have "\<lfloor>y / 2\<rfloor> < \<lfloor>y\<rfloor>" by simp
    moreover have "0 \<le> \<lfloor>y / 2\<rfloor>" using y by simp
    ultimately have "nat \<lfloor>y / 2\<rfloor> < nat \<lfloor>y\<rfloor>" by linarith
    then show ?thesis using False q h by (simp add: y_def mult.commute)
  qed
qed

declare ilog2.simps [simp del]

text \<open>Round half to even, on the rationals.\<close>

definition rne_rat :: "rat \<Rightarrow> int" where
  "rne_rat x = (let f = \<lfloor>x\<rfloor>; r = x - of_int f
     in if r < 1 / 2 \<or> (r = 1 / 2 \<and> even f) then f else f + 1)"

definition F_TOP :: rat where "F_TOP = 2 powi 1024"

definition round64 :: "rat \<Rightarrow> f64" where
  "round64 q =
     (if q = 0 then Fin 0
      else let e = max (ilog2 \<bar>q\<bar> - 52) (-1074);
               v = of_int (rne_rat (q / 2 powi e)) * 2 powi e
           in if v \<ge> F_TOP then PosInf else if v \<le> - F_TOP then NegInf else Fin v)"

definition is_finite :: "f64 \<Rightarrow> bool" where
  "is_finite x = (case x of Fin _ \<Rightarrow> True | _ \<Rightarrow> False)"

text \<open>\<open>float(n)\<close> of an integer inside the range of binary64.\<close>

definition f_int :: "int \<Rightarrow> f64" where
  "f_int n = round64 (of_int n)"

section \<open>Operations\<close>

fun fneg :: "f64 \<Rightarrow> f64" where
  "fneg (Fin a) = Fin (- a)" | "fneg PosInf = NegInf" | "fneg NegInf = PosInf" | "fneg NaN = NaN"

fun fabs :: "f64 \<Rightarrow> f64" where
  "fabs (Fin a) = Fin \<bar>a\<bar>" | "fabs NaN = NaN" | "fabs _ = PosInf"

fun fadd :: "f64 \<Rightarrow> f64 \<Rightarrow> f64" where
  "fadd (Fin a) (Fin b) = round64 (a + b)"
| "fadd NaN _ = NaN" | "fadd _ NaN = NaN"
| "fadd PosInf NegInf = NaN" | "fadd NegInf PosInf = NaN"
| "fadd PosInf _ = PosInf" | "fadd _ PosInf = PosInf"
| "fadd NegInf _ = NegInf" | "fadd _ NegInf = NegInf"

definition fsub :: "f64 \<Rightarrow> f64 \<Rightarrow> f64" where
  "fsub a b = fadd a (fneg b)"

text \<open>An infinity of the sign of \<open>s\<close>; \<open>NaN\<close> for zero.\<close>

definition finf :: "rat \<Rightarrow> f64" where
  "finf s = (if 0 < s then PosInf else if s < 0 then NegInf else NaN)"

fun fmul :: "f64 \<Rightarrow> f64 \<Rightarrow> f64" where
  "fmul (Fin a) (Fin b) = round64 (a * b)"
| "fmul NaN _ = NaN" | "fmul _ NaN = NaN"
| "fmul PosInf (Fin b) = finf b" | "fmul (Fin a) PosInf = finf a"
| "fmul NegInf (Fin b) = finf (- b)" | "fmul (Fin a) NegInf = finf (- a)"
| "fmul PosInf PosInf = PosInf" | "fmul NegInf NegInf = PosInf"
| "fmul _ _ = NegInf"

text \<open>NumPy's division: by zero it is an infinity or \<open>NaN\<close>; Python's raises.\<close>

fun fdiv :: "f64 \<Rightarrow> f64 \<Rightarrow> f64" where
  "fdiv (Fin a) (Fin b) = (if b = 0 then finf a else round64 (a / b))"
| "fdiv NaN _ = NaN" | "fdiv _ NaN = NaN"
| "fdiv (Fin _) _ = Fin 0"
| "fdiv PosInf (Fin b) = (if b < 0 then NegInf else PosInf)"
| "fdiv NegInf (Fin b) = (if b < 0 then PosInf else NegInf)"
| "fdiv _ _ = NaN"

definition py_fdiv :: "f64 \<Rightarrow> f64 \<Rightarrow> f64 res" where
  "py_fdiv a b = (if b = Fin 0 then Inl ZeroDivisionError else Inr (fdiv a b))"

fun flt :: "f64 \<Rightarrow> f64 \<Rightarrow> bool" where
  "flt (Fin a) (Fin b) \<longleftrightarrow> a < b"
| "flt NaN _ \<longleftrightarrow> False" | "flt _ NaN \<longleftrightarrow> False"
| "flt NegInf y \<longleftrightarrow> y \<noteq> NegInf" | "flt x PosInf \<longleftrightarrow> x \<noteq> PosInf" | "flt _ _ \<longleftrightarrow> False"

definition feq :: "f64 \<Rightarrow> f64 \<Rightarrow> bool" where
  "feq a b \<longleftrightarrow> a = b \<and> a \<noteq> NaN"

definition fle :: "f64 \<Rightarrow> f64 \<Rightarrow> bool" where
  "fle a b \<longleftrightarrow> flt a b \<or> feq a b"

text \<open>\<open>np.maximum\<close> keeps a \<open>NaN\<close>; \<open>np.max\<close> folds it.\<close>

definition fmax :: "f64 \<Rightarrow> f64 \<Rightarrow> f64" where
  "fmax a b = (if a = NaN \<or> b = NaN then NaN else if flt a b then b else a)"

fun fmax_list :: "f64 list \<Rightarrow> f64 res" where
  "fmax_list [] = Inl ValueError"
| "fmax_list (x # xs) = Inr (fold (\<lambda>y m. fmax m y) xs x)"

fun frint :: "f64 \<Rightarrow> f64" where
  "frint (Fin a) = Fin (of_int (rne_rat a))" | "frint x = x"

fun fceil :: "f64 \<Rightarrow> f64" where
  "fceil (Fin a) = Fin (of_int \<lceil>a\<rceil>)" | "fceil x = x"

text \<open>Powers of two: NumPy's overflow to infinity, Python's raise.\<close>

definition np_pow2 :: "int \<Rightarrow> f64" where
  "np_pow2 k = round64 (2 powi k)"

definition py_pow2 :: "int \<Rightarrow> f64 res" where
  "py_pow2 k = (if 1024 \<le> k then Inl OverflowError else Inr (round64 (2 powi k)))"

text \<open>\<open>math.sqrt\<close>, correctly rounded: the integer root carries more than 53 bits, and a remainder
  becomes one more bit below them.\<close>

definition fsqrt :: "f64 \<Rightarrow> f64 res" where
  "fsqrt x =
     (case x of
        Fin q \<Rightarrow>
          if q < 0 then Inl ValueError
          else if q = 0 then Inr (Fin 0)
          else let k = max 0 (60 - ilog2 q); n = \<lfloor>q * 4 powi k\<rfloor>; s = isqrt n
               in Inr (round64 (if of_int (s * s) = q * 4 powi k then of_int s / 2 powi k
                                else of_int (2 * s + 1) / 2 powi (k + 1)))
      | PosInf \<Rightarrow> Inr PosInf | NegInf \<Rightarrow> Inl ValueError | NaN \<Rightarrow> Inr NaN)"

text \<open>\<open>astype\<close> of a float to a signed integer type: truncation, or what the platform does.\<close>

definition f_cast :: "numpy \<Rightarrow> dtype \<Rightarrow> f64 \<Rightarrow> int" where
  "f_cast E d x =
     (case x of
        Fin q \<Rightarrow> (let t = (if 0 \<le> q then \<lfloor>q\<rfloor> else \<lceil>q\<rceil>)
                  in if in_dtype d t then t else np_cast d (np_wild E x))
      | _ \<Rightarrow> np_cast d (np_wild E x))"

section \<open>Bit patterns\<close>

text \<open>The value of a 64-bit pattern.\<close>

definition f_bits :: "int \<Rightarrow> f64" where
  "f_bits w =
     (let s = (if bit w 63 then -1 else 1 :: rat);
          e = take_bit 11 (drop_bit 52 w); m = take_bit 52 w
      in if e = 2047 then (if m \<noteq> 0 then NaN else if bit w 63 then NegInf else PosInf)
         else if e = 0 then Fin (s * of_int m * 2 powi (-1074))
         else Fin (s * (2 ^ 52 + of_int m) * 2 powi (e - 1075)))"


section \<open>Laws\<close>

lemma ilog2_spec: "0 < q \<Longrightarrow> 2 powi ilog2 q \<le> q \<and> q < 2 powi (ilog2 q + 1)"
proof (induction q rule: ilog2.induct)
  case (1 q)
  consider "2 \<le> q" | "q < 1" | "1 \<le> q" "q < 2" by linarith
  then show ?case
  proof cases
    case 1
    then have "ilog2 q = ilog2 (q / 2) + 1" using "1.prems" by (subst ilog2.simps) simp
    then show ?thesis using "1.IH"(1) 1 "1.prems" by (simp add: power_int_add)
  next
    case 2
    then have "ilog2 (2 * q) = ilog2 q + 1" using "1.prems" by (subst (2) ilog2.simps) simp
    then show ?thesis using "1.IH"(2) 2 "1.prems" by (simp add: power_int_add)
  next
    case 3
    then have "ilog2 q = 0" using "1.prems" by (subst ilog2.simps) simp
    then show ?thesis using 3 by simp
  qed
qed

lemma rne_rat_int [simp]: "rne_rat (of_int n) = n"
  by (simp add: rne_rat_def)

lemma power_int_2_mono: "a \<le> b \<Longrightarrow> 2 powi a \<le> (2 powi b :: rat)"
  by (simp add: power_int_increasing)

lemma ilog2_less: "0 < q \<Longrightarrow> q < 2 powi b \<Longrightarrow> ilog2 q < b"
proof (rule ccontr)
  assume *: "0 < q" "q < 2 powi b" "\<not> ilog2 q < b"
  then have "2 powi b \<le> (2 powi ilog2 q :: rat)" by (intro power_int_2_mono) simp
  then show False using ilog2_spec [OF *(1)] *(2) by simp
qed

text \<open>A rational with at most 53 significant bits on the grid of binary64 is its own rounding.\<close>

lemma round64_exact:
  assumes "q = of_int m * 2 powi e" "\<bar>m\<bar> < 2 ^ 53" "-1074 \<le> e" "\<bar>q\<bar> < F_TOP"
  shows "round64 q = Fin q"
proof (cases "m = 0")
  case True
  then show ?thesis using assms(1) by (simp add: round64_def)
next
  case False
  define k where "k = max (ilog2 \<bar>q\<bar> - 52) (-1074)"
  have "q \<noteq> 0" using False assms(1) by simp
  have "\<bar>q\<bar> = of_int \<bar>m\<bar> * 2 powi e" using assms(1) by (simp add: abs_mult)
  also have "\<dots> < 2 powi 53 * 2 powi e"
  proof -
    have "of_int \<bar>m\<bar> < (of_int (2 ^ 53) :: rat)" using assms(2) by (simp only: of_int_less_iff)
    then show ?thesis by (intro mult_strict_right_mono) simp_all
  qed
  also have "\<dots> = 2 powi (53 + e)" by (rule power_int_add [symmetric]) simp
  finally have "ilog2 \<bar>q\<bar> < 53 + e" using \<open>q \<noteq> 0\<close> by (intro ilog2_less) simp_all
  then have "k \<le> e" using assms(3) by (simp add: k_def)
  then obtain n where n: "e = k + int n" using zle_iff_zadd [of k e] by auto
  have "q / 2 powi k = of_int (m * 2 ^ n)"
    using assms(1) by (simp add: n power_int_add)
  then have "rne_rat (q / 2 powi k) = m * 2 ^ n" by (simp only: rne_rat_int)
  then have v: "of_int (rne_rat (q / 2 powi k)) * 2 powi k = q"
    using assms(1) by (simp add: n power_int_add)
  have "\<not> F_TOP \<le> q" "\<not> q \<le> - F_TOP" using assms(4) by auto
  then show ?thesis
    using \<open>q \<noteq> 0\<close> v by (simp add: round64_def Let_def flip: k_def)
qed

lemma round64_0 [simp]: "round64 0 = Fin 0"
  by (simp add: round64_def)

lemma f_int_exact: "\<bar>n\<bar> < 2 ^ 53 \<Longrightarrow> f_int n = Fin (of_int n)"
proof -
  assume n: "\<bar>n\<bar> < 2 ^ 53"
  have "of_int \<bar>n\<bar> < (of_int (2 ^ 53) :: rat)" using n by (simp only: of_int_less_iff)
  then have "\<bar>of_int n\<bar> < (2 powi 53 :: rat)" by simp
  also have "\<dots> \<le> F_TOP" unfolding F_TOP_def by (rule power_int_2_mono) simp
  finally show ?thesis
    unfolding f_int_def using n by (intro round64_exact [where m = n and e = 0]) simp_all
qed

lemma pow2_exact:
  assumes "-1074 \<le> k" "k < 1024"
  shows "round64 (2 powi k) = Fin (2 powi k)"
proof (rule round64_exact [where m = 1 and e = k])
  have "2 powi k < F_TOP" unfolding F_TOP_def by (rule power_int_strict_increasing) (use assms(2) in simp_all)
  then show "\<bar>2 powi k :: rat\<bar> < F_TOP" by (subst abs_of_pos) simp_all
qed (use assms in simp_all)

end
