(* ===== verification/Offload.thy ===== *)
theory Offload
  imports Float64 SfpuStream ModelPack
begin

text \<open>
  The bounded-memory scheduler of \<open>zynq/m4_offload.py\<close>: the affine and range metadata, the packet
  words, and the \<open>Runtime\<close> (operator splitting, affine, dynamic requantisation by vector and by
  columns, LayerNorm with its gain factor, smoothing, projection, attention with the KV cache, the
  step, prefill and generation). The packet backend is an interface (\<open>backend\<close>): the runtime is an
  action on its own record, which holds the backend's state. A matrix is the list of its rows; a
  float is an \<open>f64\<close>. The runtime is modelled without a \<open>capture\<close> callback (the default \<open>None\<close>,
  with which \<open>trace\<close> does nothing).
\<close>

section \<open>Metadata\<close>

fun affine_shift :: "f64 list \<Rightarrow> nat \<Rightarrow> nat" where
  "affine_shift c 0 = 0"
| "affine_shift c (Suc s) =
     (if list_ex (\<lambda>x. fle (Fin (2 ^ 31)) (frint (fmul x (Fin (2 ^ Suc s))))) c then affine_shift c s else Suc s)"

definition affine_parameters :: "numpy \<Rightarrow> f64 list \<Rightarrow> (int list \<times> nat) res" where
  "affine_parameters E c =
     (if list_ex (\<lambda>x. \<not> is_finite x) c \<or> list_ex (\<lambda>x. flt x (Fin 0)) c then Inl ValueError
      else let shift = affine_shift c 31;
               mult = map (\<lambda>x. f_cast E Int64 (frint (fmul x (Fin (2 ^ shift))))) c
           in if list_ex (\<lambda>m. m \<ge> 2 ^ 31) mult \<or> list_ex (\<lambda>(m, x). m = 0 \<and> x \<noteq> Fin 0) (zip mult c)
              then Inl ValueError
              else Inr (map (np_cast Int32) mult, shift))"

definition exponent_for_range :: "numpy \<Rightarrow> f64 list \<Rightarrow> int list res" where
  "exponent_for_range E maximum =
     (if list_ex (\<lambda>x. \<not> is_finite x) maximum \<or> list_ex (\<lambda>x. flt x (Fin 0)) maximum then Inl ValueError
      else Inr (map (\<lambda>x. f_cast E Int32 (fceil (np_log2 E
             (fmax (fdiv (fmul x (Fin 256)) (Fin 32700)) (Fin 1))))) maximum))"

text \<open>Softmax carries the mask in bit 16; the other operations send their planes one after another.\<close>

definition packet_words :: "op \<Rightarrow> int list list \<Rightarrow> int list" where
  "packet_words x planes =
     (if x = SOFTMAX
      then map2 (\<lambda>s v. (np_cast UInt32 (np_cast Int32 s) AND 65535) OR np_cast UInt32 (push_bit 16 (np_cast UInt32 v)))
             (planes ! 0) (planes ! 1)
      else map (\<lambda>v. np_cast UInt32 (np_cast Int32 v)) (concat planes))"

section \<open>Backends and the runtime's state\<close>

record 'b backend =
  be_gemm :: "ndarray \<Rightarrow> ndarray \<Rightarrow> nat \<Rightarrow> ('b, ndarray) act"
  be_sfpu :: "sfpu_descriptor \<Rightarrow> ndarray \<Rightarrow> ('b, int list) act"

text \<open>A cache is indexed by layer, head and position.\<close>

type_synonym 'a cache = "nat \<Rightarrow> nat \<Rightarrow> nat \<Rightarrow> 'a"

record 'b runtime =
  rt_pack :: model_pack
  rt_backend :: 'b
  rt_capacity :: nat
  rt_k :: "int list cache"
  rt_v :: "int list cache"
  rt_k8 :: "int list cache"
  rt_kunits :: "f64 cache"
  rt_length :: nat
  rt_failed :: bool
  rt_counts :: "string \<Rightarrow> int"

abbreviation on_backend :: "('b, 'a) act \<Rightarrow> ('b runtime, 'a) act" where
  "on_backend \<equiv> zoom_res rt_backend (\<lambda>b s. s\<lparr>rt_backend := b\<rparr>)"

definition metadata_count :: "string \<Rightarrow> int \<Rightarrow> ('b runtime, unit) act" where
  "metadata_count key n = modify (\<lambda>s. s\<lparr>rt_counts := (rt_counts s)(key := rt_counts s key + n)\<rparr>)"

text \<open>Construction: \<open>np.empty\<close> leaves the caches' contents open.\<close>

definition Runtime :: "(int list \<Rightarrow> string) \<Rightarrow> pack_files \<Rightarrow> (int list \<Rightarrow> pack_manifest res) \<Rightarrow> 'b \<Rightarrow> nat
    \<Rightarrow> int list cache \<times> int list cache \<times> int list cache \<times> f64 cache \<Rightarrow> 'b runtime res" where
  "Runtime sha files parse be capacity = (\<lambda>(k, v, k8, kunits).
     if \<not> (1 \<le> capacity \<and> capacity \<le> 1024) then Inl ValueError
     else rbind (pf_bytes files ''manifest.json'') (\<lambda>bs.
       if file_sha256 sha bs \<noteq> PACK_SHA then Inl ValueError
       else rbind (parse bs) (\<lambda>m. rbind (ModelPack sha files m CANDIDATE_SHA True) (\<lambda>pack.
         Inr \<lparr>rt_pack = pack, rt_backend = be, rt_capacity = capacity, rt_k = k, rt_v = v, rt_k8 = k8,
              rt_kunits = kunits, rt_length = 0, rt_failed = False, rt_counts = (\<lambda>_. 0)\<rparr>))))"

definition reset :: "('b runtime, unit) act" where
  "reset = modify (\<lambda>s. s\<lparr>rt_length := 0, rt_failed := False\<rparr>)"

definition cache_bytes :: "'b runtime \<Rightarrow> nat" where
  "cache_bytes s = (let cells = 12 * 12 * rt_capacity s * 64
     in cells * 2 + cells * 2 + cells * 1 + 12 * 12 * rt_capacity s * 8)"

section \<open>Operators\<close>

text \<open>\<open>result[start:start + limit] = chunk\<close>: an array of another length is rejected, but one element
  is broadcast.\<close>

definition fill :: "nat \<Rightarrow> int list \<Rightarrow> int list res" where
  "fill n r = (if length r = n then Inr (map (np_cast Int32) r)
     else if length r = 1 then Inr (replicate n (np_cast Int32 (hd r))) else Inl ValueError)"

definition operator_chunk :: "'b backend \<Rightarrow> op \<Rightarrow> int list list \<Rightarrow> int \<Rightarrow> int \<Rightarrow> nat \<Rightarrow> nat
    \<Rightarrow> ('b runtime, int list) act" where
  "operator_chunk B x planes shift multiplier limit start =
     (let chunk = map (\<lambda>p. take limit (drop start p)) planes;
          n = length (chunk ! 0);
          d = SfpuDescriptor (op_code x) (int n) shift multiplier 0
      in bind (on_backend (be_sfpu B d (vec UInt32 (packet_words x chunk)))) (\<lambda>r. lift_res (fill n r)))"

definition op_limit :: "op \<Rightarrow> nat" where
  "op_limit x = (if x = SOFTMAX then 1024 else 3072)"

text \<open>\<open>range(0, length, limit)\<close>.\<close>

definition starts :: "nat \<Rightarrow> nat \<Rightarrow> nat list" where
  "starts n limit = map (\<lambda>i. i * limit) [0..<(n + limit - 1) div limit]"

definition operator :: "'b backend \<Rightarrow> op \<Rightarrow> int list list \<Rightarrow> int \<Rightarrow> int \<Rightarrow> ('b runtime, int list) act" where
  "operator B x planes shift multiplier =
     (let n = length (planes ! 0) in
      if list_ex (\<lambda>p. length p \<noteq> n) planes then raise ValueError
      else if x \<in> {SOFTMAX, LAYERNORM} \<and> n > op_limit x then raise ValueError
      else bind (mapM_act (operator_chunk B x planes shift multiplier (op_limit x)) (starts n (op_limit x)))
             (\<lambda>chunks. ret (concat chunks)))"

definition affine :: "numpy \<Rightarrow> 'b backend \<Rightarrow> int list \<Rightarrow> f64 list \<Rightarrow> int list \<Rightarrow> ('b runtime, int list) act" where
  "affine E B raw coefficients bias =
     bind (lift_res (affine_parameters E coefficients)) (\<lambda>(mult, shift).
       if list_ex (\<lambda>b. b < - (2 ^ 31)) bias \<or> list_ex (\<lambda>b. b \<ge> 2 ^ 31) bias then raise ValueError
       else bind (operator B AFFINE [raw, mult, bias] (int shift) 0) (\<lambda>r. ret (map (np_cast Int16) r)))"

text \<open>\<open>RNE(127 * 2^24 / maximum)\<close>, by quotient and remainder.\<close>

definition requant_multiplier :: "int \<Rightarrow> int" where
  "requant_multiplier maximum =
     (let m = push_bit 24 127 div maximum; remainder = push_bit 24 127 mod maximum
      in m + of_bool (2 * remainder > maximum \<or> (2 * remainder = maximum \<and> odd m)))"

definition requant :: "'b backend \<Rightarrow> int list \<Rightarrow> f64 \<Rightarrow> ('b runtime, int list \<times> f64) act" where
  "requant B raw unit' =
     (let raw = map (np_cast Int32) raw in
      if list_ex (\<lambda>v. v < -32768) raw \<or> list_ex (\<lambda>v. v > 32768) raw then raise ValueError
      else if raw = [] then raise ValueError
      else let maximum = py_max (map abs raw);
               m = (if maximum \<noteq> 0 then requant_multiplier maximum else 0);
               effective = (if maximum \<noteq> 0 then fmul (fdiv (f_int (2 ^ 24)) (f_int m)) unit' else Fin 1)
           in bind (operator B REQUANT8 [raw] 24 m) (\<lambda>r. ret (map (np_cast Int8) r, effective)))"

text \<open>Column \<open>j\<close> of the rows, and the transpose of a matrix of \<open>n\<close> columns.\<close>

definition column :: "'a list list \<Rightarrow> nat \<Rightarrow> 'a list" where
  "column rows j = map (\<lambda>r. r ! j) rows"

definition transp :: "nat \<Rightarrow> 'a list list \<Rightarrow> 'a list list" where
  "transp n rows = map (column rows) [0..<n]"

definition batched_multiplier :: "int \<Rightarrow> int" where
  "batched_multiplier maximum =
     (let denominator = max maximum 1;
          mult = push_bit 24 127 div denominator; remainder = push_bit 24 127 mod denominator
      in if maximum = 0 then 0
         else mult + of_bool (2 * remainder > denominator \<or> (2 * remainder = denominator \<and> mult mod 2 = 1)))"

definition batched_unit :: "f64 \<Rightarrow> int \<Rightarrow> f64" where
  "batched_unit unit' mult =
     (if mult = 0 then Fin 1 else fmul (fdiv (f_int (2 ^ 24)) (f_int (max mult 1))) unit')"

definition requant_columns :: "'b backend \<Rightarrow> int list list \<Rightarrow> f64 \<Rightarrow> ('b runtime, int list list \<times> f64 list) act" where
  "requant_columns B raw unit' =
     (let raw = map (map (np_cast Int32)) raw; n = length raw; columns = (if raw = [] then 0 else length (hd raw)) in
      if \<not> (1 \<le> n \<and> n \<le> 3072) \<or> columns = 0 then raise ValueError
      else if list_ex (list_ex (\<lambda>v. v < -32768)) raw \<or> list_ex (list_ex (\<lambda>v. v > 32768)) raw then raise ValueError
      else if (n * columns + 3071) div 3072 \<ge> columns then
        bind (mapM_act (\<lambda>i. requant B (column raw i) unit') [0..<columns]) (\<lambda>qs.
          ret (transp n (map fst qs), map snd qs))
      else
        let maxima = map (\<lambda>i. py_max (map abs (column raw i))) [0..<columns];
            mult = map batched_multiplier maxima;
            units = map (batched_unit unit') mult;
            plane = concat (replicate n mult)
        in bind (operator B AFFINE [concat raw, plane, replicate (n * columns) 0] 24 0) (\<lambda>result.
           if list_ex (\<lambda>v. v < -127) result \<or> list_ex (\<lambda>v. v > 127) result then raise RuntimeError
           else bseq (metadata_count ''batched_requant_columns'' (int columns))
             (ret (map (\<lambda>i. map (np_cast Int8) (take columns (drop (i * columns) result))) [0..<n], units))))"


section \<open>The layers\<close>

text \<open>Lookups in the pack; the float64 arrays are read as values.\<close>

definition floats :: "ndarray \<Rightarrow> f64 list" where
  "floats a = map f_bits (nd_elems a)"

definition pack_norm :: "string \<Rightarrow> ('b runtime, f64 list \<times> f64 list) act" where
  "pack_norm name = bind (gets rt_pack) (\<lambda>p. bind (lift_res (lookup (mk_norms p) name)) (\<lambda>(gain, bias).
     ret (floats gain, floats bias)))"

definition pack_smoothing :: "string \<Rightarrow> ('b runtime, f64 list) act" where
  "pack_smoothing name = bind (gets rt_pack) (\<lambda>p. bind (lift_res (lookup (mk_smoothing p) name)) (\<lambda>s. ret (floats s)))"

text \<open>The tiles, the static scales, the bias and the columns of a linear map.\<close>

definition pack_linear :: "string \<Rightarrow> ('b runtime, ndarray \<times> f64 list \<times> f64 list \<times> nat) act" where
  "pack_linear name = bind (gets rt_pack) (\<lambda>p. bind (lift_res (lookup (mk_linears p) name))
     (\<lambda>(weight, scale, bias, k, n). ret (weight, floats scale, floats bias, nat n)))"

definition pack_row :: "string \<Rightarrow> nat \<Rightarrow> ('b runtime, int list) act" where
  "pack_row name i = bind (gets rt_pack) (\<lambda>p. bind (lift_res (lookup (mk_arrays p) name)) (\<lambda>a.
     ret (map (at2 a i) [0..<nd_shape a ! 1])))"

text \<open>The power of two that brings the gain into the format. The loop stops by itself: a float is
  below \<open>2 ^ 1024\<close>, and from there on the division raises.\<close>

fun norm_factor :: "nat \<Rightarrow> f64 list \<Rightarrow> int \<Rightarrow> int res" where
  "norm_factor 0 corrected factor = Inl Diverges"
| "norm_factor (Suc fuel) corrected factor =
     (if factor \<ge> 2 ^ 1024 then Inl OverflowError
      else rbind (fmax_list (map (\<lambda>x. fabs (fdiv x (f_int factor))) corrected)) (\<lambda>m.
        if flt (Fin (32767 / 4096)) m then norm_factor fuel corrected (factor * 2) else Inr factor))"

definition row_variance :: "int list \<Rightarrow> int" where
  "row_variance r = int (length r) * (\<Sum>v\<leftarrow>r. v * v) - sum_list r ^ 2"

text \<open>\<open>sqrt((variance + eps) / (variance + eps / 2.0 ** (2 * e)))\<close>.\<close>

definition epsilon_gain :: "int list \<Rightarrow> int \<Rightarrow> f64 res" where
  "epsilon_gain r e =
     (let variance = f_int (row_variance r);
          eps = fmul (fmul (round64 (1 / 100000)) (f_int (256 ^ 2))) (f_int (int (length r) ^ 2))
      in rbind (py_pow2 (2 * e)) (\<lambda>p.
         rbind (py_fdiv eps p) (\<lambda>small.
         rbind (py_fdiv (fadd variance eps) (fadd variance small)) fsqrt)))"

definition norm_row :: "numpy \<Rightarrow> 'b backend \<Rightarrow> f64 list \<Rightarrow> f64 list \<Rightarrow> int list \<Rightarrow> int \<Rightarrow> ('b runtime, int list) act" where
  "norm_row E B gain bias row e =
     bind (lift_res (epsilon_gain row e)) (\<lambda>root.
       let corrected = map (\<lambda>g. fmul g root) gain in
       bind (lift_res (norm_factor 1025 corrected 1)) (\<lambda>factor.
         let g = map (\<lambda>x. f_cast E Int16 (frint (fdiv (fmul x (Fin 4096)) (f_int factor)))) corrected;
             b = map (\<lambda>x. f_cast E Int64 (frint (fmul x (Fin 256)))) bias
         in if list_ex (\<lambda>v. v < -32768) b \<or> list_ex (\<lambda>v. v > 32767) b then raise ValueError
            else bind (if factor = 1 then operator B LAYERNORM [row, g, b] 0 0
                       else bind (operator B LAYERNORM [row, g, replicate (length row) 0] 0 0) (\<lambda>core.
                              affine E B core (replicate (length row) (f_int factor)) b)) (\<lambda>result.
                 bseq (metadata_count ''ln_epsilon_rows'' 1) (ret (map (np_cast Int16) result)))))"

definition norm_rows :: "numpy \<Rightarrow> 'b backend \<Rightarrow> int list list \<Rightarrow> int list \<Rightarrow> string \<Rightarrow> ('b runtime, int list list) act" where
  "norm_rows E B rows exponents name =
     bind (pack_norm name) (\<lambda>(gain, bias).
       mapM_act (\<lambda>(row, e). norm_row E B gain bias row e) (zip rows exponents))"

text \<open>The exponents of the rows that would leave int16, zero elsewhere.\<close>

definition smooth_exponents :: "numpy \<Rightarrow> int list list \<Rightarrow> f64 list \<Rightarrow> int list \<Rightarrow> nat \<Rightarrow> int list res" where
  "smooth_exponents E x coefficients mult shift =
     (let overflow = map (\<lambda>row. list_ex (\<lambda>p. p < -32768 \<or> p > 32767) (rounded_product row mult shift)) x
      in if \<not> list_ex id overflow then Inr (replicate (length x) 0)
         else rbind (rmap (\<lambda>row. fmax_list (map2 (\<lambda>v c. fabs (fmul (f_int v) c)) row coefficients)) x) (\<lambda>maxima.
           rmap (\<lambda>(hit, m). if hit then rbind (exponent_for_range E [fdiv m (Fin 256)]) (\<lambda>es. Inr (hd es))
                            else Inr 0) (zip overflow maxima)))"

definition smooth :: "numpy \<Rightarrow> 'b backend \<Rightarrow> int list list \<Rightarrow> string
    \<Rightarrow> ('b runtime, int list list \<times> int list) act" where
  "smooth E B x name =
     bind (pack_smoothing name) (\<lambda>s.
       let coefficients = map (\<lambda>c. fdiv (Fin 1) c) s in
       bind (lift_res (affine_parameters E coefficients)) (\<lambda>(mult, shift).
       bind (lift_res (smooth_exponents E x coefficients mult shift)) (\<lambda>exponent.
       bind (mapM_act (\<lambda>(row, e). bind (lift_res (py_pow2 e)) (\<lambda>p.
               affine E B row (map (\<lambda>c. fdiv c p) coefficients) (replicate (length row) 0))) (zip x exponent))
         (\<lambda>output. ret (output, exponent)))))"

section \<open>Projections\<close>

text \<open>A matrix as the array a backend takes, and the rows of the array it gives.\<close>

definition matrix :: "dtype \<Rightarrow> nat \<Rightarrow> int list list \<Rightarrow> ndarray" where
  "matrix d columns rows = \<lparr>nd_dtype = d, nd_shape = [length rows, columns], nd_elems = concat rows\<rparr>"

definition rows_list :: "nat \<Rightarrow> nat \<Rightarrow> ndarray \<Rightarrow> int list list" where
  "rows_list m n a = map (\<lambda>i. take n (drop (i * n) (nd_elems a))) [0..<m]"

definition gemm_rows :: "'b backend \<Rightarrow> nat \<Rightarrow> int list list \<Rightarrow> ndarray \<Rightarrow> nat \<Rightarrow> ('b runtime, int list list) act" where
  "gemm_rows B k q tiles n =
     bind (on_backend (be_gemm B (matrix Int8 k q) tiles n)) (\<lambda>a.
       if nd_shape a \<noteq> [length q, n] then raise ValueError else ret (rows_list (length q) n a))"

text \<open>One row of the result: the branch in the row's unit, and the residual brought to it.\<close>

definition project_row :: "numpy \<Rightarrow> 'b backend \<Rightarrow> f64 list \<Rightarrow> (int list \<times> int) option \<Rightarrow> int list \<Rightarrow> f64 list
    \<Rightarrow> int \<Rightarrow> ('b runtime, int list) act" where
  "project_row E B bias residual totals scales exponent =
     bind (lift_res (rbind (py_pow2 exponent) (py_fdiv (Fin 256)))) (\<lambda>invunit.
     bind (affine E B totals (map (\<lambda>s. fmul s invunit) scales)
             (map (\<lambda>b. f_cast E Int64 (frint (fmul b invunit))) bias)) (\<lambda>branch.
       case residual of None \<Rightarrow> ret branch
       | Some (old, old_exp) \<Rightarrow>
         bind (lift_res (py_pow2 (old_exp - exponent))) (\<lambda>p.
         bind (affine E B old (replicate (length bias) p) (replicate (length bias) 0)) (\<lambda>aligned.
         bind (operator B ADD [aligned, branch] 0 0) (\<lambda>r. ret (map (np_cast Int16) r))))))"

text \<open>The largest magnitude of a row: the new branch, and the residual it is added to.\<close>

definition row_range :: "f64 list \<Rightarrow> int list \<Rightarrow> f64 list \<Rightarrow> (int list \<times> int) option \<Rightarrow> f64 res" where
  "row_range scales totals bias residual =
     (let logical = map2 (\<lambda>(s, c) b. fadd (fmul (f_int s) c) b) (zip totals scales) bias
      in case residual of None \<Rightarrow> fmax_list (map fabs logical)
         | Some (old, old_exp) \<Rightarrow>
           fmax_list (map2 (\<lambda>l v. fadd (fabs l) (fabs (fmul (f_int v) (fdiv (np_pow2 old_exp) (Fin 256)))))
                        logical old))"

definition project :: "numpy \<Rightarrow> 'b backend \<Rightarrow> int list list \<Rightarrow> int list option \<Rightarrow> string
    \<Rightarrow> (int list list \<times> int list) option \<Rightarrow> ('b runtime, int list list \<times> int list) act" where
  "project E B x balance name residual =
     (let balance_exp = (case balance of None \<Rightarrow> replicate (length x) 0 | Some e \<Rightarrow> e);
          k = length (hd x) in
      bind (pack_linear name) (\<lambda>(tiles, static_scales, bias, n).
      bind (requant_columns B (transp k x) (Fin (1 / 256))) (\<lambda>(q_columns, units).
      bind (gemm_rows B k (transp (length x) q_columns) tiles n) (\<lambda>totals.
        let scales = map2 (\<lambda>u e. map (\<lambda>c. fmul (fmul u c) (np_pow2 e)) static_scales) units balance_exp;
            old = (case residual of None \<Rightarrow> replicate (length x) None
                   | Some (rows, exps) \<Rightarrow> map Some (zip rows exps))
        in if residual = None \<and> name \<noteq> ''lm_head'' then
             bind (mapM_act (\<lambda>(s, c). affine E B s (map (\<lambda>v. fmul v (Fin 256)) c)
                     (map (\<lambda>b. f_cast E Int64 (frint (fmul b (Fin 256)))) bias)) (zip totals scales)) (\<lambda>output.
               ret (output, []))
           else
             bind (lift_res (rmap (\<lambda>(c, s, r). row_range c s bias r) (zip scales (zip totals old)))) (\<lambda>ranges.
             bind (lift_res (exponent_for_range E ranges)) (\<lambda>exponents.
             bind (mapM_act (\<lambda>(e, c, s, r). project_row E B bias r s c e)
                     (zip exponents (zip scales (zip totals old)))) (\<lambda>output.
               ret (output, exponents))))))))"

section \<open>Attention\<close>

text \<open>The head's 64 features of a row, in the part of the row that starts at \<open>base\<close>.\<close>

definition head_part :: "nat \<Rightarrow> nat \<Rightarrow> int list \<Rightarrow> int list" where
  "head_part base head row = take 64 (drop (base + head * 64) row)"

text \<open>\<open>cache[layer, head, past:past + len(rows)] = rows\<close>.\<close>

definition store :: "nat \<Rightarrow> nat \<Rightarrow> nat \<Rightarrow> 'a list \<Rightarrow> 'a cache \<Rightarrow> 'a cache" where
  "store layer head past rows c = (\<lambda>l h p.
     if l = layer \<and> h = head \<and> past \<le> p \<and> p < past + length rows then rows ! (p - past) else c l h p)"

definition cached :: "'a cache \<Rightarrow> nat \<Rightarrow> nat \<Rightarrow> nat \<Rightarrow> 'a list" where
  "cached c layer head n = map (c layer head) [0..<n]"

text \<open>One query: scores of the causal prefix, softmax, and the weighted sum of the values.\<close>

definition attend :: "numpy \<Rightarrow> 'b backend \<Rightarrow> nat \<Rightarrow> nat \<Rightarrow> nat \<Rightarrow> int list \<Rightarrow> f64 \<Rightarrow> ('b runtime, int list) act" where
  "attend E B layer head n scores qunit =
     bind (gets (\<lambda>s. cached (rt_kunits s) layer head n)) (\<lambda>units.
       let raw = take n scores; coefficients = map (\<lambda>u. fmul (fmul qunit u) (Fin 32)) units in
       bind (lift_res (affine_parameters E coefficients)) (\<lambda>(mult, shift).
         let maximum = py_max (rounded_product raw mult shift) in
         bind (affine E B raw coefficients (replicate n (- maximum))) (\<lambda>centered.
         bind (operator B SOFTMAX [centered, replicate n 1] 0 0) (\<lambda>probability.
         bind (requant B probability (Fin (1 / 32768))) (\<lambda>(p8, punit).
         bind (gets (\<lambda>s. cached (rt_v s) layer head n)) (\<lambda>values.
         bind (requant_columns B values (Fin (1 / 256))) (\<lambda>(value8, vunits).
         bind (lift_res (tile_weights (matrix Int8 64 value8))) (\<lambda>tiles.
         bind (gemm_rows B n [p8] tiles 64) (\<lambda>reduced.
           affine E B (hd reduced) (map (\<lambda>u. fmul (fmul punit u) (Fin 256)) vunits) (replicate 64 0))))))))))"

definition attention_head :: "numpy \<Rightarrow> 'b backend \<Rightarrow> int list list \<Rightarrow> nat \<Rightarrow> nat \<Rightarrow> nat
    \<Rightarrow> ('b runtime, int list list) act" where
  "attention_head E B qkv layer past head =
     (let batch = length qkv; end = past + batch;
          q = map (head_part 0 head) qkv; new_k = map (head_part 768 head) qkv in
      bind (requant_columns B (transp 64 new_k) (Fin (1 / 256))) (\<lambda>(keys, key_units).
      bseq (modify (\<lambda>s. s\<lparr>rt_k8 := store layer head past (transp batch keys) (rt_k8 s),
                          rt_kunits := store layer head past key_units (rt_kunits s)\<rparr>))
     (bind (requant_columns B (transp 64 q) (Fin (1 / 256))) (\<lambda>(query_columns, qunits).
      bind (gets (\<lambda>s. cached (rt_k8 s) layer head end)) (\<lambda>k8.
      bind (lift_res (tile_weights (matrix Int8 end (transp 64 k8)))) (\<lambda>kt.
      bind (gemm_rows B 64 (transp batch query_columns) kt end) (\<lambda>scores_wide.
        mapM_act (\<lambda>i. attend E B layer head (past + i + 1) (scores_wide ! i) (qunits ! i)) [0..<batch])))))))"

definition attention :: "numpy \<Rightarrow> 'b backend \<Rightarrow> int list list \<Rightarrow> nat \<Rightarrow> nat \<Rightarrow> ('b runtime, int list list) act" where
  "attention E B qkv layer past =
     bseq (modify (\<lambda>s. s\<lparr>
             rt_k := fold (\<lambda>h. store layer h past (map (head_part 768 h) qkv)) [0..<12] (rt_k s),
             rt_v := fold (\<lambda>h. store layer h past (map (head_part 1536 h) qkv)) [0..<12] (rt_v s)\<rparr>))
     (bind (mapM_act (attention_head E B qkv layer past) [0..<12]) (\<lambda>context.
        ret (map (\<lambda>i. concat (map (\<lambda>h. context ! h ! i) [0..<12])) [0..<length qkv])))"

section \<open>The step\<close>

definition embed :: "'b backend \<Rightarrow> nat \<Rightarrow> int list \<Rightarrow> ('b runtime, int list list) act" where
  "embed B past tokens =
     mapM_act (\<lambda>(i, token).
       bind (pack_row ''embedding'' (nat token)) (\<lambda>e. bind (pack_row ''position'' (past + i)) (\<lambda>p.
       bind (operator B ADD [e, p] 0 0) (\<lambda>r. ret (map (np_cast Int16) r))))) (enumerate 0 tokens)"

definition block :: "numpy \<Rightarrow> 'b backend \<Rightarrow> nat \<Rightarrow> int list list \<times> int list \<Rightarrow> nat
    \<Rightarrow> ('b runtime, int list list \<times> int list) act" where
  "block E B past = (\<lambda>(x, exponent) layer.
     let p = (\<lambda>op. layer_name layer op) in
     bind (norm_rows E B x exponent (p ''ln_1'')) (\<lambda>n1.
     bind (project E B n1 None (p ''attn.c_attn'') None) (\<lambda>(qkv, _).
     bind (attention E B qkv layer past) (\<lambda>context.
     bind (smooth E B context (p ''attn.c_proj'')) (\<lambda>(sx, se).
     bind (project E B sx (Some se) (p ''attn.c_proj'') (Some (x, exponent))) (\<lambda>(residual, rexp).
     bind (norm_rows E B residual rexp (p ''ln_2'')) (\<lambda>n2.
     bind (project E B n2 None (p ''mlp.c_fc'') None) (\<lambda>(up, _).
     bind (mapM_act (\<lambda>row. bind (operator B GELU [row] 0 0) (\<lambda>r. ret (map (np_cast Int16) r))) up) (\<lambda>gelu.
     bind (smooth E B gelu (p ''mlp.c_proj'')) (\<lambda>(gx, ge).
       project E B gx (Some ge) (p ''mlp.c_proj'') (Some (residual, rexp))))))))))))"

fun foldM_act :: "('a \<Rightarrow> 'c \<Rightarrow> ('s, 'a) act) \<Rightarrow> 'a \<Rightarrow> 'c list \<Rightarrow> ('s, 'a) act" where
  "foldM_act f a [] = ret a"
| "foldM_act f a (x # xs) = bind (f a x) (\<lambda>a'. foldM_act f a' xs)"

definition logits_of :: "numpy \<Rightarrow> 'b backend \<Rightarrow> bool \<Rightarrow> int list list \<times> int list \<Rightarrow> ('b runtime, f64 list list) act" where
  "logits_of E B all_logits = (\<lambda>(x, exponent).
     bind (norm_rows E B x exponent ''ln_f'') (\<lambda>normed.
     bind (project E B (if all_logits then normed else [last normed]) None ''lm_head'' None) (\<lambda>(payload, le).
       ret (map2 (\<lambda>row e. map (\<lambda>v. fmul (f_int v) (fdiv (np_pow2 e) (Fin 256))) row) payload le))))"

text \<open>The body of the \<open>try\<close> block.\<close>

definition forward :: "numpy \<Rightarrow> 'b backend \<Rightarrow> int list \<Rightarrow> bool \<Rightarrow> bool \<Rightarrow> ('b runtime, f64 list list option) act" where
  "forward E B tokens all_logits emit_logits =
     bind (gets rt_length) (\<lambda>past.
     bind (embed B past tokens) (\<lambda>x.
     bind (foldM_act (block E B past) (x, replicate (length tokens) 0) [0..<12]) (\<lambda>xe.
     bind (if emit_logits then bind (logits_of E B all_logits xe) (\<lambda>l. ret (Some l)) else ret None) (\<lambda>result.
     bseq (modify (\<lambda>s. s\<lparr>rt_length := rt_length s + length tokens\<rparr>)) (ret result)))))"

definition valid_tokens :: "ndarray \<Rightarrow> bool" where
  "valid_tokens t \<longleftrightarrow> ndim t = 1 \<and> 1 \<le> nd_shape t ! 0 \<and> np_integer (nd_dtype t)
     \<and> \<not> list_ex (\<lambda>v. v < 0) (nd_elems t) \<and> \<not> list_ex (\<lambda>v. v \<ge> 50257) (nd_elems t)"

definition step :: "numpy \<Rightarrow> 'b backend \<Rightarrow> ndarray \<Rightarrow> bool \<Rightarrow> bool \<Rightarrow> ('b runtime, f64 list list option) act" where
  "step E B tokens all_logits emit_logits =
     bind (gets (\<lambda>s. \<not> valid_tokens tokens \<or> length (nd_elems tokens) > 16
                   \<or> rt_length s + length (nd_elems tokens) > rt_capacity s)) (\<lambda>bad.
     bseq (require (\<not> bad) ValueError)
     (bind (gets rt_failed) (\<lambda>failed.
     bseq (require (\<not> failed) RuntimeError)
       (on_error (forward E B (nd_elems tokens) all_logits emit_logits) (\<lambda>s. s\<lparr>rt_failed := True\<rparr>)))))"

section \<open>Prefill and generation\<close>

definition prefill :: "numpy \<Rightarrow> 'b backend \<Rightarrow> ndarray \<Rightarrow> nat \<Rightarrow> ('b runtime, f64 list list option) act" where
  "prefill E B tokens blk =
     bind (gets (\<lambda>s. \<not> valid_tokens tokens \<or> \<not> (1 \<le> blk \<and> blk \<le> 16)
                   \<or> rt_length s + length (nd_elems tokens) > rt_capacity s)) (\<lambda>bad.
     bseq (require (\<not> bad) ValueError)
       (let n = length (nd_elems tokens) in
        foldM_act (\<lambda>_ start. step E B (vec (nd_dtype tokens) (take blk (drop start (nd_elems tokens)))) False
                     (start + blk \<ge> n)) None (starts n blk)))"

text \<open>\<open>argmax\<close>: the first position of the largest value; a \<open>NaN\<close> counts as the largest.\<close>

fun argmax_from :: "f64 list \<Rightarrow> nat \<Rightarrow> nat \<Rightarrow> f64 \<Rightarrow> nat" where
  "argmax_from [] i best m = best"
| "argmax_from (x # xs) i best m =
     (if m \<noteq> NaN \<and> (x = NaN \<or> flt m x) then argmax_from xs (i + 1) i x else argmax_from xs (i + 1) best m)"

definition argmax :: "f64 list \<Rightarrow> nat res" where
  "argmax xs = (case xs of [] \<Rightarrow> Inl ValueError | x # r \<Rightarrow> Inr (argmax_from r 1 0 x))"

text \<open>\<open>int(logits[-1].argmax())\<close>.\<close>

definition next_token :: "f64 list list option \<Rightarrow> nat res" where
  "next_token logits = (case logits of None \<Rightarrow> Inl TypeError
     | Some rows \<Rightarrow> if rows = [] then Inl IndexError else argmax (last rows))"

fun decode :: "numpy \<Rightarrow> 'b backend \<Rightarrow> nat \<Rightarrow> f64 list list option \<Rightarrow> ('b runtime, nat list) act" where
  "decode E B 0 logits = ret []"
| "decode E B (Suc left) logits =
     bind (lift_res (next_token logits)) (\<lambda>token.
     bind (if left = 0 then ret logits else step E B (vec Int64 [int token]) False True) (\<lambda>logits'.
     bind (decode E B left logits') (\<lambda>rest. ret (token # rest))))"

definition generate :: "numpy \<Rightarrow> 'b backend \<Rightarrow> ndarray \<Rightarrow> nat \<Rightarrow> ('b runtime, nat list) act" where
  "generate E B tokens count =
     bind (gets (\<lambda>s. count < 1 \<or> length (nd_elems tokens) + count > rt_capacity s)) (\<lambda>bad.
     bseq (require (\<not> bad) ValueError)
     (bseq reset
     (bind (prefill E B tokens 16) (\<lambda>logits. decode E B count logits))))"

end
