(* ===== verification/OffloadLaws.thy ===== *)
theory OffloadLaws
  imports Offload
begin

text \<open>
  Laws of the runtime that hold on every backend: the parts of a forward pass keep the session's
  length, latch, capacity, pack and the cached prefix (\<open>same_session\<close>); the outcomes of a step, of
  prefill and of generation.
\<close>

section \<open>What the parts of a pass keep\<close>

definition same_prefix :: "nat \<Rightarrow> 'b runtime \<Rightarrow> 'b runtime \<Rightarrow> bool" where
  "same_prefix past s t \<longleftrightarrow> (\<forall>l h p. p < past \<longrightarrow>
     rt_k t l h p = rt_k s l h p \<and> rt_v t l h p = rt_v s l h p
     \<and> rt_k8 t l h p = rt_k8 s l h p \<and> rt_kunits t l h p = rt_kunits s l h p)"

definition same_session :: "nat \<Rightarrow> 'b runtime \<Rightarrow> 'b runtime \<Rightarrow> bool" where
  "same_session past s t \<longleftrightarrow> rt_length t = rt_length s \<and> rt_failed t = rt_failed s
     \<and> rt_capacity t = rt_capacity s \<and> rt_pack t = rt_pack s \<and> same_prefix past s t"

lemma same_prefix_refl [simp]: "same_prefix past s s"
  by (simp add: same_prefix_def)

lemma same_prefix_trans: "same_prefix p s t \<Longrightarrow> same_prefix q t u \<Longrightarrow> p \<le> q \<Longrightarrow> same_prefix p s u"
  unfolding same_prefix_def by (metis order_less_le_trans)

lemma same_session_refl [simp]: "same_session past s s"
  by (simp add: same_session_def)

lemma same_session_step:
  "same_session past s t \<Longrightarrow> same_session past s (t\<lparr>rt_backend := b\<rparr>)"
  "same_session past s t \<Longrightarrow> same_session past s (t\<lparr>rt_counts := c\<rparr>)"
  by (simp_all add: same_session_def same_prefix_def)

lemma store_below: "p < past \<Longrightarrow> store layer head past rows c l h p = c l h p"
  by (simp add: store_def)

lemma fold_store_below:
  "p < past \<Longrightarrow> fold (\<lambda>h. store layer h past (f h)) hs c l h' p = c l h' p"
  by (induction hs arbitrary: c) (simp_all add: store_below)

named_theorems session_intros "parts of a pass that keep the session"

lemma keeps_case_prod [session_intros]: "(\<And>x y. keeps I (f x y)) \<Longrightarrow> keeps I (case p of (x, y) \<Rightarrow> f x y)"
  by (simp split: prod.split)

lemma keeps_case_option [session_intros]:
  "keeps I m \<Longrightarrow> (\<And>x. keeps I (f x)) \<Longrightarrow> keeps I (case p of None \<Rightarrow> m | Some x \<Rightarrow> f x)"
  by (simp split: option.split)

lemma keeps_Let [session_intros]: "(\<And>x. keeps I (f x)) \<Longrightarrow> keeps I (let x = v in f x)"
  by simp

lemma keeps_foldM [session_intros]: "(\<And>a x. keeps I (f a x)) \<Longrightarrow> keeps I (foldM_act f a xs)"
  by (induction xs arbitrary: a) (auto intro!: keeps_intros)

lemma outcome_Pair: "outcome (Pair (Inr x)) s Q E = Q x s"
  by (simp add: outcome_def)

lemma keeps_backend [session_intros]: "keeps (same_session past s) (on_backend m)"
  by (rule keeps_zoom_res) (rule same_session_step)

lemma keeps_count [session_intros]: "keeps (same_session past s) (metadata_count key n)"
  unfolding metadata_count_def by (rule keeps_modify) (rule same_session_step)

lemma keeps_operator [session_intros]: "keeps (same_session past s) (operator B x planes shift m)"
  unfolding operator_def operator_chunk_def by (intro session_intros keeps_intros)

lemma keeps_affine [session_intros]: "keeps (same_session past s) (affine E B raw c b)"
  unfolding affine_def by (intro session_intros keeps_intros)

lemma keeps_requant [session_intros]: "keeps (same_session past s) (requant B raw u)"
  unfolding requant_def by (intro session_intros keeps_intros)

lemma keeps_requant_columns [session_intros]: "keeps (same_session past s) (requant_columns B raw u)"
  unfolding requant_columns_def by (intro session_intros keeps_intros)

lemma keeps_pack [session_intros]:
  "keeps (same_session past s) (pack_norm name)" "keeps (same_session past s) (pack_smoothing name)"
  "keeps (same_session past s) (pack_linear name)" "keeps (same_session past s) (pack_row name i)"
  unfolding pack_norm_def pack_smoothing_def pack_linear_def pack_row_def
  by (intro session_intros keeps_intros)+

lemma keeps_norm [session_intros]: "keeps (same_session past s) (norm_rows E B rows es name)"
  unfolding norm_rows_def norm_row_def by (intro session_intros keeps_intros)

lemma keeps_smooth [session_intros]: "keeps (same_session past s) (smooth E B x name)"
  unfolding smooth_def by (intro session_intros keeps_intros)

lemma keeps_gemm_rows [session_intros]: "keeps (same_session past s) (gemm_rows B k q tiles n)"
  unfolding gemm_rows_def by (intro session_intros keeps_intros)

lemma keeps_project [session_intros]: "keeps (same_session past s) (project E B x bal name res)"
  unfolding project_def project_row_def by (intro session_intros keeps_intros)

lemma keeps_attend [session_intros]: "keeps (same_session past s) (attend E B layer head n sc u)"
  unfolding attend_def by (intro session_intros keeps_intros)

lemma keeps_attention [session_intros]: "keeps (same_session past s) (attention E B qkv layer past)"
proof -
  have "keeps (same_session past s) (attention_head E B qkv layer past head)" for head
    unfolding attention_head_def
    by (intro session_intros keeps_intros) (auto simp: same_session_def same_prefix_def store_below)
  then show ?thesis
    unfolding attention_def
    by (intro session_intros keeps_intros) (auto simp: same_session_def same_prefix_def fold_store_below)
qed

lemma keeps_block [session_intros]: "keeps (same_session past s) (block E B past xe layer)"
  by (cases xe) (auto simp: block_def intro!: session_intros keeps_intros)

lemma keeps_embed [session_intros]: "keeps (same_session past s) (embed B past tokens)"
  unfolding embed_def by (intro session_intros keeps_intros)

lemma keeps_logits [session_intros]: "keeps (same_session past s) (logits_of E B all xe)"
  unfolding logits_of_def by (intro session_intros keeps_intros)

section \<open>Outcomes of a pass and of a step\<close>

text \<open>The session after \<open>n\<close> more tokens; and after a failed request.\<close>

definition advanced :: "nat \<Rightarrow> 'b runtime \<Rightarrow> 'b runtime \<Rightarrow> bool" where
  "advanced n s t \<longleftrightarrow> rt_length t = rt_length s + n \<and> rt_failed t = rt_failed s
     \<and> rt_capacity t = rt_capacity s \<and> rt_pack t = rt_pack s \<and> same_prefix (rt_length s) s t"

lemma forward_outcome:
  "outcome (forward E B tokens all emit) s
     (\<lambda>r t. advanced (length tokens) s t \<and> (r \<noteq> None \<longleftrightarrow> emit)) (\<lambda>e t. same_session (rt_length s) s t)"
proof -
  define I where "I = same_session (rt_length s) s"
  have s: "I s" by (simp add: I_def)
  have k1: "keeps I (embed B (rt_length s) tokens)"
    and k2: "keeps I (foldM_act (block E B (rt_length s)) xe [0..<12])"
    and k3: "keeps I (logits_of E B all xe)" for xe
    by (simp_all add: I_def keeps_embed keeps_foldM keeps_block keeps_logits)
  have emitted: "outcome (if emit then bind (logits_of E B all xe) (\<lambda>l. ret (Some l)) else ret None) t
      (\<lambda>r u. I u \<and> (r \<noteq> None \<longleftrightarrow> emit)) (\<lambda>_ u. I u)" if "I t" for xe t
    using keeps_outcome [OF k3 that] that
    by (cases emit) (auto simp: outcome_bind outcome_ret elim: outcome_mono)
  have finish: "advanced (length tokens) s (u\<lparr>rt_length := rt_length u + length tokens\<rparr>)" if "I u" for u
    using that by (simp add: I_def advanced_def same_session_def same_prefix_def)
  show ?thesis
    unfolding forward_def outcome_bind outcome_gets outcome_bseq outcome_modify outcome_ret
    unfolding I_def [symmetric]
    apply (rule outcome_mono [OF keeps_outcome [OF k1 s]])
     apply (rule outcome_mono [OF keeps_outcome [OF k2]], assumption)
      apply (rule outcome_mono [OF emitted], assumption)
    by (auto simp: finish)
qed

definition refused :: "ndarray \<Rightarrow> 'b runtime \<Rightarrow> bool" where
  "refused tokens s \<longleftrightarrow> \<not> valid_tokens tokens \<or> length (nd_elems tokens) > 16
     \<or> rt_length s + length (nd_elems tokens) > rt_capacity s"

lemma step_outcome:
  "outcome (step E B tokens all emit) s
     (\<lambda>r t. \<not> refused tokens s \<and> \<not> rt_failed s \<and> advanced (length (nd_elems tokens)) s t \<and> (r \<noteq> None \<longleftrightarrow> emit))
     (\<lambda>e t. (refused tokens s \<and> e = ValueError \<and> t = s)
          \<or> (\<not> refused tokens s \<and> rt_failed s \<and> e = RuntimeError \<and> t = s)
          \<or> (\<not> refused tokens s \<and> \<not> rt_failed s \<and> rt_failed t \<and> rt_length t = rt_length s
              \<and> rt_capacity t = rt_capacity s \<and> rt_pack t = rt_pack s \<and> same_prefix (rt_length s) s t))"
  unfolding step_def outcome_bind outcome_gets outcome_bseq outcome_require outcome_on_error
  by (auto simp: refused_def same_session_def same_prefix_def intro!: outcome_mono [OF forward_outcome])


section \<open>Prefill\<close>

lemma starts_Suc: "0 < blk \<Longrightarrow> starts n blk = map (\<lambda>i. i * blk) [0..<(n + blk - 1) div blk]"
  by (simp add: starts_def)

lemma valid_chunk:
  assumes "valid_tokens tokens" "nd_wf tokens" "start < length (nd_elems tokens)" "0 < blk"
  shows "valid_tokens (vec (nd_dtype tokens) (take blk (drop start (nd_elems tokens))))"
    and "nd_elems (vec (nd_dtype tokens) (take blk (drop start (nd_elems tokens)))) = take blk (drop start (nd_elems tokens))"
proof -
  have w: "list_all (in_dtype (nd_dtype tokens)) (take blk (drop start (nd_elems tokens)))"
    using assms(2) by (auto simp: nd_wf_def list_all_iff dest!: in_set_takeD in_set_dropD)
  then show e: "nd_elems (vec (nd_dtype tokens) (take blk (drop start (nd_elems tokens)))) = take blk (drop start (nd_elems tokens))"
    by (simp add: map_np_cast_self)
  show "valid_tokens (vec (nd_dtype tokens) (take blk (drop start (nd_elems tokens))))"
    using assms(1,3,4) unfolding valid_tokens_def e
    by (auto simp: list_ex_iff dest!: in_set_takeD in_set_dropD)
qed

lemma valid_tokens_length: "valid_tokens t \<Longrightarrow> nd_wf t \<Longrightarrow> 1 \<le> length (nd_elems t)"
  by (auto simp: valid_tokens_def nd_wf_def length_Suc_conv numeral_eq_Suc)

lemma advanced_trans: "advanced m s t \<Longrightarrow> advanced n t u \<Longrightarrow> advanced (m + n) s u"
  by (auto simp: advanced_def intro: same_prefix_trans)

lemma advanced_0 [simp]: "advanced 0 s s"
  by (simp add: advanced_def)

text \<open>Every failed request leaves the session as it was, up to the latch and rows beyond the prefix.\<close>

definition failed_session :: "'b runtime \<Rightarrow> 'b runtime \<Rightarrow> bool" where
  "failed_session s t \<longleftrightarrow> rt_capacity t = rt_capacity s \<and> rt_pack t = rt_pack s
     \<and> rt_length s \<le> rt_length t \<and> rt_length t \<le> max (rt_length s) (rt_capacity s)
     \<and> same_prefix (rt_length s) s t"

lemma failed_session_refl [simp]: "failed_session s s"
  by (simp add: failed_session_def)

lemma prefill_blocks:
  fixes s :: "'b runtime"
  assumes tok: "valid_tokens tokens" "nd_wf tokens" and b: "1 \<le> blk" "blk \<le> 16"
    and n: "n = length (nd_elems tokens)" and cap: "rt_length s + n \<le> rt_capacity s"
    and k: "k + j = (n + blk - 1) div blk" and adv: "advanced (min n (k * blk)) s t" "\<not> rt_failed s"
  shows "outcome (foldM_act (\<lambda>_ start. step E B (vec (nd_dtype tokens) (take blk (drop start (nd_elems tokens)))) False
            (start + blk \<ge> n)) r (map (\<lambda>i. i * blk) [k..<k + j])) t
     (\<lambda>r' u. advanced n s u \<and> (j \<noteq> 0 \<longrightarrow> r' \<noteq> None)) (\<lambda>e u. failed_session s u \<and> rt_failed u)"
  using k adv
proof (induction j arbitrary: k r t)
  case 0
  have "n \<le> k * blk"
  proof -
    have "n + blk - 1 < (k + 1) * blk" using 0(1) b by (metis Suc_eq_plus1 add.right_neutral dividend_less_div_times less_le_trans mult.commute mult_Suc_right zero_less_one)
    then show ?thesis by simp
  qed
  then show ?case using 0 by (simp add: outcome_ret outcome_Pair min_def)
next
  case (Suc j)
  define c where "c = vec (nd_dtype tokens) (take blk (drop (k * blk) (nd_elems tokens)))"
  have kn: "k * blk < n"
  proof -
    have "k + 1 \<le> (n + blk - 1) div blk" using Suc.prems(1) by simp
    then have "(k + 1) * blk \<le> n + blk - 1" using b by (simp add: less_eq_div_iff_mult_less_eq)
    then show ?thesis using b by simp
  qed
  have c: "valid_tokens c" "nd_elems c = take blk (drop (k * blk) (nd_elems tokens))"
    unfolding c_def by (rule valid_chunk [OF tok]; use kn n b in simp)+
  have len: "length (nd_elems c) = min n ((k + 1) * blk) - min n (k * blk)"
    using kn n unfolding c(2) by (simp add: min_def) arith
  have t: "rt_length t = rt_length s + k * blk" "rt_capacity t = rt_capacity s" "\<not> rt_failed t"
    using Suc.prems(2,3) kn by (simp_all add: advanced_def min_def)
  have ok: "\<not> refused c t"
    using c(1) b kn n cap unfolding refused_def c(2) t by (simp add: min_def) arith
  have list: "map (\<lambda>i. i * blk) [k..<k + Suc j] = k * blk # map (\<lambda>i. i * blk) [k + 1..<(k + 1) + j]"
    by (simp add: upt_conv_Cons)
  have last: "j = 0 \<Longrightarrow> n \<le> k * blk + blk"
  proof -
    assume "j = 0"
    then have "(n + blk - 1) div blk = k + 1" using Suc.prems(1) by simp
    then have "n + blk - 1 < (k + 2) * blk" using b by (metis Suc_eq_plus1 add_2_eq_Suc' dividend_less_div_times less_le_trans mult.commute mult_Suc_right zero_less_one)
    then show "n \<le> k * blk + blk" by (simp add: algebra_simps)
  qed
  have rest: "outcome (foldM_act (\<lambda>_ start. step E B (vec (nd_dtype tokens) (take blk (drop start (nd_elems tokens)))) False
            (start + blk \<ge> n)) r' (map (\<lambda>i. i * blk) [k + 1..<(k + 1) + j])) u
     (\<lambda>r' u. advanced n s u \<and> (Suc j \<noteq> 0 \<longrightarrow> r' \<noteq> None)) (\<lambda>e u. failed_session s u \<and> rt_failed u)"
    if "advanced (length (nd_elems c)) t u" "r' \<noteq> None \<longleftrightarrow> n \<le> k * blk + blk" for r' u
  proof -
    have "advanced (min n ((k + 1) * blk)) s u"
      using advanced_trans [OF Suc.prems(2) that(1)] kn by (simp add: len)
    then show ?thesis
      using Suc.IH [of "k + 1" u r'] Suc.prems(1,3) last that(2)
      by (cases "j = 0") (auto simp: outcome_ret elim: outcome_mono)
  qed
  show ?case
    unfolding list foldM_act.simps outcome_bind c_def [symmetric]
  proof (rule outcome_mono [OF step_outcome], goal_cases)
    case (1 r' u)
    then show ?case by (intro rest) auto
  next
    case (2 e u)
    have p: "same_prefix (rt_length s) s t" "rt_pack t = rt_pack s" using Suc.prems(2) by (simp_all add: advanced_def)
    from 2 ok t(3) have u: "rt_failed u" "rt_length u = rt_length t" "rt_capacity u = rt_capacity t"
      "rt_pack u = rt_pack t" "same_prefix (rt_length t) t u" by auto
    have "same_prefix (rt_length s) s u" by (rule same_prefix_trans [OF p(1) u(5)]) (simp add: t)
    then show ?case using u p t kn cap by (simp add: failed_session_def)
  qed
qed

lemma prefill_outcome:
  assumes "nd_wf tokens"
  shows "outcome (prefill E B tokens blk) s
     (\<lambda>r t. \<not> rt_failed s \<and> advanced (length (nd_elems tokens)) s t \<and> r \<noteq> None)
     (\<lambda>e t. failed_session s t)"
proof (cases "\<not> valid_tokens tokens \<or> \<not> (1 \<le> blk \<and> blk \<le> 16) \<or> rt_length s + length (nd_elems tokens) > rt_capacity s")
  case True
  then show ?thesis by (auto simp: prefill_def outcome_bind outcome_gets outcome_bseq outcome_require)
next
  case False
  define n where "n = length (nd_elems tokens)"
  define j where "j = (n + blk - 1) div blk"
  have n: "1 \<le> n" using False assms valid_tokens_length by (auto simp: n_def)
  have j: "j \<noteq> 0" using n False by (simp add: j_def div_eq_0_iff)
  have st: "starts n blk = map (\<lambda>i. i * blk) [0..<j]" by (simp only: starts_def j_def)
  show ?thesis
  proof (cases "rt_failed s")
    case True
    have st1: "starts n blk = 0 # map (\<lambda>i. i * blk) [1..<j]"
      using j by (simp add: st upt_conv_Cons)
    have none: "outcome (step E B tk al em) s (\<lambda>_ _. False) (\<lambda>e t. t = s)" for tk al em
      by (rule outcome_mono [OF step_outcome]) (use True in auto)
    show ?thesis
      using False unfolding prefill_def Let_def outcome_bind outcome_gets outcome_bseq outcome_require n_def [symmetric]
      by (auto simp: st1 outcome_bind intro!: outcome_mono [OF none])
  next
    case nf: False
    have "outcome (foldM_act (\<lambda>_ start. step E B (vec (nd_dtype tokens) (take blk (drop start (nd_elems tokens)))) False
            (start + blk \<ge> n)) None (map (\<lambda>i. i * blk) [0..<0 + j])) s
     (\<lambda>r' u. advanced n s u \<and> (j \<noteq> 0 \<longrightarrow> r' \<noteq> None)) (\<lambda>e u. failed_session s u \<and> rt_failed u)"
      by (rule prefill_blocks) (use False assms nf in \<open>auto simp: n_def j_def\<close>)
    then show ?thesis
      using False nf j unfolding prefill_def Let_def outcome_bind outcome_gets outcome_bseq outcome_require n_def [symmetric]
      by (auto simp: st elim!: outcome_mono)
  qed
qed

section \<open>Generation\<close>

lemma decode_outcome:
  fixes s :: "'b runtime"
  assumes "\<not> rt_failed s" "rt_length s + n \<le> rt_capacity s + 1"
  shows "outcome (decode E B n logits) s
     (\<lambda>ts t. length ts = n \<and> advanced (n - 1) s t) (\<lambda>e t. failed_session s t)"
  using assms
proof (induction n arbitrary: s logits)
  case (Suc n)
  have again: "outcome (bind (decode E B n l) (\<lambda>rest. ret (tok # rest))) u
      (\<lambda>ts t. length ts = Suc n \<and> advanced (Suc n - 1) s t) (\<lambda>e t. failed_session s t)"
    if "advanced (if n = 0 then 0 else 1) s u" for l tok u
  proof -
    have "outcome (decode E B n l) u (\<lambda>ts t. length ts = n \<and> advanced (n - 1) u t) (\<lambda>e t. failed_session u t)"
      by (rule Suc.IH) (use that Suc.prems in \<open>auto simp: advanced_def split: if_splits\<close>)
    then show ?thesis
      unfolding outcome_bind outcome_ret
      by (rule outcome_mono)
         (use that Suc.prems in \<open>auto simp: advanced_def failed_session_def split: if_splits intro: same_prefix_trans\<close>)
  qed
  have one: "nd_elems (vec Int64 [int tok]) = [np_cast Int64 (int tok)]" for tok by simp
  have pick: "outcome (if n = 0 then ret logits else step E B (vec Int64 [int tok]) False True) s
     (\<lambda>l u. advanced (if n = 0 then 0 else 1) s u) (\<lambda>e t. failed_session s t)" for tok
    by (cases "n = 0")
       (auto simp: outcome_ret failed_session_def intro!: outcome_mono [OF step_outcome])
  have turn: "outcome (bind (if n = 0 then ret logits else step E B (vec Int64 [int tok]) False True)
      (\<lambda>l. bind (decode E B n l) (\<lambda>rest. ret (tok # rest)))) s
      (\<lambda>ts t. length ts = Suc n \<and> advanced (Suc n - 1) s t) (\<lambda>e t. failed_session s t)" for tok
    unfolding outcome_bind [of "if n = 0 then _ else _"] by (rule outcome_mono [OF pick]) (rule again)
  show ?case
    unfolding decode.simps outcome_bind [of "lift_res _"] outcome_lift
    using turn by (auto split: sum.split)
qed (simp add: outcome_ret outcome_Pair)

lemma generate_outcome:
  assumes "nd_wf tokens"
  shows "outcome (generate E B tokens count) s
     (\<lambda>ts t. 1 \<le> count \<and> length (nd_elems tokens) + count \<le> rt_capacity s
        \<and> length ts = count \<and> \<not> rt_failed t \<and> rt_capacity t = rt_capacity s \<and> rt_pack t = rt_pack s
        \<and> rt_length t = length (nd_elems tokens) + count - 1 \<and> rt_length t < rt_capacity t)
     (\<lambda>e t. if count < 1 \<or> rt_capacity s < length (nd_elems tokens) + count then e = ValueError \<and> t = s
        else rt_capacity t = rt_capacity s \<and> rt_pack t = rt_pack s \<and> rt_length t \<le> rt_capacity t)"
proof (cases "count < 1 \<or> length (nd_elems tokens) + count > rt_capacity s")
  case True
  then show ?thesis by (auto simp: generate_def outcome_bind outcome_gets outcome_bseq outcome_require)
next
  case False
  define s0 where "s0 = s\<lparr>rt_length := 0, rt_failed := False\<rparr>"
  have s0: "rt_length s0 = 0" "\<not> rt_failed s0" "rt_capacity s0 = rt_capacity s" "rt_pack s0 = rt_pack s"
    by (simp_all add: s0_def)
  show ?thesis
    using False
    unfolding generate_def reset_def outcome_bind outcome_gets outcome_bseq outcome_require outcome_modify s0_def [symmetric]
    by (auto intro!: outcome_mono [OF prefill_outcome [OF assms]] outcome_mono [OF decode_outcome]
        simp: advanced_def failed_session_def s0 neq_Nil_conv)
qed

section \<open>The gain factor\<close>

lemma norm_factor_total: "factor = 2 ^ (1025 - Suc n) \<Longrightarrow> n \<le> 1024 \<Longrightarrow> norm_factor (Suc n) c factor \<noteq> Inl Diverges"
proof (induction n arbitrary: factor)
  case 0
  then show ?case by simp
next
  case (Suc n)
  have "1025 - Suc n = Suc (1025 - Suc (Suc n))" using Suc.prems by simp
  then have "factor * 2 = 2 ^ (1025 - Suc n)"
    using Suc.prems by (simp del: diff_Suc_Suc)
  then have "norm_factor (Suc n) c (factor * 2) \<noteq> Inl Diverges" using Suc by simp
  moreover have "fmax_list xs \<noteq> Inl Diverges" for xs by (cases xs) simp_all
  ultimately show ?case by (auto simp: rbind_Inl_iff simp del: norm_factor.simps(2) simp: norm_factor.simps(2) [of "Suc n"])
qed

end
