(* ===== verification/CpuKernels.thy ===== *)
theory CpuKernels
  imports SfpuStream ModelPack
begin

text \<open>
  The native CPU operators: the C kernels \<open>zynq/m4_cpu_gemm.c\<close> (tiled int8 product) and
  \<open>zynq/m4_cpu_sfpu.c\<close> (the seven packet operations), and their checked callers
  \<open>ref/m4_cpu.py\<close> and \<open>ref/m4_cpu_sfpu.py\<close>. Unsigned 64-bit arithmetic is written out (\<open>u64\<close>) where
  it can wrap, in the comparison of a square with the 80-bit radicand. The seed of the root search
  (\<open>sqrtl\<close>, floating point) is a parameter; a loop that might not end is an option.
\<close>

section \<open>The matrix kernel\<close>

text \<open>The accumulator of one column of a tile, one \<open>int32\<close> addition at a time.\<close>

definition tile_sum :: "int list \<Rightarrow> int list \<Rightarrow> nat \<Rightarrow> nat \<Rightarrow> nat \<Rightarrow> nat \<Rightarrow> int" where
  "tile_sum a b k t row col =
     fold (\<lambda>j total. np_cast Int32 (total + a ! (row * k + j) * b ! (t * k * 16 + j * 16 + col))) [0..<k] 0"

text \<open>Element \<open>row * n + t * 16 + col\<close> of the output receives the sum of its tile and column.\<close>

definition pa_m4_gemm :: "int list \<Rightarrow> int list \<Rightarrow> nat \<Rightarrow> nat \<Rightarrow> nat \<Rightarrow> int + int list" where
  "pa_m4_gemm a b m k n =
     (if m < 1 \<or> m > 16 \<or> k < 1 \<or> k > 3072 \<or> n < 1 \<or> n > 50257 then Inl (-1)
      else Inr (rows_of m n (\<lambda>row j. tile_sum a b k (j div 16) row (j mod 16))))"

definition CpuGemm :: "ndarray \<Rightarrow> ndarray \<Rightarrow> nat \<Rightarrow> ndarray res" where
  "CpuGemm a tiles n =
     (if nd_dtype a \<noteq> Int8 \<or> ndim a \<noteq> 2 then Inl ValueError
      else let m = nd_shape a ! 0; k = nd_shape a ! 1 in
        if \<not> (1 \<le> m \<and> m \<le> 16) \<or> \<not> (1 \<le> k \<and> k \<le> 3072) \<or> \<not> (1 \<le> n \<and> n \<le> 50257) then Inl ValueError
        else if nd_dtype tiles \<noteq> Int8 \<or> nd_shape tiles \<noteq> [(n + 15) div 16, k, 16] then Inl ValueError
        else case pa_m4_gemm (nd_elems a) (nd_elems tiles) m k n of
          Inl status \<Rightarrow> Inl RuntimeError
        | Inr c \<Rightarrow> Inr \<lparr>nd_dtype = Int32, nd_shape = [m, n], nd_elems = c\<rparr>)"

section \<open>The packet kernel\<close>

definition uround :: "int \<Rightarrow> int \<Rightarrow> int" where
  "uround v denominator =
     (let q = v div denominator; r = v mod denominator
      in q + of_bool (2 * r > denominator \<or> (2 * r = denominator \<and> q AND 1 \<noteq> 0)))"

definition sround :: "int \<Rightarrow> int \<Rightarrow> int" where
  "sround v denominator =
     (let rounded = uround (if v < 0 then - v else v) denominator in if v < 0 then - rounded else rounded)"

definition u64 :: "int \<Rightarrow> int" where
  "u64 x = take_bit 64 x"

definition square_compare :: "int \<Rightarrow> int \<Rightarrow> int \<Rightarrow> int" where
  "square_compare root hi lo =
     (let a = root AND 0xffffffff; b = drop_bit 32 root;
          low = u64 (a * a); cross = u64 (2 * a * b);
          total = u64 (low + u64 (push_bit 32 cross));
          high = u64 (b * b + drop_bit 32 cross + of_bool (total < low))
      in if high \<noteq> hi then (if high < hi then -1 else 1)
         else if total < lo then -1 else if total > lo then 1 else 0)"

partial_function (option) root_down :: "int \<Rightarrow> int \<Rightarrow> int \<Rightarrow> int option" where
  "root_down root hi lo =
     (if square_compare root hi lo > 0 then root_down (u64 (root - 1)) hi lo else Some root)"

partial_function (option) root_up :: "int \<Rightarrow> int \<Rightarrow> int \<Rightarrow> int option" where
  "root_up root hi lo =
     (if square_compare (u64 (root + 1)) hi lo \<le> 0 then root_up (u64 (root + 1)) hi lo else Some root)"

definition ln_denominator :: "(int \<Rightarrow> int \<Rightarrow> int) \<Rightarrow> int \<Rightarrow> int \<Rightarrow> int option" where
  "ln_denominator sqrtl variance epsilon =
     (let lo = u64 (push_bit 24 variance); total = u64 (lo + epsilon);
          hi = u64 (drop_bit 40 variance + of_bool (total < lo))
      in case root_down (sqrtl variance epsilon) hi total of
           None \<Rightarrow> None | Some root \<Rightarrow> root_up root hi total)"

definition c_gelu :: "int list \<Rightarrow> int \<Rightarrow> int" where
  "c_gelu table x =
     (let magnitude = (if x < 0 then - x else x);
          positive = (if magnitude \<le> 2048 then table ! nat magnitude else magnitude)
      in if x < 0 then positive - magnitude else positive)"

definition exponential :: "int list \<Rightarrow> int \<Rightarrow> int" where
  "exponential table difference =
     (if difference \<ge> 4096 then 0
      else let index = difference div 16; fraction = difference mod 16
           in uround (table ! nat index * (16 - fraction) + table ! nat (index + 1) * fraction) 16)"

definition i16 :: "int \<Rightarrow> int" where
  "i16 v = np_cast Int16 v"

definition c_layernorm :: "(int \<Rightarrow> int \<Rightarrow> int) \<Rightarrow> nat \<Rightarrow> int list \<Rightarrow> (int + int list) option" where
  "c_layernorm sqrtl n inp =
     (let total = sum_list (map (\<lambda>i. i16 (inp ! i)) [0..<n]);
          squares = sum_list (map (\<lambda>i. i16 (inp ! i) * i16 (inp ! i)) [0..<n]);
          variance = u64 (int n * squares - total * total);
          epsilon = uround (u64 (push_bit 40 (int n * int n))) 100000
      in case ln_denominator sqrtl variance epsilon of
           None \<Rightarrow> None
         | Some denominator \<Rightarrow>
           if denominator = 0 then Some (Inl (-3))
           else Some (Inr (map (\<lambda>i. let numerator = (int n * i16 (inp ! i) - total) * i16 (inp ! (n + i)) * 256
                                    in sat16 (sround numerator denominator + i16 (inp ! (2 * n + i)))) [0..<n])))"

text \<open>Bit 16 of a softmax word is the mask.\<close>

definition masked :: "int \<Rightarrow> bool" where
  "masked w \<longleftrightarrow> drop_bit 16 (take_bit 32 w) AND 1 \<noteq> 0"

definition c_softmax :: "int list \<Rightarrow> nat \<Rightarrow> int list \<Rightarrow> int + int list" where
  "c_softmax table n inp =
     (let maximum = fold (\<lambda>i m. if masked (inp ! i) \<and> i16 (inp ! i) > m then i16 (inp ! i) else m) [0..<n] (-32768);
          valid_count = length (filter (\<lambda>i. masked (inp ! i)) [0..<n])
      in if valid_count = 0 then Inr (replicate n 0)
         else let weights = map (\<lambda>i. if masked (inp ! i) then exponential table (maximum - i16 (inp ! i)) else 0) [0..<n];
                  total = sum_list weights;
                  out = map (\<lambda>w. w * 32768 div total) weights;
                  (out, remainder) = correct_mass weights out (32768 - sum_list out)
              in if remainder \<noteq> 0 then Inl (-4) else Inr out)"

text \<open>One lane of the remaining operations; a negative multiplier ends the call.\<close>

definition c_lane :: "int list \<Rightarrow> int \<Rightarrow> nat \<Rightarrow> int \<Rightarrow> int \<Rightarrow> int list \<Rightarrow> nat \<Rightarrow> int + int" where
  "c_lane table op' n shift multiplier inp i =
     (if op' = 1 then Inr (c_gelu table (i16 (inp ! i)))
      else if op' = 7 then Inr (sat16 (i16 (inp ! i) + i16 (inp ! (n + i))))
      else if op' = 5 then
        (let v = sround (inp ! i * multiplier) (push_bit (nat shift) 1)
         in Inr (if v < -128 then -128 else if v > 127 then 127 else v))
      else if inp ! (n + i) < 0 then Inl (-2)
      else let v = sat16 (sround (inp ! i * inp ! (n + i)) (push_bit (nat shift) 1) + inp ! (2 * n + i))
           in Inr (if op' = 6 then c_gelu table v else v))"

fun lanes :: "(nat \<Rightarrow> int + int) \<Rightarrow> nat list \<Rightarrow> int + int list" where
  "lanes f [] = Inr []"
| "lanes f (i # is) = (case f i of Inl status \<Rightarrow> Inl status
     | Inr v \<Rightarrow> (case lanes f is of Inl status \<Rightarrow> Inl status | Inr vs \<Rightarrow> Inr (v # vs)))"

definition pa_m4_sfpu :: "(int \<Rightarrow> int \<Rightarrow> int) \<Rightarrow> int \<Rightarrow> int \<Rightarrow> int \<Rightarrow> int \<Rightarrow> int list \<Rightarrow> int list \<Rightarrow> int list
    \<Rightarrow> (int + int list) option" where
  "pa_m4_sfpu sqrtl op' len shift multiplier inp gelu_lut exp_lut =
     (if op' < 1 \<or> op' > 7 \<or> len < 1 \<or> len > (if op' = 3 then 1024 else 3072) then Some (Inl (-1))
      else if (if op' = 4 \<or> op' = 6 then shift < 0 \<or> shift > 31 \<or> multiplier \<noteq> 0
               else if op' = 5 then shift < 0 \<or> shift > 31 \<or> multiplier \<ge> 0x80000000
               else shift \<noteq> 0 \<or> multiplier \<noteq> 0) then Some (Inl (-2))
      else let n = nat len in
        if op' = 2 then c_layernorm sqrtl n inp
        else if op' = 3 then Some (c_softmax exp_lut n inp)
        else Some (lanes (c_lane gelu_lut op' n shift multiplier inp) [0..<n]))"

text \<open>The words are viewed as \<open>int32\<close>, the multiplier is passed as \<open>uint32\<close>.\<close>

definition CpuSfpu :: "(int \<Rightarrow> int \<Rightarrow> int) \<Rightarrow> sfpu_descriptor \<Rightarrow> ndarray \<Rightarrow> int list res" where
  "CpuSfpu sqrtl d words =
     rbind (sfpu_validate d) (\<lambda>_.
       if nd_dtype words \<notin> {UInt32, Int32} \<or> map int (nd_shape words) \<noteq> [sd_input_words d] then Inl ValueError
       else case pa_m4_sfpu sqrtl (sd_op d) (sd_length d) (sd_shift d) (take_bit 32 (sd_multiplier d))
                   (map (np_cast Int32) (nd_elems words)) gelu_table exp_table of
              None \<Rightarrow> Inl Diverges
            | Some (Inl status) \<Rightarrow> Inl ValueError
            | Some (Inr output) \<Rightarrow> Inr output)"

section \<open>The root search\<close>

lemma uround_eq: "uround v d = rne_up v d"
  by (simp add: uround_def rne_up_def Let_def and_one_eq odd_iff_mod_2_eq_one)

lemma sround_eq: "sround v d = rne_val v d"
  by (simp add: sround_def rne_val_def uround_eq Let_def)

lemma u64_id: "0 \<le> x \<Longrightarrow> x < 2 ^ 64 \<Longrightarrow> u64 x = x"
  by (simp add: u64_def take_bit_int_eq_self)

lemma split_scale: "x * s = x div m * (m * s) + x mod m * s" for x m s :: int
  by (metis div_mult_mod_eq distrib_right mult.assoc)

lemma wrap_once: "m \<le> x \<Longrightarrow> x < 2 * m \<Longrightarrow> x mod m = x - m" for x m :: int
proof -
  assume *: "m \<le> x" "x < 2 * m"
  have "x mod m = (x - m) mod m" by simp
  also have "\<dots> = x - m" by (rule mod_pos_pos_trivial) (use * in simp_all)
  finally show ?thesis .
qed

text \<open>The two words hold the exact square, so the comparison is exact.\<close>

lemma square_compare_exact:
  assumes r: "0 \<le> r" "r < 2 ^ 41" and lo: "0 \<le> lo" "lo < 2 ^ 64"
  shows "square_compare r hi lo = sgn (r * r - (hi * 2 ^ 64 + lo))"
proof -
  define a where "a = r mod 2 ^ 32"
  define b where "b = r div 2 ^ 32"
  have a: "0 \<le> a" "a < 2 ^ 32" by (simp_all add: a_def)
  have b: "0 \<le> b" "b < 2 ^ 9" using r by (simp_all add: b_def)
  have rab: "r = b * 2 ^ 32 + a" by (simp add: a_def b_def)
  have aa: "0 \<le> a * a" "a * a < 2 ^ 64" using a mult_strict_mono [of a "2 ^ 32" a "2 ^ 32"] by simp_all
  have ab: "0 \<le> a * b" "a * b < 2 ^ 41" using a b mult_strict_mono [of a "2 ^ 32" b "2 ^ 9"] by simp_all
  have bb: "0 \<le> b * b" "b * b < 2 ^ 18" using b mult_strict_mono [of b "2 ^ 9" b "2 ^ 9"] by simp_all
  define c where "c = 2 * (a * b)"
  have c: "0 \<le> c" "c < 2 ^ 42" using ab by (simp_all add: c_def)
  define y where "y = (c mod 2 ^ 32) * 2 ^ 32"
  have y: "0 \<le> y" "y < 2 ^ 64" by (simp_all add: y_def)
  have yu: "u64 (push_bit 32 c) = y"
  proof -
    have "take_bit 64 (push_bit 32 c) = push_bit 32 (take_bit 32 c)" by (simp add: take_bit_push_bit)
    then show ?thesis by (simp add: u64_def y_def push_bit_eq_mult take_bit_eq_mod)
  qed
  define t where "t = u64 (a * a + y)"
  have t: "t = (if a * a + y < 2 ^ 64 then a * a + y else a * a + y - 2 ^ 64)"
  proof (cases "a * a + y < 2 ^ 64")
    case True
    then show ?thesis using aa y by (simp add: t_def u64_id)
  next
    case False
    then have "(a * a + y) mod 2 ^ 64 = a * a + y - 2 ^ 64" using aa y by (intro wrap_once) simp_all
    then show ?thesis using False by (simp add: t_def u64_def take_bit_eq_mod)
  qed
  have t0: "0 \<le> t" "t < 2 ^ 64" using t aa y by (auto split: if_splits)
  define high where "high = b * b + c div 2 ^ 32 + of_bool (t < a * a)"
  have cd: "0 \<le> c div 2 ^ 32" "c div 2 ^ 32 < 2 ^ 10" using c by simp_all
  have high: "u64 high = high" by (rule u64_id) (use bb cd in \<open>auto simp: high_def\<close>)
  have "r * r = b * b * 2 ^ 64 + c * 2 ^ 32 + a * a" by (simp add: rab c_def algebra_simps)
  moreover have "c * 2 ^ 32 = (c div 2 ^ 32) * 2 ^ 64 + y"
    using split_scale [of c "2 ^ 32" "2 ^ 32"] unfolding y_def by (simp only: flip: power_add) simp
  moreover have "t < a * a \<longleftrightarrow> \<not> a * a + y < 2 ^ 64" using t aa y by auto
  ultimately have sq: "r * r = high * 2 ^ 64 + t" using t by (auto simp: high_def algebra_simps)
  have bit: "r AND 0xffffffff = a" "drop_bit 32 r = b" "drop_bit 32 c = c div 2 ^ 32"
    using take_bit_eq_mask [of 32 r] by (simp_all add: a_def b_def drop_bit_eq_div take_bit_eq_mod mask_eq_exp_minus_1)
  have cu: "u64 (2 * a * b) = c" using c by (simp add: c_def u64_id mult.assoc)
  have "square_compare r hi lo = (if high \<noteq> hi then (if high < hi then -1 else 1)
      else if t < lo then -1 else if t > lo then 1 else 0)"
    unfolding square_compare_def bit Let_def cu yu u64_id [OF aa] t_def [symmetric] high_def [symmetric] high ..
  then show ?thesis using sq t0 lo by (auto simp: sgn_if)
qed

lemma isqrt_unique:
  assumes "0 \<le> n" "0 \<le> r" "r * r \<le> n" "n < (r + 1) * (r + 1)"
  shows "r = isqrt n"
proof (rule antisym)
  note s = isqrt_spec [OF assms(1)]
  show "r \<le> isqrt n"
  proof (rule ccontr)
    assume "\<not> ?thesis"
    then have "(isqrt n + 1) * (isqrt n + 1) \<le> r * r" using s by (intro mult_mono) auto
    then show False using s assms(3) by simp
  qed
  show "isqrt n \<le> r"
  proof (rule ccontr)
    assume "\<not> ?thesis"
    then have "(r + 1) * (r + 1) \<le> isqrt n * isqrt n" using assms(2) by (intro mult_mono) auto
    then show False using s assms(4) by simp
  qed
qed

lemma root_down_returns:
  assumes lo: "0 \<le> lo" "lo < 2 ^ 64" and hi: "0 \<le> hi"
  shows "r < 2 ^ 41 \<Longrightarrow> \<exists>q\<ge>0. root_down (int r) hi lo = Some q \<and> q \<le> int r \<and> q * q \<le> hi * 2 ^ 64 + lo"
proof (induction r)
  case 0
  have "square_compare 0 hi lo \<le> 0"
    using square_compare_exact [of 0 lo hi] lo hi by (simp add: sgn_if)
  then show ?case using lo hi by (subst root_down.simps) simp
next
  case (Suc r)
  have r: "int (Suc r) < 2 ^ 41" using Suc.prems by (metis of_nat_less_iff of_nat_numeral of_nat_power)
  have e: "square_compare (int (Suc r)) hi lo = sgn (int (Suc r) * int (Suc r) - (hi * 2 ^ 64 + lo))"
    by (rule square_compare_exact) (use r lo in auto)
  show ?case
  proof (cases "square_compare (int (Suc r)) hi lo > 0")
    case True
    have "u64 (int (Suc r) - 1) = int r" by (simp add: u64_id) (use r in \<open>simp add: u64_id\<close>)
    then have "root_down (int (Suc r)) hi lo = root_down (int r) hi lo"
      using True by (subst root_down.simps) (simp del: of_nat_Suc)
    then show ?thesis using Suc by force
  next
    case False
    then have le: "int (Suc r) * int (Suc r) \<le> hi * 2 ^ 64 + lo" unfolding e sgn_greater by linarith
    have "root_down (int (Suc r)) hi lo = Some (int (Suc r))" by (subst root_down.simps) (simp only: False if_False)
    then show ?thesis using le by (intro exI [of _ "int (Suc r)"]) simp_all
  qed
qed

lemma root_up_returns:
  assumes lo: "0 \<le> lo" "lo < 2 ^ 64" and R: "R = hi * 2 ^ 64 + lo" "R < 2 ^ 80"
  shows "0 \<le> r \<Longrightarrow> r * r \<le> R \<Longrightarrow> root_up r hi lo = Some (isqrt R)"
proof (induction "nat (2 ^ 41 - r)" arbitrary: r rule: less_induct)
  case less
  have r40: "r < 2 ^ 40"
  proof (rule ccontr)
    assume "\<not> ?thesis"
    then have "(2 ^ 40) * (2 ^ 40) \<le> r * r" by (intro mult_mono) auto
    then show False using less.prems R by simp
  qed
  have u: "u64 (r + 1) = r + 1" using less.prems r40 by (simp add: u64_id)
  have e: "square_compare (r + 1) hi lo = sgn ((r + 1) * (r + 1) - R)"
    unfolding R(1) by (rule square_compare_exact) (use less.prems r40 lo in auto)
  show ?case
  proof (cases "(r + 1) * (r + 1) \<le> R")
    case True
    then have "root_up r hi lo = root_up (r + 1) hi lo"
      by (subst root_up.simps) (simp add: u e sgn_if)
    moreover have "root_up (r + 1) hi lo = Some (isqrt R)"
      by (rule less.hyps) (use less.prems r40 True in auto)
    ultimately show ?thesis by simp
  next
    case False
    have "0 \<le> R" using less.prems(2) by (meson order_trans zero_le_square)
    then have "r = isqrt R" using less.prems False by (intro isqrt_unique) auto
    moreover have "root_up r hi lo = Some r" using False by (subst root_up.simps) (simp add: u e sgn_if)
    ultimately show ?thesis by simp
  qed
qed

lemma ln_denominator_exact:
  assumes v: "0 \<le> variance" "0 \<le> epsilon" "epsilon < 2 ^ 64" and R: "R = variance * 2 ^ 24 + epsilon" "R < 2 ^ 80"
    and s: "0 \<le> sqrtl variance epsilon" "sqrtl variance epsilon < 2 ^ 41"
  shows "ln_denominator sqrtl variance epsilon = Some (isqrt R)"
proof -
  define lo where "lo = u64 (push_bit 24 variance)"
  define t where "t = u64 (lo + epsilon)"
  define h where "h = variance div 2 ^ 40"
  have lo: "lo = (variance mod 2 ^ 40) * 2 ^ 24"
  proof -
    have "take_bit 64 (push_bit 24 variance) = push_bit 24 (take_bit 40 variance)" by (simp add: take_bit_push_bit)
    then show ?thesis by (simp add: lo_def u64_def push_bit_eq_mult take_bit_eq_mod)
  qed
  have lo0: "0 \<le> lo" "lo < 2 ^ 64" unfolding lo by (simp_all add: pos_mod_bound [THEN mult_strict_right_mono, of "2 ^ 40", simplified])
  have t: "t = (if lo + epsilon < 2 ^ 64 then lo + epsilon else lo + epsilon - 2 ^ 64)"
  proof (cases "lo + epsilon < 2 ^ 64")
    case True
    then show ?thesis using lo0 v by (simp add: t_def u64_id)
  next
    case False
    then have "(lo + epsilon) mod 2 ^ 64 = lo + epsilon - 2 ^ 64" using lo0 v by (intro wrap_once) simp_all
    then show ?thesis using False by (simp add: t_def u64_def take_bit_eq_mod)
  qed
  have t0: "0 \<le> t" "t < 2 ^ 64" using t lo0 v by (auto split: if_splits)
  have v2: "variance * 2 ^ 24 = h * 2 ^ 64 + lo"
    using split_scale [of variance "2 ^ 24" "2 ^ 40"] unfolding h_def lo by (simp only: flip: power_add) simp
  define hi where "hi = h + of_bool (t < lo)"
  have RR: "R = hi * 2 ^ 64 + t" using R(1) v2 t lo0 v by (auto simp: hi_def)
  have h0: "0 \<le> h" using v by (simp add: h_def pos_imp_zdiv_nonneg_iff)
  have "hi * 2 ^ 64 < 2 ^ 80" using RR R(2) t0 by linarith
  then have hi: "0 \<le> hi" "hi < 2 ^ 64" using h0 by (simp_all add: hi_def)
  obtain q where q: "root_down (sqrtl variance epsilon) hi t = Some q" "0 \<le> q" "q * q \<le> hi * 2 ^ 64 + t"
    using root_down_returns [OF t0 hi(1), of "nat (sqrtl variance epsilon)"] s by (auto simp: nat_less_iff)
  have "root_up q hi t = Some (isqrt R)"
    by (rule root_up_returns [OF t0 RR R(2) q(2)]) (use q RR in simp)
  moreover have "drop_bit 40 variance = h" by (simp add: h_def drop_bit_eq_div)
  moreover have "u64 (h + of_bool (t < lo)) = hi" using hi unfolding hi_def by (rule u64_id)
  ultimately show ?thesis
    unfolding ln_denominator_def Let_def lo_def [symmetric] t_def [symmetric] by (simp add: q(1))
qed

end
