(* ===== verification/CpuLaws.thy ===== *)
theory CpuLaws
  imports CpuKernels StreamProps GemmLaws
begin

text \<open>
  The native kernels compute the references: lane by lane for the packet operations, element by
  element for the matrix product.
\<close>

section \<open>The references, lane by lane\<close>

lemma affine_int_eq:
  assumes "checked31 a (-(2 ^ 31)) = Inr x" "checked31 m 0 = Inr ms" "checked31 b (-(2 ^ 31)) = Inr bs"
    and "length ms = length x" "length bs = length x" "0 \<le> s" "s \<le> 31"
  shows "affine_int a m b s = Inr (vec Int16
      (map (\<lambda>i. sat16 (rne_val (x ! i * ms ! i) (2 ^ nat s) + bs ! i)) [0..<length x]))"
proof -
  have "rmap (\<lambda>(raw, scale, bias). rbind (rne_div (raw * scale) (push_bit (nat s) 1)) (\<lambda>q. Inr (sat16 (q + bias))))
      (zip x (zip ms bs))
    = Inr (map (\<lambda>(raw, scale, bias). sat16 (rne_val (raw * scale) (2 ^ nat s) + bias)) (zip x (zip ms bs)))"
    by (rule rmap_total) (auto simp: push_bit_eq_mult)
  moreover have "map (\<lambda>(raw, scale, bias). sat16 (rne_val (raw * scale) (2 ^ nat s) + bias)) (zip x (zip ms bs))
    = map (\<lambda>i. sat16 (rne_val (x ! i * ms ! i) (2 ^ nat s) + bs ! i)) [0..<length x]"
    using assms(4,5) by (intro nth_equalityI) auto
  ultimately show ?thesis using assms by (simp add: affine_int_def)
qed

lemma requantize_int8_eq:
  assumes "checked31 a (-(2 ^ 31)) = Inr x" "0 \<le> m" "m < 2 ^ 31" "0 \<le> s" "s \<le> 31"
  shows "requantize_int8 a m s = Inr (vec Int8
      (map (\<lambda>i. max (-128) (min 127 (rne_val (x ! i * m) (2 ^ nat s)))) [0..<length x]))"
proof -
  have "rmap (\<lambda>raw. rbind (rne_div (raw * m) (push_bit (nat s) 1)) (\<lambda>q. Inr (max (-128) (min 127 q)))) x
    = Inr (map (\<lambda>raw. max (-128) (min 127 (rne_val (raw * m) (2 ^ nat s)))) x)"
    by (rule rmap_total) (simp add: push_bit_eq_mult)
  moreover have "map (\<lambda>raw. max (-128) (min 127 (rne_val (raw * m) (2 ^ nat s)))) x
    = map (\<lambda>i. max (-128) (min 127 (rne_val (x ! i * m) (2 ^ nat s)))) [0..<length x]"
    by (intro nth_equalityI) auto
  ultimately show ?thesis using assms by (simp add: requantize_int8_def push_bit_eq_mult)
qed

lemma add_int_eq:
  assumes "checked16 a = Inr x" "checked16 b = Inr y" "length y = length x"
  shows "add_int a b = Inr (vec Int16 (map (\<lambda>i. sat16 (x ! i + y ! i)) [0..<length x]))"
proof -
  have "map2 (\<lambda>a b. sat16 (a + b)) x y = map (\<lambda>i. sat16 (x ! i + y ! i)) [0..<length x]"
    using assms(3) by (intro nth_equalityI) auto
  then show ?thesis using assms by (simp add: add_int_def)
qed

lemma elems_vec_id: "list_all (in_dtype t) xs \<Longrightarrow> nd_elems (vec t xs) = xs"
  by (simp only: vec_simps map_np_cast_self)

lemma sat16_less [simp]: "sat16 v < 32768"
  by (rule le_less_trans [OF sat16_range(2)]) simp

lemma in_int16: "-32768 \<le> v \<Longrightarrow> v \<le> 32767 \<Longrightarrow> in_dtype Int16 v"
  by simp

section \<open>The lanes of the kernel\<close>

lemma lanes_Inr: "(\<And>i. i \<in> set xs \<Longrightarrow> f i = Inr (g i)) \<Longrightarrow> lanes f xs = Inr (map g xs)"
  by (induction xs) simp_all

lemma c_gelu_eq: "c_gelu gelu_table x = gelu1 x"
  by (simp add: c_gelu_def gelu1_def Let_def)

lemma i16_id: "-32768 \<le> v \<Longrightarrow> v \<le> 32767 \<Longrightarrow> i16 v = v"
  by (simp add: i16_def signed_take_bit_int_eq_self)

lemma clamp8: "(if v < -128 then -128 else if v > 127 then 127 else v) = max (-128) (min 127 (v :: int))"
  by auto

lemma plane_nth:
  assumes "length (a :: int list) = n" "length b = n" "i < n"
  shows "(a @ b @ c) ! i = a ! i" "(a @ b @ c) ! (n + i) = b ! i" "(a @ b @ c) ! (2 * n + i) = c ! i"
  using assms by (auto simp: nth_append)

lemma exponential_eq: "0 \<le> d \<Longrightarrow> exponential exp_table d = exp_weight d"
proof -
  assume d: "0 \<le> d"
  have n: "nat (d div 16 + 1) = nat (d div 16) + 1" using d by (simp add: nat_add_distrib)
  have "d < 4096 \<Longrightarrow> 0 \<le> exp_table ! nat (d div 16) * (16 - d mod 16) + exp_table ! (nat (d div 16) + 1) * (d mod 16)"
    using exp_interp(1) [OF d] .
  then show ?thesis
    unfolding exponential_def exp_weight_def Let_def n
    by (auto simp: uround_eq rne_val_def Let_def)
qed

text \<open>The running maximum from -32768 is the maximum of the kept lanes.\<close>

lemma running_max:
  "fold (\<lambda>i m. if P i \<and> f i > m then f i else m) xs m0 = fold max (map f (filter P xs)) (m0 :: int)"
  by (induction xs arbitrary: m0) (auto simp: max_def intro!: arg_cong [where f = "fold max _"])

lemma fold_max_floor:
  "ys \<noteq> [] \<Longrightarrow> \<forall>y\<in>set ys. -32768 \<le> y \<Longrightarrow> fold max ys (-32768) = py_max ys"
  by (cases ys) (simp_all add: max_absorb1)

section \<open>The matrix kernel\<close>

lemma tile_sum_exact:
  assumes a: "int8_matrix a m k" and w: "int8_matrix w k n" and k: "k \<le> 3072" and i: "row < m" "j < n"
    and t: "\<And>l. l < k \<Longrightarrow> b ! ((j div 16) * k * 16 + l * 16 + j mod 16) = at2 w l j"
  shows "tile_sum (nd_elems a) b k (j div 16) row (j mod 16) = dot a w row j"
proof -
  define f where "f l = at2 a row l * at2 w l j" for l
  have f: "\<bar>f l\<bar> \<le> 16384" if "l < k" for l
  proof -
    have "\<bar>at2 a row l\<bar> \<le> 128" "\<bar>at2 w l j\<bar> \<le> 128"
      using int8_matrix_at2(1) [OF a i(1) that] int8_matrix_at2(1) [OF w that i(2)] by auto
    then have "\<bar>at2 a row l\<bar> * \<bar>at2 w l j\<bar> \<le> 128 * 128" by (intro mult_mono) auto
    then show ?thesis by (simp add: f_def abs_mult)
  qed
  have "c \<le> k \<Longrightarrow> fold (\<lambda>l total. np_cast Int32 (total + nd_elems a ! (row * k + l) * b ! ((j div 16) * k * 16 + l * 16 + j mod 16))) [0..<c] 0
      = (\<Sum>l\<leftarrow>[0..<c]. f l) \<and> \<bar>\<Sum>l\<leftarrow>[0..<c]. f l\<bar> \<le> int c * 16384" for c
  proof (induction c)
    case (Suc c)
    have e: "nd_elems a ! (row * k + c) = at2 a row c" using int8_matrix_at2(2) [OF a i(1)] Suc.prems by simp
    have b: "\<bar>(\<Sum>l\<leftarrow>[0..<c]. f l) + f c\<bar> \<le> int (Suc c) * 16384"
      using Suc f [of c] by (auto simp: algebra_simps)
    also have "\<dots> \<le> 3072 * 16384" using Suc.prems k by (intro mult_right_mono) auto
    finally have "np_cast Int32 ((\<Sum>l\<leftarrow>[0..<c]. f l) + f c) = (\<Sum>l\<leftarrow>[0..<c]. f l) + f c"
      by (simp add: signed_take_bit_int_eq_self)
    then show ?case using Suc b t [of c] by (simp add: e f_def)
  qed simp
  then have "tile_sum (nd_elems a) b k (j div 16) row (j mod 16) = (\<Sum>l\<leftarrow>[0..<k]. f l)"
    unfolding tile_sum_def by blast
  then show ?thesis using a by (simp add: dot_def f_def int8_matrix_def)
qed

text \<open>The tiles of a weight matrix hold column \<open>j\<close> in lane \<open>j mod 16\<close> of tile \<open>j div 16\<close>.\<close>

lemma tile_weights_Inr:
  assumes "tile_weights w = Inr tiles" "nd_shape w = [k, n]"
  shows "nd_dtype tiles = Int8" "nd_shape tiles = [(n + 15) div 16, k, 16]"
    "length (nd_elems tiles) = (n + 15) div 16 * (k * 16)"
    "t < (n + 15) div 16 \<Longrightarrow> l < k \<Longrightarrow> c < 16 \<Longrightarrow>
       nd_elems tiles ! (t * k * 16 + l * 16 + c) = (if t * 16 + c < n then at2 w l (t * 16 + c) else 0)"
    "1 \<le> k" "k \<le> 3072" "1 \<le> n"
proof -
  define g where "g tile = (let count = min 16 (n - tile * 16)
     in rows_of k 16 (\<lambda>row lane. if lane < count then at2 w row (tile * 16 + lane) else 0))" for tile
  have e: "nd_elems tiles = concat (map g [0..<(n + 15) div 16])"
    using assms by (auto simp: tile_weights_def g_def [abs_def] Let_def split: if_splits)
  have gl: "length (g tile) = k * 16" for tile by (simp add: g_def Let_def)
  show "nd_dtype tiles = Int8" "nd_shape tiles = [(n + 15) div 16, k, 16]" "1 \<le> k" "k \<le> 3072" "1 \<le> n"
    using assms by (auto simp: tile_weights_def Let_def split: if_splits)
  show "length (nd_elems tiles) = (n + 15) div 16 * (k * 16)"
    unfolding e by (subst length_concat_const [where c = "k * 16"]) (simp_all add: gl)
  assume t: "t < (n + 15) div 16" "l < k" "c < 16"
  have lc: "l * 16 + c < k * 16" using t row_index [of l k c 16] by simp
  have "nd_elems tiles ! (t * (k * 16) + (l * 16 + c)) = g t ! (l * 16 + c)"
    unfolding e by (subst nth_concat_const [where c = "k * 16"]) (use t lc in \<open>simp_all add: gl\<close>)
  also have "\<dots> = (if c < min 16 (n - t * 16) then at2 w l (t * 16 + c) else 0)"
    using t by (simp add: g_def Let_def)
  finally show "nd_elems tiles ! (t * k * 16 + l * 16 + c) = (if t * 16 + c < n then at2 w l (t * 16 + c) else 0)"
    using t by (simp add: add.assoc mult.assoc less_diff_conv add.commute)
qed

lemma CpuGemm_exact:
  assumes a: "int8_matrix a m k" "nd_dtype a = Int8" and w: "int8_matrix w k n"
    and b: "1 \<le> m" "m \<le> 16" "n \<le> 50257" and t: "tile_weights w = Inr tiles"
  shows "CpuGemm a tiles n = Inr \<lparr>nd_dtype = Int32, nd_shape = [m, n], nd_elems = rows_of m n (dot a w)\<rparr>"
proof -
  have sh: "nd_shape w = [k, n]" "nd_shape a = [m, k]" using a w by (simp_all add: int8_matrix_def)
  note T = tile_weights_Inr [OF t sh(1)]
  have "tile_sum (nd_elems a) (nd_elems tiles) k (j div 16) row (j mod 16) = dot a w row j" if "row < m" "j < n" for row j
  proof (rule tile_sum_exact [OF a(1) w T(6) that])
    fix l assume "l < k"
    moreover have "j div 16 < (n + 15) div 16" using that(2) by (simp add: less_eq_div_iff_mult_less_eq flip: Suc_le_eq)
    ultimately show "nd_elems tiles ! (j div 16 * k * 16 + l * 16 + j mod 16) = at2 w l j"
      using T(4) [of "j div 16" l "j mod 16"] that(2) by simp
  qed
  then have "rows_of m n (\<lambda>row j. tile_sum (nd_elems a) (nd_elems tiles) k (j div 16) row (j mod 16)) = rows_of m n (dot a w)"
    by (intro rows_of_cong)
  then show ?thesis using a b T sh by (simp add: CpuGemm_def pa_m4_gemm_def Let_def)
qed

section \<open>The packet kernel\<close>

text \<open>The words of a packet, viewed as \<open>int32\<close>: the planes one after another.\<close>

lemma lane_int32: "lane_ok q lo hi \<Longrightarrow> -(2 ^ 31) \<le> lo \<Longrightarrow> hi < 2 ^ 31
    \<Longrightarrow> list_all (\<lambda>v. -(2 ^ 31) \<le> v \<and> v < 2 ^ 31) (nd_elems q)"
  by (auto simp: lane_ok_def list_all_iff)

lemma less_2_3: "(i :: nat) < 2 \<longleftrightarrow> i = 0 \<or> i = 1" "(i :: nat) < 3 \<longleftrightarrow> i = 0 \<or> i = 1 \<or> i = 2"
  by auto

lemma planes_lanes:
  assumes "planes_ok d x ps" "x \<noteq> SOFTMAX" "i < length ps"
  shows "\<exists>lo hi. lane_ok (ps ! i) lo hi \<and> -(2 ^ 31) \<le> lo \<and> hi < 2 ^ 31"
proof -
  have "lane_ok (ps ! i) (-32768) 32767 \<or> lane_ok (ps ! i) (-(2 ^ 31)) (2 ^ 31 - 1) \<or> lane_ok (ps ! i) 0 (2 ^ 31 - 1)"
  proof (cases x)
    case LAYERNORM
    then show ?thesis using assms(1,3) by (simp add: planes_ok_def list_all_length)
  next
    case ADD
    then show ?thesis using assms(1,3) by (simp add: planes_ok_def list_all_length)
  next
    case AFFINE
    then have "i = 0 \<or> i = 1 \<or> i = 2" using assms(1,3) less_2_3(2) by (simp add: planes_ok_def)
    then show ?thesis using assms(1) AFFINE by (elim disjE) (simp_all add: planes_ok_def)
  next
    case AFFINE_GELU
    then have "i = 0 \<or> i = 1 \<or> i = 2" using assms(1,3) less_2_3(2) by (simp add: planes_ok_def)
    then show ?thesis using assms(1) AFFINE_GELU by (elim disjE) (simp_all add: planes_ok_def)
  qed (use assms in \<open>simp_all add: planes_ok_def\<close>)
  moreover have "-(2 ^ 31) \<le> (-32768 :: int)" "(32767 :: int) < 2 ^ 31" "-(2 ^ 31) \<le> (0 :: int)" "-(2 ^ 31) \<le> (-(2 ^ 31) :: int)"
    "(2 ^ 31 - 1 :: int) < 2 ^ 31" by simp_all
  ultimately show ?thesis by blast
qed

lemma plane_words:
  assumes v: "sfpu_validate d = Inr ()" and x: "op_of (sd_op d) = Some x" "x \<noteq> SOFTMAX" and p: "planes_ok d x ps"
    and e: "evaluate_and_pack d ps = Inr (ins, outs)"
  shows "map (np_cast Int32) ins = concat (map nd_elems ps)"
proof -
  have range: "\<forall>v\<in>set (nd_elems q). -(2 ^ 31) \<le> v \<and> v < 2 ^ 31" if q: "q \<in> set ps" for q
  proof -
    obtain i where i: "i < length ps" "q = ps ! i" using q unfolding in_set_conv_nth by blast
    obtain lo hi where "lane_ok (ps ! i) lo hi" "-(2 ^ 31) \<le> lo" "hi < 2 ^ 31"
      using planes_lanes [OF p x(2) i(1)] by blast
    then show ?thesis using lane_int32 unfolding i(2) list_all_iff by blast
  qed
  obtain r :: ndarray where "evaluate_and_pack d ps = Inr (if x = SOFTMAX
        then map2 softmax_word (as_words (nd_elems (ps ! 0))) (map (np_cast UInt32) (nd_elems (ps ! 1)))
        else as_words (concat (map nd_elems ps)), as_words (nd_elems r))"
    by (rule evaluate_and_pack_eq [OF v x(1) p]) (rule that)
  then have ins: "ins = as_words (concat (map nd_elems ps))" using e x(2) by simp
  show ?thesis unfolding ins
    by (rule as_words_back) (use range in \<open>unfold list_all_iff set_concat set_map UN_iff, blast\<close>)
qed

lemma lane_values:
  assumes "planes_ok d x ps" "i < length ps" "lane_ok (ps ! i) lo hi" "j < nat (sd_length d)"
  shows "lo \<le> nd_elems (ps ! i) ! j" "nd_elems (ps ! i) ! j \<le> hi"
proof -
  have "nd_elems (ps ! i) ! j \<in> set (nd_elems (ps ! i))"
    using planes_wf(3) [OF assms(1,2)] assms(4) by simp
  then show "lo \<le> nd_elems (ps ! i) ! j" "nd_elems (ps ! i) ! j \<le> hi"
    using assms(3) by (auto simp: lane_ok_def list_all_iff)
qed


text \<open>The checked planes of a valid request, and the range of its parameters.\<close>

lemma request_planes:
  assumes v: "sfpu_validate d = Inr ()" and x: "op_of (sd_op d) = Some x" and p: "planes_ok d x ps"
    and i: "i < length ps" "lane_ok (ps ! i) lo hi"
  shows "checked_vector (ps ! i) MAX_VECTOR lo hi = Inr (nd_elems (ps ! i))"
    "x = SOFTMAX \<Longrightarrow> checked_vector (ps ! i) MAX_SOFTMAX lo hi = Inr (nd_elems (ps ! i))"
    "length (nd_elems (ps ! i)) = nat (sd_length d)"
proof -
  define n where "n = nat (sd_length d)"
  have n: "1 \<le> n" "n \<le> MAX_VECTOR" "x = SOFTMAX \<Longrightarrow> n \<le> MAX_SOFTMAX"
    using v x by (auto simp: sfpu_validate_def n_def MAX_VECTOR_def MAX_SOFTMAX_def split: if_splits)
  have w: "nd_wf (ps ! i)" "nd_shape (ps ! i) = [n]" using planes_wf [OF p i(1)] by (simp_all add: n_def)
  show "checked_vector (ps ! i) MAX_VECTOR lo hi = Inr (nd_elems (ps ! i))"
    by (rule checked_lane [OF w i(2) n(1,2)])
  show "x = SOFTMAX \<Longrightarrow> checked_vector (ps ! i) MAX_SOFTMAX lo hi = Inr (nd_elems (ps ! i))"
    by (rule checked_lane [OF w i(2) n(1) n(3)])
  show "length (nd_elems (ps ! i)) = nat (sd_length d)" by (rule planes_wf(3) [OF p i(1)])
qed

lemma request_bounds:
  assumes v: "sfpu_validate d = Inr ()" and x: "op_of (sd_op d) = Some x"
  shows "1 \<le> sd_length d" "sd_length d \<le> (if x = SOFTMAX then 1024 else 3072)"
    "x \<in> {AFFINE, AFFINE_GELU, REQUANT8} \<Longrightarrow> 0 \<le> sd_shift d \<and> sd_shift d \<le> 31"
    "x = REQUANT8 \<Longrightarrow> 0 \<le> sd_multiplier d \<and> sd_multiplier d < 2 ^ 31"
    "x \<noteq> REQUANT8 \<Longrightarrow> sd_multiplier d = 0" "x \<notin> {AFFINE, AFFINE_GELU, REQUANT8} \<Longrightarrow> sd_shift d = 0"
  using v x by (auto simp: sfpu_validate_def split: if_splits)

lemma op_code_range: "1 \<le> op_code x" "op_code x \<le> 7"
  by (cases x; simp)+

text \<open>The kernel accepts what the descriptor's validation accepts.\<close>

lemma kernel_accepts:
  assumes v: "sfpu_validate d = Inr ()" and x: "op_of (sd_op d) = Some x"
  shows "pa_m4_sfpu sqrtl (sd_op d) (sd_length d) (sd_shift d) (take_bit 32 (sd_multiplier d)) inp g e =
    (if x = LAYERNORM then c_layernorm sqrtl (nat (sd_length d)) inp
     else if x = SOFTMAX then Some (c_softmax e (nat (sd_length d)) inp)
     else Some (lanes (c_lane g (op_code x) (nat (sd_length d)) (sd_shift d) (sd_multiplier d) inp) [0..<nat (sd_length d)]))"
proof -
  have m: "take_bit 32 (sd_multiplier d) = sd_multiplier d"
    using request_bounds(4,5) [OF v x] by (cases "x = REQUANT8") (auto intro!: take_bit_int_eq_self)
  show ?thesis
    using x request_bounds [OF v x] op_code_range [of x] unfolding m pa_m4_sfpu_def
    by (cases x) (simp_all add: Let_def)
qed

lemma kernel_gelu:
  assumes v: "sfpu_validate d = Inr ()" and x: "op_of (sd_op d) = Some GELU" and p: "planes_ok d GELU ps"
    and n: "n = nat (sd_length d)" and r: "sfpu_result d GELU ps = Inr r" and inp: "inp = concat (map nd_elems ps)"
  shows "lanes (c_lane gelu_table 1 n s m inp) [0..<n] = Inr (nd_elems r)"
proof -
  obtain a where ps: "ps = [a]" and l: "lane_ok a (-32768) 32767"
    using p by (auto simp: planes_ok_def length_Suc_conv)
  have c: "checked16 a = Inr (nd_elems a)" "length (nd_elems a) = n"
    using request_planes [OF v x p, of 0] l by (simp_all add: ps n)
  have "nd_elems r = map (\<lambda>i. gelu1 (nd_elems a ! i)) [0..<n]"
    using r gelu_int_eq(1) [OF c(1)] elems_vec_id [OF gelu_int_eq(2) [OF c(1)]] c(2)
    by (auto simp: sfpu_result_def ps simp del: vec_simps intro!: nth_equalityI)
  moreover have "c_lane gelu_table 1 n s m inp i = Inr (gelu1 (nd_elems a ! i))" if "i < n" for i
    using lane_values [OF p, of 0 _ _ i] l that by (simp add: c_lane_def inp ps n c_gelu_eq i16_id)
  ultimately show ?thesis using lanes_Inr [of "[0..<n]"] by simp
qed

lemma kernel_add:
  assumes v: "sfpu_validate d = Inr ()" and x: "op_of (sd_op d) = Some ADD" and p: "planes_ok d ADD ps"
    and n: "n = nat (sd_length d)" and r: "sfpu_result d ADD ps = Inr r" and inp: "inp = concat (map nd_elems ps)"
  shows "lanes (c_lane gelu_table 7 n s m inp) [0..<n] = Inr (nd_elems r)"
proof -
  obtain a b where ps: "ps = [a, b]" and l: "lane_ok a (-32768) 32767" "lane_ok b (-32768) 32767"
    using p by (auto simp: planes_ok_def length_Suc_conv numeral_2_eq_2)
  have c: "checked16 a = Inr (nd_elems a)" "checked16 b = Inr (nd_elems b)"
    "length (nd_elems a) = n" "length (nd_elems b) = n"
    using request_planes [OF v x p, of 0] request_planes [OF v x p, of 1] l by (simp_all add: ps n)
  have "nd_elems r = map (\<lambda>i. sat16 (nd_elems a ! i + nd_elems b ! i)) [0..<n]"
    using r add_int_eq [OF c(1,2)] c(3,4)
    by (auto simp: sfpu_result_def ps list_all_iff simp del: vec_simps intro!: elems_vec_id in_int16)
  moreover have "c_lane gelu_table 7 n s m inp i = Inr (sat16 (nd_elems a ! i + nd_elems b ! i))" if "i < n" for i
    using lane_values [OF p, of 0 _ _ i] lane_values [OF p, of 1 _ _ i] l that c(3,4)
    by (simp add: c_lane_def inp ps n i16_id nth_append)
  ultimately show ?thesis using lanes_Inr [of "[0..<n]"] by simp
qed

lemma kernel_requant:
  assumes v: "sfpu_validate d = Inr ()" and x: "op_of (sd_op d) = Some REQUANT8" and p: "planes_ok d REQUANT8 ps"
    and n: "n = nat (sd_length d)" and r: "sfpu_result d REQUANT8 ps = Inr r" and inp: "inp = concat (map nd_elems ps)"
  shows "lanes (c_lane gelu_table 5 n (sd_shift d) (sd_multiplier d) inp) [0..<n] = Inr (nd_elems r)"
proof -
  obtain a where ps: "ps = [a]" and l: "lane_ok a (-(2 ^ 31)) (2 ^ 31 - 1)"
    using p by (auto simp: planes_ok_def length_Suc_conv)
  have c: "checked31 a (-(2 ^ 31)) = Inr (nd_elems a)" "length (nd_elems a) = n"
    using request_planes [OF v x p, of 0] l by (simp_all add: ps n)
  define f where "f i = max (-128) (min 127 (rne_val (nd_elems a ! i * sd_multiplier d) (2 ^ nat (sd_shift d))))" for i
  have "requantize_int8 a (sd_multiplier d) (sd_shift d) = Inr (vec Int8 (map f [0..<n]))"
    using requantize_int8_eq [OF c(1)] request_bounds(3,4) [OF v x] c(2) by (simp add: f_def [abs_def])
  then have "nd_elems r = map f [0..<n]"
    using r by (auto simp: sfpu_result_def ps list_all_iff f_def simp del: vec_simps intro!: elems_vec_id)
  moreover have "c_lane gelu_table 5 n (sd_shift d) (sd_multiplier d) inp i = Inr (f i)" if "i < n" for i
    using that c(2) by (simp add: c_lane_def inp ps Let_def clamp8 sround_eq f_def push_bit_eq_mult nth_append)
  ultimately show ?thesis using lanes_Inr [of "[0..<n]"] by simp
qed

lemma affine_planes:
  assumes v: "sfpu_validate d = Inr ()" and x: "op_of (sd_op d) = Some x" and xa: "x \<in> {AFFINE, AFFINE_GELU}"
    and p: "planes_ok d x ps" and n: "n = nat (sd_length d)"
  obtains a b c where "ps = [a, b, c]"
    "length (nd_elems a) = n" "length (nd_elems b) = n" "length (nd_elems c) = n"
    "\<And>i. i < n \<Longrightarrow> 0 \<le> nd_elems b ! i"
    "affine_int a b c (sd_shift d) = Inr (vec Int16
      (map (\<lambda>i. sat16 (rne_val (nd_elems a ! i * nd_elems b ! i) (2 ^ nat (sd_shift d)) + nd_elems c ! i)) [0..<n]))"
proof -
  obtain a b c where ps: "ps = [a, b, c]" using p xa by (auto simp: planes_ok_def length_Suc_conv numeral_3_eq_3)
  have l: "lane_ok a (-(2 ^ 31)) (2 ^ 31 - 1)" "lane_ok b 0 (2 ^ 31 - 1)" "lane_ok c (-(2 ^ 31)) (2 ^ 31 - 1)"
    using p xa by (auto simp: planes_ok_def ps)
  have ck: "checked31 a (-(2 ^ 31)) = Inr (nd_elems a)" "checked31 b 0 = Inr (nd_elems b)" "checked31 c (-(2 ^ 31)) = Inr (nd_elems c)"
    "length (nd_elems a) = n" "length (nd_elems b) = n" "length (nd_elems c) = n"
    using request_planes [OF v x p, of 0] request_planes [OF v x p, of 1] request_planes [OF v x p, of 2] l
    by (simp_all add: ps n)
  show ?thesis
  proof (rule that [OF ps ck(4-6)])
    show "0 \<le> nd_elems b ! i" if "i < n" for i
      using lane_values(1) [OF p, of 1 0 _ i] l(2) that by (simp add: ps n)
    show "affine_int a b c (sd_shift d) = Inr (vec Int16
      (map (\<lambda>i. sat16 (rne_val (nd_elems a ! i * nd_elems b ! i) (2 ^ nat (sd_shift d)) + nd_elems c ! i)) [0..<n]))"
      using affine_int_eq [OF ck(1-3)] ck(4-6) request_bounds(3) [OF v x] xa by auto
  qed
qed

lemma affine_lane:
  assumes "length a = n" "length b = n" "length c = n" "i < n" "0 \<le> b ! i" "k = 4 \<or> k = 6"
  shows "c_lane gelu_table k n s 0 (a @ b @ c) i =
    Inr (let v = sat16 (rne_val (a ! i * b ! i) (2 ^ nat s) + c ! i) in if k = 6 then gelu1 v else v)"
  using assms(5,6) plane_nth [OF assms(1,2,4), of c]
  by (auto simp: c_lane_def Let_def sround_eq push_bit_eq_mult c_gelu_eq)

lemma kernel_affine:
  assumes v: "sfpu_validate d = Inr ()" and x: "op_of (sd_op d) = Some AFFINE" and p: "planes_ok d AFFINE ps"
    and n: "n = nat (sd_length d)" and r: "sfpu_result d AFFINE ps = Inr r" and inp: "inp = concat (map nd_elems ps)"
  shows "lanes (c_lane gelu_table 4 n (sd_shift d) 0 inp) [0..<n] = Inr (nd_elems r)"
proof -
  obtain a b c where ps: "ps = [a, b, c]" and l: "length (nd_elems a) = n" "length (nd_elems b) = n" "length (nd_elems c) = n"
    and b: "\<And>i. i < n \<Longrightarrow> 0 \<le> nd_elems b ! i"
    and e: "affine_int a b c (sd_shift d) = Inr (vec Int16
      (map (\<lambda>i. sat16 (rne_val (nd_elems a ! i * nd_elems b ! i) (2 ^ nat (sd_shift d)) + nd_elems c ! i)) [0..<n]))"
    using affine_planes [OF v x _ p n] by blast
  have "nd_elems r = map (\<lambda>i. sat16 (rne_val (nd_elems a ! i * nd_elems b ! i) (2 ^ nat (sd_shift d)) + nd_elems c ! i)) [0..<n]"
    using r e by (auto simp: sfpu_result_def ps list_all_iff simp del: vec_simps intro!: elems_vec_id in_int16)
  moreover have "c_lane gelu_table 4 n (sd_shift d) 0 inp i =
      Inr (sat16 (rne_val (nd_elems a ! i * nd_elems b ! i) (2 ^ nat (sd_shift d)) + nd_elems c ! i))" if "i < n" for i
    using affine_lane [OF l that b [OF that], of 4] by (simp add: inp ps Let_def)
  ultimately show ?thesis using lanes_Inr [of "[0..<n]"] by simp
qed

lemma kernel_affine_gelu:
  assumes v: "sfpu_validate d = Inr ()" and x: "op_of (sd_op d) = Some AFFINE_GELU" and p: "planes_ok d AFFINE_GELU ps"
    and n: "n = nat (sd_length d)" and r: "sfpu_result d AFFINE_GELU ps = Inr r" and inp: "inp = concat (map nd_elems ps)"
  shows "lanes (c_lane gelu_table 6 n (sd_shift d) 0 inp) [0..<n] = Inr (nd_elems r)"
proof -
  obtain a b c where ps: "ps = [a, b, c]" and l: "length (nd_elems a) = n" "length (nd_elems b) = n" "length (nd_elems c) = n"
    and b: "\<And>i. i < n \<Longrightarrow> 0 \<le> nd_elems b ! i"
    and e: "affine_int a b c (sd_shift d) = Inr (vec Int16
      (map (\<lambda>i. sat16 (rne_val (nd_elems a ! i * nd_elems b ! i) (2 ^ nat (sd_shift d)) + nd_elems c ! i)) [0..<n]))"
    using affine_planes [OF v x _ p n] by blast
  define f where "f i = sat16 (rne_val (nd_elems a ! i * nd_elems b ! i) (2 ^ nat (sd_shift d)) + nd_elems c ! i)" for i
  have fe: "nd_elems (vec Int16 (map f [0..<n])) = map f [0..<n]"
    by (rule elems_vec_id) (auto simp: list_all_iff f_def intro!: in_int16)
  have n1: "1 \<le> n" "n \<le> 3072" using request_bounds(1,2) [OF v x] by (auto simp: n)
  have "checked16 (vec Int16 (map f [0..<n])) = Inr (map f [0..<n])"
    by (rule checked_vector_ok) (use n1 in \<open>auto simp: MAX_VECTOR_def np_integer_def list_all_iff f_def intro!: in_int16\<close>)
  note g = gelu_int_eq [OF this]
  have "r = vec Int16 (map gelu1 (map f [0..<n]))"
    using r e g(1) by (simp add: sfpu_result_def ps f_def [abs_def])
  then have "nd_elems r = map (\<lambda>i. gelu1 (f i)) [0..<n]"
    using elems_vec_id [OF g(2)] by (simp add: comp_def)
  moreover have "c_lane gelu_table 6 n (sd_shift d) 0 inp i = Inr (gelu1 (f i))" if "i < n" for i
    using affine_lane [OF l that b [OF that], of 6] by (simp add: inp ps Let_def f_def)
  ultimately show ?thesis using lanes_Inr [of "[0..<n]"] by simp
qed


section \<open>LayerNorm and softmax\<close>

text \<open>The seed of the root search: for every radicand \<open>v * 2 ^ 24 + e\<close> of a layer normalisation, which is below
  \<open>2 ^ 80\<close>, any value of the range the search can correct.\<close>

definition seed_ok :: "(int \<Rightarrow> int \<Rightarrow> int) \<Rightarrow> bool" where
  "seed_ok sqrtl \<longleftrightarrow> (\<forall>v e. 0 \<le> v \<and> 0 \<le> e \<and> v * 2 ^ 24 + e < 2 ^ 80 \<longrightarrow> 0 \<le> sqrtl v e \<and> sqrtl v e < 2 ^ 41)"

lemma ln_epsilon_u64:
  assumes "1 \<le> n" "n \<le> 3072"
  shows "u64 (push_bit 40 (int n * int n)) = int n * int n * 2 ^ 40"
    "0 \<le> rne_val (int n * int n * 2 ^ 40) 100000" "rne_val (int n * int n * 2 ^ 40) 100000 < 2 ^ 64"
proof -
  have "int n * int n \<le> 3072 * 3072" using assms by (intro mult_mono) auto
  then have le: "int n * int n * 2 ^ 40 < 2 ^ 64" by simp
  show "u64 (push_bit 40 (int n * int n)) = int n * int n * 2 ^ 40"
    using le by (simp add: push_bit_eq_mult u64_id)
  show "0 \<le> rne_val (int n * int n * 2 ^ 40) 100000" by (rule rne_val_nonneg) simp_all
  have "\<bar>rne_val (int n * int n * 2 ^ 40) 100000\<bar> \<le> 2 ^ 63"
    by (rule rne.abs_bound) (use le in \<open>simp_all add: abs_mult\<close>)
  then show "rne_val (int n * int n * 2 ^ 40) 100000 < 2 ^ 64" by simp
qed

lemma kernel_layernorm:
  assumes v: "sfpu_validate d = Inr ()" and x: "op_of (sd_op d) = Some LAYERNORM" and p: "planes_ok d LAYERNORM ps"
    and n: "n = nat (sd_length d)" and r: "sfpu_result d LAYERNORM ps = Inr r" and inp: "inp = concat (map nd_elems ps)"
    and s: "seed_ok sqrtl"
  shows "c_layernorm sqrtl n inp = Some (Inr (nd_elems r))"
proof -
  obtain a b c where ps: "ps = [a, b, c]" and l: "lane_ok a (-32768) 32767" "lane_ok b (-32768) 32767" "lane_ok c (-32768) 32767"
    using p by (auto simp: planes_ok_def length_Suc_conv numeral_3_eq_3)
  define xs gs bs where "xs = nd_elems a" and "gs = nd_elems b" and "bs = nd_elems c"
  have ck: "checked16 a = Inr xs" "checked16 b = Inr gs" "checked16 c = Inr bs"
    "length xs = n" "length gs = n" "length bs = n"
    using request_planes [OF v x p, of 0] request_planes [OF v x p, of 1] request_planes [OF v x p, of 2] l
    by (simp_all add: ps n xs_def gs_def bs_def)
  have n1: "1 \<le> n" "n \<le> 3072" using request_bounds(1,2) [OF v x] by (auto simp: n)
  have ne: "xs \<noteq> []" using n1 ck(4) by auto
  have el: "i16 (inp ! i) = xs ! i" "i16 (inp ! (n + i)) = gs ! i" "i16 (inp ! (2 * n + i)) = bs ! i" if "i < n" for i
    using lane_values [OF p, of 0 _ _ i] lane_values [OF p, of 1 _ _ i] lane_values [OF p, of 2 _ _ i] l that
      plane_nth [OF ck(4,5) that, of bs]
    by (simp_all add: inp ps n xs_def gs_def bs_def i16_id)
  have total: "sum_list (map (\<lambda>i. i16 (inp ! i)) [0..<n]) = sum_list xs"
    by (rule arg_cong [where f = sum_list]) (use ck(4) in \<open>auto simp: el intro!: nth_equalityI\<close>)
  have squares: "sum_list (map (\<lambda>i. i16 (inp ! i) * i16 (inp ! i)) [0..<n]) = (\<Sum>v\<leftarrow>xs. v * v)"
    by (rule arg_cong [where f = sum_list]) (use ck(4) in \<open>auto simp: el intro!: nth_equalityI\<close>)
  define V where "V = ln_variance xs"
  have abs: "\<forall>v\<in>set xs. \<bar>v\<bar> \<le> 32768"
    using l(1) by (auto simp: lane_ok_def list_all_iff xs_def)
  have "V \<le> (int n * 32768) * (int n * 32768)" using ln_variance_bound [OF abs] ck(4) by (simp add: V_def)
  also have "\<dots> \<le> (3072 * 32768) * (3072 * 32768)" using n1 by (intro mult_mono) auto
  finally have V: "0 \<le> V" "V < 2 ^ 64" using ln_variance_nonneg [of xs] by (simp_all add: V_def)
  have var: "u64 (int n * (\<Sum>v\<leftarrow>xs. v * v) - sum_list xs * sum_list xs) = V"
    using u64_id [OF V] by (simp add: V_def ln_variance_def ck(4))
  define eps where "eps = rne_val (int n * int n * 2 ^ 40) 100000"
  have e: "uround (u64 (push_bit 40 (int n * int n))) 100000 = eps"
    by (simp add: eps_def ln_epsilon_u64(1) [OF n1] uround_eq rne_val_def Let_def)
  define R where "R = V * 2 ^ 24 + eps"
  have rad: "ln_radicand xs = Inr R" unfolding ln_radicand_eq by (simp add: R_def V_def eps_def ck(4))
  have R: "0 < R" "R < 2 ^ 80" using ln_radicand_bounds [OF ne _ abs rad] n1 ck(4) by auto
  have eps: "0 \<le> eps" "eps < 2 ^ 64" using ln_epsilon_u64(2,3) [OF n1] by (simp_all add: eps_def)
  have seed: "0 \<le> sqrtl V eps" "sqrtl V eps < 2 ^ 41"
    using s V(1) eps(1) R(2) unfolding seed_ok_def R_def by blast+
  have den: "ln_denominator sqrtl V eps = Some (isqrt R)"
    by (rule ln_denominator_exact [OF V(1) _ _ R_def R(2)]) (use eps seed in simp_all)
  have dpos: "isqrt R \<noteq> 0" using isqrt_pos [OF R(1)] by simp
  obtain d' where d': "d' = isqrt (ln_variance xs * 2 ^ 24 + rne_val (int (length xs) * int (length xs) * 2 ^ 40) 100000)"
    and ln: "layernorm_int a b c = Inr (vec Int16 (map (\<lambda>(raw, scale, offset).
       sat16 (rne_val ((int (length xs) * raw - sum_list xs) * scale * 256) d' + offset)) (zip xs (zip gs bs))))"
    using layernorm_int_eq [OF ck(1-3) _ _ ne] ck(4-6) by metis
  have dR: "d' = isqrt R" unfolding d' R_def V_def eps_def ck(4) ..
  define f where "f i = sat16 (rne_val ((int n * xs ! i - sum_list xs) * gs ! i * 256) (isqrt R) + bs ! i)" for i
  have "map (\<lambda>(raw, scale, offset). sat16 (rne_val ((int (length xs) * raw - sum_list xs) * scale * 256) d' + offset))
      (zip xs (zip gs bs)) = map f [0..<n]"
    using ck(4-6) by (intro nth_equalityI) (auto simp: f_def dR)
  then have "nd_elems r = nd_elems (vec Int16 (map f [0..<n]))"
    using r ln by (simp add: sfpu_result_def ps)
  also have "\<dots> = map f [0..<n]" by (rule elems_vec_id) (auto simp: list_all_iff f_def intro!: in_int16)
  finally have "nd_elems r = map f [0..<n]" .
  then show ?thesis
    unfolding c_layernorm_def Let_def total squares var e den
    using dpos by (simp add: el sround_eq f_def)
qed

lemma masked_bit: "masked w \<longleftrightarrow> bit w 16"
proof -
  have "masked w \<longleftrightarrow> odd (drop_bit 16 (take_bit 32 w))" by (simp add: masked_def and_one_eq mod_2_eq_odd)
  also have "\<dots> \<longleftrightarrow> bit (take_bit 32 w) 16" by (simp only: bit_iff_odd_drop_bit)
  also have "\<dots> \<longleftrightarrow> bit w 16" by (simp add: bit_take_bit_iff)
  finally show ?thesis .
qed

lemma kernel_softmax:
  assumes v: "sfpu_validate d = Inr ()" and x: "op_of (sd_op d) = Some SOFTMAX" and p: "planes_ok d SOFTMAX ps"
    and n: "n = nat (sd_length d)" and r: "sfpu_result d SOFTMAX ps = Inr r"
    and inp: "inp = map (np_cast Int32) (map2 softmax_word (as_words (nd_elems (ps ! 0))) (map (np_cast UInt32) (nd_elems (ps ! 1))))"
  shows "c_softmax exp_table n inp = Inr (nd_elems r)"
proof -
  obtain a m where ps: "ps = [a, m]" and l: "lane_ok a (-32768) 32767" and mb: "nd_dtype m = Bool"
    using p by (auto simp: planes_ok_def length_Suc_conv numeral_2_eq_2)
  define xs ms where "xs = nd_elems a" and "ms = nd_elems m"
  have ck: "checked_vector a MAX_SOFTMAX (-32768) 32767 = Inr xs" "length xs = n"
    using request_planes [OF v x p, of 0] l by (simp_all add: ps n xs_def)
  have mw: "nd_wf m" "nd_shape m = [n]" "length ms = n" using planes_wf [OF p, of 1] by (simp_all add: ps n ms_def)
  have m01: "ms ! i \<in> {0, 1}" if "i < n" for i
    using bool_elems [OF mw(1) mb] that mw(3) by (simp add: ms_def)
  have x16: "-32768 \<le> xs ! i" "xs ! i \<le> 32767" if "i < n" for i
    using lane_values [OF p, of 0 _ _ i] l that by (simp_all add: ps n xs_def)
  define w where "w i = softmax_word (np_cast UInt32 (np_cast Int32 (xs ! i))) (ms ! i)" for i
  have ii: "inp ! i = np_cast Int32 (w i)" if "i < n" for i
    using that ck(2) mw(3) m01 [OF that] by (auto simp: inp ps w_def as_words_def xs_def ms_def)
  have score: "i16 (inp ! i) = xs ! i" if "i < n" for i
  proof -
    have "i16 (inp ! i) = signed_take_bit 15 (w i)"
      by (simp add: ii [OF that] i16_def signed_take_bit_signed_take_bit)
    then show ?thesis using softmax_word_back(1) [OF m01 [OF that] x16 [OF that]] by (simp add: w_def)
  qed
  have mask: "masked (inp ! i) \<longleftrightarrow> ms ! i \<noteq> 0" if "i < n" for i
  proof -
    have "bit (inp ! i) 16 = bit (w i) 16" by (simp add: ii [OF that] bit_signed_take_bit_iff)
    then show ?thesis
      using softmax_word_back(2) [OF m01 [OF that] x16 [OF that]] m01 [OF that] by (auto simp: masked_bit w_def)
  qed
  define kept where "kept = filter (\<lambda>i. ms ! i \<noteq> 0) [0..<n]"
  have fk: "filter (\<lambda>i. masked (inp ! i)) [0..<n] = kept" unfolding kept_def by (rule filter_cong) (simp_all add: mask)
  have zk: "map fst (filter snd (zip xs (map (\<lambda>v. v \<noteq> 0) ms))) = map (\<lambda>i. xs ! i) kept"
  proof -
    have "zip xs (map (\<lambda>v. v \<noteq> 0) ms) = map (\<lambda>i. (xs ! i, ms ! i \<noteq> 0)) [0..<n]"
      using ck(2) mw(3) by (intro nth_equalityI) auto
    then show ?thesis by (simp add: kept_def filter_map comp_def)
  qed
  have none: "kept = [] \<longleftrightarrow> True \<notin> set (map (\<lambda>v. v \<noteq> 0) ms)"
  proof -
    have "kept = [] \<longleftrightarrow> (\<forall>i<length ms. ms ! i = 0)" using mw(3) by (auto simp: kept_def filter_empty_conv)
    also have "\<dots> \<longleftrightarrow> (\<forall>v\<in>set ms. v = 0)" by (simp only: all_set_conv_all_nth)
    also have "\<dots> \<longleftrightarrow> True \<notin> set (map (\<lambda>v. v \<noteq> 0) ms)" by auto
    finally show ?thesis .
  qed
  show ?thesis
  proof (cases "kept = []")
    case True
    then have "softmax_int a m = Inr (vec UInt16 (replicate n 0))"
      using ck mb mw none by (simp add: softmax_int_def flip: xs_def ms_def)
    then have "r = vec UInt16 (replicate n 0)" using r by (simp add: sfpu_result_def ps)
    then have "nd_elems r = replicate n 0" by simp
    then show ?thesis using True by (simp add: c_softmax_def fk Let_def)
  next
    case False
    define M where "M = py_max (map (\<lambda>i. xs ! i) kept)"
    have "fold (\<lambda>i t. if masked (inp ! i) \<and> i16 (inp ! i) > t then i16 (inp ! i) else t) [0..<n] (-32768)
        = fold max (map (\<lambda>i. i16 (inp ! i)) kept) (-32768)"
      by (simp add: running_max fk)
    also have "map (\<lambda>i. i16 (inp ! i)) kept = map (\<lambda>i. xs ! i) kept" by (auto simp: kept_def score)
    also have "fold max (map (\<lambda>i. xs ! i) kept) (-32768) = M"
      unfolding M_def by (rule fold_max_floor) (use False x16 in \<open>auto simp: kept_def\<close>)
    finally have cm: "fold (\<lambda>i t. if masked (inp ! i) \<and> i16 (inp ! i) > t then i16 (inp ! i) else t) [0..<n] (-32768) = M" .
    have le: "xs ! i \<le> M" if "i < n" "ms ! i \<noteq> 0" for i
      unfolding M_def by (rule py_max_ge) (use that in \<open>auto simp: kept_def\<close>)
    define ws where "ws = map (\<lambda>i. if ms ! i \<noteq> 0 then exp_weight (M - xs ! i) else 0) [0..<n]"
    have cw: "map (\<lambda>i. if masked (inp ! i) then exponential exp_table (M - i16 (inp ! i)) else 0) [0..<n] = ws"
      using le by (auto simp: ws_def mask score exponential_eq)
    have "rmap (\<lambda>(raw, keep). if keep then exp_negative_int (M - raw) else Inr 0) (zip xs (map (\<lambda>v. v \<noteq> 0) ms))
        = Inr (map (\<lambda>(raw, keep). if keep then exp_weight (M - raw) else 0) (zip xs (map (\<lambda>v. v \<noteq> 0) ms)))"
      by (rule rmap_total) (use le ck(2) mw(3) in \<open>auto simp: in_set_zip exp_negative_int_eq\<close>)
    also have "map (\<lambda>(raw, keep). if keep then exp_weight (M - raw) else 0) (zip xs (map (\<lambda>v. v \<noteq> 0) ms)) = ws"
      using ck(2) mw(3) by (intro nth_equalityI) (auto simp: ws_def)
    finally have rm: "rmap (\<lambda>(raw, keep). if keep then exp_negative_int (M - raw) else Inr 0) (zip xs (map (\<lambda>v. v \<noteq> 0) ms)) = Inr ws" .
    obtain out where nw: "normalize_weights ws = Inr out" and ro: "r = vec UInt16 out"
    proof (cases "normalize_weights ws")
      case (Inr out)
      then have "softmax_int a m = Inr (vec UInt16 out)"
        using ck mb mw none False rm zk by (simp add: softmax_int_def Let_def flip: xs_def ms_def M_def)
      then show ?thesis using that Inr r by (simp add: sfpu_result_def ps)
    next
      case (Inl e)
      then have "softmax_int a m = Inl e"
        using ck mb mw none False rm zk by (simp add: softmax_int_def Let_def flip: xs_def ms_def M_def)
      then show ?thesis using r by (simp add: sfpu_result_def ps)
    qed
    have good: "good_result SOFTMAX n (Inr r :: ndarray res)"
      using sfpu_result_good [OF v x p] r n by simp
    have "c_softmax exp_table n inp = Inr out"
      using nw False unfolding c_softmax_def Let_def cm cw fk normalize_weights_def PROB_SCALE_def
      by (auto split: prod.splits if_splits)
    moreover have "nd_elems r = out"
    proof -
      have nn: "\<forall>w\<in>set ws. 0 \<le> w" using le by (auto simp: ws_def intro!: exp_weight_nonneg)
      have "sum_list ws \<noteq> 0" using nw by (auto simp: normalize_weights_def)
      then have pos: "0 < sum_list ws" using sum_list_nonneg [of ws] nn by force
      obtain out' where o: "normalize_weights ws = Inr out'" "length out' = length ws" "sum_list out' = 32768"
        "\<And>i. i < length ws \<Longrightarrow> 0 \<le> out' ! i" using normalize_weights_spec [OF nn pos] by metis
      have "0 \<le> u \<and> u \<le> 32768" if "u \<in> set out" for u
        using that o nw member_le_sum_list [of u out] by (fastforce simp: in_set_conv_nth)
      then show ?thesis unfolding ro by (intro elems_vec_id) (fastforce simp: list_all_iff)
    qed
    ultimately show ?thesis by simp
  qed
qed

section \<open>The whole kernel\<close>

lemma kernel_exact:
  assumes v: "sfpu_validate d = Inr ()" and x: "op_of (sd_op d) = Some x" and p: "planes_ok d x ps"
    and e: "evaluate_and_pack d ps = Inr (ins, outs)" and s: "seed_ok sqrtl"
  shows "CpuSfpu sqrtl d (vec UInt32 ins) = Inr (map (np_cast Int32) outs)"
proof -
  obtain r :: ndarray where ev: "evaluate_and_pack d ps = Inr (if x = SOFTMAX
        then map2 softmax_word (as_words (nd_elems (ps ! 0))) (map (np_cast UInt32) (nd_elems (ps ! 1)))
        else as_words (concat (map nd_elems ps)), as_words (nd_elems r))"
    and r: "sfpu_result d x ps = Inr r" and range: "list_all (\<lambda>v. op_low x \<le> v \<and> v \<le> op_high x) (nd_elems r)"
    by (rule evaluate_and_pack_eq [OF v x p]) (rule that)
  define ins' where "ins' = (if x = SOFTMAX
        then map2 softmax_word (as_words (nd_elems (ps ! 0))) (map (np_cast UInt32) (nd_elems (ps ! 1)))
        else as_words (concat (map nd_elems ps)))"
  have io: "ins = ins'" and io2: "outs = as_words (nd_elems r)" using e ev by (simp_all add: ins'_def)
  note packet = input_packet [OF p x, folded ins'_def]
  have words: "nd_elems (vec UInt32 ins) = ins"
    unfolding io by (rule elems_vec_id, rule packet(2)) (use request_bounds(1) [OF v x] in simp)
  define inp where "inp = map (np_cast Int32) ins"
  define n where "n = nat (sd_length d)"
  have ret: "map (np_cast Int32) outs = nd_elems r"
    unfolding io2 by (rule as_words_back) (use range in \<open>auto simp: list_all_iff op_low_def op_high_def split: if_splits\<close>)
  have cc: "x \<noteq> SOFTMAX \<Longrightarrow> inp = concat (map nd_elems ps)"
    unfolding inp_def by (rule plane_words [OF v x _ p e])
  have "pa_m4_sfpu sqrtl (sd_op d) (sd_length d) (sd_shift d) (take_bit 32 (sd_multiplier d)) inp gelu_table exp_table
      = Some (Inr (nd_elems r))"
    unfolding kernel_accepts [OF v x] n_def [symmetric]
  proof (cases x)
    case GELU
    then show "(if x = LAYERNORM then c_layernorm sqrtl n inp else if x = SOFTMAX then Some (c_softmax exp_table n inp)
      else Some (lanes (c_lane gelu_table (op_code x) n (sd_shift d) (sd_multiplier d) inp) [0..<n])) = Some (Inr (nd_elems r))"
      using kernel_gelu [OF v _ _ n_def _ cc] x p r by simp
  next
    case LAYERNORM
    then show "(if x = LAYERNORM then c_layernorm sqrtl n inp else if x = SOFTMAX then Some (c_softmax exp_table n inp)
      else Some (lanes (c_lane gelu_table (op_code x) n (sd_shift d) (sd_multiplier d) inp) [0..<n])) = Some (Inr (nd_elems r))"
      using kernel_layernorm [OF v _ _ n_def _ cc s] x p r by simp
  next
    case SOFTMAX
    have "inp = map (np_cast Int32) (map2 softmax_word (as_words (nd_elems (ps ! 0))) (map (np_cast UInt32) (nd_elems (ps ! 1))))"
      using SOFTMAX io by (simp add: inp_def ins'_def)
    then show "(if x = LAYERNORM then c_layernorm sqrtl n inp else if x = SOFTMAX then Some (c_softmax exp_table n inp)
      else Some (lanes (c_lane gelu_table (op_code x) n (sd_shift d) (sd_multiplier d) inp) [0..<n])) = Some (Inr (nd_elems r))"
      using kernel_softmax [OF v _ _ n_def] x p r SOFTMAX by simp
  next
    case AFFINE
    then show "(if x = LAYERNORM then c_layernorm sqrtl n inp else if x = SOFTMAX then Some (c_softmax exp_table n inp)
      else Some (lanes (c_lane gelu_table (op_code x) n (sd_shift d) (sd_multiplier d) inp) [0..<n])) = Some (Inr (nd_elems r))"
      using kernel_affine [OF v _ _ n_def _ cc] x p r request_bounds(5) [OF v x] by simp
  next
    case REQUANT8
    then show "(if x = LAYERNORM then c_layernorm sqrtl n inp else if x = SOFTMAX then Some (c_softmax exp_table n inp)
      else Some (lanes (c_lane gelu_table (op_code x) n (sd_shift d) (sd_multiplier d) inp) [0..<n])) = Some (Inr (nd_elems r))"
      using kernel_requant [OF v _ _ n_def _ cc] x p r by simp
  next
    case AFFINE_GELU
    then show "(if x = LAYERNORM then c_layernorm sqrtl n inp else if x = SOFTMAX then Some (c_softmax exp_table n inp)
      else Some (lanes (c_lane gelu_table (op_code x) n (sd_shift d) (sd_multiplier d) inp) [0..<n])) = Some (Inr (nd_elems r))"
      using kernel_affine_gelu [OF v _ _ n_def _ cc] x p r request_bounds(5) [OF v x] by simp
  next
    case ADD
    then show "(if x = LAYERNORM then c_layernorm sqrtl n inp else if x = SOFTMAX then Some (c_softmax exp_table n inp)
      else Some (lanes (c_lane gelu_table (op_code x) n (sd_shift d) (sd_multiplier d) inp) [0..<n])) = Some (Inr (nd_elems r))"
      using kernel_add [OF v _ _ n_def _ cc] x p r by simp
  qed
  then show ?thesis
    using v packet(1) request_bounds(1) [OF v x] io unfolding CpuSfpu_def words inp_def [symmetric] by (simp add: ret)
qed

end
