(* ===== verification/Backends.thy ===== *)
theory Backends
  imports OffloadLaws CpuLaws SfpuProps
begin

text \<open>
  The interface between the scheduler and the packet engines (\<open>packet_backend\<close>): an engine that is
  ready answers a valid request with the reference's words and stays ready. The scheduler's
  operators are proved once over the interface; the native CPU backend of \<open>zynq/m4_offload.py\<close>
  provides it.
\<close>

section \<open>The CPU backend\<close>

type_synonym counter = "string \<Rightarrow> int"

definition bump :: "string \<Rightarrow> int \<Rightarrow> counter \<Rightarrow> counter" where
  "bump key n c = c(key := c key + n)"

definition CpuBackend_gemm :: "ndarray \<Rightarrow> ndarray \<Rightarrow> nat \<Rightarrow> (counter, ndarray) act" where
  "CpuBackend_gemm a tiles n =
     bseq (modify (bump ''gemm_macs'' (int (nd_shape a ! 0 * nd_shape a ! 1 * n))))
     (bseq (modify (bump ''gemm_logical_calls'' 1))
     (bseq (modify (bump ''gemm_equivalent_packets'' (int ((n + 15) div 16))))
       (lift_res (CpuGemm (astype Int8 a) tiles n))))"

definition CpuBackend_sfpu :: "(int \<Rightarrow> int \<Rightarrow> int) \<Rightarrow> sfpu_descriptor \<Rightarrow> ndarray \<Rightarrow> (counter, int list) act" where
  "CpuBackend_sfpu sqrtl d words =
     bseq (modify (bump (''sfpu_'' @ str_of_nat (nat (sd_op d))) 1))
     (bseq (modify (bump ''sfpu_elements'' (sd_length d)))
       (lift_res (CpuSfpu sqrtl d words)))"

definition CpuBackend :: "(int \<Rightarrow> int \<Rightarrow> int) \<Rightarrow> counter backend" where
  "CpuBackend sqrtl = \<lparr>be_gemm = CpuBackend_gemm, be_sfpu = CpuBackend_sfpu sqrtl\<rparr>"

section \<open>The interface\<close>

locale packet_backend =
  fixes B :: "'b backend" and ready :: "'b \<Rightarrow> bool"
  assumes sfpu_exact: "ready b \<Longrightarrow> sfpu_validate d = Inr () \<Longrightarrow> op_of (sd_op d) = Some x \<Longrightarrow> planes_ok d x ps
      \<Longrightarrow> evaluate_and_pack d ps = Inr (ins, outs)
      \<Longrightarrow> \<exists>c. be_sfpu B d (vec UInt32 ins) b = (Inr (map (np_cast Int32) outs), c) \<and> ready c"
    and gemm_exact: "ready b \<Longrightarrow> int8_matrix a m k \<Longrightarrow> nd_dtype a = Int8 \<Longrightarrow> int8_matrix w k n
      \<Longrightarrow> 1 \<le> m \<Longrightarrow> m \<le> 16 \<Longrightarrow> n \<le> 50257 \<Longrightarrow> tile_weights w = Inr tiles
      \<Longrightarrow> \<exists>c. be_gemm B a tiles n b
            = (Inr \<lparr>nd_dtype = Int32, nd_shape = [m, n], nd_elems = rows_of m n (dot a w)\<rparr>, c) \<and> ready c"

text \<open>One lane of the elementwise operations on whole planes.\<close>

fun lane_value :: "op \<Rightarrow> nat \<Rightarrow> int \<Rightarrow> int list list \<Rightarrow> nat \<Rightarrow> int" where
  "lane_value GELU s m ps i = gelu1 (ps ! 0 ! i)"
| "lane_value ADD s m ps i = sat16 (ps ! 0 ! i + ps ! 1 ! i)"
| "lane_value AFFINE s m ps i = sat16 (rne_val (ps ! 0 ! i * ps ! 1 ! i) (2 ^ s) + ps ! 2 ! i)"
| "lane_value REQUANT8 s m ps i = max (-128) (min 127 (rne_val (ps ! 0 ! i * m) (2 ^ s)))"
| "lane_value _ s m ps i = 0"

definition all_between :: "int \<Rightarrow> int \<Rightarrow> int list \<Rightarrow> bool" where
  "all_between lo hi xs \<longleftrightarrow> (\<forall>v\<in>set xs. lo \<le> v \<and> v \<le> hi)"

text \<open>Planes an elementwise operation accepts, of any length.\<close>

definition lanes_ok :: "op \<Rightarrow> nat \<Rightarrow> nat \<Rightarrow> int \<Rightarrow> int list list \<Rightarrow> bool" where
  "lanes_ok x n s m ps \<longleftrightarrow> (\<forall>p\<in>set ps. length p = n) \<and>
     (case x of
        GELU \<Rightarrow> length ps = 1 \<and> all_between (-32768) 32767 (ps ! 0) \<and> s = 0 \<and> m = 0
      | ADD \<Rightarrow> length ps = 2 \<and> all_between (-32768) 32767 (ps ! 0) \<and> all_between (-32768) 32767 (ps ! 1) \<and> s = 0 \<and> m = 0
      | AFFINE \<Rightarrow> length ps = 3 \<and> all_between (-(2 ^ 31)) (2 ^ 31 - 1) (ps ! 0) \<and> all_between 0 (2 ^ 31 - 1) (ps ! 1)
          \<and> all_between (-(2 ^ 31)) (2 ^ 31 - 1) (ps ! 2) \<and> s \<le> 31 \<and> m = 0
      | REQUANT8 \<Rightarrow> length ps = 1 \<and> all_between (-(2 ^ 31)) (2 ^ 31 - 1) (ps ! 0) \<and> s \<le> 31 \<and> 0 \<le> m \<and> m < 2 ^ 31
      | _ \<Rightarrow> False)"

lemma lanes_ok_ops: "lanes_ok x n s m ps \<Longrightarrow> x \<in> {GELU, ADD, AFFINE, REQUANT8}"
  by (cases x) (auto simp: lanes_ok_def)

lemma all_between_take_drop: "all_between lo hi xs \<Longrightarrow> all_between lo hi (take a (drop b xs))"
  by (auto simp: all_between_def dest!: in_set_takeD in_set_dropD)

lemma lane_ok_vec:
  assumes "all_between lo hi p" "-(2 ^ 31) \<le> lo" "hi < 2 ^ 31"
  shows "lane_ok (vec Int32 p) lo hi" "nd_elems (vec Int32 p) = p" "nd_wf (vec Int32 p)"
proof -
  have a: "list_all (in_dtype Int32) p" using assms by (fastforce simp: all_between_def list_all_iff)
  show e: "nd_elems (vec Int32 p) = p" by (rule elems_vec_id [OF a])
  show "lane_ok (vec Int32 p) lo hi"
    using assms(1) unfolding lane_ok_def e by (auto simp: all_between_def list_all_iff np_integer_def)
  show "nd_wf (vec Int32 p)" by (rule vec_wf [OF a])
qed

text \<open>A chunk below the operation's limit: its descriptor is valid, its planes are accepted, the
  reference evaluates it lane by lane, and the scheduler's words are the reference's.\<close>

lemma lanes_planes:
  assumes ok: "lanes_ok x n s m ps" and i: "i < length ps"
  shows "\<exists>lo hi. all_between lo hi (ps ! i) \<and> -(2 ^ 31) \<le> lo \<and> hi < 2 ^ 31"
proof -
  have e: "-(2 ^ 31) \<le> (-32768 :: int)" "(32767 :: int) < 2 ^ 31" "-(2 ^ 31) \<le> (0 :: int)" "-(2 ^ 31) \<le> (-(2 ^ 31) :: int)"
    "(2 ^ 31 - 1 :: int) < 2 ^ 31" by simp_all
  have "all_between (-32768) 32767 (ps ! i) \<or> all_between (-(2 ^ 31)) (2 ^ 31 - 1) (ps ! i) \<or> all_between 0 (2 ^ 31 - 1) (ps ! i)"
  proof (cases x)
    case ADD
    then have "i = 0 \<or> i = 1" using ok i less_2_3(1) by (simp add: lanes_ok_def)
    then show ?thesis using ok ADD by (elim disjE) (simp_all add: lanes_ok_def)
  next
    case AFFINE
    then have "i = 0 \<or> i = 1 \<or> i = 2" using ok i less_2_3(2) by (simp add: lanes_ok_def)
    then show ?thesis using ok AFFINE by (elim disjE) (simp_all add: lanes_ok_def)
  qed (use ok i in \<open>simp_all add: lanes_ok_def\<close>)
  then show ?thesis using e by blast
qed

lemma vec_planes:
  assumes ok: "lanes_ok x n s m ps" and i: "i < length ps"
  shows "nd_elems (vec Int32 (ps ! i)) = ps ! i" "nd_wf (vec Int32 (ps ! i))" "length (ps ! i) = n"
    "nd_shape (vec Int32 (ps ! i)) = [n]"
proof -
  obtain lo hi where "all_between lo hi (ps ! i)" "-(2 ^ 31) \<le> lo" "hi < 2 ^ 31" using lanes_planes [OF assms] by blast
  then show "nd_elems (vec Int32 (ps ! i)) = ps ! i" "nd_wf (vec Int32 (ps ! i))" by (rule lane_ok_vec)+
  show "length (ps ! i) = n" using ok i by (simp add: lanes_ok_def)
  then show "nd_shape (vec Int32 (ps ! i)) = [n]" by simp
qed

lemma lane_ok_between:
  "all_between (-32768) 32767 p \<Longrightarrow> lane_ok (vec Int32 p) (-32768) 32767"
  "all_between (-(2 ^ 31)) (2 ^ 31 - 1) p \<Longrightarrow> lane_ok (vec Int32 p) (-(2 ^ 31)) (2 ^ 31 - 1)"
  "all_between 0 (2 ^ 31 - 1) p \<Longrightarrow> lane_ok (vec Int32 p) 0 (2 ^ 31 - 1)"
  by (rule lane_ok_vec; simp)+

lemma chunk_valid:
  assumes ok: "lanes_ok x n s m ps" and n: "1 \<le> n" "n \<le> 3072"
  defines "d \<equiv> SfpuDescriptor (op_code x) (int n) (int s) m 0"
  shows "sfpu_validate d = Inr ()" "op_of (sd_op d) = Some x" "planes_ok d x (map (vec Int32) ps)"
proof -
  have x: "x \<in> {GELU, ADD, AFFINE, REQUANT8}" by (rule lanes_ok_ops [OF ok])
  show o: "op_of (sd_op d) = Some x" by (simp add: d_def SfpuDescriptor_def)
  have f: "sd_length d = int n" "sd_shift d = int s" "sd_multiplier d = m" "sd_tag d = 0"
    by (simp_all add: d_def SfpuDescriptor_def)
  show "sfpu_validate d = Inr ()"
    unfolding sfpu_validate_def o f using x ok n by (elim insertE) (auto simp: lanes_ok_def push_bit_eq_mult)
  have shapes: "list_all (\<lambda>p. nd_wf p \<and> nd_shape p = [nat (sd_length d)]) (map (vec Int32) ps)"
    using vec_planes [OF ok] by (simp add: list_all_length d_def SfpuDescriptor_def)
  show "planes_ok d x (map (vec Int32) ps)"
  proof (cases x)
    case GELU
    then show ?thesis using shapes ok unfolding planes_ok_def lanes_ok_def by (simp add: lane_ok_between)
  next
    case ADD
    then show ?thesis using shapes ok unfolding planes_ok_def lanes_ok_def
      by (auto simp: list_all_length less_2_3 intro!: lane_ok_between)
  next
    case AFFINE
    then show ?thesis using shapes ok unfolding planes_ok_def lanes_ok_def
      by (simp add: lane_ok_between lane_ok_between [simplified])
  next
    case REQUANT8
    then show ?thesis using shapes ok unfolding planes_ok_def lanes_ok_def by (simp add: lane_ok_between [simplified])
  qed (use x in simp_all)
qed

lemma chunk_result:
  assumes ok: "lanes_ok x n s m ps" and n: "1 \<le> n" "n \<le> 3072"
  defines "d \<equiv> SfpuDescriptor (op_code x) (int n) (int s) m 0"
  shows "\<exists>t. sfpu_result d x (map (vec Int32) ps) = Inr (vec t (map (lane_value x s m ps) [0..<n]))
     \<and> list_all (in_dtype t) (map (lane_value x s m ps) [0..<n])"
proof -
  note v = chunk_valid [OF ok n, folded d_def]
  have f: "sd_shift d = int s" "sd_multiplier d = m" by (simp_all add: d_def SfpuDescriptor_def)
  have ck: "checked_vector (vec Int32 (ps ! i)) MAX_VECTOR lo hi = Inr (ps ! i)"
    if "i < length ps" "lane_ok (vec Int32 (ps ! i)) lo hi" for i lo hi
    using request_planes(1) [OF v, of i lo hi] vec_planes(1) [OF ok that(1)] that by simp
  have len: "length (ps ! i) = n" if "i < length ps" for i using vec_planes(3) [OF ok that] .
  have s: "0 \<le> int s" "int s \<le> 31" using ok by (cases x; simp add: lanes_ok_def)+
  show ?thesis
  proof (cases x)
    case GELU
    have p: "length ps = 1" "all_between (-32768) 32767 (ps ! 0)"
      using ok GELU by (simp_all add: lanes_ok_def)
    then have c: "checked16 (vec Int32 (ps ! 0)) = Inr (ps ! 0)" by (intro ck lane_ok_between) simp_all
    have m: "map gelu1 (ps ! 0) = map (lane_value x s m ps) [0..<n]"
      using len [of 0] p GELU by (intro nth_equalityI) simp_all
    show ?thesis using gelu_int_eq [OF c] p unfolding m by (intro exI [of _ Int16]) (simp add: sfpu_result_def GELU)
  next
    case ADD
    have p: "length ps = 2" "all_between (-32768) 32767 (ps ! 0)" "all_between (-32768) 32767 (ps ! 1)"
      using ok ADD by (simp_all add: lanes_ok_def)
    then have c: "checked16 (vec Int32 (ps ! 0)) = Inr (ps ! 0)" "checked16 (vec Int32 (ps ! 1)) = Inr (ps ! 1)"
      by (intro ck lane_ok_between; simp)+
    have l: "length (ps ! 0) = n" "length (ps ! 1) = n" using len p(1) by simp_all
    have r: "sfpu_result d x (map (vec Int32) ps) = Inr (vec Int16 (map (lane_value x s m ps) [0..<n]))"
      using add_int_eq [OF c] l p(1) by (simp add: sfpu_result_def ADD)
    show ?thesis by (rule exI [of _ Int16]) (simp add: r, simp add: ADD list_all_iff)
  next
    case AFFINE
    have p: "length ps = 3" "all_between (-(2 ^ 31)) (2 ^ 31 - 1) (ps ! 0)" "all_between 0 (2 ^ 31 - 1) (ps ! 1)"
      "all_between (-(2 ^ 31)) (2 ^ 31 - 1) (ps ! 2)" using ok AFFINE by (simp_all only: lanes_ok_def op.simps)
    have c: "checked31 (vec Int32 (ps ! 0)) (-(2 ^ 31)) = Inr (ps ! 0)" "checked31 (vec Int32 (ps ! 1)) 0 = Inr (ps ! 1)"
      "checked31 (vec Int32 (ps ! 2)) (-(2 ^ 31)) = Inr (ps ! 2)"
      using p by (intro ck lane_ok_between; simp only:; simp)+
    have l: "length (ps ! 0) = n" "length (ps ! 1) = n" "length (ps ! 2) = n" using len p(1) by simp_all
    have r: "sfpu_result d x (map (vec Int32) ps) = Inr (vec Int16 (map (lane_value x s m ps) [0..<n]))"
      using affine_int_eq [OF c _ _ s] l p(1) by (simp add: sfpu_result_def AFFINE f)
    show ?thesis by (rule exI [of _ Int16]) (simp add: r, simp add: AFFINE list_all_iff)
  next
    case REQUANT8
    have p: "length ps = 1" "all_between (-(2 ^ 31)) (2 ^ 31 - 1) (ps ! 0)" "0 \<le> m" "m < 2 ^ 31"
      using ok REQUANT8 by (simp_all only: lanes_ok_def op.simps)
    have c: "checked31 (vec Int32 (ps ! 0)) (-(2 ^ 31)) = Inr (ps ! 0)"
      using p by (intro ck lane_ok_between) simp_all
    have l: "length (ps ! 0) = n" using len p(1) by simp
    have r: "sfpu_result d x (map (vec Int32) ps) = Inr (vec Int8 (map (lane_value x s m ps) [0..<n]))"
      using requantize_int8_eq [OF c p(3,4) s] l p(1) by (simp add: sfpu_result_def REQUANT8 f)
    show ?thesis by (rule exI [of _ Int8]) (simp add: r, auto simp: REQUANT8 list_all_iff intro: le_less_trans [of _ 127])
  qed (use lanes_ok_ops [OF ok] in simp_all)
qed

lemma chunk_evaluates:
  assumes ok: "lanes_ok x n s m ps" and n: "1 \<le> n" "n \<le> 3072"
  defines "d \<equiv> SfpuDescriptor (op_code x) (int n) (int s) m 0"
  obtains outs where "evaluate_and_pack d (map (vec Int32) ps) = Inr (packet_words x ps, outs)"
    "map (np_cast Int32) outs = map (lane_value x s m ps) [0..<n]"
proof -
  note v = chunk_valid [OF ok n, folded d_def]
  have x: "x \<noteq> SOFTMAX" using lanes_ok_ops [OF ok] by auto
  obtain t where t: "sfpu_result d x (map (vec Int32) ps) = Inr (vec t (map (lane_value x s m ps) [0..<n]))"
    "list_all (in_dtype t) (map (lane_value x s m ps) [0..<n])" using chunk_result [OF ok n, folded d_def] by blast
  obtain r :: ndarray where r: "evaluate_and_pack d (map (vec Int32) ps) = Inr (if x = SOFTMAX
        then map2 softmax_word (as_words (nd_elems (map (vec Int32) ps ! 0))) (map (np_cast UInt32) (nd_elems (map (vec Int32) ps ! 1)))
        else as_words (concat (map nd_elems (map (vec Int32) ps))), as_words (nd_elems r))"
    "sfpu_result d x (map (vec Int32) ps) = Inr r" "list_all (\<lambda>v. op_low x \<le> v \<and> v \<le> op_high x) (nd_elems r)"
    by (rule evaluate_and_pack_eq [OF v]) (rule that)
  have e: "nd_elems r = map (lane_value x s m ps) [0..<n]"
    using r(2) t(1) elems_vec_id [OF t(2)] by simp
  have "map nd_elems (map (vec Int32) ps) = ps" using vec_planes(1) [OF ok] by (intro nth_equalityI) simp_all
  then have w: "as_words (concat (map nd_elems (map (vec Int32) ps))) = packet_words x ps"
    using x by (simp add: packet_words_def as_words_def)
  have "-(2 ^ 31) \<le> op_low x" "op_high x < 2 ^ 31" by (simp_all add: op_low_def op_high_def)
  then have "list_all (\<lambda>v. -(2 ^ 31) \<le> v \<and> v < 2 ^ 31) (nd_elems r)" using r(3) by (fastforce simp: list_all_iff)
  from as_words_back [OF this] show ?thesis using r(1) x w e by (intro that) simp_all
qed

section \<open>Actions that answer\<close>

text \<open>From every runtime whose backend is ready the action returns this value, and leaves the backend ready.\<close>

definition gives :: "('b \<Rightarrow> bool) \<Rightarrow> ('b runtime, 'a) act \<Rightarrow> 'a \<Rightarrow> bool" where
  "gives rd m v \<longleftrightarrow> (\<forall>s. rd (rt_backend s) \<longrightarrow> (\<exists>s'. m s = (Inr v, s') \<and> rd (rt_backend s')))"

named_theorems gives_intros "rules that follow the answer of an action through its parts"

lemma gives_ret [gives_intros]: "gives rd (ret v) v"
  by (simp add: gives_def)

lemma gives_lift [gives_intros]: "gives rd (lift_res (Inr v)) v"
  by (simp add: gives_def)

lemma gives_count [gives_intros]: "gives rd (metadata_count key n) ()"
  by (simp add: gives_def metadata_count_def)

lemma gives_bind [gives_intros]: "gives rd m v \<Longrightarrow> gives rd (f v) w \<Longrightarrow> gives rd (bind m f) w"
  unfolding gives_def by (metis bind_Inr)

lemma gives_bseq [gives_intros]: "gives rd m () \<Longrightarrow> gives rd k w \<Longrightarrow> gives rd (bseq m k) w"
  unfolding bseq_def by (rule gives_bind)

lemma gives_mapM [gives_intros]:
  assumes "\<And>x. x \<in> set xs \<Longrightarrow> gives rd (f x) (g x)"
  shows "gives rd (mapM_act f xs) (map g xs)"
  using assms by (induction xs) (auto intro!: gives_ret intro: gives_bind)

section \<open>Chunks\<close>

lemma starts_concat:
  assumes "0 < c"
  shows "concat (map (\<lambda>s. [s..<min n (s + c)]) (starts n c)) = [0..<n]"
proof -
  have "concat (map (\<lambda>i. [i * c..<min n (i * c + c)]) [0..<k]) = [0..<min n (k * c)]" for k
  proof (induction k)
    case (Suc k)
    have "[0..<min n (k * c)] @ [k * c..<min n (k * c + c)] = [0..<min n (k * c + c)]"
    proof (cases "k * c \<le> n")
      case True
      then show ?thesis using upt_add_eq_append [of 0 "k * c" "min n (k * c + c) - k * c"] by (simp add: min_def)
    qed (simp add: min_def)
    then show ?case using Suc by (simp add: add.commute)
  qed simp
  moreover have "n \<le> (n + c - 1) div c * c"
    using assms div_mod_decomp [of "n + c - 1" c] mod_less_divisor [OF assms, of "n + c - 1"] by linarith
  ultimately show ?thesis by (simp add: starts_def comp_def min_absorb1)
qed

lemma starts_less: "start \<in> set (starts n c) \<Longrightarrow> 0 < c \<Longrightarrow> start < n"
  by (auto simp: starts_def less_eq_div_iff_mult_less_eq Suc_le_eq[symmetric])

lemma lanes_ok_chunk:
  assumes "lanes_ok x n s m ps"
  shows "lanes_ok x (min (n - a) c) s m (map (\<lambda>p. take c (drop a p)) ps)"
  using assms lanes_ok_ops [OF assms]
  by (elim insertE; simp add: lanes_ok_def all_between_take_drop min.commute)

lemma lane_value_chunk:
  assumes "lanes_ok x n s m ps" "a + i < n" "i < c"
  shows "lane_value x s m (map (\<lambda>p. take c (drop a p)) ps) i = lane_value x s m ps (a + i)"
proof -
  have "ps ! k \<in> set ps" if "k < length ps" for k using that by simp
  then have "map (\<lambda>p. take c (drop a p)) ps ! k ! i = ps ! k ! (a + i)" if "k < length ps" for k
    using that assms by (simp add: lanes_ok_def)
  then show ?thesis using assms(1) lanes_ok_ops [OF assms(1)] by (elim insertE; simp add: lanes_ok_def)
qed

section \<open>Dynamic requantisation as a specification\<close>

text \<open>A vector's multiplier, its codes and its unit, from the vector alone.\<close>

definition quant_multiplier :: "int list \<Rightarrow> int" where
  "quant_multiplier xs = (let M = py_max (map abs xs) in if M = 0 then 0 else rne_val (127 * 2 ^ 24) M)"

definition quant_codes :: "int list \<Rightarrow> int list" where
  "quant_codes xs = map (\<lambda>v. rne_val (v * quant_multiplier xs) (2 ^ 24)) xs"

definition quant_unit :: "f64 \<Rightarrow> int list \<Rightarrow> f64" where
  "quant_unit u xs = (if quant_multiplier xs = 0 then Fin 1 else fmul (fdiv (f_int (2 ^ 24)) (f_int (quant_multiplier xs))) u)"

lemma requant_multiplier_rne: "0 < M \<Longrightarrow> requant_multiplier M = rne_val (127 * 2 ^ 24) M"
  by (auto simp: requant_multiplier_def rne_val_def rne_up_def Let_def push_bit_eq_mult)

lemma batched_multiplier_rne: "0 \<le> M \<Longrightarrow> batched_multiplier M = (if M = 0 then 0 else rne_val (127 * 2 ^ 24) M)"
  using requant_multiplier_rne [of M]
  by (auto simp: batched_multiplier_def requant_multiplier_def Let_def max_absorb1 odd_iff_mod_2_eq_one)

lemma quant_range:
  assumes "xs \<noteq> []" "all_between (-32768) 32768 xs"
  shows "0 \<le> py_max (map abs xs)" "py_max (map abs xs) \<le> 32768" "v \<in> set xs \<Longrightarrow> \<bar>v\<bar> \<le> py_max (map abs xs)"
proof -
  have "py_max (map abs xs) \<in> set (map abs xs)" using assms(1) by (intro py_max_in) simp
  then obtain w where "w \<in> set xs" "py_max (map abs xs) = \<bar>w\<bar>" by auto
  then show "0 \<le> py_max (map abs xs)" "py_max (map abs xs) \<le> 32768" using assms(2) by (auto simp: all_between_def)
  show "v \<in> set xs \<Longrightarrow> \<bar>v\<bar> \<le> py_max (map abs xs)" by (rule py_max_ge) simp
qed

lemma quant_multiplier_range:
  assumes "xs \<noteq> []" "all_between (-32768) 32768 xs"
  shows "0 \<le> quant_multiplier xs" "quant_multiplier xs < 2 ^ 31"
    "py_max (map abs xs) \<noteq> 0 \<Longrightarrow> 0 < quant_multiplier xs"
    "v \<in> set xs \<Longrightarrow> \<bar>rne_val (v * quant_multiplier xs) (2 ^ 24)\<bar> \<le> 127"
proof -
  define M where "M = py_max (map abs xs)"
  have M: "0 \<le> M" "M \<le> 32768" and le: "v \<in> set xs \<Longrightarrow> \<bar>v\<bar> \<le> M" using quant_range [OF assms] by (auto simp: M_def)
  have q: "quant_multiplier xs = (if M = 0 then 0 else rne_val (127 * 2 ^ 24) M)" by (simp add: quant_multiplier_def M_def)
  show r: "0 \<le> quant_multiplier xs" "quant_multiplier xs < 2 ^ 31" using dynamic_multiplier [of M] M by (auto simp: q)
  show "0 < quant_multiplier xs" if "py_max (map abs xs) \<noteq> 0"
  proof -
    have M0: "0 < M" using that M by (simp add: M_def)
    have "65023 * M \<le> 127 * 2 ^ 24 - M" using M by simp
    moreover have "2 * \<bar>rne_val (127 * 2 ^ 24) M * M - 127 * 2 ^ 24\<bar> \<le> M" using dynamic_multiplier(3) M0 M by blast
    ultimately have "0 < rne_val (127 * 2 ^ 24) M * M" using M0 by (smt (verit))
    then show ?thesis using M0 by (simp add: q zero_less_mult_iff)
  qed
  show "\<bar>rne_val (v * quant_multiplier xs) (2 ^ 24)\<bar> \<le> 127" if "v \<in> set xs"
    using dynamic_code(1) [of M v "quant_multiplier xs"] le [OF that] M r dynamic_multiplier(3) [of M]
    by (cases "M = 0") (auto simp: q)
qed

context packet_backend
begin

lemma operator_chunk_exact:
  assumes ok: "lanes_ok x n s m ps" and a: "a < n"
  shows "gives ready (operator_chunk B x ps (int s) m 3072 a) (map (lane_value x s m ps) [a..<min n (a + 3072)])"
proof -
  define k where "k = min (n - a) 3072"
  define qs where "qs = map (\<lambda>p. take 3072 (drop a p)) ps"
  have k: "1 \<le> k" "k \<le> 3072" using a by (auto simp: k_def)
  have q: "lanes_ok x k s m qs" unfolding k_def qs_def by (rule lanes_ok_chunk [OF ok])
  have "qs \<noteq> []" using q lanes_ok_ops [OF q] by (auto simp: lanes_ok_def)
  then have hd: "length (qs ! 0) = k" using q by (simp add: lanes_ok_def)
  obtain outs where o: "evaluate_and_pack (SfpuDescriptor (op_code x) (int k) (int s) m 0) (map (vec Int32) qs) = Inr (packet_words x qs, outs)"
    "map (np_cast Int32) outs = map (lane_value x s m qs) [0..<k]" by (rule chunk_evaluates [OF q k])
  have "gives ready (on_backend (be_sfpu B (SfpuDescriptor (op_code x) (int k) (int s) m 0) (vec UInt32 (packet_words x qs))))
      (map (lane_value x s m qs) [0..<k])"
    unfolding gives_def zoom_res_def using sfpu_exact [OF _ chunk_valid [OF q k] o(1)] o(2) by force
  moreover have "fill k (map (lane_value x s m qs) [0..<k]) = Inr (map (lane_value x s m qs) [0..<k])"
    unfolding o(2) [symmetric] using map_eq_imp_length_eq [OF o(2)] by (simp add: fill_def)
  moreover have "map (lane_value x s m qs) [0..<k] = map (lane_value x s m ps) [a..<min n (a + 3072)]"
    using a lane_value_chunk [OF ok, of a _ 3072] by (intro nth_equalityI) (auto simp: k_def qs_def)
  ultimately show ?thesis
    unfolding operator_chunk_def Let_def by (fold qs_def) (auto simp: hd intro!: gives_intros)
qed

lemma operator_exact:
  assumes ok: "lanes_ok x n s m ps" and n: "1 \<le> n"
  shows "gives ready (operator B x ps (int s) m) (map (lane_value x s m ps) [0..<n])"
proof -
  have x: "x \<in> {GELU, ADD, AFFINE, REQUANT8}" by (rule lanes_ok_ops [OF ok])
  have "ps \<noteq> []" using ok x by (auto simp: lanes_ok_def)
  then have l: "length (ps ! 0) = n" "\<not> list_ex (\<lambda>p. length p \<noteq> n) ps" using ok by (auto simp: lanes_ok_def list_ex_iff)
  define c :: nat where "c = 3072"
  have c: "0 < c" by (simp add: c_def)
  have lim: "op_limit x = c" "\<not> (x \<in> {SOFTMAX, LAYERNORM} \<and> n > c)" using x by (auto simp: op_limit_def c_def)
  have "gives ready (mapM_act (operator_chunk B x ps (int s) m c) (starts n c))
      (map (\<lambda>a. map (lane_value x s m ps) [a..<min n (a + c)]) (starts n c))"
    by (intro gives_mapM operator_chunk_exact [OF ok, folded c_def] starts_less [OF _ c])
  moreover have "concat (map (\<lambda>a. map (lane_value x s m ps) [a..<min n (a + c)]) (starts n c))
      = map (lane_value x s m ps) [0..<n]"
    unfolding starts_concat [OF c, symmetric] by (simp only: map_concat map_map comp_def)
  ultimately have "gives ready (bind (mapM_act (operator_chunk B x ps (int s) m c) (starts n c)) (\<lambda>chunks. ret (concat chunks)))
      (map (lane_value x s m ps) [0..<n])" by (metis gives_bind gives_ret)
  then show ?thesis
    unfolding operator_def Let_def l(1) lim(1) using l(2) lim(2) by (simp only: if_False)
qed

lemma requant_exact:
  assumes "xs \<noteq> []" "all_between (-32768) 32768 xs"
  shows "gives ready (requant B xs u) (quant_codes xs, quant_unit u xs)"
proof -
  define M where "M = py_max (map abs xs)"
  note M = quant_range [OF assms, folded M_def]
  note q = quant_multiplier_range [OF assms, folded M_def]
  have c32: "map (np_cast Int32) xs = xs"
    by (rule map_np_cast_self) (use assms(2) in \<open>fastforce simp: all_between_def list_all_iff\<close>)
  have ok: "lanes_ok REQUANT8 (length xs) 24 (quant_multiplier xs) [xs]"
    using assms(2) q by (fastforce simp: lanes_ok_def all_between_def)
  have v: "map (lane_value REQUANT8 24 (quant_multiplier xs) [xs]) [0..<length xs] = quant_codes xs"
  proof (rule nth_equalityI)
    fix i assume "i < length (map (lane_value REQUANT8 24 (quant_multiplier xs) [xs]) [0..<length xs])"
    then have i: "i < length xs" by simp
    have "\<bar>rne_val (xs ! i * quant_multiplier xs) (2 ^ 24)\<bar> \<le> 127" using q(4) i by simp
    then show "map (lane_value REQUANT8 24 (quant_multiplier xs) [xs]) [0..<length xs] ! i = quant_codes xs ! i"
      using i by (simp add: quant_codes_def)
  qed (simp add: quant_codes_def)
  have g: "gives ready (operator B REQUANT8 [xs] 24 (quant_multiplier xs)) (quant_codes xs)"
    using operator_exact [OF ok] assms(1) unfolding v by (simp add: Suc_le_eq)
  have "list_all (in_dtype Int8) (quant_codes xs)"
    using q(4) by (fastforce simp: quant_codes_def list_all_iff)
  then have c8: "map (np_cast Int8) (quant_codes xs) = quant_codes xs" by (rule map_np_cast_self)
  have m: "(if M \<noteq> 0 then requant_multiplier M else 0) = quant_multiplier xs"
    using M(1) requant_multiplier_rne [of M] by (auto simp: quant_multiplier_def simp flip: M_def)
  have u: "(if M \<noteq> 0 then fmul (fdiv (f_int (2 ^ 24)) (f_int (quant_multiplier xs))) u else Fin 1) = quant_unit u xs"
    using q(3) by (auto simp: quant_unit_def quant_multiplier_def simp flip: M_def)
  have b: "\<not> (list_ex (\<lambda>v. v < -32768) xs \<or> list_ex (\<lambda>v. v > 32768) xs)"
    using assms(2) by (auto simp: all_between_def list_ex_iff not_less)
  have "gives ready (bind (operator B REQUANT8 [xs] 24 (quant_multiplier xs)) (\<lambda>r. ret (map (np_cast Int8) r, quant_unit u xs)))
      (quant_codes xs, quant_unit u xs)"
    using gives_bind [OF g, of "\<lambda>r. ret (map (np_cast Int8) r, quant_unit u xs)", unfolded c8, OF gives_ret] .
  then show ?thesis
    unfolding requant_def Let_def c32 M_def [symmetric] m u using b assms(1) by (simp only: if_False)
qed

end

section \<open>Matrices by rows and by columns\<close>

definition is_matrix :: "nat \<Rightarrow> nat \<Rightarrow> 'a list list \<Rightarrow> bool" where
  "is_matrix n c rows \<longleftrightarrow> length rows = n \<and> (\<forall>r\<in>set rows. length r = c)"

lemma is_matrix_nth: "is_matrix n c rows \<Longrightarrow> i < n \<Longrightarrow> length (rows ! i) = c"
  by (auto simp: is_matrix_def)

lemma matrix_index: "i < n \<Longrightarrow> j < c \<Longrightarrow> i * c + j < n * (c :: nat)"
  using mult_le_mono1 [of "Suc i" n c] by simp

lemma concat_matrix:
  assumes "is_matrix n c rows"
  shows "length (concat rows) = n * c" "i < n \<Longrightarrow> j < c \<Longrightarrow> concat rows ! (i * c + j) = rows ! i ! j"
proof -
  have l: "\<forall>r\<in>set rows. length r = c" "length rows = n" using assms by (auto simp: is_matrix_def)
  then show "length (concat rows) = n * c" by (induction rows arbitrary: n) auto
  show "concat rows ! (i * c + j) = rows ! i ! j" if "i < n" "j < c"
    using l that
  proof (induction rows arbitrary: n i)
    case (Cons r rows)
    then show ?case by (cases i) (auto simp: nth_append)
  qed simp
qed

text \<open>What \<open>requant_columns\<close> promises, by either route: the codes of every column, row by row, and its unit.\<close>

definition column_codes :: "int list list \<Rightarrow> nat \<Rightarrow> int list list" where
  "column_codes rows c = transp (length rows) (map (\<lambda>j. quant_codes (column rows j)) [0..<c])"

lemma column_codes_nth: "i < length rows \<Longrightarrow> column_codes rows c ! i = map (\<lambda>j. quant_codes (column rows j) ! i) [0..<c]"
  by (simp add: column_codes_def transp_def column_def)

context packet_backend
begin

lemma requant_columns_exact:
  assumes m: "is_matrix n c rows" "1 \<le> n" "n \<le> 3072" "1 \<le> c" and r: "\<forall>row\<in>set rows. all_between (-32768) 32768 row"
  shows "gives ready (requant_columns B rows u)
     (column_codes rows c, map (\<lambda>j. quant_unit u (column rows j)) [0..<c])"
proof -
  define cols where "cols = map (column rows) [0..<c]"
  have n: "length rows = n" using m by (simp add: is_matrix_def)
  have c32: "map (map (np_cast Int32)) rows = rows"
    using r by (intro map_idI map_np_cast_self) (fastforce simp: all_between_def list_all_iff)
  have colr: "column rows j \<noteq> []" "all_between (-32768) 32768 (column rows j)" if "j < c" for j
    using m r that by (auto simp: column_def is_matrix_def all_between_def)
  have hd: "(if rows = [] then 0 else length (hd rows)) = c" using m by (auto simp: is_matrix_def)
  have guards: "\<not> (\<not> (1 \<le> n \<and> n \<le> 3072) \<or> c = 0)"
    "\<not> (list_ex (list_ex (\<lambda>v. v < -32768)) rows \<or> list_ex (list_ex (\<lambda>v. v > 32768)) rows)"
    using m r by (auto simp: list_ex_iff all_between_def not_less)
  define slow where "slow = bind (mapM_act (\<lambda>i. requant B (column rows i) u) [0..<c]) (\<lambda>qs. ret (transp n (map fst qs), map snd qs))"
  have slow: "gives ready slow (column_codes rows c, map (\<lambda>j. quant_unit u (column rows j)) [0..<c])"
  proof -
    have "gives ready (mapM_act (\<lambda>i. requant B (column rows i) u) [0..<c])
        (map (\<lambda>i. (quant_codes (column rows i), quant_unit u (column rows i))) [0..<c])"
      using colr by (intro gives_mapM requant_exact) auto
    from gives_bind [OF this, of "\<lambda>qs. ret (transp n (map fst qs), map snd qs)", OF gives_ret] show ?thesis
      unfolding slow_def column_codes_def n by (simp add: comp_def)
  qed
  define mult where "mult = map (\<lambda>i. quant_multiplier (column rows i)) [0..<c]"
  have mults: "map batched_multiplier (map (\<lambda>i. py_max (map abs (column rows i))) [0..<c]) = mult"
    using quant_range(1) [OF colr] by (simp add: mult_def batched_multiplier_rne quant_multiplier_def Let_def cong: map_cong)
  have units: "map (batched_unit u) mult = map (\<lambda>j. quant_unit u (column rows j)) [0..<c]"
  proof -
    have "batched_unit u (quant_multiplier (column rows j)) = quant_unit u (column rows j)" if "j < c" for j
      using quant_multiplier_range(1) [OF colr [OF that]] by (auto simp: batched_unit_def quant_unit_def max_def dest: order_antisym)
    then show ?thesis by (simp add: mult_def cong: map_cong)
  qed
  define plane where "plane = concat (replicate n mult)"
  define codes where "codes = concat (column_codes rows c)"
  have pm: "is_matrix n c (replicate n mult)" by (auto simp: is_matrix_def mult_def)
  have cm: "is_matrix n c (column_codes rows c)"
    by (auto simp: is_matrix_def column_codes_def transp_def n column_def)
  have code: "column_codes rows c ! i ! j = rne_val (rows ! i ! j * quant_multiplier (column rows j)) (2 ^ 24)"
    "\<bar>column_codes rows c ! i ! j\<bar> \<le> 127" if "i < n" "j < c" for i j
  proof -
    show e: "column_codes rows c ! i ! j = rne_val (rows ! i ! j * quant_multiplier (column rows j)) (2 ^ 24)"
      using that n by (simp add: column_codes_nth quant_codes_def column_def)
    have "rows ! i ! j \<in> set (column rows j)" using that n by (auto simp: column_def)
    then show "\<bar>column_codes rows c ! i ! j\<bar> \<le> 127" unfolding e using quant_multiplier_range(4) colr that by blast
  qed
  have ok: "lanes_ok AFFINE (n * c) 24 0 [concat rows, plane, replicate (n * c) 0]"
  proof -
    have "all_between (-(2 ^ 31)) (2 ^ 31 - 1) (concat rows)" using r by (fastforce simp: all_between_def)
    moreover have "all_between 0 (2 ^ 31 - 1) plane"
      using quant_multiplier_range(1,2) [OF colr] by (fastforce simp: all_between_def plane_def mult_def)
    moreover have "all_between (-(2 ^ 31)) (2 ^ 31 - 1) (replicate (n * c) 0)" by (auto simp: all_between_def)
    ultimately show ?thesis
      using concat_matrix(1) [OF m(1)] concat_matrix(1) [OF pm, folded plane_def] by (simp add: lanes_ok_def)
  qed
  have lanes: "map (lane_value AFFINE 24 0 [concat rows, plane, replicate (n * c) 0]) [0..<n * c] = codes"
  proof (rule nth_equalityI)
    fix k assume "k < length (map (lane_value AFFINE 24 0 [concat rows, plane, replicate (n * c) 0]) [0..<n * c])"
    then have k: "k < n * c" by simp
    define i j where "i = k div c" and "j = k mod c"
    have ij: "i < n" "j < c" "k = i * c + j" using k m by (auto simp: i_def j_def less_mult_imp_div_less)
    have "plane ! k = quant_multiplier (column rows j)"
      unfolding plane_def ij(3) concat_matrix(2) [OF pm ij(1,2)] using ij by (simp add: mult_def)
    moreover have "concat rows ! k = rows ! i ! j" unfolding ij(3) by (rule concat_matrix(2) [OF m(1) ij(1,2)])
    moreover have "codes ! k = column_codes rows c ! i ! j"
      unfolding codes_def ij(3) by (rule concat_matrix(2) [OF cm ij(1,2)])
    ultimately show "map (lane_value AFFINE 24 0 [concat rows, plane, replicate (n * c) 0]) [0..<n * c] ! k = codes ! k"
      using k code [OF ij(1,2)] by (simp add: sat16_def)
  qed (simp add: codes_def concat_matrix(1) [OF cm])
  have small: "\<bar>v\<bar> \<le> 127" if v: "v \<in> set codes" for v
  proof -
    obtain row where row: "row \<in> set (column_codes rows c)" "v \<in> set row"
      using v unfolding codes_def set_concat by blast
    then have "length row = c" using cm by (simp add: is_matrix_def)
    then obtain j where j: "j < c" "v = row ! j" using row(2) by (auto simp: in_set_conv_nth)
    obtain i where i: "i < n" "row = column_codes rows c ! i"
      using row(1) cm by (auto simp: is_matrix_def in_set_conv_nth)
    show ?thesis unfolding j(2) i(2) by (rule code(2) [OF i(1) j(1)])
  qed
  have "map (\<lambda>i. map (np_cast Int8) (take c (drop (i * c) codes))) [0..<n] = column_codes rows c"
  proof (rule nth_equalityI)
    fix i assume "i < length (map (\<lambda>i. map (np_cast Int8) (take c (drop (i * c) codes))) [0..<n])"
    then have i: "i < n" by simp
    have l: "length codes = n * c" by (simp add: codes_def concat_matrix(1) [OF cm])
    have le: "i * c + c \<le> n * c" using mult_le_mono1 [of "Suc i" n c] i by simp
    have d: "drop (i * c) codes ! j = codes ! (i * c + j)" for j
      by (rule nth_drop) (use l le in linarith)
    have "take c (drop (i * c) codes) = column_codes rows c ! i"
      using is_matrix_nth [OF cm i] l le concat_matrix(2) [OF cm i, folded codes_def] by (intro nth_equalityI) (auto simp: d)
    moreover have "map (np_cast Int8) (take c (drop (i * c) codes)) = take c (drop (i * c) codes)"
      by (rule map_np_cast_self) (use small in \<open>fastforce simp: list_all_iff dest!: in_set_takeD in_set_dropD\<close>)
    ultimately show "map (\<lambda>i. map (np_cast Int8) (take c (drop (i * c) codes))) [0..<n] ! i = column_codes rows c ! i"
      using i by simp
  qed (use cm in \<open>simp add: is_matrix_def\<close>)
  note cast = this
  define fast where "fast = bind (operator B AFFINE [concat rows, plane, replicate (n * c) 0] 24 0) (\<lambda>result.
           if list_ex (\<lambda>v. v < -127) result \<or> list_ex (\<lambda>v. v > 127) result then raise RuntimeError
           else bseq (metadata_count ''batched_requant_columns'' (int c))
             (ret (map (\<lambda>i. map (np_cast Int8) (take c (drop (i * c) result))) [0..<n],
                   map (\<lambda>j. quant_unit u (column rows j)) [0..<c])))"
  have fast: "gives ready fast (column_codes rows c, map (\<lambda>j. quant_unit u (column rows j)) [0..<c])"
  proof -
    have "gives ready (operator B AFFINE [concat rows, plane, replicate (n * c) 0] 24 0) codes"
      using operator_exact [OF ok] m unfolding lanes by simp
    moreover have "\<not> (list_ex (\<lambda>v. v < -127) codes \<or> list_ex (\<lambda>v. v > 127) codes)"
      using small by (force simp: list_ex_iff)
    ultimately show ?thesis unfolding fast_def
      by (auto simp: cast intro!: gives_bind [where v = codes] gives_bseq gives_count gives_ret)
  qed
  have "requant_columns B rows u = (if (n * c + 3071) div 3072 \<ge> c then slow else fast)"
    unfolding requant_columns_def Let_def c32 hd n mults units slow_def fast_def plane_def
    using guards by (simp only: if_False)
  then show ?thesis using slow fast by simp
qed

end

section \<open>The CPU backend provides the interface\<close>

lemma CpuBackend_provides:
  assumes "seed_ok sqrtl"
  shows "packet_backend (CpuBackend sqrtl) (\<lambda>_. True)"
proof
  fix b :: counter and d x ps ins outs
  assume "sfpu_validate d = Inr ()" "op_of (sd_op d) = Some x" "planes_ok d x ps" "evaluate_and_pack d ps = Inr (ins, outs)"
  from kernel_exact [OF this assms] show "\<exists>c. be_sfpu (CpuBackend sqrtl) d (vec UInt32 ins) b = (Inr (map (np_cast Int32) outs), c) \<and> True"
    by (simp add: CpuBackend_def CpuBackend_sfpu_def bseq_def bind_def)
next
  fix b :: counter and a m k w n tiles
  assume a: "int8_matrix a m k" "nd_dtype a = Int8" and w: "int8_matrix w k n" "1 \<le> m" "m \<le> 16" "n \<le> 50257" "tile_weights w = Inr tiles"
  have "map (np_cast Int8) (nd_elems a) = nd_elems a"
    using a by (intro map_np_cast_self) (simp add: int8_matrix_def nd_wf_def)
  then have "astype Int8 a = a" using a(2) by (cases a) (simp add: astype_def)
  then show "\<exists>c. be_gemm (CpuBackend sqrtl) a tiles n b
      = (Inr \<lparr>nd_dtype = Int32, nd_shape = [m, n], nd_elems = rows_of m n (dot a w)\<rparr>, c) \<and> True"
    using CpuGemm_exact [OF a w] by (simp add: CpuBackend_def CpuBackend_gemm_def bseq_def bind_def)
qed

text \<open>The seed a correctly rounded \<open>sqrtl\<close> gives: the root itself, below the format's bound.\<close>

definition rounded_seed :: "int \<Rightarrow> int \<Rightarrow> int" where
  "rounded_seed variance epsilon = min (2 ^ 41 - 1) (isqrt (max 0 (variance * 2 ^ 24 + epsilon)))"

lemma rounded_seed_ok: "seed_ok rounded_seed"
  by (simp add: seed_ok_def rounded_seed_def min_def isqrt_spec)

interpretation cpu: packet_backend "CpuBackend rounded_seed" "\<lambda>_. True"
  by (rule CpuBackend_provides [OF rounded_seed_ok])

end
