(* ===== verification/OffloadProps.thy ===== *)
theory OffloadProps
  imports Backends
begin

text \<open>
  Properties of the scheduler of \<open>zynq/m4_offload.py\<close> and of the native kernels: the session a client
  can reach, what a step commits, generation, the termination of the gain search, and the exactness
  of the operators on the CPU backend.
\<close>

section \<open>Sessions\<close>

text \<open>A client's session: any sequence of requests on one runtime, whatever each of them answers.\<close>

inductive session :: "numpy \<Rightarrow> 'b backend \<Rightarrow> 'b runtime \<Rightarrow> 'b runtime \<Rightarrow> bool" for E B s0 where
  begun: "session E B s0 s0"
| on_reset: "session E B s0 s \<Longrightarrow> session E B s0 (snd (reset s))"
| on_step: "session E B s0 s \<Longrightarrow> session E B s0 (snd (step E B tokens all_logits emit_logits s))"
| on_prefill: "session E B s0 s \<Longrightarrow> nd_wf tokens \<Longrightarrow> session E B s0 (snd (prefill E B tokens blk s))"
| on_generate: "session E B s0 s \<Longrightarrow> nd_wf tokens \<Longrightarrow> session E B s0 (snd (generate E B tokens count s))"

definition session_ok :: "'b runtime \<Rightarrow> 'b runtime \<Rightarrow> bool" where
  "session_ok s0 s \<longleftrightarrow> rt_length s \<le> rt_capacity s \<and> rt_capacity s = rt_capacity s0 \<and> rt_pack s = rt_pack s0"

text \<open>An outcome bounds the state after the action, whatever it answered.\<close>

lemma outcome_snd:
  assumes "outcome m s Q F" "\<And>x t. Q x t \<Longrightarrow> I t" "\<And>e t. F e t \<Longrightarrow> I t"
  shows "I (snd (m s))"
  using assms by (auto simp: outcome_def split: prod.splits sum.splits)

lemma outcome_case: "outcome m s Q F \<Longrightarrow> (case m s of (Inr x, t) \<Rightarrow> Q x t | (Inl e, t) \<Rightarrow> F e t)"
  by (simp add: outcome_def)

lemma outcome_both:
  "outcome m s Q F \<Longrightarrow> outcome m s Q' F' \<Longrightarrow> outcome m s (\<lambda>x t. Q x t \<and> Q' x t) (\<lambda>e t. F e t \<and> F' e t)"
  by (auto simp: outcome_def split: prod.splits sum.splits)

lemma prefill_fits:
  "outcome (prefill E B tokens blk) s (\<lambda>r t. rt_length s + length (nd_elems tokens) \<le> rt_capacity s) (\<lambda>e t. True)"
  by (cases "rt_length s + length (nd_elems tokens) \<le> rt_capacity s")
    (auto simp: outcome_trivial prefill_def outcome_bind outcome_gets outcome_bseq outcome_require)

lemma step_session:
  assumes "session_ok s0 s"
  shows "session_ok s0 (snd (step E B tokens all_logits emit_logits s))"
  by (rule outcome_snd [OF step_outcome])
    (use assms in \<open>auto simp: session_ok_def advanced_def refused_def\<close>)

lemma advanced_room: "advanced n s t \<Longrightarrow> rt_length t = rt_length s + n \<and> rt_capacity t = rt_capacity s \<and> rt_pack t = rt_pack s"
  by (simp add: advanced_def)

text \<open>A small runtime for examples: capacity 4, any pack.\<close>

definition small_runtime :: "model_pack \<Rightarrow> counter runtime" where
  "small_runtime pack = \<lparr>rt_pack = pack,
     rt_backend = (\<lambda>_. 0), rt_capacity = 4, rt_k = (\<lambda>_ _ _. []), rt_v = (\<lambda>_ _ _. []), rt_k8 = (\<lambda>_ _ _. []),
     rt_kunits = (\<lambda>_ _ _. Fin 1), rt_length = 0, rt_failed = False, rt_counts = (\<lambda>_. 0)\<rparr>"

definition sample_numpy :: numpy where
  "sample_numpy = \<lparr>np_log2 = (\<lambda>x. x), np_wild = (\<lambda>_. 0)\<rparr>"

text \<open>C10: The session invariant: whatever sequence of resets, steps, prefills and generations a client
  sends, accepted or failed, the length of the cached prefix stays within the capacity, and the
  capacity and the model never change.\<close>

theorem session_invariant:
  assumes "rt_length s0 \<le> rt_capacity s0" "session E B s0 s"
  shows "rt_length s \<le> rt_capacity s \<and> rt_capacity s = rt_capacity s0 \<and> rt_pack s = rt_pack s0"
  using assms(2)
proof (induction rule: session.induct)
  case begun
  then show ?case using assms(1) by simp
next
  case (on_reset s)
  then show ?case by (simp add: reset_def)
next
  case (on_step s tokens all_logits emit_logits)
  then show ?case using step_session [of s0 s E B tokens all_logits emit_logits] by (simp add: session_ok_def)
next
  case (on_prefill s tokens blk)
  show ?case by (rule outcome_snd [OF outcome_both [OF prefill_outcome [OF on_prefill.hyps(2)] prefill_fits]])
      (use on_prefill.IH in \<open>auto simp: advanced_def failed_session_def\<close>)
next
  case (on_generate s tokens count)
  show ?case by (rule outcome_snd [OF generate_outcome [OF on_generate.hyps(2)]])
      (use on_generate.IH in \<open>auto split: if_splits\<close>)
qed

theorem session_invariant_witness:
  "\<forall>pack. rt_length (snd (step sample_numpy (CpuBackend rounded_seed) (vec Int64 [1, 2]) False True (small_runtime pack))) \<le> 4"
proof
  fix pack
  have "session sample_numpy (CpuBackend rounded_seed) (small_runtime pack)
      (snd (step sample_numpy (CpuBackend rounded_seed) (vec Int64 [1, 2]) False True (small_runtime pack)))"
    by (intro session.intros)
  from session_invariant [OF _ this]
  show "rt_length (snd (step sample_numpy (CpuBackend rounded_seed) (vec Int64 [1, 2]) False True (small_runtime pack))) \<le> 4"
    by (simp add: small_runtime_def)
qed

text \<open>C11: What a step commits: a malformed or oversized request raises ValueError and a latched runtime
  raises RuntimeError, both without touching anything; an accepted step either appends exactly its
  tokens to the cache, with logits exactly when asked, or latches the failure with the length
  unchanged. No step, failed or not, modifies the cached prefix, the model or the capacity.\<close>

theorem step_commits:
  "case step E B tokens all_logits emit_logits s of
     (Inr r, t) \<Rightarrow> \<not> refused tokens s \<and> \<not> rt_failed s \<and> \<not> rt_failed t
       \<and> rt_length t = rt_length s + length (nd_elems tokens) \<and> rt_length t \<le> rt_capacity s
       \<and> (r \<noteq> None \<longleftrightarrow> emit_logits) \<and> same_prefix (rt_length s) s t
       \<and> rt_capacity t = rt_capacity s \<and> rt_pack t = rt_pack s
   | (Inl e, t) \<Rightarrow>
       (if refused tokens s then e = ValueError \<and> t = s
        else if rt_failed s then e = RuntimeError \<and> t = s
        else rt_failed t \<and> rt_length t = rt_length s \<and> same_prefix (rt_length s) s t
          \<and> rt_capacity t = rt_capacity s \<and> rt_pack t = rt_pack s)"
  by (rule outcome_case, rule outcome_mono [OF step_outcome]) (auto simp: advanced_def refused_def)

text \<open>C15: Generation: a request of no token, or of more than fit beside the prompt, is refused with ValueError and
  leaves the session as it is. An accepted one returns exactly \<open>count\<close> tokens, from a fresh session that has consumed
  the prompt and all of them but the last; when it raises, the cached length is within the capacity, and capacity and
  model are unchanged.\<close>

theorem generate_tokens:
  assumes "nd_wf tokens"
  shows "case generate E B tokens count s of
     (Inr ts, t) \<Rightarrow> 1 \<le> count \<and> length (nd_elems tokens) + count \<le> rt_capacity s \<and> length ts = count \<and> \<not> rt_failed t
       \<and> rt_length t = length (nd_elems tokens) + count - 1 \<and> rt_capacity t = rt_capacity s \<and> rt_pack t = rt_pack s
   | (Inl e, t) \<Rightarrow> if count < 1 \<or> rt_capacity s < length (nd_elems tokens) + count then e = ValueError \<and> t = s
       else rt_length t \<le> rt_capacity s \<and> rt_capacity t = rt_capacity s \<and> rt_pack t = rt_pack s"
  by (rule outcome_case, rule outcome_mono [OF generate_outcome [OF assms]]) (auto split: if_splits)

theorem generate_tokens_witness:
  "\<forall>pack. generate sample_numpy (CpuBackend rounded_seed) (vec Int64 [1, 2]) 3 (small_runtime pack) = (Inl ValueError, small_runtime pack)
     \<and> (case generate sample_numpy (CpuBackend rounded_seed) (vec Int64 [1, 2]) 2 (small_runtime pack) of
          (Inr ts, t) \<Rightarrow> length ts = 2 \<and> rt_length t = 3 | (Inl e, t) \<Rightarrow> rt_length t \<le> 4)"
proof (intro allI conjI)
  fix pack
  have wf: "nd_wf (vec Int64 [1, 2])" by (rule vec_wf) simp
  note g = generate_tokens [OF wf, where E = sample_numpy and B = "CpuBackend rounded_seed" and s = "small_runtime pack"]
  show "generate sample_numpy (CpuBackend rounded_seed) (vec Int64 [1, 2]) 3 (small_runtime pack) = (Inl ValueError, small_runtime pack)"
    using g [where count = 3] by (simp add: small_runtime_def split: prod.splits sum.splits)
  show "case generate sample_numpy (CpuBackend rounded_seed) (vec Int64 [1, 2]) 2 (small_runtime pack) of
      (Inr ts, t) \<Rightarrow> length ts = 2 \<and> rt_length t = 3 | (Inl e, t) \<Rightarrow> rt_length t \<le> 4"
    using g [where count = 2] by (auto simp: small_runtime_def split: prod.splits sum.splits)
qed

section \<open>The gain search\<close>

text \<open>The search for the LayerNorm gain factor ends: its 1025 rounds are never used up, it returns a
  factor or raises what a division by a too large integer raises.\<close>

theorem gain_factor_found: "norm_factor 1025 corrected 1 \<noteq> Inl Diverges"
  using norm_factor_total [of 1 1024 corrected] by simp

section \<open>The native kernels\<close>

text \<open>C13: The native SFPU kernel computes the reference: on the words of any valid request, every one of the
  seven operations returns exactly the reference's output words, for every seed the C library's
  square root may deliver.\<close>

theorem native_sfpu_is_reference:
  assumes "sfpu_validate d = Inr ()" "op_of (sd_op d) = Some x" "planes_ok d x planes"
    and "evaluate_and_pack d planes = Inr (inputs, outputs)" "seed_ok sqrtl"
  shows "CpuSfpu sqrtl d (vec UInt32 inputs) = Inr (map (np_cast Int32) outputs)"
  by (rule kernel_exact [OF assms])

theorem native_sfpu_is_reference_witness:
  "CpuSfpu rounded_seed (SfpuDescriptor 7 2 0 0 0) (vec UInt32 [4294967295, 5, 3, 4]) = Inr [2, 9]"
proof -
  have "lanes_ok ADD 2 0 0 [[-1, 5], [3, 4]]" by (simp add: lanes_ok_def all_between_def)
  note v = chunk_valid [OF this, simplified, unfolded SfpuDescriptor_def]
  have "evaluate_and_pack (SfpuDescriptor 7 2 0 0 0) (map (vec Int32) [[-1, 5], [3, 4]]) = Inr ([4294967295, 5, 3, 4], [2, 9])"
    by code_simp
  then have "CpuSfpu rounded_seed (SfpuDescriptor 7 2 0 0 0) (vec UInt32 [4294967295, 5, 3, 4]) = Inr (map (np_cast Int32) [2, 9])"
    by (intro native_sfpu_is_reference [where x = ADD and planes = "map (vec Int32) [[-1, 5], [3, 4]]"])
      (use v rounded_seed_ok in \<open>simp_all add: SfpuDescriptor_def\<close>)
  then show ?thesis by simp
qed

text \<open>C16: The native GEMM is exact: for int8 operands of at most 16 rows, the zero-padded tiles of the weights
  give the exact dot products, with no wrap of the 32-bit accumulators.\<close>

theorem native_gemm_exact:
  assumes "int8_matrix a m k" "nd_dtype a = Int8" "int8_matrix w k n"
    and "1 \<le> m" "m \<le> 16" "n \<le> 50257" "tile_weights w = Inr tiles"
  shows "CpuGemm a tiles n = Inr \<lparr>nd_dtype = Int32, nd_shape = [m, n], nd_elems = rows_of m n (dot a w)\<rparr>"
  by (rule CpuGemm_exact [OF assms])

theorem native_gemm_exact_witness:
  "CpuGemm \<lparr>nd_dtype = Int8, nd_shape = [1, 2], nd_elems = [3, -4]\<rparr>
     \<lparr>nd_dtype = Int8, nd_shape = [1, 2, 16], nd_elems = [5] @ replicate 15 0 @ [7] @ replicate 15 0\<rparr> 1
   = Inr \<lparr>nd_dtype = Int32, nd_shape = [1, 1], nd_elems = [-13]\<rparr>"
proof -
  define a where "a = \<lparr>nd_dtype = Int8, nd_shape = [1, 2], nd_elems = [3, -4]\<rparr>"
  define w where "w = \<lparr>nd_dtype = Int8, nd_shape = [2, 1], nd_elems = [5, 7]\<rparr>"
  have m: "int8_matrix a 1 2" "nd_dtype a = Int8" "int8_matrix w 2 1"
    by (simp_all add: a_def w_def int8_matrix_def nd_wf_def)
  have t: "tile_weights w = Inr \<lparr>nd_dtype = Int8, nd_shape = [1, 2, 16], nd_elems = [5] @ replicate 15 0 @ [7] @ replicate 15 0\<rparr>"
    unfolding w_def by code_simp
  have "rows_of 1 1 (dot a w) = [-13]" unfolding a_def w_def by code_simp
  then show ?thesis using native_gemm_exact [OF m _ _ _ t] by (simp add: a_def)
qed

text \<open>C17: The integer root of the native LayerNorm is the exact floor root of the 80-bit radicand, whatever
  seed the floating-point square root delivers.\<close>

theorem root_exact_from_any_seed:
  assumes "0 \<le> variance" "0 \<le> epsilon" "epsilon < 2 ^ 64" "variance * 2 ^ 24 + epsilon < 2 ^ 80"
    and "0 \<le> sqrtl variance epsilon" "sqrtl variance epsilon < 2 ^ 41"
  shows "ln_denominator sqrtl variance epsilon = Some (isqrt (variance * 2 ^ 24 + epsilon))"
  by (rule ln_denominator_exact [where R = "variance * 2 ^ 24 + epsilon"]) (use assms in simp_all)

theorem root_exact_from_any_seed_witness: "ln_denominator (\<lambda>v e. 0) 1000 7 = Some (isqrt 16777216007)"
  using root_exact_from_any_seed [of 1000 7 "\<lambda>v e. 0"] by simp

section \<open>Operators on the CPU backend\<close>

text \<open>C14: Splitting into packets is invisible: on the CPU backend an elementwise operator on planes of any
  length is its lane function on every position.\<close>

theorem operator_split_invisible:
  assumes "seed_ok sqrtl" "lanes_ok x n shift multiplier planes" "1 \<le> n"
  shows "\<exists>t. operator (CpuBackend sqrtl) x planes (int shift) multiplier s
     = (Inr (map (lane_value x shift multiplier planes) [0..<n]), t)"
  using packet_backend.operator_exact [OF CpuBackend_provides [OF assms(1)] assms(2,3)] by (auto simp: gives_def)

text \<open>C12: Column requantisation by either route: for every int16-range matrix of at most 3072 rows, the
  per-column REQUANT8 packets and the batched AFFINE packets give the same int8 codes and the same
  units, those of each column's own maximum; the RuntimeError of the batched route is unreachable.\<close>

theorem requant_columns_by_either_route:
  assumes "seed_ok sqrtl" "is_matrix n c rows" "1 \<le> n" "n \<le> 3072" "1 \<le> c"
    and "\<forall>row\<in>set rows. all_between (-32768) 32768 row"
  shows "\<exists>t. requant_columns (CpuBackend sqrtl) rows u s
     = (Inr (column_codes rows c, map (\<lambda>j. quant_unit u (column rows j)) [0..<c]), t)"
  using packet_backend.requant_columns_exact [OF CpuBackend_provides [OF assms(1)] assms(2-6)] by (auto simp: gives_def)

theorem operator_split_invisible_witness:
  "\<forall>s. \<exists>t. operator (CpuBackend rounded_seed) ADD [replicate 5000 1, replicate 5000 2] 0 0 s
     = (Inr (map (lane_value ADD 0 0 [replicate 5000 1, replicate 5000 2]) [0..<5000]), t)"
proof
  fix s
  have "lanes_ok ADD n 0 0 [replicate n 1, replicate n 2]" for n by (auto simp: lanes_ok_def all_between_def)
  moreover have "1 \<le> (5000 :: nat)" by simp
  ultimately have "\<exists>t. operator (CpuBackend rounded_seed) ADD [replicate 5000 1, replicate 5000 2] (int 0) 0 s
     = (Inr (map (lane_value ADD 0 0 [replicate 5000 1, replicate 5000 2]) [0..<5000]), t)"
    by (rule operator_split_invisible [OF rounded_seed_ok])
  then
  show "\<exists>t. operator (CpuBackend rounded_seed) ADD [replicate 5000 1, replicate 5000 2] 0 0 s
     = (Inr (map (lane_value ADD 0 0 [replicate 5000 1, replicate 5000 2]) [0..<5000]), t)"
    by (simp only: int_ops)
qed

theorem requant_columns_by_either_route_witness:
  "\<forall>s. \<exists>us t. requant_columns (CpuBackend rounded_seed) [[1, -2], [3, 4], [5, 0]] (Fin (1 / 256)) s
     = (Inr ([[25, -64], [76, 127], [127, 0]], us), t)"
proof
  fix s
  have m: "is_matrix 3 2 [[1, -2], [3, 4], [5, 0 :: int]]"
    "\<forall>row\<in>set [[1, -2], [3, 4], [5, 0]]. all_between (-32768) 32768 row"
    by (simp_all add: is_matrix_def all_between_def)
  have "column_codes [[1, -2], [3, 4], [5, 0]] 2 = [[25, -64], [76, 127], [127, 0]]" by code_simp
  then show "\<exists>us t. requant_columns (CpuBackend rounded_seed) [[1, -2], [3, 4], [5, 0]] (Fin (1 / 256)) s
     = (Inr ([[25, -64], [76, 127], [127, 0]], us), t)"
    using requant_columns_by_either_route [OF rounded_seed_ok m(1) _ _ _ m(2), of "Fin (1 / 256)" s] by auto
qed

end
