(* ===== verification/SpiHost.thy ===== *)
theory SpiHost
  imports Prelude
begin

text \<open>
  The SPI supervisor of \<open>scripts/m6_spi_host.py\<close>: nine-byte frames, one request followed by bounded
  polls, and the operations on the cluster's control registers. The caller's transport is an action
  on its own state that answers a frame with bytes.
\<close>

type_synonym 's transport = "int list \<Rightarrow> ('s, int list) act"

record 's supervisor =
  sv_transfer :: "'s transport"
  sv_max_polls :: nat

definition CONTROL :: int where "CONTROL = 0x20000"
definition TABLE :: int where "TABLE = 0x20004"
definition ARENA :: int where "ARENA = 0x20008"
definition STATUS :: int where "STATUS = 0x2000c"
definition UART_DIVIDER :: int where "UART_DIVIDER = 0x20010"

definition Supervisor :: "'s transport \<Rightarrow> int \<Rightarrow> 's supervisor res" where
  "Supervisor transfer polls =
     (if polls < 1 then Inl ValueError else Inr \<lparr>sv_transfer = transfer, sv_max_polls = nat polls\<rparr>)"

text \<open>\<open>struct.pack('>BII', ...)\<close> and \<open>int.from_bytes(..., 'big')\<close>.\<close>

definition be32 :: "int \<Rightarrow> int list" where
  "be32 v = map (\<lambda>k. take_bit 8 (drop_bit k v)) [24, 16, 8, 0]"

definition pack_bii :: "int \<Rightarrow> int \<Rightarrow> int \<Rightarrow> int list res" where
  "pack_bii command address data =
     (if 0 \<le> command \<and> command \<le> 255 \<and> 0 \<le> address \<and> address < 2 ^ 32 \<and> 0 \<le> data \<and> data < 2 ^ 32
      then Inr (command # be32 address @ be32 data) else Inl StructError)"

definition from_be :: "int list \<Rightarrow> int" where
  "from_be bs = fold (\<lambda>b acc. acc * 256 + b) bs 0"

definition frame :: "'s supervisor \<Rightarrow> int \<Rightarrow> int \<Rightarrow> int \<Rightarrow> ('s, int \<times> int) act" where
  "frame sv command address data =
     bind (lift_res (pack_bii command address data)) (\<lambda>bytes.
     bind (sv_transfer sv bytes) (\<lambda>reply.
       if length reply \<noteq> 9 then raise SpiError
       else ret (reply ! 0, from_be (take 4 (drop 1 reply)))))"

text \<open>The poll frames after a request.\<close>

fun polls :: "'s supervisor \<Rightarrow> nat \<Rightarrow> ('s, int) act" where
  "polls sv 0 = raise SpiError"
| "polls sv (Suc n) =
     bind (frame sv 0 0 0) (\<lambda>(status, v).
       if status AND 0x20 \<noteq> 0 then raise SpiError
       else if status AND 0x80 \<noteq> 0 then (if status AND 0x43 \<noteq> 0 then raise SpiError else ret v)
       else polls sv n)"

definition request :: "'s supervisor \<Rightarrow> int \<Rightarrow> int option \<Rightarrow> int \<Rightarrow> ('s, int) act" where
  "request sv address data strobe =
     (if address < 0 \<or> address > 0xffffffff \<or> address mod 4 \<noteq> 0 \<or> \<not> (0 \<le> strobe \<and> strobe \<le> 15) then raise ValueError
      else if (case data of None \<Rightarrow> False | Some d \<Rightarrow> \<not> (0 \<le> d \<and> d \<le> 0xffffffff)) then raise ValueError
      else bind (frame sv (case data of None \<Rightarrow> 0x80 | Some d \<Rightarrow> 0x90 OR strobe) address
                   (case data of None \<Rightarrow> 0 | Some d \<Rightarrow> d)) (\<lambda>(status, _).
        if status AND 0x40 \<noteq> 0 then raise SpiError else polls sv (sv_max_polls sv)))"

definition status :: "'s supervisor \<Rightarrow> ('s, int) act" where
  "status sv = request sv STATUS None 15"

fun wait_status_polls :: "'s supervisor \<Rightarrow> nat \<Rightarrow> nat \<Rightarrow> ('s, int) act" where
  "wait_status_polls sv bit' 0 = raise SpiError"
| "wait_status_polls sv bit' (Suc n) =
     bind (status sv) (\<lambda>v. if v AND push_bit bit' 1 \<noteq> 0 then ret v else wait_status_polls sv bit' n)"

definition wait_status :: "'s supervisor \<Rightarrow> nat \<Rightarrow> ('s, int) act" where
  "wait_status sv bit' = wait_status_polls sv bit' (sv_max_polls sv)"

definition spi_prepare :: "'s supervisor \<Rightarrow> ('s, unit) act" where
  "spi_prepare sv =
     bind (request sv CONTROL None 15) (\<lambda>control.
     bind (request sv CONTROL (Some ((control OR 0x11) AND NOT 2)) 15) (\<lambda>_.
     bind (wait_status sv 2) (\<lambda>_. ret ())))"

definition require_owned :: "'s supervisor \<Rightarrow> ('s, unit) act" where
  "require_owned sv =
     bind (request sv CONTROL None 15) (\<lambda>control.
       if control AND 2 \<noteq> 0 then raise SpiError
       else bind (status sv) (\<lambda>v. if v AND 4 = 0 then raise SpiError else ret ()))"

definition write_mmio :: "'s supervisor \<Rightarrow> int \<Rightarrow> int \<Rightarrow> int \<Rightarrow> ('s, unit) act" where
  "write_mmio sv address data strobe =
     (if \<not> (0 \<le> address \<and> address < 0x20000) then raise ValueError
      else bseq (require_owned sv) (bind (request sv address (Some data) strobe) (\<lambda>_. ret ())))"

definition read_mmio :: "'s supervisor \<Rightarrow> int \<Rightarrow> ('s, int) act" where
  "read_mmio sv address =
     (if \<not> (0 \<le> address \<and> address < 0x20000) then raise ValueError
      else bseq (require_owned sv) (request sv address None 15))"

definition configure_memory :: "'s supervisor \<Rightarrow> int \<Rightarrow> int \<Rightarrow> bool \<Rightarrow> ('s, unit) act" where
  "configure_memory sv table_base arena_bytes enabled =
     bseq (require_owned sv)
       (if table_base mod 4 \<noteq> 0 \<or> \<not> (0 < arena_bytes \<and> arena_bytes \<le> 0xffffffff) then raise ValueError
        else bind (request sv TABLE (Some table_base) 15) (\<lambda>_.
             bind (request sv ARENA (Some arena_bytes) 15) (\<lambda>_.
             bind (request sv CONTROL None 15) (\<lambda>control.
             bind (request sv CONTROL (Some ((control AND NOT 4) OR (if enabled then 4 else 0))) 15) (\<lambda>_. ret ())))))"

definition configure_uart :: "'s supervisor \<Rightarrow> int \<Rightarrow> bool \<Rightarrow> ('s, unit) act" where
  "configure_uart sv divider enabled =
     (if \<not> (8 \<le> divider \<and> divider \<le> 65535) then raise ValueError
      else bind (request sv UART_DIVIDER (Some divider) 15) (\<lambda>_.
           bind (request sv CONTROL None 15) (\<lambda>control.
           bind (request sv CONTROL (Some ((control AND NOT 32) OR (if enabled then 32 else 0))) 15) (\<lambda>_. ret ()))))"

definition spi_start :: "'s supervisor \<Rightarrow> ('s, unit) act" where
  "spi_start sv =
     bseq (require_owned sv)
     (bind (request sv CONTROL None 15) (\<lambda>control.
       let settings = control AND 0x24 in
       bind (request sv CONTROL (Some settings) 15) (\<lambda>_.
       bind (request sv CONTROL (Some (settings OR 9)) 15) (\<lambda>_.
       bind (wait_status sv 0) (\<lambda>_.
       bind (request sv CONTROL (Some (settings OR 1)) 15) (\<lambda>_.
       bind (request sv CONTROL (Some (settings OR 3)) 15) (\<lambda>_. ret ())))))))"

end
