(* ===== verification/SpiProps.thy ===== *)
theory SpiProps
  imports SpiHost "HOL-Library.Sublist"
begin

text \<open>
  What the SPI supervisor puts on the wire: the frames of a request, and what a start has read and written
  before it releases the harts. A recording transport keeps the frames in order, with the answers where
  they matter; every statement holds for every transport, answering or failing as it likes.
\<close>

section \<open>Recording the frames\<close>

definition recorded :: "'s transport \<Rightarrow> (int list list \<times> 's) transport" where
  "recorded transfer bytes = (\<lambda>(frames, s). case transfer bytes s of (r, s') \<Rightarrow> (r, (frames @ [bytes], s')))"

definition watched :: "'s supervisor \<Rightarrow> (int list list \<times> 's) supervisor" where
  "watched sv = \<lparr>sv_transfer = recorded (sv_transfer sv), sv_max_polls = sv_max_polls sv\<rparr>"

definition emits :: "('e list \<times> 's, 'a) act \<Rightarrow> ('a res \<Rightarrow> 'e list \<Rightarrow> bool) \<Rightarrow> bool" where
  "emits m Q \<longleftrightarrow> (\<forall>frames s. \<exists>fs. fst (snd (m (frames, s))) = frames @ fs \<and> Q (fst (m (frames, s))) fs)"

lemma emits_mono: "emits m P \<Longrightarrow> (\<And>r fs. P r fs \<Longrightarrow> Q r fs) \<Longrightarrow> emits m Q"
  unfolding emits_def by blast

lemma emits_ret: "Q (Inr x) [] \<Longrightarrow> emits (ret x) Q"
  by (simp add: emits_def)

lemma emits_raise: "Q (Inl e) [] \<Longrightarrow> emits (raise e) Q"
  by (simp add: emits_def)

lemma emits_bind:
  assumes "emits m P" "\<And>x. emits (f x) (R x)"
    and "\<And>e fs. P (Inl e) fs \<Longrightarrow> Q (Inl e) fs"
    and "\<And>x fs r gs. P (Inr x) fs \<Longrightarrow> R x r gs \<Longrightarrow> Q r (fs @ gs)"
  shows "emits (bind m f) Q"
  unfolding emits_def
proof (intro allI)
  fix frames s
  obtain fs where fs: "fst (snd (m (frames, s))) = frames @ fs" "P (fst (m (frames, s))) fs"
    using assms(1) unfolding emits_def by blast
  obtain r l s' where m: "m (frames, s) = (r, (l, s'))" by (cases "m (frames, s)") auto
  show "\<exists>fs. fst (snd (bind m f (frames, s))) = frames @ fs \<and> Q (fst (bind m f (frames, s))) fs"
  proof (cases r)
    case (Inl e)
    then show ?thesis using fs m assms(3) by (intro exI [of _ fs]) (simp add: bind_def)
  next
    case (Inr x)
    obtain gs where "fst (snd (f x (l, s'))) = l @ gs" "R x (fst (f x (l, s'))) gs"
      using assms(2) unfolding emits_def by blast
    then show ?thesis using fs m Inr assms(4) by (intro exI [of _ "fs @ gs"]) (simp add: bind_def)
  qed
qed

section \<open>The frames of a request\<close>

definition poll_frame :: "int list" where
  "poll_frame = 0 # be32 0 @ be32 0"

definition request_frame :: "int \<Rightarrow> int option \<Rightarrow> int \<Rightarrow> int list" where
  "request_frame address data strobe = (case data of None \<Rightarrow> 0x80 | Some d \<Rightarrow> 0x90 OR strobe) # be32 address
     @ be32 (case data of None \<Rightarrow> 0 | Some d \<Rightarrow> d)"

text \<open>A transport that keeps a note of every frame and of its reply, and the one that keeps the frames only.\<close>

definition noted :: "(int list \<Rightarrow> int list res \<Rightarrow> 'e) \<Rightarrow> 's supervisor \<Rightarrow> ('e list \<times> 's) supervisor" where
  "noted note sv = \<lparr>sv_transfer = (\<lambda>bytes (l, s). case sv_transfer sv bytes s of (r, s') \<Rightarrow> (r, (l @ [note bytes r], s'))),
     sv_max_polls = sv_max_polls sv\<rparr>"

lemma watched_noted: "watched sv = noted (\<lambda>bytes r. bytes) sv"
  by (simp add: watched_def noted_def recorded_def fun_eq_iff)

text \<open>A complete reply frame, and one that answers a request without an error.\<close>

definition reply_of :: "int list res \<Rightarrow> int \<Rightarrow> int \<Rightarrow> bool" where
  "reply_of r st v \<longleftrightarrow> (\<exists>bs. r = Inr bs \<and> length bs = 9 \<and> st = bs ! 0 \<and> v = from_be (take 4 (drop 1 bs)))"

definition answer :: "int list res \<Rightarrow> int \<Rightarrow> bool" where
  "answer r v \<longleftrightarrow> (\<exists>st. reply_of r st v \<and> st AND 0x20 = 0 \<and> st AND 0x80 \<noteq> 0 \<and> st AND 0x43 = 0)"

lemma emits_transfer: "emits (sv_transfer (noted note sv) bytes) (\<lambda>r fs. fs = [note bytes r])"
  by (auto simp: emits_def noted_def split: prod.splits)

lemma emits_frame:
  assumes "pack_bii command address data = Inr bytes"
  shows "emits (frame (noted note sv) command address data) (\<lambda>r fs. \<exists>reply. fs = [note bytes reply]
     \<and> (case r of Inl _ \<Rightarrow> True | Inr (st, v) \<Rightarrow> reply_of reply st v))"
proof -
  have "emits (bind (sv_transfer (noted note sv) bytes) (\<lambda>reply.
      if length reply \<noteq> 9 then raise SpiError else ret (reply ! 0, from_be (take 4 (drop 1 reply)))))
      (\<lambda>r fs. \<exists>reply. fs = [note bytes reply] \<and> (case r of Inl _ \<Rightarrow> True | Inr (st, v) \<Rightarrow> reply_of reply st v))"
    by (rule emits_bind [OF emits_transfer, where R = "\<lambda>x r fs. fs = [] \<and> (case r of Inl _ \<Rightarrow> True | Inr (st, v) \<Rightarrow> reply_of (Inr x) st v)"])
      (auto intro: emits_ret emits_raise simp: reply_of_def)
  then show ?thesis unfolding frame_def assms by (simp add: emits_def bind_def)
qed

lemma pack_poll: "pack_bii 0 0 0 = Inr poll_frame"
  by (simp add: pack_bii_def poll_frame_def)

definition polled :: "nat \<Rightarrow> int res \<Rightarrow> int list res list \<Rightarrow> bool" where
  "polled n r replies \<longleftrightarrow> length replies \<le> n \<and> (case r of Inl _ \<Rightarrow> True | Inr v \<Rightarrow> replies \<noteq> [] \<and> answer (last replies) v)"

lemma polled_inl: "polled n (Inl e) replies \<longleftrightarrow> length replies \<le> n"
  by (simp add: polled_def)

lemma emits_polls: "emits (polls (noted note sv) n) (\<lambda>r fs. \<exists>replies. fs = map (note poll_frame) replies \<and> polled n r replies)"
proof (induction n)
  case 0
  then show ?case unfolding polls.simps by (intro emits_raise) (simp add: polled_def)
next
  case (Suc n)
  show ?case unfolding polls.simps
  proof (rule emits_bind [OF emits_frame [OF pack_poll],
        where R = "\<lambda>(st, v) r fs. (\<exists>replies. fs = map (note poll_frame) replies \<and> polled n r replies)
          \<or> fs = [] \<and> r = Inr v \<and> st AND 0x20 = 0 \<and> st AND 0x80 \<noteq> 0 \<and> st AND 0x43 = 0"])
    fix x :: "int \<times> int"
    obtain st v where x: "x = (st, v)" by (cases x)
    show "emits (case x of (st, v) \<Rightarrow>
       if st AND 0x20 \<noteq> 0 then raise SpiError
       else if st AND 0x80 \<noteq> 0 then (if st AND 0x43 \<noteq> 0 then raise SpiError else ret v)
       else polls (noted note sv) n) (case x of (st, v) \<Rightarrow> \<lambda>r fs. (\<exists>replies. fs = map (note poll_frame) replies \<and> polled n r replies)
          \<or> fs = [] \<and> r = Inr v \<and> st AND 0x20 = 0 \<and> st AND 0x80 \<noteq> 0 \<and> st AND 0x43 = 0)"
      by (auto simp: x polled_def intro!: emits_raise emits_ret emits_mono [OF Suc])
  next
    fix e :: exn and fs
    assume "\<exists>reply. fs = [note poll_frame reply] \<and> (case Inl e :: exn + int \<times> int of Inl _ \<Rightarrow> True | Inr (st, v) \<Rightarrow> reply_of reply st v)"
    then obtain reply where "fs = [note poll_frame reply]" by blast
    then show "\<exists>replies. fs = map (note poll_frame) replies \<and> polled (Suc n) (Inl e) replies"
      by (intro exI [of _ "[reply]"]) (simp add: polled_def)
  next
    fix x :: "int \<times> int" and fs r gs
    obtain st v where x: "x = (st, v)" by (cases x)
    assume "\<exists>reply. fs = [note poll_frame reply] \<and> (case Inr x :: exn + int \<times> int of Inl _ \<Rightarrow> True | Inr (st, v) \<Rightarrow> reply_of reply st v)"
    then obtain reply where f: "fs = [note poll_frame reply]" "reply_of reply st v" by (auto simp: x)
    assume "(case x of (st, v) \<Rightarrow> \<lambda>r fs. (\<exists>replies. fs = map (note poll_frame) replies \<and> polled n r replies)
          \<or> fs = [] \<and> r = Inr v \<and> st AND 0x20 = 0 \<and> st AND 0x80 \<noteq> 0 \<and> st AND 0x43 = 0) r gs"
    then consider replies where "gs = map (note poll_frame) replies" "polled n r replies"
      | "gs = []" "r = Inr v" "answer reply v" using f(2) by (auto simp: x answer_def)
    then show "\<exists>replies. fs @ gs = map (note poll_frame) replies \<and> polled (Suc n) r replies"
    proof cases
      case 1
      then show ?thesis using f(1) by (intro exI [of _ "reply # replies"]) (auto simp: polled_def split: sum.splits)
    next
      case 2
      then show ?thesis using f(1) by (intro exI [of _ "[reply]"]) (simp add: polled_def)
    qed
  qed
qed

lemma strobe_bound:
  assumes "0 \<le> strobe" "strobe \<le> (15 :: int)"
  shows "0 \<le> 0x90 OR strobe" "0x90 OR strobe \<le> 255"
proof -
  have "0x90 OR strobe < 2 ^ 8" by (rule OR_upper) (use assms in auto)
  then show "0 \<le> 0x90 OR strobe" "0x90 OR strobe \<le> 255" using assms by simp_all
qed

text \<open>A request that has been sent: its frame, and the polls after it.\<close>

definition requested :: "(int list \<Rightarrow> int list res \<Rightarrow> 'e) \<Rightarrow> nat \<Rightarrow> int list \<Rightarrow> int res \<Rightarrow> 'e list \<Rightarrow> bool" where
  "requested note n f r fs \<longleftrightarrow> (\<exists>first replies. fs = note f first # map (note poll_frame) replies \<and> polled n r replies)"

lemma emits_request_noted:
  "emits (request (noted note sv) address data strobe) (\<lambda>r fs.
     (r = Inl ValueError \<and> fs = []) \<or> requested note (sv_max_polls sv) (request_frame address data strobe) r fs)"
  (is "emits _ ?Q")
proof (cases "address < 0 \<or> address > 0xffffffff \<or> address mod 4 \<noteq> 0 \<or> \<not> (0 \<le> strobe \<and> strobe \<le> 15)
     \<or> (case data of None \<Rightarrow> False | Some d \<Rightarrow> \<not> (0 \<le> d \<and> d \<le> 0xffffffff))")
  case True
  then show ?thesis by (auto simp: request_def intro: emits_raise)
next
  case False
  then have pack: "pack_bii (case data of None \<Rightarrow> 0x80 | Some d \<Rightarrow> 0x90 OR strobe) address (case data of None \<Rightarrow> 0 | Some d \<Rightarrow> d)
      = Inr (request_frame address data strobe)"
    using strobe_bound [of strobe] by (auto simp: pack_bii_def request_frame_def split: option.splits)
  have m: "sv_max_polls (noted note sv) = sv_max_polls sv" by (simp add: noted_def)
  have "emits (bind (frame (noted note sv) (case data of None \<Rightarrow> 0x80 | Some d \<Rightarrow> 0x90 OR strobe) address
      (case data of None \<Rightarrow> 0 | Some d \<Rightarrow> d)) (\<lambda>(st, _).
        if st AND 0x40 \<noteq> 0 then raise SpiError else polls (noted note sv) (sv_max_polls (noted note sv))))
      (requested note (sv_max_polls sv) (request_frame address data strobe))"
    unfolding m
  proof (rule emits_bind [OF emits_frame [OF pack], where R =
        "\<lambda>x r fs. \<exists>replies. fs = map (note poll_frame) replies \<and> polled (sv_max_polls sv) r replies"])
    fix x :: "int \<times> int"
    show "emits (case x of (st, _) \<Rightarrow> if st AND 0x40 \<noteq> 0 then raise SpiError else polls (noted note sv) (sv_max_polls sv))
      (\<lambda>r fs. \<exists>replies. fs = map (note poll_frame) replies \<and> polled (sv_max_polls sv) r replies)"
      by (cases x) (auto intro!: emits_raise emits_polls exI [of _ "[]"] simp: polled_inl)
  next
    fix e :: exn and fs
    assume "\<exists>reply. fs = [note (request_frame address data strobe) reply] \<and> (case Inl e :: exn + int \<times> int of Inl _ \<Rightarrow> True | Inr (st, v) \<Rightarrow> reply_of reply st v)"
    then obtain reply where "fs = [note (request_frame address data strobe) reply]" by blast
    then show "requested note (sv_max_polls sv) (request_frame address data strobe) (Inl e) fs"
      unfolding requested_def by (intro exI [of _ reply] exI [of _ "[]"]) (simp add: polled_inl)
  qed (auto simp: requested_def)
  then have "emits (request (noted note sv) address data strobe) (requested note (sv_max_polls sv) (request_frame address data strobe))"
    using False by (auto simp: request_def)
  then show ?thesis by (rule emits_mono) simp
qed

lemma emits_request:
  "emits (request (watched sv) address data strobe) (\<lambda>r fs.
     (r = Inl ValueError \<and> fs = [])
     \<or> (\<exists>k\<le> sv_max_polls sv. fs = request_frame address data strobe # replicate k poll_frame \<and> (isl r \<or> 1 \<le> k)))"
  unfolding watched_noted
proof (rule emits_mono [OF emits_request_noted])
  fix r :: "exn + int" and fs
  assume "(r = Inl ValueError \<and> fs = []) \<or> requested (\<lambda>bytes r. bytes) (sv_max_polls sv) (request_frame address data strobe) r fs"
  then show "(r = Inl ValueError \<and> fs = [])
     \<or> (\<exists>k\<le> sv_max_polls sv. fs = request_frame address data strobe # replicate k poll_frame \<and> (isl r \<or> 1 \<le> k))"
  proof (elim disjE)
    assume "requested (\<lambda>bytes r. bytes) (sv_max_polls sv) (request_frame address data strobe) r fs"
    then obtain replies where p: "fs = request_frame address data strobe # map (\<lambda>r. poll_frame) replies" "polled (sv_max_polls sv) r replies"
      unfolding requested_def by blast
    then have "isl r \<or> 1 \<le> length replies" by (cases r; cases replies) (simp_all add: polled_def)
    then show ?thesis using p by (intro disjI2 exI [of _ "length replies"]) (simp add: map_replicate_const polled_def)
  qed simp
qed

section \<open>The writes of an operation\<close>

definition writes :: "int list list \<Rightarrow> int list list" where
  "writes fs = filter (\<lambda>f. 0x90 \<le> hd f) fs"

text \<open>An operation that writes this list: a prefix of it when it fails, all of it when it returns.\<close>

definition sends :: "(int list list \<times> 's, 'a) act \<Rightarrow> int list list \<Rightarrow> bool" where
  "sends m ws \<longleftrightarrow> emits m (\<lambda>r fs. prefix (writes fs) ws \<and> (isl r \<or> writes fs = ws))"

lemma sends_bind:
  assumes "sends m us" "\<And>x. sends (f x) vs"
  shows "sends (bind m f) (us @ vs)"
  using assms unfolding sends_def
  by (rule emits_bind) (auto simp: writes_def)

lemma sends_ret: "sends (ret x) []"
  by (simp add: sends_def emits_ret writes_def)

lemma writes_polls: "writes (replicate k poll_frame) = []"
  by (simp add: writes_def poll_frame_def)

lemma sends_read: "sends (request (watched sv) address None strobe) []"
  unfolding sends_def
  by (rule emits_mono [OF emits_request])
    (use writes_polls in \<open>auto simp: writes_def request_frame_def\<close>)

lemma sends_write:
  assumes "0 \<le> strobe" "strobe \<le> 15"
  shows "sends (request (watched sv) address (Some d) strobe) [request_frame address (Some d) strobe]"
proof -
  have "0x90 \<le> 0x90 OR strobe" by (rule or_greater_eq) (use assms in auto)
  then have "writes (request_frame address (Some d) strobe # replicate k poll_frame) = [request_frame address (Some d) strobe]" for k
    using writes_polls by (simp add: writes_def request_frame_def)
  then show ?thesis unfolding sends_def
    by (intro emits_mono [OF emits_request]) (auto simp: writes_def)
qed

lemma sends_raise: "sends (raise e) ws"
  by (simp add: sends_def emits_def writes_def)

lemma sends_bseq: "sends m us \<Longrightarrow> sends k vs \<Longrightarrow> sends (bseq m k) (us @ vs)"
  unfolding bseq_def by (rule sends_bind)

lemma sends_wait: "sends (wait_status_polls (watched sv) b n) []"
proof (induction n)
  case 0
  then show ?case by (simp only: wait_status_polls.simps sends_raise)
next
  case (Suc n)
  have "sends (bind (status (watched sv)) (\<lambda>v. if v AND push_bit b 1 \<noteq> 0 then ret v else wait_status_polls (watched sv) b n)) ([] @ [])"
    by (rule sends_bind) (auto simp: status_def sends_read intro: sends_ret Suc)
  then show ?case by simp
qed

lemma sends_owned: "sends (require_owned (watched sv)) []"
proof -
  have "sends (bind (status (watched sv)) (\<lambda>v. if v AND 4 = 0 then raise SpiError else ret ())) ([] @ [])"
    by (rule sends_bind) (auto simp: status_def sends_read simp del: ret_apply raise_apply intro: sends_ret sends_raise)
  then have "sends (bind (request (watched sv) CONTROL None 15) (\<lambda>control.
       if control AND 2 \<noteq> 0 then raise SpiError
       else bind (status (watched sv)) (\<lambda>v. if v AND 4 = 0 then raise SpiError else ret ()))) ([] @ [])"
    by (intro sends_bind) (auto simp: sends_read intro: sends_raise)
  then show ?thesis by (simp add: require_owned_def)
qed

text \<open>The control writes of a start, given the settings it keeps.\<close>

definition start_writes :: "int \<Rightarrow> int list list" where
  "start_writes settings = map (\<lambda>v. request_frame CONTROL (Some v) 15)
     [settings, settings OR 9, settings OR 1, settings OR 3]"

lemma sends_start_chain:
  "sends (bind (request (watched sv) CONTROL (Some c) 15) (\<lambda>_.
       bind (request (watched sv) CONTROL (Some (c OR 9)) 15) (\<lambda>_.
       bind (wait_status (watched sv) 0) (\<lambda>_.
       bind (request (watched sv) CONTROL (Some (c OR 1)) 15) (\<lambda>_.
       bind (request (watched sv) CONTROL (Some (c OR 3)) 15) (\<lambda>_. ret ())))))) (start_writes c)"
proof -
  have w: "sends (request (watched sv) CONTROL (Some v) 15) [request_frame CONTROL (Some v) 15]" for v
    by (rule sends_write) simp_all
  have "sends (bind (request (watched sv) CONTROL (Some c) 15) (\<lambda>_.
       bind (request (watched sv) CONTROL (Some (c OR 9)) 15) (\<lambda>_.
       bind (wait_status (watched sv) 0) (\<lambda>_.
       bind (request (watched sv) CONTROL (Some (c OR 1)) 15) (\<lambda>_.
       bind (request (watched sv) CONTROL (Some (c OR 3)) 15) (\<lambda>_. ret ()))))))
       ([request_frame CONTROL (Some c) 15] @ ([request_frame CONTROL (Some (c OR 9)) 15]
         @ ([] @ ([request_frame CONTROL (Some (c OR 1)) 15] @ ([request_frame CONTROL (Some (c OR 3)) 15] @ [])))))"
    unfolding wait_status_def by (intro sends_bind w sends_wait sends_ret)
  then show ?thesis by (simp add: start_writes_def)
qed

lemma emits_owned_then:
  assumes "\<And>c. sends (k c) (ws c)"
  shows "emits (bseq (require_owned (watched sv)) (bind (request (watched sv) CONTROL None 15) k))
     (\<lambda>r fs. \<exists>c. prefix (writes fs) (ws c) \<and> (isl r \<or> writes fs = ws c))"
proof -
  have inner: "emits (bind (request (watched sv) CONTROL None 15) k)
     (\<lambda>r fs. \<exists>c. prefix (writes fs) (ws c) \<and> (isl r \<or> writes fs = ws c))"
  proof (rule emits_bind [OF sends_read [unfolded sends_def] assms [unfolded sends_def]])
    fix e fs assume "prefix (writes fs) [] \<and> (isl (Inl e :: exn + int) \<or> writes fs = [])"
    then show "\<exists>c. prefix (writes fs) (ws c) \<and> (isl (Inl e :: exn + 'b) \<or> writes fs = ws c)" by simp
  next
    fix x fs r gs
    assume "prefix (writes fs) [] \<and> (isl (Inr x :: exn + int) \<or> writes fs = [])"
      "prefix (writes gs) (ws x) \<and> (isl r \<or> writes gs = ws x)"
    then show "\<exists>c. prefix (writes (fs @ gs)) (ws c) \<and> (isl r \<or> writes (fs @ gs) = ws c)"
      by (intro exI [of _ x]) (simp add: writes_def)
  qed
  show ?thesis unfolding bseq_def
    by (rule emits_bind [OF sends_owned [unfolded sends_def] inner]) (auto simp: writes_def)
qed

section \<open>The log of a start\<close>

text \<open>A log of frames with their replies that consists of the answered requests \<open>ops\<close>, in this order and with
  these values, and nothing else.\<close>

definition performs :: "nat \<Rightarrow> (int list \<times> int) list \<Rightarrow> (int list \<times> int list res) list \<Rightarrow> bool" where
  "performs n ops log \<longleftrightarrow> (\<exists>parts. log = concat parts \<and> list_all2 (\<lambda>(f, v) part. requested Pair n f (Inr v) part) ops parts)"

text \<open>A frame that writes the control register with the harts released.\<close>

definition releases :: "int list \<Rightarrow> bool" where
  "releases f \<longleftrightarrow> 0x90 \<le> hd f \<and> take 4 (drop 1 f) = be32 CONTROL \<and> last f AND 2 \<noteq> 0"

abbreviation held :: "(int list \<times> 'a) list \<Rightarrow> bool" where
  "held \<equiv> list_all (\<lambda>(f, _). \<not> releases f)"

abbreviation read_frame :: "int \<Rightarrow> int list" where
  "read_frame address \<equiv> request_frame address None 15"

abbreviation control_frame :: "int \<Rightarrow> int list" where
  "control_frame v \<equiv> request_frame CONTROL (Some v) 15"

text \<open>The requests of a start up to the release, with the values \<open>c0\<close>, \<open>st\<close>, \<open>c\<close> read and the status words of the wait.\<close>

definition start_ops :: "int \<Rightarrow> int \<Rightarrow> int \<Rightarrow> int \<Rightarrow> int \<Rightarrow> int list \<Rightarrow> int \<Rightarrow> (int list \<times> int) list" where
  "start_ops c0 st c x1 x2 seen x3 = [(read_frame CONTROL, c0), (read_frame STATUS, st), (read_frame CONTROL, c),
     (control_frame (c AND 0x24), x1), (control_frame (c AND 0x24 OR 9), x2)] @ map (Pair (read_frame STATUS)) seen
     @ [(control_frame (c AND 0x24 OR 1), x3)]"

definition start_log :: "nat \<Rightarrow> unit res \<Rightarrow> (int list \<times> int list res) list \<Rightarrow> bool" where
  "start_log n r log \<longleftrightarrow> (isl r \<and> held log)
     \<or> (\<exists>c0 st c x1 x2 us v x3 pre post r'. log = pre @ post \<and> performs n (start_ops c0 st c x1 x2 (us @ [v]) x3) pre \<and> held pre
          \<and> c0 AND 2 = 0 \<and> st AND 4 \<noteq> 0 \<and> list_all (\<lambda>u. u AND 1 = 0) us \<and> v AND 1 \<noteq> 0
          \<and> requested Pair n (control_frame (c AND 0x24 OR 3)) r' post \<and> isl r' = isl r)"

text \<open>What follows the answered requests \<open>ops\<close> completes them to the log of a start.\<close>

definition completes :: "'s supervisor \<Rightarrow> (int list \<times> int) list \<Rightarrow> ((int list \<times> int list res) list \<times> 's, unit) act \<Rightarrow> bool" where
  "completes sv ops m \<longleftrightarrow> emits m (\<lambda>r log. \<forall>pre. performs (sv_max_polls sv) ops pre \<longrightarrow> start_log (sv_max_polls sv) r (pre @ log))"

lemma held_requested: "\<not> releases f \<Longrightarrow> requested Pair n f r log \<Longrightarrow> held log"
  by (auto simp: requested_def list_all_iff releases_def poll_frame_def)

lemma held_performs: "held ops \<Longrightarrow> performs n ops log \<Longrightarrow> held log"
proof -
  have "held (concat parts)" if "list_all2 (\<lambda>(f, v) part. requested Pair n f (Inr v) part) ops parts" "held ops" for ops parts
    using that by (induction ops parts rule: list_all2_induct) (auto dest: held_requested)
  then show "held ops \<Longrightarrow> performs n ops log \<Longrightarrow> held log" unfolding performs_def by blast
qed

lemma performs_snoc: "performs n ops pre \<Longrightarrow> requested Pair n f (Inr v) log \<Longrightarrow> performs n (ops @ [(f, v)]) (pre @ log)"
  unfolding performs_def by (elim exE conjE) (rule_tac x = "parts @ [log]" in exI, simp add: list_all2_appendI)

lemma completes_raise: "held ops \<Longrightarrow> completes sv ops (raise e)"
  unfolding completes_def by (rule emits_raise) (auto simp: start_log_def dest: held_performs)

lemma completes_request:
  assumes "held ops" "\<not> releases (request_frame address data strobe)"
    and "\<And>v. completes sv (ops @ [(request_frame address data strobe, v)]) (k v)"
  shows "completes sv ops (bind (request (noted Pair sv) address data strobe) k)"
  unfolding completes_def
proof (rule emits_bind [OF emits_request_noted assms(3) [unfolded completes_def]])
  fix e :: exn and fs
  assume "(Inl e = Inl ValueError \<and> fs = []) \<or> requested Pair (sv_max_polls sv) (request_frame address data strobe) (Inl e) fs"
  then have "held fs" using held_requested [OF assms(2)] by auto
  then show "\<forall>pre. performs (sv_max_polls sv) ops pre \<longrightarrow> start_log (sv_max_polls sv) (Inl e) (pre @ fs)"
    using held_performs [OF assms(1)] by (simp add: start_log_def)
next
  fix v fs r gs
  assume fs: "(Inr v = Inl ValueError \<and> fs = []) \<or> requested Pair (sv_max_polls sv) (request_frame address data strobe) (Inr v) fs"
    and gs: "\<forall>pre. performs (sv_max_polls sv) (ops @ [(request_frame address data strobe, v)]) pre \<longrightarrow> start_log (sv_max_polls sv) r (pre @ gs)"
  show "\<forall>pre. performs (sv_max_polls sv) ops pre \<longrightarrow> start_log (sv_max_polls sv) r (pre @ fs @ gs)"
    using fs gs performs_snoc by fastforce
qed

lemma not_releases: "\<not> releases (read_frame address)" "v AND 2 = 0 \<Longrightarrow> \<not> releases (control_frame v)"
proof -
  show "\<not> releases (read_frame address)" by (simp add: releases_def request_frame_def)
  have "take_bit 8 v AND 2 = v AND 2" by (rule bit_eqI) (auto simp: bit_simps)
  then show "v AND 2 = 0 \<Longrightarrow> \<not> releases (control_frame v)" by (simp add: releases_def request_frame_def be32_def)
qed

lemma bind_assoc: "bind (bind m f) g = bind m (\<lambda>x. bind (f x) g)"
  by (rule ext) (simp add: bind_def split: prod.splits sum.splits)

lemma bind_raise: "bind (raise e) f = raise e"
  by (rule ext) (simp add: bind_def)

lemma bind_if: "bind (if b then m else k) f = (if b then bind m f else bind k f)"
  by simp

lemma completes_if: "(b \<Longrightarrow> completes sv ops m) \<Longrightarrow> (\<not> b \<Longrightarrow> completes sv ops k) \<Longrightarrow> completes sv ops (if b then m else k)"
  by simp

lemma completes_wait:
  assumes "held ops"
    and "\<And>us v. list_all (\<lambda>u. u AND 1 = 0) us \<Longrightarrow> v AND 1 \<noteq> 0 \<Longrightarrow> completes sv (ops @ map (Pair (read_frame STATUS)) (us @ [v])) (k v)"
  shows "completes sv ops (bind (wait_status_polls (noted Pair sv) 0 n) k)"
  using assms
proof (induction n arbitrary: ops)
  case 0
  then show ?case unfolding wait_status_polls.simps bind_raise by (intro completes_raise)
next
  case (Suc n)
  have one: "push_bit 0 (1 :: int) = 1" by simp
  show ?case
    unfolding wait_status_polls.simps status_def bind_assoc bind_if bind_ret one
  proof (intro completes_request completes_if Suc.prems(1) not_releases)
    show "completes sv (ops @ [(read_frame STATUS, v)]) (k v)" if "v AND 1 \<noteq> 0" for v
      using Suc.prems(2) [of "[]" v] that by simp
    show "completes sv (ops @ [(read_frame STATUS, v)]) (bind (wait_status_polls (noted Pair sv) 0 n) k)" if v: "\<not> v AND 1 \<noteq> 0" for v
    proof (rule Suc.IH)
      show "held (ops @ [(read_frame STATUS, v)])" using Suc.prems(1) not_releases(1) by simp
      show "completes sv ((ops @ [(read_frame STATUS, v)]) @ map (Pair (read_frame STATUS)) (us @ [w])) (k w)"
        if "list_all (\<lambda>u. u AND 1 = 0) us" "w AND 1 \<noteq> 0" for us w
        using Suc.prems(2) [of "v # us" w] that v by simp
    qed
  qed
qed

lemma completes_release:
  assumes "c0 AND 2 = 0" "st AND 4 \<noteq> 0" "list_all (\<lambda>u. u AND 1 = 0) us" "v AND 1 \<noteq> 0" "held (start_ops c0 st c x1 x2 (us @ [v]) x3)"
  shows "completes sv (start_ops c0 st c x1 x2 (us @ [v]) x3) (bind (request (noted Pair sv) CONTROL (Some (c AND 0x24 OR 3)) 15) (\<lambda>_. ret ()))"
  unfolding completes_def
proof (rule emits_bind [OF emits_request_noted, where R = "\<lambda>x r gs. r = Inr () \<and> gs = []"])
  let ?n = "sv_max_polls sv" and ?ops = "start_ops c0 st c x1 x2 (us @ [v]) x3"
  have released: "start_log ?n r (pre @ fs)" if "performs ?n ?ops pre" "requested Pair ?n (control_frame (c AND 0x24 OR 3)) r' fs" "isl r' = isl r" for r r' pre fs
    unfolding start_log_def using that assms(1-4) held_performs [OF assms(5) that(1)] by blast
  fix e :: exn and fs
  assume "(Inl e = Inl ValueError \<and> fs = []) \<or> requested Pair ?n (control_frame (c AND 0x24 OR 3)) (Inl e) fs"
  then show "\<forall>pre. performs ?n ?ops pre \<longrightarrow> start_log ?n (Inl e) (pre @ fs)"
    using released [of _ "Inl e" fs "Inl e"] held_performs [OF assms(5)] by (auto simp: start_log_def)
next
  let ?n = "sv_max_polls sv" and ?ops = "start_ops c0 st c x1 x2 (us @ [v]) x3"
  have released: "start_log ?n r (pre @ fs)" if "performs ?n ?ops pre" "requested Pair ?n (control_frame (c AND 0x24 OR 3)) r' fs" "isl r' = isl r" for r r' pre fs
    unfolding start_log_def using that assms(1-4) held_performs [OF assms(5) that(1)] by blast
  fix x fs and r :: "unit res" and gs :: "(int list \<times> int list res) list"
  assume "(Inr x = Inl ValueError \<and> fs = []) \<or> requested Pair ?n (control_frame (c AND 0x24 OR 3)) (Inr x) fs" "r = Inr () \<and> gs = []"
  then show "\<forall>pre. performs ?n ?ops pre \<longrightarrow> start_log ?n r (pre @ fs @ gs)"
    using released [of _ "Inr x" fs "Inr ()"] by auto
qed (simp add: emits_ret)

lemma completes_start: "completes sv [] (spi_start (noted Pair sv))"
proof -
  have bits: "(c AND 0x24) AND 2 = 0" "(c AND 0x24 OR 9) AND 2 = 0" "(c AND 0x24 OR 1) AND 2 = 0" for c :: int
    by (simp_all add: and.assoc bit.conj_disj_distrib2)
  note held = not_releases(1) bits [THEN not_releases(2)]
  have m: "sv_max_polls (noted Pair sv) = sv_max_polls sv" by (simp add: noted_def)
  define release where "release = (\<lambda>c. bind (request (noted Pair sv) CONTROL (Some (c AND 0x24 OR 3)) 15) (\<lambda>_. ret ()))"
  have release: "bind (request (noted Pair sv) CONTROL (Some (c AND 0x24 OR 3)) 15) (\<lambda>_. ret ()) = release c" for c
    by (simp add: release_def)
  show ?thesis
    unfolding spi_start_def bseq_def require_owned_def status_def wait_status_def Let_def bind_assoc bind_if bind_raise bind_ret
    unfolding release
  proof (intro completes_request completes_if completes_raise completes_wait)
    show "completes sv ((((((([] @ [(read_frame CONTROL, c0)]) @ [(read_frame STATUS, st)]) @ [(read_frame CONTROL, c)])
        @ [(control_frame (c AND 0x24), x1)]) @ [(control_frame (c AND 0x24 OR 9), x2)]) @ map (Pair (read_frame STATUS)) (us @ [v]))
        @ [(control_frame (c AND 0x24 OR 1), x3)])
      (release c)"
      if "\<not> c0 AND 2 \<noteq> 0" "\<not> st AND 4 = 0" "list_all (\<lambda>u. u AND 1 = 0) us" "v AND 1 \<noteq> 0" for c0 st c x1 x2 us v x3
      using completes_release [of c0 st us v c x1 x2 x3 sv] that held by (simp add: start_ops_def release_def list_all_iff)
  qed (use held in \<open>simp_all add: list_all_iff\<close>)
qed

section \<open>The properties\<close>

text \<open>C31: A request on the wire: an invalid request sends nothing; otherwise exactly one command frame is
  sent, followed only by at most \<open>max_polls\<close> poll frames, whatever the device answers. No write is
  ever repeated, and a value is returned only after a poll.\<close>

theorem request_sent_once:
  "\<exists>fs. fst (snd (request (watched sv) address data strobe (before, s))) = before @ fs
     \<and> (let r = fst (request (watched sv) address data strobe (before, s)) in
        if fs = [] then r = Inl ValueError
        else \<exists>k. k \<le> sv_max_polls sv \<and> fs = request_frame address data strobe # replicate k poll_frame
               \<and> (1 \<le> k \<or> isl r))"
proof -
  define r where "r = fst (request (watched sv) address data strobe (before, s))"
  obtain fs where fs: "fst (snd (request (watched sv) address data strobe (before, s))) = before @ fs"
    "(r = Inl ValueError \<and> fs = []) \<or> (\<exists>k\<le> sv_max_polls sv. fs = request_frame address data strobe # replicate k poll_frame \<and> (isl r \<or> 1 \<le> k))"
    using emits_request [of sv address data strobe] unfolding emits_def r_def by blast
  from fs(2) show ?thesis unfolding r_def [symmetric] Let_def
    by (intro exI [of _ fs] conjI fs(1)) auto
qed

text \<open>The order of a start's writes: the control register is written with the harts held, then with the cluster
  released and the flush requested, then with the flush retired, and only as the very last write
  with the harts released; a start that fails has sent a prefix of these writes.\<close>

lemma start_write_order:
  "\<exists>fs settings. fst (snd (spi_start (watched sv) (before, s))) = before @ fs
     \<and> prefix (writes fs) (start_writes settings) \<and> settings AND 2 = 0
     \<and> (isl (fst (spi_start (watched sv) (before, s))) \<or> writes fs = start_writes settings)"
proof -
  have "emits (spi_start (watched sv)) (\<lambda>r fs. \<exists>c. prefix (writes fs) (start_writes (c AND 0x24)) \<and> (isl r \<or> writes fs = start_writes (c AND 0x24)))"
    unfolding spi_start_def Let_def by (rule emits_owned_then) (rule sends_start_chain)
  then obtain fs c where "fst (snd (spi_start (watched sv) (before, s))) = before @ fs"
    "prefix (writes fs) (start_writes (c AND 0x24))"
    "isl (fst (spi_start (watched sv) (before, s))) \<or> writes fs = start_writes (c AND 0x24)"
    unfolding emits_def by blast
  moreover have "(c AND 0x24) AND 2 = 0" by (simp add: and.assoc)
  ultimately show ?thesis by blast
qed

text \<open>C32: Starting the harts: no frame that releases the harts leaves the supervisor before the following has happened on
  the wire, in this order and with nothing else in between: the control register was read with the harts held, the
  status with the memory drained, the control register again for the settings to keep, these were written with the harts
  held, then with the flush requested, the status was polled until it showed the flush done, and the flush was retired.
  The release is then the last request. A start that returns has released the harts in this way; one that fails has
  either sent no releasing frame at all, or failed in the release itself.\<close>

theorem start_releases_last:
  "\<exists>log. fst (snd (spi_start (noted Pair sv) (before, s))) = before @ log
     \<and> (let r = fst (spi_start (noted Pair sv) (before, s)); n = sv_max_polls sv in
        (isl r \<and> list_all (\<lambda>(f, _). \<not> releases f) log)
        \<or> (\<exists>c0 st c x1 x2 us v x3 pre post r'. log = pre @ post \<and> list_all (\<lambda>(f, _). \<not> releases f) pre
             \<and> performs n ([(read_frame CONTROL, c0), (read_frame STATUS, st), (read_frame CONTROL, c),
                  (control_frame (c AND 0x24), x1), (control_frame (c AND 0x24 OR 9), x2)]
                  @ map (Pair (read_frame STATUS)) (us @ [v]) @ [(control_frame (c AND 0x24 OR 1), x3)]) pre
             \<and> c0 AND 2 = 0 \<and> st AND 4 \<noteq> 0 \<and> list_all (\<lambda>u. u AND 1 = 0) us \<and> v AND 1 \<noteq> 0
             \<and> requested Pair n (control_frame (c AND 0x24 OR 3)) r' post \<and> isl r' = isl r))"
proof -
  have none: "performs n [] []" for n by (simp add: performs_def)
  obtain log where "fst (snd (spi_start (noted Pair sv) (before, s))) = before @ log"
      "start_log (sv_max_polls sv) (fst (spi_start (noted Pair sv) (before, s))) log"
    using completes_start [of sv] none unfolding completes_def emits_def by (metis append_Nil)
  then show ?thesis unfolding start_log_def start_ops_def Let_def by blast
qed

end
