(* ===== verification/PyData.thy ===== *)
theory PyData
  imports Float64 "HOL-Library.Char_ord"
begin

text \<open>
  Values of the Python sources that work on JSON documents (\<open>py\<close>), and their expressions: an
  expression is a \<open>py res\<close>, a condition a \<open>bool res\<close>, so that a missing key or a wrong type is the
  exception Python raises, in the order in which Python evaluates. Dictionaries keep their insertion
  order. Sets appear only in comparisons and are lists here.
\<close>

section \<open>Values\<close>

datatype py = PyNone | PyBool bool | PyInt int | PyFloat f64 | PyStr string
  | PyTuple "py list" | PyList "py list" | PyDict "(py \<times> py) list"

text \<open>A number as the exact value it denotes; \<open>True\<close> is 1.\<close>

fun num_of :: "py \<Rightarrow> f64 option" where
  "num_of (PyBool b) = Some (Fin (of_bool b))"
| "num_of (PyInt n) = Some (Fin (of_int n))"
| "num_of (PyFloat x) = Some x"
| "num_of _ = None"

text \<open>\<open>==\<close>: numbers by value, containers element by element, dictionaries in any order.\<close>

definition num_same :: "f64 \<Rightarrow> py \<Rightarrow> bool" where
  "num_same a y = (case num_of y of Some b \<Rightarrow> feq a b | None \<Rightarrow> False)"

function (sequential) py_eq :: "py \<Rightarrow> py \<Rightarrow> bool"
  and py_eqs :: "py list \<Rightarrow> py list \<Rightarrow> bool"
  and py_inside :: "(py \<times> py) list \<Rightarrow> (py \<times> py) list \<Rightarrow> bool" where
  "py_eq PyNone y = (y = PyNone)"
| "py_eq (PyBool b) y = num_same (Fin (of_bool b)) y"
| "py_eq (PyInt n) y = num_same (Fin (of_int n)) y"
| "py_eq (PyFloat x) y = num_same x y"
| "py_eq (PyStr s) y = (y = PyStr s)"
| "py_eq (PyTuple xs) y = (case y of PyTuple ys \<Rightarrow> py_eqs xs ys | _ \<Rightarrow> False)"
| "py_eq (PyList xs) y = (case y of PyList ys \<Rightarrow> py_eqs xs ys | _ \<Rightarrow> False)"
| "py_eq (PyDict d) y = (case y of PyDict e \<Rightarrow> length d = length e \<and> py_inside d e | _ \<Rightarrow> False)"
| "py_eqs [] ys = (ys = [])"
| "py_eqs (x # xs) ys = (case ys of [] \<Rightarrow> False | y # r \<Rightarrow> py_eq x y \<and> py_eqs xs r)"
| "py_inside [] e = True"
| "py_inside ((k, v) # d) e = (list_ex (\<lambda>(k', v'). py_eq k k' \<and> py_eq v v') e \<and> py_inside d e)"
  by pat_completeness auto
termination
  by (relation "measure (case_sum (\<lambda>(x, y). size x) (case_sum (\<lambda>(xs, ys). size_list size xs)
    (\<lambda>(d, e). size_list (size_prod size size) d)))") auto

text \<open>Truth.\<close>

fun truth :: "py \<Rightarrow> bool" where
  "truth PyNone = False"
| "truth (PyBool b) = b"
| "truth (PyInt n) = (n \<noteq> 0)"
| "truth (PyFloat x) = (x \<noteq> Fin 0)"
| "truth (PyStr s) = (s \<noteq> [])"
| "truth (PyTuple xs) = (xs \<noteq> [])"
| "truth (PyList xs) = (xs \<noteq> [])"
| "truth (PyDict d) = (d \<noteq> [])"

section \<open>Access\<close>

fun dict_find :: "(py \<times> py) list \<Rightarrow> py \<Rightarrow> py option" where
  "dict_find [] k = None"
| "dict_find ((k', v) # d) k = (if py_eq k' k then Some v else dict_find d k)"

text \<open>\<open>d[k] = v\<close>: a new key goes to the end.\<close>

fun dict_put :: "(py \<times> py) list \<Rightarrow> py \<Rightarrow> py \<Rightarrow> (py \<times> py) list" where
  "dict_put [] k v = [(k, v)]"
| "dict_put ((k', v') # d) k v = (if py_eq k' k then (k', v) # d else (k', v') # dict_put d k v)"

text \<open>\<open>xs[i]\<close>: a negative index counts from the end.\<close>

definition seq_item :: "'a list \<Rightarrow> int \<Rightarrow> 'a res" where
  "seq_item xs i = (let j = (if i < 0 then i + int (length xs) else i) in
     if 0 \<le> j \<and> j < int (length xs) then Inr (xs ! nat j) else Inl IndexError)"

fun item :: "py \<Rightarrow> py \<Rightarrow> py res" where
  "item (PyDict d) k = (case dict_find d k of Some v \<Rightarrow> Inr v | None \<Rightarrow> Inl KeyError)"
| "item (PyList xs) (PyInt i) = seq_item xs i"
| "item (PyTuple xs) (PyInt i) = seq_item xs i"
| "item (PyStr s) (PyInt i) = rbind (seq_item s i) (\<lambda>c. Inr (PyStr [c]))"
| "item _ _ = Inl TypeError"

definition elements :: "py \<Rightarrow> py list res" where
  "elements x = (case x of PyList xs \<Rightarrow> Inr xs | PyTuple xs \<Rightarrow> Inr xs | PyDict d \<Rightarrow> Inr (map fst d)
     | PyStr s \<Rightarrow> Inr (map (\<lambda>c. PyStr [c]) s) | _ \<Rightarrow> Inl TypeError)"

definition pairs :: "py \<Rightarrow> (py \<times> py) list res" where
  "pairs x = (case x of PyDict d \<Rightarrow> Inr d | _ \<Rightarrow> Inl AttributeError)"

definition py_len :: "py \<Rightarrow> int res" where
  "py_len x = (case x of PyList xs \<Rightarrow> Inr (int (length xs)) | PyTuple xs \<Rightarrow> Inr (int (length xs))
     | PyDict d \<Rightarrow> Inr (int (length d)) | PyStr s \<Rightarrow> Inr (int (length s)) | _ \<Rightarrow> Inl TypeError)"

section \<open>Expressions\<close>

abbreviation I :: "int \<Rightarrow> py res" where "I n \<equiv> Inr (PyInt n)"
abbreviation S :: "string \<Rightarrow> py res" where "S s \<equiv> Inr (PyStr s)"
abbreviation B :: "bool \<Rightarrow> py res" where "B b \<equiv> Inr (PyBool b)"
abbreviation F :: "rat \<Rightarrow> py res" where "F q \<equiv> Inr (PyFloat (round64 q))"
abbreviation V :: "py \<Rightarrow> py res" where "V x \<equiv> Inr x"

definition itm :: "py res \<Rightarrow> py res \<Rightarrow> py res" where
  "itm x k = rbind x (\<lambda>v. rbind k (\<lambda>i. item v i))"

abbreviation fld :: "py res \<Rightarrow> string \<Rightarrow> py res" where "fld x k \<equiv> itm x (S k)"

definition get :: "py res \<Rightarrow> string \<Rightarrow> py \<Rightarrow> py res" where
  "get x k dflt = rbind x (\<lambda>v. case v of PyDict d \<Rightarrow> Inr (case dict_find d (PyStr k) of Some w \<Rightarrow> w | None \<Rightarrow> dflt)
     | _ \<Rightarrow> Inl AttributeError)"

definition eq :: "py res \<Rightarrow> py res \<Rightarrow> bool res" where
  "eq x y = rbind x (\<lambda>a. rbind y (\<lambda>b. Inr (py_eq a b)))"

definition ne :: "py res \<Rightarrow> py res \<Rightarrow> bool res" where
  "ne x y = rbind (eq x y) (\<lambda>b. Inr (\<not> b))"

text \<open>Order: numbers by value, strings by characters; anything else is a \<open>TypeError\<close>.\<close>

fun str_less :: "string \<Rightarrow> string \<Rightarrow> bool" where
  "str_less _ [] = False"
| "str_less [] _ = True"
| "str_less (c # s) (d # t) = (c < d \<or> (c = d \<and> str_less s t))"

definition py_less :: "py \<Rightarrow> py \<Rightarrow> bool res" where
  "py_less a b = (case (a, b) of (PyStr s, PyStr t) \<Rightarrow> Inr (str_less s t)
     | _ \<Rightarrow> (case (num_of a, num_of b) of (Some x, Some y) \<Rightarrow> Inr (flt x y) | _ \<Rightarrow> Inl TypeError))"

definition py_leq :: "py \<Rightarrow> py \<Rightarrow> bool res" where
  "py_leq a b = (case (a, b) of (PyStr s, PyStr t) \<Rightarrow> Inr (\<not> str_less t s)
     | _ \<Rightarrow> (case (num_of a, num_of b) of (Some x, Some y) \<Rightarrow> Inr (fle x y) | _ \<Rightarrow> Inl TypeError))"

definition lt :: "py res \<Rightarrow> py res \<Rightarrow> bool res" where
  "lt x y = rbind x (\<lambda>a. rbind y (\<lambda>b. py_less a b))"

definition le :: "py res \<Rightarrow> py res \<Rightarrow> bool res" where
  "le x y = rbind x (\<lambda>a. rbind y (\<lambda>b. py_leq a b))"


text \<open>\<open>and\<close>, \<open>or\<close>, \<open>not\<close>, \<open>all\<close>, \<open>any\<close>.\<close>

fun conjs :: "bool res list \<Rightarrow> bool res" where
  "conjs [] = Inr True"
| "conjs (c # cs) = rbind c (\<lambda>b. if b then conjs cs else Inr False)"

fun disjs :: "bool res list \<Rightarrow> bool res" where
  "disjs [] = Inr False"
| "disjs (c # cs) = rbind c (\<lambda>b. if b then Inr True else disjs cs)"

definition neg :: "bool res \<Rightarrow> bool res" where
  "neg c = rbind c (\<lambda>b. Inr (\<not> b))"

definition tru :: "py res \<Rightarrow> bool res" where
  "tru x = rbind x (\<lambda>v. Inr (truth v))"

definition alls :: "('a \<Rightarrow> bool res) \<Rightarrow> 'a list res \<Rightarrow> bool res" where
  "alls p xs = rbind xs (\<lambda>vs. conjs (map p vs))"

definition anys :: "('a \<Rightarrow> bool res) \<Rightarrow> 'a list res \<Rightarrow> bool res" where
  "anys p xs = rbind xs (\<lambda>vs. disjs (map p vs))"

definition iter :: "py res \<Rightarrow> py list res" where
  "iter x = rbind x elements"

definition items :: "py res \<Rightarrow> (py \<times> py) list res" where
  "items x = rbind x pairs"

text \<open>\<open>[f(x) for x in xs]\<close> and \<open>[x for x in xs if p(x)]\<close>.\<close>

definition lcomp :: "('a \<Rightarrow> 'b res) \<Rightarrow> 'a list res \<Rightarrow> 'b list res" where
  "lcomp f xs = rbind xs (rmap f)"

fun keep :: "('a \<Rightarrow> bool res) \<Rightarrow> 'a list \<Rightarrow> 'a list res" where
  "keep p [] = Inr []"
| "keep p (x # xs) = rbind (p x) (\<lambda>b. rbind (keep p xs) (\<lambda>ys. Inr (if b then x # ys else ys)))"

definition lst :: "py list res \<Rightarrow> py res" where
  "lst xs = rbind xs (\<lambda>vs. Inr (PyList vs))"

definition len :: "py res \<Rightarrow> py res" where
  "len x = rbind x (\<lambda>v. rbind (py_len v) (\<lambda>n. Inr (PyInt n)))"

text \<open>\<open>k in d\<close> for dictionaries and sequences, \<open>s in t\<close> for strings.\<close>

definition infix_of :: "string \<Rightarrow> string \<Rightarrow> bool" where
  "infix_of s t \<longleftrightarrow> list_ex (\<lambda>i. take (length s) (drop i t) = s) [0..<Suc (length t - length s)]"

definition contains :: "py \<Rightarrow> py \<Rightarrow> bool res" where
  "contains k x = (case x of PyStr t \<Rightarrow> (case k of PyStr s \<Rightarrow> Inr (infix_of s t) | _ \<Rightarrow> Inl TypeError)
     | _ \<Rightarrow> rbind (elements x) (\<lambda>vs. Inr (list_ex (\<lambda>v. py_eq v k) vs)))"

text \<open>\<open>set(xs) == {..}\<close>.\<close>

definition set_eq :: "py list \<Rightarrow> py list \<Rightarrow> bool" where
  "set_eq xs ys \<longleftrightarrow> list_all (\<lambda>x. list_ex (py_eq x) ys) xs \<and> list_all (\<lambda>y. list_ex (py_eq y) xs) ys"

section \<open>Arithmetic\<close>

text \<open>An operand in a mixed operation: an integer beyond binary64 does not convert.\<close>

fun to_float :: "py \<Rightarrow> f64 res" where
  "to_float (PyBool b) = Inr (Fin (of_bool b))"
| "to_float (PyInt n) = (let x = f_int n in if is_finite x then Inr x else Inl OverflowError)"
| "to_float (PyFloat x) = Inr x"
| "to_float _ = Inl TypeError"

fun to_int :: "py \<Rightarrow> int option" where
  "to_int (PyBool b) = Some (of_bool b)"
| "to_int (PyInt n) = Some n"
| "to_int _ = None"

definition arith :: "(int \<Rightarrow> int \<Rightarrow> int) \<Rightarrow> (f64 \<Rightarrow> f64 \<Rightarrow> f64) \<Rightarrow> py \<Rightarrow> py \<Rightarrow> py res" where
  "arith f g a b = (case (to_int a, to_int b) of (Some m, Some n) \<Rightarrow> Inr (PyInt (f m n))
     | _ \<Rightarrow> rbind (to_float a) (\<lambda>x. rbind (to_float b) (\<lambda>y. Inr (PyFloat (g x y)))))"

definition py_add :: "py \<Rightarrow> py \<Rightarrow> py res" where
  "py_add a b = (case (a, b) of (PyStr s, PyStr t) \<Rightarrow> Inr (PyStr (s @ t))
     | (PyList xs, PyList ys) \<Rightarrow> Inr (PyList (xs @ ys)) | (PyTuple xs, PyTuple ys) \<Rightarrow> Inr (PyTuple (xs @ ys))
     | _ \<Rightarrow> arith (+) fadd a b)"

definition py_sub :: "py \<Rightarrow> py \<Rightarrow> py res" where
  "py_sub = arith (-) fsub"

definition py_mul :: "py \<Rightarrow> py \<Rightarrow> py res" where
  "py_mul = arith (*) fmul"

text \<open>\<open>/\<close>: of integers, the quotient rounded once.\<close>

definition py_div :: "py \<Rightarrow> py \<Rightarrow> py res" where
  "py_div a b = (case (to_int a, to_int b) of
      (Some m, Some n) \<Rightarrow> if n = 0 then Inl ZeroDivisionError
        else let q = round64 (of_int m / of_int n) in if is_finite q then Inr (PyFloat q) else Inl OverflowError
    | _ \<Rightarrow> rbind (to_float a) (\<lambda>x. rbind (to_float b) (\<lambda>y. rbind (py_fdiv x y) (\<lambda>q. Inr (PyFloat q)))))"

definition lift2 :: "(py \<Rightarrow> py \<Rightarrow> py res) \<Rightarrow> py res \<Rightarrow> py res \<Rightarrow> py res" where
  "lift2 f x y = rbind x (\<lambda>a. rbind y (\<lambda>b. f a b))"

abbreviation add :: "py res \<Rightarrow> py res \<Rightarrow> py res" where "add \<equiv> lift2 py_add"
abbreviation minus' :: "py res \<Rightarrow> py res \<Rightarrow> py res" where "minus' \<equiv> lift2 py_sub"
abbreviation mul :: "py res \<Rightarrow> py res \<Rightarrow> py res" where "mul \<equiv> lift2 py_mul"
abbreviation quot :: "py res \<Rightarrow> py res \<Rightarrow> py res" where "quot \<equiv> lift2 py_div"

text \<open>\<open>sum(xs)\<close>, from the integer 0, left to right, each float addition rounded, as the interpreter does up to Python 3.11.\<close>

fun sum_from :: "py \<Rightarrow> py list \<Rightarrow> py res" where
  "sum_from acc [] = Inr acc"
| "sum_from acc (x # xs) = rbind (py_add acc x) (\<lambda>a. sum_from a xs)"

definition total :: "py list res \<Rightarrow> py res" where
  "total xs = rbind xs (sum_from (PyInt 0))"

text \<open>\<open>require(condition, message)\<close>: every message is a \<open>ValueError\<close>.\<close>

definition check :: "bool res \<Rightarrow> unit res" where
  "check c = rbind c (\<lambda>b. if b then Inr () else Inl ValueError)"

fun checks :: "bool res list \<Rightarrow> unit res" where
  "checks [] = Inr ()"
| "checks (c # cs) = rbind (check c) (\<lambda>_. checks cs)"

fun rfold :: "('a \<Rightarrow> 'b \<Rightarrow> 'a res) \<Rightarrow> 'a \<Rightarrow> 'b list \<Rightarrow> 'a res" where
  "rfold f a [] = Inr a"
| "rfold f a (x # xs) = rbind (f a x) (\<lambda>a'. rfold f a' xs)"

section \<open>Laws\<close>

text \<open>What an accepted check, conjunction or selection means.\<close>

lemma check_ok [simp]: "check c = Inr () \<longleftrightarrow> c = Inr True"
  by (auto simp: check_def split: if_splits)

lemma checks_ok [simp]: "checks cs = Inr () \<longleftrightarrow> (\<forall>c\<in>set cs. c = Inr True)"
  by (induction cs) auto

lemma conjs_true [simp]: "conjs cs = Inr True \<longleftrightarrow> (\<forall>c\<in>set cs. c = Inr True)"
  by (induction cs) (auto split: if_splits)

declare conjs.simps [simp del] checks.simps [simp del]

lemma alls_true [simp]: "alls p xs = Inr True \<longleftrightarrow> (\<exists>vs. xs = Inr vs \<and> (\<forall>v\<in>set vs. p v = Inr True))"
  by (auto simp: alls_def)

lemma neg_true [simp]: "neg c = Inr True \<longleftrightarrow> c = Inr False"
  by (auto simp: neg_def)

lemma eq_true: "eq x y = Inr True \<longleftrightarrow> (\<exists>a b. x = Inr a \<and> y = Inr b \<and> py_eq a b)"
  by (auto simp: eq_def)

lemma le_true: "le x y = Inr True \<longleftrightarrow> (\<exists>a b. x = Inr a \<and> y = Inr b \<and> py_leq a b = Inr True)"
  by (auto simp: le_def)

lemma keep_Inr: "keep p xs = Inr ys \<longleftrightarrow> (\<forall>x\<in>set xs. \<exists>b. p x = Inr b) \<and> ys = filter (\<lambda>x. p x = Inr True) xs"
proof (induction xs arbitrary: ys)
  case (Cons x xs)
  show ?case
  proof (cases "p x")
    case (Inl e)
    then show ?thesis by simp
  next
    case (Inr b)
    then show ?thesis by (cases b) (auto simp: Cons)
  qed
next
  case Nil
  show ?case by (cases ys) simp_all
qed

lemma rmap_Inr: "rmap f xs = Inr ys \<longleftrightarrow> length ys = length xs \<and> (\<forall>i<length xs. f (xs ! i) = Inr (ys ! i))"
proof (induction xs arbitrary: ys)
  case (Cons x xs)
  show ?case by (cases ys) (auto simp: Cons All_less_Suc2)
qed auto

text \<open>An invariant of a loop that may raise.\<close>

lemma rfold_inv:
  assumes "rfold f a xs = Inr b" "P 0 a"
    and "\<And>i c d. i < length xs \<Longrightarrow> P i c \<Longrightarrow> f c (xs ! i) = Inr d \<Longrightarrow> P (Suc i) d"
  shows "P (length xs) b"
  using assms
proof (induction xs arbitrary: a P)
  case (Cons x xs)
  obtain c where c: "f a x = Inr c" "rfold f c xs = Inr b" using Cons.prems(1) by auto
  have "P (Suc 0) c" using Cons.prems(3) [of 0 a c] Cons.prems(2) c(1) by simp
  then have "P (Suc (length xs)) b"
    using Cons.IH [OF c(2), of "\<lambda>i. P (Suc i)"] Cons.prems(3) [of "Suc _"] by auto
  then show ?case by simp
qed simp


end
