(* ===== verification/PyText.thy ===== *)
theory PyText
  imports PyData
begin

text \<open>
  The string operations and the regular expressions the sources use. A regular expression yields its
  matches at a position in the order in which Python's backtracking tries them; the first one is the
  match. Texts are ASCII.
\<close>

section \<open>Characters and splitting\<close>

definition code :: "char \<Rightarrow> nat" where "code c = of_char c"

definition is_digit :: "char \<Rightarrow> bool" where "is_digit c \<longleftrightarrow> 48 \<le> code c \<and> code c \<le> 57"

definition is_space :: "char \<Rightarrow> bool" where
  "is_space c \<longleftrightarrow> (9 \<le> code c \<and> code c \<le> 13) \<or> (28 \<le> code c \<and> code c \<le> 32)"

definition is_word :: "char \<Rightarrow> bool" where
  "is_word c \<longleftrightarrow> is_digit c \<or> (65 \<le> code c \<and> code c \<le> 90) \<or> (97 \<le> code c \<and> code c \<le> 122) \<or> code c = 95"

definition NL :: char where "NL = char_of (10 :: nat)"

text \<open>\<open>s.split()\<close>: maximal runs without white space.\<close>

fun split_from :: "string \<Rightarrow> string \<Rightarrow> string list" where
  "split_from w [] = (if w = [] then [] else [rev w])"
| "split_from w (c # s) = (if is_space c then (if w = [] then split_from [] s else rev w # split_from [] s)
     else split_from (c # w) s)"

definition split :: "string \<Rightarrow> string list" where "split s = split_from [] s"

text \<open>\<open>s.split(sep)\<close> for a separator that is not empty; \<open>s.splitlines()\<close> for newlines.\<close>

fun split_at :: "string \<Rightarrow> nat \<Rightarrow> string \<Rightarrow> string \<Rightarrow> string list" where
  "split_at sep 0 w s = [rev w @ s]"
| "split_at sep (Suc n) w s =
     (if s = [] then [rev w]
      else if take (length sep) s = sep then rev w # split_at sep n [] (drop (length sep) s)
      else split_at sep n (hd s # w) (tl s))"

definition split_on :: "string \<Rightarrow> string \<Rightarrow> string list res" where
  "split_on sep s = (if sep = [] then Inl ValueError else Inr (split_at sep (Suc (length s)) [] s))"

definition splitlines :: "string \<Rightarrow> string list" where
  "splitlines s = (let ls = split_at [NL] (Suc (length s)) [] s in if last ls = [] then butlast ls else ls)"

definition startswith :: "string \<Rightarrow> string \<Rightarrow> bool" where "startswith p s \<longleftrightarrow> take (length p) s = p"
definition endswith :: "string \<Rightarrow> string \<Rightarrow> bool" where "endswith p s \<longleftrightarrow> take (length p) (rev s) = rev p"

fun join :: "string \<Rightarrow> string list \<Rightarrow> string" where
  "join sep [] = []" | "join sep [x] = x" | "join sep (x # y # r) = x @ sep @ join sep (y # r)"

text \<open>\<open>s.count(t)\<close> and \<open>s.replace(t, u)\<close>: occurrences that do not overlap, from the left.\<close>

definition count_of :: "string \<Rightarrow> string \<Rightarrow> nat" where
  "count_of t s = (if t = [] then length s + 1 else length (split_at t (Suc (length s)) [] s) - 1)"

definition replace :: "string \<Rightarrow> string \<Rightarrow> string \<Rightarrow> string" where
  "replace t u s = (if t = [] then u @ concat (map (\<lambda>c. c # u) s) else join u (split_at t (Suc (length s)) [] s))"

text \<open>\<open>s.find(t)\<close>.\<close>

definition find_at :: "string \<Rightarrow> string \<Rightarrow> nat option" where
  "find_at t s = List.find (\<lambda>i. take (length t) (drop i s) = t) [0..<Suc (length s)]"

section \<open>Numbers\<close>

definition str_of_int :: "int \<Rightarrow> string" where
  "str_of_int n = (if n < 0 then ''-'' @ str_of_nat (nat (- n)) else str_of_nat (nat n))"

text \<open>\<open>int(s)\<close> of decimal digits, \<open>float(s)\<close> of a decimal with an optional sign and fraction.\<close>

definition digits_value :: "string \<Rightarrow> int" where
  "digits_value s = fold (\<lambda>c n. n * 10 + (int (code c) - 48)) s 0"

definition unsigned_int :: "string \<Rightarrow> int option" where
  "unsigned_int s = (if s \<noteq> [] \<and> list_all is_digit s then Some (digits_value s) else None)"

definition signed :: "(string \<Rightarrow> 'a option) \<Rightarrow> ('a \<Rightarrow> 'a) \<Rightarrow> string \<Rightarrow> 'a option" where
  "signed f g s = (case s of [] \<Rightarrow> f []
     | c # r \<Rightarrow> if code c = 45 then map_option g (f r) else if code c = 43 then f r else f s)"

definition parse_int :: "string \<Rightarrow> int res" where
  "parse_int s = (case signed unsigned_int uminus s of Some n \<Rightarrow> Inr n | None \<Rightarrow> Inl ValueError)"

definition unsigned_decimal :: "string \<Rightarrow> rat option" where
  "unsigned_decimal s = (let a = takeWhile (\<lambda>c. code c \<noteq> 46) s; b = drop (Suc (length a)) s in
     if list_all is_digit a \<and> list_all is_digit b \<and> (a \<noteq> [] \<or> b \<noteq> [])
     then Some (of_int (digits_value a) + of_int (digits_value b) / 10 ^ length b) else None)"

definition parse_float :: "string \<Rightarrow> f64 res" where
  "parse_float s = (case signed unsigned_decimal uminus s of Some q \<Rightarrow> Inr (round64 q) | None \<Rightarrow> Inl ValueError)"

text \<open>\<open>f'{x:.kf}'\<close> of a finite value: the exact value rounded half to even at \<open>k\<close> decimals.\<close>

definition fixed :: "nat \<Rightarrow> rat \<Rightarrow> string" where
  "fixed k q = (let n = rne_rat (\<bar>q\<bar> * 10 ^ k); a = n div 10 ^ k; b = n mod 10 ^ k; t = str_of_nat (nat b)
     in (if q < 0 then ''-'' else '''') @ str_of_nat (nat a)
        @ (if k = 0 then '''' else ''.'' @ replicate (k - length t) CHR ''0'' @ t))"

section \<open>Regular expressions\<close>

datatype regex = Eps | Ch "char \<Rightarrow> bool" | Cat regex regex | Alt regex regex | Many bool regex | Grp nat regex | Bol | Eol | Wb

type_synonym captures = "nat \<Rightarrow> (nat \<times> nat) option"

fun many :: "(nat \<Rightarrow> captures \<Rightarrow> (nat \<times> captures) list) \<Rightarrow> bool \<Rightarrow> nat \<Rightarrow> nat \<Rightarrow> captures \<Rightarrow> (nat \<times> captures) list" where
  "many f greedy 0 i g = [(i, g)]"
| "many f greedy (Suc n) i g =
     (let further = concat (map (\<lambda>(j, g'). if j > i then many f greedy n j g' else []) (f i g))
      in if greedy then further @ [(i, g)] else (i, g) # further)"

definition word_at :: "string \<Rightarrow> nat \<Rightarrow> bool" where
  "word_at s i \<longleftrightarrow> i < length s \<and> is_word (s ! i)"

primrec matches :: "string \<Rightarrow> regex \<Rightarrow> nat \<Rightarrow> captures \<Rightarrow> (nat \<times> captures) list" where
  "matches s Eps i g = [(i, g)]"
| "matches s (Ch p) i g = (if i < length s \<and> p (s ! i) then [(i + 1, g)] else [])"
| "matches s (Cat a b) i g = concat (map (\<lambda>(j, g'). matches s b j g') (matches s a i g))"
| "matches s (Alt a b) i g = matches s a i g @ matches s b i g"
| "matches s (Many greedy a) i g = many (matches s a) greedy (length s - i) i g"
| "matches s (Grp k a) i g = map (\<lambda>(j, g'). (j, g'(k := Some (i, j)))) (matches s a i g)"
| "matches s Bol i g = (if i = 0 \<or> s ! (i - 1) = NL then [(i, g)] else [])"
| "matches s Eol i g = (if i = length s \<or> s ! i = NL then [(i, g)] else [])"
| "matches s Wb i g = (if word_at s i \<noteq> (i > 0 \<and> word_at s (i - 1)) then [(i, g)] else [])"

text \<open>The first match at or after a position: its bounds and its captures.\<close>

fun search_from :: "string \<Rightarrow> regex \<Rightarrow> nat list \<Rightarrow> (nat \<times> nat \<times> captures) option" where
  "search_from s r [] = None"
| "search_from s r (i # is) = (case matches s r i (\<lambda>_. None) of (j, g) # _ \<Rightarrow> Some (i, j, g) | [] \<Rightarrow> search_from s r is)"

definition search :: "regex \<Rightarrow> string \<Rightarrow> (nat \<times> nat \<times> captures) option" where
  "search r s = search_from s r [0..<Suc (length s)]"

definition captured :: "string \<Rightarrow> captures \<Rightarrow> nat \<Rightarrow> string" where
  "captured s g k = (case g k of Some (i, j) \<Rightarrow> take (j - i) (drop i s) | None \<Rightarrow> [])"

text \<open>\<open>re.search(r, s)[1]\<close>: a missing match is \<open>None\<close>, which has no items.\<close>

definition search1 :: "regex \<Rightarrow> string \<Rightarrow> string res" where
  "search1 r s = (case search r s of None \<Rightarrow> Inl TypeError | Some (i, j, g) \<Rightarrow> Inr (captured s g 1))"

fun all_from :: "nat \<Rightarrow> string \<Rightarrow> regex \<Rightarrow> nat \<Rightarrow> (nat \<times> nat \<times> captures) list" where
  "all_from 0 s r i = []"
| "all_from (Suc n) s r i = (case search_from s r [i..<Suc (length s)] of None \<Rightarrow> []
     | Some (a, b, g) \<Rightarrow> (a, b, g) # all_from n s r (if b > a then b else b + 1))"

definition finditer :: "regex \<Rightarrow> string \<Rightarrow> (nat \<times> nat \<times> captures) list" where
  "finditer r s = all_from (length s + 2) s r 0"

definition findall :: "regex \<Rightarrow> string \<Rightarrow> string list" where
  "findall r s = map (\<lambda>(i, j, g). captured s g 1) (finditer r s)"

text \<open>Pieces of patterns.\<close>

definition lit :: "string \<Rightarrow> regex" where "lit s = foldr (\<lambda>c r. Cat (Ch ((=) c)) r) s Eps"
definition cats :: "regex list \<Rightarrow> regex" where "cats rs = foldr Cat rs Eps"
definition star :: "(char \<Rightarrow> bool) \<Rightarrow> regex" where "star p = Many True (Ch p)"
definition plus :: "(char \<Rightarrow> bool) \<Rightarrow> regex" where "plus p = Cat (Ch p) (Many True (Ch p))"
definition opt :: "regex \<Rightarrow> regex" where "opt r = Alt r Eps"
definition dot :: "char \<Rightarrow> bool" where "dot c \<longleftrightarrow> c \<noteq> NL"

section \<open>Formatting values, building dictionaries, files\<close>

text \<open>\<open>str(x)\<close>; the digits of a float and the display of a container come from \<open>repr\<close>.\<close>

definition py_str :: "(py \<Rightarrow> string) \<Rightarrow> py \<Rightarrow> string" where
  "py_str repr x = (case x of PyStr s \<Rightarrow> s | PyInt n \<Rightarrow> str_of_int n | PyBool b \<Rightarrow> (if b then ''True'' else ''False'')
     | PyNone \<Rightarrow> ''None'' | _ \<Rightarrow> repr x)"

fun entries :: "(string \<times> py res) list \<Rightarrow> (py \<times> py) list res" where
  "entries [] = Inr []"
| "entries ((k, x) # r) = rbind x (\<lambda>v. rbind (entries r) (\<lambda>d. Inr ((PyStr k, v) # d)))"

text \<open>\<open>dict(k=x, ...)\<close> and \<open>d.update(k=x, ...)\<close>.\<close>

definition dict_of :: "(string \<times> py res) list \<Rightarrow> py res" where
  "dict_of xs = rbind (entries xs) (\<lambda>d. Inr (PyDict d))"

definition updated :: "py \<Rightarrow> (string \<times> py res) list \<Rightarrow> py res" where
  "updated x xs = rbind (pairs x) (\<lambda>d. rbind (entries xs) (\<lambda>e. Inr (PyDict (foldl (\<lambda>a (k, v). dict_put a k v) d e))))"

text \<open>\<open>xs[:n]\<close>.\<close>

definition upto_slice :: "int \<Rightarrow> 'a list \<Rightarrow> 'a list" where
  "upto_slice n xs = (if n < 0 then take (nat (int (length xs) + n)) xs else take (nat n) xs)"

text \<open>\<open>sorted\<close> (stable), \<open>min\<close>, \<open>max\<close>, \<open>{..}\<close> without repetitions.\<close>

fun insert_sorted :: "py \<Rightarrow> py list \<Rightarrow> py list res" where
  "insert_sorted x [] = Inr [x]"
| "insert_sorted x (y # ys) = rbind (py_less x y) (\<lambda>b. if b then Inr (x # y # ys)
     else rbind (insert_sorted x ys) (\<lambda>r. Inr (y # r)))"

fun py_sorted :: "py list \<Rightarrow> py list res" where
  "py_sorted [] = Inr []"
| "py_sorted (x # xs) = rfold (\<lambda>acc y. insert_sorted y acc) [x] xs"

definition best :: "(py \<Rightarrow> py \<Rightarrow> bool res) \<Rightarrow> py list \<Rightarrow> py res" where
  "best better xs = (case xs of [] \<Rightarrow> Inl ValueError
     | x # r \<Rightarrow> rfold (\<lambda>m y. rbind (better y m) (\<lambda>b. Inr (if b then y else m))) x r)"

definition py_minimum :: "py list \<Rightarrow> py res" where "py_minimum = best py_less"
definition py_maximum :: "py list \<Rightarrow> py res" where "py_maximum = best (\<lambda>y m. py_less m y)"

fun distinct_values :: "py list \<Rightarrow> py list" where
  "distinct_values [] = []"
| "distinct_values (x # xs) = x # filter (\<lambda>y. \<not> py_eq x y) (distinct_values xs)"

text \<open>The files a program reads: parsed JSON, texts, digests, sizes, and the paths a pattern finds.\<close>

record files =
  fl_json :: "string \<Rightarrow> py res"
  fl_text :: "string \<Rightarrow> string res"
  fl_sha :: "string \<Rightarrow> string res"
  fl_is_file :: "string \<Rightarrow> bool"
  fl_size :: "string \<Rightarrow> int res"
  fl_glob :: "string \<Rightarrow> string list"

definition path :: "string list \<Rightarrow> string" where
  "path ps = join ''/'' ps"

section \<open>Laws\<close>

text \<open>Lookups after updates, and in a dictionary built from its entries.\<close>

lemma py_eq_str: "py_eq k (PyStr a) \<longleftrightarrow> k = PyStr a"
  by (cases k) (auto simp: num_same_def)

lemma find_put: "dict_find (dict_put d (PyStr a) v) (PyStr b) = (if a = b then Some v else dict_find d (PyStr b))"
  by (induction d) (auto simp: py_eq_str)

lemma find_puts:
  "PyStr b \<notin> fst ` set e \<Longrightarrow> \<forall>k\<in>fst ` set e. \<exists>a. k = PyStr a
    \<Longrightarrow> dict_find (foldl (\<lambda>a (k, v). dict_put a k v) d e) (PyStr b) = dict_find d (PyStr b)"
  by (induction e arbitrary: d) (force simp: find_put)+

lemma entries_keys: "entries xs = Inr e \<Longrightarrow> map fst e = map (\<lambda>(k, x). PyStr k) xs"
  by (induction xs arbitrary: e) auto

lemma updated_other:
  assumes "updated x xs = Inr y" "b \<notin> fst ` set xs"
  shows "fld (V y) b = fld (V x) b"
proof -
  obtain d e where d: "pairs x = Inr d" "entries xs = Inr e" "y = PyDict (foldl (\<lambda>a (k, v). dict_put a k v) d e)"
    using assms(1) unfolding updated_def rbind_Inr_iff by blast
  have x: "x = PyDict d" using d(1) by (cases x) (simp_all add: pairs_def)
  have keys: "fst ` set e = (\<lambda>(k, x). PyStr k) ` set xs"
    using arg_cong [OF entries_keys [OF d(2)], of set] by simp
  have "PyStr b \<notin> fst ` set e" unfolding keys using assms(2) by (auto simp: rev_image_eqI)
  moreover have "\<forall>k\<in>fst ` set e. \<exists>a. k = PyStr a" unfolding keys by auto
  ultimately have "dict_find (foldl (\<lambda>a (k, v). dict_put a k v) d e) (PyStr b) = dict_find d (PyStr b)"
    by (rule find_puts)
  then show ?thesis by (simp add: itm_def d(3) x)
qed

lemma entries_find: "entries xs = Inr e \<Longrightarrow> map_of xs k = Some r \<Longrightarrow> rbind r (\<lambda>v. Inr (Some v)) = Inr (dict_find e (PyStr k))"
  by (induction xs arbitrary: e) (auto simp: py_eq_str split: if_splits)

lemma updated_fld:
  assumes "updated x xs = Inr y" "distinct (map fst xs)" "map_of xs k = Some r"
  shows "fld (V y) k = r"
proof -
  obtain d e where d: "entries xs = Inr e" "y = PyDict (foldl (\<lambda>a (k, v). dict_put a k v) d e)"
    using assms(1) unfolding updated_def rbind_Inr_iff by blast
  have keys: "map fst e = map (\<lambda>(k, x). PyStr k) xs" by (rule entries_keys [OF d(1)])
  have last': "dict_find (foldl (\<lambda>a (k, v). dict_put a k v) d e) (PyStr k) = dict_find e (PyStr k)"
    if "map fst e = map PyStr ks" "distinct ks" "k \<in> set ks" for d e ks
    using that
  proof (induction e arbitrary: d ks)
    case (Cons p e)
    obtain a v where p: "p = (a, v)" by (cases p)
    obtain b bs where ks: "ks = b # bs" "a = PyStr b" "map fst e = map PyStr bs" using Cons.prems(1) p by (cases ks) auto
    show ?case
    proof (cases "b = k")
      case True
      have "fst ` set e = PyStr ` set bs" using arg_cong [OF ks(3), of set] by simp
      then have "PyStr k \<notin> fst ` set e" "\<forall>k\<in>fst ` set e. \<exists>a. k = PyStr a"
        using Cons.prems(2) True by (auto simp: ks)
      then show ?thesis by (simp add: p ks True find_puts find_put py_eq_str)
    next
      case False
      then show ?thesis using Cons.IH [OF ks(3)] Cons.prems by (simp add: p ks py_eq_str)
    qed
  qed simp
  have "dict_find (foldl (\<lambda>a (k, v). dict_put a k v) d e) (PyStr k) = dict_find e (PyStr k)"
    by (rule last' [of _ "map fst xs"]) (use keys assms(2,3) in \<open>force simp: case_prod_beta dest: map_of_SomeD\<close>)+
  then show ?thesis using entries_find [OF d(1) assms(3)] by (auto simp: itm_def d(2) split: option.splits)
qed

lemma dict_of_fld: "dict_of xs = Inr y \<Longrightarrow> map_of xs k = Some r \<Longrightarrow> fld (V y) k = r"
  by (auto simp: dict_of_def itm_def dest!: entries_find) (metis option.simps(5))

end
