(* ===== verification/SweepAnalysis.thy ===== *)
theory SweepAnalysis
  imports PyText
begin

text \<open>
  The analysis of a characterisation campaign in \<open>scripts/analyze_m5_sweep.py\<close>: the statistics of a
  list of samples, the rows, groups and profiles of the summary, and the CSV texts. A campaign is a
  JSON value; the digits of a float in a CSV come from \<open>repr\<close>.
\<close>

section \<open>Statistics\<close>

text \<open>The finite values of a list of numbers, exactly.\<close>

definition exact :: "py list \<Rightarrow> rat list res" where
  "exact xs = rmap (\<lambda>x. case num_of x of Some (Fin q) \<Rightarrow> Inr q | Some _ \<Rightarrow> Inl AttributeError | None \<Rightarrow> Inl TypeError) xs"

definition all_ints :: "py list \<Rightarrow> bool" where
  "all_ints xs = list_all (\<lambda>x. to_int x \<noteq> None) xs"

text \<open>\<open>statistics.mean\<close>: the exact mean, converted once.\<close>

definition mean :: "py list \<Rightarrow> py res" where
  "mean xs = (if xs = [] then Inl ValueError
     else rbind (exact xs) (\<lambda>qs. let m = sum_list qs / of_nat (length qs) in
       if all_ints xs \<and> m = of_int \<lfloor>m\<rfloor> then Inr (PyInt \<lfloor>m\<rfloor>) else Inr (PyFloat (round64 m))))"

definition median :: "py list \<Rightarrow> py res" where
  "median xs = rbind (py_sorted xs) (\<lambda>ys. let n = length ys in
     if n = 0 then Inl ValueError
     else if odd n then Inr (ys ! (n div 2))
     else quot (add (V (ys ! (n div 2 - 1))) (V (ys ! (n div 2)))) (I 2))"

text \<open>\<open>statistics.pstdev\<close>: the root of the exact variance, rounded once.\<close>

definition pstdev :: "py list \<Rightarrow> py res" where
  "pstdev xs = (if xs = [] then Inl ValueError
     else rbind (exact xs) (\<lambda>qs. let n = of_nat (length qs); m = sum_list qs / n;
         v = (\<Sum>q\<leftarrow>qs. (q - m) * (q - m)) / n
       in rbind (fsqrt (Fin v)) (\<lambda>r. Inr (PyFloat r))))"

definition stats :: "py list \<Rightarrow> py res" where
  "stats xs = dict_of [(''n'', I (int (length xs))), (''mean'', mean xs), (''median'', median xs),
     (''min'', py_minimum xs), (''max'', py_maximum xs), (''population_stddev'', pstdev xs)]"

section \<open>Rows\<close>

definition base_row :: "py \<Rightarrow> py res" where
  "base_row item' = (let trial = fld (V item') ''trial'' in
     dict_of [(''id'', fld trial ''id''), (''kind'', fld trial ''kind''), (''status'', fld (V item') ''status''),
       (''role'', fld trial ''role''),
       (''reason'', rbind (get (V item') ''error'' (PyStr '''')) (get (V item') ''reason'')),
       (''case_elapsed_seconds'', get (V item') ''case_elapsed_seconds'' (PyStr '''')),
       (''bound_exceeded'', get (V item') ''bound_exceeded'' (PyStr ''''))])"

definition full_row :: "py \<Rightarrow> py \<Rightarrow> py res" where
  "full_row row r = (let n = len (fld (V r) ''generated_tokens''); prompt = len (fld (V r) ''prompt_tokens'') in
     rbind n (\<lambda>n'. updated row [(''prompt_tokens'', prompt), (''new_tokens'', n), (''past'', S ''''), (''profiled'', B False),
       (''model_first_token_seconds'', fld (V r) ''ttft_seconds''),
       (''prefill_seconds'', fld (V r) ''prefill_forward_seconds''),
       (''prefill_tokens_per_second'', quot prompt (fld (V r) ''prefill_forward_seconds'')),
       (''continuation_tokens'', minus' n (I 1)),
       (''continuation_seconds'', total (iter (fld (V r) ''decode_seconds''))),
       (''continuation_tokens_per_second'',
          rbind (lt (I 1) n) (\<lambda>more. if more then quot (minus' n (I 1)) (total (iter (fld (V r) ''decode_seconds''))) else S '''')),
       (''workspace_bytes'', fld (V r) ''work_high_water''), (''input_bytes'', fld (V r) ''tensor_bytes_read''),
       (''output_bytes'', fld (V r) ''tensor_bytes_written''), (''jobs'', fld (V r) ''transfers''),
       (''traffic_scope'', S ''packet byte counters modulo 2^32; not total DDR traffic'')]))"

definition cached_row :: "py \<Rightarrow> py \<Rightarrow> py \<Rightarrow> py res" where
  "cached_row row trial r =
     updated row [(''prompt_tokens'', S ''''), (''new_tokens'', I 1), (''past'', fld (V trial) ''past''),
       (''profiled'', fld (V trial) ''profile''),
       (''workspace_bytes'', fld (V r) ''workspace_high_water''), (''input_bytes'', fld (V r) ''mover_input_bytes''),
       (''output_bytes'', fld (V r) ''mover_output_bytes''), (''jobs'', fld (V r) ''jobs''),
       (''traffic_scope'', S ''packet word counters modulo 2^32, multiplied by 4; not total DDR traffic'')]"

definition counters :: "string list" where
  "counters = [''cycles'', ''service_cycles'', ''cpu_remainder_cycles'', ''gemm_cycles'', ''sfpu_cycles'', ''jobs'',
     ''input_bytes'', ''output_bytes'']"

text \<open>The counters of a phase, added to the entry of its name.\<close>

definition add_phase :: "(py \<times> py) list \<Rightarrow> py \<Rightarrow> (py \<times> py) list res" where
  "add_phase totals p =
     rbind (fld (V p) ''name'') (\<lambda>name.
     rbind (pairs (case dict_find totals name of Some d \<Rightarrow> d | None \<Rightarrow> PyDict (map (\<lambda>c. (PyStr c, PyInt 0)) counters))) (\<lambda>target.
     rbind (rmap (\<lambda>(c, v). rbind (add (V v) (itm (V p) (V c))) (\<lambda>w. Inr (c, w))) target) (\<lambda>target'.
       Inr (dict_put totals name (PyDict target')))))"

definition phase_entry :: "py \<Rightarrow> py \<Rightarrow> py res \<Rightarrow> py res" where
  "phase_entry trial r model =
     rbind (iter (fld (V r) ''phases'')) (\<lambda>ps. rbind (rfold add_phase [] ps) (\<lambda>totals.
       dict_of [(''id'', fld (V trial) ''id''), (''past'', fld (V trial) ''past''), (''model_seconds'', model),
         (''service_seconds'', fld (V r) ''service_seconds''),
         (''cpu_remainder_seconds'', fld (V r) ''cpu_remainder_seconds''),
         (''cpu_remainder_fraction'', quot (fld (V r) ''cpu_remainder_seconds'') model),
         (''gemm_compute_seconds'', fld (V r) ''gemm_compute_seconds''),
         (''sfpu_compute_seconds'', fld (V r) ''sfpu_compute_seconds''), (''phases'', V (PyDict totals))]))"

text \<open>\<open>round(x)\<close>: to the nearest integer, halves to even.\<close>

definition py_round :: "py \<Rightarrow> py res" where
  "py_round x = (case to_int x of Some n \<Rightarrow> Inr (PyInt n)
     | None \<Rightarrow> (case x of PyFloat (Fin q) \<Rightarrow> Inr (PyInt (rne_rat q)) | PyFloat NaN \<Rightarrow> Inl ValueError
         | PyFloat _ \<Rightarrow> Inl OverflowError | _ \<Rightarrow> Inl TypeError))"

definition timed_row :: "py \<Rightarrow> py \<Rightarrow> py \<Rightarrow> py res \<Rightarrow> py res \<Rightarrow> py res \<Rightarrow> py res" where
  "timed_row campaign item' row n model delivered =
     updated row [(''model_seconds'', model),
       (''model_cycles'', rbind (mul model (fld (V campaign) ''clock_hz'')) py_round),
       (''delivered_seconds'', delivered), (''host_minus_model_seconds'', minus' delivered model),
       (''model_tokens_per_second'', quot n model), (''delivered_tokens_per_second'', quot n delivered),
       (''case_elapsed_seconds'', fld (V item') ''case_elapsed_seconds''),
       (''bound_exceeded'', fld (V item') ''bound_exceeded'')]"

section \<open>The loop over the trials\<close>

record tally =
  tl_rows :: "py list"
  tl_groups :: "(string \<times> py list) list"
  tl_phases :: "py list"

fun group_add :: "(string \<times> py list) list \<Rightarrow> string \<Rightarrow> py \<Rightarrow> (string \<times> py list) list" where
  "group_add [] k x = [(k, [x])]"
| "group_add ((k', xs) # g) k x = (if k' = k then (k', xs @ [x]) # g else (k', xs) # group_add g k x)"

definition full_trial_row :: "(py \<Rightarrow> string) \<Rightarrow> py \<Rightarrow> py \<Rightarrow> py \<Rightarrow> py \<Rightarrow> py \<Rightarrow> (string \<times> py \<times> py list) res" where
  "full_trial_row repr campaign item' trial row r =
     rbind (len (fld (V r) ''generated_tokens'')) (\<lambda>n.
     rbind (fld (V r) ''firmware_seconds'') (\<lambda>model. rbind (fld (V r) ''request_through_delivery_seconds'') (\<lambda>delivered.
     rbind (full_row row r) (\<lambda>row1. rbind (fld (V trial) ''case'') (\<lambda>c.
     rbind (timed_row campaign item' row1 (V n) (V model) (V delivered)) (\<lambda>row2.
       Inr (''full:'' @ py_str repr c @ '':g'' @ py_str repr n, row2, [])))))))"

definition cached_trial_row :: "(py \<Rightarrow> string) \<Rightarrow> py \<Rightarrow> py \<Rightarrow> py \<Rightarrow> py \<Rightarrow> py \<Rightarrow> (string \<times> py \<times> py list) res" where
  "cached_trial_row repr campaign item' trial row r =
     rbind (fld (V r) ''model_seconds'') (\<lambda>model. rbind (fld (V r) ''host_request_through_delivery_seconds'') (\<lambda>delivered.
     rbind (cached_row row trial r) (\<lambda>row1. rbind (fld (V trial) ''past'') (\<lambda>past. rbind (tru (fld (V trial) ''profile'')) (\<lambda>profile.
     rbind (if profile then rbind (phase_entry trial r (V model)) (\<lambda>p. Inr [p]) else Inr []) (\<lambda>phases.
     rbind (timed_row campaign item' row1 (I 1) (V model) (V delivered)) (\<lambda>row2.
       Inr (''cached:p'' @ py_str repr past @ '':'' @ (if profile then ''profile'' else ''plain''), row2, phases))))))))"

definition tally_item :: "(py \<Rightarrow> string) \<Rightarrow> py \<Rightarrow> tally \<Rightarrow> py \<Rightarrow> tally res" where
  "tally_item repr campaign t item' =
     rbind (fld (V item') ''trial'') (\<lambda>trial. rbind (base_row item') (\<lambda>row.
     rbind (ne (fld (V item') ''status'') (S ''PASS'')) (\<lambda>other.
       if other then Inr (t\<lparr>tl_rows := tl_rows t @ [row]\<rparr>)
       else rbind (fld (V item') ''result'') (\<lambda>r. rbind (eq (fld (V trial) ''kind'') (S ''full'')) (\<lambda>full.
         rbind (if full then full_trial_row repr campaign item' trial row r else cached_trial_row repr campaign item' trial row r)
           (\<lambda>(key, row', phases).
             Inr \<lparr>tl_rows = tl_rows t @ [row'], tl_groups = group_add (tl_groups t) key row',
                  tl_phases = tl_phases t @ phases\<rparr>))))))"

section \<open>Groups and the summary\<close>

definition metrics :: "string list" where
  "metrics = [''model_seconds'', ''delivered_seconds'', ''delivered_tokens_per_second'', ''prefill_seconds'',
     ''prefill_tokens_per_second'', ''model_first_token_seconds'', ''continuation_seconds'', ''continuation_tokens_per_second'']"

definition column_of :: "string \<Rightarrow> py list \<Rightarrow> py list res" where
  "column_of k rows = lcomp (\<lambda>s. fld (V s) k) (Inr rows)"

definition summed :: "string \<Rightarrow> py list \<Rightarrow> py res" where
  "summed k rows = total (column_of k rows)"

definition group_stats :: "py list \<Rightarrow> py res" where
  "group_stats samples =
     rbind (seq_item samples 0) (\<lambda>first.
     rbind (keep (\<lambda>m. conjs [contains (PyStr m) first, ne (fld (V first) m) (S '''')]) metrics) (\<lambda>ms.
     rbind (entries (map (\<lambda>m. (m, rbind (column_of m samples) stats)) ms)) (\<lambda>d.
       updated (PyDict d) [(''sample_ids'', lst (column_of ''id'' samples)),
         (''aggregate_delivered_tokens_per_second'', quot (summed ''new_tokens'' samples) (summed ''delivered_seconds'' samples))])))"

definition having :: "(string \<times> string) list \<Rightarrow> py list \<Rightarrow> py list res" where
  "having conds rows = keep (\<lambda>r. conjs (map (\<lambda>(k, v). eq (fld (V r) k) (S v)) conds)) rows"

definition counted :: "string \<Rightarrow> py list \<Rightarrow> py res" where
  "counted st rows = rbind (lcomp (\<lambda>r. eq (fld (V r) ''status'') (S st)) (Inr rows)) (\<lambda>bs. I (int (length (filter id bs))))"

definition sorted_set :: "py list res \<Rightarrow> py res" where
  "sorted_set xs = lst (rbind xs (\<lambda>vs. py_sorted (distinct_values vs)))"

definition coverage :: "py \<Rightarrow> py list \<Rightarrow> py list \<Rightarrow> py list \<Rightarrow> py res" where
  "coverage campaign rows full phases =
     dict_of [(''planned_trials'', rbind (contains (PyStr ''policy'') campaign) (\<lambda>b.
                 if b then len (fld (fld (V campaign) ''policy'') ''matrix'') else I (int (length rows)))),
       (''full_request_prompt_lengths'', sorted_set (column_of ''prompt_tokens'' full)),
       (''full_request_output_lengths'', sorted_set (column_of ''new_tokens'' full)),
       (''cached_past'', sorted_set (rbind (having [(''status'', ''PASS''), (''kind'', ''cached'')] rows) (column_of ''past''))),
       (''profiled_past'', lst (rbind (column_of ''past'' phases) py_sorted)),
       (''uninterrupted_16_token_requests'',
          rbind (lcomp (\<lambda>r. eq (fld (V r) ''new_tokens'') (I 16)) (Inr full)) (\<lambda>bs. I (int (length (filter id bs)))))]"

definition summary_of :: "py \<Rightarrow> tally \<Rightarrow> py res" where
  "summary_of campaign t = (let rows = tl_rows t in
     rbind (rmap (\<lambda>(k, samples). rbind (group_stats samples) (\<lambda>g. Inr (PyStr k, g))) (tl_groups t)) (\<lambda>grouped.
     rbind (having [(''status'', ''PASS''), (''kind'', ''full'')] rows) (\<lambda>full.
     dict_of [(''schema'', I 1), (''rows'', V (PyList rows)), (''groups'', V (PyDict grouped)), (''profiles'', V (PyList (tl_phases t))),
       (''coverage'', coverage campaign rows full (tl_phases t)),
       (''max_workspace_bytes'', rbind (rbind (having [(''status'', ''PASS'')] rows) (column_of ''workspace_bytes''))
          (\<lambda>ws. if ws = [] then I 0 else py_maximum ws)),
       (''full_input_tokens'', summed ''prompt_tokens'' full), (''full_generated_tokens'', summed ''new_tokens'' full),
       (''full_request_aggregate_tokens_per_second'', if full = [] then V PyNone
          else quot (summed ''new_tokens'' full) (summed ''delivered_seconds'' full)),
       (''fully_charged_campaign_full_tokens_per_second'', quot (summed ''new_tokens'' full) (fld (V campaign) ''elapsed_seconds'')),
       (''fully_charged_scope'', S ''Full-request output tokens / entire campaign wall time, charging staging, provisioning, all diagnostics, cache injections, checks and cleanup; NOT application throughput.''),
       (''provision_seconds'', fld (V campaign) ''provision_seconds''), (''campaign_seconds'', fld (V campaign) ''elapsed_seconds''),
       (''pass_count'', counted ''PASS'' rows), (''skip_count'', counted ''SKIP'' rows), (''fail_count'', counted ''FAIL'' rows)])))"

definition summarize :: "(py \<Rightarrow> string) \<Rightarrow> py \<Rightarrow> py res" where
  "summarize repr campaign =
     rbind (iter (fld (V campaign) ''trials'')) (\<lambda>items.
     rbind (rfold (tally_item repr campaign) \<lparr>tl_rows = [], tl_groups = [], tl_phases = []\<rparr> items) (summary_of campaign))"

section \<open>CSV\<close>

definition CRLF :: string where "CRLF = [char_of (13 :: nat), char_of (10 :: nat)]"

text \<open>A field of \<open>csv.writer\<close>: quoted when it holds a delimiter, a quote or a line break.\<close>

definition csv_field :: "(py \<Rightarrow> string) \<Rightarrow> py \<Rightarrow> string" where
  "csv_field repr x = (let s = (if x = PyNone then '''' else py_str repr x); q = char_of (34 :: nat) in
     if list_ex (\<lambda>c. c = CHR '','' \<or> c = q \<or> c \<in> set CRLF) s
     then [q] @ concat (map (\<lambda>c. if c = q then [q, q] else [c]) s) @ [q] else s)"

definition csv_row :: "(py \<Rightarrow> string) \<Rightarrow> py list \<Rightarrow> string" where
  "csv_row repr xs = join '','' (map (csv_field repr) xs) @ CRLF"

text \<open>\<open>DictWriter\<close>: a missing field is empty; an unknown one is an error.\<close>

definition dict_row :: "(py \<Rightarrow> string) \<Rightarrow> py list \<Rightarrow> py \<Rightarrow> string res" where
  "dict_row repr cols row = rbind (pairs row) (\<lambda>d.
     if list_ex (\<lambda>(k, v). \<not> list_ex (py_eq k) cols) d then Inl ValueError
     else Inr (csv_row repr (map (\<lambda>k. case dict_find d k of Some v \<Rightarrow> v | None \<Rightarrow> PyStr '''') cols)))"

definition csv_of :: "(py \<Rightarrow> string) \<Rightarrow> py list \<Rightarrow> py list \<Rightarrow> string res" where
  "csv_of repr cols rows = rbind (rmap (dict_row repr cols) rows) (\<lambda>ls. Inr (csv_row repr cols @ concat ls))"

definition csv_text :: "(py \<Rightarrow> string) \<Rightarrow> py \<Rightarrow> string res" where
  "csv_text repr summary =
     rbind (iter (fld (V summary) ''rows'')) (\<lambda>rows. rbind (rmap (\<lambda>r. rbind (pairs r) (\<lambda>d. Inr (map fst d))) rows) (\<lambda>keys.
       csv_of repr (distinct_values (concat keys)) rows))"

definition continuation_rows :: "py \<Rightarrow> py list res" where
  "continuation_rows item' = (let trial = fld (V item') ''trial''; r = fld (V item') ''result'' in
     rbind (disjs [ne (fld (V item') ''status'') (S ''PASS''), ne (fld trial ''kind'') (S ''full'')]) (\<lambda>skip.
       if skip then Inr []
       else rbind (iter (fld r ''decode_seconds'')) (\<lambda>ds.
         rmap (\<lambda>(ordinal, seconds). dict_of [(''id'', fld trial ''id''), (''generated_token_ordinal'', I (int ordinal)),
           (''past_before_forward'', minus' (add (len (fld r ''prompt_tokens'')) (I (int ordinal))) (I 2)),
           (''model_interval_seconds'', V seconds), (''model_interval_tokens_per_second'', quot (I 1) (V seconds))])
           (enumerate 2 ds))))"

definition continuation_csv :: "(py \<Rightarrow> string) \<Rightarrow> py \<Rightarrow> string res" where
  "continuation_csv repr campaign =
     rbind (iter (fld (V campaign) ''trials'')) (\<lambda>items. rbind (rmap continuation_rows items) (\<lambda>rows.
       csv_of repr (map PyStr [''id'', ''generated_token_ordinal'', ''past_before_forward'', ''model_interval_seconds'',
         ''model_interval_tokens_per_second'']) (concat rows)))"

section \<open>Tables\<close>

text \<open>\<open>f'{x:.kf}'\<close>, and the characters beyond ASCII as their UTF-8 bytes.\<close>

definition fmt :: "nat \<Rightarrow> py res \<Rightarrow> string res" where
  "fmt k x = rbind x (\<lambda>v. rbind (to_float v) (\<lambda>f. Inr (case f of Fin q \<Rightarrow> fixed k q
     | PosInf \<Rightarrow> ''inf'' | NegInf \<Rightarrow> ''-inf'' | NaN \<Rightarrow> ''nan'')))"

definition utf8 :: "nat list \<Rightarrow> string" where "utf8 bs = map char_of bs"
definition en_dash :: string where "en_dash = utf8 [226, 128, 147]"
definition em_dash :: string where "em_dash = utf8 [226, 128, 148]"
definition sigma :: string where "sigma = utf8 [207, 131]"

text \<open>A text put together from pieces that may raise.\<close>

definition pieces :: "string res list \<Rightarrow> string res" where
  "pieces xs = rbind (rmap id xs) (\<lambda>ss. Inr (concat ss))"

definition shown :: "(py \<Rightarrow> string) \<Rightarrow> py res \<Rightarrow> string res" where
  "shown repr x = rbind x (\<lambda>v. Inr (py_str repr v))"

definition key_part :: "string \<Rightarrow> string res" where
  "key_part key = rbind (split_on '':'' key) (\<lambda>ps. seq_item ps 1)"

definition request_line :: "(py \<Rightarrow> string) \<Rightarrow> py list \<Rightarrow> string \<Rightarrow> py \<Rightarrow> string res" where
  "request_line repr rows key g =
     rbind (rbind (itm (fld (V g) ''sample_ids'') (I 0)) (\<lambda>first.
        rbind (keep (\<lambda>r. eq (fld (V r) ''id'') (V first)) rows) (\<lambda>rs. case rs of [] \<Rightarrow> Inl StopIteration | r # _ \<Rightarrow> Inr r))) (\<lambda>r.
     pieces [Inr ''| '', key_part key, Inr '' | '', shown repr (fld (V r) ''prompt_tokens''), Inr '' | '',
       shown repr (fld (V r) ''new_tokens''), Inr '' | '', shown repr (len (fld (V g) ''sample_ids'')), Inr '' | '',
       fmt 3 (fld (fld (V g) ''model_seconds'') ''mean''), Inr '' | '', fmt 3 (fld (fld (V g) ''delivered_seconds'') ''mean''),
       Inr '' | '', fmt 5 (fld (V g) ''aggregate_delivered_tokens_per_second''), Inr '' |''])"

definition continuation_line :: "string \<Rightarrow> py \<Rightarrow> string res" where
  "continuation_line key g =
     rbind (rbind (get (V g) ''continuation_tokens_per_second'' (PyDict [])) (\<lambda>d. get (V d) ''mean'' PyNone)) (\<lambda>continuation.
     pieces [Inr ''| '', Inr (drop 5 key), Inr '' | '', fmt 3 (fld (fld (V g) ''prefill_seconds'') ''mean''), Inr '' | '',
       fmt 5 (fld (fld (V g) ''prefill_tokens_per_second'') ''mean''), Inr '' | '',
       fmt 3 (fld (fld (V g) ''model_first_token_seconds'') ''mean''), Inr '' | '',
       if continuation = PyNone then Inr em_dash else fmt 5 (V continuation), Inr '' |''])"

text \<open>The sort key: the number after \<open>p\<close> of a cached group, -1 for the others.\<close>

definition cached_key :: "string \<times> py \<Rightarrow> int res" where
  "cached_key = (\<lambda>(key, g). if startswith ''cached:'' key then rbind (key_part key) (\<lambda>p. parse_int (drop 1 p)) else Inr (- 1))"

definition cached_line :: "(py \<Rightarrow> string) \<Rightarrow> string \<Rightarrow> py \<Rightarrow> string res" where
  "cached_line repr key g = (let d = fld (V g) ''delivered_seconds'' in
     pieces [Inr ''| '', rbind (key_part key) (\<lambda>p. Inr (drop 1 p)), Inr '' | '', shown repr (fld d ''n''), Inr '' | '',
       fmt 3 (fld (fld (V g) ''model_seconds'') ''mean''), Inr '' | '', fmt 3 (fld d ''mean''), Inr '' | '',
       fmt 3 (fld d ''min''), Inr en_dash, fmt 3 (fld d ''max''), Inr '' | '', fmt 5 (fld d ''population_stddev''), Inr '' | '',
       fmt 5 (fld (V g) ''aggregate_delivered_tokens_per_second''), Inr '' |''])"

definition profile_line :: "(py \<Rightarrow> string) \<Rightarrow> py \<Rightarrow> string res" where
  "profile_line repr p = (let f = fld (V p) in
     pieces [Inr ''| '', shown repr (f ''past''), Inr '' | '', fmt 3 (f ''model_seconds''), Inr '' | '',
       fmt 3 (f ''cpu_remainder_seconds''), Inr '' ('', fmt 2 (mul (I 100) (f ''cpu_remainder_fraction'')), Inr ''%) | '',
       fmt 3 (f ''service_seconds''), Inr '' | '', fmt 3 (f ''gemm_compute_seconds''), Inr '' | '',
       fmt 3 (f ''sfpu_compute_seconds''), Inr '' |''])"

definition tables :: "(py \<Rightarrow> string) \<Rightarrow> py \<Rightarrow> string res" where
  "tables repr summary =
     rbind (items (fld (V summary) ''groups'')) (\<lambda>groups'. let groups = map (\<lambda>(k, g). (py_str repr k, g)) groups' in
     rbind (iter (fld (V summary) ''rows'')) (\<lambda>rows. rbind (iter (fld (V summary) ''profiles'')) (\<lambda>profiles.
     let full = filter (\<lambda>(k, g). startswith ''full:'' k) groups in
     rbind (rmap (\<lambda>(k, g). request_line repr rows k g) full) (\<lambda>requests.
     rbind (rmap (\<lambda>(k, g). continuation_line k g) full) (\<lambda>continuations.
     rbind (rmap (\<lambda>e. rbind (cached_key e) (\<lambda>n. Inr (n, e))) groups) (\<lambda>keyed.
     rbind (rmap (\<lambda>(k, g). cached_line repr k g)
        (filter (\<lambda>(k, g). startswith ''cached:'' k \<and> endswith '':plain'' k) (map snd (sort_key fst keyed)))) (\<lambda>cached.
     rbind (rmap (profile_line repr) profiles) (\<lambda>profile_lines.
       Inr (join [NL] (
         [''# Recorded sweep tables'', [],
          ''Generated from every passing observation; raw skips/failures remain in the CSV and campaign.'', [],
          ''## Full requests: on-board prompt processing included'', [],
          ''| Prompt | Input tokens | New tokens | Repeats | Mean model, s | Mean delivered, s | Aggregate new tokens/s |'',
          ''|---|---:|---:|---:|---:|---:|---:|''] @ requests @
         [[], ''## Prefill and internal continuation'', [],
          ''First-token time is a model timestamp, **not streamed delivered TTFT**. Continuation'',
          ''excludes prefill and host return; tokens are delivered together after the request.'', [],
          ''| Request | Mean prefill, s | Prefill input tokens/s | Model first token, s | Mean finite continuation tokens/s |'',
          ''|---|---:|---:|---:|---:|''] @ continuations @
         [[], ''## Injected valid-cache decode, profiling disabled'', [],
          ''Independent native prefill and seed restoration are outside this request boundary.'', [],
          ''| Past | n | Mean model, s | Mean delivered, s | Delivered min'' @ en_dash @ ''max, s | Population '' @ sigma
             @ '', s | Aggregate tokens/s |'',
          ''|---:|---:|---:|---:|---:|---:|---:|''] @ cached @
         [[], ''## Diagnostic phase totals'', [],
          ''GEMM and SFPU are **inside** service, not additional time. The remainder includes'',
          ''CPU work, control and scalar-memory latency; it is not an arithmetic-only counter.'', [],
          ''| Past | Model, s | Remainder, s (%) | Service, s | GEMM, s | SFPU, s |'',
          ''|---:|---:|---:|---:|---:|---:|''] @ profile_lines @
         [[], ''All samples, per-token continuation intervals, phase counters, traffic and workspace'',
          ''are preserved in the embedded machine evidence and ignored build CSV/JSON artifacts.'', []]))))))))))"


end
