(* ===== verification/SweepAudit.thy ===== *)
theory SweepAudit
  imports SweepAnalysis
begin

text \<open>
  The predeclared characterisation matrix (\<open>scripts/m5_sweep_policy.py\<close>) and the chained audit of its
  evidence (\<open>scripts/audit_m5_sweep.py\<close>). Evidence is a JSON value; digests and files come from \<open>files\<close>.
\<close>

section \<open>The policy\<close>

type_synonym trials = "py list"

definition matching :: "(string \<times> py) list \<Rightarrow> trials \<Rightarrow> nat" where
  "matching conds ts = length (filter (\<lambda>t. case t of
      PyDict d \<Rightarrow> list_all (\<lambda>(k, v). py_eq (case dict_find d (PyStr k) of Some w \<Rightarrow> w | None \<Rightarrow> PyNone) v) conds
    | _ \<Rightarrow> False) ts)"

definition full_trial :: "string \<Rightarrow> nat \<Rightarrow> int \<Rightarrow> bool \<Rightarrow> string \<Rightarrow> trials \<Rightarrow> trials" where
  "full_trial case' count bound capture role ts =
     (let k = matching [(''case'', PyStr case'), (''new_tokens'', PyInt (int count))] ts + 1 in
      ts @ [PyDict [(PyStr ''id'', PyStr (case' @ ''_g'' @ str_of_nat count @ ''_r'' @ str_of_nat k)),
        (PyStr ''kind'', PyStr ''full''), (PyStr ''case'', PyStr case'), (PyStr ''new_tokens'', PyInt (int count)),
        (PyStr ''bound_seconds'', PyInt bound), (PyStr ''capture'', PyBool capture), (PyStr ''role'', PyStr role)]])"

definition cached_trial_once :: "nat \<Rightarrow> bool \<Rightarrow> trials \<Rightarrow> trials" where
  "cached_trial_once past profile ts =
     (let k = matching [(''past'', PyInt (int past)), (''profile'', PyBool profile)] ts + 1 in
      ts @ [PyDict [(PyStr ''id'', PyStr (''cached_p'' @ str_of_nat past @ ''_'' @ (if profile then ''profile'' else ''plain'')
             @ ''_r'' @ str_of_nat k)),
        (PyStr ''kind'', PyStr ''cached''), (PyStr ''past'', PyInt (int past)), (PyStr ''profile'', PyBool profile),
        (PyStr ''bound_seconds'', PyFloat (fadd (f_int 45) (fmul (f_int (int past)) (round64 (15 / 100))))),
        (PyStr ''role'', PyStr ''injected_valid_cache'')]])"

definition cached_trials :: "nat \<Rightarrow> nat \<Rightarrow> bool \<Rightarrow> trials \<Rightarrow> trials" where
  "cached_trials past repeat profile ts = ((cached_trial_once past profile) ^^ repeat) ts"

definition sweep_matrix :: trials where
  "sweep_matrix = fold (\<lambda>f ts. f ts)
     ([full_trial ''story'' 2 110 True ''original_anchor'', full_trial ''science'' 1 70 False ''original_anchor'',
       full_trial ''computing'' 1 70 False ''original_anchor'', cached_trials 13 3 False]
      @ map (\<lambda>(n, bound). full_trial (''story_length_'' @ str_of_nat n) 1 bound False ''synthetic_prefill_length'')
          [(1, 30), (16, 130), (32, 240), (64, 450)]
      @ [full_trial ''story'' 1 100 False ''output_length'', full_trial ''story'' 4 140 False ''output_length'',
         full_trial ''story'' 16 290 False ''uninterrupted_generation'',
         full_trial ''story'' 16 290 False ''uninterrupted_generation'',
         full_trial ''science'' 16 260 False ''uninterrupted_generation'']
      @ map (\<lambda>past. cached_trials past 2 False) [1, 8, 32, 128, 512, 1023]
      @ map (\<lambda>past. cached_trials past 1 True) [13, 128, 1023]
      @ [full_trial ''computing'' 16 260 False ''optional_content_replication'']) []"

definition sweep_paths :: "(string \<times> string) list" where
  "sweep_paths = [(''m5_runtime.bin'', ''build/m5_tenth_reciprocal_v1/m5_runtime.bin''),
     (''m5_profile.bin'', ''build/m5_tenth_reciprocal_v1/m5_profile.bin''),
     (''m5_pynq.bit'', ''build/m5_fast_pynq_finish_v2/m5_pynq.bit''),
     (''m5_pynq.hwh'', ''build/m5_fast_pynq_finish_v2/m5_pynq.hwh''),
     (''m5_run.py'', ''zynq/m5_run.py''), (''m5_opt_profile.py'', ''zynq/m5_opt_profile.py''),
     (''m5_opt_release_check.py'', ''zynq/m5_opt_release_check.py''),
     (''fixtures/manifest.json'', ''build/m4_runtime_fixtures/manifest.json'')]"

definition policy :: "files \<Rightarrow> py res" where
  "policy fs =
     dict_of [(''schema'', I 1), (''frozen_git'', S ''e5883bcc99ad61bba381714781febb873a1101e3''),
       (''board_budget_seconds'', I 3600), (''cleanup_reserve_seconds'', I 120), (''reference_budget_seconds'', I 600),
       (''clock_hz'', I 91000000), (''matrix'', V (PyList sweep_matrix)),
       (''pinned'', dict_of (map (\<lambda>(p, q). (p, rbind (fl_sha fs q) S)) sweep_paths)),
       (''source_paths'', V (PyDict (map (\<lambda>(p, q). (PyStr p, PyStr q)) sweep_paths))),
       (''context_points'', V (PyList (map PyInt [1, 8, 13, 32, 128, 512, 1023]))),
       (''accounting'', S ''Full requests include on-FPGA prefill. Cached tests inject independent valid KV; seed restore is outside resident request time but inside campaign time. Profiling is diagnostic only.''),
       (''omissions'', V (PyList [PyStr ''32-output run omitted: frozen generation oracle has 20 steps'',
          PyStr ''No 1024-token physical prefill, endurance, CPU speed race, power or thermal claims'']))]"

section \<open>Shared checks\<close>

text \<open>\<open>math.isfinite\<close> converts an integer first.\<close>

definition finite_positive :: "py res \<Rightarrow> bool res" where
  "finite_positive x = rbind x (\<lambda>v. if num_of v = None then Inr False
     else rbind (to_float v) (\<lambda>f. if is_finite f then lt (I 0) (V v) else Inr False))"

text \<open>\<open>math.isclose\<close> with the default relative tolerance \<open>1e-9\<close>.\<close>

definition isclose :: "py res \<Rightarrow> py res \<Rightarrow> rat \<Rightarrow> bool res" where
  "isclose x y abs_tol = rbind x (\<lambda>v. rbind y (\<lambda>w. rbind (to_float v) (\<lambda>a. rbind (to_float w) (\<lambda>b.
     Inr (if feq a b then True
          else if a \<in> {PosInf, NegInf} \<or> b \<in> {PosInf, NegInf} then False
          else let d = fabs (fsub b a); rel = round64 (1 / 10 ^ 9)
               in fle d (fabs (fmul rel b)) \<or> fle d (fabs (fmul rel a)) \<or> fle d (round64 abs_tol))))))"

definition phase_order :: "py list" where
  "phase_order = map (\<lambda>(kind, layer). PyTuple [PyInt kind, PyInt layer])
     ([(1, 0)] @ concat (map (\<lambda>layer. map (\<lambda>kind. (kind, layer)) [2, 3, 4, 5, 6, 7, 8, 9]) [0, 1, 2, 3, 4, 5, 6, 7, 8, 9, 10, 11])
      @ [(10, 0), (11, 0), (12, 0)])"

definition phase_kinds :: "py \<Rightarrow> bool res" where
  "phase_kinds r = eq (lst (lcomp (\<lambda>p. rbind (fld (V p) ''kind'') (\<lambda>k. rbind (fld (V p) ''layer'') (\<lambda>l. Inr (PyTuple [k, l]))))
     (iter (fld (V r) ''phases'')))) (V (PyList phase_order))"

text \<open>The engine cycles lie within the service cycles, these within the phase; the rest is the CPU's.\<close>

definition phase_nested :: "py \<Rightarrow> bool res" where
  "phase_nested p = (let f = fld (V p) in
     conjs [le (I 0) (add (f ''gemm_cycles'') (f ''sfpu_cycles'')),
       le (add (f ''gemm_cycles'') (f ''sfpu_cycles'')) (f ''service_cycles''), le (f ''service_cycles'') (f ''cycles''),
       eq (f ''cpu_remainder_cycles'') (minus' (f ''cycles'') (f ''service_cycles''))])"

definition phase_total :: "py \<Rightarrow> string \<Rightarrow> py res" where
  "phase_total r counter = total (lcomp (\<lambda>p. fld (V p) counter) (iter (fld (V r) ''phases'')))"

definition phase_sums :: "py \<Rightarrow> bool res list" where
  "phase_sums r = map (\<lambda>(counter, metric). eq (quot (phase_total r counter) (I 91000000)) (fld (V r) metric))
     [(''service_cycles'', ''service_seconds''), (''gemm_cycles'', ''gemm_compute_seconds''),
      (''sfpu_cycles'', ''sfpu_compute_seconds'')]"

section \<open>The audit\<close>

definition sweep_gates :: "py \<Rightarrow> py \<Rightarrow> py \<Rightarrow> py \<Rightarrow> unit res" where
  "sweep_gates evidence report refs policy' =
     (let E = V evidence; R = V report; Q = V refs; P = V policy' in
      checks [
        conjs [eq P (fld R ''policy''), eq (fld P ''board_budget_seconds'') (I 3600),
          eq (fld P ''cleanup_reserve_seconds'') (I 120), eq (fld P ''reference_budget_seconds'') (I 600)],
        conjs [eq (fld P ''frozen_git'') (S ''e5883bcc99ad61bba381714781febb873a1101e3''),
          eq (fld P ''clock_hz'') (fld R ''clock_hz''), eq (fld R ''clock_hz'') (I 91000000)],
        conjs [eq (fld R ''status'') (fld Q ''status''), eq (fld Q ''status'') (S ''PASS''), tru (fld R ''within_budget''),
          lt (I 0) (fld R ''elapsed_seconds''), le (fld R ''elapsed_seconds'') (I 3600),
          lt (I 0) (fld Q ''elapsed_seconds''), le (fld Q ''elapsed_seconds'') (I 601)],
        conjs [tru (fld R ''normal_unload''), neg (tru (get R ''cleanup_error'' PyNone)),
          eq (fld (fld R ''dma_after_return'') ''owner'') (I 0),
          alls (\<lambda>k. eq (fld (fld R ''info_after_close_reopen'') k) (I 0)) (Inr [''owner'', ''pte_dma'', ''allocated_pages''])],
        eq (fld R ''allocated_bytes'') (I 266289152),
        eq (fld R ''policy_sha256'') (fld Q ''policy_sha256''),
        alls (\<lambda>(name, digest). eq (itm (fld R ''sha256'') (V name)) (V digest)) (items (fld P ''pinned'')),
        eq (lst (lcomp (\<lambda>i. fld (V i) ''trial'') (iter (fld R ''trials'')))) (fld P ''matrix'')])"

text \<open>A full request: its identity and timing; the expected step, and the model and delivered times.\<close>

definition audit_full :: "py \<Rightarrow> py \<Rightarrow> py \<Rightarrow> (py \<times> py \<times> py) res" where
  "audit_full refs trial r =
     rbind (itm (fld (V refs) ''cases'') (fld (V trial) ''case'')) (\<lambda>c. rbind (fld (V trial) ''new_tokens'') (\<lambda>n.
     rbind (itm (fld (V c) ''steps'') (minus' (V n) (I 1))) (\<lambda>expected. let R = V r; C = V c in
     rbind (checks [conjs [eq (fld R ''id'') (fld C ''id''), eq (fld R ''prompt_tokens'') (fld C ''input_tokens''),
         eq (fld R ''generated_tokens'') (lst (lcomp (\<lambda>s. fld (V s) ''token'')
           (rbind (iter (fld C ''steps'')) (\<lambda>ss. case to_int n of Some k \<Rightarrow> Inr (upto_slice k ss) | None \<Rightarrow> Inl TypeError)))),
         eq (fld R ''cache_valid'') (minus' (add (len (fld C ''input_tokens'')) (V n)) (I 1))]]) (\<lambda>_.
     rbind (fld R ''firmware_seconds'') (\<lambda>model. rbind (fld R ''request_through_delivery_seconds'') (\<lambda>delivered.
     rbind (checks [
       conjs [eq (len (fld R ''decode_seconds'')) (minus' (V n) (I 1)),
         alls (\<lambda>t. finite_positive (V t)) (iter (fld R ''decode_seconds''))],
       conjs [lt (I 0) (fld R ''prefill_forward_seconds''), le (fld R ''prefill_forward_seconds'') (fld R ''ttft_seconds''),
         le (fld R ''ttft_seconds'') (V model),
         isclose (add (fld R ''ttft_seconds'') (total (iter (fld R ''decode_seconds'')))) (V model) (1 / 1000)],
       conjs [le (fld R ''device_wall_seconds'') (fld R ''request_wall_seconds''), le (fld R ''request_wall_seconds'') (V delivered),
         eq (fld R ''request_tokens_per_second'') (quot (V n) (V delivered))],
       rbind (tru (fld (V trial) ''capture'')) (\<lambda>b. if b then eq (len (fld R ''traces'')) (I 5) else Inr True)]) (\<lambda>_.
       Inr (expected, model, delivered))))))))"

definition audit_cached :: "(py \<Rightarrow> string) \<Rightarrow> py \<Rightarrow> py \<Rightarrow> py \<Rightarrow> py \<Rightarrow> (py \<times> py \<times> py) res" where
  "audit_cached repr policy' refs trial r =
     rbind (fld (V trial) ''past'') (\<lambda>past. rbind (fld (fld (V refs) ''seeds'') (py_str repr past)) (\<lambda>seed.
     rbind (fld (V seed) ''expected'') (\<lambda>expected. let R = V r in
     rbind (checks [conjs [eq (fld R ''status'') (S ''PASS''), eq (fld R ''token'') (fld (V expected) ''token''),
         eq (fld R ''cache_valid'') (add (V past) (I 1)),
         eq (fld R ''firmware_sha256'') (fld (fld (V policy') ''pinned'') ''m5_profile.bin'')]]) (\<lambda>_.
     rbind (fld R ''model_seconds'') (\<lambda>model. rbind (fld R ''host_request_through_delivery_seconds'') (\<lambda>delivered.
     rbind (checks [conjs [eq (V model) (quot (fld R ''model_cycles'') (I 91000000)),
         eq (fld R ''profile_enabled'') (fld (V trial) ''profile'')]]) (\<lambda>_.
     rbind (tru (fld (V trial) ''profile'')) (\<lambda>profile.
     rbind (if profile
            then rbind (check (phase_kinds r)) (\<lambda>_.
                 rbind (iter (fld R ''phases'')) (\<lambda>ps. rbind (checks (map phase_nested ps)) (\<lambda>_.
                   checks (phase_sums r @
                     [isclose (add (fld R ''service_seconds'') (fld R ''cpu_remainder_seconds'')) (V model) (1 / 10 ^ 9)]))))
            else checks [conjs [neg (tru (fld R ''phases'')), eq (fld R ''service_seconds'') (V PyNone)]]) (\<lambda>_.
       Inr (expected, model, delivered))))))))))"

definition SKIP_REASONS :: "py list" where
  "SKIP_REASONS = [PyStr ''independent reference unavailable within preparation guard'',
     PyStr ''conservative case bound would consume cleanup reserve'']"

text \<open>One trial; the passed ones are collected.\<close>

definition audit_trial :: "(py \<Rightarrow> string) \<Rightarrow> py \<Rightarrow> py \<Rightarrow> py list \<Rightarrow> py \<Rightarrow> py list res" where
  "audit_trial repr policy' refs passed item' =
     (let M = V item' in
      rbind (fld M ''trial'') (\<lambda>trial. rbind (fld M ''status'') (\<lambda>st.
      rbind (check (Inr (py_eq st (PyStr ''PASS'') \<or> py_eq st (PyStr ''SKIP'')))) (\<lambda>_.
        if py_eq st (PyStr ''SKIP'')
        then rbind (check (rbind (get M ''reason'' PyNone) (\<lambda>w. Inr (list_ex (\<lambda>x. py_eq x w) SKIP_REASONS)))) (\<lambda>_. Inr passed)
        else rbind (checks [
            conjs [finite_positive (fld M ''case_elapsed_seconds''),
              rbind (fld M ''bound_exceeded'') (\<lambda>b. rbind (lt (fld (V trial) ''bound_seconds'') (fld M ''case_elapsed_seconds'')) (\<lambda>c.
                Inr (py_eq b (PyBool c))))],
            conjs [le (I 0) (fld M ''started_campaign_seconds''),
              le (add (add (fld M ''started_campaign_seconds'') (fld (V trial) ''bound_seconds'')) (I 120)) (I 3600)]]) (\<lambda>_.
          rbind (fld M ''result'') (\<lambda>r. rbind (eq (fld (V trial) ''kind'') (S ''full'')) (\<lambda>full.
          rbind (if full then audit_full refs trial r else audit_cached repr policy' refs trial r) (\<lambda>(expected, model, delivered).
          rbind (checks [
            conjs [finite_positive (V model), finite_positive (V delivered), lt (V model) (V delivered),
              le (V delivered) (fld M ''case_elapsed_seconds'')],
            conjs [eq (fld (V r) ''logits_sha256'') (fld (V expected) ''logits_sha256''),
              eq (fld (V r) ''kv_sha256'') (fld (V expected) ''cache_sha256'')]]) (\<lambda>_.
            Inr (passed @ [trial]))))))))))"

definition role_gates :: "py list \<Rightarrow> bool res list" where
  "role_gates passed = (let count = (\<lambda>p. rbind (lcomp p (Inr passed)) (\<lambda>bs. I (int (length (filter id bs))))) in
     [conjs [eq (count (\<lambda>t. eq (fld (V t) ''role'') (S ''original_anchor''))) (I 3),
        le (I 2) (count (\<lambda>t. eq (fld (V t) ''role'') (S ''uninterrupted_generation'')))],
      eq (count (\<lambda>t. conjs [eq (fld (V t) ''kind'') (S ''cached''), eq (fld (V t) ''past'') (I 13),
        neg (tru (fld (V t) ''profile''))])) (I 3)])"

text \<open>\<open>validate(evidence, files=False)\<close>.\<close>

definition audit_sweep :: "(py \<Rightarrow> string) \<Rightarrow> py \<Rightarrow> unit res" where
  "audit_sweep repr evidence = (let E = V evidence in
     rbind (check (conjs [eq (fld E ''schema'') (I 1), eq (fld E ''status'') (S ''PASS'')])) (\<lambda>_.
     rbind (fld E ''campaign'') (\<lambda>report. rbind (fld E ''references'') (\<lambda>refs. rbind (fld E ''policy'') (\<lambda>policy'.
     rbind (sweep_gates evidence report refs policy') (\<lambda>_.
     rbind (iter (fld (V report) ''trials'')) (\<lambda>items'.
     rbind (rfold (audit_trial repr policy' refs) [] items') (\<lambda>passed.
       checks (role_gates passed @ [eq (fld E ''summary'') (summarize repr report)])))))))))"

section \<open>The files behind the evidence\<close>

definition BUILD :: string where "BUILD = ''build/m5_sweep_v1''"

text \<open>\<open>ROOT.glob\<close> and \<open>BUILD.rglob('*')\<close>, relative to the root.\<close>

definition sweep_file_paths :: "files \<Rightarrow> string list \<times> string list" where
  "sweep_file_paths fs =
     (concat (map (fl_glob fs) [''scripts/*m5_sweep*.py'', ''zynq/m5_sweep.py'', ''tests/m5_sweep/*.py'', ''docs/M5_SWEEP*.md'']),
      filter (fl_is_file fs) (fl_glob fs (BUILD @ ''/**''))
        @ [''docs/m5_sweep_samples.csv'', ''docs/m5_sweep_continuation.csv''])"

definition sha_is :: "files \<Rightarrow> string \<Rightarrow> py res \<Rightarrow> bool res" where
  "sha_is fs p digest = rbind (fl_sha fs p) (\<lambda>s. eq (S s) digest)"

definition build_files :: "(string \<times> string) list" where
  "build_files = [(''policy'', ''policy.json''), (''campaign'', ''campaign.json''),
     (''references'', ''references/manifest.json''), (''summary'', ''summary.json'')]"

definition same_paths :: "py res \<Rightarrow> string list \<Rightarrow> bool res" where
  "same_paths d ps = rbind (iter d) (\<lambda>ks. Inr (set_eq ks (map PyStr ps)))"

definition digests_hold :: "files \<Rightarrow> (py \<Rightarrow> string) \<Rightarrow> py res \<Rightarrow> bool res" where
  "digests_hold fs repr d = alls (\<lambda>(p, digest). sha_is fs (py_str repr p) (V digest)) (items d)"

text \<open>\<open>next(x for x in xs if p(x))\<close>.\<close>

fun first_with :: "('a \<Rightarrow> bool res) \<Rightarrow> 'a list \<Rightarrow> 'a res" where
  "first_with p [] = Inl StopIteration"
| "first_with p (x # xs) = rbind (p x) (\<lambda>b. if b then Inr x else first_with p xs)"

definition seed_checks :: "files \<Rightarrow> (py \<Rightarrow> string) \<Rightarrow> py \<times> py \<Rightarrow> bool res list" where
  "seed_checks fs repr = (\<lambda>(name, seed).
     [conjs [eq (fld (V seed) ''past'') (rbind (parse_int (py_str repr name)) I), tru (fld (V seed) ''continuation_checked''),
        rbind (iter (fld (V seed) ''arrays'')) (\<lambda>ks. Inr (set_eq ks (map PyStr [''k'', ''v'', ''k8'', ''kunits''])))],
      alls (\<lambda>(a, entry). rbind (fld (V entry) ''file'') (\<lambda>f.
          let p = path [BUILD, ''references/p'' @ py_str repr name @ ''/seed'', py_str repr f] in
          conjs [eq (rbind (fl_size fs p) I) (fld (V entry) ''bytes''), sha_is fs p (fld (V entry) ''sha256'')]))
        (items (fld (V seed) ''arrays''))])"

definition LF :: "string \<Rightarrow> string" where
  "LF s = replace CRLF [NL] s"

definition text_is :: "files \<Rightarrow> string \<Rightarrow> string res \<Rightarrow> bool res" where
  "text_is fs p t = rbind (fl_text fs p) (\<lambda>a. rbind t (\<lambda>b. Inr (a = b)))"

definition manifest_checks :: "files \<Rightarrow> (py \<Rightarrow> string) \<Rightarrow> py \<Rightarrow> bool res list" where
  "manifest_checks fs repr evidence = (let E = V evidence; R = fld E ''campaign''; (sources, artifacts) = sweep_file_paths fs in
     [eq (fld E ''reused_hardware'') (fld (fl_json fs ''docs/m5_fast_evidence.json'') ''hardware''),
      conjs [same_paths (fld E ''sources'') sources, same_paths (fld E ''artifacts'') artifacts],
      digests_hold fs repr (fld E ''sources''), digests_hold fs repr (fld E ''artifacts''),
      sha_is fs ''docs/m5_tenth_evidence.json'' (fld E ''baseline_sha256''),
      alls (\<lambda>(key, name). eq (fld E key) (fl_json fs (path [BUILD, name]))) (Inr build_files),
      conjs [sha_is fs (path [BUILD, ''references/manifest.json'']) (fld R ''reference_manifest_sha256''),
        sha_is fs (path [BUILD, ''policy.json'']) (fld R ''policy_sha256'')],
      sha_is fs ''zynq/m5_sweep.py'' (fld (fld R ''sha256'') ''m5_sweep.py'')])"

definition baseline_checks :: "py \<Rightarrow> py res \<Rightarrow> bool res list" where
  "baseline_checks report old = (let R = V report in
     [conjs [eq (fld (fld R ''sha256'') ''layout.json'') (fld (fld old ''sha256'') ''layout''),
        eq (fld (fld R ''sha256'') ''model.bin'') (fld (fld old ''sha256'') ''model'')],
      alls (\<lambda>(k, v). if py_eq k (PyStr ''wall_seconds'') then Inr True
          else eq (itm (fld R ''boundary_rejection'') (V k)) (V v)) (items (fld old ''boundary_rejection'')),
      rbind (rbind (iter (fld R ''trials'')) (first_with (\<lambda>i. tru (fld (fld (V i) ''trial'') ''capture'')))) (\<lambda>anchor.
        eq (fld (fld (V anchor) ''result'') ''traces'') (fld (itm (fld old ''runs'') (I 0)) ''traces''))])"

definition sweep_files :: "files \<Rightarrow> (py \<Rightarrow> string) \<Rightarrow> py \<Rightarrow> unit res" where
  "sweep_files fs repr evidence = (let E = V evidence; Q = fld E ''references'' in
     rbind (checks (manifest_checks fs repr evidence)) (\<lambda>_.
     rbind (fld (fld (fl_json fs ''docs/m5_tenth_evidence.json'') ''reports'') ''complete'') (\<lambda>old.
     rbind (fld E ''campaign'') (\<lambda>report.
     rbind (checks (baseline_checks report (V old))) (\<lambda>_.
     rbind (check (alls (\<lambda>c. eq (itm (fld Q ''cases'') (fld (V c) ''id'')) (V c))
          (iter (fld (fl_json fs ''build/m4_runtime_fixtures/manifest.json'') ''generation'')))) (\<lambda>_.
     rbind (items (fld Q ''seeds'')) (\<lambda>seeds.
     rbind (checks (concat (map (seed_checks fs repr) seeds))) (\<lambda>_.
     checks
       [digests_hold fs repr (fld Q ''sources''),
        text_is fs (path [BUILD, ''samples.csv'']) (rbind (rbind (fld E ''summary'') (csv_text repr)) (\<lambda>s. Inr (LF s))),
        text_is fs (path [BUILD, ''continuation.csv'']) (rbind (continuation_csv repr report) (\<lambda>s. Inr (LF s))),
        text_is fs (path [BUILD, ''tables.md'']) (rbind (fld E ''summary'') (tables repr)),
        text_is fs ''docs/m5_sweep_samples.csv'' (fl_text fs (path [BUILD, ''samples.csv''])),
        text_is fs ''docs/m5_sweep_continuation.csv'' (fl_text fs (path [BUILD, ''continuation.csv'']))]))))))))"

definition sweep_validate :: "files \<Rightarrow> (py \<Rightarrow> string) \<Rightarrow> bool \<Rightarrow> py \<Rightarrow> unit res" where
  "sweep_validate fs repr with_files evidence =
     rbind (audit_sweep repr evidence) (\<lambda>_. if with_files then sweep_files fs repr evidence else Inr ())"

text \<open>\<open>{p: sha(ROOT/p) for p in sorted(ps)}\<close>.\<close>

definition digests_of :: "files \<Rightarrow> string list \<Rightarrow> py res" where
  "digests_of fs ps = rbind (py_sorted (distinct_values (map PyStr ps))) (\<lambda>ks.
     rbind (rmap (\<lambda>k. rbind (fl_sha fs (py_str (\<lambda>_. []) k)) (\<lambda>s. Inr (k, PyStr s))) ks) (\<lambda>d. Inr (PyDict d)))"

definition sweep_collect :: "files \<Rightarrow> (py \<Rightarrow> string) \<Rightarrow> py res" where
  "sweep_collect fs repr = (let (sources, artifacts) = sweep_file_paths fs in
     rbind (dict_of ([(''schema'', I 1), (''status'', S ''PASS''), (''baseline_sha256'', rbind (fl_sha fs ''docs/m5_tenth_evidence.json'') S),
        (''reused_hardware'', fld (fl_json fs ''docs/m5_fast_evidence.json'') ''hardware''),
        (''sources'', digests_of fs sources), (''artifacts'', digests_of fs artifacts)]
        @ map (\<lambda>(key, name). (key, fl_json fs (path [BUILD, name]))) build_files)) (\<lambda>evidence.
     rbind (sweep_validate fs repr True evidence) (\<lambda>_. Inr evidence)))"


end
