(* ===== verification/StartupAudit.thy ===== *)
theory StartupAudit
  imports SweepAudit
begin

text \<open>
  The startup measurement audit of \<open>scripts/audit_m5_startup.py\<close>: the campaign, the final
  per-sample performance gates, the independent references, the hardware reports, and the files
  behind the evidence.
\<close>

section \<open>A campaign\<close>

definition campaign_gate :: "py \<Rightarrow> py \<Rightarrow> unit res" where
  "campaign_gate report refs =
     (let R = V report; Q = V refs; P = fld R ''policy''; J = fld R ''boundary_rejection'' in
      checks [
        conjs [eq (fld R ''status'') (fld Q ''status''), eq (fld Q ''status'') (S ''PASS''), tru (fld R ''within_budget''),
          lt (I 0) (fld R ''elapsed_seconds''), le (fld R ''elapsed_seconds'') (I 3600),
          eq (fld P ''board_budget_seconds'') (I 3600), eq (fld P ''cleanup_reserve_seconds'') (I 120)],
        conjs [eq (fld R ''clock_hz'') (fld P ''clock_hz''), eq (fld P ''clock_hz'') (I 91000000),
          eq (fld R ''allocated_bytes'') (I 266289152)],
        conjs [tru (fld R ''normal_unload''), neg (tru (get R ''cleanup_error'' PyNone)),
          eq (fld (fld R ''dma_after_return'') ''owner'') (I 0),
          alls (\<lambda>k. eq (fld (fld R ''info_after_close_reopen'') k) (I 0)) (Inr [''owner'', ''allocated_pages'', ''pte_dma''])],
        eq (fld R ''policy_sha256'') (fld Q ''policy_sha256''),
        alls (\<lambda>(name, value'). eq (itm (fld R ''sha256'') (V name)) (V value')) (items (fld P ''pinned'')),
        conjs [eq (fld J ''state'') (I 5), eq (fld J ''error'') (I 1), eq (fld J ''cache_valid'') (I 17),
          eq (fld J ''generated_count'') (I 19), tru (fld J ''output_sentinel_unchanged''),
          rbind (iter (fld J ''cache_regions_unchanged'')) (\<lambda>ks. Inr (set_eq ks (map PyStr [''k'', ''v'', ''k8'', ''kunits'']))),
          eq (fld J ''recovery'') (S ''subsequent accepted runs'')],
        eq (lst (lcomp (\<lambda>i. fld (V i) ''trial'') (iter (fld R ''trials'')))) (fld P ''matrix'')])"

definition admission :: "py \<Rightarrow> py \<Rightarrow> bool res" where
  "admission item' t = (let M = V item'; T = V t in
     conjs [eq (fld M ''status'') (S ''PASS''), neg (tru (fld M ''bound_exceeded'')),
       lt (I 0) (fld M ''case_elapsed_seconds''), le (fld M ''case_elapsed_seconds'') (fld T ''bound_seconds''),
       le (I 0) (fld M ''started_campaign_seconds''),
       le (add (add (fld M ''started_campaign_seconds'') (fld T ''bound_seconds'')) (I 120)) (I 3600)])"

text \<open>A warm request continues the previous one; the others rebuild the whole derived cache.\<close>

definition context_checks :: "py \<Rightarrow> py \<Rightarrow> py res \<Rightarrow> py option \<Rightarrow> unit res" where
  "context_checks seed r tokens previous = (let R = V r; E = V seed in
     rbind (check (eq (fld R ''context_role'') (fld E ''context_role''))) (\<lambda>_.
     rbind (eq (fld R ''context_role'') (S ''warm_last_slot'')) (\<lambda>warm.
       if warm then (case previous of None \<Rightarrow> Inl ValueError
         | Some prev \<Rightarrow> checks [
             conjs [eq (fld (V prev) ''cache_valid'') (fld E ''past''), eq (fld (V prev) ''token'') (fld E ''input_token''),
               eq (fld (V prev) ''kv_sha256'') (fld E ''prefill_kv_sha256'')],
             conjs [eq (fld (fld R ''derived_cache'') ''appended_vectors'') (I 288),
               le (fld (fld (V prev) ''derived_cache'') ''updated_columns'') (fld (fld R ''derived_cache'') ''updated_columns'')]])
       else check (eq (fld (fld R ''derived_cache'') ''appended_vectors'') (mul (I 144) (len tokens))))))"

text \<open>The counters of deferred first uses, in version 2 of the derived cache.\<close>

definition detail_checks :: "py \<Rightarrow> py res \<Rightarrow> py res \<Rightarrow> unit res" where
  "detail_checks r tokens model = (let R = V r; D = fld R ''startup_detail'' in
     rbind (check (alls (\<lambda>x. eq (fld (V x) ''seconds'') (quot (fld (V x) ''cycles'') (I 91000000))) (iter D))) (\<lambda>_.
     rbind (eq (get (fld R ''derived_cache'') ''version'' (PyInt 1)) (I 2)) (\<lambda>v2.
       if \<not> v2 then Inr ()
       else rbind (check (eq (len D) (I 16))) (\<lambda>_.
         rbind (ne (fld R ''context_role'') (S ''warm_last_slot'')) (\<lambda>cold. let rows = (if cold then 144 else 0) in
         rbind (checks (map (\<lambda>(index, count). eq (fld (itm D (I index)) ''calls'') count)
              [(0, I rows), (13, I 12), (14, I rows), (15, mul (I 144) (len tokens))])) (\<lambda>_.
         rbind (add (fld (itm D (I 13)) ''seconds'') (fld (itm D (I 14)) ''seconds'')) (\<lambda>required.
         check (conjs [eq (fld R ''initial_required_derived_seconds'') (V required), le (I 0) (V required), le (V required) model,
           le (fld (itm D (I 14)) ''cycles'') (fld (itm D (I 15)) ''cycles'')]))))))))"

definition profile_checks :: "py \<Rightarrow> py res \<Rightarrow> py res \<Rightarrow> unit res" where
  "profile_checks r tokens model = (let R = V r in
     rbind (check (phase_kinds r)) (\<lambda>_. rbind (iter (fld R ''phases'')) (\<lambda>ps.
     rbind (checks (map phase_nested ps @
       [eq (add (phase_total r ''cycles'') (fld R ''unassigned_profile_tail_cycles'')) (fld R ''model_cycles'')] @
       phase_sums r @ [isclose (add (fld R ''service_seconds'') (fld R ''cpu_remainder_seconds'')) model (1 / 10 ^ 9)])) (\<lambda>_.
       detail_checks r tokens model))))"

text \<open>A cached trial: the expected result, and the model and delivered times.\<close>

definition cached_trial :: "(py \<Rightarrow> string) \<Rightarrow> py \<Rightarrow> py \<Rightarrow> py \<Rightarrow> py \<Rightarrow> py option \<Rightarrow> (py \<times> py \<times> py) res" where
  "cached_trial repr policy' refs t r previous = (let R = V r; T = V t in
     rbind (fld T ''past'') (\<lambda>past. rbind (fld (fld (V refs) ''seeds'') (py_str repr past)) (\<lambda>seed.
     rbind (fld (V seed) ''expected'') (\<lambda>expected.
     rbind (rbind (get (V seed) ''input_token'' PyNone) (\<lambda>x. get (V seed) ''prefill_tokens'' (PyList [x]))) (\<lambda>tokens.
     rbind (check (conjs [eq (fld R ''status'') (S ''PASS''), eq (fld R ''initial_past'') (V past),
         eq (fld R ''input_tokens'') (V tokens), eq (fld R ''cache_valid'') (add (V past) (len (V tokens))),
         eq (fld R ''token'') (fld (V expected) ''token''),
         eq (fld R ''firmware_sha256'') (fld (fld (V policy') ''pinned'') ''m5_profile.bin'')])) (\<lambda>_.
     rbind (context_checks seed r (V tokens) previous) (\<lambda>_.
     rbind (check (eq (fld (fld R ''derived_cache'') ''cold_heads'') (I 144))) (\<lambda>_.
     rbind (fld R ''model_seconds'') (\<lambda>model. rbind (fld R ''host_request_through_delivery_seconds'') (\<lambda>delivered.
     rbind (checks [conjs [eq (V model) (quot (fld R ''model_cycles'') (I 91000000)), eq (fld R ''profile_enabled'') (fld T ''profile'')],
         le (fld R ''workspace_high_water'') (I 2609152)]) (\<lambda>_.
     rbind (tru (fld T ''profile'')) (\<lambda>profile.
     rbind (if profile then profile_checks r (V tokens) (V model)
            else check (conjs [neg (tru (fld R ''phases'')), eq (fld R ''service_seconds'') (V PyNone),
                   neg (contains (PyStr ''startup_detail'') r)])) (\<lambda>_.
       Inr (expected, model, delivered))))))))))))))"

definition full_trial_checks :: "files \<Rightarrow> py \<Rightarrow> py \<Rightarrow> py \<Rightarrow> py \<Rightarrow> (py \<times> py \<times> py) res" where
  "full_trial_checks fs policy' refs t r = (let R = V r; T = V t in
     rbind (check (eq (fld T ''kind'') (S ''full''))) (\<lambda>_.
     rbind (itm (fld (V refs) ''cases'') (fld T ''case'')) (\<lambda>c. let C = V c in
     rbind (fld T ''new_tokens'') (\<lambda>n. rbind (itm (fld C ''steps'') (minus' (V n) (I 1))) (\<lambda>expected.
     rbind (check (conjs [eq (fld R ''id'') (fld C ''id''), eq (fld R ''prompt_tokens'') (fld C ''input_tokens''),
         eq (fld R ''generated_tokens'') (lst (lcomp (\<lambda>s. fld (V s) ''token'')
           (rbind (iter (fld C ''steps'')) (\<lambda>ss. case to_int n of Some k \<Rightarrow> Inr (upto_slice k ss) | None \<Rightarrow> Inl TypeError)))),
         eq (fld R ''cache_valid'') (minus' (add (len (fld C ''input_tokens'')) (V n)) (I 1))])) (\<lambda>_.
     rbind (tru (fld T ''capture'')) (\<lambda>capture. let image = (if capture then ''m5_trace.bin'' else ''m5_runtime.bin'') in
     rbind (check (conjs [eq (fld R ''execution_image'') (S image),
         eq (fld R ''firmware_sha256'') (fld (fld (V policy') ''pinned'') image)])) (\<lambda>_.
     rbind (if capture then rbind (fl_json fs ''build/m5_startup_split_fixed_diag_v1/campaign.json'') (\<lambda>baseline.
              rbind (rbind (iter (fld (V baseline) ''trials'')) (first_with (\<lambda>x. tru (get (fld (V x) ''trial'') ''capture'' PyNone)))) (\<lambda>x.
              check (eq (fld R ''traces'') (fld (fld (V x) ''result'') ''traces''))))
            else Inr ()) (\<lambda>_.
     rbind (fld R ''firmware_seconds'') (\<lambda>model. rbind (fld R ''request_through_delivery_seconds'') (\<lambda>delivered.
     rbind (checks [conjs [eq (len (fld R ''decode_seconds'')) (minus' (V n) (I 1)),
           isclose (add (fld R ''ttft_seconds'') (total (iter (fld R ''decode_seconds'')))) (V model) (1 / 1000),
           eq (fld R ''request_tokens_per_second'') (quot (V n) (V delivered))],
         le (fld R ''work_high_water'') (I 2609152)]) (\<lambda>_.
       Inr (expected, model, delivered)))))))))))))"

text \<open>One item of the loop: the previous cached result is what a warm trial continues.\<close>

definition campaign_item :: "files \<Rightarrow> (py \<Rightarrow> string) \<Rightarrow> py \<Rightarrow> py \<Rightarrow> py option \<Rightarrow> py \<Rightarrow> py option res" where
  "campaign_item fs repr policy' refs previous item' =
     rbind (fld (V item') ''trial'') (\<lambda>t. rbind (fld (V item') ''result'') (\<lambda>r.
     rbind (check (admission item' t)) (\<lambda>_.
     rbind (eq (fld (V t) ''kind'') (S ''cached'')) (\<lambda>cached.
     rbind (if cached then cached_trial repr policy' refs t r previous else full_trial_checks fs policy' refs t r)
       (\<lambda>(expected, model, delivered).
     rbind (checks [conjs [finite_positive (V model), finite_positive (V delivered), lt (V model) (V delivered),
           le (V delivered) (fld (V item') ''case_elapsed_seconds'')],
         conjs [eq (fld (V r) ''logits_sha256'') (fld (V expected) ''logits_sha256''),
           eq (fld (V r) ''kv_sha256'') (fld (V expected) ''cache_sha256'')]]) (\<lambda>_.
       Inr (if cached then Some r else None)))))))"

definition validate_campaign :: "files \<Rightarrow> (py \<Rightarrow> string) \<Rightarrow> py \<Rightarrow> py \<Rightarrow> unit res" where
  "validate_campaign fs repr report refs =
     rbind (campaign_gate report refs) (\<lambda>_. rbind (fld (V report) ''policy'') (\<lambda>policy'.
     rbind (iter (fld (V report) ''trials'')) (\<lambda>items'.
     rbind (rfold (campaign_item fs repr policy' refs) None items') (\<lambda>_. Inr ()))))"

section \<open>The final gates\<close>

definition pinned_is :: "py res \<Rightarrow> py \<Rightarrow> string list \<Rightarrow> bool res" where
  "pinned_is pinned binaries names = alls (\<lambda>n. eq (fld pinned n) (fld (V binaries) n)) (Inr names)"

definition pinned_overlay :: "py res \<Rightarrow> py \<Rightarrow> bool res" where
  "pinned_overlay pinned overlay = alls (\<lambda>n. eq (itm pinned (V n)) (itm (V overlay) (V n))) (iter (V overlay))"

definition with_past :: "py \<Rightarrow> int \<Rightarrow> py list res" where
  "with_past report past = rbind (iter (fld (V report) ''trials''))
     (keep (\<lambda>x. eq (get (fld (V x) ''trial'') ''past'' PyNone) (I past)))"

text \<open>The gates of one prefix, and its full requests.\<close>

definition prefix_gates :: "py \<Rightarrow> py \<Rightarrow> py \<Rightarrow> py \<Rightarrow> py \<Rightarrow> string \<Rightarrow> py list res" where
  "prefix_gates reports references selection binaries overlay prefix =
     rbind (fld (V selection) (''final_'' @ prefix)) (\<lambda>key.
     rbind (itm (V reports) (V key)) (\<lambda>report. rbind (itm (V references) (V key)) (\<lambda>refs.
     rbind (check (eq (fld (V refs) ''case'') (S prefix))) (\<lambda>_.
     rbind (fld (fld (V report) ''policy'') ''pinned'') (\<lambda>pinned.
     rbind (checks ([pinned_overlay (V pinned) overlay, pinned_is (V pinned) binaries [''m5_runtime.bin'', ''m5_profile.bin'', ''m5_trace.bin'']] @
       map (\<lambda>(past, limit). rbind (with_past report past) (\<lambda>group.
         conjs [Inr (3 \<le> length group),
           alls (\<lambda>x. let r = fld (V x) ''result'' in
             conjs [neg (tru (fld (fld (V x) ''trial'') ''profile'')),
               eq (get (fld r ''derived_cache'') ''version'' PyNone) (I 2),
               le (fld r ''host_request_through_delivery_seconds'') (I limit)]) (Inr group)]))
         [(1022, 20), (1023, 10)])) (\<lambda>_.
     rbind (rbind (iter (fld (V report) ''trials'')) (keep (\<lambda>x. eq (fld (fld (V x) ''trial'') ''kind'') (S ''full'')))) (\<lambda>fulls.
     rbind (fld (V selection) (''diagnostic_'' @ prefix)) (\<lambda>dkey.
     rbind (itm (V reports) (V dkey)) (\<lambda>diagnostic.
     rbind (checks [eq (fld (itm (V references) (V dkey)) ''case'') (S prefix),
       (let dp = fld (fld (V diagnostic) ''policy'') ''pinned'' in
        conjs [eq (fld dp ''m5_profile.bin'') (fld (V binaries) ''m5_detail.bin''), pinned_overlay dp overlay])]) (\<lambda>_.
     rbind (with_past diagnostic 1022) (\<lambda>cold.
     rbind (check (conjs [Inr (cold \<noteq> []),
         alls (\<lambda>x. let r = fld (V x) ''result'' in
           conjs [tru (fld (fld (V x) ''trial'') ''profile''),
             le (fld r ''initial_required_derived_seconds'') (I 10),
             le (fld r ''host_request_through_delivery_seconds'') (I 20)]) (Inr cold)])) (\<lambda>_.
       Inr fulls))))))))))))"

definition validate_final :: "py \<Rightarrow> py \<Rightarrow> py \<Rightarrow> py \<Rightarrow> py \<Rightarrow> unit res" where
  "validate_final reports references selection binaries overlay =
     rbind (rmap (prefix_gates reports references selection binaries overlay) [''story'', ''science'']) (\<lambda>fulls.
     let all_full = concat fulls in
     checks (map (\<lambda>(name, tokens, seconds).
       rbind (keep (\<lambda>x. let t = fld (V x) ''trial'' in
           conjs [eq (fld t ''case'') (S name), neg (tru (fld t ''capture''))]) all_full) (\<lambda>group.
         conjs [Inr (3 \<le> length group),
           alls (\<lambda>x. conjs [eq (fld (fld (V x) ''trial'') ''new_tokens'') (I tokens),
             le (fld (fld (V x) ''result'') ''request_through_delivery_seconds'') (I seconds)]) (Inr group)]))
         [(''science'', 1, 10), (''computing'', 1, 10), (''story'', 2, 20)]
       @ [anys (\<lambda>x. let t = fld (V x) ''trial'' in conjs [eq (fld t ''case'') (S ''story''), tru (fld t ''capture'')]) (Inr all_full)]))"

section \<open>References and stages\<close>

definition validate_references :: "files \<Rightarrow> (py \<Rightarrow> string) \<Rightarrow> py \<Rightarrow> unit res" where
  "validate_references fs repr refs = (let Q = V refs in
     rbind (fld Q ''case'') (\<lambda>c.
     rbind (check (Inr (py_eq c (PyStr ''story'') \<or> py_eq c (PyStr ''science'')))) (\<lambda>_.
     let directory = ''build/m5_context_'' @ py_str repr c @ ''_reference_v'' @ (if py_eq c (PyStr ''story'') then ''2'' else ''1'') in
     rbind (fl_json fs (directory @ ''/manifest.json'')) (\<lambda>canonical.
     rbind (checks (map (\<lambda>past. eq (fld (fld Q ''seeds'') past) (fld (fld (V canonical) ''seeds'') past)) [''1022'', ''1023''])) (\<lambda>_.
     rbind (rbind (rbind (iter (fld (fl_json fs ''build/m4_runtime_fixtures/manifest.json'') ''generation''))
        (rmap (\<lambda>x. rbind (fld (V x) ''id'') (\<lambda>i. Inr (i, x))))) (\<lambda>es. Inr (foldl (\<lambda>d (k, v). dict_put d k v) [] es))) (\<lambda>fixtures.
     rbind (check (eq (fld Q ''cases'') (V (PyDict fixtures)))) (\<lambda>_.
     rbind (fld (fld Q ''seeds'') ''0'') (\<lambda>prompt.
     check (anys (\<lambda>c. conjs [eq (fld (V prompt) ''prefill_tokens'') (fld (V c) ''input_tokens''),
         eq (fld (V prompt) ''expected'') (itm (fld (V c) ''steps'') (I 0))]) (Inr (map snd fixtures)))))))))))"

definition LAYOUT_FILE :: string where "LAYOUT_FILE = ''build/m5_arena.1Org4t/model/layout.json''"

definition validate_stage :: "files \<Rightarrow> (py \<Rightarrow> string) \<Rightarrow> string \<Rightarrow> (py \<times> py) res" where
  "validate_stage fs repr stage =
     rbind (fl_json fs (path [stage, ''campaign.json''])) (\<lambda>report. rbind (fl_json fs (path [stage, ''references/manifest.json''])) (\<lambda>refs.
     rbind (validate_campaign fs repr report refs) (\<lambda>_. rbind (validate_references fs repr refs) (\<lambda>_. let R = V report in
     rbind (checks [
       conjs [eq (fld (fld R ''sha256'') ''model.bin'') (fld (fl_json fs LAYOUT_FILE) ''model_sha256''),
         rbind (fld (fld R ''sha256'') ''layout.json'') (\<lambda>d. sha_is fs LAYOUT_FILE (V d))],
       conjs [eq (fld R ''policy'') (fl_json fs (path [stage, ''policy.json''])),
         rbind (fld R ''policy_sha256'') (\<lambda>d. sha_is fs (path [stage, ''policy.json'']) (V d)),
         rbind (fld R ''reference_manifest_sha256'') (\<lambda>d. sha_is fs (path [stage, ''references/manifest.json'']) (V d))]]) (\<lambda>_.
     rbind (items (fld (fld R ''policy'') ''pinned'')) (\<lambda>pinned.
     rbind (checks (map (\<lambda>(name, digest). let n = py_str repr name in
         if endswith ''.py'' n then sha_is fs (path [stage, ''deployed'', n]) (V digest)
         else rbind (itm (fld (fld R ''policy'') ''source_paths'') (V name)) (\<lambda>p. sha_is fs (py_str repr p) (V digest))) pinned)) (\<lambda>_.
       Inr (report, refs))))))))"

section \<open>The hardware reports\<close>

definition any_char :: "char \<Rightarrow> bool" where "any_char c = True"
definition number_char :: "char \<Rightarrow> bool" where "number_char c \<longleftrightarrow> is_digit c \<or> c = CHR ''.''"
definition upper :: "char \<Rightarrow> bool" where "upper c \<longleftrightarrow> 65 \<le> code c \<and> code c \<le> 90"

definition WNS_ROW :: regex where
  "WNS_ROW = cats [lit ''WNS(ns)'', Many False (Ch any_char), lit [NL], star is_space, plus ((=) CHR ''-''), star dot,
     lit [NL], star is_space, Grp 1 (plus dot)]"

definition CHECKED :: regex where
  "CHECKED = Grp 1 (cats [plus is_digit, lit ''. checking '', plus is_word, lit '' (0)''])"

definition count_after :: "string \<Rightarrow> regex" where
  "count_after label = cats [lit label, plus ((=) CHR ''.''), star is_space, lit '':'', star is_space, Grp 1 (plus is_digit)]"

definition cell_after :: "string \<Rightarrow> regex" where
  "cell_after label = cats [lit ''|'', star is_space, lit label, star is_space, lit ''|'', star is_space,
     Grp 1 (plus number_char), star is_space, lit ''|'']"

definition RULE_ROW :: regex where
  "RULE_ROW = cats [Bol, lit ''|'', star is_space,
     Grp 1 (Cat (Ch upper) (plus (\<lambda>c. upper c \<or> is_digit c \<or> c = CHR ''-''))), star is_space, lit ''|'', star is_space,
     Grp 2 (Alt (lit ''Warning'') (Alt (lit ''Error'') (lit ''Critical Warning''))), star is_space, lit ''|'',
     Cat (Ch dot) (Many False (Ch dot)), lit ''|'', star is_space, Grp 3 (plus is_digit), star is_space, lit ''|'']"

definition rules_of :: "string \<Rightarrow> (string \<times> string \<times> string) list" where
  "rules_of s = map (\<lambda>(i, j, g). (captured s g 1, captured s g 2, captured s g 3)) (finditer RULE_ROW s)"

definition strings :: "string list \<Rightarrow> py list" where "strings ss = map PyStr ss"

definition timing_summary :: "string \<Rightarrow> (string \<times> py res) list res" where
  "timing_summary timing =
     rbind (case search WNS_ROW timing of None \<Rightarrow> Inl ValueError | Some (i, j, g) \<Rightarrow> Inr (split (captured timing g 1))) (\<lambda>v.
     rbind (rmap (\<lambda>k. rbind (seq_item v k) parse_float) [0, 1, 4, 5]) (\<lambda>fs.
     rbind (check (Inr (infix_of ''10.989          91.000'' timing \<and> length (remdups (findall CHECKED timing)) = 12
         \<and> infix_of ''All user specified timing constraints are met.'' timing))) (\<lambda>_.
       Inr [(''wns_ns'', V (PyFloat (fs ! 0))), (''tns_ns'', V (PyFloat (fs ! 1))), (''hold_ns'', V (PyFloat (fs ! 2))),
         (''ths_ns'', V (PyFloat (fs ! 3))), (''clock_mhz'', I 91)])))"

definition hardware_from_reports :: "files \<Rightarrow> string \<Rightarrow> (py \<Rightarrow> string) \<Rightarrow> py \<Rightarrow> bool \<Rightarrow> py res" where
  "hardware_from_reports fs directory repr reset_count data_read_mirror =
     (let text = (\<lambda>name. fl_text fs (path [directory, ''reports'', name])) in
      rbind (rbind (text ''m5_timing_summary.rpt'') timing_summary) (\<lambda>timing.
      rbind (text ''m5_route_status.rpt'') (\<lambda>route.
      rbind (rmap (\<lambda>label. rbind (search1 (count_after label) route) parse_int)
          [''# of routable nets'', ''# of fully routed nets'', ''# of nets with routing errors'']) (\<lambda>counts.
      rbind (check (Inr (counts ! 0 = counts ! 1 \<and> counts ! 0 > 0 \<and> counts ! 2 = 0))) (\<lambda>_.
      rbind (text ''m5_utilization.rpt'') (\<lambda>utilization.
      rbind (rmap (\<lambda>(key, label). rbind (case search (cell_after label) utilization of None \<Rightarrow> Inl ValueError
            | Some (i, j, g) \<Rightarrow> parse_float (captured utilization g 1)) (\<lambda>x. Inr (key, V (PyFloat x))))
          [(''luts'', ''Slice LUTs''), (''registers'', ''Slice Registers''), (''bram36'', ''Block RAM Tile''), (''dsp'', ''DSPs''),
           (''slices'', ''Slice'')]) (\<lambda>used.
      rbind (rmap (\<lambda>(name, rule, count). rbind (text name) (\<lambda>t. check (Inr (rules_of t = [(rule, ''Warning'', count)]))))
          [(''m5_drc.rpt'', ''RTSTAT-10'', ''1''), (''m5_methodology.rpt'', ''LUTAR-1'', py_str repr reset_count)]) (\<lambda>_.
      rbind (dict_of (timing @ [(''routed_nets'', I (counts ! 0))] @ used)) (\<lambda>result. let R = V result in
      rbind (check (conjs [le (F (1 / 4)) (fld R ''wns_ns''), eq (fld R ''tns_ns'') (I 0), lt (I 0) (fld R ''hold_ns''),
          eq (fld R ''ths_ns'') (I 0), eq (fld R ''dsp'') (I 0),
          eq (fld R ''bram36'') (F (if data_read_mirror then 255 / 2 else 223 / 2))])) (\<lambda>_.
      rbind (text ''m5_fast_synth_configuration.rpt'') (\<lambda>config.
      rbind (checks (map (\<lambda>t. Inr (infix_of t config))
          ([''hart=0 multiplier=RV32MFast cells=91'', ''hart=1 multiplier=RV32MFast cells=91'',
            ''fetch_mirror_bytes=65536 bram36=16 bram18=0'']
           @ (if data_read_mirror then [''data_read_mirror_bytes=65536 bram36=16 bram18=0''] else [])))) (\<lambda>_.
      rbind (checks (map (\<lambda>name. Inr (fl_is_file fs (path [directory, name]))) [''m5_pynq.bit'', ''m5_pynq.hwh'', ''m5_pynq_final.dcp''])) (\<lambda>_.
        Inr result)))))))))))))"

section \<open>Summary and evidence\<close>

text \<open>\<open>stats\<close> of \<open>scripts/audit_m5_context.py\<close>.\<close>

definition context_stats :: "py list \<Rightarrow> py res" where
  "context_stats xs = (let n = I (int (length xs)) in
     dict_of [(''count'', n), (''mean'', quot (total (Inr xs)) n), (''minimum'', py_minimum xs), (''maximum'', py_maximum xs),
       (''pooled_tokens_per_second'', quot n (total (Inr xs)))])"

definition cached_summary :: "py \<Rightarrow> string \<Rightarrow> (string \<times> py res) list res" where
  "cached_summary report role =
     rbind (rbind (iter (fld (V report) ''trials'')) (keep (\<lambda>x. conjs [eq (fld (fld (V x) ''trial'') ''kind'') (S ''cached''),
         eq (fld (fld (V x) ''result'') ''context_role'') (S role)]))) (\<lambda>xs.
     rbind (column_of ''result'' xs) (\<lambda>samples.
     Inr (if samples = [] then []
       else [(role, dict_of [(''delivered'', rbind (column_of ''host_request_through_delivery_seconds'' samples) context_stats),
          (''model'', rbind (column_of ''model_seconds'' samples) context_stats),
          (''initial_required_seconds'', lst (rbind (keep (contains (PyStr ''initial_required_derived_seconds'')) samples)
             (column_of ''initial_required_derived_seconds'')))])])))"

definition full_summary :: "py \<Rightarrow> py list res" where
  "full_summary item' = (let t = fld (V item') ''trial''; x = fld (V item') ''result'' in
     rbind (eq (fld t ''kind'') (S ''full'')) (\<lambda>full. if \<not> full then Inr []
       else rbind (dict_of [(''id'', fld t ''id''), (''case'', fld t ''case''), (''output_tokens'', fld t ''new_tokens''),
          (''trace'', fld t ''capture''), (''model_seconds'', fld x ''firmware_seconds''),
          (''delivered_seconds'', fld x ''request_through_delivery_seconds''),
          (''delivered_output_tokens_per_second'', quot (fld t ''new_tokens'') (fld x ''request_through_delivery_seconds''))])
          (\<lambda>d. Inr [d])))"

definition summarize_reports :: "py \<Rightarrow> py res" where
  "summarize_reports reports =
     rbind (items (V reports)) (\<lambda>rs.
     rbind (rmap (\<lambda>(name, report).
        rbind (rmap (cached_summary report) [''cold_initialization_in_model'', ''warm_last_slot'', ''actual_prompt_prefill'']) (\<lambda>cs.
        rbind (rbind (iter (fld (V report) ''trials'')) (rmap full_summary)) (\<lambda>fs.
        rbind (dict_of [(''status'', fld (V report) ''status''), (''elapsed_seconds'', fld (V report) ''elapsed_seconds''),
            (''cached'', dict_of (concat cs)), (''full'', V (PyList (concat fs)))]) (\<lambda>r. Inr (name, r))))) rs)
       (\<lambda>d. Inr (PyDict d)))"

definition startup_manifest_paths :: "files \<Rightarrow> (string \<Rightarrow> bool) \<Rightarrow> string list \<times> string list" where
  "startup_manifest_paths fs symlink =
     (concat (map (\<lambda>p. filter (fl_is_file fs) (fl_glob fs p)) [''runtime/m5_startup/*'', ''scripts/*m5_startup*'', ''zynq/*m5_startup*'',
        ''tests/m5_startup/*'', ''docs/M5_STARTUP*.md'']),
      filter (\<lambda>p. fl_is_file fs p \<and> \<not> symlink p \<and> ''__pycache__'' \<notin> set (split_at ''/'' (Suc (length p)) [] p))
        (fl_glob fs ''build/m5_startup_*'' @ fl_glob fs ''build/m5_startup_*/**''))"

text \<open>\<open>validate(evidence, files=False)\<close>.\<close>

definition startup_validate :: "files \<Rightarrow> (py \<Rightarrow> string) \<Rightarrow> py \<Rightarrow> unit res" where
  "startup_validate fs repr evidence = (let E = V evidence in
     rbind (check (conjs [eq (fld E ''schema'') (I 1), eq (fld E ''status'') (S ''PASS''), neg (tru (fld E ''m6_started''))])) (\<lambda>_.
     rbind (fld E ''selection'') (\<lambda>s. rbind (fld E ''reports'') (\<lambda>reports. rbind (items (V reports)) (\<lambda>rs.
     rbind (rmap (\<lambda>(name, report). rbind (itm (fld E ''references'') (V name)) (validate_campaign fs repr report)) rs) (\<lambda>_.
     rbind (check (eq (fld E ''summary'') (summarize_reports reports))) (\<lambda>_.
     rbind (fld E ''references'') (\<lambda>references. rbind (fld E ''binaries'') (\<lambda>binaries. rbind (fld E ''overlay'') (\<lambda>overlay.
       validate_final reports references s binaries overlay))))))))))"


end
