(* ===== verification/StartupFiles.thy ===== *)
theory StartupFiles
  imports StartupAudit
begin

text \<open>
  The file part of the startup audit in \<open>scripts/audit_m5_startup.py\<close>: the firmware and its native
  gates, the derivation's extra gates, the RTL regressions, the reset review, and the coverage of
  the manifest. The check of the fetched sources (\<open>m5_startup_fetch.check\<close>) is an argument.
\<close>

section \<open>Native gates\<close>

definition NATIVE :: "(string \<times> string) list" where
  "NATIVE = [(''attention_test.log'', ''M5 SCALAR ATTENTION LAYOUT EXACT PASS 15''),
    (''native_test.log'', ''M5 NUMERICAL FOUNDATION PASS''),
    (''ready_test.log'', ''STARTUP LAZY CONTRACT PASS 32''),
    (''combined_test.log'', ''CONTEXT COMBINED SCORES EXACT PASS 84''),
    (''ops_test.log'', ''STARTUP GENERIC SCALAR EXACT PASS 96''),
    (''bounded_test.log'', ''STARTUP BOUNDED PRODUCT EXACT PASS 462147''),
    (''word_test.log'', ''STARTUP WORD AFFINE EXACT PASS 300000''),
    (''project_test.log'', ''STARTUP FUSED PROJECT EXACT PASS 1776 accepted rows; 1686 fallback''),
    (''product_test.log'', ''STARTUP PRODUCT TWO-ROUNDING EXACT PASS 330000''),
    (''batch_test.log'', ''STARTUP BATCH EXACT PASS 20 accepted; 120 rejections''),
    (''fixed_test.log'', ''STARTUP FIXED FACTOR EXACT PASS 500000'')]"

definition holds :: "files \<Rightarrow> string \<Rightarrow> string \<Rightarrow> bool res" where
  "holds fs p marker = rbind (fl_text fs p) (\<lambda>t. Inr (infix_of marker t))"

definition stack_checks :: "files \<Rightarrow> (py \<Rightarrow> string) \<Rightarrow> py \<Rightarrow> string \<Rightarrow> unit res" where
  "stack_checks fs repr binaries directory =
     rbind (fl_json fs (path [directory, ''stack_bound_v2.json''])) (\<lambda>stacks. rbind (iter (V stacks)) (\<lambda>xs.
     rbind (check (rbind (column_of ''kind'' xs) (\<lambda>ks. Inr (set_eq ks (strings [''runtime'', ''profile'', ''detail'', ''trace''])))))  (\<lambda>_.
     checks (map (\<lambda>x. rbind (fld (V x) ''kind'') (\<lambda>k. let image = ''m5_'' @ py_str repr k in
       conjs [lt (I 0) (fld (V x) ''shared_per_hart_bound_bytes''), le (fld (V x) ''shared_per_hart_bound_bytes'') (fld (V x) ''limit_bytes''),
         eq (fld (V x) ''limit_bytes'') (I 4096), sha_is fs (path [directory, image @ ''.elf'']) (fld (V x) ''elf_sha256''),
         eq (fld (V x) ''firmware_sha256'') (fld (V binaries) (image @ ''.bin''))])) xs))))"

text \<open>The log of a gate, with the extra log behind it when there is one.\<close>

definition with_extra :: "files \<Rightarrow> string \<Rightarrow> string \<Rightarrow> string res" where
  "with_extra fs p extra = rbind (fl_text fs p) (\<lambda>logs.
     if fl_is_file fs extra then rbind (fl_text fs extra) (\<lambda>t. Inr (logs @ t)) else Inr logs)"

definition variant_checks :: "files \<Rightarrow> string \<Rightarrow> unit res" where
  "variant_checks fs directory =
     (let bias_log = path [directory, ''bias_reuse_test.log''] in
      rbind (fl_json fs (path [directory, ''generated/startup_derivation.json''])) (\<lambda>derivation.
      rbind (fld (V derivation) ''variant'') (\<lambda>variant.
      let is_one = (\<lambda>vs. list_ex (\<lambda>v. py_eq (PyStr v) variant) vs) in
      rbind (if is_one [''bias_reuse'', ''residual_fixed'']
             then check (holds fs bias_log ''STARTUP BIAS REUSE EXACT PASS 1024 sequences; 2048 reused rows; 3168 fallbacks'')
             else Inr ()) (\<lambda>_.
      rbind (if is_one [''residual_fixed'']
             then rbind (with_extra fs bias_log (path [directory, ''residual_fixed_test.log''])) (\<lambda>logs.
               check (Inr (infix_of ''STARTUP RESIDUAL FIXED EXACT PASS 1024 random sequences; 748 reused rows; 5912 fallbacks'' logs)))
             else Inr ()) (\<lambda>_.
      if is_one [''rolling_fixed'', ''local_rows'', ''local_bias'']
      then rbind (with_extra fs bias_log (path [directory, ''rolling_tag_test.log''])) (\<lambda>logs.
        checks (map (\<lambda>marker. Inr (infix_of marker logs))
          ([''STARTUP ROLLING REUSE EXACT PASS 1024 sequences; 3648 reused rows; 3168 fallbacks'',
            ''STARTUP RESIDUAL FIXED EXACT PASS 1024 random sequences; 1399 reused rows; 5912 fallbacks'',
            ''STARTUP ROLLING TAG EXACT PASS 256 sequences; 576 reused rows; 576 fallbacks'']
           @ (if is_one [''local_rows'', ''local_bias''] then [''STARTUP LOCAL PROJECT EXACT PASS 48 boundary sequences''] else [])
           @ (if is_one [''local_bias''] then [''STARTUP LOCAL BIAS EXACT PASS 30 boundary sequences''] else []))))
      else Inr ())))))"

definition firmware_directory :: "files \<Rightarrow> (py \<Rightarrow> string) \<Rightarrow> py \<Rightarrow> string \<Rightarrow> unit res" where
  "firmware_directory fs repr binaries directory =
     rbind (stack_checks fs repr binaries directory) (\<lambda>_.
     rbind (checks (map (\<lambda>(name, marker). holds fs (path [directory, name]) marker) NATIVE)) (\<lambda>_.
     rbind (variant_checks fs directory) (\<lambda>_.
     rbind (fl_text fs (path [directory, ''ready_test.log''])) (\<lambda>ready_log.
     check (Inr (infix_of ''CONTEXT READY FULL MODEL EXACT PASS 60'' ready_log \<and> infix_of ''CONTEXT READY REJECTION PASS 17'' ready_log))))))"

section \<open>RTL regressions and the reset review\<close>

definition TOP_PARENT :: string where "TOP_PARENT = ''src/pocketai_pa_pa_m5_rtl_0.1''"

definition RESET_CELL :: regex where
  "RESET_CELL = cats [Bol, lit ''RESET_CELL '', star dot, lit '' INIT='', Grp 1 (star dot), Eol]"

definition RESET_STARTS :: "string list" where
  "RESET_STARTS = [''system_i/rst_fclk0/U0/ACTIVE_LOW_PR_OUT_DFF[0].FDRE_PER_N/C'',
     ''system_i/control_gpio/U0/gpio_core_1/Not_Dual.gpio_Data_Out_reg[4]/C'',
     ''system_i/control_gpio/U0/gpio_core_1/Not_Dual.gpio_Data_Out_reg[3]/C'',
     ''system_i/control_gpio/U0/gpio_core_1/Not_Dual.gpio_Data_Out_reg[0]/C'',
     ''system_i/pa_cluster_m5_0/inst/impl/g_autonomous.u_accelerators/u_transfer/fault_abort_o_reg/C'',
     ''system_i/pa_cluster_m5_0/inst/impl/g_autonomous.u_accelerators/u_control/abort_request_o_reg/C'',
     ''system_i/pa_cluster_m5_0/inst/impl/g_autonomous.u_accelerators/cancel_q_reg/C'']"

definition reset_review :: "(py \<Rightarrow> string) \<Rightarrow> py \<Rightarrow> string \<Rightarrow> string \<Rightarrow> unit res" where
  "reset_review repr reset_count dcp review =
     (let cells = findall RESET_CELL review in
      rbind (check (Inr (infix_of (''M5_STARTUP_RESET_REVIEW_COMPLETE cells='' @ py_str repr reset_count) review
          \<and> infix_of (''open_checkpoint '' @ dcp) review))) (\<lambda>_.
      rbind (check (conjs [eq (I (int (length (filter ((=) ''4'h7'') cells)))) (minus' (V reset_count) (I 1)),
          Inr (length (filter ((=) ''8'hEF'') cells) = 1), eq (I (int (length cells))) (V reset_count)])) (\<lambda>_.
      rbind (rmap (\<lambda>line. rbind (split_on '' STARTS='' line) (\<lambda>ps. rbind (seq_item ps 1) (\<lambda>s. Inr (split s))))
          (filter (startswith ''RESET_INPUT '') (splitlines review))) (\<lambda>starts.
      check (Inr (set (concat starts) = set RESET_STARTS))))))"

definition sel :: "(py \<Rightarrow> string) \<Rightarrow> py \<Rightarrow> string \<Rightarrow> string res" where
  "sel repr s k = rbind (fld (V s) k) (\<lambda>v. Inr (py_str repr v))"

definition rtl_checks :: "files \<Rightarrow> (py \<Rightarrow> string) \<Rightarrow> (string \<Rightarrow> unit res) \<Rightarrow> py \<Rightarrow> bool \<Rightarrow> unit res" where
  "rtl_checks fs repr fetch_check s data_read_mirror =
     rbind (sel repr s ''synthesis'') (\<lambda>synthesis. rbind (sel repr s ''model'') (\<lambda>model. rbind (sel repr s ''router'') (\<lambda>router.
     let dirs = [path [synthesis, ''resolved_sources''], path [model, ''sim'']];
         config_file = path [model, ''sim/startup_fetch_sources.json''] in
     rbind (rmap fetch_check dirs) (\<lambda>_.
     rbind (checks (map (\<lambda>d. Inr (fl_is_file fs (path [d, ''M5_STARTUP_DIRECT_RETURN'']))) dirs)) (\<lambda>_.
     rbind (check (eq (fl_json fs (path [synthesis, ''resolved_sources/startup_fetch_sources.json''])) (fl_json fs config_file))) (\<lambda>_.
     rbind (fl_json fs config_file) (\<lambda>fetch_config. let C = V fetch_config in
     rbind (checks [eq (get C ''data_read_mirror'' (PyBool False)) (B data_read_mirror),
         conjs [rbind (get C ''direct_data_response'' (PyBool False)) (\<lambda>a. rbind (get (V s) ''direct_data_response'' (PyBool False)) (\<lambda>b.
             Inr (py_eq a b))),
           eq (get C ''extra_data_bram_bytes'' (PyInt 0)) (I (if data_read_mirror then 65536 else 0))],
         rbind (fl_sha fs (path [router, ''pa_m5_obi_router.sv''])) (\<lambda>d.
           sha_is fs (path [model, ''sim'', TOP_PARENT, ''pa_m5_obi_router.sv'']) (S d))]) (\<lambda>_.
     rbind (tru (fld C ''sequential_prefetch'')) (\<lambda>prefetch. if \<not> prefetch then Inr () else
     rbind (check (tru (fld C ''sync_lookahead''))) (\<lambda>_.
     rbind (fl_text fs (path [router, ''test_3.log''])) (\<lambda>log.
     check (conjs [Inr (infix_of ''PASS direct=1 early=0 instant=1 requests=1000 responses=1000'' log),
       alls (\<lambda>name. rbind (rbind (search1 (cats [lit name, lit ''='', Grp 1 (plus is_digit)]) log) parse_int) (\<lambda>n. Inr (n > 0)))
         (Inr [''handovers'', ''stopped_owned'', ''instant_completions''])]))))))))))))"

definition regressions :: "files \<Rightarrow> (py \<Rightarrow> string) \<Rightarrow> py \<Rightarrow> unit res" where
  "regressions fs repr s =
     rbind (checks (map (\<lambda>(key, filename, marker). rbind (sel repr s key) (\<lambda>d. holds fs (path [d, filename]) marker))
       [(''memory'', ''test.log'', ''M5 ACTUAL DUAL-IBEX MEMORY SIMULATION PASS boots=2 aborted_boots=1''),
        (''accelerators'', ''test.log'', ''M5 ACTUAL DUAL-IBEX ACCELERATOR PASS boots=2 packet_abort=1''),
        (''accelerators'', ''delayed.log'', ''M5 ACTUAL DUAL-IBEX ACCELERATOR PASS boots=2 packet_abort=1''),
        (''probe'', ''probe.log'', ''STARTUP FETCH MIRROR PROBE EXACT / RESET-RELOAD PASS''),
        (''router'', ''test_0.log'', ''requests=1000 responses=1000''),
        (''router'', ''test_1.log'', ''requests=1000 responses=1000'')])) (\<lambda>_.
     rbind (sel repr s ''model'') (\<lambda>model. let model_archive = path [model, ''sim/Vpa_m5_cluster_top__ALL.a''] in
     rbind (rmap (\<lambda>key. rbind (sel repr s key) (\<lambda>d. rbind (fl_json fs (path [d, ''manifest.json''])) (\<lambda>manifest.
        rbind (check (rbind (fld (fld (V manifest) ''inputs'') model_archive) (\<lambda>h. sha_is fs model_archive (V h)))) (\<lambda>_.
        check (alls (\<lambda>(filename, digest). sha_is fs (path [d, py_str repr filename]) (V digest)) (items (fld (V manifest) ''generated'')))))))
        [''memory'', ''accelerators'', ''probe'']) (\<lambda>_. Inr ())))"

section \<open>The whole file audit\<close>

text \<open>The directory of a campaign file.\<close>

definition campaigns :: "files \<Rightarrow> string list" where
  "campaigns fs = map (\<lambda>p. take (length p - length ''/campaign.json'') p) (fl_glob fs ''build/m5_startup_*/campaign.json'')"

definition startup_files :: "files \<Rightarrow> (py \<Rightarrow> string) \<Rightarrow> (string \<Rightarrow> unit res) \<Rightarrow> (string \<Rightarrow> bool) \<Rightarrow> string \<Rightarrow> py \<Rightarrow> unit res" where
  "startup_files fs repr fetch_check symlink base_dir evidence = (let E = V evidence in
     rbind (check (sha_is fs ''docs/m5_context_evidence.json'' (fld E ''baseline_evidence_sha256''))) (\<lambda>_.
     rbind (fld E ''selection'') (\<lambda>s. rbind (fld (V s) ''reviewed_reset_count'') (\<lambda>reset_count.
     rbind (tru (get (V s) ''data_read_mirror'' (PyBool False))) (\<lambda>data_read_mirror.
     rbind (sel repr s ''hardware'') (\<lambda>hardware.
     rbind (check (eq (fld E ''hardware'') (hardware_from_reports fs hardware repr reset_count data_read_mirror))) (\<lambda>_.
     rbind (rbind (items (fld E ''overlay'')) (\<lambda>os. checks (map (\<lambda>(name, digest). sha_is fs (path [hardware, py_str repr name]) (V digest)) os))) (\<lambda>_.
     rbind (sel repr s ''firmware'') (\<lambda>firmware. rbind (sel repr s ''repro'') (\<lambda>repro. rbind (fld E ''binaries'') (\<lambda>binaries.
     rbind (rbind (items (V binaries)) (\<lambda>bs. checks (concat (map (\<lambda>(name, digest). let n = py_str repr name in
         [conjs [rbind (fl_sha fs (path [firmware, n])) (\<lambda>d. sha_is fs (path [repro, n]) (S d)), sha_is fs (path [repro, n]) (V digest)],
          rbind (fl_size fs (path [firmware, n])) (\<lambda>z. Inr (z = 65536))]) bs)))) (\<lambda>_.
     rbind (rmap (firmware_directory fs repr binaries) [firmware, repro]) (\<lambda>_.
     rbind (rtl_checks fs repr fetch_check s data_read_mirror) (\<lambda>_.
     rbind (rbind (sel repr s ''reset_review_log'') (fl_text fs)) (\<lambda>review.
     rbind (reset_review repr reset_count (path [base_dir, hardware, ''m5_pynq_final.dcp'']) review) (\<lambda>_.
     rbind (regressions fs repr s) (\<lambda>_.
     rbind (check (same_paths (fld E ''reports'') (campaigns fs))) (\<lambda>_.
     rbind (rmap (\<lambda>d. rbind (validate_stage fs repr d) (\<lambda>(r, refs).
        check (conjs [eq (V r) (fld (fld E ''reports'') d), eq (V refs) (fld (fld E ''references'') d)]))) (campaigns fs)) (\<lambda>_.
     case startup_manifest_paths fs symlink of (sources, artifacts) \<Rightarrow>
     checks [conjs [same_paths (fld E ''sources'') sources, same_paths (fld E ''artifacts'') artifacts],
       digests_hold fs repr (fld E ''sources''), digests_hold fs repr (fld E ''artifacts'')])))))))))))))))))))"

definition startup_collect :: "files \<Rightarrow> (py \<Rightarrow> string) \<Rightarrow> (string \<Rightarrow> unit res) \<Rightarrow> (string \<Rightarrow> bool) \<Rightarrow> string \<Rightarrow> py \<Rightarrow> py res" where
  "startup_collect fs repr fetch_check symlink base_dir selection =
     rbind (py_sorted (strings (campaigns fs))) (\<lambda>names.
     rbind (rmap (\<lambda>n. rbind (validate_stage fs repr (py_str repr n)) (\<lambda>(r, q). Inr (n, r, q))) names) (\<lambda>stages.
     let reports = PyDict (map (\<lambda>(n, r, q). (n, r)) stages); references = PyDict (map (\<lambda>(n, r, q). (n, q)) stages);
         (sources, artifacts) = startup_manifest_paths fs symlink;
         shas = (\<lambda>key ns. dict_of (map (\<lambda>n. (n, rbind (rbind (sel repr selection key) (\<lambda>d. fl_sha fs (path [d, n]))) S)) ns)) in
     rbind (dict_of [(''schema'', I 1), (''status'', S ''PASS''), (''m6_started'', B False), (''selection'', V selection),
        (''baseline_evidence_sha256'', rbind (fl_sha fs ''docs/m5_context_evidence.json'') S),
        (''binaries'', shas ''firmware'' [''m5_runtime.bin'', ''m5_profile.bin'', ''m5_detail.bin'', ''m5_trace.bin'']),
        (''overlay'', shas ''hardware'' [''m5_pynq.bit'', ''m5_pynq.hwh'']),
        (''hardware'', rbind (sel repr selection ''hardware'') (\<lambda>h. rbind (fld (V selection) ''reviewed_reset_count'') (\<lambda>n.
            rbind (tru (get (V selection) ''data_read_mirror'' (PyBool False))) (hardware_from_reports fs h repr n)))),
        (''reports'', V reports), (''references'', V references), (''summary'', summarize_reports reports),
        (''sources'', digests_of fs sources), (''artifacts'', digests_of fs artifacts)]) (\<lambda>e.
     rbind (startup_validate fs repr e) (\<lambda>_. rbind (startup_files fs repr fetch_check symlink base_dir e) (\<lambda>_. Inr e)))))"

end
