(* ===== verification/AuditProps.thy ===== *)
theory AuditProps
  imports StartupFiles "HOL-Library.Multiset"
begin

text \<open>
  What the measurement audits guarantee: every sample meets its limit by itself, every counted trial
  is the reference's, the summary neither drops nor repeats a passing sample, and the predeclared
  matrix can satisfy the audit's own gates.
\<close>

section \<open>Numbers\<close>

lemma le_num:
  assumes "le x (I n) = Inr True"
  shows "\<exists>v f. x = Inr v \<and> num_of v = Some f \<and> fle f (Fin (of_int n))"
proof -
  obtain v where v: "x = Inr v" "py_leq v (PyInt n) = Inr True" using assms by (auto simp: le_true)
  then show ?thesis by (cases v) (auto simp: py_leq_def)
qed

section \<open>The final gates\<close>

lemma prefix_gatesD:
  assumes "prefix_gates reports references selection binaries overlay prefix = Inr fulls"
    and "(past, limit) \<in> {(1022, 20), (1023, 10)}"
  shows "\<exists>key report group. fld (V selection) (''final_'' @ prefix) = Inr key \<and> itm (V reports) (V key) = Inr report
     \<and> with_past report past = Inr group \<and> 3 \<le> length group
     \<and> (\<forall>x\<in>set group. tru (fld (fld (V x) ''trial'') ''profile'') = Inr False
          \<and> le (fld (fld (V x) ''result'') ''host_request_through_delivery_seconds'') (I limit) = Inr True)"
proof -
  obtain key report where key: "fld (V selection) (''final_'' @ prefix) = Inr key" "itm (V reports) (V key) = Inr report"
    and gates: "\<forall>(past, limit)\<in>{(1022, 20), (1023, 10)}. rbind (with_past report past) (\<lambda>group.
         conjs [Inr (3 \<le> length group),
           alls (\<lambda>x. let r = fld (V x) ''result'' in
             conjs [neg (tru (fld (fld (V x) ''trial'') ''profile'')),
               eq (get (fld r ''derived_cache'') ''version'' PyNone) (I 2),
               le (fld r ''host_request_through_delivery_seconds'') (I limit)]) (Inr group)]) = Inr True"
    using assms(1) unfolding prefix_gates_def by (auto simp del: append.simps)
  have "rbind (with_past report past) (\<lambda>group.
         conjs [Inr (3 \<le> length group),
           alls (\<lambda>x. let r = fld (V x) ''result'' in
             conjs [neg (tru (fld (fld (V x) ''trial'') ''profile'')),
               eq (get (fld r ''derived_cache'') ''version'' PyNone) (I 2),
               le (fld r ''host_request_through_delivery_seconds'') (I limit)]) (Inr group)]) = Inr True"
    using gates assms(2) by fast
  then obtain group where "with_past report past = Inr group" "3 \<le> length group"
    "\<forall>x\<in>set group. tru (fld (fld (V x) ''trial'') ''profile'') = Inr False
          \<and> le (fld (fld (V x) ''result'') ''host_request_through_delivery_seconds'') (I limit) = Inr True"
    by (auto simp: Let_def)
  then show ?thesis using key by blast
qed

text \<open>C33: No average hides a miss: evidence that passes the final gates has, for each of the two prefixes and
  each maximum-context position, at least three unprofiled samples in its final report, and every
  single one of them was delivered within the limit of 20 s (cold) or 10 s (warm).\<close>

theorem final_gates_per_sample:
  assumes "validate_final reports references selection binaries overlay = Inr ()"
    and "prefix \<in> {''story'', ''science''}" and "(past, limit) \<in> {(1022, 20), (1023, 10)}"
  shows "\<exists>key report group. fld (V selection) (''final_'' @ prefix) = Inr key \<and> itm (V reports) (V key) = Inr report
     \<and> with_past report past = Inr group \<and> 3 \<le> length group
     \<and> (\<forall>x\<in>set group. tru (fld (fld (V x) ''trial'') ''profile'') = Inr False
          \<and> (\<exists>v f. fld (fld (V x) ''result'') ''host_request_through_delivery_seconds'' = Inr v
               \<and> num_of v = Some f \<and> fle f (Fin (of_int limit))))"
proof -
  obtain fulls where "rmap (prefix_gates reports references selection binaries overlay) [''story'', ''science''] = Inr fulls"
    using assms(1) by (auto simp: validate_final_def simp del: rmap.simps)
  then obtain fs where "prefix_gates reports references selection binaries overlay prefix = Inr fs"
    using assms(2) by auto
  from prefix_gatesD [OF this assms(3)] show ?thesis using le_num by fast
qed

section \<open>Counted trials\<close>

text \<open>The reference step of a trial.\<close>

definition reference_of :: "(py \<Rightarrow> string) \<Rightarrow> py \<Rightarrow> py \<Rightarrow> py res" where
  "reference_of repr refs trial =
     rbind (eq (fld (V trial) ''kind'') (S ''full'')) (\<lambda>full.
       if full then itm (fld (itm (fld (V refs) ''cases'') (fld (V trial) ''case'')) ''steps'') (minus' (fld (V trial) ''new_tokens'') (I 1))
       else rbind (fld (V trial) ''past'') (\<lambda>past. fld (fld (fld (V refs) ''seeds'') (py_str repr past)) ''expected''))"

lemma audit_full_reference:
  assumes "audit_full refs trial r = Inr (expected, model, delivered)"
  shows "itm (fld (itm (fld (V refs) ''cases'') (fld (V trial) ''case'')) ''steps'') (minus' (fld (V trial) ''new_tokens'') (I 1)) = Inr expected"
  using assms by (auto simp: audit_full_def Let_def)

lemma audit_cached_reference:
  assumes "audit_cached repr policy' refs trial r = Inr (expected, model, delivered)"
  shows "rbind (fld (V trial) ''past'') (\<lambda>past. fld (fld (fld (V refs) ''seeds'') (py_str repr past)) ''expected'') = Inr expected"
  using assms by (auto simp: audit_cached_def Let_def)

text \<open>C34: Every trial the sweep audit counts as passed agrees with its independent reference: the digest of
  all its logits and of its valid KV cache equal the expected step's, and the trial was started
  early enough to leave the cleanup reserve. A trial it does not count is a SKIP with a listed reason.\<close>

theorem audited_trial_exact:
  assumes "audit_trial repr policy' refs passed item' = Inr passed'"
  shows "(passed' = passed \<and> eq (fld (V item') ''status'') (S ''SKIP'') = Inr True
       \<and> (\<exists>w\<in>set SKIP_REASONS. eq (V w) (get (V item') ''reason'' PyNone) = Inr True))
     \<or> (\<exists>trial r expected. passed' = passed @ [trial] \<and> fld (V item') ''trial'' = Inr trial \<and> fld (V item') ''result'' = Inr r
       \<and> reference_of repr refs trial = Inr expected
       \<and> eq (fld (V r) ''logits_sha256'') (fld (V expected) ''logits_sha256'') = Inr True
       \<and> eq (fld (V r) ''kv_sha256'') (fld (V expected) ''cache_sha256'') = Inr True
       \<and> le (add (add (fld (V item') ''started_campaign_seconds'') (fld (V trial) ''bound_seconds'')) (I 120)) (I 3600) = Inr True)"
proof -
  obtain trial st where t: "fld (V item') ''trial'' = Inr trial" "fld (V item') ''status'' = Inr st"
    using assms by (auto simp: audit_trial_def Let_def)
  show ?thesis
  proof (cases "py_eq st (PyStr ''SKIP'')")
    case True
    then have "passed' = passed" "(rbind (get (V item') ''reason'' PyNone) (\<lambda>w. Inr (list_ex (\<lambda>x. py_eq x w) SKIP_REASONS))) = Inr True"
      using assms t by (auto simp: audit_trial_def Let_def)
    then show ?thesis using True t by (auto simp: eq_true list_ex_iff)
  next
    case False
    then obtain r full expected model delivered where r: "fld (V item') ''result'' = Inr r" "eq (fld (V trial) ''kind'') (S ''full'') = Inr full"
      "(if full then audit_full refs trial r else audit_cached repr policy' refs trial r) = Inr (expected, model, delivered)"
      "passed' = passed @ [trial]"
      "eq (fld (V r) ''logits_sha256'') (fld (V expected) ''logits_sha256'') = Inr True"
      "eq (fld (V r) ''kv_sha256'') (fld (V expected) ''cache_sha256'') = Inr True"
      "le (add (add (fld (V item') ''started_campaign_seconds'') (fld (V trial) ''bound_seconds'')) (I 120)) (I 3600) = Inr True"
      using assms t by (auto simp: audit_trial_def Let_def)
    have "reference_of repr refs trial = Inr expected"
      using r(2,3) audit_full_reference audit_cached_reference unfolding reference_of_def by (cases full) auto
    then show ?thesis using r t by blast
  qed
qed

definition rec :: "(string \<times> py) list \<Rightarrow> py" where
  "rec d = PyDict (map (\<lambda>(k, v). (PyStr k, v)) d)"

definition counted_item :: py where
  "counted_item = rec [(''status'', PyStr ''PASS''), (''case_elapsed_seconds'', PyFloat (Fin 4)), (''bound_exceeded'', PyBool False),
     (''started_campaign_seconds'', PyInt 0),
     (''trial'', rec [(''kind'', PyStr ''cached''), (''past'', PyInt 13), (''profile'', PyBool False), (''bound_seconds'', PyInt 60)]),
     (''result'', rec [(''status'', PyStr ''PASS''), (''token'', PyInt 7), (''cache_valid'', PyInt 14),
        (''firmware_sha256'', PyStr ''f''), (''model_seconds'', PyFloat (Fin 2)), (''model_cycles'', PyInt 182000000),
        (''host_request_through_delivery_seconds'', PyFloat (Fin 3)), (''profile_enabled'', PyBool False),
        (''phases'', PyList []), (''service_seconds'', PyNone),
        (''logits_sha256'', PyStr ''l''), (''kv_sha256'', PyStr ''k'')])]"

definition counted_refs :: py where
  "counted_refs = rec [(''seeds'', rec [(''13'', rec [(''expected'',
     rec [(''token'', PyInt 7), (''logits_sha256'', PyStr ''l''), (''cache_sha256'', PyStr ''k'')])])])]"

definition counted_policy :: py where
  "counted_policy = rec [(''pinned'', rec [(''m5_profile.bin'', PyStr ''f'')])]"


lemma counted_quot: "py_div (PyInt 182000000) (PyInt 91000000) = V (PyFloat (Fin 2))"
  using pow2_exact [of 1] by (simp add: py_div_def is_finite_def)

lemma positive_fin: "finite_positive (V (PyFloat (Fin a))) = Inr (0 < a)"
  by (auto simp: finite_positive_def is_finite_def lt_def py_less_def)

lemma str_13: "py_str repr (PyInt 13) = ''13''"
  by (simp add: py_str_def) code_simp

lemmas evaluate = rec_def itm_def get_def Let_def py_eq_str eq_def le_def lt_def py_leq_def py_less_def num_same_def
  check_def checks.simps conjs.simps lift2_def arith_def py_add_def fle_def feq_def tru_def neg_def

lemma counted:
  "audit_trial (\<lambda>x. '''') counted_policy counted_refs [] counted_item
    = Inr [rec [(''kind'', PyStr ''cached''), (''past'', PyInt 13), (''profile'', PyBool False), (''bound_seconds'', PyInt 60)]]"
  by (simp add: audit_trial_def audit_cached_def counted_item_def counted_refs_def counted_policy_def positive_fin
    counted_quot str_13 evaluate)

theorem audited_trial_exact_witness:
  "\<exists>r expected. fld (V counted_item) ''result'' = Inr r
     \<and> reference_of (\<lambda>x. '''') counted_refs (rec [(''kind'', PyStr ''cached''), (''past'', PyInt 13), (''profile'', PyBool False), (''bound_seconds'', PyInt 60)]) = Inr expected
     \<and> eq (fld (V r) ''logits_sha256'') (fld (V expected) ''logits_sha256'') = Inr True
     \<and> eq (fld (V r) ''kv_sha256'') (fld (V expected) ''cache_sha256'') = Inr True"
  using audited_trial_exact [OF counted] by auto

definition timed :: "int \<Rightarrow> bool \<Rightarrow> int \<Rightarrow> py" where
  "timed past profile seconds = rec [(''trial'', rec [(''kind'', PyStr ''cached''), (''past'', PyInt past), (''profile'', PyBool profile)]),
     (''result'', rec [(''derived_cache'', rec [(''version'', PyInt 2)]), (''initial_required_derived_seconds'', PyInt 9),
        (''host_request_through_delivery_seconds'', PyInt seconds)])]"

definition requested :: "string \<Rightarrow> int \<Rightarrow> bool \<Rightarrow> int \<Rightarrow> py" where
  "requested c n capture seconds = rec [(''trial'', rec [(''kind'', PyStr ''full''), (''case'', PyStr c), (''new_tokens'', PyInt n), (''capture'', PyBool capture)]),
     (''result'', rec [(''request_through_delivery_seconds'', PyInt seconds)])]"

definition final_report :: "string \<Rightarrow> py list \<Rightarrow> py" where
  "final_report digest trials = rec [(''policy'', rec [(''pinned'', rec [(''m5_runtime.bin'', PyStr ''r''), (''m5_profile.bin'', PyStr digest),
      (''m5_trace.bin'', PyStr ''t''), (''overlay.bit'', PyStr ''o'')])]), (''trials'', PyList trials)]"

definition final_trials :: "py list" where
  "final_trials = replicate 3 (timed 1022 False 19) @ replicate 3 (timed 1023 False 9) @ replicate 3 (requested ''science'' 1 False 10)
     @ replicate 3 (requested ''computing'' 1 False 10) @ replicate 3 (requested ''story'' 2 False 20) @ [requested ''story'' 2 True 20]"

definition final_reports :: py where
  "final_reports = rec [(''a'', final_report ''p'' final_trials), (''b'', final_report ''p'' final_trials),
     (''c'', final_report ''d'' [timed 1022 True 20]), (''d'', final_report ''d'' [timed 1022 True 20])]"

definition final_references :: py where
  "final_references = rec [(''a'', rec [(''case'', PyStr ''story'')]), (''b'', rec [(''case'', PyStr ''science'')]),
     (''c'', rec [(''case'', PyStr ''story'')]), (''d'', rec [(''case'', PyStr ''science'')])]"

definition final_selection :: py where
  "final_selection = rec [(''final_story'', PyStr ''a''), (''final_science'', PyStr ''b''), (''diagnostic_story'', PyStr ''c''), (''diagnostic_science'', PyStr ''d'')]"

definition final_binaries :: py where
  "final_binaries = rec [(''m5_runtime.bin'', PyStr ''r''), (''m5_profile.bin'', PyStr ''p''), (''m5_trace.bin'', PyStr ''t''), (''m5_detail.bin'', PyStr ''d'')]"

lemma final_evidence:
  "validate_final final_reports final_references final_selection final_binaries (rec [(''overlay.bit'', PyStr ''o'')]) = Inr ()"
  by code_simp

theorem final_gates_per_sample_witness:
  "\<exists>key report group. fld (V final_selection) (''final_'' @ ''story'') = Inr key \<and> itm (V final_reports) (V key) = Inr report
     \<and> with_past report 1023 = Inr group \<and> 3 \<le> length group"
  using final_gates_per_sample [OF final_evidence, of "''story''" 1023 10] by blast

section \<open>The summary\<close>

definition passing :: "py \<Rightarrow> bool" where
  "passing row \<longleftrightarrow> eq (fld (V row) ''status'') (S ''PASS'') = Inr True"

text \<open>What a row says of the item of the campaign that it stands for.\<close>

definition row_of :: "py \<Rightarrow> py \<Rightarrow> bool" where
  "row_of item' row \<longleftrightarrow> (let trial = fld (V item') ''trial''; r = fld (V item') ''result'' in
     fld (V row) ''id'' = fld trial ''id'' \<and> fld (V row) ''kind'' = fld trial ''kind'' \<and> fld (V row) ''role'' = fld trial ''role''
     \<and> fld (V row) ''status'' = fld (V item') ''status''
     \<and> fld (V row) ''reason'' = rbind (get (V item') ''error'' (PyStr '''')) (get (V item') ''reason'')
     \<and> (passing row \<longrightarrow> fld (V row) ''case_elapsed_seconds'' = fld (V item') ''case_elapsed_seconds''
         \<and> fld (V row) ''bound_exceeded'' = fld (V item') ''bound_exceeded''
         \<and> (if eq (fld trial ''kind'') (S ''full'') = Inr True
            then fld (V row) ''model_seconds'' = fld r ''firmware_seconds''
              \<and> fld (V row) ''delivered_seconds'' = fld r ''request_through_delivery_seconds''
              \<and> fld (V row) ''prompt_tokens'' = len (fld r ''prompt_tokens'') \<and> fld (V row) ''new_tokens'' = len (fld r ''generated_tokens'')
            else fld (V row) ''model_seconds'' = fld r ''model_seconds''
              \<and> fld (V row) ''delivered_seconds'' = fld r ''host_request_through_delivery_seconds''
              \<and> fld (V row) ''past'' = fld trial ''past'' \<and> fld (V row) ''new_tokens'' = I 1)))"

text \<open>The group that a passing item belongs to.\<close>

definition group_name :: "(py \<Rightarrow> string) \<Rightarrow> py \<Rightarrow> string res" where
  "group_name repr item' = (let trial = fld (V item') ''trial''; r = fld (V item') ''result'' in
     rbind (eq (fld trial ''kind'') (S ''full'')) (\<lambda>full.
       if full then rbind (fld trial ''case'') (\<lambda>c. rbind (len (fld r ''generated_tokens'')) (\<lambda>n. Inr (''full:'' @ py_str repr c @ '':g'' @ py_str repr n)))
       else rbind (fld trial ''past'') (\<lambda>past. rbind (tru (fld trial ''profile'')) (\<lambda>profile.
         Inr (''cached:p'' @ py_str repr past @ '':'' @ (if profile then ''profile'' else ''plain''))))))"

text \<open>The rows of a group: those of the passing items with its name, in the order of the trials.\<close>

definition group_rows :: "(py \<Rightarrow> string) \<Rightarrow> (py \<times> py) list \<Rightarrow> string \<Rightarrow> py list" where
  "group_rows repr reported k = map snd (filter (\<lambda>(item', row). passing row \<and> group_name repr item' = Inr k) reported)"

lemma base_row_of:
  assumes "base_row item' = Inr row" "\<not> passing row"
  shows "row_of item' row"
proof -
  note f = dict_of_fld [OF assms(1) [unfolded base_row_def Let_def]]
  show ?thesis using assms(2) by (simp add: row_of_def Let_def f)
qed

lemma full_trial_row_of:
  assumes "base_row item' = Inr row" "full_trial_row repr campaign item' trial row r = Inr (key, row', phases)"
    and "fld (V item') ''trial'' = Inr trial" "fld (V item') ''result'' = Inr r" "eq (fld (V trial) ''kind'') (S ''full'') = Inr True"
  shows "row_of item' row' \<and> group_name repr item' = Inr key \<and> phases = [] \<and> fld (V row') ''status'' = fld (V row) ''status''"
proof -
  obtain n model delivered row1 c where t: "len (fld (V r) ''generated_tokens'') = Inr n" "fld (V r) ''firmware_seconds'' = Inr model"
      "fld (V r) ''request_through_delivery_seconds'' = Inr delivered" "full_row row r = Inr row1" "fld (V trial) ''case'' = Inr c"
      "timed_row campaign item' row1 (V n) (V model) (V delivered) = Inr row'" "key = ''full:'' @ py_str repr c @ '':g'' @ py_str repr n" "phases = []"
    using assms(2) by (auto simp: full_trial_row_def)
  note b = dict_of_fld [OF assms(1) [unfolded base_row_def Let_def]]
  obtain n' where f: "updated row [(''prompt_tokens'', len (fld (V r) ''prompt_tokens'')), (''new_tokens'', len (fld (V r) ''generated_tokens'')), (''past'', S ''''), (''profiled'', B False),
       (''model_first_token_seconds'', fld (V r) ''ttft_seconds''),
       (''prefill_seconds'', fld (V r) ''prefill_forward_seconds''),
       (''prefill_tokens_per_second'', quot (len (fld (V r) ''prompt_tokens'')) (fld (V r) ''prefill_forward_seconds'')),
       (''continuation_tokens'', minus' (len (fld (V r) ''generated_tokens'')) (I 1)),
       (''continuation_seconds'', total (iter (fld (V r) ''decode_seconds''))),
       (''continuation_tokens_per_second'',
          rbind (lt (I 1) (len (fld (V r) ''generated_tokens''))) (\<lambda>more. if more then quot (minus' (len (fld (V r) ''generated_tokens'')) (I 1)) (total (iter (fld (V r) ''decode_seconds''))) else S '''')),
       (''workspace_bytes'', fld (V r) ''work_high_water''), (''input_bytes'', fld (V r) ''tensor_bytes_read''),
       (''output_bytes'', fld (V r) ''tensor_bytes_written''), (''jobs'', fld (V r) ''transfers''),
       (''traffic_scope'', S ''packet byte counters modulo 2^32; not total DDR traffic'')] = Inr row1"
    using t(4) unfolding full_row_def Let_def by auto
  note f1 = updated_fld [OF f] and f2 = updated_other [OF f]
  note t1 = updated_fld [OF t(6) [unfolded timed_row_def]] and t2 = updated_other [OF t(6) [unfolded timed_row_def]]
  have "row_of item' row'"
    using assms(3-5) t(1-3) by (simp add: row_of_def Let_def t1 t2 f1 f2 b)
  moreover have "group_name repr item' = Inr key"
    using assms(3-5) t(1,5,7) by (simp add: group_name_def Let_def)
  moreover have "fld (V row') ''status'' = fld (V row) ''status''" by (simp add: t2 f2)
  ultimately show ?thesis using t(8) by simp
qed

lemma cached_trial_row_of:
  assumes "base_row item' = Inr row" "cached_trial_row repr campaign item' trial row r = Inr (key, row', phases)"
    and "fld (V item') ''trial'' = Inr trial" "fld (V item') ''result'' = Inr r" "eq (fld (V trial) ''kind'') (S ''full'') = Inr False"
  shows "row_of item' row' \<and> group_name repr item' = Inr key \<and> fld (V row') ''status'' = fld (V row) ''status''"
proof -
  obtain model delivered row1 past profile where t: "fld (V r) ''model_seconds'' = Inr model"
      "fld (V r) ''host_request_through_delivery_seconds'' = Inr delivered" "cached_row row trial r = Inr row1" "fld (V trial) ''past'' = Inr past"
      "tru (fld (V trial) ''profile'') = Inr profile" "timed_row campaign item' row1 (I 1) (V model) (V delivered) = Inr row'"
      "key = ''cached:p'' @ py_str repr past @ '':'' @ (if profile then ''profile'' else ''plain'')"
    using assms(2) by (auto simp: cached_trial_row_def)
  note b = dict_of_fld [OF assms(1) [unfolded base_row_def Let_def]]
  note f1 = updated_fld [OF t(3) [unfolded cached_row_def]] and f2 = updated_other [OF t(3) [unfolded cached_row_def]]
  note t1 = updated_fld [OF t(6) [unfolded timed_row_def]] and t2 = updated_other [OF t(6) [unfolded timed_row_def]]
  have "row_of item' row'"
    using assms(3-5) t(1,2,4) by (simp add: row_of_def Let_def t1 t2 f1 f2 b)
  moreover have "group_name repr item' = Inr key"
    using assms(3-5) t(4,5,7) by (simp add: group_name_def Let_def)
  ultimately show ?thesis by (simp add: t2 f2)
qed

lemma group_add_elements: "mset (concat (map snd (group_add g k x))) = mset (concat (map snd g)) + {#x#}"
  by (induction g) auto

lemma group_add_keys: "fst ` set (group_add g k x) = insert k (fst ` set g)"
  by (induction g k x rule: group_add.induct) (simp_all add: insert_commute)

lemma group_add_distinct: "distinct (map fst g) \<Longrightarrow> distinct (map fst (group_add g k x))"
  by (induction g k x rule: group_add.induct) (simp_all add: group_add_keys, blast)

lemma group_add_find:
  "map_of (group_add g k x) k' = (if k' = k then Some ((case map_of g k of None \<Rightarrow> [] | Some xs \<Rightarrow> xs) @ [x]) else map_of g k')"
  by (induction g k x rule: group_add.induct) auto

definition tally_ok :: "(py \<Rightarrow> string) \<Rightarrow> py list \<Rightarrow> tally \<Rightarrow> bool" where
  "tally_ok repr items' t \<longleftrightarrow> list_all2 row_of items' (tl_rows t) \<and> distinct (map fst (tl_groups t))
     \<and> mset (concat (map snd (tl_groups t))) = mset (filter passing (tl_rows t))
     \<and> (\<forall>k. map_of (tl_groups t) k = (let rows = group_rows repr (zip items' (tl_rows t)) k in if rows = [] then None else Some rows))"

lemma tally_item_ok:
  assumes "tally_item repr campaign t item' = Inr t'" "tally_ok repr items' t"
  shows "tally_ok repr (items' @ [item']) t'"
proof -
  have len: "length items' = length (tl_rows t)" using assms(2) unfolding tally_ok_def by (blast dest: list_all2_lengthD)
  obtain trial row other where b: "fld (V item') ''trial'' = Inr trial" "base_row item' = Inr row"
    "ne (fld (V item') ''status'') (S ''PASS'') = Inr other"
    using assms(1) by (auto simp: tally_item_def)
  have st: "fld (V row) ''status'' = fld (V item') ''status''"
    by (simp add: dict_of_fld [OF b(2) [unfolded base_row_def Let_def]])
  have p: "passing row \<longleftrightarrow> \<not> other" using b(3) unfolding passing_def st by (auto simp: ne_def)
  show ?thesis
  proof (cases other)
    case True
    then have "t' = t\<lparr>tl_rows := tl_rows t @ [row]\<rparr>" using assms(1) b by (auto simp: tally_item_def)
    then show ?thesis using assms(2) p True base_row_of [OF b(2)] len
      by (simp add: tally_ok_def list_all2_append group_rows_def)
  next
    case False
    then obtain key row' phases r full where f: "fld (V item') ''result'' = Inr r" "eq (fld (V trial) ''kind'') (S ''full'') = Inr full"
      "(if full then full_trial_row repr campaign item' trial row r
          else cached_trial_row repr campaign item' trial row r) = Inr (key, row', phases)"
      "t' = \<lparr>tl_rows = tl_rows t @ [row'], tl_groups = group_add (tl_groups t) key row', tl_phases = tl_phases t @ phases\<rparr>"
      using assms(1) b by (auto simp: tally_item_def)
    have r: "row_of item' row' \<and> group_name repr item' = Inr key \<and> fld (V row') ''status'' = fld (V row) ''status''"
    proof (cases full)
      case True
      then show ?thesis using f(2,3) full_trial_row_of [OF b(2) _ b(1) f(1)] by simp
    next
      case False
      then show ?thesis using f(2,3) cached_trial_row_of [OF b(2) _ b(1) f(1)] by simp
    qed
    then have "passing row'" using p False by (simp add: passing_def)
    then show ?thesis using assms(2) f(4) r len
      by (auto simp: tally_ok_def list_all2_append group_add_elements group_add_distinct group_add_find group_rows_def Let_def)
  qed
qed

text \<open>C35: The summary covers every trial once, with the trial's own data. Its rows are those of the trials in their
  order: the row of a trial has its id, kind, role, status and reason, and if it passed its elapsed time, the seconds
  of the model and of the delivery from its own result, and its token counts or its past. Its groups are those of the
  passing trials' names: each name once, with the statistics of exactly the rows of the passing trials of that
  name, in order.\<close>

theorem summary_covers_trials:
  assumes "summarize repr campaign = Inr summary"
  shows "\<exists>items' rows groups grouped. iter (fld (V campaign) ''trials'') = Inr items'
     \<and> fld (V summary) ''rows'' = V (PyList rows) \<and> list_all2 row_of items' rows
     \<and> fld (V summary) ''groups'' = V (PyDict grouped)
     \<and> list_all2 (\<lambda>(name, samples) (key, g). key = PyStr name \<and> group_stats samples = Inr g) groups grouped
     \<and> distinct (map fst groups) \<and> mset (concat (map snd groups)) = mset (filter passing rows)
     \<and> (\<forall>k. map_of groups k = (let samples = group_rows repr (zip items' rows) k in if samples = [] then None else Some samples))"
proof -
  define t0 where "t0 = \<lparr>tl_rows = [], tl_groups = [], tl_phases = []\<rparr>"
  obtain items' t where t: "iter (fld (V campaign) ''trials'') = Inr items'"
    "rfold (tally_item repr campaign) t0 items' = Inr t" "summary_of campaign t = Inr summary"
    using assms by (auto simp: summarize_def t0_def)
  have "tally_ok repr (take (length items') items') t"
    by (rule rfold_inv [where P = "\<lambda>n. tally_ok repr (take n items')", OF t(2)])
      (simp_all add: tally_item_ok take_Suc_conv_app_nth t0_def, simp add: tally_ok_def group_rows_def)
  then have ok: "tally_ok repr items' t" by simp
  obtain grouped full where g: "rmap (\<lambda>(k, samples). rbind (group_stats samples) (\<lambda>g. Inr (PyStr k, g))) (tl_groups t) = Inr grouped"
    "having [(''status'', ''PASS''), (''kind'', ''full'')] (tl_rows t) = Inr full"
    using t(3) unfolding summary_of_def Let_def rbind_Inr_iff by blast
  note f = dict_of_fld [OF t(3) [unfolded summary_of_def Let_def g rbind_simps]]
  have "list_all2 (\<lambda>(name, samples) (key, g). key = PyStr name \<and> group_stats samples = Inr g) gs os"
    if "rmap (\<lambda>(k, samples). rbind (group_stats samples) (\<lambda>g. Inr (PyStr k, g))) gs = Inr os" for gs os
    using that by (induction gs arbitrary: os) (auto split: prod.splits)
  from this [OF g(1)] show ?thesis
    using t(1) ok f [of "''rows''"] f [of "''groups''"] unfolding tally_ok_def by (intro exI [of _ items'] exI [of _ "tl_rows t"]) auto
qed

text \<open>A campaign of a skipped trial, a failed one and a passed one.\<close>

definition passed_item :: py where
  "passed_item = rec [(''trial'', rec [(''id'', PyStr ''c''), (''kind'', PyStr ''cached''), (''role'', PyStr ''anchor''), (''past'', PyInt 13), (''profile'', PyBool False)]),
     (''status'', PyStr ''PASS''), (''case_elapsed_seconds'', PyInt 2), (''bound_exceeded'', PyBool False),
     (''result'', rec [(''model_seconds'', PyInt 1), (''host_request_through_delivery_seconds'', PyInt 1), (''workspace_high_water'', PyInt 4096),
        (''mover_input_bytes'', PyInt 64), (''mover_output_bytes'', PyInt 32), (''jobs'', PyInt 3)])]"

definition skipped_item :: py where
  "skipped_item = rec [(''trial'', rec [(''id'', PyStr ''a''), (''kind'', PyStr ''full''), (''role'', PyStr ''anchor'')]), (''status'', PyStr ''SKIP''), (''reason'', PyStr ''guard'')]"

definition failed_item :: py where
  "failed_item = rec [(''trial'', rec [(''id'', PyStr ''b''), (''kind'', PyStr ''cached''), (''role'', PyStr ''anchor'')]), (''status'', PyStr ''FAIL''), (''error'', PyStr ''timeout'')]"

definition small_campaign :: py where
  "small_campaign = rec [(''elapsed_seconds'', PyInt 100), (''provision_seconds'', PyInt 10), (''clock_hz'', PyInt 91000000),
     (''trials'', PyList [skipped_item, failed_item, passed_item])]"

lemma round_one: "round64 1 = Fin 1"
  using pow2_exact [of 0] by simp

lemma small_trials: "iter (fld (V small_campaign) ''trials'') = Inr [skipped_item, failed_item, passed_item]"
  by (simp add: small_campaign_def rec_def itm_def iter_def elements_def)

definition skipped_row :: py where
  "skipped_row = rec [(''id'', PyStr ''a''), (''kind'', PyStr ''full''), (''status'', PyStr ''SKIP''), (''role'', PyStr ''anchor''), (''reason'', PyStr ''guard''),
     (''case_elapsed_seconds'', PyStr ''''), (''bound_exceeded'', PyStr '''')]"

lemma base_skipped: "tally_item repr campaign t skipped_item = Inr (t\<lparr>tl_rows := tl_rows t @ [skipped_row]\<rparr>)"
  by (simp add: tally_item_def skipped_item_def base_row_def skipped_row_def dict_of_def evaluate ne_def)

definition failed_row :: py where
  "failed_row = rec [(''id'', PyStr ''b''), (''kind'', PyStr ''cached''), (''status'', PyStr ''FAIL''), (''role'', PyStr ''anchor''), (''reason'', PyStr ''timeout''),
     (''case_elapsed_seconds'', PyStr ''''), (''bound_exceeded'', PyStr '''')]"

lemma base_failed: "tally_item repr campaign t failed_item = Inr (t\<lparr>tl_rows := tl_rows t @ [failed_row]\<rparr>)"
  by (simp add: tally_item_def failed_item_def base_row_def failed_row_def dict_of_def evaluate ne_def)

definition passed_row :: py where
  "passed_row = rec [(''id'', PyStr ''c''), (''kind'', PyStr ''cached''), (''status'', PyStr ''PASS''), (''role'', PyStr ''anchor''), (''reason'', PyStr ''''),
     (''case_elapsed_seconds'', PyInt 2), (''bound_exceeded'', PyBool False), (''prompt_tokens'', PyStr ''''), (''new_tokens'', PyInt 1),
     (''past'', PyInt 13), (''profiled'', PyBool False), (''workspace_bytes'', PyInt 4096), (''input_bytes'', PyInt 64), (''output_bytes'', PyInt 32),
     (''jobs'', PyInt 3), (''traffic_scope'', PyStr ''packet word counters modulo 2^32, multiplied by 4; not total DDR traffic''),
     (''model_seconds'', PyInt 1), (''model_cycles'', PyInt 91000000), (''delivered_seconds'', PyInt 1), (''host_minus_model_seconds'', PyInt 0),
     (''model_tokens_per_second'', PyFloat (Fin 1)), (''delivered_tokens_per_second'', PyFloat (Fin 1))]"

lemma div_one: "py_div (PyInt 1) (PyInt 1) = V (PyFloat (Fin 1))"
  by (simp add: py_div_def round_one is_finite_def)

lemma base_passed: "tally_item (\<lambda>x. '''') small_campaign t passed_item =
    Inr \<lparr>tl_rows = tl_rows t @ [passed_row], tl_groups = group_add (tl_groups t) ''cached:p13:plain'' passed_row, tl_phases = tl_phases t\<rparr>"
  by (simp add: tally_item_def passed_item_def base_row_def passed_row_def dict_of_def evaluate ne_def cached_trial_row_def cached_row_def timed_row_def
    small_campaign_def div_one str_13 updated_def pairs_def py_mul_def py_sub_def py_round_def)

lemma small_group: "\<exists>g. group_stats [passed_row] = Inr g"
  by (simp add: group_stats_def seq_item_def metrics_def contains_def column_of_def lcomp_def stats_def dict_of_def passed_row_def evaluate ne_def
    elements_def mean_def exact_def all_ints_def round_one median_def pstdev_def py_minimum_def py_maximum_def best_def fsqrt_def
    updated_def pairs_def lst_def summed_def total_def div_one)

lemma small_summary: "\<exists>summary. summarize (\<lambda>x. '''') small_campaign = Inr summary"
proof -
  obtain g where g: "group_stats [passed_row] = Inr g" using small_group by blast
  have h: "having [(''status'', ''PASS''), (''kind'', ''full'')] [skipped_row, failed_row, passed_row] = Inr []" by code_simp
  have "summarize (\<lambda>x. '''') small_campaign = summary_of small_campaign \<lparr>tl_rows = [skipped_row, failed_row, passed_row],
      tl_groups = [(''cached:p13:plain'', [passed_row])], tl_phases = []\<rparr>"
    by (simp add: summarize_def small_trials base_skipped base_failed base_passed)
  moreover have "case summary_of small_campaign \<lparr>tl_rows = [skipped_row, failed_row, passed_row],
      tl_groups = [(''cached:p13:plain'', [passed_row])], tl_phases = []\<rparr> of Inr _ \<Rightarrow> True | Inl _ \<Rightarrow> False"
    unfolding summary_of_def Let_def tally.simps rmap.simps prod.case g rbind_simps h by code_simp
  ultimately show ?thesis by (auto split: sum.splits)
qed

theorem summary_covers_trials_witness:
  "\<exists>summary row1 row2 row3 grouped. summarize (\<lambda>x. '''') small_campaign = Inr summary
     \<and> fld (V summary) ''rows'' = V (PyList [row1, row2, row3])
     \<and> fld (V row1) ''id'' = S ''a'' \<and> fld (V row2) ''id'' = S ''b'' \<and> fld (V row3) ''id'' = S ''c'' \<and> fld (V row3) ''model_seconds'' = I 1
     \<and> fld (V summary) ''groups'' = V (PyDict grouped) \<and> length grouped = 1 \<and> passing row3"
proof -
  obtain summary where s: "summarize (\<lambda>x. '''') small_campaign = Inr summary" using small_summary by blast
  obtain rows groups grouped where r: "fld (V summary) ''rows'' = V (PyList rows)" "list_all2 row_of [skipped_item, failed_item, passed_item] rows"
      "fld (V summary) ''groups'' = V (PyDict grouped)"
      "list_all2 (\<lambda>(name, samples) (key, g). key = PyStr name \<and> group_stats samples = Inr g) groups grouped"
      "distinct (map fst groups)" 
      "\<forall>k. map_of groups k = (let samples = group_rows (\<lambda>x. '''') (zip [skipped_item, failed_item, passed_item] rows) k in if samples = [] then None else Some samples)"
    using summary_covers_trials [OF s] by (auto simp: small_trials)
  obtain row1 row2 row3 where rows: "rows = [row1, row2, row3]" "row_of skipped_item row1" "row_of failed_item row2" "row_of passed_item row3"
    using r(2) by (auto simp: list_all2_Cons1)
  have st: "fld (V row1) ''status'' = S ''SKIP''" "fld (V row2) ''status'' = S ''FAIL''" "fld (V row3) ''status'' = S ''PASS''"
    using rows(2-4) by (simp_all add: row_of_def Let_def skipped_item_def failed_item_def passed_item_def rec_def itm_def py_eq_str)
  then have p: "\<not> passing row1" "\<not> passing row2" "passing row3" by (simp_all add: passing_def eq_def py_eq_str)
  have ids: "fld (V row1) ''id'' = S ''a''" "fld (V row2) ''id'' = S ''b''" "fld (V row3) ''id'' = S ''c''" "fld (V row3) ''model_seconds'' = I 1"
    using rows(2-4) p(3) by (simp_all add: row_of_def Let_def skipped_item_def failed_item_def passed_item_def rec_def itm_def py_eq_str eq_def)
  have name: "group_name (\<lambda>x. '''') passed_item = Inr ''cached:p13:plain''"
    by (simp add: group_name_def passed_item_def evaluate str_13)
  have "map_of groups k = (if k = ''cached:p13:plain'' then Some [row3] else None)" for k
    using r(6) p by (simp add: rows(1) group_rows_def name Let_def)
  then have "dom (map_of groups) = {''cached:p13:plain''}" by (auto split: if_splits)
  then have "set (map fst groups) = {''cached:p13:plain''}" by (simp add: dom_map_of_conv_image_fst)
  then have "length (map fst groups) = 1" using r(5) distinct_card by fastforce
  then have "length grouped = 1" using list_all2_lengthD [OF r(4)] by simp
  then show ?thesis using s r(1,3) rows(1) ids p(3) by blast
qed

end
