(* ===== verification/Gpt2Quantized.thy ===== *)
theory Gpt2Quantized
  imports Offload
begin

text \<open>
  The full-model development reference of \<open>ref/gpt2_quantized.py\<close>: static and dynamic quantisation by
  columns, the affine metadata, and \<open>QuantizedGPT2\<close> with its counters. The checkpoint reader
  (\<open>safetensors\<close>) is a parameter. A matrix is the list of its rows; where the source works along
  axis 0 (\<open>quantize_columns\<close>, \<open>dynamic_columns\<close>) it is the list of its columns. The int8 products
  that the source accumulates in float64 are totals of integers below \<open>2 ^ 53\<close> in any order, hence
  written as integers. Operands of an elementwise operation have equal lengths.
\<close>

section \<open>Quantisation\<close>

definition f_clip :: "rat \<Rightarrow> rat \<Rightarrow> f64 \<Rightarrow> f64" where
  "f_clip lo hi x = (if x = NaN then NaN else if flt x (Fin lo) then Fin lo else if flt (Fin hi) x then Fin hi else x)"

definition quantize_column :: "numpy \<Rightarrow> f64 list \<Rightarrow> (int list \<times> f64) res" where
  "quantize_column E col =
     rbind (fmax_list (map fabs col)) (\<lambda>maximum.
       let scale = (if maximum = Fin 0 then Fin 1 else fdiv maximum (Fin 127))
       in Inr (map (\<lambda>x. f_cast E Int8 (f_clip (-127) 127 (frint (fdiv x scale)))) col, scale))"

definition quantize_columns :: "numpy \<Rightarrow> f64 list list \<Rightarrow> (int list list \<times> f64 list) res" where
  "quantize_columns E columns = rbind (rmap (quantize_column E) columns) (\<lambda>qs. Inr (map fst qs, map snd qs))"

definition int_abs :: "int \<Rightarrow> int" where
  "int_abs v = np_cast Int64 \<bar>v\<bar>"

definition int_clip :: "int \<Rightarrow> int \<Rightarrow> int \<Rightarrow> int" where
  "int_clip lo hi v = min hi (max lo v)"

text \<open>\<open>rne_shift(raw * mult, shift)\<close>: the product is int64.\<close>

definition scaled_shift :: "int list \<Rightarrow> int list \<Rightarrow> int \<Rightarrow> int list res" where
  "scaled_shift raw mult shift = rne_shift (map2 (\<lambda>r m. np_cast Int64 (r * m)) raw mult) shift"

definition dynamic_column :: "f64 \<Rightarrow> int list \<Rightarrow> (int list \<times> f64) res" where
  "dynamic_column unit' raw =
     (if raw = [] then Inl ValueError
      else let maximum = py_max (map int_abs raw) in
       rbind (if maximum = 0 then Inr 0 else rne_div (push_bit 24 127) maximum) (\<lambda>m.
       rbind (scaled_shift raw (replicate (length raw) m) 24) (\<lambda>q.
         Inr (map (\<lambda>v. np_cast Int8 (int_clip (-128) 127 v)) q,
              if m = 0 then Fin 1 else fmul (round64 (of_int (2 ^ 24) / of_int m)) unit'))))"

definition dynamic_columns :: "int list list \<Rightarrow> f64 \<Rightarrow> (int list list \<times> f64 list) res" where
  "dynamic_columns columns unit' = rbind (rmap (dynamic_column unit') columns) (\<lambda>qs. Inr (map fst qs, map snd qs))"

fun metadata_shift :: "f64 list \<Rightarrow> nat \<Rightarrow> nat" where
  "metadata_shift scales 0 = 0"
| "metadata_shift scales (Suc s) =
     (if list_ex (\<lambda>x. fle (Fin (2 ^ 31)) (frint (fmul x (Fin (2 ^ Suc s))))) scales then metadata_shift scales s else Suc s)"

definition affine_metadata :: "numpy \<Rightarrow> f64 list \<Rightarrow> (int list \<times> nat) res" where
  "affine_metadata E scales =
     (if list_ex (\<lambda>x. \<not> is_finite x) scales \<or> list_ex (\<lambda>x. flt x (Fin 0)) scales then Inl ValueError
      else let shift = metadata_shift scales 31;
               mult = map (\<lambda>x. f_cast E Int64 (frint (fmul x (Fin (2 ^ shift))))) scales
           in if list_ex (\<lambda>m. m \<ge> 2 ^ 31) mult then Inl ValueError
              else if list_ex (\<lambda>(m, x). m = 0 \<and> x \<noteq> Fin 0) (zip mult scales) then Inl ValueError
              else Inr (mult, shift))"

section \<open>The model\<close>

text \<open>The checkpoint, as float64 values, and the model with its counters: \<open>'n\<close> are the parameters of a
  normalisation, \<open>'b\<close> the elements of a bias. Weights are kept by columns.\<close>

record checkpoint =
  ck_matrix :: "string \<Rightarrow> f64 list list res"
  ck_vector :: "string \<Rightarrow> f64 list res"

record ('n, 'b) gpt2 =
  md_stats :: "string \<Rightarrow> int"
  md_maxima :: "string \<Rightarrow> int option"
  md_embedding :: "int list list"
  md_position :: "int list list"
  md_norms :: "(string \<times> 'n) list"
  md_linears :: "(string \<times> int list list \<times> f64 list \<times> 'b list) list"

definition tally_stat :: "string \<Rightarrow> int \<Rightarrow> (('n, 'b, 'z) gpt2_scheme, unit) act" where
  "tally_stat key n = modify (\<lambda>s. s\<lparr>md_stats := (md_stats s)(key := md_stats s key + n)\<rparr>)"

definition raise_maximum :: "string \<Rightarrow> int \<Rightarrow> (('n, 'b, 'z) gpt2_scheme, unit) act" where
  "raise_maximum key n = modify (\<lambda>s. s\<lparr>md_maxima := (md_maxima s)(key \<mapsto>
     max (case md_maxima s key of Some m \<Rightarrow> m | None \<Rightarrow> 0) n)\<rparr>)"

text \<open>Saturation to int16, counted.\<close>

definition clipped :: "int list list \<Rightarrow> int" where
  "clipped rows = int (length (filter (\<lambda>v. v < -32768 \<or> v > 32767) (concat rows)))"

definition narrow :: "string \<Rightarrow> int list list \<Rightarrow> (('n, 'b, 'z) gpt2_scheme, int list list) act" where
  "narrow name rows =
     bseq (tally_stat (name @ ''.elements'') (int (length (concat rows))))
    (bseq (tally_stat (name @ ''.clipped'') (clipped rows))
    (bseq (raise_maximum name (fold max (map int_abs (concat rows)) 0))
          (ret (map (map (\<lambda>v. np_cast Int16 (int_clip (-32768) 32767 v))) rows))))"

definition narrow_row :: "string \<Rightarrow> int list \<Rightarrow> (('n, 'b, 'z) gpt2_scheme, int list) act" where
  "narrow_row name row = bind (narrow name [row]) (\<lambda>rs. ret (hd rs))"

definition int_add :: "int list \<Rightarrow> int list \<Rightarrow> int list" where
  "int_add a b = map2 (\<lambda>x y. np_cast Int64 (x + y)) a b"

definition q_affine :: "numpy \<Rightarrow> int list \<Rightarrow> f64 list \<Rightarrow> int list \<Rightarrow> string \<Rightarrow> (('n, 'b, 'z) gpt2_scheme, int list) act" where
  "q_affine E raw scales bias name =
     bind (lift_res (affine_metadata E scales)) (\<lambda>(mult, shift).
     bind (lift_res (scaled_shift raw mult (int shift))) (\<lambda>out. narrow_row name (int_add out bias)))"

section \<open>Construction\<close>

definition fixed_point :: "numpy \<Rightarrow> f64 \<Rightarrow> int" where
  "fixed_point E x = f_cast E Int64 (frint (fmul x (Fin 256)))"

fun fmin_list :: "f64 list \<Rightarrow> f64 res" where
  "fmin_list [] = Inl ValueError"
| "fmin_list (x # xs) = Inr (fold (\<lambda>y m. if m = NaN \<or> y = NaN then NaN else if flt y m then y else m) xs x)"

text \<open>The power of two that brings a gain into the format; a float is below \<open>2 ^ 1024\<close>.\<close>

fun gain_factor :: "nat \<Rightarrow> f64 list \<Rightarrow> int \<Rightarrow> int res" where
  "gain_factor 0 gain factor = Inl Diverges"
| "gain_factor (Suc fuel) gain factor =
     (if factor \<ge> 2 ^ 1024 then Inl OverflowError
      else let g = map (\<lambda>x. fdiv x (f_int factor)) gain in
        rbind (fmax_list g) (\<lambda>hi. rbind (fmin_list g) (\<lambda>lo.
          if flt (Fin (32767 / 4096)) hi \<or> flt lo (Fin (-8)) then gain_factor fuel gain (factor * 2) else Inr factor)))"

type_synonym norm_params = "int list \<times> int list \<times> int"

type_synonym quantized = "(norm_params, int) gpt2"

definition norm_names :: "string list" where
  "norm_names = concat (map (\<lambda>i. [layer_name i ''ln_1'', layer_name i ''ln_2'']) [0..<12]) @ [''ln_f'']"

definition q_norm_params :: "numpy \<Rightarrow> checkpoint \<Rightarrow> string \<Rightarrow> (quantized, unit) act" where
  "q_norm_params E ck name =
     bind (lift_res (ck_vector ck (name @ ''.weight''))) (\<lambda>gain.
     bind (lift_res (ck_vector ck (name @ ''.bias''))) (\<lambda>bias.
     bind (lift_res (gain_factor 1025 gain 1)) (\<lambda>factor.
     bind (narrow_row (''weight.'' @ name) (map (fixed_point E) bias)) (\<lambda>b.
       let g = map (\<lambda>x. f_cast E Int16 (frint (fdiv (fmul x (Fin 4096)) (f_int factor)))) gain
       in modify (\<lambda>s. s\<lparr>md_norms := md_norms s @ [(name, g, b, factor)]\<rparr>)))))"

definition columns_of :: "'a list list \<Rightarrow> 'a list list" where
  "columns_of rows = transp (length (hd rows)) rows"

definition q_linear_params :: "numpy \<Rightarrow> checkpoint \<Rightarrow> string \<Rightarrow> (quantized, unit) act" where
  "q_linear_params E ck name =
     bind (lift_res (ck_matrix ck (name @ ''.weight''))) (\<lambda>weight.
     bind (lift_res (quantize_columns E (columns_of weight))) (\<lambda>(q, scale).
     bind (lift_res (ck_vector ck (name @ ''.bias''))) (\<lambda>bias.
       modify (\<lambda>s. s\<lparr>md_linears := md_linears s @ [(name, q, scale, map (fixed_point E) bias)]\<rparr>))))"

definition layer_operations :: "string list" where
  "layer_operations = [''attn.c_attn'', ''attn.c_proj'', ''mlp.c_fc'', ''mlp.c_proj'']"

definition linear_names :: "string list" where
  "linear_names = concat (map (\<lambda>i. map (layer_name i) layer_operations) [0..<12])"

text \<open>\<open>narrow(rint(weight * 256))\<close> of the two embedding tables.\<close>

definition load_table :: "numpy \<Rightarrow> checkpoint \<Rightarrow> string \<Rightarrow> string \<Rightarrow> (('n, 'b, 'z) gpt2_scheme, int list list) act" where
  "load_table E ck tensor name =
     bind (lift_res (ck_matrix ck tensor)) (\<lambda>w. narrow name (map (map (fixed_point E)) w))"

definition construct :: "numpy \<Rightarrow> checkpoint \<Rightarrow> (quantized, unit) act" where
  "construct E ck =
     bind (load_table E ck ''wte.weight'' ''weight.embedding'') (\<lambda>embedding.
     bseq (modify (\<lambda>s. s\<lparr>md_embedding := embedding\<rparr>))
    (bind (load_table E ck ''wpe.weight'' ''weight.position'') (\<lambda>position.
     bseq (modify (\<lambda>s. s\<lparr>md_position := position\<rparr>))
    (bseq (for_each (q_norm_params E ck) norm_names)
    (bseq (for_each (q_linear_params E ck) linear_names)
    (bind (lift_res (ck_matrix ck ''wte.weight'')) (\<lambda>wte.
     bind (lift_res (quantize_columns E wte)) (\<lambda>(q, scale).
       modify (\<lambda>s. s\<lparr>md_linears := md_linears s @ [(''lm_head'', q, scale, replicate 50257 0)]\<rparr>)))))))))"

definition blank :: "('n, 'b) gpt2" where
  "blank = \<lparr>md_stats = (\<lambda>_. 0), md_maxima = (\<lambda>_. None), md_embedding = [], md_position = [], md_norms = [], md_linears = []\<rparr>"

definition QuantizedGPT2 :: "numpy \<Rightarrow> checkpoint \<Rightarrow> quantized res" where
  "QuantizedGPT2 E ck = (case construct E ck blank of (Inl e, _) \<Rightarrow> Inl e | (Inr _, s) \<Rightarrow> Inr s)"

section \<open>Layers\<close>

definition layernorm_row :: "int list \<Rightarrow> int list \<Rightarrow> int list \<Rightarrow> int list res" where
  "layernorm_row gain bias row = rbind (layernorm_int (vec Int16 row) (vec Int16 gain) (vec Int16 bias)) (\<lambda>a. Inr (nd_elems a))"

definition q_norm :: "int list list \<Rightarrow> string \<Rightarrow> (quantized, int list list) act" where
  "q_norm x name =
     bind (bind (gets md_norms) (\<lambda>ns. lift_res (lookup ns name))) (\<lambda>(gain, bias, factor).
       if factor = 1 then lift_res (rmap (layernorm_row gain bias) x)
       else bseq (tally_stat (name @ ''.decomposed_rows'') (int (length x)))
           (bind (lift_res (rmap (layernorm_row gain (replicate (length bias) 0)) x)) (\<lambda>first.
              narrow (name @ ''.postscale'') (map (\<lambda>row. int_add (map (\<lambda>v. v * factor) row) bias) first))))"

text \<open>A row of int8 codes times a matrix given by its columns.\<close>

definition dot :: "int list \<Rightarrow> int list \<Rightarrow> int" where
  "dot a b = sum_list (map2 (*) a b)"

definition linear_row :: "numpy \<Rightarrow> int list list \<Rightarrow> f64 list \<Rightarrow> int list \<Rightarrow> string \<Rightarrow> int list \<Rightarrow> (quantized, int list) act" where
  "linear_row E weights scale bias name row =
     bind (lift_res (dynamic_columns [row] (Fin (1 / 256)))) (\<lambda>(q, s).
       q_affine E (map (dot (hd q)) weights) (map (\<lambda>c. fmul (fmul (hd s) c) (Fin 256)) scale) bias name)"

definition linear :: "numpy \<Rightarrow> int list list \<Rightarrow> string \<Rightarrow> (quantized, int list list) act" where
  "linear E x name =
     bind (bind (gets md_linears) (\<lambda>ls. lift_res (lookup ls name))) (\<lambda>(weights, scale, bias).
       mapM_act (linear_row E weights scale bias name) x)"

section \<open>Attention\<close>

text \<open>The part of each row that belongs to a head, and a cache: by layer the keys and values, by head the
  rows of the positions.\<close>

type_synonym heads = "int list list list"

definition head_rows :: "nat \<Rightarrow> int list list \<Rightarrow> heads" where
  "head_rows base rows = map (\<lambda>head. map (head_part base head) rows) [0..<12]"

definition cache_shape :: "nat \<Rightarrow> heads \<Rightarrow> bool" where
  "cache_shape past h \<longleftrightarrow> length h = 12 \<and> list_all (\<lambda>rows. length rows = past \<and> list_all (\<lambda>r. length r = 64) rows) h"

definition append_cache :: "nat \<Rightarrow> (heads \<times> heads) option \<Rightarrow> heads \<Rightarrow> heads \<Rightarrow> (heads \<times> heads) res" where
  "append_cache past old k v =
     (case old of None \<Rightarrow> Inr (k, v)
      | Some (pk, pv) \<Rightarrow> if \<not> cache_shape past pk \<or> \<not> cache_shape past pv then Inl ValueError
          else Inr (map2 (@) pk k, map2 (@) pv v))"

text \<open>One query of a head over its causal prefix of \<open>n\<close> positions; the score step is an argument.\<close>

definition attend_row :: "(int list \<Rightarrow> f64 list \<Rightarrow> (('m, 'b, 'z) gpt2_scheme, int list) act) \<Rightarrow> numpy \<Rightarrow> string \<Rightarrow> int list list \<Rightarrow> f64 list
    \<Rightarrow> int list list \<Rightarrow> nat \<Rightarrow> int list \<Rightarrow> (('m, 'b, 'z) gpt2_scheme, int list) act" where
  "attend_row score_step E prefix k8 sk v n q =
     bind (lift_res (dynamic_columns [q] (Fin (1 / 256)))) (\<lambda>(q8, sq).
     bind (score_step (map (dot (hd q8)) (take n k8)) (map (\<lambda>u. fmul (fmul (hd sq) u) (Fin 32)) (take n sk))) (\<lambda>scores.
     bind (lift_res (softmax_int (vec Int16 scores) (vec Bool (replicate n 1)))) (\<lambda>prob.
     bind (lift_res (dynamic_columns [nd_elems prob] (Fin (1 / 32768)))) (\<lambda>(p8, sp).
     bind (lift_res (dynamic_columns (transp 64 (take n v)) (Fin (1 / 256)))) (\<lambda>(v8, sv).
       q_affine E (map (dot (hd p8)) v8) (map (\<lambda>u. fmul (fmul (hd sp) u) (Fin 256)) sv) (replicate 64 0)
         (prefix @ ''.context''))))))"

definition attend_head :: "(int list \<Rightarrow> f64 list \<Rightarrow> (('m, 'b, 'z) gpt2_scheme, int list) act) \<Rightarrow> numpy \<Rightarrow> string \<Rightarrow> nat
    \<Rightarrow> int list list \<Rightarrow> int list list \<Rightarrow> int list list \<Rightarrow> (('m, 'b, 'z) gpt2_scheme, int list list) act" where
  "attend_head score_step E prefix past q k v =
     bind (lift_res (dynamic_columns k (Fin (1 / 256)))) (\<lambda>(k8, sk).
       mapM_act (\<lambda>(i, row). attend_row score_step E prefix k8 sk v (past + i + 1) row) (enumerate 0 q))"

text \<open>All heads; the result by token, the heads side by side.\<close>

definition attend_all :: "(int list \<Rightarrow> f64 list \<Rightarrow> (('m, 'b, 'z) gpt2_scheme, int list) act) \<Rightarrow> numpy \<Rightarrow> string \<Rightarrow> nat
    \<Rightarrow> heads \<Rightarrow> heads \<Rightarrow> heads \<Rightarrow> nat \<Rightarrow> (('m, 'b, 'z) gpt2_scheme, int list list) act" where
  "attend_all score_step E prefix past q k v rows =
     bind (mapM_act (\<lambda>(q', k', v'). attend_head score_step E prefix past q' k' v') (zip q (zip k v))) (\<lambda>context.
       ret (map (\<lambda>i. concat (map (\<lambda>h. h ! i) context)) [0..<rows]))"

definition q_scores :: "numpy \<Rightarrow> string \<Rightarrow> int list \<Rightarrow> f64 list \<Rightarrow> (('n, 'b, 'z) gpt2_scheme, int list) act" where
  "q_scores E prefix totals scales = q_affine E totals scales (replicate (length totals) 0) (prefix @ ''.scores'')"

section \<open>The forward pass\<close>

type_synonym trace = "(string \<times> int list list) list"

definition row_at :: "'a list \<Rightarrow> nat \<Rightarrow> 'a res" where
  "row_at xs i = (if i < length xs then Inr (xs ! i) else Inl IndexError)"

definition token_vector :: "ndarray \<Rightarrow> bool" where
  "token_vector t \<longleftrightarrow> ndim t = 1 \<and> nd_elems t \<noteq> [] \<and> np_integer (nd_dtype t)
     \<and> \<not> list_ex (\<lambda>v. v < 0) (nd_elems t) \<and> \<not> list_ex (\<lambda>v. v \<ge> 50257) (nd_elems t)"

definition cached_length :: "(heads \<times> heads) list option \<Rightarrow> nat" where
  "cached_length cache = (case cache of None \<Rightarrow> 0 | Some c \<Rightarrow> length (hd (fst (hd c))))"

definition check_request :: "ndarray \<Rightarrow> (heads \<times> heads) list option \<Rightarrow> unit res" where
  "check_request tokens cache =
     (if \<not> token_vector tokens then Inl ValueError
      else if (case cache of None \<Rightarrow> False | Some c \<Rightarrow> length c \<noteq> 12) then Inl ValueError
      else if cached_length cache + length (nd_elems tokens) > 1024 then Inl ValueError else Inr ())"

definition embed_rows :: "nat \<Rightarrow> int list \<Rightarrow> (('n, 'b, 'z) gpt2_scheme, int list list) act" where
  "embed_rows past tokens =
     bind (gets (\<lambda>s. rmap (\<lambda>(i, t). rbind (row_at (md_embedding s) (nat t)) (\<lambda>e. rbind (row_at (md_position s) (past + i)) (\<lambda>p.
       Inr (int_add e p)))) (enumerate 0 tokens))) (\<lambda>r. bind (lift_res r) (narrow ''embedding''))"

definition gelu_row :: "int list \<Rightarrow> int list res" where
  "gelu_row row = rbind (gelu_int (vec Int16 row)) (\<lambda>a. Inr (nd_elems a))"

definition q_block :: "numpy \<Rightarrow> nat \<Rightarrow> (heads \<times> heads) list option \<Rightarrow> int list list \<times> (heads \<times> heads) list \<times> trace \<Rightarrow> nat
    \<Rightarrow> (quantized, int list list \<times> (heads \<times> heads) list \<times> trace) act" where
  "q_block E past cache = (\<lambda>(x, next_cache, trace) layer.
     let op = layer_name layer; prefix = ''h.'' @ str_of_nat layer in
     bind (q_norm x (op ''ln_1'')) (\<lambda>n1.
     bind (linear E n1 (op ''attn.c_attn'')) (\<lambda>qkv.
     bind (lift_res (append_cache past (map_option (\<lambda>c. c ! layer) cache) (head_rows 768 qkv) (head_rows 1536 qkv))) (\<lambda>(k, v).
     bind (attend_all (q_scores E prefix) E prefix past (head_rows 0 qkv) k v (length x)) (\<lambda>context.
     bind (linear E context (op ''attn.c_proj'')) (\<lambda>attn.
     bind (narrow (prefix @ ''.residual'') (map2 int_add x attn)) (\<lambda>residual.
     bind (q_norm residual (op ''ln_2'')) (\<lambda>n2.
     bind (linear E n2 (op ''mlp.c_fc'')) (\<lambda>up.
     bind (lift_res (rmap gelu_row up)) (\<lambda>gelu.
     bind (linear E gelu (op ''mlp.c_proj'')) (\<lambda>down.
     bind (narrow (prefix @ ''.output'') (map2 int_add residual down)) (\<lambda>y.
       ret (y, next_cache @ [(k, v)], trace @ [(op ''ln1'', n1), (op ''qkv'', qkv), (op ''context'', context), (op ''attn'', attn),
         (op ''residual'', residual), (op ''ln2'', n2), (op ''up'', up), (op ''gelu'', gelu), (op ''down'', down), (op ''output'', y)])))))))))))))"

definition q_forward :: "numpy \<Rightarrow> ndarray \<Rightarrow> (heads \<times> heads) list option \<Rightarrow> bool \<Rightarrow> bool
    \<Rightarrow> (quantized, int list list \<times> (heads \<times> heads) list \<times> trace) act" where
  "q_forward E tokens cache all_logits capture =
     bind (lift_res (check_request tokens cache)) (\<lambda>_. let past = cached_length cache in
     bind (embed_rows past (nd_elems tokens)) (\<lambda>x0.
     bind (foldM_act (q_block E past cache) (x0, [], [(''embedding'', x0)]) [0..<12]) (\<lambda>(x, next_cache, trace).
     bind (q_norm x ''ln_f'') (\<lambda>n.
     bind (linear E (if all_logits then n else [last n]) ''lm_head'') (\<lambda>logits.
       ret (logits, next_cache, if capture then trace @ [(''ln_f'', n)] else []))))))"

text \<open>\<open>np.argmax\<close> of integers: the first position of the largest.\<close>

fun int_argmax :: "int list \<Rightarrow> nat \<Rightarrow> nat \<Rightarrow> int \<Rightarrow> nat" where
  "int_argmax [] i best m = best"
| "int_argmax (x # xs) i best m = (if m < x then int_argmax xs (i + 1) i x else int_argmax xs (i + 1) best m)"

definition greedy :: "int list list \<Rightarrow> nat" where
  "greedy logits = int_argmax (last logits) 0 0 (hd (last logits))"

fun q_decode :: "numpy \<Rightarrow> nat \<Rightarrow> int list list \<Rightarrow> (heads \<times> heads) list \<Rightarrow> (quantized, nat list) act" where
  "q_decode E 0 logits cache = ret []"
| "q_decode E (Suc left) logits cache =
     (let token = greedy logits in
      bind (if left = 0 then ret (logits, cache)
            else bind (q_forward E (vec Int64 [int token]) (Some cache) False False) (\<lambda>(l, c, _). ret (l, c))) (\<lambda>(l, c).
      bind (q_decode E left l c) (\<lambda>rest. ret (token # rest))))"

definition q_generate :: "numpy \<Rightarrow> ndarray \<Rightarrow> nat \<Rightarrow> (quantized, nat list) act" where
  "q_generate E tokens count =
     (if count < 1 \<or> length (nd_elems tokens) + count > 1024 then raise ValueError
      else bind (q_forward E tokens None False False) (\<lambda>(logits, cache, _). q_decode E count logits cache))"

end
