(* ===== verification/Gpt2Scaled.thy ===== *)
theory Gpt2Scaled
  imports Gpt2Quantized
begin

text \<open>
  The scaled and smoothed development reference of \<open>ref/gpt2_scaled.py\<close> and its range-safe variant
  \<open>ref/gpt2_adaptive.py\<close>: storage exponents, the LayerNorm correction, channel balancing, and the
  two model classes, whose methods \<open>smooth\<close> and \<open>wide_linear\<close> are the entries of a record
  (\<open>methods\<close>) that the inherited \<open>forward\<close> takes. The power function of NumPy is a parameter, once for
  float64 and once for the checkpoint's float32.
\<close>

section \<open>Metadata\<close>

definition storage_exponent :: "numpy \<Rightarrow> f64 list \<Rightarrow> int list res" where
  "storage_exponent E maximum =
     (if list_ex (\<lambda>x. \<not> is_finite x) maximum \<or> list_ex (\<lambda>x. flt x (Fin 0)) maximum then Inl ValueError
      else Inr (map (\<lambda>x. f_cast E Int32 (fmax (Fin 0) (fceil (np_log2 E
             (fmax (fdiv (fmul x (Fin 256)) (Fin 32700)) (Fin 1)))))) maximum))"

definition epsilon_correction :: "int list \<Rightarrow> int \<Rightarrow> f64 res" where
  "epsilon_correction raw exponent =
     (if raw = [] \<or> \<not> (0 \<le> exponent \<and> exponent \<le> 30) then Inl ValueError
      else let n = int (length raw); variance = f_int (n * (\<Sum>v\<leftarrow>raw. v * v) - sum_list raw ^ 2);
               epsilon = fmul (fmul (round64 (1 / 100000)) (f_int (256 ^ 2))) (f_int (n ^ 2))
           in rbind (py_pow2 (2 * exponent)) (\<lambda>p. rbind (py_fdiv epsilon p) (\<lambda>small.
              rbind (py_fdiv (fadd variance epsilon) (fadd variance small)) fsqrt)))"

record powers =
  pw_64 :: "f64 \<Rightarrow> f64 \<Rightarrow> f64"
  pw_32 :: "f64 \<Rightarrow> f64 \<Rightarrow> f64"

text \<open>\<open>1e-8\<close> in float64 and in float32, and Python's \<open>max\<close> of two floats.\<close>

definition TINY :: f64 where "TINY = round64 (1 / 10 ^ 8)"
definition TINY32 :: f64 where "TINY32 = Fin (11258999 / 1125899906842624)"

definition py_fmax :: "f64 \<Rightarrow> f64 \<Rightarrow> f64" where
  "py_fmax a b = (if flt a b then b else a)"

definition channel_balance :: "powers \<Rightarrow> f64 list \<Rightarrow> f64 list list \<Rightarrow> f64 \<Rightarrow> f64 list option \<Rightarrow> f64 list res" where
  "channel_balance P maxima weights alpha gain =
     (if \<not> (fle (Fin 0) alpha \<and> fle alpha (Fin 1)) then Inl ValueError
      else let maxima = map (\<lambda>m. fmax m TINY) maxima in
       rbind (rmap (\<lambda>row. fmax_list (map fabs row)) weights) (\<lambda>wmax.
       let scales = map2 (\<lambda>m w. fdiv (pw_64 P m alpha) (pw_32 P (fmax w TINY32) (fsub (Fin 1) alpha))) maxima wmax in
       rbind (fmax_list (map2 fdiv maxima scales)) (\<lambda>top. let base = fdiv top (Fin 64) in
       rbind (case gain of None \<Rightarrow> Inr base
              | Some g \<Rightarrow> rbind (fmax_list (map2 (\<lambda>x s. fdiv (fabs x) s) g scales)) (\<lambda>m. Inr (py_fmax base (fdiv m (Fin (15 / 2))))))
         (\<lambda>normalization. Inr (map (\<lambda>s. fmul s (py_fmax normalization TINY)) scales)))))"

section \<open>Construction\<close>

type_synonym float_norm = "f64 list \<times> f64 list"

record scaled = "(float_norm, f64) gpt2" +
  md_smoothing :: "(string \<times> f64 list) list"

record calibration =
  cal_split :: string
  cal_policy :: string
  cal_amax :: "string \<Rightarrow> f64 list res"

record identity =
  id_version :: string
  id_alpha :: f64
  id_calibration :: string
  id_policy :: string

definition consumer :: "string \<Rightarrow> string option" where
  "consumer name = map_of (map (\<lambda>i. (layer_name i ''attn.c_attn'', layer_name i ''ln_1'')) [0..<12]
     @ map (\<lambda>i. (layer_name i ''mlp.c_fc'', layer_name i ''ln_2'')) [0..<12] @ [(''lm_head'', ''ln_f'')]) name"

text \<open>\<open>weight * smooth[:, None]\<close>, by columns.\<close>

definition balanced_columns :: "f64 list list \<Rightarrow> f64 list \<Rightarrow> f64 list list" where
  "balanced_columns weight smooth' = columns_of (map2 (\<lambda>row s. map (\<lambda>w. fmul w s) row) weight smooth')"

definition load_balanced :: "numpy \<Rightarrow> powers \<Rightarrow> checkpoint \<Rightarrow> calibration \<Rightarrow> f64 \<Rightarrow> string \<Rightarrow> (scaled, unit) act" where
  "load_balanced E P ck cal alpha name =
     bind (lift_res (if name = ''lm_head'' then rbind (ck_matrix ck ''wte.weight'') (\<lambda>w. Inr (columns_of w))
                     else ck_matrix ck (name @ ''.weight''))) (\<lambda>weight.
     bind (lift_res (case consumer name of None \<Rightarrow> Inr None
                     | Some n \<Rightarrow> rbind (ck_vector ck (n @ ''.weight'')) (\<lambda>g. Inr (Some g)))) (\<lambda>gain.
     bind (lift_res (rbind (cal_amax cal name) (\<lambda>amax. channel_balance P amax weight alpha gain))) (\<lambda>smooth'.
     bseq (modify (\<lambda>s. s\<lparr>md_smoothing := md_smoothing s @ [(name, smooth')]\<rparr>))
    (bind (lift_res (quantize_columns E (balanced_columns weight smooth'))) (\<lambda>(q, scale).
     bind (lift_res (if name = ''lm_head'' then Inr (replicate 50257 (Fin 0)) else ck_vector ck (name @ ''.bias''))) (\<lambda>bias.
     bseq (modify (\<lambda>s. s\<lparr>md_linears := md_linears s @ [(name, q, scale, bias)]\<rparr>))
    (case (consumer name, gain) of
        (Some n, Some g) \<Rightarrow> bind (lift_res (ck_vector ck (n @ ''.bias''))) (\<lambda>b.
          modify (\<lambda>s. s\<lparr>md_norms := md_norms s @ [(n, map2 fdiv g smooth', map2 fdiv b smooth')]\<rparr>))
      | _ \<Rightarrow> ret ())))))))"

definition construct_scaled :: "numpy \<Rightarrow> powers \<Rightarrow> checkpoint \<Rightarrow> calibration \<Rightarrow> f64 \<Rightarrow> (scaled, unit) act" where
  "construct_scaled E P ck cal alpha =
     bind (load_table E ck ''wte.weight'' ''weight.embedding'') (\<lambda>embedding.
     bseq (modify (\<lambda>s. s\<lparr>md_embedding := embedding\<rparr>))
    (bind (load_table E ck ''wpe.weight'' ''weight.position'') (\<lambda>position.
     bseq (modify (\<lambda>s. s\<lparr>md_position := position\<rparr>))
     (for_each (load_balanced E P ck cal alpha) (linear_names @ [''lm_head''])))))"

definition blank_scaled :: scaled where
  "blank_scaled = gpt2.extend blank (scaled.fields [])"

text \<open>The calibration is accepted only from the training split and for the current quality policy.\<close>

definition ScaledGPT2 :: "numpy \<Rightarrow> powers \<Rightarrow> checkpoint \<Rightarrow> calibration \<Rightarrow> string \<Rightarrow> string \<Rightarrow> f64 \<Rightarrow> (identity \<times> scaled) res" where
  "ScaledGPT2 E P ck cal calibration_sha policy_hash alpha =
     (if cal_split cal \<noteq> ''train'' then Inl ValueError
      else if cal_policy cal \<noteq> policy_hash then Inl ValueError
      else case construct_scaled E P ck cal alpha blank_scaled of (Inl e, _) \<Rightarrow> Inl e
        | (Inr _, s) \<Rightarrow> Inr (\<lparr>id_version = ''m4-scaled-v2-development'', id_alpha = alpha, id_calibration = calibration_sha,
             id_policy = policy_hash\<rparr>, s))"

definition AdaptiveGPT2 :: "numpy \<Rightarrow> powers \<Rightarrow> checkpoint \<Rightarrow> calibration \<Rightarrow> string \<Rightarrow> string \<Rightarrow> f64 \<Rightarrow> (identity \<times> scaled) res" where
  "AdaptiveGPT2 E P ck cal calibration_sha policy_hash alpha =
     rbind (ScaledGPT2 E P ck cal calibration_sha policy_hash alpha) (\<lambda>(i, s).
       Inr (i\<lparr>id_version := ''m4-adaptive-v3-development''\<rparr>, s))"

section \<open>LayerNorm\<close>

text \<open>The unbounded quotients of a row.\<close>

definition unbounded :: "int list \<Rightarrow> int list \<Rightarrow> int list res" where
  "unbounded row g =
     rbind (ln_radicand row) (\<lambda>radicand. rbind (math_isqrt radicand) (\<lambda>denominator.
       rmap (\<lambda>(a, gg). rne_div ((int (length row) * a - sum_list row) * gg * 256) denominator) (zip row g)))"

definition scaled_norm_row :: "numpy \<Rightarrow> string \<Rightarrow> f64 list \<Rightarrow> f64 list \<Rightarrow> int list \<Rightarrow> int \<Rightarrow> (scaled, int list) act" where
  "scaled_norm_row E name gain bias row e =
     bind (lift_res (epsilon_correction row e)) (\<lambda>c. let corrected = map (\<lambda>g. fmul g c) gain in
     bind (lift_res (norm_factor 1025 corrected 1)) (\<lambda>factor.
       let g = map (\<lambda>x. f_cast E Int16 (frint (fdiv (fmul x (Fin 4096)) (f_int factor)))) corrected;
           b = map (fixed_point E) bias
       in bind (lift_res (unbounded row g)) (\<lambda>u.
          bind (if factor = 1 then narrow_row (name @ ''.out'') (int_add u b)
                else bind (narrow_row (name @ ''.core'') u) (\<lambda>first.
                       narrow_row (name @ ''.out'') (int_add (map (\<lambda>v. v * factor) first) b))) (\<lambda>result.
          bseq (tally_stat (name @ ''.epsilon_metadata_rows'') (of_bool (e \<noteq> 0)))
         (bseq (tally_stat (name @ ''.gain_decomposed_rows'') (of_bool (factor \<noteq> 1))) (ret result))))))"

definition scaled_norm :: "numpy \<Rightarrow> int list list \<Rightarrow> int list \<Rightarrow> string \<Rightarrow> (scaled, int list list) act" where
  "scaled_norm E x exponent name =
     bind (bind (gets md_norms) (\<lambda>ns. lift_res (lookup ns name))) (\<lambda>(gain, bias).
       mapM_act (\<lambda>(row, e). scaled_norm_row E name gain bias row e) (zip x exponent))"

section \<open>Balancing\<close>

text \<open>Balanced activations, with the rows' exponents where the adaptive class gives them.\<close>

type_synonym smoothed = "int list list \<times> int list option"

definition affine_rows :: "numpy \<Rightarrow> int list list \<Rightarrow> f64 list \<Rightarrow> string \<Rightarrow> (scaled, int list list) act" where
  "affine_rows E x scales name =
     bind (lift_res (affine_metadata E scales)) (\<lambda>(mult, shift).
     bind (lift_res (rmap (\<lambda>row. scaled_shift row mult (int shift)) x)) (\<lambda>out. narrow name out))"

definition smoothing_scales :: "string \<Rightarrow> (scaled, f64 list) act" where
  "smoothing_scales name = bind (bind (gets md_smoothing) (\<lambda>ss. lift_res (lookup ss name))) (\<lambda>s. ret (map (fdiv (Fin 1)) s))"

definition scaled_smooth :: "numpy \<Rightarrow> int list list \<Rightarrow> string \<Rightarrow> (scaled, smoothed) act" where
  "scaled_smooth E x name =
     bind (smoothing_scales name) (\<lambda>scales. bind (affine_rows E x scales (name @ ''.smooth'')) (\<lambda>r. ret (r, None)))"

text \<open>The exponent of each row that would overflow, zero for the others.\<close>

definition balance_exponents :: "numpy \<Rightarrow> int list list \<Rightarrow> f64 list \<Rightarrow> bool list \<Rightarrow> int list res" where
  "balance_exponents E x scales overflow =
     rbind (rmap (\<lambda>row. rbind (fmax_list (map2 (\<lambda>v c. fabs (fmul (f_int v) c)) row scales)) (\<lambda>m. Inr (fdiv m (Fin 256)))) x) (\<lambda>ranges.
     rbind (storage_exponent E (map snd (filter fst (zip overflow ranges)))) (\<lambda>es.
       Inr (map (\<lambda>i. if overflow ! i then es ! length (filter id (take i overflow)) else 0) [0..<length x])))"

definition adaptive_smooth :: "numpy \<Rightarrow> int list list \<Rightarrow> string \<Rightarrow> (scaled, smoothed) act" where
  "adaptive_smooth E x name =
     bind (smoothing_scales name) (\<lambda>scales.
     bind (lift_res (affine_metadata E scales)) (\<lambda>(mult, shift).
     bind (lift_res (rmap (\<lambda>row. scaled_shift row mult (int shift)) x)) (\<lambda>prospective.
       let overflow = map (list_ex (\<lambda>p. p < -32768 \<or> p > 32767)) prospective in
       if \<not> list_ex id overflow then bind (scaled_smooth E x name) (\<lambda>(r, _). ret (r, Some (replicate (length x) 0)))
       else bind (lift_res (balance_exponents E x scales overflow)) (\<lambda>exponent.
            bind (mapM_act (\<lambda>(row, e). bind (lift_res (py_pow2 e)) (\<lambda>p.
                    q_affine E row (map (\<lambda>c. fdiv c p) scales) (replicate (length row) 0) (name @ ''.smooth''))) (zip x exponent)) (\<lambda>result.
            bseq (for_each (\<lambda>e. tally_stat (name @ ''.balance_exponent_'' @ str_of_nat (nat e)) 1) exponent)
                 (ret (result, Some exponent)))))))"

section \<open>Scores and projections\<close>

definition scaled_scores :: "numpy \<Rightarrow> string \<Rightarrow> int list \<Rightarrow> f64 list \<Rightarrow> (('n, 'b, 'z) gpt2_scheme, int list) act" where
  "scaled_scores E prefix totals scales = (let name = prefix @ ''.scores'' in
     bind (lift_res (affine_metadata E scales)) (\<lambda>(mult, shift).
     bind (lift_res (scaled_shift totals mult (int shift))) (\<lambda>raw. let maximum = py_max raw in
       if \<not> (- (2 ^ 31) \<le> - maximum \<and> - maximum < 2 ^ 31) then raise ValueError
       else let centered = map (\<lambda>v. v - maximum) raw in
         bseq (tally_stat (name @ ''.intentional_zero_tail_clamps'') (int (length (filter (\<lambda>v. v < -32768) centered))))
        (bseq (tally_stat (name @ ''.elements'') (int (length raw)))
        (bseq (raise_maximum (name @ ''.before_centering'') (py_max (map int_abs raw)))
              (ret (map (\<lambda>v. np_cast Int16 (int_clip (-32768) 0 v)) centered)))))))"

type_synonym wide = "int list list \<times> f64 list list \<times> f64 list"

definition scaled_wide :: "smoothed \<Rightarrow> string \<Rightarrow> (scaled, wide) act" where
  "scaled_wide = (\<lambda>(x, _) name.
     bind (bind (gets md_linears) (\<lambda>ls. lift_res (lookup ls name))) (\<lambda>(weights, scale, bias).
     bind (lift_res (dynamic_columns x (Fin (1 / 256)))) (\<lambda>(q, units).
       ret (map (\<lambda>row. map (dot row) weights) q, map (\<lambda>u. map (fmul u) scale) units, bias))))"

definition adaptive_wide :: "smoothed \<Rightarrow> string \<Rightarrow> (scaled, wide) act" where
  "adaptive_wide x name =
     (case snd x of None \<Rightarrow> scaled_wide x name
      | Some exponent \<Rightarrow> bind (scaled_wide (fst x, None) name) (\<lambda>(totals, scales, bias).
          ret (totals, map2 (\<lambda>row e. map (\<lambda>c. fmul c (np_pow2 e)) row) scales exponent, bias)))"

record methods =
  m_smooth :: "numpy \<Rightarrow> int list list \<Rightarrow> string \<Rightarrow> (scaled, smoothed) act"
  m_wide :: "smoothed \<Rightarrow> string \<Rightarrow> (scaled, wide) act"

definition scaled_methods :: methods where
  "scaled_methods = \<lparr>m_smooth = scaled_smooth, m_wide = scaled_wide\<rparr>"

definition adaptive_methods :: methods where
  "adaptive_methods = \<lparr>m_smooth = adaptive_smooth, m_wide = adaptive_wide\<rparr>"

definition logical_row :: "int list \<Rightarrow> f64 list \<Rightarrow> f64 list \<Rightarrow> f64 list" where
  "logical_row totals scales bias = map2 (\<lambda>(s, c) b. fadd (fmul (f_int s) c) b) (zip totals scales) bias"

definition stored_range :: "int list \<times> f64 list \<times> (int list \<times> int) option \<Rightarrow> f64 list \<Rightarrow> f64 res" where
  "stored_range = (\<lambda>(totals, scales, old) bias. let l = map fabs (logical_row totals scales bias) in
     case old of None \<Rightarrow> fmax_list l
     | Some (row, e) \<Rightarrow> fmax_list (map2 (\<lambda>a v. fadd a (fabs (fmul (f_int v) (fdiv (np_pow2 e) (Fin 256))))) l row))"

definition scaled_project_row :: "numpy \<Rightarrow> string \<Rightarrow> f64 list \<Rightarrow> int list \<times> f64 list \<times> (int list \<times> int) option \<Rightarrow> int
    \<Rightarrow> (scaled, int list) act" where
  "scaled_project_row E name bias = (\<lambda>(totals, scales, old) e.
     bind (lift_res (rbind (py_pow2 e) (py_fdiv (Fin 256)))) (\<lambda>invunit.
     bind (q_affine E totals (map (\<lambda>c. fmul c invunit) scales) (map (\<lambda>b. f_cast E Int64 (frint (fmul b invunit))) bias)
             (name @ ''.scaled'')) (\<lambda>branch.
     bind (case old of None \<Rightarrow> ret branch
           | Some (row, old_exp) \<Rightarrow> bind (lift_res (py_pow2 (old_exp - e))) (\<lambda>p.
               bind (q_affine E row (replicate (length row) p) (replicate (length row) 0) (name @ ''.align'')) (\<lambda>previous.
                 narrow_row (name @ ''.residual'') (int_add previous branch)))) (\<lambda>result.
     bseq (tally_stat (name @ ''.exponent_'' @ str_of_nat (nat e)) 1) (ret result)))))"

definition scaled_project :: "numpy \<Rightarrow> methods \<Rightarrow> smoothed \<Rightarrow> string \<Rightarrow> (int list list \<times> int list) option
    \<Rightarrow> (scaled, int list list \<times> int list) act" where
  "scaled_project E M x name residual =
     bind (m_wide M x name) (\<lambda>(totals, scales, bias).
       if residual = None \<and> name \<noteq> ''lm_head'' then
         bind (mapM_act (\<lambda>(s, c). q_affine E s (map (\<lambda>v. fmul v (Fin 256)) c) (map (fixed_point E) bias) name) (zip totals scales))
           (\<lambda>rows. ret (rows, []))
       else let old = (case residual of None \<Rightarrow> map (\<lambda>_. None) totals | Some (rows, exps) \<Rightarrow> map Some (zip rows exps));
                parts = zip totals (zip scales old) in
         bind (lift_res (rbind (rmap (\<lambda>p. stored_range p bias) parts) (storage_exponent E))) (\<lambda>exponent.
         bind (mapM_act (\<lambda>(p, e). scaled_project_row E name bias p e) (zip parts exponent)) (\<lambda>rows.
           ret (rows, exponent))))"

section \<open>The forward pass\<close>

type_synonym float_trace = "(string \<times> f64 list list) list"

definition q8 :: "int list list \<Rightarrow> f64 list list" where
  "q8 rows = map (map (\<lambda>v. fdiv (f_int v) (Fin 256))) rows"

definition by_exponent :: "int list list \<Rightarrow> int list \<Rightarrow> f64 list list" where
  "by_exponent rows exps = map2 (\<lambda>row e. map (\<lambda>v. fdiv (fmul (f_int v) (np_pow2 e)) (Fin 256)) row) rows exps"

definition by_channel :: "int list list \<Rightarrow> f64 list \<Rightarrow> f64 list list" where
  "by_channel rows s = map (\<lambda>row. map2 (\<lambda>v c. fdiv (fmul (f_int v) c) (Fin 256)) row s) rows"

definition smoothing_of :: "string \<Rightarrow> (scaled, f64 list) act" where
  "smoothing_of name = bind (gets md_smoothing) (\<lambda>ss. lift_res (lookup ss name))"

definition scaled_block :: "numpy \<Rightarrow> methods \<Rightarrow> nat \<Rightarrow> (heads \<times> heads) list option \<Rightarrow> bool
    \<Rightarrow> (int list list \<times> int list) \<times> (heads \<times> heads) list \<times> float_trace \<Rightarrow> nat
    \<Rightarrow> (scaled, (int list list \<times> int list) \<times> (heads \<times> heads) list \<times> float_trace) act" where
  "scaled_block E M past cache capture = (\<lambda>((x, exponent), next_cache, trace) layer.
     let op = layer_name layer; prefix = ''h.'' @ str_of_nat layer in
     bind (scaled_norm E x exponent (op ''ln_1'')) (\<lambda>n1.
     bind (scaled_project E M (n1, None) (op ''attn.c_attn'') None) (\<lambda>(qkv, _).
     bind (lift_res (append_cache past (map_option (\<lambda>c. c ! layer) cache) (head_rows 768 qkv) (head_rows 1536 qkv))) (\<lambda>(k, v).
     bind (attend_all (scaled_scores E prefix) E prefix past (head_rows 0 qkv) k v (length x)) (\<lambda>context.
     bind (bind (m_smooth M E context (op ''attn.c_proj'')) (\<lambda>sx.
             scaled_project E M sx (op ''attn.c_proj'') (Some (x, exponent)))) (\<lambda>(residual, rexp).
     bind (scaled_norm E residual rexp (op ''ln_2'')) (\<lambda>n2.
     bind (scaled_project E M (n2, None) (op ''mlp.c_fc'') None) (\<lambda>(up, _).
     bind (lift_res (rmap gelu_row up)) (\<lambda>gelu.
     bind (bind (m_smooth M E gelu (op ''mlp.c_proj'')) (\<lambda>sx.
             scaled_project E M sx (op ''mlp.c_proj'') (Some (residual, rexp)))) (\<lambda>(y, yexp).
     bind (if \<not> capture then ret []
           else bind (smoothing_of (op ''attn.c_attn'')) (\<lambda>s1. bind (smoothing_of (op ''mlp.c_fc'')) (\<lambda>s2.
             ret [(op ''ln1'', by_channel n1 s1), (op ''qkv'', q8 qkv), (op ''context'', q8 context),
               (op ''residual'', by_exponent residual rexp), (op ''ln2'', by_channel n2 s2), (op ''up'', q8 up),
               (op ''gelu'', q8 gelu), (op ''output'', by_exponent y yexp)]))) (\<lambda>t.
       ret ((y, yexp), next_cache @ [(k, v)], trace @ t))))))))))))"

definition scaled_forward :: "numpy \<Rightarrow> methods \<Rightarrow> ndarray \<Rightarrow> (heads \<times> heads) list option \<Rightarrow> bool \<Rightarrow> bool
    \<Rightarrow> (scaled, f64 list list \<times> (heads \<times> heads) list \<times> float_trace) act" where
  "scaled_forward E M tokens cache all_logits capture =
     bind (lift_res (check_request tokens cache)) (\<lambda>_. let past = cached_length cache in
     bind (embed_rows past (nd_elems tokens)) (\<lambda>x0.
     bind (foldM_act (scaled_block E M past cache capture)
             ((x0, replicate (length x0) 0), [], if capture then [(''embedding'', q8 x0)] else []) [0..<12])
       (\<lambda>((x, exponent), next_cache, trace).
     bind (scaled_norm E x exponent ''ln_f'') (\<lambda>n.
     bind (if \<not> capture then ret [] else bind (smoothing_of ''lm_head'') (\<lambda>s. ret [(''ln_f'', by_channel n s)])) (\<lambda>t.
     bind (scaled_project E M (if all_logits then n else [last n], None) ''lm_head'' None) (\<lambda>(logits, lexp).
       ret (map2 (\<lambda>row e. map (\<lambda>v. fmul (f_int v) (fdiv (np_pow2 e) (Fin 256))) row) logits lexp, next_cache, trace @ t)))))))"

fun scaled_decode :: "numpy \<Rightarrow> methods \<Rightarrow> nat \<Rightarrow> f64 list list \<Rightarrow> (heads \<times> heads) list \<Rightarrow> (scaled, nat list) act" where
  "scaled_decode E M 0 logits cache = ret []"
| "scaled_decode E M (Suc left) logits cache =
     bind (lift_res (argmax (last logits))) (\<lambda>token.
     bind (if left = 0 then ret (logits, cache)
           else bind (scaled_forward E M (vec Int64 [int token]) (Some cache) False False) (\<lambda>(l, c, _). ret (l, c))) (\<lambda>(l, c).
     bind (scaled_decode E M left l c) (\<lambda>rest. ret (token # rest))))"

definition scaled_generate :: "numpy \<Rightarrow> methods \<Rightarrow> ndarray \<Rightarrow> nat \<Rightarrow> (scaled, nat list) act" where
  "scaled_generate E M tokens count =
     (if count < 1 \<or> length (nd_elems tokens) + count > 1024 then raise ValueError
      else bind (scaled_forward E M tokens None False False) (\<lambda>(logits, cache, _). scaled_decode E M count logits cache))"

end
