(* ===== verification/Gpt2Laws.thy ===== *)
theory Gpt2Laws
  imports Gpt2Scaled OffloadLaws Backends
begin

text \<open>
  Laws of the development references: the counters of the saturations, the agreement of the static and
  dynamic metadata with the runtime's, the scores, causality, and the shapes of the caches.
\<close>

section \<open>Counters\<close>

text \<open>No operation changes the weights or, with \<open>b\<close>, counts more clipped elements than elements.\<close>

definition counters_ok :: "bool \<Rightarrow> (string \<times> int list list \<times> f64 list \<times> 'b list) list \<Rightarrow> ('n, 'b, 'z) gpt2_scheme \<Rightarrow> bool" where
  "counters_ok b L s \<longleftrightarrow> md_linears s = L
     \<and> (b \<longrightarrow> (\<forall>name. 0 \<le> md_stats s (name @ ''.clipped'') \<and> md_stats s (name @ ''.clipped'') \<le> md_stats s (name @ ''.elements'')))"

named_theorems counted_intros "keeps (counters_ok b L) of the parts"

lemma last_digit: "last (str_of_nat n) \<noteq> CHR ''d''"
proof (induction n rule: str_of_nat.induct)
  case (1 n)
  have "''0123456789'' ! k \<noteq> CHR ''d''" if "k < 10" for k
    using that by (auto simp: less_Suc_eq numeral_eq_Suc)
  then show ?case by (subst str_of_nat.simps) simp
qed

lemma str_not_empty: "str_of_nat n \<noteq> []"
  by (subst str_of_nat.simps) simp

lemma keeps_tally:
  assumes "key \<noteq> []" "last key \<noteq> CHR ''d''" "0 \<le> n"
  shows "keeps (counters_ok b L) (tally_stat key n :: (('n, 'b, 'z) gpt2_scheme, unit) act)"
proof -
  have "key \<noteq> name @ ''.clipped''" for name using assms(2) by auto
  then show ?thesis using assms(3) unfolding tally_stat_def
    by (intro keeps_modify) (auto simp: counters_ok_def order_trans [of _ "md_stats s k" "md_stats s k + n" for s k])
qed

lemma clipped_bounds: "0 \<le> clipped rows" "clipped rows \<le> int (length (concat rows))"
  by (simp_all add: clipped_def del: filter_concat length_concat)

lemma keeps_narrow [counted_intros]: "keeps (counters_ok b L) (narrow name rows :: (('n, 'b, 'z) gpt2_scheme, int list list) act)"
proof -
  have ne: "a @ ''.clipped'' \<noteq> b @ ''.elements''" for a b :: string by (auto dest: arg_cong [of _ _ last])
  have "counters_ok b L t" if "counters_ok b L s" and l: "md_linears t = md_linears s" and t: "md_stats t = (md_stats s)(name @ ''.elements'' := md_stats s (name @ ''.elements'') + n,
      name @ ''.clipped'' := md_stats s (name @ ''.clipped'') + c)" and c: "0 \<le> c" "c \<le> n"
    for s t :: "('n, 'b, 'z) gpt2_scheme" and n c
    using that ne ne [symmetric] unfolding counters_ok_def l t by (smt (verit) append_same_eq fun_upd_apply)
  then show ?thesis
    using clipped_bounds [of rows] ne [of name name]
    unfolding keeps_def by (auto simp: narrow_def bseq_def bind_def tally_stat_def raise_maximum_def)
qed

lemma keeps_note_maximum [counted_intros]: "keeps (counters_ok b L) (raise_maximum key n :: (('n, 'b, 'z) gpt2_scheme, unit) act)"
  unfolding raise_maximum_def by (intro keeps_modify) (simp add: counters_ok_def)

lemma keeps_suffix [counted_intros]:
  "0 \<le> n \<Longrightarrow> keeps (counters_ok b L) (tally_stat (name @ ''.decomposed_rows'') n :: (('n, 'b, 'z) gpt2_scheme, unit) act)"
  "0 \<le> n \<Longrightarrow> keeps (counters_ok b L) (tally_stat (name @ ''.epsilon_metadata_rows'') n :: (('n, 'b, 'z) gpt2_scheme, unit) act)"
  "0 \<le> n \<Longrightarrow> keeps (counters_ok b L) (tally_stat (name @ ''.gain_decomposed_rows'') n :: (('n, 'b, 'z) gpt2_scheme, unit) act)"
  "0 \<le> n \<Longrightarrow> keeps (counters_ok b L) (tally_stat (name @ ''.intentional_zero_tail_clamps'') n :: (('n, 'b, 'z) gpt2_scheme, unit) act)"
  "0 \<le> n \<Longrightarrow> keeps (counters_ok b L) (tally_stat (name @ ''.elements'') n :: (('n, 'b, 'z) gpt2_scheme, unit) act)"
  "0 \<le> n \<Longrightarrow> keeps (counters_ok b L) (tally_stat (name @ ''.exponent_'' @ str_of_nat e) n :: (('n, 'b, 'z) gpt2_scheme, unit) act)"
  "0 \<le> n \<Longrightarrow> keeps (counters_ok b L) (tally_stat (name @ ''.balance_exponent_'' @ str_of_nat e) n :: (('n, 'b, 'z) gpt2_scheme, unit) act)"
  by (rule keeps_tally; simp add: last_digit str_not_empty)+

lemma keeps_case_prod_app [counted_intros]:
  "(\<And>x y. keeps I (f x y z)) \<Longrightarrow> keeps I ((case p of (x, y) \<Rightarrow> f x y) z)"
  by (simp split: prod.split)

lemmas counted = counted_intros keeps_intros keeps_case_prod keeps_case_option keeps_Let keeps_foldM

lemma keeps_q_affine [counted_intros]: "keeps (counters_ok b L) (q_affine E raw scales bias name :: (('n, 'b, 'z) gpt2_scheme, int list) act)"
  unfolding q_affine_def narrow_row_def by (intro counted_intros counted)

lemma keeps_narrow_row [counted_intros]: "keeps (counters_ok b L) (narrow_row name row :: (('n, 'b, 'z) gpt2_scheme, int list) act)"
  unfolding narrow_row_def by (intro counted_intros counted)

lemma keeps_q_norm [counted_intros]: "keeps (counters_ok b L) (q_norm x name)"
  unfolding q_norm_def by (intro counted_intros counted; simp)

lemma keeps_linear [counted_intros]: "keeps (counters_ok b L) (linear E x name)"
  unfolding linear_def linear_row_def by (intro counted_intros counted)

lemma keeps_q_scores [counted_intros]: "keeps (counters_ok b L) (q_scores E prefix totals scales :: (('n, 'b, 'z) gpt2_scheme, int list) act)"
  unfolding q_scores_def by (intro counted_intros counted)

lemma keeps_scaled_scores [counted_intros]: "keeps (counters_ok b L) (scaled_scores E prefix totals scales :: (('n, 'b, 'z) gpt2_scheme, int list) act)"
  unfolding scaled_scores_def by (intro counted_intros counted; simp)

lemma keeps_attend_all [counted_intros]:
  "(\<And>x y. keeps (counters_ok b L) (f x y)) \<Longrightarrow> keeps (counters_ok b L) (attend_all f E prefix past q k v rows :: (('m, 'b, 'z) gpt2_scheme, int list list) act)"
  unfolding attend_all_def attend_head_def attend_row_def by (intro counted_intros counted)

lemma keeps_embed_rows [counted_intros]: "keeps (counters_ok b L) (embed_rows past tokens :: (('n, 'b, 'z) gpt2_scheme, int list list) act)"
  unfolding embed_rows_def by (intro counted_intros counted)

lemma keeps_q_block [counted_intros]: "keeps (counters_ok b L) (q_block E past cache a layer)"
  unfolding q_block_def by (cases a; simp only: case_prod_conv; intro counted_intros counted)

lemma keeps_q_forward [counted_intros]: "keeps (counters_ok b L) (q_forward E tokens cache all_logits capture)"
  unfolding q_forward_def by (intro counted_intros counted)

lemma keeps_q_decode [counted_intros]: "keeps (counters_ok b L) (q_decode E left logits cache)"
  by (induction left arbitrary: logits cache) (auto intro!: counted_intros counted)

lemma keeps_q_generate: "keeps (counters_ok b L) (q_generate E tokens count)"
  unfolding q_generate_def by (intro counted_intros counted)

lemma keeps_scaled_norm [counted_intros]: "keeps (counters_ok b L) (scaled_norm E x exponent name)"
  unfolding scaled_norm_def scaled_norm_row_def by (intro counted_intros counted; simp)

lemma keeps_affine_rows [counted_intros]: "keeps (counters_ok b L) (affine_rows E x scales name)"
  unfolding affine_rows_def by (intro counted_intros counted)

lemma keeps_smoothing [counted_intros]: "keeps (counters_ok b L) (smoothing_scales name)" "keeps (counters_ok b L) (smoothing_of name)"
  unfolding smoothing_scales_def smoothing_of_def by (intro counted_intros counted)+

lemma keeps_scaled_smooth [counted_intros]: "keeps (counters_ok b L) (scaled_smooth E x name)"
  unfolding scaled_smooth_def by (intro counted_intros counted)

lemma keeps_adaptive_smooth: "keeps (counters_ok b L) (adaptive_smooth E x name)"
  unfolding adaptive_smooth_def by (intro counted_intros counted; simp)

lemma keeps_wide: "keeps (counters_ok b L) (scaled_wide x name)" "keeps (counters_ok b L) (adaptive_wide x name)"
  unfolding adaptive_wide_def scaled_wide_def by (intro conjI counted_intros counted; simp)+

text \<open>What the inherited forward pass relies on: the two methods of a class keep the counters.\<close>

locale counting_methods =
  fixes M :: methods
  assumes keeps_m_smooth: "keeps (counters_ok b L) (m_smooth M E x name)"
    and keeps_m_wide: "keeps (counters_ok b L) (m_wide M y name)"
begin

lemma keeps_m_project: "keeps (counters_ok b L) (scaled_project E M x name residual)"
  unfolding scaled_project_def scaled_project_row_def
  by (intro counted_intros counted keeps_m_smooth keeps_m_wide; simp)

lemma keeps_m_block: "keeps (counters_ok b L) (scaled_block E M past cache capture a layer)"
  unfolding scaled_block_def
  by (cases a; cases "fst a"; simp only: case_prod_conv fst_conv; intro counted_intros counted keeps_m_smooth keeps_m_wide keeps_m_project)

lemma keeps_m_forward: "keeps (counters_ok b L) (scaled_forward E M tokens cache all_logits capture)"
  unfolding scaled_forward_def by (intro counted_intros counted keeps_m_block keeps_m_project)

lemma keeps_m_generate: "keeps (counters_ok b L) (scaled_generate E M tokens count)"
proof -
  have "keeps (counters_ok b L) (scaled_decode E M left logits cache)" for left logits cache
    by (induction left arbitrary: logits cache) (auto intro!: counted_intros counted keeps_m_forward)
  then show ?thesis unfolding scaled_generate_def by (intro counted_intros counted keeps_m_forward)
qed

end

interpretation scaled: counting_methods scaled_methods
  by unfold_locales (simp_all add: scaled_methods_def keeps_scaled_smooth keeps_wide)

interpretation adaptive: counting_methods adaptive_methods
  by unfold_locales (simp_all add: adaptive_methods_def keeps_adaptive_smooth keeps_wide)

section \<open>Metadata and quantisation\<close>

lemma metadata_shift_eq: "metadata_shift c n = affine_shift c n"
  by (induction n) simp_all

lemma int_abs_16: "all_between (-32768) 32768 xs \<Longrightarrow> map int_abs xs = map abs xs"
proof (intro map_cong refl)
  fix x assume "all_between (-32768) 32768 xs" "x \<in> set xs"
  then have "-32768 \<le> x" "x \<le> 32768" by (auto simp: all_between_def)
  then show "int_abs x = \<bar>x\<bar>" unfolding int_abs_def by (intro np_cast_self) auto
qed

lemma dynamic_column_exact:
  assumes "xs \<noteq> []" "all_between (-32768) 32768 xs"
  shows "dynamic_column u xs = Inr (quant_codes xs, quant_unit u xs)"
proof -
  define m where "m = quant_multiplier xs"
  note q = quant_multiplier_range [OF assms, folded m_def]
  have M: "0 \<le> py_max (map abs xs)" using quant_range [OF assms] by simp
  have mult: "(if py_max (map abs xs) = 0 then Inr 0 else rne_div (push_bit 24 127) (py_max (map abs xs))) = Inr m"
    using M by (simp add: m_def quant_multiplier_def Let_def push_bit_eq_mult)
  have prod: "np_cast Int64 (r * m) = r * m" if "r \<in> set xs" for r
  proof -
    have "\<bar>r\<bar> \<le> 32768" using assms(2) that by (auto simp: all_between_def)
    then have "\<bar>r * m\<bar> \<le> 32768 * 2 ^ 31" unfolding abs_mult using q by (intro mult_mono) auto
    then show ?thesis by (intro np_cast_self) (auto simp: abs_le_iff)
  qed
  have "-(2 ^ 63) < r * m" if "r \<in> set xs" for r
  proof -
    have "\<bar>r\<bar> \<le> 32768" using assms(2) that by (auto simp: all_between_def)
    then have "\<bar>r * m\<bar> \<le> 32768 * 2 ^ 31" unfolding abs_mult using q by (intro mult_mono) auto
    then show ?thesis by (auto simp: abs_le_iff)
  qed
  then have "\<not> list_ex (\<lambda>v. v = -(2 ^ 63)) (map (\<lambda>r. r * m) xs)" by (fastforce simp: list_ex_iff)
  moreover have "map2 (\<lambda>r m. np_cast Int64 (r * m)) xs (replicate (length xs) m) = map (\<lambda>r. r * m) xs"
    by (rule nth_equalityI) (simp_all add: prod del: np_cast.simps)
  ultimately have shift: "scaled_shift xs (replicate (length xs) m) 24 = Inr (quant_codes xs)"
    unfolding scaled_shift_def rne_shift_def by (simp add: rne_shift1_eq quant_codes_def m_def comp_def)
  have "map (\<lambda>v. np_cast Int8 (int_clip (-128) 127 v)) (quant_codes xs) = quant_codes xs"
  proof (intro map_idI)
    fix v assume "v \<in> set (quant_codes xs)"
    then have "\<bar>v\<bar> \<le> 127" using q(4) by (auto simp: quant_codes_def m_def)
    then show "np_cast Int8 (int_clip (-128) 127 v) = v" by (subst np_cast_self) (auto simp: int_clip_def)
  qed
  moreover have "(if m = 0 then Fin 1 else fmul (round64 (of_int (2 ^ 24) / of_int m)) u) = quant_unit u xs"
    using q f_int_exact [of m] f_int_exact [of "2 ^ 24"] by (auto simp: quant_unit_def m_def)
  ultimately show ?thesis
    unfolding dynamic_column_def Let_def int_abs_16 [OF assms(2)] mult using assms(1) shift by simp
qed

lemma dynamic_columns_exact:
  assumes "\<And>c. c \<in> set cs \<Longrightarrow> c \<noteq> [] \<and> all_between (-32768) 32768 c"
  shows "dynamic_columns cs u = Inr (map quant_codes cs, map (quant_unit u) cs)"
proof -
  have "rmap (dynamic_column u) cs = Inr (map (\<lambda>c. (quant_codes c, quant_unit u c)) cs)"
    using assms dynamic_column_exact by (intro rmap_total) blast
  then show ?thesis by (simp add: dynamic_columns_def comp_def)
qed

lemma rmap_append: "rmap f (xs @ ys) = rbind (rmap f xs) (\<lambda>as. rbind (rmap f ys) (\<lambda>bs. Inr (as @ bs)))"
  by (induction xs) (auto simp: rbind_assoc split: sum.splits simp: rbind_def)

lemma dynamic_columns_append:
  "dynamic_columns (a @ b) u = rbind (dynamic_columns a u) (\<lambda>(q, s). rbind (dynamic_columns b u) (\<lambda>(q', s'). Inr (q @ q', s @ s')))"
  by (auto simp: dynamic_columns_def rmap_append rbind_def split: sum.splits)

lemma dynamic_columns_length: "dynamic_columns cs u = Inr (q, s) \<Longrightarrow> length q = length cs \<and> length s = length cs"
  by (auto simp: dynamic_columns_def rmap_length)

lemma mapM_act_cong: "(\<And>x. x \<in> set xs \<Longrightarrow> f x = g x) \<Longrightarrow> mapM_act f xs = mapM_act g xs"
  by (induction xs) auto

section \<open>Scores\<close>

lemma exp_negative_clamp:
  assumes "0 \<le> d"
  shows "exp_negative_int (- int_clip (-32768) 0 (- d)) = exp_negative_int d"
  using assms by (cases "d \<le> 32768") (simp_all add: int_clip_def exp_negative_int_def min_def max_def)

section \<open>Shapes\<close>

text \<open>From the states of \<open>I\<close> the action raises, or returns a value of \<open>P\<close> in such a state.\<close>

definition yields :: "('s \<Rightarrow> bool) \<Rightarrow> ('a \<Rightarrow> bool) \<Rightarrow> ('s, 'a) act \<Rightarrow> bool" where
  "yields I P m \<longleftrightarrow> (\<forall>s. I s \<longrightarrow> outcome m s (\<lambda>x t. I t \<and> P x) (\<lambda>_ _. True))"

lemma yields_keeps: "keeps I m \<Longrightarrow> yields I (\<lambda>_. True) m"
  unfolding yields_def by (auto dest: keeps_outcome elim: outcome_mono)

lemma yields_ret: "P x \<Longrightarrow> yields I P (ret x)"
  by (simp add: yields_def outcome_ret)

lemma yields_lift: "(\<And>x. r = Inr x \<Longrightarrow> P x) \<Longrightarrow> yields I P (lift_res r)"
  by (simp add: yields_def outcome_lift split: sum.splits)

lemma yields_mono: "yields I P m \<Longrightarrow> (\<And>x. P x \<Longrightarrow> Q x) \<Longrightarrow> yields I Q m"
  unfolding yields_def by (fastforce elim: outcome_mono)

lemma yields_bind:
  assumes "yields I P m" "\<And>x. P x \<Longrightarrow> yields I Q (f x)"
  shows "yields I Q (bind m f)"
  unfolding yields_def outcome_bind
proof (intro allI impI)
  fix s assume "I s"
  then have "outcome m s (\<lambda>x t. I t \<and> P x) (\<lambda>_ _. True)" using assms(1) by (simp add: yields_def)
  then show "outcome m s (\<lambda>x t. outcome (f x) t (\<lambda>x t. I t \<and> Q x) (\<lambda>_ _. True)) (\<lambda>_ _. True)"
    by (rule outcome_mono) (use assms(2) in \<open>auto simp: yields_def\<close>)
qed

lemma yields_skip: "keeps I m \<Longrightarrow> (\<And>x. yields I Q (f x)) \<Longrightarrow> yields I Q (bind m f)"
  by (rule yields_bind [OF yields_keeps])

lemma yields_mapM:
  assumes "\<And>x. x \<in> set xs \<Longrightarrow> yields I P (f x)"
  shows "yields I (\<lambda>ys. length ys = length xs \<and> list_all P ys) (mapM_act f xs)"
  using assms
proof (induction xs)
  case (Cons x xs)
  show ?case
    by (auto intro!: yields_bind [OF Cons.prems] yields_bind [OF Cons.IH] yields_ret intro: Cons.prems)
qed (simp add: yields_ret)

text \<open>A loop that extends a value step by step.\<close>

lemma yields_foldM:
  assumes "\<And>i a. i < length xs \<Longrightarrow> P i a \<Longrightarrow> yields I (P (Suc i)) (f a (xs ! i))" "P 0 a"
  shows "yields I (P (length xs)) (foldM_act f a xs)"
  using assms
proof (induction xs arbitrary: a P)
  case (Cons x xs)
  have "yields I (P 1) (f a x)" using Cons.prems(1) [of 0 a] Cons.prems(2) by simp
  moreover have "yields I (P (Suc (length xs))) (foldM_act f a' xs)" if "P 1 a'" for a'
    using Cons.IH [of "\<lambda>i. P (Suc i)" a'] Cons.prems(1) [of "Suc _"] that by simp
  ultimately show ?case by (auto intro: yields_bind)
qed (simp add: yields_ret)

text \<open>The parts of the forward pass keep the number of rows; the widths of a projection are its weights'.\<close>

lemma yields_narrow: "yields (counters_ok b L) (\<lambda>rs. map length rs = map length rows) (narrow name rows)"
  unfolding yields_def
proof (intro allI impI)
  fix s assume "counters_ok b L s"
  from keeps_outcome [OF keeps_narrow this]
  show "outcome (narrow name rows) s (\<lambda>rs t. counters_ok b L t \<and> map length rs = map length rows) (\<lambda>_ _. True)"
    by (simp add: outcome_def narrow_def bseq_def bind_def tally_stat_def raise_maximum_def comp_def)
qed

lemma yields_q_affine:
  assumes "length scales = length raw" "length bias = length raw"
  shows "yields (counters_ok b L) (\<lambda>r. length r = length raw) (q_affine E raw scales bias name)"
  unfolding q_affine_def narrow_row_def
proof (rule yields_bind [OF yields_lift [where P = "\<lambda>(mult, shift). length mult = length raw"]], goal_cases)
  case (1 x) then show ?case using assms(1) by (auto simp: affine_metadata_def Let_def split: if_splits)
next
  case (2 x)
  then show ?case
  proof (cases x, simp only: case_prod_conv, rule_tac yields_bind [OF yields_lift [where P = "\<lambda>out. length out = length raw"]], goal_cases)
    case (1 m sh out) then show ?case by (auto simp: scaled_shift_def rne_shift_def split: if_splits)
  next
    case (2 m sh out)
    then show ?case
      using assms(2) by (intro yields_bind [OF yields_narrow] yields_ret) (auto simp: int_add_def)
  qed
qed

definition qkv_widths :: "(string \<times> int list list \<times> f64 list \<times> 'b list) list \<Rightarrow> bool" where
  "qkv_widths L \<longleftrightarrow> list_all (\<lambda>layer. case lookup L (layer_name layer ''attn.c_attn'') of Inl e \<Rightarrow> True
     | Inr (weights, scale, bias) \<Rightarrow> length weights = 2304 \<and> length scale = 2304 \<and> length bias = 2304) [0..<12]"

lemma yields_linear:
  assumes "\<And>w s c. lookup L name = Inr (w, s, c) \<Longrightarrow> P (length w) \<and> length s = length w \<and> length c = length w"
  shows "yields (counters_ok b L) (\<lambda>y. length y = length x \<and> list_all (\<lambda>r. P (length r)) y) (linear E x name)"
proof -
  have rows: "yields (counters_ok b L) (\<lambda>r. P (length r)) (linear_row E w s c name row)"
    if "lookup L name = Inr (w, s, c)" for w s c row
    unfolding linear_row_def
  proof (rule yields_bind [OF yields_lift [where P = "\<lambda>_. True"]], goal_cases)
    case (2 x)
    show ?case using assms [OF that] by (cases x) (auto intro!: yields_mono [OF yields_q_affine])
  qed simp
  have "yields (counters_ok b L) (\<lambda>r. lookup L name = Inr r) (bind (gets md_linears) (\<lambda>ls. lift_res (lookup ls name)))"
    by (auto simp: yields_def outcome_bind outcome_gets outcome_lift counters_ok_def split: sum.splits)
  then show ?thesis
    unfolding linear_def by (rule yields_bind) (auto intro!: yields_mapM rows)
qed

lemma yields_linear_rows: "yields (counters_ok b L) (\<lambda>y. length y = length x) (linear E x name)"
  unfolding linear_def
proof (rule yields_skip, goal_cases)
  case (2 p)
  show ?case
    by (cases p) (auto intro!: yields_mono [OF yields_mapM [where P = "\<lambda>_. True"]] yields_keeps counted_intros counted simp: linear_row_def)
qed (intro counted_intros counted)

lemma yields_q_norm: "yields (counters_ok b L) (\<lambda>y. length y = length x) (q_norm x name)"
proof -
  have *: "length rs = length rows" if "map length rs = map length rows" for rs rows :: "int list list"
    using that map_eq_imp_length_eq by blast
  show ?thesis
    unfolding q_norm_def bseq_def
    by (intro yields_skip counted_intros counted; clarsimp; intro conjI impI yields_lift yields_skip keeps_suffix
        yields_bind [OF yields_lift [where P = "\<lambda>first. length first = length x"]] yields_mono [OF yields_narrow])
      (auto dest: rmap_length map_eq_imp_length_eq)
qed

lemma yields_embed_rows: "yields (counters_ok b L) (\<lambda>y. length y = length tokens) (embed_rows past tokens)"
  unfolding embed_rows_def yields_def outcome_bind outcome_gets outcome_lift
proof (intro allI impI, clarsimp split: sum.splits simp del: rmap.simps, goal_cases)
  case (1 s rows)
  have "outcome (narrow ''embedding'' rows) s (\<lambda>x t. counters_ok b L t \<and> map length x = map length rows) (\<lambda>_ _. True)"
    using yields_narrow 1(1) unfolding yields_def by blast
  then show ?case
  proof (rule outcome_mono, goal_cases)
    case (1 x t)
    then have "length x = length rows" using map_eq_imp_length_eq by blast
    then show ?case using 1 rmap_length [OF \<open>rmap _ _ = Inr rows\<close>] by simp
  qed simp
qed

lemma yields_attend_all:
  assumes "\<And>x y. keeps (counters_ok b L) (f x y)"
  shows "yields (counters_ok b L) (\<lambda>c. length c = rows) (attend_all f E prefix past q k v rows)"
  unfolding attend_all_def attend_head_def attend_row_def
  by (intro yields_skip yields_ret counted_intros counted assms) simp

lemma cache_shape_head_rows:
  assumes "length qkv = n" "list_all (\<lambda>r. length r = 2304) qkv" "base \<in> {0, 768, 1536}"
  shows "cache_shape n (head_rows base qkv)"
  using assms by (auto simp: cache_shape_def head_rows_def head_part_def list_all_iff)

lemma append_cache_shape:
  assumes "append_cache past old k v = Inr (k', v')" "cache_shape n k" "cache_shape n v" "old = None \<Longrightarrow> past = 0"
  shows "cache_shape (past + n) k' \<and> cache_shape (past + n) v'"
proof -
  have "cache_shape (past + n) (map2 (@) a c)" if "cache_shape past a" "cache_shape n c" for a c
    using that by (auto simp: cache_shape_def list_all_length nth_append)
  then show ?thesis using assms by (auto simp: append_cache_def split: option.splits if_splits)
qed

definition grown :: "nat \<Rightarrow> nat \<Rightarrow> nat \<Rightarrow> int list list \<times> (heads \<times> heads) list \<times> trace \<Rightarrow> bool" where
  "grown past n i = (\<lambda>(x, cache, _). length x = n \<and> length cache = i \<and> list_all (\<lambda>(k, v). cache_shape (past + n) k \<and> cache_shape (past + n) v) cache)"

lemma yields_q_block:
  assumes "qkv_widths L" "layer < 12" "grown past n layer a" "cache = None \<Longrightarrow> past = 0"
  shows "yields (counters_ok b L) (grown past n (Suc layer)) (q_block E past cache a layer)"
proof -
  obtain x c t where a: "a = (x, c, t)" by (cases a) auto
  have w: "length w = 2304 \<and> length s = 2304 \<and> length d = 2304" if "lookup L (layer_name layer ''attn.c_attn'') = Inr (w, s, d)" for w s d
    proof -
    have "layer \<in> set [0..<12]" using assms(2) by simp
    then have "case lookup L (layer_name layer ''attn.c_attn'') of Inl e \<Rightarrow> True
     | Inr (weights, scale, bias) \<Rightarrow> length weights = 2304 \<and> length scale = 2304 \<and> length bias = 2304"
      using assms(1) unfolding qkv_widths_def list_all_iff by blast
    then show ?thesis using that by simp
  qed
  have x: "length x = n" using assms(3) by (simp add: grown_def a)
  have shape: "cache_shape (past + n) (fst kv) \<and> cache_shape (past + n) (snd kv)"
    if "append_cache past (map_option (\<lambda>c. c ! layer) cache) (head_rows 768 qkv) (head_rows 1536 qkv) = Inr kv"
      "length qkv = n \<and> list_all (\<lambda>r. length r = 2304) qkv" for qkv kv
    using append_cache_shape [of past "map_option (\<lambda>c. c ! layer) cache" _ _ "fst kv" "snd kv" n] that cache_shape_head_rows assms(4) by auto
  show ?thesis
    unfolding q_block_def a case_prod_conv Let_def
    apply (rule yields_bind [OF yields_q_norm])
    apply (rule yields_bind [OF yields_linear [where P = "\<lambda>n. n = 2304"]], use w in force)
    apply (rule yields_bind [OF yields_lift [where P = "\<lambda>kv. cache_shape (past + n) (fst kv) \<and> cache_shape (past + n) (snd kv)"]],
        use shape x in force)
    apply (simp only: case_prod_beta)
    apply (rule yields_bind [OF yields_attend_all [OF keeps_q_scores]])
    apply (rule yields_bind [OF yields_linear_rows])
    apply (rule yields_bind [OF yields_narrow])
    apply (rule yields_bind [OF yields_q_norm])
    apply (rule yields_bind [OF yields_linear_rows])
    apply (rule yields_bind [OF yields_lift [where P = "\<lambda>g. length g = n"]], use x in \<open>auto dest!: rmap_length map_eq_imp_length_eq\<close>)
    apply (rule yields_bind [OF yields_linear_rows])
    apply (rule yields_bind [OF yields_narrow])
    apply (rule yields_ret)
    using assms(3) by (auto simp: grown_def a dest!: map_eq_imp_length_eq)
qed

lemma yields_q_forward:
  assumes "qkv_widths L"
  shows "yields (counters_ok b L) (\<lambda>(logits, next_cache, _). length logits = (if all_logits then length (nd_elems tokens) else 1)
     \<and> length next_cache = 12 \<and> list_all (\<lambda>(k, v). cache_shape (cached_length cache + length (nd_elems tokens)) k
       \<and> cache_shape (cached_length cache + length (nd_elems tokens)) v) next_cache)
    (q_forward E tokens cache all_logits capture)"
  unfolding q_forward_def Let_def
  apply (rule yields_skip, intro counted_intros counted)
  apply (rule yields_bind [OF yields_embed_rows])
  apply (rule yields_bind [where P = "grown (cached_length cache) (length (nd_elems tokens)) 12"])
   apply (rule yields_foldM [where P = "grown (cached_length cache) (length (nd_elems tokens))" and xs = "[0..<12]", simplified])
    apply (simp add: yields_q_block [OF assms] cached_length_def)
   apply (simp add: grown_def)
  apply (simp only: case_prod_beta)
  apply (rule yields_bind [OF yields_q_norm])
  apply (rule yields_bind [OF yields_linear_rows])
  apply (rule yields_ret)
  by (auto simp: grown_def)

end
