(* ===== verification/Gpt2Props.thy ===== *)
theory Gpt2Props
  imports Gpt2Laws OffloadProps
begin

text \<open>
  What the development references guarantee, and where they agree with the host runtime.
\<close>

section \<open>Counters\<close>

text \<open>C28: The saturation counters are sound: whatever a client generates with any of the three reference
  classes, and whether the call returns or raises, no operation has counted more clipped elements
  than elements, and the weights are unchanged.\<close>

theorem counters_sound:
  "(let ok = (\<lambda>s. \<forall>name. 0 \<le> md_stats s (name @ ''.clipped'') \<and> md_stats s (name @ ''.clipped'') \<le> md_stats s (name @ ''.elements'')) in
    \<forall>s \<in> {s. ok s}. ok (snd (q_generate E tokens count s)) \<and> md_linears (snd (q_generate E tokens count s)) = md_linears s)
   \<and> (let ok = (\<lambda>s. \<forall>name. 0 \<le> md_stats s (name @ ''.clipped'') \<and> md_stats s (name @ ''.clipped'') \<le> md_stats s (name @ ''.elements'')) in
    \<forall>M \<in> {scaled_methods, adaptive_methods}. \<forall>s \<in> {s. ok s}. ok (snd (scaled_generate E M tokens count s))
      \<and> md_linears (snd (scaled_generate E M tokens count s)) = md_linears s)"
proof -
  have "counters_ok True (md_linears s) (snd (q_generate E tokens count s))" if "counters_ok True (md_linears s) s" for s
    using keeps_q_generate that by (rule keepsD)
  moreover have "counters_ok True (md_linears s) (snd (scaled_generate E M tokens count s))"
    if "counters_ok True (md_linears s) s" "M \<in> {scaled_methods, adaptive_methods}" for s M
    using keepsD [OF scaled.keeps_m_generate that(1)] keepsD [OF adaptive.keeps_m_generate that(1)] that(2) by blast
  ultimately show ?thesis unfolding Let_def counters_ok_def by blast
qed

theorem counters_sound_witness:
  "md_stats (snd (q_generate \<lparr>np_log2 = (\<lambda>x. x), np_wild = (\<lambda>_. 0)\<rparr> (vec Int64 [1]) 1 blank)) (''x'' @ ''.clipped'')
    \<le> md_stats (snd (q_generate \<lparr>np_log2 = (\<lambda>x. x), np_wild = (\<lambda>_. 0)\<rparr> (vec Int64 [1]) 1 blank)) (''x'' @ ''.elements'')"
proof -
  have "blank \<in> {s :: quantized. \<forall>name. 0 \<le> md_stats s (name @ ''.clipped'') \<and> md_stats s (name @ ''.clipped'') \<le> md_stats s (name @ ''.elements'')}"
    by (simp add: blank_def)
  then show ?thesis
    using counters_sound [of "\<lparr>np_log2 = (\<lambda>x. x), np_wild = (\<lambda>_. 0)\<rparr>" "vec Int64 [1]" 1, unfolded Let_def] by blast
qed

section \<open>Agreement with the runtime\<close>

text \<open>The static metadata agree: on every list of scales the development reference and the host runtime
  reject together or find the same shift and multipliers, which the runtime holds as int32.\<close>

theorem metadata_agree:
  "affine_parameters E c = rbind (affine_metadata E c) (\<lambda>(mult, shift). Inr (map (np_cast Int32) mult, shift))"
  by (simp add: affine_parameters_def affine_metadata_def metadata_shift_eq Let_def)

text \<open>The dynamic quantisation agrees: for every int16-range matrix of at most 3072 rows, the runtime on
  the CPU backend, through packets, gives the codes and the units that the development reference
  computes directly.\<close>

theorem dynamic_columns_is_runtime:
  assumes "seed_ok sqrtl" "is_matrix n c rows" "1 \<le> n" "n \<le> 3072" "1 \<le> c"
    and "\<forall>row\<in>set rows. all_between (-32768) 32768 row"
  shows "\<exists>q units t. dynamic_columns (transp c rows) u = Inr (q, units)
     \<and> requant_columns (CpuBackend sqrtl) rows u s = (Inr (transp n q, units), t)"
proof -
  have "column rows j \<noteq> [] \<and> all_between (-32768) 32768 (column rows j)" if "j < c" for j
    using assms(2,3,6) that by (auto simp: column_def is_matrix_def all_between_def)
  then have "dynamic_columns (transp c rows) u = Inr (map (\<lambda>j. quant_codes (column rows j)) [0..<c], map (\<lambda>j. quant_unit u (column rows j)) [0..<c])"
    by (subst dynamic_columns_exact) (auto simp: transp_def comp_def)
  moreover have "column_codes rows c = transp n (map (\<lambda>j. quant_codes (column rows j)) [0..<c])"
    using assms(2) by (simp add: column_codes_def is_matrix_def)
  ultimately show ?thesis
    using packet_backend.requant_columns_exact [OF CpuBackend_provides [OF assms(1)] assms(2-6), of u] by (auto simp: gives_def)
qed

theorem dynamic_columns_is_runtime_witness:
  "\<forall>s. \<exists>q units t. dynamic_columns (transp 2 [[1, -2], [3, 4], [5, 0]]) (Fin (1 / 256)) = Inr (q, units)
     \<and> requant_columns (CpuBackend rounded_seed) [[1, -2], [3, 4], [5, 0]] (Fin (1 / 256)) s = (Inr (transp 3 q, units), t)"
  by (intro allI dynamic_columns_is_runtime rounded_seed_ok) (simp_all add: is_matrix_def all_between_def)

section \<open>Scores\<close>

text \<open>C30: Centering the scores loses nothing: the int16 scores have maximum 0, and although far negative
  tails are clamped, the softmax of the clamped scores is the softmax of the exact rounded scores
  with their own maximum.\<close>

theorem scores_keep_softmax:
  assumes "scaled_scores E prefix totals scales s = (Inr scores, t)"
    and "totals \<noteq> []" "length scales = length totals" "length totals \<le> 1024"
  shows "\<exists>mult shift raw. affine_metadata E scales = Inr (mult, shift) \<and> scaled_shift totals mult (int shift) = Inr raw
     \<and> py_max scores = 0
     \<and> softmax_int (vec Int16 scores) (vec Bool (replicate (length scores) 1))
       = rbind (rmap (\<lambda>r. exp_negative_int (py_max raw - r)) raw) (\<lambda>weights.
         rbind (normalize_weights weights) (\<lambda>q. Inr (vec UInt16 q)))"
proof -
  obtain mult shift raw where m: "affine_metadata E scales = Inr (mult, shift)" "scaled_shift totals mult (int shift) = Inr raw"
    and sc: "scores = map (\<lambda>v. np_cast Int16 (int_clip (-32768) 0 (v - py_max raw))) raw"
    using assms(1) by (auto simp: scaled_scores_def Let_def bind_def bseq_def tally_stat_def raise_maximum_def comp_def
        split: sum.splits if_splits)
  have "length mult = length scales" using m(1) by (auto simp: affine_metadata_def Let_def split: if_splits)
  then have len: "length raw = length totals" using m(2) assms(3) by (auto simp: scaled_shift_def rne_shift_def split: if_splits)
  then have ne: "raw \<noteq> []" using assms(2) by auto
  define M where "M = py_max raw"
  have le: "r \<le> M" if "r \<in> set raw" for r using that by (simp add: M_def py_max_ge)
  have eq: "scores = map (\<lambda>v. int_clip (-32768) 0 (v - M)) raw"
    unfolding sc M_def [symmetric] by (intro map_cong refl np_cast_self) (auto simp: int_clip_def)
  have r16: "-32768 \<le> v \<and> v \<le> 0" if "v \<in> set scores" for v using that by (auto simp: eq int_clip_def)
  have "0 \<in> set scores" using py_max_in [OF ne] unfolding eq M_def by (force simp: int_clip_def)
  moreover have "py_max scores \<in> set scores" using ne by (intro py_max_in) (simp add: eq)
  ultimately have max0: "py_max scores = 0" using r16 py_max_ge [of 0 scores] by force
  have i16: "map (np_cast Int16) scores = scores" by (intro map_idI np_cast_self) (use r16 in force)
  have chk: "checked_vector (vec Int16 scores) MAX_SOFTMAX (-32768) 32767 = Inr scores"
  proof -
    have "length scores = length totals" "1 \<le> length totals" using len assms(2) by (simp_all add: eq Suc_leI)
    moreover have "\<not> list_ex (\<lambda>v. v < -32768) scores" "\<not> list_ex (\<lambda>v. v > 32767) scores" using r16 by (force simp: list_ex_iff)+
    ultimately show ?thesis using assms(4) by (simp add: checked_vector_def i16 MAX_SOFTMAX_def np_integer_def)
  qed
  have all: "filter snd (zip scores (replicate (length scores) True)) = zip scores (replicate (length scores) True)"
    by (auto simp: filter_id_conv in_set_zip)
  have w: "rmap (\<lambda>(raw, keep). if keep then exp_negative_int (0 - raw) else Inr 0) (zip scores (replicate (length scores) True))
      = rmap (\<lambda>r. exp_negative_int (M - r)) raw"
  proof -
    have "rmap (\<lambda>(raw, keep). if keep then exp_negative_int (0 - raw) else Inr 0) (zip (map f xs) (replicate (length xs) True))
        = rmap (\<lambda>r. exp_negative_int (M - r)) xs"
      if "\<And>x. x \<in> set xs \<Longrightarrow> exp_negative_int (- f x) = exp_negative_int (M - x)" for f and xs :: "int list"
      using that by (induction xs) auto
    moreover have "exp_negative_int (- int_clip (-32768) 0 (x - M)) = exp_negative_int (M - x)" if "x \<in> set raw" for x
      using exp_negative_clamp [of "M - x"] le [OF that] by simp
    ultimately show ?thesis unfolding eq by simp
  qed
  have mask: "map (\<lambda>v. v \<noteq> 0) (nd_elems (vec Bool (replicate (length scores) 1))) = replicate (length scores) True"
    by (simp add: map_replicate_const vec_def map_replicate)
  have ones: "True \<in> set (replicate (length scores) True)" using ne by (simp add: eq)
  have shape: "nd_dtype (vec Bool (replicate (length scores) 1)) = Bool" "nd_shape (vec Bool (replicate (length scores) 1)) = [length scores]"
    by (simp_all add: vec_def)
  have fst_zip: "map fst (zip scores (replicate (length scores) True)) = scores" by simp
  have "softmax_int (vec Int16 scores) (vec Bool (replicate (length scores) 1))
       = rbind (rmap (\<lambda>r. exp_negative_int (M - r)) raw) (\<lambda>weights. rbind (normalize_weights weights) (\<lambda>q. Inr (vec UInt16 q)))"
    unfolding softmax_int_def chk rbind_simps Let_def mask all fst_zip max0 w using ones shape by simp
  then show ?thesis using m max0 unfolding M_def by blast
qed

lemma half_scales: "affine_metadata E [Fin (1/2), Fin (1/2)] = Inr ([1073741824, 1073741824], 31)"
proof -
  have r: "round64 1073741824 = Fin 1073741824" using f_int_exact [of 1073741824] by (simp add: f_int_def)
  have i: "rne_rat 1073741824 = 1073741824" by (simp add: rne_rat_def Let_def)
  have "metadata_shift [Fin (1/2), Fin (1/2)] (Suc 30) = Suc 30"
    by (simp only: metadata_shift.simps) (simp add: r i fle_def feq_def)
  then have s: "metadata_shift [Fin (1/2), Fin (1/2)] 31 = 31" by simp
  show ?thesis unfolding affine_metadata_def s Let_def by (simp add: r i f_cast_def is_finite_def)
qed

lemma half_scores: "\<exists>t. scaled_scores E prefix [-200000, 4] [Fin (1/2), Fin (1/2)] s = (Inr [-32768, 0], t)"
proof -
  have "scaled_shift [-200000, 4] [1073741824, 1073741824] 31 = Inr [-100000, 2]" by code_simp
  then show ?thesis
    by (simp add: scaled_scores_def half_scales Let_def bind_def bseq_def tally_stat_def raise_maximum_def int_clip_def int_abs_def)
qed

theorem scores_keep_softmax_witness:
  "softmax_int (vec Int16 [-32768, 0]) (vec Bool [1, 1])
     = rbind (rmap (\<lambda>r. exp_negative_int (2 - r)) [-100000, 2]) (\<lambda>weights. rbind (normalize_weights weights) (\<lambda>q. Inr (vec UInt16 q)))"
proof -
  define E :: numpy where "E = \<lparr>np_log2 = (\<lambda>x. x), np_wild = (\<lambda>_. 0)\<rparr>"
  obtain t where t: "scaled_scores E [] [-200000, 4] [Fin (1/2), Fin (1/2)] (blank :: quantized) = (Inr [-32768, 0], t)" using half_scores by blast
  have "scaled_shift [-200000, 4] [1073741824, 1073741824] 31 = Inr [-100000, 2]" by code_simp
  then show ?thesis using scores_keep_softmax [OF t] by (simp add: half_scales numeral_2_eq_2 del: rmap.simps)
qed
section \<open>Causality\<close>

text \<open>C29: Attention is causal: queries at the positions \<open>past\<close>, \<open>past + 1\<close>, \dots see only the keys and values up to
  their own position, so any later int16 keys and later values leave the result, the counters and the errors of a
  head as they are, whatever the score step is.\<close>

theorem attention_causal:
  assumes "past + length q \<le> length k" "length v = length k"
    and "\<forall>row\<in>set later. row \<noteq> [] \<and> all_between (-32768) 32768 row"
  shows "attend_head score_step E prefix past q (k @ later) (v @ values') s = attend_head score_step E prefix past q k v s"
proof (cases "dynamic_columns k (Fin (1 / 256))")
  case (Inl e)
  then show ?thesis by (simp add: attend_head_def dynamic_columns_append bind_def)
next
  case (Inr r)
  obtain k8 sk where r: "r = (k8, sk)" by fastforce
  have n: "length k8 = length k" "length sk = length k" using dynamic_columns_length Inr r by blast+
  have "attend_row score_step E prefix (k8 @ a) (sk @ b) (v @ values') (past + i + 1) row
      = attend_row score_step E prefix k8 sk v (past + i + 1) row" if "(i, row) \<in> set (enumerate 0 q)" for i row a b
  proof -
    have "past + i + 1 \<le> length k" using that assms(1) by (auto simp: in_set_enumerate_eq)
    then show ?thesis using n assms(2) by (simp add: attend_row_def)
  qed
  then have same: "mapM_act (\<lambda>(i, row). attend_row score_step E prefix (k8 @ a) (sk @ b) (v @ values') (past + i + 1) row) (enumerate 0 q)
      = mapM_act (\<lambda>(i, row). attend_row score_step E prefix k8 sk v (past + i + 1) row) (enumerate 0 q)" for a b
    by (intro mapM_act_cong) auto
  show ?thesis
    using dynamic_columns_exact [of later "Fin (1 / 256)"] assms(3)
    by (simp add: attend_head_def dynamic_columns_append Inr r same [simplified] bind_def)
qed

theorem attention_causal_witness:
  "\<forall>E p s. attend_head (q_scores E p) E p 1 [[3, 4]] ([[1, 2], [5, -6]] @ [[700, -32768]]) ([[1, 1], [2, 2]] @ [[9, 9]]) s
   = attend_head (q_scores E p) E p 1 [[3, 4]] [[1, 2], [5, -6]] [[1, 1], [2, 2]] s"
  by (intro allI attention_causal) (simp_all add: all_between_def)

section \<open>Shapes\<close>

text \<open>C27: The caches are typed: with query, key and value projections of 2304 columns, a forward pass that
  returns has one row of logits per token asked for, and twelve layers whose keys and values are twelve heads of
  64 numbers for each of the cached positions and the new ones; the projections stay as they are.\<close>

theorem caches_grow:
  assumes "qkv_widths (md_linears s)"
  shows "case q_forward E tokens cache all_logits capture s of
      (Inl e, t) \<Rightarrow> md_linears t = md_linears s
    | (Inr (logits, next_cache, _), t) \<Rightarrow> md_linears t = md_linears s
        \<and> length logits = (if all_logits then length (nd_elems tokens) else 1) \<and> length next_cache = 12
        \<and> list_all (\<lambda>(k, v). cache_shape (cached_length cache + length (nd_elems tokens)) k
             \<and> cache_shape (cached_length cache + length (nd_elems tokens)) v) next_cache"
proof -
  have s: "counters_ok False (md_linears s) s" by (simp add: counters_ok_def)
  have "counters_ok False (md_linears s) (snd (q_forward E tokens cache all_logits capture s))"
    using keeps_q_forward s by (rule keepsD)
  moreover note yields_q_forward [OF assms, of False all_logits tokens cache E capture, unfolded yields_def, rule_format, OF s]
  ultimately show ?thesis
    by (auto simp: outcome_def counters_ok_def split: prod.splits sum.splits)
qed

lemma lookup_const: "lookup (map (\<lambda>i. (f i, a)) ns) x = (if x \<in> f ` set ns then Inr a else Inl KeyError)"
  by (induction ns) (auto simp: lookup_def)

theorem caches_grow_witness:
  "\<forall>E. case q_forward E (vec Int64 [15496, 995]) None False False
      (blank\<lparr>md_linears := map (\<lambda>i. (layer_name i ''attn.c_attn'', replicate 2304 [], replicate 2304 (Fin 1), replicate 2304 0)) [0..<12]\<rparr>) of
      (Inl e, t) \<Rightarrow> length (md_linears t) = 12
    | (Inr (logits, next_cache, _), t) \<Rightarrow> length logits = 1 \<and> length next_cache = 12
        \<and> list_all (\<lambda>(k, v). cache_shape 2 k \<and> cache_shape 2 v) next_cache"
proof
  fix E
  define s :: quantized where "s = blank\<lparr>md_linears := map (\<lambda>i. (layer_name i ''attn.c_attn'', replicate 2304 [], replicate 2304 (Fin 1), replicate 2304 0)) [0..<12]\<rparr>"
  have "qkv_widths (md_linears s)" 
    unfolding s_def qkv_widths_def list_all_iff
    by (simp add: lookup_const [of "\<lambda>i. layer_name i ''attn.c_attn''" "(replicate 2304 [], replicate 2304 (Fin 1), replicate 2304 0)"])
  from caches_grow [OF this, where E = E and tokens = "vec Int64 [15496, 995]" and cache = None and all_logits = False and capture = False]
  show "case q_forward E (vec Int64 [15496, 995]) None False False
      (blank\<lparr>md_linears := map (\<lambda>i. (layer_name i ''attn.c_attn'', replicate 2304 [], replicate 2304 (Fin 1), replicate 2304 0)) [0..<12]\<rparr>) of
      (Inl e, t) \<Rightarrow> length (md_linears t) = 12
    | (Inr (logits, next_cache, _), t) \<Rightarrow> length logits = 1 \<and> length next_cache = 12
        \<and> list_all (\<lambda>(k, v). cache_shape 2 k \<and> cache_shape 2 v) next_cache"
    unfolding s_def [symmetric]
    by (auto simp: cached_length_def s_def numeral_2_eq_2 split: prod.splits sum.splits)
qed

end
