(* ===== verification/Board.thy ===== *)
theory Board
  imports PyText M5Arena "HOL-Library.AList"
begin

text \<open>
  The board as the runners of the autonomous firmware see it: the DMA driver's device file, its
  mappings, the cluster's memory window, the clock and the files. All of it is hardware, kernel or
  library: the record \<open>'w board\<close> of operations on a world \<open>'w\<close>, and the record \<open>host\<close> of what the
  machine's files and hashes answer. An arena is the world with the mappings made so far; a mapping
  is its offset and size in the arena, its bytes live in the world, where the device changes them.
\<close>

section \<open>Interfaces\<close>

record 'w board =
  bd_ioctl :: "int \<Rightarrow> int list \<Rightarrow> ('w, unit) act"
  bd_info :: "('w, int list) act"
  bd_mmap :: "int \<Rightarrow> int \<Rightarrow> ('w, unit) act"
  bd_munmap :: "int \<Rightarrow> int \<Rightarrow> 'w \<Rightarrow> 'w"
  bd_close :: "('w, unit) act"
  bd_load :: "int \<Rightarrow> nat \<Rightarrow> 'w \<Rightarrow> int list \<times> 'w"
  bd_store :: "int \<Rightarrow> int list \<Rightarrow> 'w \<Rightarrow> 'w"
  bd_clock :: "'w \<Rightarrow> f64 \<times> 'w"
  bd_sleep :: "'w \<Rightarrow> 'w"
  bd_overlay :: "string \<Rightarrow> ('w, unit) act"
  bd_poke :: "int list \<Rightarrow> 'w \<Rightarrow> 'w"
  bd_peek :: "nat \<Rightarrow> nat \<Rightarrow> 'w \<Rightarrow> int list \<times> 'w"
  bd_meminfo :: "('w, string) act"
  bd_rss :: "'w \<Rightarrow> int \<times> 'w"
  bd_platform :: "string \<times> string"

text \<open>\<open>ho_sha\<close> is the hexadecimal SHA-256 of bytes, \<open>ho_sha_f8\<close> that of the \<open>'<f8'\<close> bytes of floats,
  \<open>ho_array\<close> a \<open>.npy\<close> file as shape and elements.\<close>

record host =
  ho_files :: files
  ho_bytes :: "string \<Rightarrow> int list res"
  ho_sha :: "int list \<Rightarrow> string"
  ho_sha_f8 :: "f64 list \<Rightarrow> string"
  ho_array :: "string \<Rightarrow> (nat list \<times> f64 list) res"
  ho_repr :: "py \<Rightarrow> string"

record 'w arena =
  ar_world :: 'w
  ar_maps :: "(string \<times> int \<times> int) list"
  ar_partial :: "py option"

abbreviation world :: "('w, 'a) act \<Rightarrow> (('w, 'z) arena_scheme, 'a) act" where
  "world \<equiv> zoom_res ar_world (\<lambda>w s. s\<lparr>ar_world := w\<rparr>)"

abbreviation world_get :: "('w \<Rightarrow> 'a \<times> 'w) \<Rightarrow> (('w, 'z) arena_scheme, 'a) act" where
  "world_get \<equiv> zoom ar_world (\<lambda>w s. s\<lparr>ar_world := w\<rparr>)"

abbreviation world_do :: "('w \<Rightarrow> 'w) \<Rightarrow> (('w, 'z) arena_scheme, unit) act" where
  "world_do f \<equiv> modify (\<lambda>s. s\<lparr>ar_world := f (ar_world s)\<rparr>)"

section \<open>Mapped memory\<close>

definition mapping :: "string \<Rightarrow> (('w, 'z) arena_scheme, int \<times> int) act" where
  "mapping name = bind (gets (\<lambda>s. map_of (ar_maps s) name)) (\<lambda>m. case m of Some x \<Rightarrow> ret x | None \<Rightarrow> raise KeyError)"

text \<open>Bytes of a mapping; reading or writing past its end is an error of the caller's kind.\<close>

definition load :: "'w board \<Rightarrow> exn \<Rightarrow> string \<Rightarrow> nat \<Rightarrow> nat \<Rightarrow> (('w, 'z) arena_scheme, int list) act" where
  "load D e name start n = bind (mapping name) (\<lambda>(base, size'). bseq (require (int (start + n) \<le> size') e)
     (world_get (bd_load D (base + int start) n)))"

definition deposit :: "'w board \<Rightarrow> exn \<Rightarrow> string \<Rightarrow> nat \<Rightarrow> int list \<Rightarrow> (('w, 'z) arena_scheme, unit) act" where
  "deposit D e name start bs = bind (mapping name) (\<lambda>(base, size'). bseq (require (int (start + length bs) \<le> size') e)
     (world_do (bd_store D (base + int start) bs)))"

text \<open>\<open>struct.unpack_from('<nI', m, start)\<close> and \<open>struct.pack_into('<nI', m, start, ...)\<close>.\<close>

definition unpack_u32 :: "'w board \<Rightarrow> string \<Rightarrow> nat \<Rightarrow> nat \<Rightarrow> (('w, 'z) arena_scheme, int list) act" where
  "unpack_u32 D name start n = bind (load D StructError name start (4 * n)) (\<lambda>bs. ret (view_words bs))"

definition pack_u32 :: "'w board \<Rightarrow> string \<Rightarrow> nat \<Rightarrow> int list \<Rightarrow> (('w, 'z) arena_scheme, unit) act" where
  "pack_u32 D name start vs = bseq (require (list_all (in_dtype UInt32) vs) StructError) (deposit D StructError name start (view_bytes vs))"

text \<open>\<open>m[:] = zeros\<close>, and all bytes of a mapping.\<close>

definition clear :: "'w board \<Rightarrow> string \<Rightarrow> (('w, 'z) arena_scheme, unit) act" where
  "clear D name = bind (mapping name) (\<lambda>(base, size'). deposit D IndexError name 0 (replicate (nat size') 0))"

definition contents :: "'w board \<Rightarrow> string \<Rightarrow> (('w, 'z) arena_scheme, int list) act" where
  "contents D name = bind (mapping name) (\<lambda>(base, size'). load D IndexError name 0 (nat size'))"

section \<open>Values\<close>

definition int_val :: "py \<Rightarrow> int res" where
  "int_val x = (case to_int x of Some n \<Rightarrow> Inr n | None \<Rightarrow> Inl TypeError)"

definition ints :: "py res \<Rightarrow> int list res" where
  "ints x = rbind (iter x) (rmap int_val)"

definition int_fld :: "py \<Rightarrow> string \<Rightarrow> int res" where
  "int_fld x k = rbind (fld (V x) k) int_val"

definition str_fld :: "host \<Rightarrow> py \<Rightarrow> string \<Rightarrow> string res" where
  "str_fld H x k = rbind (fld (V x) k) (\<lambda>v. Inr (py_str (ho_repr H) v))"

definition int_list :: "int list \<Rightarrow> py" where
  "int_list ns = PyList (map PyInt ns)"

definition as_int16 :: "int list \<Rightarrow> int list" where
  "as_int16 bs = map (\<lambda>i. np_cast Int16 (bs ! (2 * i) + 256 * bs ! (2 * i + 1))) [0..<length bs div 2]"

text \<open>\<open>np.ldexp(v, e) / 256.0\<close>, and a 64-bit counter of two words.\<close>

definition logical :: "int \<Rightarrow> int \<Rightarrow> f64" where
  "logical v e = fdiv (round64 (of_int v * 2 powi e)) (Fin 256)"

definition u64 :: "int \<Rightarrow> int \<Rightarrow> int" where
  "u64 low high = low OR push_bit 32 high"

end
