(* ===== verification/M5Run.thy ===== *)
theory M5Run
  imports Board
begin

text \<open>
  The physical acceptance runner of \<open>zynq/m5_run.py\<close>: the arena and its mappings, loading of the model
  and of the firmware, the digest of the valid KV cache, the trace checks, the boundary rejection, a
  request with all its checks, and the campaign with its clean-up. Reports are Python dictionaries
  (\<open>py\<close>); exception messages are not kept, only the class. The polling loops carry fuel.
\<close>

definition ARENA_TOTAL :: int where "ARENA_TOTAL = 0x10000000"
definition PAGE :: int where "PAGE = 4096"
definition CLUSTER_BASE :: int where "CLUSTER_BASE = 0x43C00000"
definition CLUSTER_BYTES :: int where "CLUSTER_BYTES = 0x20000"
definition WORK_PROMPT :: nat where "WORK_PROMPT = 0x1000"
definition WORK_GENERATED :: nat where "WORK_GENERATED = 0x2000"
definition TRACE_LOGITS :: nat where "TRACE_LOGITS = 0x3000"
definition TRACE_RECORDS :: nat where "TRACE_RECORDS = 0x1C000"
definition CONTROL_MAGIC :: int where "CONTROL_MAGIC = 0x35545250"
definition TRACE_MAGIC :: int where "TRACE_MAGIC = 0x35435254"
definition FABRIC_HZ :: int where "FABRIC_HZ = 91000000"
definition IOC_WRITE :: int where "IOC_WRITE = 1"
definition IOC_READ :: int where "IOC_READ = 2"

definition ioc :: "int \<Rightarrow> int \<Rightarrow> int \<Rightarrow> int" where
  "ioc direction number bytes = push_bit 30 direction OR push_bit 8 80 OR number OR push_bit 16 bytes"

definition IOC_ALLOC :: int where "IOC_ALLOC = ioc IOC_WRITE 1 16"
definition IOC_INFO :: int where "IOC_INFO = ioc IOC_READ 2 32"
definition IOC_PREPARE :: int where "IOC_PREPARE = ioc 0 3 0"
definition IOC_START :: int where "IOC_START = ioc 0 4 0"
definition IOC_RETURN :: int where "IOC_RETURN = ioc 0 5 0"

definition TRACE_NAMES :: "int \<Rightarrow> string option" where
  "TRACE_NAMES kind = map_of [(1, ''embedding''), (3, ''qkv''), (4, ''context''), (9, ''output'')] kind"

section \<open>Observations\<close>

definition memory_keys :: "string list" where
  "memory_keys = [''MemTotal'', ''MemFree'', ''MemAvailable'', ''CmaTotal'', ''CmaFree'', ''SwapTotal'', ''SwapFree'']"

definition meminfo_line :: "string \<Rightarrow> (string \<times> string) res" where
  "meminfo_line line = (if CHR '':'' \<in> set line
     then Inr (takeWhile (\<lambda>c. c \<noteq> CHR '':'') line, tl (dropWhile (\<lambda>c. c \<noteq> CHR '':'') line)) else Inl ValueError)"

definition meminfo_values :: "string \<Rightarrow> (py \<times> py) list res" where
  "meminfo_values text' =
     rbind (rmap meminfo_line (splitlines text')) (\<lambda>ls.
       rfold (\<lambda>d (k, v). rbind (seq_item (split v) 0) (\<lambda>w. rbind (parse_int w) (\<lambda>n. Inr (dict_put d (PyStr k) (PyInt n)))))
         [] (filter (\<lambda>(k, v). k \<in> set memory_keys) ls))"

definition memory_observation :: "'w board \<Rightarrow> (('w, 'z) arena_scheme, py) act" where
  "memory_observation D =
     bind (world (bd_meminfo D)) (\<lambda>t. bind (lift_res (meminfo_values t)) (\<lambda>d. bind (world_get (bd_rss D)) (\<lambda>rss.
       ret (PyDict (dict_put d (PyStr ''process_peak_rss_kib'') (PyInt rss))))))"

section \<open>The arena\<close>

definition ioctl :: "'w board \<Rightarrow> int \<Rightarrow> (('w, 'z) arena_scheme, unit) act" where
  "ioctl D request = world (bd_ioctl D request [])"

definition info_fields :: "string list" where
  "info_fields = [''abi'', ''arena_bytes'', ''pte_dma'', ''allocated_pages'', ''owner'', ''status'', ''control'', ''reserved'']"

text \<open>The eight words of the driver's answer.\<close>

definition info :: "'w board \<Rightarrow> (('w, 'z) arena_scheme, int list) act" where
  "info D = bind (world (bd_info D)) (\<lambda>raw. if length raw \<noteq> 32 then raise StructError else ret (view_words raw))"

definition info_dict :: "int list \<Rightarrow> py" where
  "info_dict ws = PyDict (map2 (\<lambda>k v. (PyStr k, PyInt v)) info_fields ws)"

definition allocate_region :: "'w board \<Rightarrow> host \<Rightarrow> py \<Rightarrow> (('w, 'z) arena_scheme, unit) act" where
  "allocate_region D H region =
     bind (lift_res (int_fld region ''permissions'')) (\<lambda>permissions.
       if permissions = 0 then ret ()
       else bind (lift_res (int_fld region ''offset'')) (\<lambda>offset. bind (lift_res (int_fld region ''bytes'')) (\<lambda>bytes.
         let flags = of_bool (permissions AND 2 \<noteq> 0) in
         bseq (require (list_all (in_dtype UInt32) [offset, bytes, flags]) StructError)
        (bseq (\<lambda>s. case world (bd_ioctl D IOC_ALLOC (view_bytes [offset, bytes, flags, 0])) s of
                 (Inl e, s') \<Rightarrow> (if e = OSError then bind (info D) (\<lambda>_. raise RuntimeError) s' else (Inl e, s'))
               | (Inr _, s') \<Rightarrow> (Inr (), s'))
        (bseq (world (bd_mmap D bytes offset))
        (bind (lift_res (str_fld H region ''name'')) (\<lambda>name.
           modify (\<lambda>s. s\<lparr>ar_maps := AList.update name (offset, bytes) (ar_maps s)\<rparr>))))))))"

definition allocate :: "'w board \<Rightarrow> host \<Rightarrow> py \<Rightarrow> (('w, 'z) arena_scheme, unit) act" where
  "allocate D H layout = bind (lift_res (iter (fld (V layout) ''regions''))) (for_each (allocate_region D H))"

definition close_arena :: "'w board \<Rightarrow> (('w, 'z) arena_scheme, unit) act" where
  "close_arena D =
     bind (gets ar_maps) (\<lambda>maps. bseq (for_each (\<lambda>(name, base, n). world_do (bd_munmap D base n)) maps)
       (bseq (modify (\<lambda>s. s\<lparr>ar_maps := []\<rparr>)) (world (bd_close D))))"

section \<open>Loading\<close>

fun load_chunks :: "'w board \<Rightarrow> string \<Rightarrow> int list list \<Rightarrow> nat \<Rightarrow> (('w, 'z) arena_scheme, nat) act" where
  "load_chunks D name [] cursor = ret cursor"
| "load_chunks D name (c # cs) cursor =
     bseq (deposit D IndexError name cursor c) (load_chunks D name cs (cursor + length c))"

definition load_model :: "'w board \<Rightarrow> host \<Rightarrow> string \<Rightarrow> string \<Rightarrow> string \<Rightarrow> (('w, 'z) arena_scheme, string) act" where
  "load_model D H name source expected =
     bind (lift_res (ho_bytes H source)) (\<lambda>bs.
     bind (load_chunks D name (chunks bs) 0) (\<lambda>cursor.
     bind (mapping name) (\<lambda>(base, mapped). let actual = ho_sha H bs in
       bseq (require (int cursor = mapped) RuntimeError) (bseq (require (actual = expected) RuntimeError) (ret actual)))))"

definition load_firmware :: "'w board \<Rightarrow> host \<Rightarrow> string \<Rightarrow> (('w, 'z) arena_scheme, string) act" where
  "load_firmware D H p =
     bind (lift_res (ho_bytes H p)) (\<lambda>image.
       if length image \<noteq> 65536 \<or> length image mod 4 \<noteq> 0 then raise RuntimeError
       else let words = view_words image in
         bseq (world_do (bd_poke D words))
        (bind (world_get (bd_peek D 0 (length words))) (\<lambda>back.
         bseq (require (view_bytes back = image) RuntimeError) (ret (ho_sha H image)))))"

text \<open>A head's keys or values of the first positions: 128 bytes each.\<close>

definition cache_block :: "'w board \<Rightarrow> string \<Rightarrow> nat \<Rightarrow> nat \<Rightarrow> nat \<Rightarrow> (('w, 'z) arena_scheme, int list) act" where
  "cache_block D name n layer head = load D TypeError name ((layer * 12 + head) * 1024 * 128) (n * 128)"

definition cache_label :: "nat \<Rightarrow> nat \<Rightarrow> int list" where
  "cache_label layer n = map (\<lambda>c. int (of_char c)) (str_of_nat layer @ '':(12, '' @ str_of_nat n @ '', 64):<i2'')"

definition cache_layer :: "'w board \<Rightarrow> nat \<Rightarrow> nat \<Rightarrow> (('w, 'z) arena_scheme, int list) act" where
  "cache_layer D n layer =
     bind (mapM_act (cache_block D ''k'' n layer) [0..<12]) (\<lambda>keys. bind (mapM_act (cache_block D ''v'' n layer) [0..<12]) (\<lambda>vs.
       ret (cache_label layer n @ concat keys @ concat vs)))"

text \<open>The arrays need the whole of their buffers, whatever the length.\<close>

definition cache_digest :: "'w board \<Rightarrow> host \<Rightarrow> int \<Rightarrow> (('w, 'z) arena_scheme, string) act" where
  "cache_digest D H n =
     bind (mapM_act mapping [''k'', ''v'']) (\<lambda>ms. bseq (require (list_all (\<lambda>(base, bytes). 12 * 12 * 1024 * 128 \<le> bytes) ms) TypeError)
     (bind (mapM_act (cache_layer D (min 1024 (nat n))) [0..<12]) (\<lambda>layers. ret (ho_sha H (concat layers)))))"

section \<open>Traces\<close>

definition trace_name :: "int \<Rightarrow> int \<Rightarrow> string res" where
  "trace_name kind layer = (case TRACE_NAMES kind of None \<Rightarrow> Inl RuntimeError
     | Some base \<Rightarrow> Inr (if kind = 1 then base else ''h.'' @ str_of_int layer @ ''.'' @ base))"

definition logical_rows :: "nat \<Rightarrow> nat \<Rightarrow> int list \<Rightarrow> int list \<Rightarrow> f64 list" where
  "logical_rows rows columns exponents vals = rows_of rows columns (\<lambda>i j. logical (vals ! (i * columns + j)) (exponents ! i))"

definition check_record :: "'w board \<Rightarrow> host \<Rightarrow> string \<Rightarrow> py \<Rightarrow> nat \<Rightarrow> (('w, 'z) arena_scheme, (string \<times> py) \<times> nat) act" where
  "check_record D H fixtures case' cursor =
     bind (unpack_u32 D ''trace'' cursor 8) (\<lambda>r. let kind = r ! 0; layer = r ! 1; rows = r ! 2; columns = r ! 3 in
       if r ! 6 \<noteq> 0 \<or> r ! 7 \<noteq> 0 \<or> r ! 4 \<noteq> rows * 4 \<or> r ! 5 \<noteq> rows * columns * 2 then raise RuntimeError
       else bind (lift_res (trace_name kind layer)) (\<lambda>name. let offset = cursor + 32; m = nat rows; n = nat columns in
         bind (load D ValueError ''trace'' offset (4 * m)) (\<lambda>eb. bind (load D ValueError ''trace'' (offset + 4 * m) (2 * (m * n))) (\<lambda>vb.
         let exponents = view_words eb in
         bseq (require (\<not> list_ex (\<lambda>e. e > 30) exponents) RuntimeError)
        (let l = logical_rows m n exponents (as_int16 vb) in
         bind (lift_res (fld (fld (V case') ''tensors'') name)) (\<lambda>entry.
         bind (lift_res (str_fld H entry ''file'')) (\<lambda>file. let p = path [fixtures, file] in
         bind (lift_res (rbind (fl_sha (ho_files H) p) (\<lambda>d. eq (S d) (fld (V entry) ''sha256'')))) (\<lambda>same.
         bseq (require same RuntimeError)
        (bind (lift_res (ho_array H p)) (\<lambda>(shape, expected).
         bseq (require (shape = [m, n] \<and> list_all2 feq l expected) RuntimeError)
         (ret ((name, PyDict [(PyStr ''name'', PyStr name), (PyStr ''shape'', int_list [rows, columns]), (PyStr ''sha256'', PyStr (ho_sha_f8 H l))]),
           (offset + 4 * m + 2 * (m * n) + 63) div 64 * 64))))))))))))"

fun check_records :: "'w board \<Rightarrow> host \<Rightarrow> string \<Rightarrow> py \<Rightarrow> nat \<Rightarrow> nat \<Rightarrow> (('w, 'z) arena_scheme, (string \<times> py) list) act" where
  "check_records D H fixtures case' 0 cursor = ret []"
| "check_records D H fixtures case' (Suc n) cursor =
     bind (check_record D H fixtures case' cursor) (\<lambda>(r, next). bind (check_records D H fixtures case' n next) (\<lambda>rs. ret (r # rs)))"

definition TRACE_ORDER :: "string list" where
  "TRACE_ORDER = [''embedding'', ''h.0.qkv'', ''h.0.context'', ''h.0.output'', ''h.11.output'']"

definition check_traces :: "'w board \<Rightarrow> host \<Rightarrow> string \<Rightarrow> py \<Rightarrow> (('w, 'z) arena_scheme, py) act" where
  "check_traces D H fixtures case' =
     bind (unpack_u32 D ''trace'' 0 64) (\<lambda>header.
       if header ! 0 \<noteq> TRACE_MAGIC \<or> header ! 1 \<noteq> 1 \<or> header ! 6 \<noteq> int TRACE_RECORDS then raise RuntimeError
       else bind (check_records D H fixtures case' (nat (header ! 7)) (nat (header ! 6))) (\<lambda>checked.
         bseq (require (map fst checked = TRACE_ORDER) RuntimeError) (ret (PyList (map snd checked)))))"

section \<open>Waiting\<close>

text \<open>The completion bit, the two failure bits where the caller looks at them, and the deadline.\<close>

fun wait_done :: "nat \<Rightarrow> 'w board \<Rightarrow> bool \<Rightarrow> f64 \<Rightarrow> (('w, 'z) arena_scheme, unit) act" where
  "wait_done 0 D strict deadline = raise Diverges"
| "wait_done (Suc fuel) D strict deadline =
     bind (info D) (\<lambda>ws. if (ws ! 5) AND 32 \<noteq> 0 then ret ()
       else if strict \<and> (ws ! 5) AND 24 \<noteq> 0 then raise RuntimeError
       else bind (world_get (bd_clock D)) (\<lambda>now. if fle deadline now then raise TimeoutError
         else bseq (world_do (bd_sleep D)) (wait_done fuel D strict deadline)))"

section \<open>The boundary rejection\<close>

definition control_words :: "int list \<Rightarrow> int list" where
  "control_words ws = ws @ replicate (25 - length ws) 0"

definition CACHE_NAMES :: "string list" where
  "CACHE_NAMES = [''k'', ''v'', ''k8'', ''kunits'']"

definition cache_hashes :: "'w board \<Rightarrow> host \<Rightarrow> (('w, 'z) arena_scheme, (string \<times> string) list) act" where
  "cache_hashes D H = mapM_act (\<lambda>name. bind (contents D name) (\<lambda>bs. ret (name, ho_sha H bs))) CACHE_NAMES"

definition run_rejection :: "nat \<Rightarrow> 'w board \<Rightarrow> host \<Rightarrow> f64 \<Rightarrow> (('w, 'z) arena_scheme, py) act" where
  "run_rejection fuel D H timeout =
     bseq (clear D ''work'')
    (bseq (pack_u32 D ''work'' 0 ((control_words [CONTROL_MAGIC, 1, 0, 1, 1, 1024, 0, 100000000])[10 := 17, 11 := 19]))
    (bseq (pack_u32 D ''work'' WORK_PROMPT [0])
    (bseq (pack_u32 D ''work'' WORK_GENERATED [0xDEADBEEF])
    (bind (cache_hashes D H) (\<lambda>before.
     bind (world_get (bd_clock D)) (\<lambda>start.
     bseq (ioctl D IOC_START)
    (bseq (wait_done fuel D False (fadd start timeout))
    (bseq (ioctl D IOC_RETURN)
    (bind (unpack_u32 D ''work'' 0 25) (\<lambda>words.
     bind (cache_hashes D H) (\<lambda>after.
     bind (if words ! 8 \<noteq> 5 \<or> words ! 9 \<noteq> 1 \<or> (words ! 10, words ! 11) \<noteq> (17, 19) then ret True
           else bind (unpack_u32 D ''work'' WORK_GENERATED 1) (\<lambda>g. ret (g \<noteq> [0xDEADBEEF] \<or> before \<noteq> after))) (\<lambda>bad.
     bseq (require (\<not> bad) RuntimeError)
    (bind (world_get (bd_clock D)) (\<lambda>now. lift_res (dict_of
       [(''case'', S ''prompt_count=1,generation_count=1024''), (''expected'', S ''prompt_count + generation_count > 1024''),
        (''state'', I (words ! 8)), (''error'', I (words ! 9)), (''cache_valid'', I (words ! 10)), (''generated_count'', I (words ! 11)),
        (''cache_regions_unchanged'', V (PyDict (map (\<lambda>(n, d). (PyStr n, PyStr d)) before))), (''output_sentinel_unchanged'', V (PyBool True)),
        (''wall_seconds'', V (PyFloat (fsub now start))), (''recovery'', S ''subsequent accepted runs'')])))))))))))))))"

section \<open>A request\<close>

text \<open>What the firmware left: the control words, the generated tokens, the trace header.\<close>

record outcome_words =
  oc_words :: "int list"
  oc_generated :: "int list"
  oc_header :: "int list"

definition submit_request :: "'w board \<Rightarrow> int list \<Rightarrow> int \<Rightarrow> bool \<Rightarrow> int \<Rightarrow> (('w, 'z) arena_scheme, unit) act" where
  "submit_request D tokens count capture request_id =
     bind (mapM_act mapping [''work'', ''trace'']) (\<lambda>_.
     bseq (clear D ''work'') (bseq (clear D ''trace'')
    (bseq (pack_u32 D ''work'' 0 (control_words [CONTROL_MAGIC, 1, request_id, 1, int (length tokens), count, of_bool capture, 100000000]))
          (pack_u32 D ''work'' WORK_PROMPT tokens))))"

text \<open>Start, wait, return of ownership, and the tokens: the checks and the four times.\<close>

definition run_firmware :: "nat \<Rightarrow> 'w board \<Rightarrow> py list \<Rightarrow> int \<Rightarrow> f64
    \<Rightarrow> (('w, 'z) arena_scheme, outcome_words \<times> f64 \<times> f64 \<times> f64 \<times> f64) act" where
  "run_firmware fuel D steps count timeout =
     bind (world_get (bd_clock D)) (\<lambda>start.
     bseq (ioctl D IOC_START)
    (bseq (wait_done fuel D True (fadd start timeout))
    (bind (world_get (bd_clock D)) (\<lambda>done_at.
     bseq (ioctl D IOC_RETURN)
    (bind (world_get (bd_clock D)) (\<lambda>returned.
     bind (unpack_u32 D ''work'' 0 25) (\<lambda>words.
     bseq (require (words ! 8 = 4 \<and> words ! 9 = 0 \<and> words ! 11 = count) RuntimeError)
    (bind (unpack_u32 D ''work'' WORK_GENERATED (nat count)) (\<lambda>generated.
     bind (world_get (bd_clock D)) (\<lambda>delivered.
     bind (lift_res (rmap (\<lambda>s. fld (V s) ''token'') (take (nat count) steps))) (\<lambda>expected.
     bseq (require (py_eq (int_list generated) (PyList expected)) RuntimeError)
    (bind (unpack_u32 D ''trace'' 0 64) (\<lambda>header.
       ret (\<lparr>oc_words = words, oc_generated = generated, oc_header = header\<rparr>, start, done_at, returned, delivered))))))))))))))"

text \<open>The completion metadata, and the digests of all logits and of the valid cache.\<close>

definition metadata_consistent :: "outcome_words \<Rightarrow> nat \<Rightarrow> int \<Rightarrow> bool" where
  "metadata_consistent oc prompt count \<longleftrightarrow> (let h = oc_header oc; w = oc_words oc in
     take 4 h = [TRACE_MAGIC, 1, int TRACE_LOGITS, 50257] \<and> h ! 5 = count \<and> w ! 10 = int prompt + count - 1
     \<and> w ! 23 = 3 \<and> w ! 24 = 0 \<and> w ! 14 = w ! 15)"

definition check_outputs :: "'w board \<Rightarrow> host \<Rightarrow> py \<Rightarrow> outcome_words \<Rightarrow> (('w, 'z) arena_scheme, string \<times> string) act" where
  "check_outputs D H expected oc =
     bind (load D ValueError ''trace'' TRACE_LOGITS (2 * 50257)) (\<lambda>bs.
     let logits_hash = ho_sha_f8 H (map (\<lambda>v. logical v (oc_header oc ! 4)) (as_int16 bs)) in
     bind (lift_res (eq (S logits_hash) (fld (V expected) ''logits_sha256''))) (\<lambda>same.
     bseq (require same RuntimeError)
    (bind (cache_digest D H (oc_words oc ! 10)) (\<lambda>kv_hash.
     bind (lift_res (eq (S kv_hash) (fld (V expected) ''cache_sha256''))) (\<lambda>same.
     bseq (require same RuntimeError) (ret (logits_hash, kv_hash)))))))"

definition counter :: "int list \<Rightarrow> nat \<Rightarrow> int" where
  "counter h i = u64 (h ! i) (h ! (i + 1))"

definition per_second :: "py res \<Rightarrow> py res" where
  "per_second cycles = quot cycles (I FABRIC_HZ)"

definition decode_intervals :: "'w board \<Rightarrow> nat \<Rightarrow> (('w, 'z) arena_scheme, py list) act" where
  "decode_intervals D n = mapM_act (\<lambda>i. bind (unpack_u32 D ''trace'' (256 + i * 8) 2) (\<lambda>ws.
     lift_res (per_second (I (counter ws 0))))) [0..<n]"

definition case_report :: "py \<Rightarrow> int \<Rightarrow> outcome_words \<Rightarrow> f64 \<times> f64 \<times> f64 \<times> f64 \<Rightarrow> string \<times> string \<Rightarrow> py list \<Rightarrow> py res" where
  "case_report case' count oc = (\<lambda>(start, done_at, returned, delivered) (logits_hash, kv_hash) intervals.
     let w = oc_words oc; h = oc_header oc; cycles = counter h 10 - counter h 8; times = (\<lambda>t. V (PyFloat (fsub t start))) in
     dict_of [(''id'', fld (V case') ''id''), (''prompt_tokens'', fld (V case') ''input_tokens''),
       (''generated_tokens'', V (int_list (oc_generated oc))), (''cache_valid'', I (w ! 10)),
       (''logits_sha256'', S logits_hash), (''kv_sha256'', S kv_hash),
       (''firmware_seconds'', per_second (I cycles)), (''ttft_seconds'', per_second (I (counter h 18 - counter h 8))),
       (''prefill_forward_seconds'', per_second (I (counter h 20))), (''decode_seconds'', V (PyList (drop 1 intervals))),
       (''firmware_tokens_per_second'', quot (I count) (per_second (I cycles))),
       (''device_wall_seconds'', times done_at), (''request_wall_seconds'', times returned),
       (''request_through_delivery_seconds'', times delivered), (''request_tokens_per_second'', quot (I count) (times delivered)),
       (''transfers'', I (w ! 14)), (''tensor_bytes_read'', I (w ! 20)), (''tensor_bytes_written'', I (w ! 21)),
       (''work_high_water'', I (w ! 18)), (''engine_cycles_modulo_2_32'', I (h ! 15)),
       (''engine_work_mixed_mac_and_sfpu_elements'', I (counter h 16))])"

text \<open>With \<open>capture\<close>, the traces; when their check fails, the exception carries the report of the
  completed request, here in the field \<open>ar_partial\<close>.\<close>

definition with_traces :: "'w board \<Rightarrow> host \<Rightarrow> string \<Rightarrow> py \<Rightarrow> py \<Rightarrow> (('w, 'z) arena_scheme, py) act" where
  "with_traces D H fixtures trace_case result =
     on_error (bind (check_traces D H fixtures trace_case) (\<lambda>t. lift_res (updated result [(''traces'', V t)])))
       (\<lambda>s. s\<lparr>ar_partial := Some result\<rparr>)"

definition run_case :: "nat \<Rightarrow> 'w board \<Rightarrow> host \<Rightarrow> string \<Rightarrow> py \<Rightarrow> py \<Rightarrow> int \<Rightarrow> bool \<Rightarrow> int \<Rightarrow> f64
    \<Rightarrow> (('w, 'z) arena_scheme, py) act" where
  "run_case fuel D H fixtures case' trace_case count capture request_id timeout =
     bind (lift_res (iter (fld (V case') ''steps''))) (\<lambda>steps.
     bseq (require (1 \<le> count \<and> count \<le> int (length steps)) RuntimeError)
    (bind (lift_res (ints (fld (V case') ''input_tokens''))) (\<lambda>tokens.
     bseq (submit_request D tokens count capture request_id)
    (bind (run_firmware fuel D steps count timeout) (\<lambda>(oc, times).
     bseq (require (metadata_consistent oc (length tokens) count) RuntimeError)
    (bind (check_outputs D H (steps ! nat (count - 1)) oc) (\<lambda>hashes.
     bseq (require (counter (oc_header oc) 8 < counter (oc_header oc) 18 \<and> counter (oc_header oc) 18 \<le> counter (oc_header oc) 10) RuntimeError)
    (bind (decode_intervals D (nat (oc_header oc ! 5))) (\<lambda>intervals.
     bind (lift_res (case_report case' count oc times hashes intervals)) (\<lambda>result.
       if capture then with_traces D H fixtures trace_case result else ret result))))))))))"

section \<open>The campaign\<close>

text \<open>The report grows in the state; \<open>rn_output\<close> is the file written at the end. The flags are the local
  variables of the campaigns: overlay (or device) opened, cluster mapped, kernel module loaded.\<close>

record 'w runner = "'w arena" +
  rn_report :: "(py \<times> py) list"
  rn_overlay :: bool
  rn_cluster :: bool
  rn_loaded :: bool
  rn_output :: "py option"

definition report_put :: "string \<Rightarrow> py \<Rightarrow> ('w runner, unit) act" where
  "report_put k v = modify (\<lambda>s. s\<lparr>rn_report := dict_put (rn_report s) (PyStr k) v\<rparr>)"

definition reported :: "string \<Rightarrow> ('w runner, py) act" where
  "reported k = bind (gets rn_report) (\<lambda>d. lift_res (fld (V (PyDict d)) k))"

text \<open>\<open>report[k][j] = v\<close> and \<open>report['runs'].append(v)\<close>.\<close>

definition note_in :: "string \<Rightarrow> string \<Rightarrow> py \<Rightarrow> ('w runner, unit) act" where
  "note_in k j v = bind (reported k) (\<lambda>d. bind (lift_res (updated d [(j, V v)])) (report_put k))"

definition add_run :: "py \<Rightarrow> ('w runner, unit) act" where
  "add_run v = bind (reported ''runs'') (\<lambda>r. bind (lift_res (add (V r) (V (PyList [v])))) (report_put ''runs''))"

definition exn_name :: "exn \<Rightarrow> string" where
  "exn_name e = (case e of ValueError \<Rightarrow> ''ValueError'' | TypeError \<Rightarrow> ''TypeError'' | RuntimeError \<Rightarrow> ''RuntimeError''
     | AssertionError \<Rightarrow> ''AssertionError'' | TimeoutError \<Rightarrow> ''TimeoutError'' | ZeroDivisionError \<Rightarrow> ''ZeroDivisionError''
     | IndexError \<Rightarrow> ''IndexError'' | KeyError \<Rightarrow> ''KeyError'' | OSError \<Rightarrow> ''OSError'' | SystemExit \<Rightarrow> ''SystemExit''
     | MemoryError \<Rightarrow> ''MemoryError'' | OverflowError \<Rightarrow> ''OverflowError'' | StructError \<Rightarrow> ''error'' | SpiError \<Rightarrow> ''SpiError''
     | StopIteration \<Rightarrow> ''StopIteration'' | AttributeError \<Rightarrow> ''AttributeError'' | CalledProcessError \<Rightarrow> ''CalledProcessError''
     | Diverges \<Rightarrow> '''')"

definition staged_files :: "(string \<times> string) list" where
  "staged_files = [(''bitstream'', ''m5_pynq.bit''), (''firmware_file'', ''m5_runtime.bin''), (''model'', ''model.bin''),
     (''layout'', ''layout.json''), (''policy'', ''performance_policy.json''), (''fixtures'', ''fixtures/manifest.json''),
     (''hwh'', ''m5_pynq.hwh'')]"

definition by_id :: "py res \<Rightarrow> py res" where
  "by_id xs = rbind (iter xs) (\<lambda>es. rbind (rmap (\<lambda>e. rbind (fld (V e) ''id'') (\<lambda>i. Inr (i, e))) es) (\<lambda>ps.
     Inr (PyDict (foldl (\<lambda>d (k, v). dict_put d k v) [] ps))))"

text \<open>One line of the policy's matrix.\<close>

definition campaign_run :: "nat \<Rightarrow> 'w board \<Rightarrow> host \<Rightarrow> string \<Rightarrow> py \<Rightarrow> py \<Rightarrow> f64 \<Rightarrow> int \<times> py \<Rightarrow> ('w runner, unit) act" where
  "campaign_run fuel D H stage generations cases timeout = (\<lambda>(request_id, trial).
     bind (lift_res (fld (V trial) ''prompt'')) (\<lambda>name. bind (lift_res (int_fld trial ''new_tokens'')) (\<lambda>count.
     bind (lift_res (itm (V generations) (V name))) (\<lambda>run. bind (lift_res (itm (V cases) (V name))) (\<lambda>fixture.
     bind (lift_res (eq (fld (V fixture) ''input_tokens'') (fld (V run) ''input_tokens''))) (\<lambda>same.
     bseq (require same RuntimeError)
    (bseq (ioctl D IOC_PREPARE)
    (bind (load_firmware D H (path [stage, ''m5_runtime.bin''])) (\<lambda>image. bind (reported ''sha256'') (\<lambda>d.
     bind (lift_res (eq (S image) (fld (V d) ''firmware_readback''))) (\<lambda>same.
     bseq (require same RuntimeError)
    (bind (lift_res (tru (fld (V trial) ''capture_prefill''))) (\<lambda>capture.
     bind (run_case fuel D H (path [stage, ''fixtures'']) run fixture count capture request_id timeout) add_run)))))))))))))"

definition campaign_body :: "nat \<Rightarrow> 'w board \<Rightarrow> host \<Rightarrow> string \<Rightarrow> py \<Rightarrow> py \<Rightarrow> py \<Rightarrow> py \<Rightarrow> f64 \<Rightarrow> ('w runner, unit) act" where
  "campaign_body fuel D H stage layout policy' generations cases timeout =
     bind (world_get (bd_clock D)) (\<lambda>provision_start.
     bseq (world (bd_overlay D (path [stage, ''m5_pynq.bit''])))
    (bseq (modify (\<lambda>s. s\<lparr>rn_overlay := True\<rparr>))
    (bseq (ioctl D IOC_PREPARE)
    (bseq (allocate D H layout)
    (bind (lift_res (str_fld H layout ''model_sha256'')) (\<lambda>expected.
     bind (load_model D H ''model'' (path [stage, ''model.bin'']) expected) (\<lambda>_.
     bseq (modify (\<lambda>s. s\<lparr>rn_cluster := True\<rparr>))
    (bind (load_firmware D H (path [stage, ''m5_runtime.bin''])) (\<lambda>image.
     bseq (note_in ''sha256'' ''firmware_readback'' (PyStr image))
    (bind (world_get (bd_clock D)) (\<lambda>now.
     bseq (report_put ''provision_seconds'' (PyFloat (fsub now provision_start)))
    (bind (info D) (\<lambda>ws. bseq (report_put ''allocated_bytes'' (PyInt (ws ! 3 * PAGE)))
    (bind (memory_observation D) (\<lambda>m. bseq (report_put ''memory_provisioned_kib'' m)
    (bind (run_rejection fuel D H timeout) (\<lambda>r. bseq (report_put ''boundary_rejection'' r)
    (bind (lift_res (iter (fld (V policy') ''matrix''))) (\<lambda>matrix'.
     bseq (for_each (campaign_run fuel D H stage generations cases timeout) (zip (map int [1..<Suc (length matrix')]) matrix'))
    (bseq (report_put ''status'' (PyStr ''PASS''))
    (bind (info D) (\<lambda>ws. report_put ''dma'' (info_dict ws)))))))))))))))))))))))"

text \<open>The exception is named in the report and goes on.\<close>

definition record_error :: "('w runner, 'a) act \<Rightarrow> ('w runner, 'a) act" where
  "record_error m s = (case m s of (Inr x, s') \<Rightarrow> (Inr x, s')
     | (Inl e, s') \<Rightarrow> (Inl e, (let d = dict_put (rn_report s') (PyStr ''error'') (PyStr (exn_name e)) in
         s'\<lparr>rn_report := (case ar_partial s' of None \<Rightarrow> d | Some p \<Rightarrow> dict_put d (PyStr ''partial_run_before_trace_failure'') p)\<rparr>)))"

definition return_ownership :: "'w board \<Rightarrow> ('w runner, unit) act" where
  "return_ownership D =
     bind (gets rn_overlay) (\<lambda>overlay.
     bseq (if \<not> overlay then ret () else bind (info D) (\<lambda>ws. if ws ! 4 \<noteq> 0 then ioctl D IOC_RETURN else ret ()))
    (bind (reported ''status'') (\<lambda>status. bind (gets rn_cluster) (\<lambda>cluster.
       if py_eq status (PyStr ''PASS'') \<or> \<not> cluster then ret ()
       else bind (world_get (bd_peek D (0xd000 div 4) 32)) (\<lambda>ws. bseq (report_put ''failure_hart_results'' (int_list ws))
           (bind (gets ar_maps) (\<lambda>maps. if map_of maps ''work'' = None then ret ()
              else bind (unpack_u32 D ''work'' 0 25) (\<lambda>c. report_put ''failure_control'' (int_list c)))))))))"

definition record_cleanup :: "('w runner, unit) act \<Rightarrow> ('w runner, unit) act" where
  "record_cleanup m s = (case bseq m (report_put ''cleanup'' (PyStr ''ownership returned and mappings/file closed'')) s of (Inr x, s') \<Rightarrow> (Inr x, s')
     | (Inl e, s') \<Rightarrow> (Inl e, s'\<lparr>rn_report := dict_put (dict_put (rn_report s') (PyStr ''status'') (PyStr ''FAIL''))
         (PyStr ''cleanup_error'') (PyStr (exn_name e))\<rparr>))"

definition write_report :: "'w board \<Rightarrow> ('w runner, unit) act" where
  "write_report D = bind (memory_observation D) (\<lambda>m. bseq (report_put ''memory_after_kib'' m)
     (modify (\<lambda>s. s\<lparr>rn_output := Some (PyDict (rn_report s))\<rparr>)))"

definition campaign_all :: "nat \<Rightarrow> 'w board \<Rightarrow> host \<Rightarrow> string \<Rightarrow> py \<Rightarrow> py \<Rightarrow> py \<Rightarrow> py \<Rightarrow> f64 \<Rightarrow> ('w runner, unit) act" where
  "campaign_all fuel D H stage layout policy' generations cases timeout =
     finally' (record_error (campaign_body fuel D H stage layout policy' generations cases timeout))
       (finally' (record_cleanup (finally' (return_ownership D) (close_arena D))) (write_report D))"

text \<open>Reading of the stage, the report's head, then the campaign on the opened device.\<close>

definition report_head :: "'w board \<Rightarrow> host \<Rightarrow> string \<Rightarrow> py \<Rightarrow> py \<Rightarrow> (py \<times> py) list res" where
  "report_head D H stage policy' memory =
     rbind (rmap (\<lambda>(k, f). rbind (fl_sha (ho_files H) (path [stage, f])) (\<lambda>d. Inr (PyStr k, PyStr d))) staged_files) (\<lambda>shas.
       Inr [(PyStr ''schema'', PyInt 1), (PyStr ''status'', PyStr ''FAIL''), (PyStr ''clock_hz'', PyInt FABRIC_HZ),
         (PyStr ''platform'', PyStr (fst (bd_platform D))), (PyStr ''kernel'', PyStr (snd (bd_platform D))), (PyStr ''policy'', policy'),
         (PyStr ''sha256'', PyDict shas), (PyStr ''runs'', PyList []), (PyStr ''memory_before_kib'', memory)])"

definition m5_main :: "nat \<Rightarrow> 'w board \<Rightarrow> host \<Rightarrow> ('w, unit) act \<Rightarrow> string \<Rightarrow> f64 \<Rightarrow> ('w runner, unit) act" where
  "m5_main fuel D H open_device stage timeout = (let json = (\<lambda>f. fl_json (ho_files H) (path [stage, f])) in
     bind (lift_res (json ''layout.json'')) (\<lambda>layout. bind (lift_res (json ''fixtures/manifest.json'')) (\<lambda>manifest.
     bind (lift_res (by_id (fld (V manifest) ''generation''))) (\<lambda>generations.
     bind (lift_res (by_id (fld (V manifest) ''cases''))) (\<lambda>cases.
     bind (lift_res (fld (V layout) ''model_sha256'')) (\<lambda>_.
     bind (lift_res (json ''performance_policy.json'')) (\<lambda>policy'.
     bind (lift_res (conjs [eq (fld (V policy') ''schema'') (I 1), eq (fld (V policy') ''clock_hz'') (I FABRIC_HZ)])) (\<lambda>ok.
     bseq (require ok RuntimeError)
    (bind (lift_res (eq (fld (V layout) ''arena_bytes'') (I ARENA_TOTAL))) (\<lambda>ok.
     bseq (require ok RuntimeError)
    (bind (memory_observation D) (\<lambda>memory. bind (lift_res (report_head D H stage policy' memory)) (\<lambda>head.
     bseq (modify (\<lambda>s. s\<lparr>rn_report := head\<rparr>))
    (bseq (world open_device)
          (campaign_all fuel D H stage layout policy' generations cases timeout)))))))))))))))"

end
