(* ===== verification/Profile.thy ===== *)
theory Profile
  imports M5Run
begin

text \<open>
  The fixed-context profiling runner of \<open>zynq/m5_opt_profile.py\<close>: the parser of the firmware's phase
  records, the restoring of a seed's caches, a seeded decode with its checks, and the campaign.
\<close>

definition PROFILE_CONTROL :: int where "PROFILE_CONTROL = 0x3554504f"
definition PROFILE_MAGIC :: int where "PROFILE_MAGIC = 0x35524650"
definition LOGITS_OFFSET :: nat where "LOGITS_OFFSET = 0x3000"
definition RECORD_OFFSET :: nat where "RECORD_OFFSET = 0x20000"
definition RECORD_BYTES :: nat where "RECORD_BYTES = 56"

definition PHASE_NAMES :: "int \<Rightarrow> string option" where
  "PHASE_NAMES kind = map_of [(1, ''embedding''), (2, ''ln1''), (3, ''qkv''), (4, ''attention''),
     (5, ''smooth_attention_projection_residual''), (6, ''ln2''), (7, ''mlp_up''), (8, ''gelu''),
     (9, ''smooth_mlp_down_residual''), (10, ''final_norm''), (11, ''lm_head''), (12, ''selection_and_return'')] kind"

section \<open>Phase records\<close>

text \<open>One record of ten fields, \<open>'<IIQQQQIIII'\<close>.\<close>

record phase =
  ph_kind :: int
  ph_layer :: int
  ph_elapsed :: int
  ph_service :: int
  ph_gemm :: int
  ph_sfpu :: int
  ph_jobs :: int
  ph_inputs :: int
  ph_outputs :: int
  ph_reserved :: int

definition unpack_phase :: "int list \<Rightarrow> nat \<Rightarrow> phase" where
  "unpack_phase raw index = (let w = view_words (take RECORD_BYTES (drop (index * RECORD_BYTES) raw)) in
     \<lparr>ph_kind = w ! 0, ph_layer = w ! 1, ph_elapsed = counter w 2, ph_service = counter w 4, ph_gemm = counter w 6,
      ph_sfpu = counter w 8, ph_jobs = w ! 10, ph_inputs = w ! 11, ph_outputs = w ! 12, ph_reserved = w ! 13\<rparr>)"

definition phase_valid :: "phase \<Rightarrow> bool" where
  "phase_valid p \<longleftrightarrow> PHASE_NAMES (ph_kind p) \<noteq> None \<and> ph_layer p < 12 \<and> ph_reserved p = 0 \<and> ph_elapsed p \<noteq> 0
     \<and> ph_service p \<le> ph_elapsed p \<and> ph_gemm p + ph_sfpu p \<le> ph_service p"

definition phase_dict :: "int \<Rightarrow> phase \<Rightarrow> py res" where
  "phase_dict clock_hz p = dict_of [(''kind'', I (ph_kind p)), (''layer'', I (ph_layer p)),
     (''name'', S (the (PHASE_NAMES (ph_kind p)))), (''cycles'', I (ph_elapsed p)),
     (''seconds'', quot (I (ph_elapsed p)) (I clock_hz)), (''service_cycles'', I (ph_service p)),
     (''cpu_remainder_cycles'', I (ph_elapsed p - ph_service p)), (''gemm_cycles'', I (ph_gemm p)), (''sfpu_cycles'', I (ph_sfpu p)),
     (''jobs'', I (ph_jobs p)), (''input_bytes'', I (ph_inputs p * 4)), (''output_bytes'', I (ph_outputs p * 4))]"

definition coverage_order :: "(int \<times> int) list" where
  "coverage_order = [(1, 0)] @ concat (map (\<lambda>layer. map (\<lambda>kind. (kind, layer)) [2, 3, 4, 5, 6, 7, 8, 9])
     [0, 1, 2, 3, 4, 5, 6, 7, 8, 9, 10, 11]) @ [(10, 0), (11, 0), (12, 0)]"

definition profile_header_valid :: "int list \<Rightarrow> int \<Rightarrow> bool" where
  "profile_header_valid h clock_hz \<longleftrightarrow> take 4 h = [PROFILE_MAGIC, 1, int LOGITS_OFFSET, 50257]
     \<and> h ! 6 = int RECORD_OFFSET \<and> h ! 7 = int RECORD_BYTES \<and> h ! 4 \<le> 30 \<and> h ! 5 \<le> 104 \<and> clock_hz > 0"

text \<open>The totals of the phases against the header's counters.\<close>

definition totals_reconcile :: "int list \<Rightarrow> phase list \<Rightarrow> bool" where
  "totals_reconcile h ps \<longleftrightarrow> (let t = (\<lambda>f. sum_list (map f ps)) in
     t ph_elapsed \<le> counter h 10 - counter h 8 \<and> t ph_service = counter h 16 \<and> t ph_gemm = counter h 18 \<and> t ph_sfpu = counter h 20
     \<and> t ph_jobs = h ! 12 \<and> t ph_inputs = h ! 13 \<and> t ph_outputs = h ! 14
     \<and> (counter h 18 + counter h 20) AND 0xffffffff = h ! 22)"

definition profile_accepted :: "int list \<Rightarrow> phase list \<Rightarrow> bool \<Rightarrow> bool" where
  "profile_accepted h ps enabled \<longleftrightarrow>
     (if enabled then map (\<lambda>p. (ph_kind p, ph_layer p)) ps = coverage_order \<and> totals_reconcile h ps
      else ps = [] \<and> counter h 16 = 0 \<and> counter h 18 = 0 \<and> counter h 20 = 0)"

definition parse_profile :: "int list \<Rightarrow> int list \<Rightarrow> bool \<Rightarrow> int \<Rightarrow> py res" where
  "parse_profile h raw enabled clock_hz =
     (let cycles = counter h 10 - counter h 8; count = nat (h ! 5); hz = (\<lambda>n. quot (I n) (I clock_hz));
          measured = (\<lambda>x. if enabled then x else V PyNone) in
      if \<not> profile_header_valid h clock_hz then Inl ValueError
      else if counter h 10 \<le> counter h 8 then Inl ValueError
      else if length raw \<noteq> count * RECORD_BYTES then Inl ValueError
      else let ps = map (unpack_phase raw) [0..<count] in
        if \<not> list_all phase_valid ps then Inl ValueError
        else rbind (rmap (phase_dict clock_hz) ps) (\<lambda>ds.
          if \<not> profile_accepted h ps enabled then Inl ValueError
          else dict_of [(''model_cycles'', I cycles), (''model_seconds'', hz cycles), (''profile_enabled'', V (PyBool enabled)),
            (''phases'', V (PyList ds)), (''service_seconds'', measured (hz (counter h 16))),
            (''cpu_remainder_seconds'', measured (hz (cycles - counter h 16))),
            (''gemm_compute_seconds'', measured (hz (counter h 18))), (''sfpu_compute_seconds'', measured (hz (counter h 20))),
            (''unassigned_profile_tail_cycles'', measured (I (cycles - sum_list (map ph_elapsed ps)))),
            (''jobs'', I (h ! 12)), (''mover_input_bytes'', I (h ! 13 * 4)), (''mover_output_bytes'', I (h ! 14 * 4)),
            (''workspace_high_water'', I (h ! 15))]))"

section \<open>A seeded decode\<close>

definition restore_array :: "'w board \<Rightarrow> host \<Rightarrow> string \<Rightarrow> py \<times> py \<Rightarrow> (('w, 'z) arena_scheme, unit) act" where
  "restore_array D H folder = (\<lambda>(key, entry). let name = py_str (ho_repr H) key in
     if name \<notin> set CACHE_NAMES then raise ValueError
     else bind (lift_res (fld (V entry) ''bytes'')) (\<lambda>n. bind (mapping name) (\<lambda>(base, size').
          bseq (require (py_eq n (PyInt size')) ValueError)
         (bind (lift_res (str_fld H entry ''file'')) (\<lambda>file. bind (lift_res (str_fld H entry ''sha256'')) (\<lambda>digest.
          bind (load_model D H name (path [folder, file]) digest) (\<lambda>_. ret ())))))))"

definition restore_seed :: "'w board \<Rightarrow> host \<Rightarrow> string \<Rightarrow> py \<Rightarrow> (('w, 'z) arena_scheme, unit) act" where
  "restore_seed D H folder seed =
     bind (lift_res (items (fld (V seed) ''arrays''))) (\<lambda>arrays.
     bseq (for_each (restore_array D H folder) arrays)
    (bind (lift_res (int_fld seed ''past'')) (\<lambda>past. bind (cache_digest D H past) (\<lambda>d.
     bind (lift_res (eq (S d) (fld (V seed) ''prefill_kv_sha256''))) (\<lambda>same. require same ValueError)))))"

text \<open>Until completion, a fabric fault, or more than \<open>timeout\<close> seconds since the start.\<close>

fun wait_within :: "nat \<Rightarrow> 'w board \<Rightarrow> f64 \<Rightarrow> f64 \<Rightarrow> (('w, 'z) arena_scheme, unit) act" where
  "wait_within 0 D begin' timeout = raise Diverges"
| "wait_within (Suc fuel) D begin' timeout =
     bind (info D) (\<lambda>ws. if (ws ! 5) AND 32 \<noteq> 0 then ret ()
       else if (ws ! 5) AND 24 \<noteq> 0 then raise RuntimeError
       else bind (world_get (bd_clock D)) (\<lambda>now. if flt timeout (fsub now begin') then raise TimeoutError
         else bseq (world_do (bd_sleep D)) (wait_within fuel D begin' timeout)))"

fun argmax16 :: "int list \<Rightarrow> nat \<Rightarrow> nat \<Rightarrow> int \<Rightarrow> nat" where
  "argmax16 [] i best' m = best'"
| "argmax16 (x # xs) i best' m = (if m < x then argmax16 xs (i + 1) i x else argmax16 xs (i + 1) best' m)"

text \<open>Preparing the control block for the given tokens on a cache of length \<open>past\<close>.\<close>

definition seed_control :: "'w board \<Rightarrow> int list \<Rightarrow> int \<Rightarrow> bool \<Rightarrow> int \<Rightarrow> (('w, 'z) arena_scheme, unit) act" where
  "seed_control D tokens past enabled ordinal =
     bind (mapM_act mapping [''work'', ''trace'']) (\<lambda>_.
     bseq (deposit D IndexError ''work'' 0 (replicate 0x3000 0)) (bseq (deposit D IndexError ''trace'' 0 (replicate 256 0))
    (bseq (pack_u32 D ''work'' 0 ((control_words [PROFILE_CONTROL, 1, ordinal, 2, int (length tokens), 1, of_bool enabled, 100000000])[10 := past]))
          (pack_u32 D ''work'' WORK_PROMPT tokens))))"

text \<open>Run, then the token, the control words and the trace header, with the delivery time.\<close>

definition run_seeded :: "nat \<Rightarrow> 'w board \<Rightarrow> int \<Rightarrow> f64 \<Rightarrow> (('w, 'z) arena_scheme, int \<times> int list \<times> int list \<times> f64) act" where
  "run_seeded fuel D reached timeout =
     bind (world_get (bd_clock D)) (\<lambda>begin'.
     bseq (ioctl D IOC_START)
    (bseq (wait_within fuel D begin' timeout)
    (bseq (ioctl D IOC_RETURN)
    (bind (unpack_u32 D ''work'' WORK_GENERATED 1) (\<lambda>token.
     bind (world_get (bd_clock D)) (\<lambda>delivered.
     bind (unpack_u32 D ''work'' 0 25) (\<lambda>words.
     bseq (require (take 4 (drop 8 words) = [4, 0, reached, 1] \<and> take 2 (drop 23 words) = [3, 0]) ValueError)
    (bind (unpack_u32 D ''trace'' 0 64) (\<lambda>header. ret (hd token, words, header, fsub delivered begin'))))))))))"

text \<open>Token, all logits and the valid cache against the independent result.\<close>

definition check_seeded :: "'w board \<Rightarrow> host \<Rightarrow> py \<Rightarrow> int \<Rightarrow> int list \<Rightarrow> int list \<Rightarrow> (('w, 'z) arena_scheme, string \<times> string) act" where
  "check_seeded D H seed token words header =
     bind (load D ValueError ''trace'' LOGITS_OFFSET (2 * 50257)) (\<lambda>bs.
     let logits = as_int16 bs; logits_hash = ho_sha_f8 H (map (\<lambda>v. logical v (header ! 4)) logits) in
     bind (cache_digest D H (words ! 10)) (\<lambda>kv_hash. let X = fld (V seed) ''expected'' in
     bind (lift_res (conjs [eq (I token) (fld X ''token''), Inr (int (argmax16 logits 0 0 (hd logits)) = token),
         eq (S logits_hash) (fld X ''logits_sha256''), eq (S kv_hash) (fld X ''cache_sha256'')])) (\<lambda>same.
     bseq (require same ValueError) (ret (logits_hash, kv_hash)))))"

text \<open>The records that the header announces: a slice of the mapping.\<close>

definition profile_records :: "'w board \<Rightarrow> int list \<Rightarrow> (('w, 'z) arena_scheme, int list) act" where
  "profile_records D header = bind (contents D ''trace'') (\<lambda>bs. ret (take (nat (header ! 5) * RECORD_BYTES) (drop RECORD_OFFSET bs)))"

definition run_one :: "nat \<Rightarrow> 'w board \<Rightarrow> host \<Rightarrow> string \<Rightarrow> py \<Rightarrow> bool \<Rightarrow> int \<Rightarrow> f64 \<Rightarrow> (('w, 'z) arena_scheme, py) act" where
  "run_one fuel D H stage seed enabled ordinal timeout =
     bseq (ioctl D IOC_PREPARE)
    (bind (load_firmware D H (path [stage, ''m5_profile.bin''])) (\<lambda>firmware_hash.
     bseq (restore_seed D H (path [stage, ''seed'']) seed)
    (bind (lift_res (int_fld seed ''past'')) (\<lambda>past. bind (lift_res (int_fld seed ''input_token'')) (\<lambda>token_in.
     bseq (seed_control D [token_in] past enabled ordinal)
    (bind (run_seeded fuel D (past + 1) timeout) (\<lambda>(token, words, header, seconds).
     bind (profile_records D header) (\<lambda>raw.
     bind (lift_res (parse_profile header raw enabled FABRIC_HZ)) (\<lambda>result.
     bind (check_seeded D H seed token words header) (\<lambda>(logits_hash, kv_hash).
     lift_res (updated result [(''status'', S ''PASS''), (''ordinal'', I ordinal), (''token'', I token),
       (''firmware_sha256'', S firmware_hash), (''logits_sha256'', S logits_hash), (''kv_sha256'', S kv_hash),
       (''cache_valid'', I (words ! 10)), (''host_request_through_delivery_seconds'', V (PyFloat seconds))])))))))))))"

section \<open>The campaign\<close>

definition profile_files :: "string list" where
  "profile_files = [''m5_pynq.bit'', ''m5_pynq.hwh'', ''m5_profile.bin'', ''m5_opt_profile.py'', ''m5_run.py'']"

definition identity_checks :: "host \<Rightarrow> string \<Rightarrow> py \<Rightarrow> py \<Rightarrow> bool res" where
  "identity_checks H stage policy' seed = (let P = V policy'; X = V seed; f = fld P ''fixed_decode'' in
     conjs [eq (fld P ''clock_hz'') (I FABRIC_HZ), eq (fld X ''status'') (S ''PASS''),
       eq (fld X ''fixture_sha256'') (fld P ''reference_manifest_sha256''), eq (fld X ''past'') (fld f ''past''),
       eq (fld X ''input_token'') (fld f ''input_token''),
       eq (fld X ''policy_sha256'') (rbind (fl_sha (ho_files H) (path [stage, ''opt_policy.json''])) (\<lambda>d. S d)),
       rbind (iter (fld X ''arrays'')) (\<lambda>ks. Inr (set_eq ks (map PyStr CACHE_NAMES)))])"

definition profile_trial :: "nat \<Rightarrow> 'w board \<Rightarrow> host \<Rightarrow> string \<Rightarrow> py \<Rightarrow> py \<Rightarrow> nat \<times> py \<Rightarrow> ('w runner, unit) act" where
  "profile_trial fuel D H stage policy' seed = (\<lambda>(ordinal, name).
     bind (lift_res (rbind (fld (fld (V policy') ''fixed_decode'') ''timeout_seconds'') to_float)) (\<lambda>timeout.
     bind (run_one fuel D H stage seed (py_eq name (PyStr ''profiled_diagnostic'')) (int ordinal + 1) timeout) (\<lambda>run.
     bind (lift_res (updated run [(''role'', V name)])) add_run)))"

definition profile_body :: "nat \<Rightarrow> 'w board \<Rightarrow> host \<Rightarrow> string \<Rightarrow> py \<Rightarrow> py \<Rightarrow> py \<Rightarrow> ('w runner, unit) act" where
  "profile_body fuel D H stage layout policy' seed =
     bseq (world (bd_overlay D (path [stage, ''m5_pynq.bit''])))
    (bseq (ioctl D IOC_PREPARE)
    (bseq (allocate D H layout)
    (bind (mapping ''model'') (\<lambda>_. bind (lift_res (str_fld H layout ''model_sha256'')) (\<lambda>expected.
     bind (load_model D H ''model'' (path [stage, ''model.bin'']) expected) (\<lambda>_.
     bseq (modify (\<lambda>s. s\<lparr>rn_cluster := True\<rparr>))
    (bind (lift_res (iter (fld (fld (V policy') ''fixed_decode'') ''initial_order''))) (\<lambda>order.
     bseq (for_each (profile_trial fuel D H stage policy' seed) (enumerate 0 order))
          (report_put ''status'' (PyStr ''PASS''))))))))))"

definition name_error :: "('w runner, 'a) act \<Rightarrow> ('w runner, 'a) act" where
  "name_error m s = (case m s of (Inr x, s') \<Rightarrow> (Inr x, s')
     | (Inl e, s') \<Rightarrow> (Inl e, s'\<lparr>rn_report := dict_put (rn_report s') (PyStr ''error'') (PyStr (exn_name e))\<rparr>))"

definition profile_cleanup :: "'w board \<Rightarrow> ('w runner, unit) act" where
  "profile_cleanup D =
     bind (info D) (\<lambda>ws.
     bseq (if ws ! 4 \<noteq> 0 then ioctl D IOC_RETURN else ret ())
    (bind (reported ''status'') (\<lambda>status. bind (gets rn_cluster) (\<lambda>cluster.
     bseq (if py_eq status (PyStr ''PASS'') \<or> \<not> cluster then ret ()
           else bind (unpack_u32 D ''work'' 0 25) (\<lambda>c. bseq (report_put ''failure_control'' (int_list c))
               (bind (world_get (bd_peek D (0xd000 div 4) 32)) (\<lambda>hs. report_put ''failure_hart_results'' (int_list hs)))))
    (bind (info D) (\<lambda>after. bseq (report_put ''dma_after_return'' (info_dict after))
    (bseq (close_arena D) (report_put ''cleanup'' (PyStr ''safe ownership return and mappings/file closed'')))))))))"

text \<open>A clean-up that raises marks the report; the report is written in any case.\<close>

definition mark_cleanup :: "('w runner, unit) act \<Rightarrow> ('w runner, unit) act" where
  "mark_cleanup m s = (case m s of (Inr x, s') \<Rightarrow> (Inr x, s')
     | (Inl e, s') \<Rightarrow> (Inl e, s'\<lparr>rn_report := dict_put (dict_put (rn_report s') (PyStr ''status'') (PyStr ''FAIL''))
         (PyStr ''cleanup_error'') (PyStr (exn_name e))\<rparr>))"

definition profile_output :: "'w board \<Rightarrow> ('w runner, unit) act" where
  "profile_output D = bind (memory_observation D) (\<lambda>m. bseq (report_put ''memory_after'' m)
     (modify (\<lambda>s. s\<lparr>rn_output := Some (PyDict (rn_report s))\<rparr>)))"

definition profile_report :: "host \<Rightarrow> string \<Rightarrow> py \<Rightarrow> (py \<times> py) list res" where
  "profile_report H stage policy' =
     rbind (fl_sha (ho_files H) (path [stage, ''seed/manifest.json''])) (\<lambda>m.
     rbind (rmap (\<lambda>f. rbind (fl_sha (ho_files H) (path [stage, f])) (\<lambda>d. Inr (PyStr f, PyStr d))) profile_files) (\<lambda>shas.
       Inr [(PyStr ''schema'', PyInt 1), (PyStr ''status'', PyStr ''FAIL''), (PyStr ''policy'', policy'), (PyStr ''runs'', PyList []),
         (PyStr ''seed_manifest_sha256'', PyStr m), (PyStr ''sha256'', PyDict shas)]))"

definition profile_main :: "nat \<Rightarrow> 'w board \<Rightarrow> host \<Rightarrow> ('w, unit) act \<Rightarrow> string \<Rightarrow> string \<Rightarrow> ('w runner, unit) act" where
  "profile_main fuel D H open_device stage output = (let json = (\<lambda>f. fl_json (ho_files H) (path [stage, f])) in
     bseq (require (\<not> fl_is_file (ho_files H) output) ValueError)
    (bind (lift_res (json ''opt_policy.json'')) (\<lambda>policy'. bind (lift_res (json ''seed/manifest.json'')) (\<lambda>seed.
     bind (lift_res (identity_checks H stage policy' seed)) (\<lambda>ok.
     bseq (require ok ValueError)
    (bind (lift_res (json ''layout.json'')) (\<lambda>layout.
     bind (lift_res (profile_report H stage policy')) (\<lambda>head.
     bind (memory_observation D) (\<lambda>memory.
     bseq (modify (\<lambda>s. s\<lparr>rn_report := head @ [(PyStr ''memory_before'', memory)]\<rparr>))
    (bseq (world open_device)
          (finally' (name_error (profile_body fuel D H stage layout policy' seed))
             (finally' (mark_cleanup (profile_cleanup D)) (profile_output D)))))))))))))"

end
