(* ===== verification/SweepRun.thy ===== *)
theory SweepRun
  imports Profile
begin

text \<open>
  The budgeted campaign of \<open>zynq/m5_sweep.py\<close>: admission, safe closing, and the campaign around the
  request runners, which are arguments (\<open>runners\<close>), since the context and start-up variants replace
  them. The kernel module, the alarm, the processes and the checkpoint file are operations of the
  system (\<open>'w system\<close>); an expiring alarm shows as a \<open>TimeoutError\<close> of whichever operation it hits.
\<close>

record 'w system =
  sy_exists :: "string \<Rightarrow> 'w \<Rightarrow> bool \<times> 'w"
  sy_run :: "string list \<Rightarrow> ('w, unit) act"
  sy_open :: "('w, unit) act"
  sy_timer :: "f64 \<Rightarrow> 'w \<Rightarrow> 'w"
  sy_write :: "string \<Rightarrow> py \<Rightarrow> ('w, unit) act"

record 'w runners =
  rr_case :: "py \<Rightarrow> py \<Rightarrow> int \<Rightarrow> bool \<Rightarrow> int \<Rightarrow> f64 \<Rightarrow> ('w, py) act"
  rr_one :: "string \<Rightarrow> py \<Rightarrow> bool \<Rightarrow> int \<Rightarrow> f64 \<Rightarrow> ('w, py) act"

section \<open>Admission and closing\<close>

definition admitted :: "py res \<Rightarrow> py res \<Rightarrow> py \<Rightarrow> bool res" where
  "admitted elapsed bound policy' = conjs [lt (I 0) bound, le (I 0) elapsed,
     le (add (add elapsed bound) (fld (V policy') ''cleanup_reserve_seconds'')) (fld (V policy') ''board_budget_seconds'')]"

definition safe_close :: "'w board \<Rightarrow> (('w, 'z) arena_scheme, py) act" where
  "safe_close D =
     bind (info D) (\<lambda>ws.
     bseq (if ws ! 4 \<noteq> 0 then ioctl D IOC_RETURN else ret ())
    (bind (info D) (\<lambda>after.
     bseq (require (after ! 4 = 0) RuntimeError)
    (bseq (close_arena D) (ret (info_dict after))))))"

section \<open>The report and its checkpoints\<close>

definition write_checkpoint :: "'w system \<Rightarrow> string \<Rightarrow> ('w runner, unit) act" where
  "write_checkpoint Y output = bind (gets rn_report) (\<lambda>d. world (sy_write Y output (PyDict d)))"

definition clock :: "'w board \<Rightarrow> f64 \<Rightarrow> ('w runner, py) act" where
  "clock D since = bind (world_get (bd_clock D)) (\<lambda>now. ret (PyFloat (fsub now since)))"

text \<open>\<open>report['trials'].append(item)\<close>, and an update of the item that was appended last.\<close>

definition append_item :: "py \<Rightarrow> ('w runner, unit) act" where
  "append_item item' = bind (reported ''trials'') (\<lambda>ts. bind (lift_res (add (V ts) (V (PyList [item'])))) (report_put ''trials''))"

definition update_item :: "(string \<times> py) list \<Rightarrow> ('w runner, unit) act" where
  "update_item kvs = bind (reported ''trials'') (\<lambda>ts. bind (lift_res (iter (V ts))) (\<lambda>xs.
     if xs = [] then raise IndexError
     else bind (lift_res (updated (last xs) (map (\<lambda>(k, v). (k, V v)) kvs))) (\<lambda>x. report_put ''trials'' (PyList (butlast xs @ [x])))))"

section \<open>Opening\<close>

definition KO_FILE :: string where "KO_FILE = ''/home/xilinx/pocketai_m5_helper_build/pa_m5_dma.ko''"
definition MODULE_PATH :: string where "MODULE_PATH = ''/sys/module/pa_m5_dma''"
definition DEVICE_PATH :: string where "DEVICE_PATH = ''/dev/pocketai_m5''"

definition sha_note :: "host \<Rightarrow> string \<Rightarrow> string \<Rightarrow> ('w runner, string) act" where
  "sha_note H stage name = bind (lift_res (fl_sha (ho_files H) (path [stage, name]))) (\<lambda>d.
     bseq (note_in ''sha256'' name (PyStr d)) (ret d))"

definition check_pinned :: "host \<Rightarrow> string \<Rightarrow> py \<times> py \<Rightarrow> ('w runner, unit) act" where
  "check_pinned H stage = (\<lambda>(key, expected). let name = py_str (ho_repr H) key in
     bind (lift_res (fl_sha (ho_files H) (path [stage, name]))) (\<lambda>d.
     bseq (require (py_eq (PyStr d) expected) ValueError) (note_in ''sha256'' name (PyStr d))))"

text \<open>The alarm for what is left of the budget, the identities, and the helper module.\<close>

definition open_campaign :: "'w board \<Rightarrow> 'w system \<Rightarrow> host \<Rightarrow> string \<Rightarrow> string \<times> string \<Rightarrow> py \<Rightarrow> py \<Rightarrow> py \<Rightarrow> f64 \<Rightarrow> ('w runner, unit) act" where
  "open_campaign D Y H stage modules policy' refs layout start = (let P = V policy' in
     bind (clock D start) (\<lambda>elapsed.
     bind (lift_res (minus' (minus' (fld P ''board_budget_seconds'') (fld P ''cleanup_reserve_seconds'')) (V elapsed))) (\<lambda>remaining.
     bind (lift_res (disjs [le (V remaining) (I 0), lt (I 3480) (V remaining)])) (\<lambda>bad.
     bseq (require (\<not> bad) ValueError)
    (bind (lift_res (to_float remaining)) (\<lambda>seconds.
     bseq (world_do (sy_timer Y seconds))
    (bind (reported ''policy_sha256'') (\<lambda>mine.
     bind (lift_res (conjs [eq (fld P ''clock_hz'') (I FABRIC_HZ), eq (fld (V refs) ''status'') (S ''PASS''),
         eq (fld (V refs) ''policy_sha256'') (V mine)])) (\<lambda>ok.
     bseq (require ok ValueError)
    (bind (lift_res (items (fld P ''pinned''))) (\<lambda>pins.
     bseq (for_each (check_pinned H stage) pins)
    (bseq (for_each (\<lambda>n. bind (sha_note H stage n) (\<lambda>_. ret ())) [''m5_sweep.py'', ''layout.json''])
    (bind (lift_res (conjs [eq (S (fst modules)) (fld (fld P ''pinned'') ''m5_run.py''),
         eq (S (snd modules)) (fld (fld P ''pinned'') ''m5_opt_profile.py''), eq (fld (V layout) ''arena_bytes'') (I ARENA_TOTAL)])) (\<lambda>ok.
     bseq (require ok ValueError)
    (bind (world_get (sy_exists Y MODULE_PATH)) (\<lambda>loaded.
     bseq (require (\<not> loaded) RuntimeError)
          (world (sy_run Y [''insmod'', KO_FILE]))))))))))))))))))"

definition provision :: "nat \<Rightarrow> 'w board \<Rightarrow> 'w system \<Rightarrow> host \<Rightarrow> string \<Rightarrow> string \<Rightarrow> py \<Rightarrow> ('w runner, unit) act" where
  "provision fuel D Y H stage output layout =
     bind (world_get (bd_clock D)) (\<lambda>begin'.
     bseq (world (bd_overlay D (path [stage, ''m5_pynq.bit''])))
    (bseq (ioctl D IOC_PREPARE)
    (bseq (allocate D H layout)
    (bind (mapping ''model'') (\<lambda>_. bind (lift_res (str_fld H layout ''model_sha256'')) (\<lambda>expected.
     bind (load_model D H ''model'' (path [stage, ''model.bin'']) expected) (\<lambda>_.
     bseq (note_in ''sha256'' ''model.bin'' (PyStr expected))
    (bseq (modify (\<lambda>s. s\<lparr>rn_cluster := True\<rparr>))
    (bind (load_firmware D H (path [stage, ''m5_runtime.bin''])) (\<lambda>_.
     bind (clock D begin') (\<lambda>seconds. bseq (report_put ''provision_seconds'' seconds)
    (bind (info D) (\<lambda>ws. bseq (report_put ''allocated_bytes'' (PyInt (ws ! 3 * PAGE)))
    (bind (memory_observation D) (\<lambda>m. bseq (report_put ''memory_provisioned_kib'' m)
    (bind (run_rejection fuel D H (Fin 30)) (\<lambda>r. bseq (report_put ''boundary_rejection'' r)
          (write_checkpoint Y output))))))))))))))))))"

section \<open>One trial\<close>

definition SKIPS :: "py list" where
  "SKIPS = [PyStr ''independent reference unavailable within preparation guard'',
     PyStr ''conservative case bound would consume cleanup reserve'']"


definition available :: "host \<Rightarrow> py \<Rightarrow> py \<Rightarrow> bool res" where
  "available H refs trial = rbind (eq (fld (V trial) ''kind'') (S ''full'')) (\<lambda>full.
     if full then rbind (fld (V trial) ''case'') (\<lambda>c. rbind (fld (V refs) ''cases'') (contains c))
     else rbind (fld (V trial) ''past'') (\<lambda>p. rbind (fld (V refs) ''seeds'') (contains (PyStr (py_str (ho_repr H) p)))))"

definition trial_result :: "'w board \<Rightarrow> host \<Rightarrow> 'w runner runners \<Rightarrow> string \<Rightarrow> py \<Rightarrow> py \<Rightarrow> py \<Rightarrow> int \<Rightarrow> ('w runner, py) act" where
  "trial_result D H R stage refs traces trial ordinal = (let T = V trial in
     bind (lift_res (eq (fld T ''kind'') (S ''full''))) (\<lambda>full. if full then
       bseq (ioctl D IOC_PREPARE)
      (bind (load_firmware D H (path [stage, ''m5_runtime.bin''])) (\<lambda>_.
       bind (lift_res (itm (fld (V refs) ''cases'') (fld T ''case''))) (\<lambda>c. bind (lift_res (str_fld H c ''id'')) (\<lambda>i.
       bind (lift_res (get (V traces) i (PyDict []))) (\<lambda>trace_case.
       bind (lift_res (int_fld trial ''new_tokens'')) (\<lambda>count. bind (lift_res (tru (fld T ''capture''))) (\<lambda>capture.
       bind (lift_res (rbind (fld T ''bound_seconds'') to_float)) (\<lambda>bound.
         rr_case R c trace_case count capture ordinal bound))))))))
     else
       bind (lift_res (rbind (fld T ''past'') (\<lambda>p. Inr (py_str (ho_repr H) p)))) (\<lambda>past.
       bind (lift_res (fld (fld (V refs) ''seeds'') past)) (\<lambda>seed. bind (lift_res (tru (fld T ''profile''))) (\<lambda>profile.
       bind (lift_res (rbind (fld T ''bound_seconds'') to_float)) (\<lambda>bound.
         rr_one R (path [stage, ''references'', ''p'' @ past]) seed profile ordinal bound))))))"

text \<open>\<open>except\<close>: the item carries the error; \<open>finally\<close>: its times, and a write_checkpoint.\<close>

definition item_error :: "('w runner, unit) act \<Rightarrow> ('w runner, unit) act" where
  "item_error m s = (case m s of (Inr x, s') \<Rightarrow> (Inr x, s')
     | (Inl e, s') \<Rightarrow> (case update_item ((''error'', PyStr (exn_name e)) # (case ar_partial s' of None \<Rightarrow> [] | Some p \<Rightarrow> [(''partial_result'', p)])) s' of
         (Inl e', t) \<Rightarrow> (Inl e', t) | (Inr _, t) \<Rightarrow> (Inl e, t)))"

definition item_times :: "'w board \<Rightarrow> 'w system \<Rightarrow> string \<Rightarrow> py \<Rightarrow> f64 \<Rightarrow> f64 \<Rightarrow> ('w runner, unit) act" where
  "item_times D Y output trial begin' start =
     bind (clock D begin') (\<lambda>elapsed. bind (lift_res (lt (fld (V trial) ''bound_seconds'') (V elapsed))) (\<lambda>late.
     bseq (update_item [(''case_elapsed_seconds'', elapsed), (''bound_exceeded'', PyBool late)])
    (bind (clock D start) (\<lambda>total'. bseq (report_put ''elapsed_seconds'' total') (write_checkpoint Y output)))))"

definition sweep_trial :: "'w board \<Rightarrow> 'w system \<Rightarrow> host \<Rightarrow> 'w runner runners \<Rightarrow> string \<Rightarrow> string \<Rightarrow> py \<Rightarrow> py \<Rightarrow> py \<Rightarrow> f64 \<Rightarrow> int \<times> py
    \<Rightarrow> ('w runner, unit) act" where
  "sweep_trial D Y H R stage output policy' refs traces start = (\<lambda>(ordinal, trial).
     bind (clock D start) (\<lambda>elapsed.
     bind (lift_res (available H refs trial)) (\<lambda>known.
     bind (if \<not> known then ret (Some (SKIPS ! 0))
           else bind (lift_res (admitted (V elapsed) (fld (V trial) ''bound_seconds'') policy')) (\<lambda>ok.
                  ret (if ok then None else Some (SKIPS ! 1)))) (\<lambda>skip.
     case skip of
       Some reason \<Rightarrow>
         bseq (append_item (PyDict [(PyStr ''trial'', trial), (PyStr ''status'', PyStr ''SKIP''), (PyStr ''reason'', reason)]))
           (write_checkpoint Y output)
     | None \<Rightarrow>
         bind (world_get (bd_clock D)) (\<lambda>begin'.
         bseq (append_item (PyDict [(PyStr ''trial'', trial), (PyStr ''status'', PyStr ''FAIL''), (PyStr ''started_campaign_seconds'', elapsed)]))
        (bseq (write_checkpoint Y output)
              (finally' (item_error (bind (trial_result D H R stage refs traces trial ordinal) (\<lambda>result.
                   update_item [(''status'', PyStr ''PASS''), (''result'', result)])))
                (item_times D Y output trial begin' start))))))))"

section \<open>The campaign\<close>

definition sweep_body :: "nat \<Rightarrow> 'w board \<Rightarrow> 'w system \<Rightarrow> host \<Rightarrow> 'w runner runners \<Rightarrow> string \<Rightarrow> string \<Rightarrow> string \<times> string \<Rightarrow> py \<Rightarrow> py \<Rightarrow> py \<Rightarrow> py
    \<Rightarrow> f64 \<Rightarrow> ('w runner, unit) act" where
  "sweep_body fuel D Y H R stage output modules policy' refs traces layout start =
     bseq (open_campaign D Y H stage modules policy' refs layout start)
    (bseq (modify (\<lambda>s. s\<lparr>rn_loaded := True\<rparr>))
    (bseq (world (sy_open Y)) (bseq (modify (\<lambda>s. s\<lparr>rn_overlay := True\<rparr>))
    (bseq (provision fuel D Y H stage output layout)
    (bind (lift_res (iter (fld (V policy') ''matrix''))) (\<lambda>matrix'.
     bseq (for_each (sweep_trial D Y H R stage output policy' refs traces start) (zip (map int [1..<Suc (length matrix')]) matrix'))
          (report_put ''status'' (PyStr ''PASS''))))))))"

text \<open>Ownership and pages are checked on a freshly opened device before the module is unloaded.\<close>

definition reopen_check :: "'w board \<Rightarrow> 'w system \<Rightarrow> ('w runner, unit) act" where
  "reopen_check D Y =
     bseq (world (sy_open Y))
       (finally' (bind (info D) (\<lambda>ws. bseq (report_put ''info_after_close_reopen'' (info_dict ws))
           (require (ws ! 4 = 0 \<and> ws ! 3 = 0 \<and> ws ! 2 = 0) RuntimeError))) (close_arena D))"

definition sweep_cleanup :: "'w board \<Rightarrow> 'w system \<Rightarrow> ('w runner, unit) act" where
  "sweep_cleanup D Y =
     bind (gets rn_overlay) (\<lambda>opened. bind (gets rn_loaded) (\<lambda>loaded.
     bseq (if \<not> opened then ret () else bind (safe_close D) (\<lambda>i. bseq (report_put ''dma_after_return'' i) (reopen_check D Y)))
          (if \<not> loaded then ret ()
           else bseq (world (sy_run Y [''rmmod'', ''pa_m5_dma'']))
               (bind (world_get (sy_exists Y MODULE_PATH)) (\<lambda>m. bind (if m then ret True else world_get (sy_exists Y DEVICE_PATH)) (\<lambda>left.
                bseq (require (\<not> left) RuntimeError) (report_put ''normal_unload'' (PyBool True))))))))"

definition sweep_output :: "'w board \<Rightarrow> 'w system \<Rightarrow> string \<Rightarrow> py \<Rightarrow> f64 \<Rightarrow> ('w runner, unit) act" where
  "sweep_output D Y output policy' start =
     bind (clock D start) (\<lambda>elapsed. bseq (report_put ''elapsed_seconds'' elapsed)
    (bind (lift_res (conjs [lt (I 0) (V elapsed), le (V elapsed) (fld (V policy') ''board_budget_seconds'')])) (\<lambda>within'.
     bseq (report_put ''within_budget'' (PyBool within'))
    (bind (memory_observation D) (\<lambda>m. bseq (report_put ''memory_after_kib'' m)
    (bseq (if within' then ret () else report_put ''status'' (PyStr ''FAIL''))
    (bseq (write_checkpoint Y output) (modify (\<lambda>s. s\<lparr>rn_output := Some (PyDict (rn_report s))\<rparr>)))))))))"

definition sweep_campaign :: "nat \<Rightarrow> 'w board \<Rightarrow> 'w system \<Rightarrow> host \<Rightarrow> 'w runner runners \<Rightarrow> string \<Rightarrow> string \<Rightarrow> string \<times> string \<Rightarrow> py \<Rightarrow> py \<Rightarrow> py \<Rightarrow> py
    \<Rightarrow> f64 \<Rightarrow> ('w runner, unit) act" where
  "sweep_campaign fuel D Y H R stage output modules policy' refs traces layout start =
     finally' (name_error (sweep_body fuel D Y H R stage output modules policy' refs traces layout start))
       (bseq (world_do (sy_timer Y (Fin 0)))
         (finally' (mark_cleanup (sweep_cleanup D Y)) (sweep_output D Y output policy' start)))"

definition sweep_main :: "nat \<Rightarrow> 'w board \<Rightarrow> 'w system \<Rightarrow> host \<Rightarrow> 'w runner runners \<Rightarrow> string \<Rightarrow> string \<times> string \<Rightarrow> f64 \<Rightarrow> ('w runner, unit) act" where
  "sweep_main fuel D Y H R stage modules start = (let output = path [stage, ''campaign.json'']; fs = ho_files H;
       json = (\<lambda>f. fl_json fs (path [stage, f])); digest = (\<lambda>f. rbind (fl_sha fs (path [stage, f])) (\<lambda>d. S d)) in
     bseq (require (\<not> fl_is_file fs output) ValueError)
    (bind (lift_res (json ''policy.json'')) (\<lambda>policy'. bind (lift_res (json ''references/manifest.json'')) (\<lambda>refs.
     bind (lift_res (json ''fixtures/manifest.json'')) (\<lambda>fixtures. bind (lift_res (by_id (fld (V fixtures) ''cases''))) (\<lambda>traces.
     bind (lift_res (json ''layout.json'')) (\<lambda>layout.
     bind (lift_res (entries [(''schema'', I 1), (''status'', S ''FAIL''), (''policy'', V policy'), (''trials'', V (PyList [])),
         (''campaign_start_monotonic'', V (PyFloat start)), (''policy_sha256'', digest ''policy.json''),
         (''reference_manifest_sha256'', digest ''references/manifest.json''), (''sha256'', V (PyDict [])),
         (''platform'', S (fst (bd_platform D))), (''clock_hz'', I FABRIC_HZ)])) (\<lambda>head.
     bind (memory_observation D) (\<lambda>memory.
     bseq (modify (\<lambda>s. s\<lparr>rn_report := head @ [(PyStr ''memory_before_kib'', memory)]\<rparr>))
          (sweep_campaign fuel D Y H R stage output modules policy' refs traces layout start))))))))))"

end
