(* ===== verification/M5Laws.thy ===== *)
theory M5Laws
  imports SweepRun OffloadLaws
begin

text \<open>
  Laws of the acceptance runner: what the parts of a request leave alone, what an accepted request
  has been checked for, when the completion wait ends, and how the campaign's clean-up composes.
\<close>

section \<open>Frames\<close>

text \<open>The report's entries under \<open>K\<close>, the written output, and, where given, the mappings.\<close>

definition framed :: "string list \<Rightarrow> (string \<Rightarrow> py option) \<Rightarrow> py option \<Rightarrow> (string \<times> int \<times> int) list option \<Rightarrow> 'w runner \<Rightarrow> bool" where
  "framed K X out maps s \<longleftrightarrow> (\<forall>k\<in>set K. dict_find (rn_report s) (PyStr k) = X k) \<and> rn_output s = out
     \<and> (case maps of None \<Rightarrow> True | Some l \<Rightarrow> ar_maps s = l)"

named_theorems frame_intros "keeps (framed K X out maps) of the parts"

lemma framed_world [simp]: "framed K X out maps (s\<lparr>ar_world := w\<rparr>) = framed K X out maps s"
  by (simp add: framed_def split: option.split)

lemma framed_partial [simp]: "framed K X out maps (s\<lparr>ar_partial := p\<rparr>) = framed K X out maps s"
  by (simp add: framed_def split: option.split)

lemma framed_flags [simp]:
  "framed K X out maps (s\<lparr>rn_overlay := b\<rparr>) = framed K X out maps s"
  "framed K X out maps (s\<lparr>rn_cluster := b\<rparr>) = framed K X out maps s"
  "framed K X out maps (s\<lparr>rn_loaded := b\<rparr>) = framed K X out maps s"
  by (simp_all add: framed_def split: option.split)

lemma keeps_frame_world [frame_intros]:
  "keeps (framed K X out maps) (world m)" "keeps (framed K X out maps) (world_get f)" "keeps (framed K X out maps) (world_do g)"
  by (simp_all add: keeps_zoom_res keeps_zoom keeps_modify)

lemma keeps_frame_flags [frame_intros]:
  "keeps (framed K X out maps) (modify (\<lambda>s. s\<lparr>rn_overlay := b\<rparr>))" "keeps (framed K X out maps) (modify (\<lambda>s. s\<lparr>rn_cluster := b\<rparr>))"
  "keeps (framed K X out maps) (modify (\<lambda>s. s\<lparr>rn_loaded := b\<rparr>))"
  by (simp_all add: keeps_modify)

lemma keeps_report_put [frame_intros]: "k \<notin> set K \<Longrightarrow> keeps (framed K X out maps) (report_put k v)"
  unfolding report_put_def by (intro keeps_modify) (auto simp: framed_def find_put split: option.splits)

lemma keeps_Pair: "keeps J (Pair r)"
  by (simp add: keeps_def)

lemmas frames = keeps_intros keeps_Pair keeps_case_prod keeps_case_option keeps_Let

lemma keeps_frame_memory [frame_intros]:
  "keeps (framed K X out maps) (mapping name)" "keeps (framed K X out maps) (load D e name start n)"
  "keeps (framed K X out maps) (deposit D e name start bs)" "keeps (framed K X out maps) (info D)"
  "keeps (framed K X out maps) (ioctl D request)"
  unfolding load_def deposit_def mapping_def info_def ioctl_def by (intro frame_intros frames)+

lemma keeps_frame_words [frame_intros]:
  "keeps (framed K X out maps) (unpack_u32 D name start n)" "keeps (framed K X out maps) (pack_u32 D name start vs)"
  "keeps (framed K X out maps) (clear D name)" "keeps (framed K X out maps) (contents D name)"
  "keeps (framed K X out maps) (memory_observation D)" "keeps (framed K X out maps) (cache_digest D H p)"
  unfolding unpack_u32_def pack_u32_def clear_def contents_def memory_observation_def cache_digest_def cache_layer_def cache_block_def
  by (intro frame_intros frames)+

lemma keeps_frame_load_chunks [frame_intros]: "keeps (framed K X out maps) (load_chunks D name cs cursor)"
  by (induction cs arbitrary: cursor) (auto intro!: frame_intros frames)

lemma keeps_frame_loading [frame_intros]:
  "keeps (framed K X out maps) (load_model D H name source expected)" "keeps (framed K X out maps) (load_firmware D H p)"
  unfolding load_model_def load_firmware_def by (intro frame_intros frames)+

lemma keeps_frame_wait [frame_intros]: "keeps (framed K X out maps) (wait_done fuel D strict deadline)"
  by (induction fuel) (auto intro!: frame_intros frames)

lemma keeps_frame_rejection [frame_intros]: "keeps (framed K X out maps) (run_rejection fuel D H timeout)"
  unfolding run_rejection_def cache_hashes_def by (intro frame_intros frames)

lemma keeps_frame_records: "keeps (framed K X out maps) (check_records D H fixtures c n cursor)"
  by (induction n arbitrary: cursor) (auto simp: check_record_def intro!: frame_intros frames)

lemma keeps_frame_case [frame_intros]: "keeps (framed K X out maps) (run_case fuel D H fixtures c tc count capture rid timeout)"
  unfolding run_case_def submit_request_def run_firmware_def check_outputs_def decode_intervals_def with_traces_def check_traces_def
  by (intro frame_intros frames keeps_frame_records keeps_modify; simp)

lemma keeps_frame_reported [frame_intros]: "keeps (framed K X out maps) (reported k)"
  unfolding reported_def by (intro frames)

lemma keeps_frame_note [frame_intros]: "k \<notin> set K \<Longrightarrow> keeps (framed K X out maps) (note_in k j v)"
  unfolding note_in_def by (intro frame_intros frames)

text \<open>Mappings are made only here.\<close>

lemma keeps_frame_allocate [frame_intros]: "keeps (framed K X out None) (allocate D H layout)"
proof -
  have "keeps (framed K X out None) (\<lambda>s. case world (bd_ioctl D q bs) s of
      (Inl e, s') \<Rightarrow> (if e = OSError then bind (info D) (\<lambda>_. raise RuntimeError) s' else (Inl e, s')) | (Inr _, s') \<Rightarrow> (Inr (), s'))" for q bs
    unfolding keeps_def
  proof (intro allI impI)
    fix s assume "framed K X out None (s :: 'a runner)"
    moreover have "keeps (framed K X out None) (bind (info D) (\<lambda>_. raise RuntimeError :: ('a runner, unit) act))"
      by (intro frame_intros frames)
    ultimately show "framed K X out None (snd (case world (bd_ioctl D q bs) s of
      (Inl e, s') \<Rightarrow> (if e = OSError then bind (info D) (\<lambda>_. raise RuntimeError) s' else (Inl e, s')) | (Inr _, s') \<Rightarrow> (Inr (), s')))"
      by (auto simp: zoom_res_def keeps_def split: prod.splits sum.splits)
  qed
  then show ?thesis
    unfolding allocate_def allocate_region_def
    by (intro frame_intros frames keeps_modify) (auto simp: framed_def)
qed

section \<open>An accepted request\<close>

text \<open>What the report of a request has been checked for, against the reference case: every token, all the
  logits of the last step, the valid cache, and the cache length.\<close>

definition case_exact :: "py \<Rightarrow> int \<Rightarrow> py \<Rightarrow> bool" where
  "case_exact case' count r \<longleftrightarrow> (\<exists>steps prompt tokens expected.
     iter (fld (V case') ''steps'') = Inr steps \<and> 1 \<le> count \<and> count \<le> int (length steps)
     \<and> ints (fld (V case') ''input_tokens'') = Inr prompt
     \<and> rmap (\<lambda>s. fld (V s) ''token'') (take (nat count) steps) = Inr expected
     \<and> fld (V r) ''generated_tokens'' = V (int_list tokens) \<and> py_eq (int_list tokens) (PyList expected)
     \<and> eq (fld (V r) ''logits_sha256'') (fld (V (steps ! nat (count - 1))) ''logits_sha256'') = Inr True
     \<and> eq (fld (V r) ''kv_sha256'') (fld (V (steps ! nat (count - 1))) ''cache_sha256'') = Inr True
     \<and> fld (V r) ''cache_valid'' = I (int (length prompt) + count - 1))"

lemma case_report_fields:
  assumes "case_report case' count oc ts hashes intervals = Inr r"
  shows "fld (V r) ''generated_tokens'' = V (int_list (oc_generated oc))" "fld (V r) ''logits_sha256'' = S (fst hashes)"
    "fld (V r) ''kv_sha256'' = S (snd hashes)" "fld (V r) ''cache_valid'' = I (oc_words oc ! 10)"
proof -
  obtain a b c d e f where t: "ts = (a, b, c, d)" "hashes = (e, f)" by (cases ts, cases hashes) auto
  note d = assms [unfolded case_report_def t case_prod_conv Let_def]
  show "fld (V r) ''generated_tokens'' = V (int_list (oc_generated oc))" "fld (V r) ''logits_sha256'' = S (fst hashes)"
    "fld (V r) ''kv_sha256'' = S (snd hashes)" "fld (V r) ''cache_valid'' = I (oc_words oc ! 10)"
    by (rule dict_of_fld [OF d]; simp add: t)+
qed

lemma run_firmware_tokens:
  assumes "run_firmware fuel D steps count timeout s = (Inr (oc, ts), t)"
  shows "\<exists>expected. rmap (\<lambda>s. fld (V s) ''token'') (take (nat count) steps) = Inr expected \<and> py_eq (int_list (oc_generated oc)) (PyList expected)"
  using assms by (auto simp: run_firmware_def bind_Inr_iff bseq_Inr_iff)

lemma check_outputs_equal:
  assumes "check_outputs D H x oc s = (Inr (logits, kv), t)"
  shows "eq (S logits) (fld (V x) ''logits_sha256'') = Inr True" "eq (S kv) (fld (V x) ''cache_sha256'') = Inr True"
  using assms by (auto simp: check_outputs_def bind_Inr_iff bseq_Inr_iff Let_def)

lemma with_traces_other:
  assumes "with_traces D H fixtures tc r s = (Inr r', t)" "k \<noteq> ''traces''"
  shows "fld (V r') k = fld (V r) k"
proof -
  obtain x where "updated r [(''traces'', V x)] = Inr r'"
    using assms(1) by (auto simp: with_traces_def on_error_def bind_Inr_iff split: prod.splits sum.splits)
  then show ?thesis by (rule updated_other) (use assms(2) in simp)
qed

text \<open>Forward computation of what a returning action has established.\<close>

lemma returns_bind: "outcome m s (\<lambda>x t. outcome (f x) t Q E) E \<Longrightarrow> outcome (bind m f) s Q E"
  by (simp add: outcome_bind)

lemma returns_bseq: "outcome m s (\<lambda>_ t. outcome k t Q E) E \<Longrightarrow> outcome (bseq m k) s Q E"
  by (simp add: outcome_bseq)

lemma returns_lift: "(\<And>x. r = Inr x \<Longrightarrow> Q x s) \<Longrightarrow> outcome (lift_res r) s Q (\<lambda>_ _. True)"
  by (simp add: outcome_lift split: sum.split)

lemma returns_require: "(b \<Longrightarrow> Q () s) \<Longrightarrow> outcome (require b e) s Q (\<lambda>_ _. True)"
  by (simp add: outcome_require)

lemma returns_run: "(\<And>x t. m s = (Inr x, t) \<Longrightarrow> Q x t) \<Longrightarrow> outcome m s Q (\<lambda>_ _. True)"
  by (simp add: outcome_def split: prod.split sum.split)

lemmas returns = returns_bind returns_bseq returns_lift returns_require returns_run

lemma checked_exact:
  assumes "iter (fld (V case') ''steps'') = Inr steps" "1 \<le> count \<and> count \<le> int (length steps)"
    and "ints (fld (V case') ''input_tokens'') = Inr prompt" "run_firmware fuel D steps count timeout s1 = (Inr rf, s2)"
    and "metadata_consistent (fst rf) (length prompt) count"
    and "check_outputs D H (steps ! nat (count - 1)) (fst rf) s3 = (Inr hashes, s4)"
    and "case_report case' count (fst rf) (snd rf) hashes intervals = Inr r0"
    and "(if capture then with_traces D H fixtures tc r0 else ret r0) s5 = (Inr r, t)"
  shows "case_exact case' count r"
proof -
  obtain oc ts logits kv where rf: "rf = (oc, ts)" and h: "hashes = (logits, kv)" by (cases rf, cases hashes)
  note run = assms(4-7) [unfolded rf h fst_conv snd_conv]
  have same: "fld (V r) k = fld (V r0) k" if "k \<noteq> ''traces''" for k
    using assms(8) with_traces_other [OF _ that] by (auto split: if_splits)
  have "fld (V r) ''generated_tokens'' = V (int_list (oc_generated oc))" "fld (V r) ''logits_sha256'' = S logits"
    "fld (V r) ''kv_sha256'' = S kv" "fld (V r) ''cache_valid'' = I (int (length prompt) + count - 1)"
    using case_report_fields [OF run(4)] run(2) by (simp_all add: same metadata_consistent_def Let_def)
  moreover obtain expected where "rmap (\<lambda>s. fld (V s) ''token'') (take (nat count) steps) = Inr expected"
      "py_eq (int_list (oc_generated oc)) (PyList expected)"
    using run_firmware_tokens [OF run(1)] by blast
  moreover note check_outputs_equal [OF run(3)]
  ultimately show ?thesis
    unfolding case_exact_def using assms(1-3)
    by (intro exI [of _ steps] exI [of _ prompt] exI [of _ "oc_generated oc"] exI [of _ expected]) simp
qed

lemma run_case_exact:
  "outcome (run_case fuel D H fixtures case' tc count capture rid timeout) s (\<lambda>r _. case_exact case' count r) (\<lambda>_ _. True)"
  unfolding run_case_def case_prod_beta
  by (rule returns)+ (rule checked_exact)

section \<open>The campaign\<close>

lemma framed_bind:
  assumes "keeps J m" "J s" "\<And>x t. J t \<Longrightarrow> outcome (f x) t Q (\<lambda>_ _. True)"
  shows "outcome (bind m f) s Q (\<lambda>_ _. True)"
  using keeps_outcome [OF assms(1,2)] assms(3) by (auto simp: outcome_bind elim: outcome_mono)

lemma framed_bseq:
  assumes "keeps J m" "J s" "\<And>t. J t \<Longrightarrow> outcome k t Q (\<lambda>_ _. True)"
  shows "outcome (bseq m k) s Q (\<lambda>_ _. True)"
  unfolding bseq_def using assms by (rule framed_bind)

lemma framed_lift:
  "(\<And>x. r = Inr x \<Longrightarrow> outcome (f x) s Q (\<lambda>_ _. True)) \<Longrightarrow> outcome (bind (lift_res r) f) s Q (\<lambda>_ _. True)"
  by (auto simp: outcome_bind outcome_lift split: sum.split)

lemma outcome_conj: "outcome m s Q E \<Longrightarrow> outcome m s Q' E' \<Longrightarrow> outcome m s (\<lambda>x t. Q x t \<and> Q' x t) (\<lambda>e t. E e t \<and> E' e t)"
  by (auto simp: outcome_def split: prod.splits sum.splits)

text \<open>The report of one line of the matrix.\<close>

definition run_verified :: "py \<Rightarrow> py \<Rightarrow> py \<Rightarrow> bool" where
  "run_verified generations trial r \<longleftrightarrow> (\<exists>case' count. itm (V generations) (fld (V trial) ''prompt'') = Inr case'
     \<and> int_fld trial ''new_tokens'' = Inr count \<and> case_exact case' count r)"

definition runs_are :: "py list \<Rightarrow> 'w runner \<Rightarrow> bool" where
  "runs_are rs s \<longleftrightarrow> dict_find (rn_report s) (PyStr ''runs'') = Some (PyList rs)"

lemma frame_find:
  fixes m :: "('w runner, 'b) act"
  assumes "\<And>X out. keeps (framed [k] X out None) m"
  shows "dict_find (rn_report (snd (m s))) (PyStr k) = dict_find (rn_report s) (PyStr k)"
proof -
  define J :: "'w runner \<Rightarrow> bool" where "J = framed [k] (\<lambda>_. dict_find (rn_report s) (PyStr k)) (rn_output s) None"
  have "keeps J m" unfolding J_def by (rule assms)
  then have "J (snd (m s))" by (rule keepsD) (simp add: J_def framed_def)
  then show ?thesis by (simp add: J_def framed_def)
qed

lemma keeps_runs:
  assumes "\<And>X out. keeps (framed [''runs''] X out None) m"
  shows "keeps (runs_are rs) m"
  using frame_find [OF assms] by (simp add: keeps_def runs_are_def)

lemma add_run_outcome: "runs_are rs s \<Longrightarrow> outcome (add_run r) s (\<lambda>_. runs_are (rs @ [r])) (\<lambda>_ _. True)"
  by (simp add: add_run_def reported_def report_put_def outcome_def bind_def runs_are_def itm_def lift2_def py_add_def find_put)

lemma campaign_run_outcome:
  assumes "runs_are rs s"
  shows "outcome (campaign_run fuel D H stage generations cases timeout (rid, trial)) s
     (\<lambda>_ t. \<exists>r. runs_are (rs @ [r]) t \<and> run_verified generations trial r) (\<lambda>_ _. True)"
proof -
  have last': "outcome (bind (run_case fuel D H fx run fixture count capture rid timeout) add_run) t
      (\<lambda>_ t. \<exists>r. runs_are (rs @ [r]) t \<and> run_verified generations trial r) (\<lambda>_ _. True)"
    if "runs_are rs t" "fld (V trial) ''prompt'' = Inr name" "int_fld trial ''new_tokens'' = Inr count"
      "itm (V generations) (V name) = Inr run" for t fx run fixture count capture name
  proof -
    have "keeps (runs_are rs) (run_case fuel D H fx run fixture count capture rid timeout)" by (intro keeps_runs frame_intros)
    note outcome_conj [OF keeps_outcome [OF this that(1)] run_case_exact]
    then show ?thesis
      unfolding outcome_bind
      by (rule outcome_mono) (auto intro!: outcome_mono [OF add_run_outcome] simp: run_verified_def that)
  qed
  show ?thesis
    unfolding campaign_run_def case_prod_conv using assms
    by - (rule last' framed_lift framed_bseq [where J = "runs_are rs"] framed_bind [where J = "runs_are rs"] keeps_runs
        frame_intros frames | assumption)+
qed

lemma matrix_outcome:
  assumes "runs_are rs s"
  shows "outcome (for_each (campaign_run fuel D H stage generations cases timeout) (zip ids trials)) s
     (\<lambda>_ t. \<exists>new. runs_are (rs @ new) t \<and> (length ids = length trials \<longrightarrow> list_all2 (run_verified generations) trials new)) (\<lambda>_ _. True)"
  using assms
proof (induction ids trials arbitrary: rs s rule: list_induct2')
  case (4 i ids trial trials)
  show ?case
    unfolding zip_Cons_Cons for_each.simps outcome_bseq
  proof (rule outcome_mono [OF campaign_run_outcome [OF 4(2)]], elim exE conjE)
    fix u and t :: "'a runner" and r assume t: "runs_are (rs @ [r]) t" and r: "run_verified generations trial r"
    show "outcome (for_each (campaign_run fuel D H stage generations cases timeout) (zip ids trials)) t
        (\<lambda>_ t. \<exists>new. runs_are (rs @ new) t \<and> (length (i # ids) = length (trial # trials) \<longrightarrow> list_all2 (run_verified generations) (trial # trials) new)) (\<lambda>_ _. True)"
    proof (rule outcome_mono [OF 4(1) [OF t]], goal_cases)
      case (1 x u)
      then obtain new where "runs_are ((rs @ [r]) @ new) u"
        "length ids = length trials \<longrightarrow> list_all2 (run_verified generations) trials new" by blast
      then show ?case by (intro exI [of _ "r # new"]) (use r in simp)
    qed simp
  qed simp
qed (auto simp: outcome_ret intro!: exI [of _ "[]"])

text \<open>What a campaign that returns leaves in the report.\<close>

definition passed :: "py \<Rightarrow> py \<Rightarrow> (py \<times> py) list \<Rightarrow> bool" where
  "passed policy' generations d \<longleftrightarrow> dict_find d (PyStr ''status'') = Some (PyStr ''PASS'')
     \<and> (\<exists>matrix' rs. iter (fld (V policy') ''matrix'') = Inr matrix' \<and> dict_find d (PyStr ''runs'') = Some (PyList rs)
          \<and> list_all2 (run_verified generations) matrix' rs)"

lemma body_outcome:
  assumes "runs_are [] s"
  shows "outcome (campaign_body fuel D H stage layout policy' generations cases timeout) s
     (\<lambda>_ t. passed policy' generations (rn_report t)) (\<lambda>_ _. True)"
proof -
  have tail: "outcome (bseq (report_put ''status'' (PyStr ''PASS'')) (bind (info D) (\<lambda>ws. report_put ''dma'' (info_dict ws)))) t
      (\<lambda>_ t. passed policy' generations (rn_report t)) (\<lambda>_ _. True)"
    if "runs_are rs t" "iter (fld (V policy') ''matrix'') = Inr m" "list_all2 (run_verified generations) m rs" for t m rs
  proof -
    define J where "J = (\<lambda>u :: 'a runner. passed policy' generations (rn_report u))"
    have put: "outcome (report_put ''status'' (PyStr ''PASS'')) t (\<lambda>_. J) (\<lambda>_ _. True)"
      using that by (auto simp: J_def report_put_def outcome_modify passed_def runs_are_def find_put)
    have keep: "keeps J (bind (info D) (\<lambda>ws. report_put ''dma'' (info_dict ws)))"
      unfolding J_def info_def report_put_def by (intro frames) (auto simp: passed_def find_put)
    show ?thesis
      unfolding outcome_bseq
      by (rule outcome_mono [OF put], rule outcome_mono [OF keeps_outcome [OF keep]]) (auto simp: J_def)
  qed
  have run: "outcome (bseq (for_each (campaign_run fuel D H stage generations cases timeout) (zip (map int [1..<Suc (length m)]) m))
      (bseq (report_put ''status'' (PyStr ''PASS'')) (bind (info D) (\<lambda>ws. report_put ''dma'' (info_dict ws))))) t
      (\<lambda>_ t. passed policy' generations (rn_report t)) (\<lambda>_ _. True)"
    if "runs_are [] t" "iter (fld (V policy') ''matrix'') = Inr m" for t m
    unfolding outcome_bseq [of "for_each _ _"]
    by (rule outcome_mono [OF matrix_outcome [OF that(1)]]) (use that(2) in \<open>auto intro: tail simp del: upt_Suc\<close>)
  show ?thesis
    unfolding campaign_body_def using assms
    by - (rule run framed_lift framed_bseq [where J = "runs_are []"] framed_bind [where J = "runs_are []"] keeps_runs
        frame_intros frames | assumption | simp)+
qed

text \<open>The clean-up: the mappings are gone whatever happens; when it returns, the report is written with its
  status, runs and error untouched; when it raises, a written report names the failure of the clean-up.\<close>

definition kept :: "string list" where
  "kept = [''status'', ''runs'', ''error'']"

lemma keeps_ownership [frame_intros]: "keeps (framed kept X out maps) (return_ownership D)"
  unfolding return_ownership_def by (intro frame_intros frames) (simp_all add: kept_def)

lemma for_each_total:
  assumes "\<And>x s. P s \<Longrightarrow> \<exists>t. f x s = (Inr (), t) \<and> P t" "P s"
  shows "\<exists>t. for_each f xs s = (Inr (), t) \<and> P t"
  using assms(2)
proof (induction xs arbitrary: s)
  case (Cons x xs)
  obtain t where t: "f x s = (Inr (), t)" "P t" using assms(1) Cons.prems by blast
  obtain u where "for_each f xs t = (Inr (), u) \<and> P u" using Cons.IH [OF t(2)] by blast
  then show ?case using t(1) by (simp add: bseq_def bind_def)
qed simp

lemma unmap_all: "\<exists>w. for_each (\<lambda>(name, base, n). world_do (bd_munmap D base n)) maps s = (Inr (), s\<lparr>ar_world := w\<rparr>)"
proof -
  have "\<exists>t. for_each (\<lambda>(name, base, n). world_do (bd_munmap D base n)) maps s = (Inr (), t) \<and> (\<exists>w. t = s\<lparr>ar_world := w\<rparr>)"
  proof (rule for_each_total)
    show "\<exists>w. s = s\<lparr>ar_world := w\<rparr>" by (rule exI [of _ "ar_world s"]) simp
  qed (auto split: prod.split)
  then show ?thesis by auto
qed

lemma close_arena_outcome:
  assumes "framed kept X out None s"
  shows "outcome (close_arena D) s (\<lambda>_. framed kept X out (Some [])) (\<lambda>_. framed kept X out (Some []))"
proof -
  obtain w where w: "for_each (\<lambda>(name, base, n). world_do (bd_munmap D base n)) (ar_maps s) s = (Inr (), s\<lparr>ar_world := w\<rparr>)"
    by (rule exE [OF unmap_all])
  have "close_arena D s = world (bd_close D) (s\<lparr>ar_world := w, ar_maps := []\<rparr>)"
    by (simp add: close_arena_def bseq_def bind_def w)
  moreover have "framed kept X out (Some []) (s\<lparr>ar_world := w, ar_maps := []\<rparr>)" using assms by (simp add: framed_def)
  then have "outcome (world (bd_close D)) (s\<lparr>ar_world := w, ar_maps := []\<rparr>) (\<lambda>_. framed kept X out (Some [])) (\<lambda>_. framed kept X out (Some []))"
    by (rule keeps_outcome [rotated]) (intro frame_intros)
  ultimately show ?thesis by (simp add: outcome_def)
qed

lemma record_cleanup_error:
  assumes "\<And>v. outcome (bseq m (report_put ''cleanup'' v)) s Q (\<lambda>_. framed kept X out (Some []))"
  shows "outcome (record_cleanup m) s Q (\<lambda>_ t. \<exists>v. framed [''cleanup_error''] (\<lambda>_. Some v) out (Some []) t)"
proof -
  define c where "c = bseq m (report_put ''cleanup'' (PyStr ''ownership returned and mappings/file closed'')) s"
  have "case c of (Inr x, t) \<Rightarrow> Q x t | (Inl e, t) \<Rightarrow> framed kept X out (Some []) t"
    unfolding c_def using assms by (simp only: outcome_def)
  then show ?thesis
    unfolding outcome_def record_cleanup_def c_def [symmetric]
    by (cases c, cases "fst c") (simp_all add: framed_def find_put)
qed

lemma record_cleanup_outcome:
  assumes "framed kept X out None s"
  shows "outcome (record_cleanup (finally' (return_ownership D) (close_arena D))) s
     (\<lambda>_. framed kept X out (Some [])) (\<lambda>_ t. \<exists>v. framed [''cleanup_error''] (\<lambda>_. Some v) out (Some []) t)"
proof -
  have fin: "outcome (finally' (return_ownership D) (close_arena D)) s (\<lambda>_. framed kept X out (Some [])) (\<lambda>_. framed kept X out (Some []))"
    unfolding outcome_finally
  proof (rule outcome_mono)
    show "outcome (return_ownership D) s (\<lambda>_. framed kept X out None) (\<lambda>_. framed kept X out None)"
      using keeps_ownership assms by (rule keeps_outcome)
  next
    fix t :: "'a runner" assume t: "framed kept X out None t"
    show "outcome (close_arena D) t (\<lambda>_. framed kept X out (Some [])) (\<lambda>_. framed kept X out (Some []))"
      using t by (rule close_arena_outcome)
    then show "outcome (close_arena D) t (\<lambda>_. framed kept X out (Some [])) (\<lambda>_. framed kept X out (Some []))" .
  qed
  have put: "outcome (report_put ''cleanup'' v) t (\<lambda>_. framed kept X out (Some [])) (\<lambda>_ _. False)" if "framed kept X out (Some []) t" for v t
  proof -
    have "keeps (framed kept X out (Some [])) (report_put ''cleanup'' v)" by (rule keeps_report_put) (simp add: kept_def)
    from keepsD [OF this that] show ?thesis by (simp add: report_put_def outcome_modify)
  qed
  have "outcome (bseq (finally' (return_ownership D) (close_arena D)) (report_put ''cleanup'' v)) s
      (\<lambda>_. framed kept X out (Some [])) (\<lambda>_. framed kept X out (Some []))" for v
    unfolding outcome_bseq by (rule outcome_mono [OF fin], rule outcome_mono [OF put], assumption+) simp_all
  then show ?thesis by (rule record_cleanup_error)
qed

lemma write_report_outcome:
  assumes "framed K X out maps s" "''memory_after_kib'' \<notin> set K"
  shows "outcome (write_report D) s
     (\<lambda>_ t. rn_output t = Some (PyDict (rn_report t)) \<and> framed K X (rn_output t) maps t) (\<lambda>_. framed K X out maps)"
proof -
  have "keeps (framed K X out maps) (bind (memory_observation D) (\<lambda>m. report_put ''memory_after_kib'' m))"
    by (intro frame_intros frames assms)
  from keeps_outcome [OF this assms(1)] show ?thesis
    by (auto simp: write_report_def outcome_simps framed_def elim!: outcome_mono split: option.splits)
qed

text \<open>A report that names a failure.\<close>

definition names_failure :: "(py \<times> py) list \<Rightarrow> bool" where
  "names_failure d \<longleftrightarrow> dict_find d (PyStr ''error'') \<noteq> None \<or> dict_find d (PyStr ''cleanup_error'') \<noteq> None"

lemma cleanup_outcome:
  assumes "framed kept X out None s"
  shows "outcome (finally' (record_cleanup (finally' (return_ownership D) (close_arena D))) (write_report D)) s
     (\<lambda>_ t. rn_output t = Some (PyDict (rn_report t)) \<and> framed kept X (rn_output t) (Some []) t)
     (\<lambda>_ t. ar_maps t = [] \<and> (rn_output t = out \<or> (\<exists>d. rn_output t = Some (PyDict d) \<and> names_failure d)))"
proof -
  have bad: "outcome (write_report D) t
      (\<lambda>_ u. ar_maps u = [] \<and> (rn_output u = out \<or> (\<exists>d. rn_output u = Some (PyDict d) \<and> names_failure d)))
      (\<lambda>_ u. ar_maps u = [] \<and> (rn_output u = out \<or> (\<exists>d. rn_output u = Some (PyDict d) \<and> names_failure d)))"
    if "framed [''cleanup_error''] (\<lambda>_. Some v) out (Some []) t" for t v
    by (rule outcome_mono [OF write_report_outcome [OF that]]) (auto simp: framed_def names_failure_def)
  have good: "outcome (write_report D) t
      (\<lambda>_ u. rn_output u = Some (PyDict (rn_report u)) \<and> framed kept X (rn_output u) (Some []) u)
      (\<lambda>_ u. ar_maps u = [] \<and> (rn_output u = out \<or> (\<exists>d. rn_output u = Some (PyDict d) \<and> names_failure d)))"
    if "framed kept X out (Some []) t" for t
    by (rule outcome_mono [OF write_report_outcome [OF that]]) (auto simp: framed_def kept_def)
  show ?thesis
    unfolding outcome_finally [of "record_cleanup _"]
    by (rule outcome_mono [OF record_cleanup_outcome [OF assms]]) (auto intro: good bad)
qed

lemma campaign_all_outcome:
  assumes "runs_are [] s"
  shows "outcome (campaign_all fuel D H stage layout policy' generations cases timeout) s
     (\<lambda>_ t. ar_maps t = [] \<and> (\<exists>d. rn_output t = Some (PyDict d) \<and> passed policy' generations d))
     (\<lambda>_ t. ar_maps t = [] \<and> (rn_output t = rn_output s \<or> (\<exists>d. rn_output t = Some (PyDict d) \<and> names_failure d)))"
proof -
  have same: "framed kept (\<lambda>k. dict_find (rn_report t) (PyStr k)) (rn_output t) None t" for t :: "'a runner"
    by (simp add: framed_def)
  have out: "outcome (campaign_body fuel D H stage layout policy' generations cases timeout) s
      (\<lambda>_ t. rn_output t = rn_output s) (\<lambda>_ t. rn_output t = rn_output s)"
  proof -
    have "keeps (framed [] X (rn_output s) None) (campaign_body fuel D H stage layout policy' generations cases timeout)" for X
      unfolding campaign_body_def campaign_run_def add_run_def by (intro frame_intros frames) simp_all
    from keeps_outcome [OF this] show ?thesis by (auto simp: framed_def elim: outcome_mono)
  qed
  define clean where "clean = finally' (record_cleanup (finally' (return_ownership D) (close_arena D))) (write_report D)"
  define bad where "bad = (\<lambda>t :: 'a runner. ar_maps t = [] \<and> (rn_output t = rn_output s \<or> (\<exists>d. rn_output t = Some (PyDict d) \<and> names_failure d)))"
  have clean: "outcome clean t (\<lambda>_ u. rn_output u = Some (PyDict (rn_report u))
        \<and> framed kept (\<lambda>k. dict_find (rn_report t) (PyStr k)) (rn_output u) (Some []) u) (\<lambda>_. bad)"
    if "rn_output t = rn_output s" for t
    using cleanup_outcome [OF same [of t], of D] that by (simp add: clean_def bad_def)
  have good: "outcome clean t (\<lambda>_ u. ar_maps u = [] \<and> (\<exists>d. rn_output u = Some (PyDict d) \<and> passed policy' generations d)) (\<lambda>_. bad)"
    if "rn_output t = rn_output s" "passed policy' generations (rn_report t)" for t
    by (rule outcome_mono [OF clean [OF that(1)]]) (use that(2) in \<open>auto simp: framed_def passed_def kept_def\<close>)
  have failed: "outcome clean t (\<lambda>_. bad) (\<lambda>_. bad)"
    if "rn_output t = rn_output s" "dict_find (rn_report t) (PyStr ''error'') \<noteq> None" for t
    by (rule outcome_mono [OF clean [OF that(1)]]) (use that(2) in \<open>auto simp: framed_def bad_def names_failure_def kept_def\<close>)
  have body: "outcome (record_error (campaign_body fuel D H stage layout policy' generations cases timeout)) s
      (\<lambda>_ t. rn_output t = rn_output s \<and> passed policy' generations (rn_report t))
      (\<lambda>_ t. rn_output t = rn_output s \<and> dict_find (rn_report t) (PyStr ''error'') \<noteq> None)"
    using outcome_conj [OF out body_outcome [OF assms]]
    by (auto simp: outcome_def record_error_def find_put Let_def split: prod.splits sum.splits option.splits)
  show ?thesis
    unfolding campaign_all_def clean_def [symmetric] bad_def [symmetric] outcome_finally
    by (rule outcome_mono [OF body]) (auto intro: good failed)
qed

section \<open>Waiting\<close>

text \<open>The world after \<open>n\<close> polls that found nothing, and what a poll finds.\<close>

primrec polled :: "'w board \<Rightarrow> nat \<Rightarrow> 'w \<Rightarrow> 'w" where
  "polled D 0 w = w"
| "polled D (Suc n) w = polled D n (bd_sleep D (snd (bd_clock D (snd (bd_info D w)))))"

definition answers :: "'w board \<Rightarrow> bool" where
  "answers D \<longleftrightarrow> (\<forall>w. \<exists>raw. fst (bd_info D w) = Inr raw \<and> length raw = 32)"

definition status_at :: "'w board \<Rightarrow> 'w \<Rightarrow> int" where
  "status_at D w = (case fst (bd_info D w) of Inr raw \<Rightarrow> view_words raw ! 5 | Inl e \<Rightarrow> 0)"

definition completed :: "'w board \<Rightarrow> 'w \<Rightarrow> bool" where
  "completed D w \<longleftrightarrow> status_at D w AND 32 \<noteq> 0"

definition failed_at :: "'w board \<Rightarrow> bool \<Rightarrow> 'w \<Rightarrow> bool" where
  "failed_at D strict w \<longleftrightarrow> strict \<and> status_at D w AND 24 \<noteq> 0"

definition late_at :: "'w board \<Rightarrow> f64 \<Rightarrow> 'w \<Rightarrow> bool" where
  "late_at D deadline w \<longleftrightarrow> fle deadline (fst (bd_clock D (snd (bd_info D w))))"

text \<open>The verdict of one poll, \<open>None\<close> to go on.\<close>

definition verdict :: "'w board \<Rightarrow> bool \<Rightarrow> f64 \<Rightarrow> 'w \<Rightarrow> unit res option" where
  "verdict D strict deadline w = (if completed D w then Some (Inr ()) else if failed_at D strict w then Some (Inl RuntimeError)
     else if late_at D deadline w then Some (Inl TimeoutError) else None)"

lemma wait_done_step:
  assumes "answers D"
  shows "fst (wait_done (Suc fuel) D strict deadline s) = (case verdict D strict deadline (ar_world s) of
      Some r \<Rightarrow> r | None \<Rightarrow> fst (wait_done fuel D strict deadline (s\<lparr>ar_world := polled D 1 (ar_world s)\<rparr>)))"
proof -
  obtain raw w where r: "bd_info D (ar_world s) = (Inr raw, w)" "length raw = 32"
    using assms unfolding answers_def by (metis prod.collapse)
  obtain now w' where c: "bd_clock D w = (now, w')" by (cases "bd_clock D w")
  show ?thesis
    using r by (simp add: verdict_def completed_def failed_at_def late_at_def status_at_def info_def bind_def bseq_def zoom_res_def zoom_def c)
qed

lemma wait_done_verdicts:
  assumes "answers D"
  shows "fst (wait_done fuel D strict deadline s) = (case List.map_filter (\<lambda>n. verdict D strict deadline (polled D n (ar_world s))) [0..<fuel] of
      [] \<Rightarrow> Inl Diverges | r # _ \<Rightarrow> r)"
proof (induction fuel arbitrary: s)
  case (Suc fuel)
  have "[0..<Suc fuel] = 0 # map Suc [0..<fuel]" by (simp only: map_Suc_upt upt_conv_Cons zero_less_Suc)
  then show ?case
    unfolding wait_done_step [OF assms]
    by (simp add: Suc List.map_filter_def filter_map comp_def split: option.split)
qed simp

text \<open>The first value of a partial map on the naturals.\<close>

lemma map_filter_first:
  assumes "v n = Some r" "\<forall>k<n. v k = None" "n < m"
  shows "\<exists>rest. List.map_filter v [0..<m] = r # rest"
proof -
  have "[0..<m] = [0..<n] @ n # [Suc n..<m]" using assms(3) by (metis less_imp_le_nat upt_add_eq_append upt_conv_Cons le_add_diff_inverse zero_le plus_nat.add_0)
  moreover have "List.map_filter v [0..<n] = []" using assms(2) by (simp add: List.map_filter_def filter_empty_conv)
  ultimately show ?thesis using assms(1) by (simp add: List.map_filter_def)
qed

lemma first_Some: "v n \<noteq> None \<Longrightarrow> \<exists>k\<le>n. \<exists>r. v k = Some r \<and> (\<forall>j<k. v j = None)" for n :: nat
  using LeastI [of "\<lambda>k. v k \<noteq> None" n] Least_le [of "\<lambda>k. v k \<noteq> None" n] not_less_Least [of _ "\<lambda>k. v k \<noteq> None"]
  by (metis not_None_eq)

definition first_verdict :: "(nat \<Rightarrow> 'a res option) \<Rightarrow> nat \<Rightarrow> 'a res" where
  "first_verdict v m = (case List.map_filter v [0..<m] of [] \<Rightarrow> Inl Diverges | r # _ \<Rightarrow> r)"

lemma first_verdict_at: "v n = Some r \<Longrightarrow> \<forall>k<n. v k = None \<Longrightarrow> n < m \<Longrightarrow> first_verdict v m = r"
  using map_filter_first [of v n r m] by (auto simp: first_verdict_def)

lemma first_verdict_none: "\<forall>k<m. v k = None \<Longrightarrow> first_verdict v m = Inl Diverges"
  by (auto simp: first_verdict_def List.map_filter_def filter_empty_conv split: list.split)

section \<open>Profiles\<close>

lemma phases_sum:
  assumes "list_all phase_valid ps"
  shows "sum_list (map ph_gemm ps) + sum_list (map ph_sfpu ps) \<le> sum_list (map ph_service ps)"
    and "sum_list (map ph_service ps) \<le> sum_list (map ph_elapsed ps)"
  using assms by (induction ps) (auto simp: phase_valid_def)

lemma parse_profile_phases:
  assumes "parse_profile h raw enabled hz = Inr r"
  shows "\<exists>ps ds. length ps = nat (h ! 5) \<and> list_all phase_valid ps \<and> profile_accepted h ps enabled
     \<and> rmap (phase_dict hz) ps = Inr ds \<and> fld (V r) ''phases'' = V (PyList ds)
     \<and> fld (V r) ''model_cycles'' = I (counter h 10 - counter h 8) \<and> counter h 8 < counter h 10"
proof -
  define ps where "ps = map (unpack_phase raw) [0..<nat (h ! 5)]"
  obtain ds where ds: "list_all phase_valid ps" "rmap (phase_dict hz) ps = Inr ds" "profile_accepted h ps enabled" "counter h 8 < counter h 10"
    using assms by (auto simp: parse_profile_def Let_def ps_def split: if_splits)
  have d: "dict_of (  [(''model_cycles'', I (counter h 10 - counter h 8)), (''model_seconds'', quot (I (counter h 10 - counter h 8)) (I hz)), (''profile_enabled'', V (PyBool enabled)),
            (''phases'', V (PyList ds)), (''service_seconds'', if enabled then quot (I (counter h 16)) (I hz) else V PyNone),
            (''cpu_remainder_seconds'', if enabled then quot (I (counter h 10 - counter h 8 - counter h 16)) (I hz) else V PyNone),
            (''gemm_compute_seconds'', if enabled then quot (I (counter h 18)) (I hz) else V PyNone),
            (''sfpu_compute_seconds'', if enabled then quot (I (counter h 20)) (I hz) else V PyNone),
            (''unassigned_profile_tail_cycles'', if enabled then I (counter h 10 - counter h 8 - sum_list (map ph_elapsed ps)) else V PyNone),
            (''jobs'', I (h ! 12)), (''mover_input_bytes'', I (h ! 13 * 4)), (''mover_output_bytes'', I (h ! 14 * 4)),
            (''workspace_high_water'', I (h ! 15))]) = Inr r"
    using assms ds by (simp add: parse_profile_def Let_def ps_def split: if_splits)
  have "fld (V r) ''phases'' = V (PyList ds)" "fld (V r) ''model_cycles'' = I (counter h 10 - counter h 8)"
    by (rule dict_of_fld [OF d]; simp)+
  then show ?thesis using ds by (intro exI [of _ ps] exI [of _ ds]) (simp add: ps_def)
qed

end
