(* ===== verification/M5Props.thy ===== *)
theory M5Props
  imports M5Laws
begin

text \<open>
  What the acceptance and profiling runners guarantee.
\<close>

section \<open>The campaign\<close>

lemma via_bind:
  assumes "keeps J m" "J s" "\<And>e t. J t \<Longrightarrow> E e t" "\<And>x t. J t \<Longrightarrow> outcome (f x) t Q E"
  shows "outcome (bind m f) s Q E"
  unfolding outcome_bind by (rule outcome_mono [OF keeps_outcome [OF assms(1,2)]]) (use assms(3,4) in auto)

lemma via_bseq:
  assumes "keeps J m" "J s" "\<And>e t. J t \<Longrightarrow> E e t" "\<And>t. J t \<Longrightarrow> outcome k t Q E"
  shows "outcome (bseq m k) s Q E"
  unfolding bseq_def by (rule via_bind [OF assms])

lemma via_lift:
  "(\<And>e. E e s) \<Longrightarrow> (\<And>x. r = Inr x \<Longrightarrow> outcome (f x) s Q E) \<Longrightarrow> outcome (bind (lift_res r) f) s Q E"
  by (auto simp: outcome_bind outcome_lift split: sum.split)

text \<open>C18: A campaign that returns has written a report with status PASS, in which every line of the policy's matrix
  has exactly one run, verified against the reference case of its prompt: all generated tokens, the digest of
  all logits of the last step, the digest of the valid cache and the cache length. A campaign that raises leaves
  no report, or one that names the error of the campaign or of the clean-up. Either way no mapping made by the
  campaign is left.\<close>

theorem campaign_passes_exact:
  "case m5_main fuel D H open_device stage timeout s of
    (Inr _, t) \<Rightarrow> ar_maps t = []
      \<and> (\<exists>policy' manifest generations d matrix' rs. fl_json (ho_files H) (path [stage, ''performance_policy.json'']) = Inr policy'
          \<and> fl_json (ho_files H) (path [stage, ''fixtures/manifest.json'']) = Inr manifest
          \<and> by_id (fld (V manifest) ''generation'') = Inr generations \<and> rn_output t = Some (PyDict d)
          \<and> dict_find d (PyStr ''status'') = Some (PyStr ''PASS'')
          \<and> iter (fld (V policy') ''matrix'') = Inr matrix' \<and> dict_find d (PyStr ''runs'') = Some (PyList rs)
          \<and> list_all2 (run_verified generations) matrix' rs)
  | (Inl _, t) \<Rightarrow> ar_maps t \<in> {[], ar_maps s}
      \<and> (rn_output t = rn_output s \<or> (\<exists>d. rn_output t = Some (PyDict d)
          \<and> (\<exists>e. dict_find d (PyStr ''error'') = Some e \<or> dict_find d (PyStr ''cleanup_error'') = Some e)))"
  (is "case _ of (Inr _, t) \<Rightarrow> ?Q t | (Inl _, t) \<Rightarrow> ?E t")
proof -
  define J :: "'a runner \<Rightarrow> bool" where "J = framed [] (\<lambda>_. None) (rn_output s) (Some (ar_maps s))"
  have E: "?E t" if "J t" for t :: "'a runner" using that by (simp add: J_def framed_def)
  have campaign: "outcome (bseq (modify (\<lambda>s. s\<lparr>rn_report := head\<rparr>)) (bseq (world open_device)
      (campaign_all fuel D H stage layout policy' generations cases timeout))) t (\<lambda>_. ?Q) (\<lambda>_. ?E)"
    if "J t" "report_head D H stage policy' memory = Inr head" "fl_json (ho_files H) (path [stage, ''performance_policy.json'']) = Inr policy'"
      "fl_json (ho_files H) (path [stage, ''fixtures/manifest.json'']) = Inr manifest"
      "by_id (fld (V manifest) ''generation'') = Inr generations"
    for t :: "'a runner" and head policy' memory manifest generations layout cases
  proof -
    define R :: "'a runner \<Rightarrow> bool" where "R = framed [''runs''] (\<lambda>_. Some (PyList [])) (rn_output s) (Some (ar_maps s))"
    have "dict_find head (PyStr ''runs'') = Some (PyList [])"
      using that(2) by (auto simp: report_head_def py_eq_str)
    then have R: "R (t\<lparr>rn_report := head\<rparr>)" using that(1) by (simp add: R_def J_def framed_def)
    have all: "outcome (campaign_all fuel D H stage layout policy' generations cases timeout) u (\<lambda>_. ?Q) (\<lambda>_. ?E)" if "R u" for u :: "'a runner"
    proof -
      have "runs_are [] u" "rn_output u = rn_output s" using that by (simp_all add: R_def framed_def runs_are_def)
      from campaign_all_outcome [OF this(1), of fuel D H stage layout policy' generations cases timeout, unfolded this(2)]
      show ?thesis
        by (rule outcome_mono) (use that \<open>fl_json _ _ = Inr policy'\<close> \<open>fl_json _ _ = Inr manifest\<close> \<open>by_id _ = _\<close>
          in \<open>auto simp: passed_def names_failure_def\<close>)
    qed
    show ?thesis
      unfolding outcome_bseq [of "modify _"] outcome_modify
    proof (rule via_bseq [where J = R])
      show "?E t" if "R t" for t :: "'a runner" using that by (simp add: R_def framed_def)
      show "keeps R (world open_device)" unfolding R_def by (rule frame_intros)
    qed (fact R, rule all)
  qed
  have J: "J s" by (simp add: J_def framed_def)
  have "outcome (m5_main fuel D H open_device stage timeout) s (\<lambda>_. ?Q) (\<lambda>_. ?E)"
    unfolding m5_main_def Let_def J_def
    by (rule campaign [unfolded J_def] via_lift via_bseq [where J = J, unfolded J_def] via_bind [where J = J, unfolded J_def]
        frame_intros frames E [unfolded J_def] J [unfolded J_def] | assumption)+
  then show ?thesis by (simp only: outcome_def)
qed

section \<open>Waiting\<close>

text \<open>C20: The completion wait is live and decided by the first poll that finds something: when the driver answers
  every poll, the wait returns exactly if the completion bit shows at a poll before which no failure bit (where
  the caller looks at them) and no expired deadline was seen, it raises what the first such poll finds, and it
  polls on only while every poll finds nothing, so a clock that reaches the deadline ends it.\<close>

theorem wait_done_decided:
  assumes "\<forall>w. \<exists>raw. fst (bd_info D w) = Inr raw \<and> length raw = 32"
  shows "(fst (wait_done fuel D strict deadline s) = Inr () \<longleftrightarrow> (\<exists>n<fuel. completed D (polled D n (ar_world s))
      \<and> (\<forall>k<n. \<not> completed D (polled D k (ar_world s)) \<and> \<not> failed_at D strict (polled D k (ar_world s))
           \<and> \<not> late_at D deadline (polled D k (ar_world s)))))
    \<and> ((\<exists>n<fuel. late_at D deadline (polled D n (ar_world s)))
      \<longrightarrow> fst (wait_done fuel D strict deadline s) \<in> {Inr (), Inl RuntimeError, Inl TimeoutError})"
proof -
  define v where "v = (\<lambda>n. verdict D strict deadline (polled D n (ar_world s)))"
  have w: "fst (wait_done fuel D strict deadline s) = first_verdict v fuel"
    using wait_done_verdicts [OF assms [folded answers_def], of fuel strict deadline s] by (simp add: first_verdict_def v_def)
  have none: "v n = None \<longleftrightarrow> \<not> completed D (polled D n (ar_world s)) \<and> \<not> failed_at D strict (polled D n (ar_world s))
      \<and> \<not> late_at D deadline (polled D n (ar_world s))" for n
    by (simp add: v_def verdict_def)
  have done': "v n = Some (Inr ()) \<longleftrightarrow> completed D (polled D n (ar_world s))" for n
    by (simp add: v_def verdict_def)
  have range: "v n = Some r \<Longrightarrow> r \<in> {Inr (), Inl RuntimeError, Inl TimeoutError}" for n r
    by (auto simp: v_def verdict_def split: if_splits)
  have first: "\<exists>k\<le>n. \<exists>r. v k = Some r \<and> (\<forall>j<k. v j = None) \<and> first_verdict v fuel = r" if "n < fuel" "v n \<noteq> None" for n
    using first_Some [of v n, OF that(2)] first_verdict_at [of v _ _ fuel] that(1) by (metis le_less_trans)
  show ?thesis
  proof (intro conjI impI iffI)
    assume "fst (wait_done fuel D strict deadline s) = Inr ()"
    then have i: "first_verdict v fuel = Inr ()" by (simp add: w)
    then obtain n where n: "n < fuel" "v n \<noteq> None" using first_verdict_none [of fuel v] by (metis sum.distinct(1))
    show "\<exists>n<fuel. completed D (polled D n (ar_world s)) \<and> (\<forall>k<n. \<not> completed D (polled D k (ar_world s))
        \<and> \<not> failed_at D strict (polled D k (ar_world s)) \<and> \<not> late_at D deadline (polled D k (ar_world s)))"
    proof -
      obtain k r where "k \<le> n" "v k = Some r" "\<forall>j<k. v j = None" "first_verdict v fuel = r" using first [OF n] by blast
      then have "k < fuel \<and> v k = Some (Inr ()) \<and> (\<forall>j<k. v j = None)" using n(1) i by simp
      then show ?thesis using none done' by blast
    qed
  next
    assume "\<exists>n<fuel. completed D (polled D n (ar_world s)) \<and> (\<forall>k<n. \<not> completed D (polled D k (ar_world s))
        \<and> \<not> failed_at D strict (polled D k (ar_world s)) \<and> \<not> late_at D deadline (polled D k (ar_world s)))"
    then obtain n where "n < fuel" "v n = Some (Inr ())" "\<forall>k<n. v k = None" using none done' by blast
    then show "fst (wait_done fuel D strict deadline s) = Inr ()"
      unfolding w by (intro first_verdict_at)
  next
    assume "\<exists>n<fuel. late_at D deadline (polled D n (ar_world s))"
    then obtain n where "n < fuel" "v n \<noteq> None" using none by blast
    from first [OF this] show "fst (wait_done fuel D strict deadline s) \<in> {Inr (), Inl RuntimeError, Inl TimeoutError}"
      unfolding w using range by blast
  qed
qed

text \<open>A board whose world is a count of sleeps: the completion bit shows after two of them.\<close>

definition bench_info :: "nat \<Rightarrow> int list res \<times> nat" where
  "bench_info n = (Inr [0, 0, 0, 0, 0, 0, 0, 0, 0, 0, 0, 0, 0, 0, 0, 0, 0, 0, 0, 0, if n \<ge> 2 then 32 else 0, 0, 0, 0, 0, 0, 0, 0, 0, 0, 0, 0], n)"

definition bench :: "nat board" where
  "bench = \<lparr>bd_ioctl = (\<lambda>_ _. ret ()), bd_info = bench_info, bd_mmap = (\<lambda>_ _. ret ()), bd_munmap = (\<lambda>_ _ n. n), bd_close = ret (),
     bd_load = (\<lambda>_ k n. (replicate k 0, n)), bd_store = (\<lambda>_ _ n. n), bd_clock = (\<lambda>n. (Fin (of_nat n), n)), bd_sleep = Suc,
     bd_overlay = (\<lambda>_. ret ()), bd_poke = (\<lambda>_ n. n), bd_peek = (\<lambda>_ k n. (replicate k 0, n)), bd_meminfo = ret [], bd_rss = (\<lambda>n. (0, n)),
     bd_platform = ([], [])\<rparr>"

theorem wait_done_decided_witness:
  "fst (wait_done 5 bench True (Fin 100) \<lparr>ar_world = 0, ar_maps = [], ar_partial = None\<rparr>) = Inr ()"
proof -
  have info: "\<forall>w. \<exists>raw. fst (bd_info bench w) = Inr raw \<and> length raw = 32" by (simp add: bench_def bench_info_def)
  have w: "polled bench n m = n + m" for n m by (induction n arbitrary: m) (simp_all add: bench_def bench_info_def)
  have status: "status_at bench n = (if n \<ge> 2 then 32 else 0)" for n by (simp add: status_at_def bench_def bench_info_def)
  have late: "\<not> late_at bench (Fin 100) n" if "n < 2" for n
    using that by (auto simp: less_2_cases_iff late_at_def fle_def feq_def bench_def bench_info_def)
  have "completed bench (polled bench 2 0)" by (simp add: w completed_def status)
  moreover have "\<forall>k<2. \<not> completed bench (polled bench k 0) \<and> \<not> failed_at bench True (polled bench k 0) \<and> \<not> late_at bench (Fin 100) (polled bench k 0)"
    by (simp add: w completed_def failed_at_def status late)
  ultimately have "\<exists>n<5. completed bench (polled bench n 0) \<and> (\<forall>k<n. \<not> completed bench (polled bench k 0)
      \<and> \<not> failed_at bench True (polled bench k 0) \<and> \<not> late_at bench (Fin 100) (polled bench k 0))"
    by (intro exI [of _ 2]) simp
  then show ?thesis
    using wait_done_decided [OF info, of 5 True "Fin 100" "\<lparr>ar_world = 0, ar_maps = [], ar_partial = None\<rparr>"] by simp
qed

section \<open>Profiles\<close>

text \<open>C22: An accepted profile is consistent with itself: with profiling, there are exactly the hundred phases of a
  token in the order of the layers, the accelerator was busy no longer than the services took, and these no
  longer than the model; without profiling there are no phases and no service cycles.\<close>

theorem profile_within_interval:
  "case parse_profile h raw enabled hz of Inl e \<Rightarrow> True
   | Inr r \<Rightarrow> \<exists>ds. fld (V r) ''phases'' = V (PyList ds) \<and> fld (V r) ''model_cycles'' = I (counter h 10 - counter h 8)
      \<and> 0 < counter h 10 - counter h 8
      \<and> (if enabled then length ds = 100 \<and> nat (h ! 5) = 100
            \<and> (\<exists>ps. rmap (phase_dict hz) ps = Inr ds \<and> map (\<lambda>p. (ph_kind p, ph_layer p)) ps = coverage_order)
            \<and> counter h 18 + counter h 20 \<le> counter h 16 \<and> counter h 16 \<le> counter h 10 - counter h 8
         else ds = [] \<and> counter h 16 = 0 \<and> counter h 18 = 0 \<and> counter h 20 = 0)"
proof (cases "parse_profile h raw enabled hz")
  case (Inr r)
  obtain ps ds where p: "length ps = nat (h ! 5)" "list_all phase_valid ps" "profile_accepted h ps enabled"
      "rmap (phase_dict hz) ps = Inr ds" "fld (V r) ''phases'' = V (PyList ds)"
      "fld (V r) ''model_cycles'' = I (counter h 10 - counter h 8)" "counter h 8 < counter h 10"
    using parse_profile_phases [OF Inr] by blast
  have "length coverage_order = 100" by (simp add: coverage_order_def)
  then have l: "length ds = 100 \<and> nat (h ! 5) = 100 \<and> map (\<lambda>p. (ph_kind p, ph_layer p)) ps = coverage_order" if enabled
    using p(1,3,4) that rmap_length [OF p(4)] by (auto simp: profile_accepted_def dest: arg_cong [of _ _ length])
  show ?thesis
    using p l phases_sum [OF p(2)] unfolding Inr
    by (cases enabled) (auto simp: profile_accepted_def totals_reconcile_def Let_def)
qed simp

text \<open>C19: A seeded decode that returns has been checked against the independent result of its seed: the token is the
  expected one and the arg max of the logits, and the digests of all logits and of the valid cache, which has
  grown by exactly one position, are the expected ones.\<close>

theorem seeded_decode_exact:
  "case run_one fuel D H stage seed enabled ordinal timeout s of (Inl e, t) \<Rightarrow> True
   | (Inr r, t) \<Rightarrow> \<exists>token past expected. fld (V seed) ''expected'' = V expected \<and> int_fld seed ''past'' = Inr past
      \<and> fld (V r) ''status'' = S ''PASS'' \<and> fld (V r) ''token'' = I token \<and> fld (V r) ''cache_valid'' = I (past + 1)
      \<and> eq (I token) (fld (V expected) ''token'') = Inr True
      \<and> eq (fld (V r) ''logits_sha256'') (fld (V expected) ''logits_sha256'') = Inr True
      \<and> eq (fld (V r) ''kv_sha256'') (fld (V expected) ''cache_sha256'') = Inr True"
  (is "case _ of (Inl e, t) \<Rightarrow> True | (Inr r, t) \<Rightarrow> ?Q r")
proof -
  have final: "?Q r"
    if past: "int_fld seed ''past'' = Inr past"
      and run: "run_seeded fuel D (past + 1) timeout s1 = (Inr rs, s2)"
      and checked: "check_seeded D H seed (fst rs) (fst (snd rs)) (fst (snd (snd rs))) s3 = (Inr hs, s4)"
      and r: "updated result [(''status'', S ''PASS''), (''ordinal'', I ordinal), (''token'', I (fst rs)),
       (''firmware_sha256'', S firmware_hash), (''logits_sha256'', S (fst hs)), (''kv_sha256'', S (snd hs)),
       (''cache_valid'', I (fst (snd rs) ! 10)), (''host_request_through_delivery_seconds'', V (PyFloat (snd (snd (snd rs)))))] = Inr r"
    for past s1 rs s2 s3 hs s4 result firmware_hash r
  proof -
    have reached: "fst (snd rs) ! 10 = past + 1"
    proof -
      obtain words where "take 4 (drop 8 words) = [4, 0, past + 1, 1]" "fst (snd rs) = words"
        using run by (auto simp: run_seeded_def bind_Inr_iff bseq_Inr_iff)
      moreover from this(1) have "length (take 4 (drop 8 words)) = 4" by simp
      then have "8 \<le> length words" by simp
      ultimately show ?thesis using nth_drop [of 8 words 2] by (auto dest!: arg_cong [of "take 4 _" _ "\<lambda>ws. ws ! 2"])
    qed
    have fields: "fld (V r) ''status'' = S ''PASS''" "fld (V r) ''token'' = I (fst rs)" "fld (V r) ''logits_sha256'' = S (fst hs)"
        "fld (V r) ''kv_sha256'' = S (snd hs)" "fld (V r) ''cache_valid'' = I (fst (snd rs) ! 10)"
      by (rule updated_fld [OF r]; simp)+
    have known: "eq x (itm y z) = Inr True \<Longrightarrow> \<exists>v. y = Inr v" for x y z by (auto simp: eq_def itm_def)
    have same: "eq (I (fst rs)) (fld (fld (V seed) ''expected'') ''token'') = Inr True
        \<and> eq (S (fst hs)) (fld (fld (V seed) ''expected'') ''logits_sha256'') = Inr True
        \<and> eq (S (snd hs)) (fld (fld (V seed) ''expected'') ''cache_sha256'') = Inr True"
      using checked by (auto simp: check_seeded_def Let_def bind_Inr_iff bseq_Inr_iff)
    then obtain expected where x: "fld (V seed) ''expected'' = V expected" using known by blast
    show ?thesis
      using same past reached unfolding fields x
      by (intro exI [of _ "fst rs"] exI [of _ past] exI [of _ expected]) simp
  qed
  have "outcome (run_one fuel D H stage seed enabled ordinal timeout) s (\<lambda>r _. ?Q r) (\<lambda>_ _. True)"
    unfolding run_one_def case_prod_beta
    by (rule returns)+ (rule final)
  then show ?thesis by (simp only: outcome_def)
qed

end
