(* ===== verification/SweepProps.thy ===== *)
theory SweepProps
  imports M5Props
begin

text \<open>
  What the budgeted campaign guarantees of its trials.
\<close>

section \<open>The list of trials\<close>

definition trials_are :: "py list \<Rightarrow> 'w runner \<Rightarrow> bool" where
  "trials_are ts s \<longleftrightarrow> dict_find (rn_report s) (PyStr ''trials'') = Some (PyList ts)"

lemma reported_trials: "trials_are ts s \<Longrightarrow> reported ''trials'' s = (Inr (PyList ts), s)"
  by (simp add: trials_are_def reported_def bind_def itm_def)

lemma append_item_trials: "trials_are ts s \<Longrightarrow> \<exists>t. append_item x s = (Inr (), t) \<and> trials_are (ts @ [x]) t"
  by (simp add: append_item_def reported_trials bind_def lift2_def py_add_def report_put_def trials_are_def find_put)

lemma update_item_trials:
  assumes "trials_are (ts @ [x]) s"
  shows "update_item kvs s = (case updated x (map (\<lambda>(k, v). (k, V v)) kvs) of Inl e \<Rightarrow> (Inl e, s)
     | Inr y \<Rightarrow> (Inr (), s\<lparr>rn_report := dict_put (rn_report s) (PyStr ''trials'') (PyList (ts @ [y]))\<rparr>))"
  by (simp add: update_item_def reported_trials [OF assms] bind_def iter_def elements_def report_put_def split: sum.split)

text \<open>What the item of a started trial says, whatever happens to it.\<close>

definition started :: "py list \<Rightarrow> py \<Rightarrow> py \<Rightarrow> 'w runner \<Rightarrow> bool" where
  "started ts trial elapsed s \<longleftrightarrow> (\<exists>x. trials_are (ts @ [x]) s \<and> fld (V x) ''trial'' = V trial
     \<and> fld (V x) ''started_campaign_seconds'' = V elapsed \<and> fld (V x) ''status'' \<in> {S ''PASS'', S ''FAIL''})"

named_theorems started_intros "keeps (started ts trial elapsed) of the parts"

lemma started_report: "dict_find (rn_report t) (PyStr ''trials'') = dict_find (rn_report s) (PyStr ''trials'') \<Longrightarrow> started ts trial elapsed t = started ts trial elapsed s"
  by (simp add: started_def trials_are_def)

lemma keeps_started_framed:
  assumes "\<And>X out. keeps (framed [''trials''] X out None) m"
  shows "keeps (started ts trial elapsed) m"
  using started_report [OF frame_find [OF assms]] by (simp add: keeps_def)

lemma keeps_trials:
  assumes "\<And>X out. keeps (framed [''trials''] X out None) m"
  shows "keeps (trials_are ts) m"
  using frame_find [OF assms] by (simp add: keeps_def trials_are_def)

lemma keeps_started_update:
  assumes "distinct (map fst kvs)" "''trial'' \<notin> fst ` set kvs" "''started_campaign_seconds'' \<notin> fst ` set kvs"
    and "\<And>v. (''status'', v) \<in> set kvs \<Longrightarrow> v = PyStr ''PASS''"
  shows "keeps (started ts trial elapsed) (update_item kvs)"
  unfolding keeps_def
proof (intro allI impI)
  fix s :: "'a runner" assume "started ts trial elapsed s"
  then obtain x where x: "trials_are (ts @ [x]) s" "fld (V x) ''trial'' = V trial" "fld (V x) ''started_campaign_seconds'' = V elapsed"
      "fld (V x) ''status'' \<in> {S ''PASS'', S ''FAIL''}" by (auto simp: started_def)
  define xs where "xs = map (\<lambda>(k, v). (k, V v)) kvs"
  have keys: "map fst xs = map fst kvs" by (auto simp: xs_def case_prod_beta)
  have keys': "fst ` set xs = fst ` set kvs" using arg_cong [OF keys, of set] by simp
  show "started ts trial elapsed (snd (update_item kvs s))"
  proof (cases "updated x xs")
    case (Inl e)
    then show ?thesis using update_item_trials [OF x(1), of kvs] x unfolding xs_def by (auto simp: started_def)
  next
    case (Inr y)
    have other: "fld (V y) k = fld (V x) k" if "k \<notin> fst ` set kvs" for k
      using updated_other [OF Inr] that keys' by simp
    have "fld (V y) ''status'' \<in> {S ''PASS'', S ''FAIL''}"
    proof (cases "map_of xs ''status''")
      case None
      then have "''status'' \<notin> fst ` set kvs" by (simp add: map_of_eq_None_iff keys')
      then show ?thesis using other x(4) by simp
    next
      case (Some r)
      then obtain v where "(''status'', v) \<in> set kvs" "r = V v" by (auto dest!: map_of_SomeD simp: xs_def)
      then show ?thesis using updated_fld [OF Inr _ Some] assms(1,4) by (simp add: keys)
    qed
    then show ?thesis
      using update_item_trials [OF x(1), of kvs] Inr other x(2,3) assms(2,3) unfolding xs_def
      by (auto simp: started_def trials_are_def find_put)
  qed
qed

text \<open>A trial's run: the clean-up of its item and the checkpoints.\<close>

lemma keeps_finally:
  "keeps J m \<Longrightarrow> keeps J h \<Longrightarrow> keeps J (finally' m h)"
  by (auto simp: keeps_def finally'_def split: prod.splits sum.splits)

lemma keeps_item_error:
  assumes "keeps (started ts trial elapsed) m"
  shows "keeps (started ts trial elapsed) (item_error m)"
proof -
  have u: "keeps (started ts trial elapsed) (update_item ((''error'', PyStr n) # (case p of None \<Rightarrow> [] | Some q \<Rightarrow> [(''partial_result'', q)])))" for n p
    by (cases p; rule keeps_started_update) auto
  show ?thesis
    unfolding keeps_def
  proof (intro allI impI)
    fix s :: "'a runner" assume "started ts trial elapsed s"
    then have t: "started ts trial elapsed (snd (m s))" using assms by (simp add: keeps_def)
    show "started ts trial elapsed (snd (item_error m s))"
    proof (cases "m s")
      case (Pair r t')
      show ?thesis
      proof (cases r)
        case (Inl e)
        then show ?thesis
          using keepsD [OF u, of "snd (m s)" "exn_name e" "ar_partial t'"] t Pair
          by (auto simp: item_error_def split: prod.splits sum.splits)
      qed (use t Pair in \<open>simp add: item_error_def\<close>)
    qed
  qed
qed

lemma keeps_frame_checkpoint [frame_intros]: "keeps (framed K X out maps) (write_checkpoint Y output)" "keeps (framed K X out maps) (clock D since)"
  unfolding write_checkpoint_def clock_def by (intro frame_intros frames)+

lemma keeps_item_times: "keeps (started ts trial elapsed) (item_times D Y output trial' begin' start)"
proof -
  have k: "keeps (started ts trial elapsed) (clock D since)" "keeps (started ts trial elapsed) (write_checkpoint Y output)"
      "keeps (started ts trial elapsed) (report_put ''elapsed_seconds'' v)" for since v
    by (rule keeps_started_framed, intro frame_intros; simp)+
  have u: "keeps (started ts trial elapsed) (update_item [(''case_elapsed_seconds'', a), (''bound_exceeded'', b)])" for a b
    by (rule keeps_started_update) auto
  show ?thesis unfolding item_times_def by (intro k u frames)
qed

section \<open>One trial\<close>

lemma trial_choice:
  assumes "known' = Inr False \<Longrightarrow> outcome (skipped (SKIPS ! 0)) t Q E"
    and "known' = Inr True \<Longrightarrow> admission = Inr False \<Longrightarrow> outcome (skipped (SKIPS ! 1)) t Q E"
    and "known' = Inr True \<Longrightarrow> admission = Inr True \<Longrightarrow> outcome go t Q E" and "\<And>e. E e t"
  shows "outcome (bind (lift_res known') (\<lambda>known.
       bind (if \<not> known then ret (Some (SKIPS ! 0)) else bind (lift_res admission) (\<lambda>ok. ret (if ok then None else Some (SKIPS ! 1))))
         (\<lambda>skip. case skip of Some reason \<Rightarrow> skipped reason | None \<Rightarrow> go))) t Q E"
  using assms by (auto simp: outcome_bind outcome_lift outcome_ret outcome_if split: sum.split)

text \<open>The budget, written out: the trial's bound is positive, and the time since the start of the campaign, the bound
  and the reserve for the clean-up fit into the board's budget together.\<close>

definition fits :: "py \<Rightarrow> py \<Rightarrow> py \<Rightarrow> bool" where
  "fits policy' trial elapsed \<longleftrightarrow> lt (I 0) (fld (V trial) ''bound_seconds'') = Inr True \<and> le (I 0) (V elapsed) = Inr True
     \<and> le (add (add (V elapsed) (fld (V trial) ''bound_seconds'')) (fld (V policy') ''cleanup_reserve_seconds''))
         (fld (V policy') ''board_budget_seconds'') = Inr True"

lemma admitted_fits:
  assumes "admitted (V elapsed) (fld (V trial) ''bound_seconds'') policy' = Inr ok"
  shows "ok \<longleftrightarrow> fits policy' trial elapsed"
proof -
  have all_true: "conjs xs = Inr ok \<Longrightarrow> ok \<longleftrightarrow> list_all (\<lambda>x. x = Inr True) xs" for xs
    by (induction xs) (auto simp: conjs.simps split: if_splits)
  show ?thesis using all_true [OF assms [unfolded admitted_def]] by (simp add: fits_def)
qed

text \<open>What an item of the list says of its trial, given the time at which it was looked at.\<close>

definition good_item :: "host \<Rightarrow> py \<Rightarrow> py \<Rightarrow> py \<Rightarrow> py \<Rightarrow> py \<Rightarrow> bool" where
  "good_item H refs policy' trial elapsed x \<longleftrightarrow> fld (V x) ''trial'' = V trial
     \<and> (fld (V x) ''status'' = S ''SKIP''
          \<and> (available H refs trial = Inr False \<and> fld (V x) ''reason'' = V (SKIPS ! 0)
             \<or> available H refs trial = Inr True \<and> \<not> fits policy' trial elapsed \<and> fld (V x) ''reason'' = V (SKIPS ! 1))
        \<or> fld (V x) ''status'' \<in> {S ''PASS'', S ''FAIL''} \<and> fld (V x) ''started_campaign_seconds'' = V elapsed
          \<and> available H refs trial = Inr True \<and> fits policy' trial elapsed)"

definition recorded :: "py list \<Rightarrow> (py \<Rightarrow> bool) \<Rightarrow> 'w runner \<Rightarrow> bool" where
  "recorded ts good t \<longleftrightarrow> (\<exists>x. trials_are (ts @ [x]) t \<and> good x)"

definition at_most_recorded :: "py list \<Rightarrow> (py \<Rightarrow> bool) \<Rightarrow> 'w runner \<Rightarrow> bool" where
  "at_most_recorded ts good t \<longleftrightarrow> trials_are ts t \<or> recorded ts good t"

lemma appended_outcome:
  assumes "trials_are ts t" "\<And>u. trials_are (ts @ [x]) u \<Longrightarrow> outcome k u Q E"
  shows "outcome (bseq (append_item x) k) t Q E"
proof -
  obtain u where u: "append_item x t = (Inr (), u)" "trials_are (ts @ [x]) u" using append_item_trials [OF assms(1)] by blast
  show ?thesis unfolding outcome_bseq outcome_def [of "append_item x"] using assms(2) [OF u(2)] by (simp add: u(1))
qed

abbreviation skip_item :: "py \<Rightarrow> py \<Rightarrow> py" where
  "skip_item trial reason \<equiv> PyDict [(PyStr ''trial'', trial), (PyStr ''status'', PyStr ''SKIP''), (PyStr ''reason'', reason)]"

abbreviation run_item :: "py \<Rightarrow> py \<Rightarrow> py" where
  "run_item trial elapsed \<equiv> PyDict [(PyStr ''trial'', trial), (PyStr ''status'', PyStr ''FAIL''), (PyStr ''started_campaign_seconds'', elapsed)]"

lemma skip_outcome:
  assumes "trials_are ts t" "good (skip_item trial reason)"
  shows "outcome (bseq (append_item (skip_item trial reason)) (write_checkpoint Y out_path)) t
     (\<lambda>_. recorded ts good) (\<lambda>_. at_most_recorded ts good)"
proof (rule appended_outcome [OF assms(1)])
  fix u :: "'a runner" assume u: "trials_are (ts @ [skip_item trial reason]) u"
  define x where "x = skip_item trial reason"
  have k: "keeps (trials_are (ts @ [x])) (write_checkpoint Y out_path)" by (rule keeps_trials, intro frame_intros)
  show "outcome (write_checkpoint Y out_path) u (\<lambda>_. recorded ts good) (\<lambda>_. at_most_recorded ts good)"
    by (rule outcome_mono [OF keeps_outcome [OF k u [folded x_def]]])
      (use assms(2) in \<open>auto simp: recorded_def at_most_recorded_def x_def\<close>)
qed

lemma good_skips:
  "available H refs trial = Inr False \<Longrightarrow> good_item H refs policy' trial elapsed (skip_item trial (SKIPS ! 0))"
  "available H refs trial = Inr True \<Longrightarrow> admitted (V elapsed) (fld (V trial) ''bound_seconds'') policy' = Inr False
     \<Longrightarrow> good_item H refs policy' trial elapsed (skip_item trial (SKIPS ! 1))"
  using admitted_fits by (fastforce simp: good_item_def itm_def py_eq_str)+

text \<open>What the sweep relies on: the request runners leave the list of trials alone.\<close>

locale quiet_runners =
  fixes R :: "'w runner runners"
  assumes quiet_case: "dict_find (rn_report (snd (rr_case R c tc n cap ord b s))) (PyStr ''trials'') = dict_find (rn_report s) (PyStr ''trials'')"
    and quiet_one: "dict_find (rn_report (snd (rr_one R f seed p ord b s))) (PyStr ''trials'') = dict_find (rn_report s) (PyStr ''trials'')"
begin

lemma keeps_trial_result: "keeps (started ts trial elapsed) (trial_result D H R stage refs traces trial' ordinal)"
proof -
  have r: "keeps (started ts trial elapsed) (rr_case R c tc n cap ord b)" "keeps (started ts trial elapsed) (rr_one R f seed p ord b)"
    for c tc n cap ord b f seed p
    unfolding keeps_def using started_report [OF quiet_case] started_report [OF quiet_one] by simp_all
  have k: "keeps (started ts trial elapsed) (ioctl D q)" "keeps (started ts trial elapsed) (load_firmware D H p)" for q p
    by (rule keeps_started_framed, intro frame_intros)+
  show ?thesis
    unfolding trial_result_def Let_def by (intro k r frames)
qed

lemma run_outcome:
  assumes "trials_are ts t" and known: "available H' refs' trial = Inr True"
    and admitted: "admitted (V elapsed) (fld (V trial) ''bound_seconds'') policy' = Inr True"
  shows "outcome (bseq (append_item (run_item trial elapsed))
        (bseq (write_checkpoint Y out_path)
              (finally' (item_error (bind (trial_result D H R stage refs traces trial ordinal) (\<lambda>result.
                   update_item [(''status'', PyStr ''PASS''), (''result'', result)])))
                (item_times D Y out_path trial begin' start)))) t
     (\<lambda>_. recorded ts (good_item H' refs' policy' trial elapsed)) (\<lambda>_. at_most_recorded ts (good_item H' refs' policy' trial elapsed))"
proof (rule appended_outcome [OF assms(1)])
  define rest where "rest = bseq (write_checkpoint Y out_path)
              (finally' (item_error (bind (trial_result D H R stage refs traces trial ordinal) (\<lambda>result.
                   update_item [(''status'', PyStr ''PASS''), (''result'', result)])))
                (item_times D Y out_path trial begin' start))"
  fix u :: "'w runner" assume "trials_are (ts @ [run_item trial elapsed]) u"
  then have u: "started ts trial elapsed u" unfolding started_def by (rule_tac exI) (auto simp: itm_def py_eq_str)
  have pass: "keeps (started ts trial elapsed) (update_item [(''status'', PyStr ''PASS''), (''result'', result)])" for result
    by (rule keeps_started_update) auto
  have w: "keeps (started ts trial elapsed) (write_checkpoint Y out_path)" by (rule keeps_started_framed, intro frame_intros)
  have "keeps (started ts trial elapsed) rest"
    unfolding rest_def by (intro keeps_bseq keeps_finally keeps_item_error keeps_bind pass w keeps_trial_result keeps_item_times)
  from keeps_outcome [OF this u] have "outcome rest u (\<lambda>_. recorded ts (good_item H' refs' policy' trial elapsed)) (\<lambda>_. recorded ts (good_item H' refs' policy' trial elapsed))"
    by (rule outcome_mono) (use known admitted_fits [OF admitted] in \<open>auto simp: started_def recorded_def good_item_def\<close>)
  then show "outcome rest u (\<lambda>_. recorded ts (good_item H' refs' policy' trial elapsed)) (\<lambda>_. at_most_recorded ts (good_item H' refs' policy' trial elapsed))"
    by (rule outcome_mono) (auto simp: at_most_recorded_def)
qed

lemma trial_outcome:
  assumes "trials_are ts s" and elapsed: "elapsed = PyFloat (fsub (fst (bd_clock D (ar_world s))) start)"
  shows "outcome (sweep_trial D Y H R stage out_path policy' refs traces start (ordinal, trial)) s
     (\<lambda>_. recorded ts (good_item H refs policy' trial elapsed)) (\<lambda>_. at_most_recorded ts (good_item H refs policy' trial elapsed))"
proof -
  have early: "keeps (trials_are ts) (world_get (bd_clock D))" by (rule keeps_trials, intro frame_intros)
  have none: "at_most_recorded ts good t" if "trials_are ts t" for good and t :: "'w runner" using that by (simp add: at_most_recorded_def)
  define u where "u = snd (world_get (bd_clock D) s)"
  have u: "trials_are ts u" unfolding u_def by (rule keepsD [OF early assms(1)])
  have c: "clock D start s = (Inr elapsed, u)"
    by (simp add: clock_def bind_def elapsed u_def zoom_def split: prod.splits)
  have "sweep_trial D Y H R stage out_path policy' refs traces start (ordinal, trial) s
      = bind (lift_res (available H refs trial)) (\<lambda>known.
       bind (if \<not> known then ret (Some (SKIPS ! 0))
             else bind (lift_res (admitted (V elapsed) (fld (V trial) ''bound_seconds'') policy')) (\<lambda>ok. ret (if ok then None else Some (SKIPS ! 1))))
         (\<lambda>skip. case skip of
            Some reason \<Rightarrow> bseq (append_item (skip_item trial reason)) (write_checkpoint Y out_path)
          | None \<Rightarrow> bind (world_get (bd_clock D)) (\<lambda>begin'. bseq (append_item (run_item trial elapsed))
              (bseq (write_checkpoint Y out_path)
                (finally' (item_error (bind (trial_result D H R stage refs traces trial ordinal) (\<lambda>result.
                     update_item [(''status'', PyStr ''PASS''), (''result'', result)])))
                  (item_times D Y out_path trial begin' start)))))) u"
    unfolding sweep_trial_def case_prod_conv by (rule bind_Inr [of "clock D start" s, OF c])
  moreover have "outcome (bind (lift_res (available H refs trial)) (\<lambda>known.
       bind (if \<not> known then ret (Some (SKIPS ! 0))
             else bind (lift_res (admitted (V elapsed) (fld (V trial) ''bound_seconds'') policy')) (\<lambda>ok. ret (if ok then None else Some (SKIPS ! 1))))
         (\<lambda>skip. case skip of
            Some reason \<Rightarrow> bseq (append_item (skip_item trial reason)) (write_checkpoint Y out_path)
          | None \<Rightarrow> bind (world_get (bd_clock D)) (\<lambda>begin'. bseq (append_item (run_item trial elapsed))
              (bseq (write_checkpoint Y out_path)
                (finally' (item_error (bind (trial_result D H R stage refs traces trial ordinal) (\<lambda>result.
                     update_item [(''status'', PyStr ''PASS''), (''result'', result)])))
                  (item_times D Y out_path trial begin' start))))))) u
     (\<lambda>_. recorded ts (good_item H refs policy' trial elapsed)) (\<lambda>_. at_most_recorded ts (good_item H refs policy' trial elapsed))"
    by (rule trial_choice, rule skip_outcome [OF u], erule good_skips, rule skip_outcome [OF u], erule (1) good_skips,
        rule via_bind [OF early u], erule none, rule run_outcome, assumption+, rule none [OF u])
  ultimately show ?thesis by (simp only: outcome_def)
qed

end

text \<open>C21: A trial is recorded once and started only within the budget. Whatever happens, the earlier items stay as
  they are, and at most one item is added, one exactly if the trial returns. With \<open>elapsed\<close> the clock's reading at the
  trial's begin less the campaign's start, the item is a skip with the first reason exactly if the trial's reference is
  not available, a skip with the second exactly if it is, but the bound is not positive or elapsed time, bound and
  clean-up reserve exceed the board's budget, and otherwise a started trial that says so, with \<open>elapsed\<close>. A started trial's
  status is PASS or FAIL.\<close>

theorem sweep_trial_records:
  assumes "\<forall>c tc n cap ord b s. dict_find (rn_report (snd (rr_case R c tc n cap ord b s))) (PyStr ''trials'') = dict_find (rn_report s) (PyStr ''trials'')"
    and "\<forall>f seed p ord b s. dict_find (rn_report (snd (rr_one R f seed p ord b s))) (PyStr ''trials'') = dict_find (rn_report s) (PyStr ''trials'')"
    and "dict_find (rn_report s) (PyStr ''trials'') = Some (PyList ts)"
  shows "case sweep_trial D Y H R stage out_path policy' refs traces start (ordinal, trial) s of (r, t) \<Rightarrow>
    \<exists>new elapsed fitting. elapsed = PyFloat (fsub (fst (bd_clock D (ar_world s))) start)
      \<and> fitting = (lt (I 0) (fld (V trial) ''bound_seconds'') = Inr True \<and> le (I 0) (V elapsed) = Inr True
          \<and> le (add (add (V elapsed) (fld (V trial) ''bound_seconds'')) (fld (V policy') ''cleanup_reserve_seconds''))
              (fld (V policy') ''board_budget_seconds'') = Inr True)
      \<and> dict_find (rn_report t) (PyStr ''trials'') = Some (PyList (ts @ new)) \<and> length new \<le> 1 \<and> (isl r \<or> length new = 1)
      \<and> list_all (\<lambda>x. fld (V x) ''trial'' = V trial
          \<and> (fld (V x) ''status'' = S ''SKIP''
               \<and> (available H refs trial = Inr False \<and> fld (V x) ''reason'' = S ''independent reference unavailable within preparation guard''
                  \<or> available H refs trial = Inr True \<and> \<not> fitting \<and> fld (V x) ''reason'' = S ''conservative case bound would consume cleanup reserve'')
             \<or> fld (V x) ''status'' \<in> {S ''PASS'', S ''FAIL''} \<and> fld (V x) ''started_campaign_seconds'' = V elapsed
               \<and> available H refs trial = Inr True \<and> fitting)) new"
proof -
  have R: "quiet_runners R" using assms(1,2) by (simp add: quiet_runners_def)
  have "trials_are ts s" using assms(3) by (simp add: trials_are_def)
  define elapsed where "elapsed = PyFloat (fsub (fst (bd_clock D (ar_world s))) start)"
  have skips: "SKIPS ! 0 = PyStr ''independent reference unavailable within preparation guard''"
    "SKIPS ! 1 = PyStr ''conservative case bound would consume cleanup reserve''" by (simp_all add: SKIPS_def)
  obtain r t where rt: "sweep_trial D Y H R stage out_path policy' refs traces start (ordinal, trial) s = (r, t)" by (cases "sweep_trial D Y H R stage out_path policy' refs traces start (ordinal, trial) s")
  have "\<exists>new. trials_are (ts @ new) t \<and> length new \<le> 1 \<and> (isl r \<or> length new = 1) \<and> list_all (good_item H refs policy' trial elapsed) new"
    using quiet_runners.trial_outcome [OF R \<open>trials_are ts s\<close> elapsed_def, of Y H stage out_path policy' refs traces ordinal trial] rt
    by (auto simp: outcome_def recorded_def at_most_recorded_def split: sum.splits intro: exI [of _ "[]"] exI [of _ "[x]" for x])
  then show ?thesis
    unfolding rt prod.case trials_are_def good_item_def [abs_def] fits_def skips elapsed_def by blast
qed

text \<open>The request runners of the two modules leave the report alone.\<close>

lemma keeps_frame_within [frame_intros]: "keeps (framed K X out maps) (wait_within fuel D begin' timeout)"
  by (induction fuel) (auto intro!: frame_intros frames)

lemma keeps_frame_one [frame_intros]: "keeps (framed K X out maps) (run_one fuel D H stage seed enabled ordinal timeout)"
  unfolding run_one_def restore_seed_def restore_array_def seed_control_def run_seeded_def check_seeded_def profile_records_def
  by (intro frame_intros frames)

definition real_runners :: "nat \<Rightarrow> 'w board \<Rightarrow> host \<Rightarrow> string \<Rightarrow> 'w runner runners" where
  "real_runners fuel D H fixtures = \<lparr>rr_case = run_case fuel D H fixtures, rr_one = run_one fuel D H\<rparr>"

interpretation real: quiet_runners "real_runners fuel D H fixtures" for fuel D H fixtures
  by unfold_locales (unfold real_runners_def runners.select_convs, (rule frame_find, intro frame_intros)+)

definition bench_system :: "nat system" where
  "bench_system = \<lparr>sy_exists = (\<lambda>_ n. (False, n)), sy_run = (\<lambda>_. ret ()), sy_open = ret (), sy_timer = (\<lambda>_ n. n), sy_write = (\<lambda>_ _. ret ())\<rparr>"

definition bench_host :: host where
  "bench_host = \<lparr>ho_files = \<lparr>fl_json = (\<lambda>_. Inl OSError), fl_text = (\<lambda>_. Inl OSError), fl_sha = (\<lambda>_. Inl OSError), fl_is_file = (\<lambda>_. False),
     fl_size = (\<lambda>_. Inl OSError), fl_glob = (\<lambda>_. [])\<rparr>, ho_bytes = (\<lambda>_. Inl OSError), ho_sha = (\<lambda>_. []), ho_sha_f8 = (\<lambda>_. []),
     ho_array = (\<lambda>_. Inl OSError), ho_repr = (\<lambda>_. [])\<rparr>"

theorem sweep_trial_records_witness:
  "\<exists>new. dict_find (rn_report (snd (sweep_trial bench bench_system bench_host (real_runners 5 bench bench_host []) [] []
      (PyDict [(PyStr ''cleanup_reserve_seconds'', PyInt 120), (PyStr ''board_budget_seconds'', PyInt 3600)])
      (PyDict [(PyStr ''cases'', PyDict [(PyStr ''a'', PyDict [])])]) (PyDict []) (Fin 0)
      (1, PyDict [(PyStr ''kind'', PyStr ''full''), (PyStr ''case'', PyStr ''a''), (PyStr ''bound_seconds'', PyInt 30)])
      \<lparr>ar_world = 0, ar_maps = [], ar_partial = None, rn_report = [(PyStr ''trials'', PyList [])], rn_overlay = True, rn_cluster = True,
        rn_loaded = True, rn_output = None\<rparr>))) (PyStr ''trials'') = Some (PyList new) \<and> length new \<le> 1"
proof -
  define s :: "nat runner" where "s = \<lparr>ar_world = 0, ar_maps = [], ar_partial = None, rn_report = [(PyStr ''trials'', PyList [])], rn_overlay = True,
    rn_cluster = True, rn_loaded = True, rn_output = None\<rparr>"
  have quiet: "\<forall>c tc n cap ord b s. dict_find (rn_report (snd (rr_case (real_runners 5 bench bench_host []) c tc n cap ord b s))) (PyStr ''trials'') = dict_find (rn_report s) (PyStr ''trials'')"
      "\<forall>f seed p ord b s. dict_find (rn_report (snd (rr_one (real_runners 5 bench bench_host []) f seed p ord b s))) (PyStr ''trials'') = dict_find (rn_report s) (PyStr ''trials'')"
    by (intro allI real.quiet_case real.quiet_one)+
  have "dict_find (rn_report s) (PyStr ''trials'') = Some (PyList [])" by (simp add: s_def)
  from sweep_trial_records [OF quiet this,
      where D = bench and Y = bench_system and H = bench_host and stage = "[]" and out_path = "[]"
        and policy' = "PyDict [(PyStr ''cleanup_reserve_seconds'', PyInt 120), (PyStr ''board_budget_seconds'', PyInt 3600)]"
        and refs = "PyDict [(PyStr ''cases'', PyDict [(PyStr ''a'', PyDict [])])]" and traces = "PyDict []" and start = "Fin 0" and ordinal = 1
        and trial = "PyDict [(PyStr ''kind'', PyStr ''full''), (PyStr ''case'', PyStr ''a''), (PyStr ''bound_seconds'', PyInt 30)]"]
  show ?thesis unfolding s_def [symmetric] case_prod_beta append_Nil by (elim exE conjE) (rule exI, rule conjI)
qed

end
