(* ===== verification/StartupRun.thy ===== *)
theory StartupRun
  imports SweepRun
begin

text \<open>
  The context and start-up variants of the runners: the attention counters of
  \<open>zynq/m5_context_run.py\<close>, the consecutive warm forwards of \<open>zynq/m5_context_ready_run.py\<close>, and the
  cold-cache and multirow runs of \<open>zynq/m5_startup_run.py\<close>. The module variable \<open>previous\<close> is a field
  of the state.
\<close>

record 'w warm = "'w runner" +
  wr_previous :: "py option"

definition ATTENTION_MAGIC :: int where "ATTENTION_MAGIC = 0x36585443"

definition ATTENTION_NAMES :: "string list" where
  "ATTENTION_NAMES = [''append_cache'', ''query_quantize'', ''qk_pack_and_gemm'', ''score_preparation_and_affine'',
     ''softmax_and_probability'', ''value_maximum_scan'', ''value_unit_preparation'', ''value_quantize_pack_and_gemm'', ''output_affine'']"

section \<open>Attention counters\<close>

text \<open>The nine counters, each called as often as there are layers (the first) or heads times rows.\<close>

definition attention_entry :: "int list \<Rightarrow> int \<Rightarrow> nat \<times> string \<Rightarrow> (int \<times> py) res" where
  "attention_entry words rows = (\<lambda>(i, name). let w = (\<lambda>k. words ! (3 + i * 3 + k)); cycles = u64 (w 1) (w 2) in
     if w 0 \<noteq> (if i = 0 then 12 else 144 * rows) then Inl ValueError
     else rbind (dict_of [(''name'', S name), (''calls'', I (w 0)), (''cycles'', I cycles), (''seconds'', quot (I cycles) (I FABRIC_HZ))])
            (\<lambda>d. Inr (cycles, d)))"

definition phase_cycles :: "py res \<Rightarrow> string \<Rightarrow> int res" where
  "phase_cycles phases name = rbind (iter phases) (\<lambda>ps.
     rbind (keep (\<lambda>p. eq (fld (V p) ''name'') (S name)) ps) (\<lambda>qs. rbind (rmap (\<lambda>p. int_fld p ''cycles'') qs) (\<lambda>ns. Inr (sum_list ns))))"

definition attention_detail :: "int list \<Rightarrow> int \<Rightarrow> py res \<Rightarrow> (py list \<times> int) res" where
  "attention_detail words rows phases =
     (if take 3 words \<noteq> [ATTENTION_MAGIC, 1, 9] then Inl ValueError
      else rbind (rmap (attention_entry words rows) (enumerate 0 ATTENTION_NAMES)) (\<lambda>es.
       rbind (phase_cycles phases ''attention'') (\<lambda>total'. let used = sum_list (map fst es) in
         if used > total' then Inl ValueError else Inr (map snd es, total' - used))))"

definition detailed :: "nat \<Rightarrow> 'w board \<Rightarrow> host \<Rightarrow> string \<Rightarrow> py \<Rightarrow> bool \<Rightarrow> int \<Rightarrow> f64 \<Rightarrow> (('w, 'z) arena_scheme, py) act" where
  "detailed fuel D H stage seed enabled ordinal timeout =
     bind (run_one fuel D H stage seed enabled ordinal timeout) (\<lambda>result.
     bind (unpack_u32 D ''trace'' 0x28000 30) (\<lambda>words.
     bind (lift_res (attention_detail words 1 (fld (V result) ''phases''))) (\<lambda>(rows, unassigned).
       lift_res (updated result [(''attention_detail'', V (PyList rows)), (''attention_unassigned_cycles'', I unassigned)]))))"

section \<open>Warm forwards\<close>

definition DERIVED_OFFSET :: nat where "DERIVED_OFFSET = 0x60000"

definition derived_covers :: "'w board \<Rightarrow> int \<Rightarrow> (('w, 'z) arena_scheme, bool) act" where
  "derived_covers D n = bind (unpack_u32 D ''trace'' (DERIVED_OFFSET + 8) 144) (\<lambda>ws. ret (ws = replicate 144 n))"

text \<open>The previous forward ended where this seed begins.\<close>

definition follows :: "py option \<Rightarrow> py \<Rightarrow> bool res" where
  "follows previous seed = (case previous of None \<Rightarrow> Inr False
     | Some p \<Rightarrow> conjs [eq (fld (V p) ''cache_valid'') (fld (V seed) ''past''), eq (fld (V p) ''token'') (fld (V seed) ''input_token''),
         eq (fld (V p) ''kv_sha256'') (fld (V seed) ''prefill_kv_sha256'')])"

definition restore_or_continue :: "'w board \<Rightarrow> host \<Rightarrow> string \<Rightarrow> py \<Rightarrow> ('w warm, unit) act" where
  "restore_or_continue D H folder seed =
     bind (mapping ''trace'') (\<lambda>_. bind (lift_res (fld (V seed) ''context_role'')) (\<lambda>role.
     if py_eq role (PyStr ''cold_initialization_in_model'') then
       bseq (modify (\<lambda>s. s\<lparr>wr_previous := None\<rparr>)) (bseq (restore_seed D H folder seed)
         (deposit D IndexError ''trace'' DERIVED_OFFSET (replicate 8 0)))
     else if py_eq role (PyStr ''warm_last_slot'') then
       bind (gets wr_previous) (\<lambda>previous. bind (lift_res (follows previous seed)) (\<lambda>ok.
       bseq (require ok ValueError)
      (bind (lift_res (int_fld seed ''past'')) (\<lambda>past. bind (cache_digest D H past) (\<lambda>d.
       bind (lift_res (eq (S d) (fld (V seed) ''prefill_kv_sha256''))) (\<lambda>same.
       bseq (require same ValueError)
      (bind (lift_res (tru (get (V seed) ''context_baseline'' PyNone))) (\<lambda>baseline.
       bind (if baseline then ret True else derived_covers D past) (\<lambda>covered. require covered ValueError)))))))))
     else raise ValueError))"

definition ready_run :: "nat \<Rightarrow> 'w board \<Rightarrow> host \<Rightarrow> string \<Rightarrow> py \<Rightarrow> bool \<Rightarrow> int \<Rightarrow> f64 \<Rightarrow> ('w warm, py) act" where
  "ready_run fuel D H stage seed enabled ordinal timeout =
     bind (lift_res (tru (get (V seed) ''context_baseline'' PyNone))) (\<lambda>baseline.
     bseq (require (\<not> (baseline \<and> enabled)) ValueError)
    (bind (if enabled then detailed fuel D H stage seed enabled ordinal timeout else run_one fuel D H stage seed enabled ordinal timeout) (\<lambda>result.
     bind (lift_res (fld (V seed) ''context_role'')) (\<lambda>role.
     if baseline then
       bind (lift_res (updated result [(''context_role'', V role), (''matched_original_baseline'', V (PyBool True))])) (\<lambda>r.
       bseq (modify (\<lambda>s. s\<lparr>wr_previous := Some r\<rparr>)) (ret r))
     else
       bind (lift_res (int_fld seed ''past'')) (\<lambda>past. bind (derived_covers D (past + 1)) (\<lambda>covered.
       bseq (require covered ValueError)
      (bind (unpack_u32 D ''trace'' (DERIVED_OFFSET + 130760) 4) (\<lambda>c.
       bseq (require (c ! 0 = 144 \<and> c ! 3 = 0) ValueError)
      (bind (lift_res (updated result [(''derived_cache'', dict_of [(''cold_heads'', I (c ! 0)), (''updated_columns'', I (c ! 1)),
            (''appended_vectors'', I (c ! 2))]), (''context_role'', V role)])) (\<lambda>r.
       bseq (modify (\<lambda>s. s\<lparr>wr_previous := Some r\<rparr>)) (ret r)))))))))))"

section \<open>Start-up detail\<close>

definition STARTUP_NAMES :: "string list" where
  "STARTUP_NAMES = [''cold_head_initialization'', ''key_transpose'', ''value_maximum_scan'', ''value_units'',
     ''value_conversion'', ''projection_quantize'', ''projection_gemm_and_copy'', ''projection_scale_and_range'',
     ''projection_affine'', ''projection_residual'', ''smoothing_setup'', ''smoothing_probe'', ''smoothing_rows'',
     ''complete_cache_preparation'', ''initial_demand_materialization'', ''all_demand_materialization'']"

text \<open>A counter \<open>'<QII'\<close>: cycles and calls.\<close>

definition startup_counter :: "'w board \<Rightarrow> nat \<times> string \<Rightarrow> (('w, 'z) arena_scheme, string \<times> int \<times> int) act" where
  "startup_counter D = (\<lambda>(i, name). bind (unpack_u32 D ''trace'' (0x2a010 + i * 16) 4) (\<lambda>w.
     if w ! 3 \<noteq> 0 \<or> (w ! 2 = 0 \<and> counter w 0 \<noteq> 0) then raise ValueError else ret (name, counter w 0, w ! 2)))"

definition counter_dict :: "string \<times> int \<times> int \<Rightarrow> py res" where
  "counter_dict = (\<lambda>(name, cycles, calls). dict_of [(''name'', S name), (''cycles'', I cycles), (''calls'', I calls),
     (''seconds'', quot (I cycles) (I FABRIC_HZ))])"

text \<open>The sub-intervals lie within their parents, and the complete preparation covers the twelve layers.\<close>

definition startup_nested :: "(string \<times> int \<times> int) list \<Rightarrow> bool" where
  "startup_nested cs \<longleftrightarrow> (let cycles = (\<lambda>i. fst (snd (cs ! i))); calls = (\<lambda>i. snd (snd (cs ! i))) in
     cycles 1 + cycles 2 + cycles 3 + cycles 4 \<le> cycles 0
     \<and> (14 \<le> length cs \<and> calls 13 \<noteq> 0 \<longrightarrow> calls 13 = 12 \<and> cycles 0 \<le> cycles 13))"

definition demand_nested :: "(string \<times> int \<times> int) list \<Rightarrow> int \<Rightarrow> bool" where
  "demand_nested cs rows \<longleftrightarrow> (let cycles = (\<lambda>i. fst (snd (cs ! i))); calls = (\<lambda>i. snd (snd (cs ! i))) in
     cycles 14 \<le> cycles 15 \<and> calls 14 \<le> calls 15
     \<and> (calls 15 \<noteq> 0 \<longrightarrow> calls 15 = 144 * rows \<and> calls 14 \<in> {0, 144}))"

definition LEAF_MAGIC :: int where "LEAF_MAGIC = 0x3746504c"

definition leaf_counter :: "'w board \<Rightarrow> nat \<Rightarrow> (('w, 'z) arena_scheme, int \<times> py) act" where
  "leaf_counter D worker = bind (unpack_u32 D ''trace'' (0x2b010 + worker * 24) 6) (\<lambda>w.
     let cycles = counter w 0; instructions = counter w 2; calls = w ! 4 in
     if w ! 5 \<noteq> 0 \<or> (calls = 0 \<and> (cycles \<noteq> 0 \<or> instructions \<noteq> 0)) \<or> (calls \<noteq> 0 \<and> instructions = 0) then raise ValueError
     else bind (lift_res (dict_of [(''worker'', I (int worker)), (''cycles'', I cycles), (''retired_instructions'', I instructions),
           (''calls'', I calls), (''cycles_per_instruction'', if instructions = 0 then V PyNone else quot (I cycles) (I instructions))]))
         (\<lambda>d. ret (calls, d)))"

definition leaf_details :: "'w board \<Rightarrow> (('w, 'z) arena_scheme, (string \<times> py res) list) act" where
  "leaf_details D = bind (mapping ''trace'') (\<lambda>(base, size').
     bind (if size' < 0x2b040 then ret [] else unpack_u32 D ''trace'' 0x2b000 1) (\<lambda>magic.
     if magic \<noteq> [LEAF_MAGIC] then ret []
     else bind (unpack_u32 D ''trace'' 0x2b000 4) (\<lambda>h.
       bseq (require (h = [LEAF_MAGIC, 1, 2, 0]) ValueError)
      (bind (mapM_act (leaf_counter D) [0, 1]) (\<lambda>ls.
        ret (if list_ex (\<lambda>(calls, d). calls \<noteq> 0) ls then [(''projection_leaf_diagnostic'', V (PyList (map snd ls)))] else []))))))"

definition details :: "'w board \<Rightarrow> int \<Rightarrow> py res \<Rightarrow> (('w, 'z) arena_scheme, (string \<times> py res) list) act" where
  "details D rows phases =
     bind (unpack_u32 D ''trace'' 0x2a000 4) (\<lambda>h.
     bseq (require (take 2 h = [0x37545350, 1] \<and> h ! 2 \<in> {13, 14, 16} \<and> h ! 3 = 0) ValueError)
    (bind (mapM_act (startup_counter D) (enumerate 0 (take (nat (h ! 2)) STARTUP_NAMES))) (\<lambda>cs.
     bind (lift_res (rmap counter_dict cs)) (\<lambda>ds.
     bseq (require (startup_nested cs) ValueError)
    (bind (unpack_u32 D ''trace'' 0x28000 30) (\<lambda>words.
     bind (lift_res (attention_detail words rows phases)) (\<lambda>(attention, unassigned).
     bseq (require (length cs \<noteq> 16 \<or> demand_nested cs rows) ValueError)
    (bind (leaf_details D) (\<lambda>leaves.
       ret ([(''startup_detail'', V (PyList ds)), (''attention_detail'', V (PyList attention)), (''attention_unassigned_cycles'', I unassigned)]
         @ (if length cs = 16 then [(''initial_required_derived_seconds'', add (fld (V (ds ! 13)) ''seconds'') (fld (V (ds ! 14)) ''seconds''))] else [])
         @ leaves))))))))))"

definition ROLES :: "string list" where
  "ROLES = [''cold_initialization_in_model'', ''actual_prompt_prefill'', ''warm_last_slot'']"

definition check_initial_coverage :: "py \<Rightarrow> py \<Rightarrow> int \<Rightarrow> unit res" where
  "check_initial_coverage result role rows =
     rbind (eq (fld (fld (V result) ''derived_cache'') ''version'') (I 2)) (\<lambda>second.
     if \<not> second then Inr ()
     else rbind (iter (fld (V result) ''startup_detail'')) (\<lambda>records.
       if length records \<noteq> 16 then Inl ValueError
       else let cold = role \<in> PyStr ` {''cold_initialization_in_model'', ''actual_prompt_prefill''} in
         if role \<notin> PyStr ` set ROLES then Inl ValueError
         else checks (map (\<lambda>(i, n). eq (fld (V (records ! i)) ''calls'') (I n))
           [(0, if cold then 144 else 0), (13, 12), (14, if cold then 144 else 0), (15, 144 * rows)])))"

section \<open>Start-up runs\<close>

definition seed_tokens :: "py \<Rightarrow> py list res" where
  "seed_tokens seed = rbind (get (V seed) ''input_token'' PyNone) (\<lambda>t. iter (get (V seed) ''prefill_tokens'' (PyList [t])))"

definition valid_token :: "py \<Rightarrow> bool" where
  "valid_token t \<longleftrightarrow> (case to_int t of Some n \<Rightarrow> 0 \<le> n \<and> n < 50257 | None \<Rightarrow> False)"

definition startup_seed :: "'w board \<Rightarrow> host \<Rightarrow> string \<Rightarrow> py \<Rightarrow> int \<Rightarrow> ('w warm, unit) act" where
  "startup_seed D H folder seed past =
     bind (lift_res (eq (fld (V seed) ''context_role'') (S ''actual_prompt_prefill''))) (\<lambda>prefill.
       if prefill then bseq (require (past = 0) ValueError) (modify (\<lambda>s. s\<lparr>wr_previous := None\<rparr>))
       else restore_or_continue D H folder seed)"

definition startup_run_one :: "nat \<Rightarrow> 'w board \<Rightarrow> host \<Rightarrow> string \<Rightarrow> py \<Rightarrow> bool \<Rightarrow> int \<Rightarrow> f64 \<Rightarrow> ('w warm, py) act" where
  "startup_run_one fuel D H stage seed enabled ordinal timeout =
     bind (lift_res (seed_tokens seed)) (\<lambda>ts.
     bseq (require (1 \<le> length ts \<and> length ts \<le> 16 \<and> list_all valid_token ts) ValueError)
    (bind (lift_res (rmap int_val ts)) (\<lambda>tokens. let rows = int (length tokens) in
     bind (lift_res (int_fld seed ''past'')) (\<lambda>past.
     bseq (require (0 \<le> past \<and> past \<le> 1024 - rows) ValueError)
    (bseq (ioctl D IOC_PREPARE)
    (bind (load_firmware D H (path [stage, ''m5_profile.bin''])) (\<lambda>firmware_hash.
     bseq (startup_seed D H (path [stage, ''seed'']) seed past)
    (bseq (seed_control D tokens past enabled ordinal)
    (bind (run_seeded fuel D (past + rows) timeout) (\<lambda>(token, words, header, seconds).
     bind (profile_records D header) (\<lambda>raw.
     bind (lift_res (parse_profile header raw enabled FABRIC_HZ)) (\<lambda>parsed.
     bind (check_seeded D H seed token words header) (\<lambda>(logits_hash, kv_hash).
     bind (derived_covers D (words ! 10)) (\<lambda>covered.
     bseq (require covered ValueError)
    (bind (unpack_u32 D ''trace'' (DERIVED_OFFSET + 130760) 4) (\<lambda>c.
     bseq (require (c ! 0 = 144 \<and> c ! 3 = 0) ValueError)
    (bind (lift_res (fld (V seed) ''context_role'')) (\<lambda>role.
     bind (unpack_u32 D ''trace'' (DERIVED_OFFSET + 4) 1) (\<lambda>version.
     bind (lift_res (updated parsed [(''status'', S ''PASS''), (''ordinal'', I ordinal), (''token'', I token),
       (''firmware_sha256'', S firmware_hash), (''logits_sha256'', S logits_hash), (''kv_sha256'', S kv_hash),
       (''cache_valid'', I (words ! 10)), (''input_tokens'', V (PyList ts)), (''initial_past'', I past), (''context_role'', V role),
       (''derived_cache'', dict_of [(''version'', I (hd version)), (''cold_heads'', I (c ! 0)), (''updated_columns'', I (c ! 1)),
          (''appended_vectors'', I (c ! 2))]),
       (''host_request_through_delivery_seconds'', V (PyFloat seconds))])) (\<lambda>result.
     bind (if \<not> enabled then ret result
           else bind (details D rows (fld (V result) ''phases'')) (\<lambda>kvs. bind (lift_res (updated result kvs)) (\<lambda>r.
                bind (lift_res (check_initial_coverage r role rows)) (\<lambda>_. ret r)))) (\<lambda>final.
     bseq (modify (\<lambda>s. s\<lparr>wr_previous := Some final\<rparr>)) (ret final))))))))))))))))))))))"

text \<open>A full request, with the tracing image of the same source when traces are wanted.\<close>

definition full_case :: "nat \<Rightarrow> 'w board \<Rightarrow> host \<Rightarrow> string \<Rightarrow> py \<Rightarrow> py \<Rightarrow> int \<Rightarrow> bool \<Rightarrow> int \<Rightarrow> f64 \<Rightarrow> (('w, 'z) arena_scheme, py) act" where
  "full_case fuel D H stage case' fixture count capture ordinal timeout = (let fs = ho_files H; at' = (\<lambda>f. path [stage, f]) in
     bind (if capture \<and> fl_is_file fs (at' ''m5_trace.bin'') then
             bind (lift_res (fl_json fs (at' ''policy.json''))) (\<lambda>policy'.
             bind (lift_res (rbind (fl_sha fs (at' ''m5_trace.bin'')) (\<lambda>d. eq (S d) (fld (fld (V policy') ''pinned'') ''m5_trace.bin'')))) (\<lambda>same.
             bseq (require same ValueError)
            (bind (load_firmware D H (at' ''m5_trace.bin'')) (\<lambda>_. ret ''m5_trace.bin''))))
           else ret ''m5_runtime.bin'') (\<lambda>image.
     bind (run_case fuel D H (at' ''fixtures'') case' fixture count capture ordinal timeout) (\<lambda>result.
       lift_res (updated result [(''execution_image'', S image), (''firmware_sha256'', rbind (fl_sha fs (at' image)) (\<lambda>d. S d))]))))"

end
