(* ===== verification/NetMemory.thy ===== *)
theory NetMemory
  imports PyText "HOL-Library.List_Lexorder" "HOL-Library.AList"
begin

text \<open>
  The memory mapper of \<open>scripts/m6_map_memories.py\<close> and the inventory of \<open>scripts/m6_memory_inventory.py\<close>:
  which memories of an elaborated netlist become two-phase SRAM banks, the propagation of the memory
  clock and reset along the hierarchy, the new netlist and the wrappers. A netlist is the schema of
  Yosys's JSON as records, its dictionaries association lists in insertion order; a dictionary that is
  absent is empty here, and the fields of a cell the mapper neither reads nor writes are left out.
\<close>

section \<open>The netlist\<close>

text \<open>A connection bit is a net number or a constant (\<open>"0"\<close>, \<open>"1"\<close>, \<open>"x"\<close>); a parameter is a number or
  the digits of one.\<close>

datatype net_bit = Net int | Const string

datatype param = Num int | Digits string

record cell =
  ce_type :: string
  ce_parameters :: "(string \<times> param) list"
  ce_directions :: "(string \<times> string) list"
  ce_connections :: "(string \<times> net_bit list) list"

record port =
  po_direction :: string
  po_bits :: "net_bit list"

record net_module =
  mo_attributes :: "(string \<times> param) list"
  mo_ports :: "(string \<times> port) list"
  mo_cells :: "(string \<times> cell) list"
  mo_netnames :: "(string \<times> net_bit list) list"

type_synonym netlist = "(string \<times> net_module) list"

text \<open>\<open>d[k]\<close>.\<close>

definition key_of :: "(string \<times> 'a) list \<Rightarrow> string \<Rightarrow> 'a res" where
  "key_of d k = (case map_of d k of None \<Rightarrow> Inl KeyError | Some v \<Rightarrow> Inr v)"

definition assert :: "bool \<Rightarrow> unit res" where
  "assert b = (if b then Inr () else Inl AssertionError)"

section \<open>Parameters\<close>

definition binary :: "string \<Rightarrow> int" where
  "binary s = foldl (\<lambda>n c. 2 * n + of_bool (c = CHR ''1'')) 0 s"

definition number :: "param \<Rightarrow> int res" where
  "number v = (case v of Num n \<Rightarrow> Inr n
     | Digits s \<Rightarrow> if set s \<subseteq> {CHR ''0'', CHR ''1''} \<and> s \<noteq> [] then Inr (binary s) else Inl ValueError)"

definition num_param :: "cell \<Rightarrow> string \<Rightarrow> int res" where
  "num_param c k = rbind (key_of (ce_parameters c) k) number"

text \<open>The characters of a parameter; a number has none.\<close>

definition digits_param :: "cell \<Rightarrow> string \<Rightarrow> string res" where
  "digits_param c k = rbind (key_of (ce_parameters c) k) (\<lambda>v. case v of Num _ \<Rightarrow> Inl TypeError | Digits s \<Rightarrow> Inr s)"

definition conn :: "cell \<Rightarrow> string \<Rightarrow> net_bit list res" where
  "conn c k = key_of (ce_connections c) k"

text \<open>\<open>(1 << n) - 1\<close>.\<close>

definition ones :: "int \<Rightarrow> int res" where
  "ones n = (if n < 0 then Inl ValueError else Inr (2 ^ nat n - 1))"

text \<open>\<open>n.bit_length()\<close> of a natural number.\<close>

fun bit_length :: "nat \<Rightarrow> nat" where
  "bit_length n = (if n = 0 then 0 else Suc (bit_length (n div 2)))"

declare bit_length.simps [simp del]

section \<open>One memory\<close>

record mem_spec =
  ms_width :: int
  ms_depth :: int
  ms_read_ports :: int
  ms_address_width :: int
  ms_collision_x :: int
  ms_logical_bits :: int
  ms_macros :: int
  ms_physical_bits :: int
  ms_wrapper :: string
  ms_mask_bits :: "net_bit list"

datatype decision = Mapped mem_spec | Retained string int int

text \<open>The assertions on the parameters of a memory that is to be mapped.\<close>

definition geometry_checks :: "cell \<Rightarrow> int \<Rightarrow> int \<Rightarrow> int \<Rightarrow> int \<Rightarrow> unit res" where
  "geometry_checks c width depth reads writes =
     rbind (assert (width \<in> {32, 36} \<and> reads \<in> {1, 2} \<and> writes = 1)) (\<lambda>_.
     rbind (num_param c ''OFFSET'') (\<lambda>offset. rbind (assert (offset = 0)) (\<lambda>_.
     rbind (num_param c ''ABITS'') (\<lambda>abits. rbind (assert (abits = int (bit_length (nat \<bar>depth - 1\<bar>)))) (\<lambda>_.
     rbind (digits_param c ''INIT'') (\<lambda>init. assert (set init \<subseteq> {CHR ''x''})))))))"

definition flag_checks :: "cell \<Rightarrow> (string \<times> int) list \<Rightarrow> unit list res" where
  "flag_checks c tags = rmap (\<lambda>(tag, expected). rbind (num_param c tag) (\<lambda>n. assert (n = expected))) tags"

definition FLAGS :: "int \<Rightarrow> (string \<times> int) list" where
  "FLAGS every = [(''RD_CLK_POLARITY'', every), (''RD_CLK_ENABLE'', every), (''WR_CLK_POLARITY'', 1), (''WR_CLK_ENABLE'', 1),
     (''RD_TRANSPARENCY_MASK'', 0), (''RD_WIDE_CONTINUATION'', 0), (''WR_WIDE_CONTINUATION'', 0), (''WR_PRIORITY_MASK'', 0)]"

text \<open>No reset of the read registers, no initial value of theirs, one clock.\<close>

definition port_checks :: "cell \<Rightarrow> nat \<Rightarrow> unit res" where
  "port_checks c reads =
     rbind (conn c ''RD_ARST'') (\<lambda>arst. rbind (assert (arst = replicate reads (Const ''0''))) (\<lambda>_.
     rbind (conn c ''RD_SRST'') (\<lambda>srst. rbind (assert (srst = replicate reads (Const ''0''))) (\<lambda>_.
     rbind (digits_param c ''RD_INIT_VALUE'') (\<lambda>init. rbind (assert (set init \<subseteq> {CHR ''x''})) (\<lambda>_.
     rbind (conn c ''RD_CLK'') (\<lambda>rd. rbind (conn c ''WR_CLK'') (\<lambda>wr.
       assert (rd = concat (replicate reads wr))))))))))"

text \<open>One enable per byte, which the enables of all its bits agree on.\<close>

definition byte_enable :: "net_bit list \<Rightarrow> nat \<Rightarrow> nat \<Rightarrow> net_bit res" where
  "byte_enable enables width lo = (let bits = take (min (lo + 8) width - lo) (drop lo enables) in
     rbind (assert (length (remdups bits) = 1)) (\<lambda>_. Inr (hd bits)))"

definition byte_mask :: "cell \<Rightarrow> nat \<Rightarrow> net_bit list res" where
  "byte_mask c width = rmap (\<lambda>i. rbind (conn c ''WR_EN'') (\<lambda>enables. byte_enable enables width (8 * i))) [0..<(width + 7) div 8]"

definition wrapper_name :: "int \<Rightarrow> int \<Rightarrow> int \<Rightarrow> string" where
  "wrapper_name width depth reads = ''pa_m6_ram_w'' @ str_of_int width @ ''_d'' @ str_of_int depth @ ''_p'' @ str_of_int reads"

definition MACRO_BITS :: int where "MACRO_BITS = 512 * 32"

definition make_spec :: "int \<Rightarrow> int \<Rightarrow> int \<Rightarrow> int \<Rightarrow> int \<Rightarrow> net_bit list \<Rightarrow> mem_spec" where
  "make_spec width depth reads abits collision mask' =
     (let macros = reads * ((depth + 511) div 512) * ((width + 31) div 32) in
      \<lparr>ms_width = width, ms_depth = depth, ms_read_ports = reads, ms_address_width = abits, ms_collision_x = collision,
       ms_logical_bits = width * depth, ms_macros = macros, ms_physical_bits = macros * MACRO_BITS,
       ms_wrapper = wrapper_name width depth reads, ms_mask_bits = mask'\<rparr>)"

definition map_memory :: "cell \<Rightarrow> int \<Rightarrow> int \<Rightarrow> int \<Rightarrow> int \<Rightarrow> mem_spec res" where
  "map_memory c width depth reads writes =
     rbind (geometry_checks c width depth reads writes) (\<lambda>_.
     rbind (flag_checks c (FLAGS (2 ^ nat reads - 1))) (\<lambda>_.
     rbind (num_param c ''RD_COLLISION_X_MASK'') (\<lambda>collision.
     rbind (assert (0 \<le> collision \<and> collision < 2 ^ nat reads)) (\<lambda>_.
     rbind (port_checks c (nat reads)) (\<lambda>_.
     rbind (byte_mask c (nat width)) (\<lambda>mask'.
     rbind (num_param c ''ABITS'') (\<lambda>abits. Inr (make_spec width depth reads abits collision mask'))))))))"

definition memory_spec :: "cell \<Rightarrow> decision res" where
  "memory_spec c =
     rbind (num_param c ''WIDTH'') (\<lambda>width. rbind (num_param c ''SIZE'') (\<lambda>depth.
     rbind (num_param c ''RD_PORTS'') (\<lambda>reads. rbind (num_param c ''WR_PORTS'') (\<lambda>writes.
       if writes = 0
       then rbind (digits_param c ''INIT'') (\<lambda>init. rbind (assert (set init \<subseteq> {CHR ''0'', CHR ''1''})) (\<lambda>_.
              Inr (Retained ''constant ROM implemented as logic'' width depth)))
       else rbind (num_param c ''RD_CLK_ENABLE'') (\<lambda>enabled. rbind (ones reads) (\<lambda>every.
         if enabled \<noteq> every
         then rbind (assert (depth \<le> 256 \<and> width * depth \<le> 8192)) (\<lambda>_.
                Inr (Retained ''small asynchronous storage retained as logic'' width depth))
         else if width * depth < 4096 then Inr (Retained ''small synchronous control storage retained as logic'' width depth)
         else rbind (map_memory c width depth reads writes) (\<lambda>spec. Inr (Mapped spec))))))))"

text \<open>\<open>transform\<close> reports an unsupported memory as a \<open>ValueError\<close>.\<close>

definition unsupported :: "'a res \<Rightarrow> 'a res" where
  "unsupported m = (case m of Inl AssertionError \<Rightarrow> Inl ValueError | _ \<Rightarrow> m)"

text \<open>The decision on every memory of the netlist, by module and cell.\<close>

definition module_decisions :: "string \<times> net_module \<Rightarrow> ((string \<times> string) \<times> decision) list res" where
  "module_decisions = (\<lambda>(name, m). rmap (\<lambda>(cname, c). rbind (unsupported (memory_spec c)) (\<lambda>d. Inr ((name, cname), d)))
     (filter (\<lambda>(cname, c). ce_type c = ''$mem_v2'') (mo_cells m)))"

definition decide :: "netlist \<Rightarrow> ((string \<times> string) \<times> decision) list res" where
  "decide M = rbind (rmap module_decisions M) (\<lambda>ds. Inr (concat ds))"

definition is_mapped :: "decision \<Rightarrow> bool" where
  "is_mapped d = (case d of Mapped _ \<Rightarrow> True | Retained _ _ _ \<Rightarrow> False)"

section \<open>The memory clock\<close>

definition TOP :: string where "TOP = ''pa_cluster_m5_board''"
definition CLK_PORT :: string where "CLK_PORT = ''m6_clk_mem_i''"
definition RST_PORT :: string where "RST_PORT = ''m6_mem_rst_ni''"

definition uses_any :: "string list \<Rightarrow> net_module \<Rightarrow> bool" where
  "uses_any needs m = list_ex (\<lambda>(cname, c). ce_type c \<in> set needs) (mo_cells m)"

lemma fewer_left:
  "x \<in> set M \<Longrightarrow> P x \<Longrightarrow> \<not> Q x \<Longrightarrow> (\<And>y. Q y \<Longrightarrow> P y) \<Longrightarrow> length (filter Q M) < length (filter P M)"
proof (induction M)
  case (Cons y L)
  have "length (filter Q L) \<le> length (filter P L)" using Cons.prems(4) by (induction L) auto
  then show ?case using Cons by auto
qed simp

text \<open>The loop that adds the parents of the modules found so far until none is new.\<close>

definition new_parents :: "netlist \<Rightarrow> string list \<Rightarrow> string list" where
  "new_parents M needs = map fst (filter (\<lambda>(name, m). name \<notin> set needs \<and> uses_any needs m) M)"

lemma new_parents_fewer:
  assumes "new_parents M needs \<noteq> []"
  shows "length (filter (\<lambda>(name, m). name \<notin> set (needs @ new_parents M needs)) M) < length (filter (\<lambda>(name, m). name \<notin> set needs) M)"
proof -
  obtain name where "name \<in> set (new_parents M needs)" using assms by (meson last_in_set)
  then obtain m where "(name, m) \<in> set M" "name \<notin> set needs" by (auto simp: new_parents_def)
  with \<open>name \<in> _\<close> show ?thesis by (intro fewer_left [of "(name, m)"]) auto
qed

function clocked :: "netlist \<Rightarrow> string list \<Rightarrow> string list" where
  "clocked M needs = (if new_parents M needs = [] then needs else clocked M (needs @ new_parents M needs))"
  by pat_completeness auto
termination
proof (relation "measure (\<lambda>(M, needs). length (filter (\<lambda>(name, m). name \<notin> set needs) M))", goal_cases)
  case (2 M needs)
  from new_parents_fewer [OF 2] show ?case by simp
qed simp

declare clocked.simps [simp del]

section \<open>New ports\<close>

definition net_numbers :: "net_bit list \<Rightarrow> int list" where
  "net_numbers bits = concat (map (\<lambda>b. case b of Net n \<Rightarrow> [n] | Const _ \<Rightarrow> []) bits)"

definition used_nets :: "net_module \<Rightarrow> int list" where
  "used_nets m = concat (map (net_numbers \<circ> snd) (mo_netnames m)) @ concat (map (net_numbers \<circ> po_bits \<circ> snd) (mo_ports m))
     @ concat (map (\<lambda>(cname, c). concat (map (net_numbers \<circ> snd) (ce_connections c))) (mo_cells m))"

definition fresh_net :: "net_module \<Rightarrow> int" where
  "fresh_net m = (if used_nets m = [] then 1 else Max (set (used_nets m))) + 1"

definition add_port :: "net_module \<Rightarrow> string \<Rightarrow> (net_module \<times> net_bit list) res" where
  "add_port m name = rbind (assert (name \<notin> fst ` set (mo_ports m))) (\<lambda>_. let bits = [Net (fresh_net m)] in
     Inr (m\<lparr>mo_ports := AList.update name \<lparr>po_direction = ''input'', po_bits = bits\<rparr> (mo_ports m),
            mo_netnames := AList.update name bits (mo_netnames m)\<rparr>, bits))"

text \<open>Both ports of a module on the way of the clock, and their bits.\<close>

definition clock_module :: "string list \<Rightarrow> string \<times> net_module \<Rightarrow> (string \<times> net_module \<times> (net_bit list \<times> net_bit list) option) res" where
  "clock_module needs = (\<lambda>(name, m). if name \<notin> set needs then Inr (name, m, None)
     else rbind (add_port m CLK_PORT) (\<lambda>(m1, clk). rbind (add_port m1 RST_PORT) (\<lambda>(m2, rst). Inr (name, m2, Some (clk, rst)))))"

section \<open>Rewriting cells\<close>

definition BANK_PORTS :: "(string \<times> string) list" where
  "BANK_PORTS = [(''clk_sys_i'', ''input''), (''clk_mem_i'', ''input''), (''rst_ni'', ''input''),
     (''rd_en_i'', ''input''), (''rd_addr_i'', ''input''), (''rd_data_o'', ''output''),
     (''wr_mask_i'', ''input''), (''wr_addr_i'', ''input''), (''wr_data_i'', ''input'')]"

text \<open>A cell whose module is on the way of the clock gets the two connections.\<close>

definition wire_cell :: "string list \<Rightarrow> (net_bit list \<times> net_bit list) option \<Rightarrow> cell \<Rightarrow> cell res" where
  "wire_cell needs clocks c = (if ce_type c \<notin> set needs then Inr c
     else case clocks of None \<Rightarrow> Inl KeyError
     | Some (clk, rst) \<Rightarrow> Inr (c\<lparr>ce_connections := AList.update RST_PORT rst (AList.update CLK_PORT clk (ce_connections c)),
         ce_directions := AList.update RST_PORT ''input'' (AList.update CLK_PORT ''input'' (ce_directions c))\<rparr>))"

definition bank_cell :: "mem_spec \<Rightarrow> (net_bit list \<times> net_bit list) option \<Rightarrow> cell \<Rightarrow> cell res" where
  "bank_cell spec clocks c = (case clocks of None \<Rightarrow> Inl KeyError
     | Some (clk, rst) \<Rightarrow>
       rbind (rmap (conn c) [''WR_CLK'', ''RD_EN'', ''RD_ADDR'', ''RD_DATA'', ''WR_ADDR'', ''WR_DATA'']) (\<lambda>old.
         Inr \<lparr>ce_type = ms_wrapper spec, ce_parameters = [], ce_directions = BANK_PORTS,
           ce_connections = [(''clk_sys_i'', old ! 0), (''clk_mem_i'', clk), (''rst_ni'', rst),
             (''rd_en_i'', old ! 1), (''rd_addr_i'', old ! 2), (''rd_data_o'', old ! 3),
             (''wr_mask_i'', ms_mask_bits spec), (''wr_addr_i'', old ! 4), (''wr_data_i'', old ! 5)]\<rparr>))"

definition rewrite_cell :: "((string \<times> string) \<times> decision) list \<Rightarrow> string list \<Rightarrow> string
    \<Rightarrow> (net_bit list \<times> net_bit list) option \<Rightarrow> string \<times> cell \<Rightarrow> (string \<times> cell) res" where
  "rewrite_cell ds needs name clocks = (\<lambda>(cname, c). rbind (wire_cell needs clocks c) (\<lambda>c'.
     case map_of ds (name, cname) of
       Some (Mapped spec) \<Rightarrow> rbind (bank_cell spec clocks c') (\<lambda>b. Inr (cname, b))
     | _ \<Rightarrow> Inr (cname, c')))"

definition rewrite_module :: "((string \<times> string) \<times> decision) list \<Rightarrow> string list
    \<Rightarrow> string \<times> net_module \<times> (net_bit list \<times> net_bit list) option \<Rightarrow> (string \<times> net_module) res" where
  "rewrite_module ds needs = (\<lambda>(name, m, clocks).
     rbind (rmap (rewrite_cell ds needs name clocks) (mo_cells m)) (\<lambda>cs. Inr (name, m\<lparr>mo_cells := cs\<rparr>)))"

section \<open>The instances\<close>

text \<open>The walk over the original hierarchy: the memories met, each with its path. An instance of a
  module that is its own ancestor is an assertion failure, so the walk ends.\<close>

function visit :: "netlist \<Rightarrow> ((string \<times> string) \<times> decision) list \<Rightarrow> string \<Rightarrow> string \<Rightarrow> string list
    \<Rightarrow> (string \<times> decision) list res"
  and visit_cells :: "netlist \<Rightarrow> ((string \<times> string) \<times> decision) list \<Rightarrow> string \<Rightarrow> string \<Rightarrow> string list
    \<Rightarrow> (string \<times> cell) list \<Rightarrow> (string \<times> decision) list res" where
  "visit M ds name trail ancestors =
     (if name \<in> set ancestors then Inl AssertionError
      else case map_of M name of None \<Rightarrow> Inl KeyError
      | Some m \<Rightarrow> visit_cells M ds name trail (name # ancestors) (mo_cells m))"
| "visit_cells M ds name trail ancestors [] = Inr []"
| "visit_cells M ds name trail ancestors ((cname, c) # cs) =
     (let child = trail @ ''/'' @ cname in
      rbind (case map_of ds (name, cname) of Some d \<Rightarrow> Inr [(child, d)]
        | None \<Rightarrow>
          if ce_type c \<in> fst ` set M then visit M ds (ce_type c) child ancestors
          else if \<not> startswith ''$'' (ce_type c) then Inl ValueError else Inr [])
       (\<lambda>here. rbind (visit_cells M ds name trail ancestors cs) (\<lambda>rest. Inr (here @ rest))))"
  by pat_completeness auto

termination
proof (relation "measures [\<lambda>x. case x of Inl (M, ds, name, trail, ancestors) \<Rightarrow> length (filter (\<lambda>(n, m). n \<notin> set ancestors) M)
      | Inr (M, ds, name, trail, ancestors, cs) \<Rightarrow> length (filter (\<lambda>(n, m). n \<notin> set ancestors) M),
    \<lambda>x. case x of Inl _ \<Rightarrow> 0 | Inr (M, ds, name, trail, ancestors, cs) \<Rightarrow> Suc (length cs)]", goal_cases)
  case (2 M ds name trail ancestors m)
  then have "(name, m) \<in> set M" by (auto dest: map_of_SomeD)
  then show ?case using 2(1) by (auto intro: fewer_left)
qed auto

declare visit.simps [simp del]

section \<open>The whole mapping\<close>

definition CORE :: string where "CORE = ''pa_m6_cluster_core''"
definition PORTABLE :: string where "PORTABLE = ''pa_m6_portable''"

text \<open>\<open>modules[new] = modules.pop(old)\<close>.\<close>

definition move_key :: "string \<Rightarrow> string \<Rightarrow> (string \<times> 'a) list \<Rightarrow> (string \<times> 'a) list res" where
  "move_key old new d = rbind (key_of d old) (\<lambda>v. Inr (AList.update new v (AList.delete old d)))"

definition retype :: "string \<Rightarrow> net_module \<Rightarrow> net_module" where
  "retype core m = m\<lparr>mo_cells := map (\<lambda>(cname, c). (cname, if ce_type c = core then c\<lparr>ce_type := CORE\<rparr> else c)) (mo_cells m)\<rparr>"

definition promote :: "netlist \<Rightarrow> netlist res" where
  "promote M = rbind (key_of M TOP) (\<lambda>t. rbind (key_of (mo_cells t) ''impl'') (\<lambda>impl. let core = ce_type impl in
     rbind (assert (infix_of ''pa_m5_cluster_top'' core)) (\<lambda>_.
     rbind (move_key core CORE M) (\<lambda>M'. move_key TOP PORTABLE (map (\<lambda>(name, m). (name, retype core m)) M')))))"

record mapped_netlist =
  mp_modules :: netlist
  mp_specs :: "(string \<times> mem_spec) list"
  mp_instances :: "(string \<times> mem_spec) list"
  mp_exceptions :: "(string \<times> string \<times> int \<times> int) list"

definition specs_of :: "decision list \<Rightarrow> (string \<times> mem_spec) list" where
  "specs_of ds = foldl (\<lambda>d x. case x of Mapped spec \<Rightarrow> AList.update (ms_wrapper spec) spec d | Retained _ _ _ \<Rightarrow> d) [] ds"

definition instances_of :: "(string \<times> decision) list \<Rightarrow> (string \<times> mem_spec) list" where
  "instances_of found = concat (map (\<lambda>(p, d). case d of Mapped spec \<Rightarrow> [(p, spec)] | Retained _ _ _ \<Rightarrow> []) found)"

definition exceptions_of :: "(string \<times> decision) list \<Rightarrow> (string \<times> string \<times> int \<times> int) list" where
  "exceptions_of found = concat (map (\<lambda>(p, d). case d of Mapped _ \<Rightarrow> [] | Retained r w n \<Rightarrow> [(p, r, w, n)]) found)"

text \<open>The modules with a mapped memory; the iteration over sorted names in the source only orders
  independent changes.\<close>

definition owners :: "netlist \<Rightarrow> ((string \<times> string) \<times> decision) list \<Rightarrow> string list" where
  "owners M ds = filter (\<lambda>name. list_ex (\<lambda>((n, cname), d). n = name \<and> is_mapped d) ds) (map fst M)"

definition transform :: "netlist \<Rightarrow> mapped_netlist res" where
  "transform source =
     rbind (decide source) (\<lambda>ds. let needs = clocked source (owners source ds) in
     rbind (assert (TOP \<in> set needs \<and> list_ex (is_mapped \<circ> snd) ds)) (\<lambda>_.
     rbind (rmap (clock_module needs) source) (\<lambda>ported.
     rbind (rmap (rewrite_module ds needs) ported) (\<lambda>rewritten.
     rbind (visit source ds TOP TOP []) (\<lambda>found.
     rbind (promote rewritten) (\<lambda>modules.
       Inr \<lparr>mp_modules = modules, mp_specs = specs_of (map snd ds), mp_instances = instances_of found,
            mp_exceptions = exceptions_of found\<rparr>))))))"

text \<open>The totals of the report.\<close>

definition total_macros :: "mapped_netlist \<Rightarrow> int" where
  "total_macros mp = sum_list (map (ms_macros \<circ> snd) (mp_instances mp))"

definition logical_mapped_bits :: "mapped_netlist \<Rightarrow> int" where
  "logical_mapped_bits mp = sum_list (map (ms_logical_bits \<circ> snd) (mp_instances mp))"

definition physical_sram_bits :: "mapped_netlist \<Rightarrow> int" where
  "physical_sram_bits mp = sum_list (map (ms_physical_bits \<circ> snd) (mp_instances mp))"

section \<open>The wrappers\<close>

definition vector :: "string \<Rightarrow> int \<Rightarrow> string \<Rightarrow> string" where
  "vector direction n name = ''  '' @ direction @ '' wire ['' @ str_of_int n @ '':0] '' @ name"

definition wrapper_text :: "string \<Rightarrow> mem_spec \<Rightarrow> string" where
  "wrapper_text name spec = (let w = ms_width spec; d = ms_depth spec; a = ms_address_width spec; r = ms_read_ports spec;
     p = str_of_int in join [NL] [''module '' @ name @ '' ('', ''`ifdef USE_POWER_PINS'', ''  inout wire vdd, vss,'', ''`endif'',
       ''  input wire clk_sys_i, clk_mem_i, rst_ni,'', vector ''input'' (r - 1) ''rd_en_i,'', vector ''input'' (r * a - 1) ''rd_addr_i,'',
       vector ''output'' (r * w - 1) ''rd_data_o,'', vector ''input'' ((w + 7) div 8 - 1) ''wr_mask_i,'',
       vector ''input'' (a - 1) ''wr_addr_i,'', vector ''input'' (w - 1) ''wr_data_i'', '');'',
       ''  pa_m6_sram_1w2r #(.WIDTH('' @ p w @ ''), .DEPTH('' @ p d @ ''), .ADDR_WIDTH('' @ p a @ ''), .READ_PORTS('' @ p r @ '')) impl ('',
       ''`ifdef USE_POWER_PINS'', ''    .vdd(vdd), .vss(vss),'', ''`endif'',
       ''    .clk_sys_i(clk_sys_i), .clk_mem_i(clk_mem_i), .rst_ni(rst_ni),'',
       ''    .rd_en_i(rd_en_i), .rd_addr_i(rd_addr_i), .rd_data_o(rd_data_o),'',
       ''    .wr_mask_i(wr_mask_i), .wr_addr_i(wr_addr_i), .wr_data_i(wr_data_i));'', ''endmodule'', ''''])"

definition wrappers :: "(string \<times> mem_spec) list \<Rightarrow> string" where
  "wrappers specs = join [NL] ((''// Generated explicit SRAM wrappers; not black-boxed for timing.'' @ [NL])
     # map (\<lambda>(name, spec). wrapper_text name spec) (sort_key fst specs))"

section \<open>The inventory\<close>

record mem_entry =
  me_instance :: string
  me_width :: int
  me_depth :: int
  me_bits :: int
  me_read_ports :: int
  me_write_ports :: int
  me_clocked_read_mask :: int
  me_initialized_bits :: nat

definition memory_entry :: "string \<Rightarrow> cell \<Rightarrow> mem_entry res" where
  "memory_entry child c =
     rbind (num_param c ''WIDTH'') (\<lambda>width. rbind (num_param c ''SIZE'') (\<lambda>depth.
     rbind (num_param c ''RD_PORTS'') (\<lambda>reads. rbind (num_param c ''WR_PORTS'') (\<lambda>writes.
     rbind (num_param c ''RD_CLK_ENABLE'') (\<lambda>clocked'. rbind (digits_param c ''INIT'') (\<lambda>init.
       Inr \<lparr>me_instance = child, me_width = width, me_depth = depth, me_bits = width * depth, me_read_ports = reads,
            me_write_ports = writes, me_clocked_read_mask = clocked',
            me_initialized_bits = length (filter (\<lambda>b. b \<in> {CHR ''0'', CHR ''1''}) init)\<rparr>))))))"

text \<open>\<open>attributes.get(tag, 0)\<close> as a number.\<close>

definition attribute :: "net_module \<Rightarrow> string \<Rightarrow> int res" where
  "attribute m tag = (case map_of (mo_attributes m) tag of None \<Rightarrow> Inr 0 | Some v \<Rightarrow> number v)"

definition opaque :: "net_module \<Rightarrow> bool res" where
  "opaque m = disjs (map (\<lambda>tag. rbind (attribute m tag) (\<lambda>n. Inr (n \<noteq> 0))) [''blackbox'', ''whitebox''])"

function inventory_visit :: "netlist \<Rightarrow> string \<Rightarrow> string \<Rightarrow> string list \<Rightarrow> mem_entry list res"
  and inventory_cells :: "netlist \<Rightarrow> string \<Rightarrow> string list \<Rightarrow> (string \<times> cell) list \<Rightarrow> mem_entry list res" where
  "inventory_visit M name trail ancestors =
     (if name \<in> set ancestors then Inl AssertionError
      else case map_of M name of None \<Rightarrow> Inl KeyError
      | Some m \<Rightarrow> rbind (opaque m) (\<lambda>b. if b then Inl ValueError
          else inventory_cells M trail (name # ancestors) (mo_cells m)))"
| "inventory_cells M trail ancestors [] = Inr []"
| "inventory_cells M trail ancestors ((cname, c) # cs) =
     (let child = trail @ ''/'' @ cname; kind = ce_type c in
      rbind (if kind = ''$mem_v2'' then rbind (memory_entry child c) (\<lambda>e. Inr [e])
        else if kind \<in> fst ` set M then inventory_visit M kind child ancestors
        else if \<not> startswith ''$'' kind then Inl ValueError else Inr [])
       (\<lambda>here. rbind (inventory_cells M trail ancestors cs) (\<lambda>rest. Inr (here @ rest))))"
  by pat_completeness auto
termination
proof (relation "measures [\<lambda>x. case x of Inl (M, name, trail, ancestors) \<Rightarrow> length (filter (\<lambda>(n, m). n \<notin> set ancestors) M)
      | Inr (M, trail, ancestors, cs) \<Rightarrow> length (filter (\<lambda>(n, m). n \<notin> set ancestors) M),
    \<lambda>x. case x of Inl _ \<Rightarrow> 0 | Inr (M, trail, ancestors, cs) \<Rightarrow> Suc (length cs)]", goal_cases)
  case (2 M name trail ancestors m)
  then have "(name, m) \<in> set M" by (auto dest: map_of_SomeD)
  then show ?case using 2(1) by (auto intro: fewer_left)
qed auto

declare inventory_visit.simps [simp del]

definition inventory :: "netlist \<Rightarrow> string \<Rightarrow> mem_entry list res" where
  "inventory M start = inventory_visit M start start []"

end
