(* ===== verification/NetProps.thy ===== *)
theory NetProps
  imports NetMemory
begin

text \<open>
  What the memory mapping guarantees of one memory and of the clock: a mapped memory fits its banks, and
  the memory clock reaches exactly the modules above a bank.
\<close>

section \<open>One memory\<close>

lemma assert_Inr [simp]: "assert b = Inr u \<longleftrightarrow> b" by (simp add: assert_def)

lemma bit_length_covers: "n < 2 ^ bit_length n"
proof (induction n rule: bit_length.induct)
  case (1 n)
  show ?case
  proof (cases "n = 0")
    case False
    with 1 have "n div 2 < 2 ^ bit_length (n div 2)" by simp
    then have "n < 2 * 2 ^ bit_length (n div 2)" by linarith
    then show ?thesis using False by (subst bit_length.simps) simp
  qed (simp add: bit_length.simps)
qed

lemma bit_length_least: "n < 2 ^ k \<Longrightarrow> bit_length n \<le> k"
proof (induction n arbitrary: k rule: bit_length.induct)
  case (1 n)
  show ?case
  proof (cases "n = 0")
    case False
    with 1(2) obtain j where k: "k = Suc j" by (cases k) auto
    then have "n div 2 < 2 ^ j" using 1(2) by auto
    from 1(1) [OF False this] show ?thesis using False k by (subst bit_length.simps) simp
  qed (simp add: bit_length.simps)
qed

text \<open>A slice whose elements agree is its first element.\<close>

lemma byte_enable_all:
  assumes "byte_enable enables width lo = Inr b" "lo \<le> i" "i < min (lo + 8) width" "i < length enables"
  shows "enables ! i = b"
proof -
  define bits where "bits = take (min (lo + 8) width - lo) (drop lo enables)"
  have "length (remdups bits) = 1" and b: "b = hd bits" using assms(1)
    by (simp_all add: byte_enable_def bits_def Let_def rbind_Inr_iff)
  then have "card (set bits) = 1" by (simp add: length_remdups_card_conv)
  then obtain x where x: "set bits = {x}" by (auto simp: card_1_singleton_iff)
  then have "b = x" using b by (metis empty_iff hd_in_set list.set(1) singletonD insert_not_empty)
  moreover have "bits ! (i - lo) = enables ! i" "i - lo < length bits" using assms by (auto simp: bits_def)
  ultimately show ?thesis using x by (metis nth_mem singletonD)
qed

lemma byte_mask_covers:
  assumes "byte_mask c width = Inr ms" "conn c ''WR_EN'' = Inr enables" "i < width" "i < length enables"
  shows "enables ! i = ms ! (i div 8)" "length ms = (width + 7) div 8"
proof -
  have *: "length ms = (width + 7) div 8" "\<forall>j < (width + 7) div 8. byte_enable enables width (8 * j) = Inr (ms ! j)"
    using assms(1,2) by (simp_all add: byte_mask_def rmap_Inr)
  then show "length ms = (width + 7) div 8" by simp
  have "i div 8 < (width + 7) div 8" using assms(3) by linarith
  with * have "byte_enable enables width (8 * (i div 8)) = Inr (ms ! (i div 8))" by simp
  then show "enables ! i = ms ! (i div 8)"
    by (rule byte_enable_all) (use assms(3,4) in \<open>simp_all add: min_less_iff_conj, linarith?\<close>)
qed

lemma map_memory_ok:
  assumes "map_memory c width depth reads writes = Inr s"
  shows "width \<in> {32, 36} \<and> reads \<in> {1, 2} \<and> writes = 1"
    and "\<exists>collision ms. byte_mask c (nat width) = Inr ms
      \<and> s = make_spec width depth reads (int (bit_length (nat \<bar>depth - 1\<bar>))) collision ms"
    and "\<exists>wr. conn c ''WR_CLK'' = Inr wr \<and> conn c ''RD_CLK'' = Inr (concat (replicate (nat reads) wr))"
    and "num_param c ''RD_TRANSPARENCY_MASK'' = Inr 0" "\<exists>init. digits_param c ''INIT'' = Inr init \<and> set init \<subseteq> {CHR ''x''}"
  using assms unfolding map_memory_def geometry_checks_def port_checks_def flag_checks_def FLAGS_def
  by (auto simp: rbind_Inr_iff)

lemma memory_spec_mapped:
  assumes "memory_spec c = Inr (Mapped s)"
  shows "\<exists>width depth reads writes. num_param c ''WR_PORTS'' = Inr writes
    \<and> map_memory c width depth reads writes = Inr s \<and> 4096 \<le> width * depth"
proof -
  from assms obtain width depth reads writes where "num_param c ''WR_PORTS'' = Inr writes"
      "map_memory c width depth reads writes = Inr s" "\<not> width * depth < 4096"
    unfolding memory_spec_def by (auto simp: rbind_Inr_iff split: if_splits)
  then show ?thesis by (metis linorder_not_less)
qed

lemma ceil_covers: "0 < m \<Longrightarrow> (n :: int) \<le> (n + (m - 1)) div m * m"
  by (smt (verit) pos_mod_bound div_mult_mod_eq)

lemma bank_bits:
  assumes "width \<in> {32, 36 :: int}" "4096 \<le> width * depth" "reads \<in> {1, 2}"
  shows "reads * (width * depth) \<le> reads * ((depth + 511) div 512) * ((width + 31) div 32) * MACRO_BITS"
proof -
  have d: "0 < depth" "depth \<le> (depth + 511) div 512 * 512" using assms(1,2) ceil_covers [of 512 depth] by auto
  have w: "width \<le> (width + 31) div 32 * 32" using assms(1) by auto
  have "width * depth \<le> ((width + 31) div 32 * 32) * ((depth + 511) div 512 * 512)"
    using d w assms(1) by (intro mult_mono) auto
  then have "reads * (width * depth) \<le> reads * (((width + 31) div 32 * 32) * ((depth + 511) div 512 * 512))"
    using assms(3) by (intro mult_left_mono) auto
  then show ?thesis by (simp add: MACRO_BITS_def algebra_simps)
qed

text \<open>C26: A memory that is mapped has one write port with one enable per byte that every bit of the byte agrees
  on, no initial content, no transparent read, one clock; its address bits cover its depth and are as few as
  possible, and its banks hold every logical bit once per read port.\<close>

theorem mapped_memory_fits:
  assumes "memory_spec c = Inr (Mapped s)" "conn c ''WR_EN'' = Inr enables"
  shows "ms_depth s \<le> 2 ^ nat (ms_address_width s) \<and> (ms_depth s \<le> 2 ^ n \<longrightarrow> nat (ms_address_width s) \<le> n)
    \<and> ms_read_ports s * ms_logical_bits s \<le> ms_physical_bits s
    \<and> length (ms_mask_bits s) = nat ((ms_width s + 7) div 8)
    \<and> (i < nat (ms_width s) \<and> i < length enables \<longrightarrow> enables ! i = ms_mask_bits s ! (i div 8))
    \<and> num_param c ''WR_PORTS'' = Inr 1 \<and> num_param c ''RD_TRANSPARENCY_MASK'' = Inr 0
    \<and> (\<exists>init. digits_param c ''INIT'' = Inr init \<and> set init \<subseteq> {CHR ''x''})
    \<and> (\<exists>clk. conn c ''WR_CLK'' = Inr clk \<and> conn c ''RD_CLK'' = Inr (concat (replicate (nat (ms_read_ports s)) clk)))"
proof -
  obtain width depth reads writes where w: "num_param c ''WR_PORTS'' = Inr writes"
      and m: "map_memory c width depth reads writes = Inr s" and big: "4096 \<le> width * depth"
    using memory_spec_mapped [OF assms(1)] by blast
  note ok = map_memory_ok [OF m]
  obtain collision ms where ms: "byte_mask c (nat width) = Inr ms"
      and s: "s = make_spec width depth reads (int (bit_length (nat \<bar>depth - 1\<bar>))) collision ms" using ok(2) by blast
  have width: "width \<in> {32, 36}" and reads: "reads \<in> {1, 2}" and writes: "writes = 1" using ok(1) by auto
  have depth: "0 < depth" using width big by auto
  define n' where "n' = nat (depth - 1)"
  have n': "depth = int n' + 1" "nat \<bar>depth - 1\<bar> = n'" using depth by (simp_all add: n'_def)
  have "int n' < int (2 ^ bit_length n')" using bit_length_covers [of n'] by (simp only: of_nat_less_iff)
  moreover have "int (2 ^ bit_length n') = 2 ^ bit_length n'" by simp
  ultimately have covers: "depth \<le> 2 ^ nat (int (bit_length (nat \<bar>depth - 1\<bar>)))" unfolding n'(2) nat_int using n'(1) by linarith
  have least: "bit_length n' \<le> n" if "depth \<le> 2 ^ n"
  proof (rule bit_length_least)
    have "int (2 ^ n) = 2 ^ n" by simp
    then have "int n' < int (2 ^ n)" using that n'(1) by linarith
    then show "n' < 2 ^ n" by (simp only: of_nat_less_iff)
  qed
  have mask': "length ms = (nat width + 7) div 8" "i < nat width \<Longrightarrow> i < length enables \<Longrightarrow> enables ! i = ms ! (i div 8)"
    using byte_mask_covers [OF ms assms(2)] ms by (auto simp: byte_mask_def rmap_Inr)
  show ?thesis using covers least mask' w writes ok(3-5) bank_bits [OF width big reads] width reads n'
    by (auto simp: s make_spec_def Let_def nat_div_distrib nat_add_distrib)
qed


text \<open>A memory of 512 words of 32 bits with two read ports (buses of one net repeated).\<close>

definition example_ram :: cell where
  "example_ram = \<lparr>ce_type = ''$mem_v2'',
     ce_parameters = [(''WIDTH'', Num 32), (''SIZE'', Num 512), (''RD_PORTS'', Num 2), (''WR_PORTS'', Num 1), (''ABITS'', Num 9),
       (''OFFSET'', Num 0), (''INIT'', Digits ''x''), (''RD_CLK_ENABLE'', Num 3), (''RD_CLK_POLARITY'', Num 3),
       (''WR_CLK_ENABLE'', Num 1), (''WR_CLK_POLARITY'', Num 1), (''RD_TRANSPARENCY_MASK'', Num 0), (''RD_COLLISION_X_MASK'', Num 0),
       (''RD_WIDE_CONTINUATION'', Num 0), (''WR_WIDE_CONTINUATION'', Num 0), (''WR_PRIORITY_MASK'', Num 0),
       (''RD_INIT_VALUE'', Digits ''x'')],
     ce_directions = [(''RD_DATA'', ''output'')],
     ce_connections = [(''RD_CLK'', [Net 2, Net 2]), (''WR_CLK'', [Net 2]), (''RD_ARST'', [Const ''0'', Const ''0'']),
       (''RD_SRST'', [Const ''0'', Const ''0'']), (''RD_EN'', [Net 3, Net 3]), (''RD_ADDR'', replicate 18 (Net 4)),
       (''RD_DATA'', replicate 64 (Net 40)), (''WR_ADDR'', replicate 9 (Net 120)),
       (''WR_DATA'', replicate 32 (Net 140)),
       (''WR_EN'', replicate 8 (Net 180) @ replicate 8 (Net 181) @ replicate 8 (Net 182) @ replicate 8 (Net 183))]\<rparr>"

lemma example_params:
  "num_param example_ram ''WIDTH'' = Inr 32" "num_param example_ram ''SIZE'' = Inr 512"
  "num_param example_ram ''RD_PORTS'' = Inr 2" "num_param example_ram ''WR_PORTS'' = Inr 1"
  "num_param example_ram ''ABITS'' = Inr 9" "num_param example_ram ''OFFSET'' = Inr 0"
  "num_param example_ram ''RD_COLLISION_X_MASK'' = Inr 0" "num_param example_ram ''RD_CLK_ENABLE'' = Inr 3"
  "flag_checks example_ram (FLAGS 3) = Inr (replicate 8 ())"
  "digits_param example_ram ''INIT'' = Inr ''x''"
  "digits_param example_ram ''RD_INIT_VALUE'' = Inr ''x''"
  by (simp_all add: num_param_def digits_param_def key_of_def number_def flag_checks_def FLAGS_def assert_def example_ram_def)
    (simp add: eval_nat_numeral)

lemma example_conns:
  "conn example_ram ''WR_EN'' = Inr (replicate 8 (Net 180) @ replicate 8 (Net 181) @ replicate 8 (Net 182) @ replicate 8 (Net 183))"
  "conn example_ram ''RD_CLK'' = Inr [Net 2, Net 2]" "conn example_ram ''WR_CLK'' = Inr [Net 2]"
  "conn example_ram ''RD_ARST'' = Inr [Const ''0'', Const ''0'']" "conn example_ram ''RD_SRST'' = Inr [Const ''0'', Const ''0'']"
  by (simp_all add: conn_def key_of_def example_ram_def)

lemma example_mask: "byte_mask example_ram 32 = Inr [Net 180, Net 181, Net 182, Net 183]"
  by code_simp

lemma bit_length_511: "bit_length 511 = 9" by code_simp

lemma example_spec: "memory_spec example_ram = Inr (Mapped (make_spec 32 512 2 9 0 [Net 180, Net 181, Net 182, Net 183]))"
  by (simp add: memory_spec_def map_memory_def geometry_checks_def port_checks_def example_params example_conns example_mask
      bit_length_511 ones_def assert_def set_replicate_conv_if numeral_2_eq_2)

theorem mapped_memory_fits_witness:
  "replicate 8 (Net 180) @ replicate 8 (Net 181) @ replicate 8 (Net 182) @ replicate 8 (Net 183)
      = map (\<lambda>i. [Net 180, Net 181, Net 182, Net 183] ! (i div 8)) [0..<32]
    \<and> (512 :: int) \<le> 2 ^ 9 \<and> num_param example_ram ''WR_PORTS'' = Inr 1"
proof -
  note fits = mapped_memory_fits [OF example_spec example_conns(1)]
  have "(replicate 8 (Net 180) @ replicate 8 (Net 181) @ replicate 8 (Net 182) @ replicate 8 (Net 183)) ! i
      = [Net 180, Net 181, Net 182, Net 183] ! (i div 8)" if "i < 32" for i
    using fits [of 0 i] that by (simp add: make_spec_def)
  then show ?thesis using fits by (intro conjI nth_equalityI) (simp_all add: make_spec_def)
qed

section \<open>The clock\<close>

text \<open>The modules above a set: its members, and every module with an instance of one above.\<close>

inductive above :: "netlist \<Rightarrow> string set \<Rightarrow> string \<Rightarrow> bool" for M Q where
  owner: "name \<in> Q \<Longrightarrow> above M Q name"
| parent: "(name, m) \<in> set M \<Longrightarrow> (cname, c) \<in> set (mo_cells m) \<Longrightarrow> above M Q (ce_type c) \<Longrightarrow> above M Q name"

lemma above_more:
  assumes "\<And>name. name \<in> T \<Longrightarrow> above M Q name" "Q \<subseteq> T"
  shows "above M T name \<longleftrightarrow> above M Q name"
proof
  show "above M T name \<Longrightarrow> above M Q name" by (induction rule: above.induct) (auto intro: assms(1) above.parent)
  show "above M Q name \<Longrightarrow> above M T name" by (induction rule: above.induct) (use assms(2) in \<open>auto intro: above.intros\<close>)
qed

text \<open>C25: The loop that propagates the memory clock ends, and finds exactly the modules above those it
  starts from.\<close>

theorem clock_reaches_above: "set (clocked M needs) = {name. above M (set needs) name}"
proof (induction M needs rule: clocked.induct)
  case (1 M needs)
  show ?case
  proof (cases "new_parents M needs = []")
    case True
    then have closed: "name \<in> set needs" if "(name, m) \<in> set M" "(cname, c) \<in> set (mo_cells m)" "ce_type c \<in> set needs" for name m cname c
      using that by (fastforce simp: new_parents_def filter_empty_conv uses_any_def list_ex_iff)
    have "name \<in> set needs" if "above M (set needs) name" for name
      using that by (induction rule: above.induct) (auto intro: closed)
    then show ?thesis using True by (subst clocked.simps) (auto intro: above.owner)
  next
    case False
    have "above M (set needs) name" if "name \<in> set (needs @ new_parents M needs)" for name
      using that by (auto simp: new_parents_def uses_any_def list_ex_iff intro: above.intros)
    then have "above M (set (needs @ new_parents M needs)) name \<longleftrightarrow> above M (set needs) name" for name
      by (rule above_more) auto
    then show ?thesis using 1 [OF False] False by (subst clocked.simps) simp
  qed
qed

end
