(* ===== verification/NetHierarchy.thy ===== *)
theory NetHierarchy
  imports NetProps "HOL-Library.Multiset"
begin

text \<open>
  What the memory mapping guarantees of the whole netlist: no memory of the hierarchy is lost or counted
  twice, and a rewritten module keeps its logic.
\<close>

section \<open>The hierarchy\<close>

fun dims :: "decision \<Rightarrow> int \<times> int" where
  "dims (Mapped s) = (ms_width s, ms_depth s)"
| "dims (Retained r w n) = (w, n)"

lemma memory_spec_dims:
  assumes "memory_spec c = Inr d"
  shows "num_param c ''WIDTH'' = Inr (fst (dims d))" "num_param c ''SIZE'' = Inr (snd (dims d))"
proof -
  have m: "ms_width s = width \<and> ms_depth s = depth" if "map_memory c width depth reads writes = Inr s" for width depth reads writes s
    using map_memory_ok(2) [OF that] by (auto simp: make_spec_def Let_def)
  show "num_param c ''WIDTH'' = Inr (fst (dims d))" "num_param c ''SIZE'' = Inr (snd (dims d))"
    using assms unfolding memory_spec_def by (auto simp: rbind_Inr_iff split: if_splits dest: m)
qed

text \<open>Dictionaries have distinct keys.\<close>

definition proper :: "netlist \<Rightarrow> bool" where
  "proper M \<longleftrightarrow> distinct (map fst M) \<and> list_all (\<lambda>(name, m). distinct (map fst (mo_cells m))) M"

lemma unsupported_Inr [simp]: "unsupported m = Inr d \<longleftrightarrow> m = Inr d"
  by (auto simp: unsupported_def split: sum.splits exn.splits)

lemma rmap_member: "rmap f xs = Inr ys \<Longrightarrow> x \<in> set xs \<Longrightarrow> \<exists>y. f x = Inr y"
  by (induction xs arbitrary: ys) (auto simp: rbind_Inr_iff)

lemma rmap_keyed:
  assumes "rmap (\<lambda>(k, v). rbind (f v) (\<lambda>d. Inr ((n, k), d))) xs = Inr ys"
  shows "map_of ys (n, k) = (case map_of xs k of None \<Rightarrow> None | Some v \<Rightarrow> (case f v of Inr d \<Rightarrow> Some d | Inl _ \<Rightarrow> None))"
    and "\<And>y. y \<in> set ys \<Longrightarrow> fst (fst y) = n"
  using assms by (induction xs arbitrary: ys) (auto simp: rbind_Inr_iff split: if_splits)

lemma map_of_filter_entry:
  "distinct (map fst xs) \<Longrightarrow> (k, v) \<in> set xs \<Longrightarrow> map_of (filter P xs) k = (if P (k, v) then Some v else None)"
  by (induction xs) (auto simp: map_of_eq_None_iff rev_image_eqI)

text \<open>The decisions find every memory of every module, and nothing else.\<close>

lemma module_decisions_find:
  assumes "module_decisions (name, m) = Inr ds" "distinct (map fst (mo_cells m))" "(cname, c) \<in> set (mo_cells m)"
  shows "map_of ds (name, cname) = (if ce_type c = ''$mem_v2'' then case memory_spec c of Inr d \<Rightarrow> Some d | Inl _ \<Rightarrow> None else None)"
  using rmap_keyed(1) [OF assms(1) [unfolded module_decisions_def prod.case], of cname]
    map_of_filter_entry [OF assms(2,3), of "\<lambda>(cname, c). ce_type c = ''$mem_v2''"]
  by (auto simp: unsupported_def split: sum.splits exn.splits)

lemma module_decisions_keys: "module_decisions (name, m) = Inr ds \<Longrightarrow> y \<in> set ds \<Longrightarrow> fst (fst y) = name"
  by (rule rmap_keyed(2)) (simp_all add: module_decisions_def)

lemma decisions_keys: "rmap module_decisions L = Inr es \<Longrightarrow> y \<in> set (concat es) \<Longrightarrow> fst (fst y) \<in> fst ` set L"
proof (induction L arbitrary: es)
  case (Cons x L)
  obtain e es' where es: "module_decisions (fst x, snd x) = Inr e" "rmap module_decisions L = Inr es'" "es = e # es'"
    using Cons.prems(1) by (auto simp: rbind_Inr_iff)
  then show ?case using Cons.IH [OF es(2)] Cons.prems(2) module_decisions_keys [OF es(1), of y] by auto
qed simp

lemma decisions_find:
  assumes "rmap module_decisions L = Inr es" "proper L" "(name, m) \<in> set L" "module_decisions (name, m) = Inr e"
  shows "map_of (concat es) (name, cname) = map_of e (name, cname)"
  using assms
proof (induction L arbitrary: es)
  case (Cons x L)
  obtain n k where x: "x = (n, k)" by (cases x)
  obtain a es' where es: "es = a # es'" "module_decisions (n, k) = Inr a" "rmap module_decisions L = Inr es'"
    using Cons.prems(1) by (auto simp: x rbind_Inr_iff)
  show ?case
  proof (cases "n = name")
    case True
    then have "k = m" "name \<notin> fst ` set L" using Cons.prems(2,3) by (auto simp: x proper_def rev_image_eqI)
    then have "map_of (concat es') (name, cname) = None"
      using decisions_keys [OF es(3)] by (force simp: map_of_eq_None_iff simp del: set_concat)
    then show ?thesis using True \<open>k = m\<close> es Cons.prems(4) by (simp add: map_add_def split: option.splits)
  next
    case False
    then have "map_of a (name, cname) = None" using module_decisions_keys [OF es(2)] by (force simp: map_of_eq_None_iff)
    moreover have "map_of (concat es') (name, cname) = map_of e (name, cname)"
      using Cons.IH [OF es(3)] Cons.prems(2-4) False by (auto simp: x proper_def)
    ultimately show ?thesis by (simp add: es map_add_def)
  qed
qed simp

lemma decide_find:
  assumes "decide M = Inr ds" "proper M" "(name, m) \<in> set M" "(cname, c) \<in> set (mo_cells m)"
  shows "map_of ds (name, cname) = (if ce_type c = ''$mem_v2'' then case memory_spec c of Inr d \<Rightarrow> Some d | Inl _ \<Rightarrow> None else None)"
proof -
  obtain es where es: "rmap module_decisions M = Inr es" "ds = concat es" using assms(1) by (auto simp: decide_def rbind_Inr_iff)
  obtain i where i: "i < length M" "M ! i = (name, m)" using assms(3) by (auto simp: in_set_conv_nth)
  have e: "module_decisions (name, m) = Inr (es ! i)" using es(1) i unfolding rmap_Inr by metis
  have "distinct (map fst (mo_cells m))" using assms(2,3) by (auto simp: proper_def list_all_iff)
  from module_decisions_find [OF e this assms(4)] show ?thesis
    by (simp add: es(2) decisions_find [OF es(1) assms(2,3) e])
qed

lemma decided_memory:
  assumes "decide M = Inr ds" "proper M" "(name, m) \<in> set M" "(cname, c) \<in> set (mo_cells m)" "ce_type c = ''$mem_v2''"
  shows "\<exists>d. memory_spec c = Inr d"
proof -
  obtain e where "module_decisions (name, m) = Inr e"
    using assms(1) rmap_member [OF _ assms(3)] by (auto simp: decide_def rbind_Inr_iff)
  then have r: "rmap (\<lambda>(cname, c). rbind (unsupported (memory_spec c)) (\<lambda>d. Inr ((name, cname), d)))
      (filter (\<lambda>(cname, c). ce_type c = ''$mem_v2'') (mo_cells m)) = Inr e" by (simp add: module_decisions_def)
  from rmap_member [OF r, of "(cname, c)"] show ?thesis using assms(4,5) by (auto simp: rbind_Inr_iff)
qed

text \<open>The walk meets the memories of the inventory, in the same order, with the same dimensions.\<close>

definition measured :: "(string \<times> decision) list \<Rightarrow> (string \<times> int \<times> int) list" where
  "measured found = map (\<lambda>(p, d). (p, dims d)) found"

definition listed :: "mem_entry list \<Rightarrow> (string \<times> int \<times> int) list" where
  "listed es = map (\<lambda>e. (me_instance e, me_width e, me_depth e)) es"

lemma measured_simps [simp]: "measured [] = []" "measured (as @ bs) = measured as @ measured bs" "measured [(p, d)] = [(p, dims d)]"
  by (simp_all add: measured_def)

lemma listed_simps [simp]: "listed [] = []" "listed (as @ bs) = listed as @ listed bs" "listed [e] = [(me_instance e, me_width e, me_depth e)]"
  by (simp_all add: listed_def)

lemma memory_entry_dims:
  assumes "memory_spec c = Inr d" "memory_entry child c = Inr e"
  shows "(me_instance e, me_width e, me_depth e) = (child, dims d)"
  using memory_spec_dims [OF assms(1)] assms(2) by (auto simp: memory_entry_def rbind_Inr_iff prod_eq_iff)

lemma visit_is_inventory:
  assumes "decide M = Inr ds" "proper M"
  shows "visit M ds name trail ancestors = Inr found \<Longrightarrow> inventory_visit M name trail ancestors = Inr es
      \<Longrightarrow> measured found = listed es"
    and "visit_cells M ds name trail ancestors cs = Inr found \<Longrightarrow> inventory_cells M trail ancestors cs = Inr es
      \<Longrightarrow> (name, m) \<in> set M \<Longrightarrow> set cs \<subseteq> set (mo_cells m) \<Longrightarrow> measured found = listed es"
  using assms
proof (induction M ds name trail ancestors and M ds name trail ancestors cs arbitrary: found es and m found es rule: visit_visit_cells.induct)
  case (1 M ds name trail ancestors)
  then obtain m where m: "name \<notin> set ancestors" "map_of M name = Some m"
      "visit_cells M ds name trail (name # ancestors) (mo_cells m) = Inr found"
    by (subst (asm) visit.simps) (auto split: if_splits option.splits)
  with 1(3) have "inventory_cells M trail (name # ancestors) (mo_cells m) = Inr es"
    by (subst (asm) inventory_visit.simps) (auto simp: rbind_Inr_iff split: if_splits)
  from 1(1) [OF m(1,2,3) this map_of_SomeD [OF m(2)]] 1(4,5) show ?case by simp
next
  case (2 M ds name trail ancestors)
  then show ?case by simp
next
  case (3 M ds name trail ancestors cname c cs)
  define child where "child = trail @ CHR ''/'' # cname"
  obtain here rest where f: "found = here @ rest" "visit_cells M ds name trail ancestors cs = Inr rest"
      "(case map_of ds (name, cname) of Some d \<Rightarrow> Inr [(child, d)] | None \<Rightarrow>
          if ce_type c \<in> fst ` set M then visit M ds (ce_type c) child ancestors
          else if \<not> startswith ''$'' (ce_type c) then Inl ValueError else Inr []) = Inr here"
    using 3(3) by (auto simp: Let_def rbind_Inr_iff simp flip: child_def)
  obtain here' rest' where g: "es = here' @ rest'" "inventory_cells M trail ancestors cs = Inr rest'"
      "(if ce_type c = ''$mem_v2'' then rbind (memory_entry child c) (\<lambda>e. Inr [e])
        else if ce_type c \<in> fst ` set M then inventory_visit M (ce_type c) child ancestors
        else if \<not> startswith ''$'' (ce_type c) then Inl ValueError else Inr []) = Inr here'"
    using 3(4) by (auto simp: Let_def rbind_Inr_iff simp flip: child_def)
  have c: "(cname, c) \<in> set (mo_cells m)" "set cs \<subseteq> set (mo_cells m)" using 3(6) by auto
  have rest: "measured rest = listed rest'" using 3(2) [OF _ f(2) g(2) 3(5) c(2) 3(7,8)] by blast
  note find = decide_find [OF 3(7,8) 3(5) c(1)]
  have "measured here = listed here'"
  proof (cases "ce_type c = ''$mem_v2''")
    case True
    obtain d where d: "memory_spec c = Inr d" using decided_memory [OF 3(7,8) 3(5) c(1) True] by blast
    from g(3) True obtain e where "memory_entry child c = Inr e" "here' = [e]" by (auto simp: rbind_Inr_iff)
    with d f(3) find True memory_entry_dims [OF d] show ?thesis by auto
  next
    case False
    then have n: "map_of ds (name, cname) = None" using find by simp
    show ?thesis
    proof (cases "ce_type c \<in> fst ` set M")
      case True
      then show ?thesis using 3(1) [OF _ n True, of child] f(3) g(3) n False 3(7,8) by (simp add: child_def)
    next
      case no: False
      then show ?thesis using f(3) g(3) n False by (auto split: if_splits)
    qed
  qed
  then show ?case using f(1) g(1) rest by simp
qed

lemma instances_split:
  "mset (map (\<lambda>(p, s). (p, ms_width s, ms_depth s)) (instances_of found))
     + mset (map (\<lambda>(p, r, w, n). (p, w, n)) (exceptions_of found)) = mset (measured found)"
  by (induction found) (auto simp: instances_of_def exceptions_of_def measured_def split: decision.splits)

definition bits_of :: "decision \<Rightarrow> int" where
  "bits_of d = fst (dims d) * snd (dims d)"

lemma memory_spec_bits: "memory_spec c = Inr (Mapped s) \<Longrightarrow> ms_logical_bits s = ms_width s * ms_depth s"
  by (auto simp: make_spec_def Let_def dest!: memory_spec_mapped map_memory_ok(2))

lemma rmap_source: "rmap f xs = Inr ys \<Longrightarrow> y \<in> set ys \<Longrightarrow> \<exists>x \<in> set xs. f x = Inr y"
  by (induction xs arbitrary: ys) (auto simp: rbind_Inr_iff)

text \<open>Every decision met is that of a memory of the netlist.\<close>

lemma visit_decided:
  assumes "\<And>k d. map_of ds k = Some d \<Longrightarrow> P d"
  shows "visit M ds name trail ancestors = Inr found \<Longrightarrow> list_all (\<lambda>x. P (snd x)) found"
    and "visit_cells M ds name trail ancestors cs = Inr found \<Longrightarrow> list_all (\<lambda>x. P (snd x)) found"
  using assms
proof (induction M ds name trail ancestors and M ds name trail ancestors cs arbitrary: found and found rule: visit_visit_cells.induct)
  case (1 M ds name trail ancestors)
  from 1(2) show ?case by (subst (asm) visit.simps) (auto split: if_splits option.splits intro: 1(1) 1(3))
next
  case (3 M ds name trail ancestors cname c cs)
  define child where "child = trail @ CHR ''/'' # cname"
  obtain here rest where f: "found = here @ rest" "visit_cells M ds name trail ancestors cs = Inr rest"
      "(case map_of ds (name, cname) of Some d \<Rightarrow> Inr [(child, d)] | None \<Rightarrow>
          if ce_type c \<in> fst ` set M then visit M ds (ce_type c) child ancestors
          else if \<not> startswith ''$'' (ce_type c) then Inl ValueError else Inr []) = Inr here"
    using 3(3) by (auto simp: Let_def rbind_Inr_iff simp flip: child_def)
  have "list_all (\<lambda>x. P (snd x)) here"
  proof (cases "map_of ds (name, cname)")
    case None
    then show ?thesis using f(3) 3(1) [OF _ None, of child] 3(4) by (auto simp: child_def split: if_splits)
  qed (use f(3) 3(4) in auto)
  moreover have "list_all (\<lambda>x. P (snd x)) rest" using 3(2) f(2) 3(4) by simp
  ultimately show ?case by (simp add: f(1))
qed simp

lemma decided_from:
  assumes "decide M = Inr ds" "map_of ds k = Some d"
  shows "\<exists>c. memory_spec c = Inr d"
proof -
  have "\<exists>c. memory_spec c = Inr d"
    if "rmap module_decisions L = Inr es" "(k, d) \<in> set (concat es)" for L es
    using that
  proof (induction L arbitrary: es)
    case (Cons x L)
    obtain e es' where es: "module_decisions x = Inr e" "rmap module_decisions L = Inr es'" "es = e # es'"
      using Cons.prems(1) by (auto simp: rbind_Inr_iff)
    have "\<exists>c. memory_spec c = Inr d" if "(k, d) \<in> set e"
    proof -
      from es(1) have "rmap (\<lambda>(cname, c). rbind (unsupported (memory_spec c)) (\<lambda>d. Inr ((fst x, cname), d)))
        (filter (\<lambda>(cname, c). ce_type c = ''$mem_v2'') (mo_cells (snd x))) = Inr e" by (simp add: module_decisions_def case_prod_beta)
      then show ?thesis using that
        by (auto simp: rbind_Inr_iff case_prod_beta dest!: rmap_source)
    qed
    then show ?case using Cons.IH [OF es(2)] Cons.prems(2) es(3) by auto
  qed simp
  with assms show ?thesis by (auto simp: decide_def rbind_Inr_iff dest: map_of_SomeD)
qed

lemma logical_bits_measured:
  "list_all (\<lambda>(p, d). case d of Mapped s \<Rightarrow> ms_logical_bits s = ms_width s * ms_depth s | Retained _ _ _ \<Rightarrow> True) found \<Longrightarrow>
    sum_list (map (ms_logical_bits \<circ> snd) (instances_of found)) + (\<Sum>(p, r, w, n)\<leftarrow>exceptions_of found. w * n)
      = (\<Sum>(p, w, n)\<leftarrow>measured found. w * n)"
  by (induction found) (auto simp: instances_of_def exceptions_of_def measured_def split: decision.splits)

lemma visit_top:
  assumes "transform M = Inr mp"
  shows "\<exists>ds found. decide M = Inr ds \<and> visit M ds TOP TOP [] = Inr found \<and> mp_instances mp = instances_of found
    \<and> mp_exceptions mp = exceptions_of found"
  using assms by (auto simp: transform_def rbind_Inr_iff Let_def)

lemma inventory_bits:
  "inventory_visit M name trail ancestors = Inr es \<Longrightarrow> list_all (\<lambda>e. me_bits e = me_width e * me_depth e) es"
  "inventory_cells M trail ancestors cs = Inr es \<Longrightarrow> list_all (\<lambda>e. me_bits e = me_width e * me_depth e) es"
proof (induction M name trail ancestors and M trail ancestors cs arbitrary: es and es rule: inventory_visit_inventory_cells.induct)
  case (1 M name trail ancestors)
  from 1(2) show ?case by (subst (asm) inventory_visit.simps) (auto simp: rbind_Inr_iff split: if_splits option.splits intro: 1(1))
next
  case (3 M trail ancestors cname c cs)
  have "me_bits e = me_width e * me_depth e" if "memory_entry child c = Inr e" for child e
    using that by (auto simp: memory_entry_def rbind_Inr_iff)
  then show ?case using 3 by (auto simp: Let_def rbind_Inr_iff split: if_splits)
qed simp

text \<open>C23: A mapping that succeeds accounts for every memory instance that the inventory of the same netlist
  lists: each is either an instance of a bank or an explicit exception, once, with its dimensions, and the
  mapped logical bits and the exceptions add up to the bits of the inventory.\<close>

theorem mapping_covers_inventory:
  assumes "transform M = Inr mp" "inventory M TOP = Inr es" "proper M"
  shows "mset (map (\<lambda>(p, s). (p, ms_width s, ms_depth s)) (mp_instances mp))
      + mset (map (\<lambda>(p, r, w, n). (p, w, n)) (mp_exceptions mp)) = mset (map (\<lambda>e. (me_instance e, me_width e, me_depth e)) es)
    \<and> logical_mapped_bits mp + (\<Sum>(p, r, w, n)\<leftarrow>mp_exceptions mp. w * n) = sum_list (map me_bits es)"
proof -
  obtain ds found where d: "decide M = Inr ds" "visit M ds TOP TOP [] = Inr found"
      and mp: "mp_instances mp = instances_of found" "mp_exceptions mp = exceptions_of found"
    using visit_top [OF assms(1)] by blast
  have inv: "inventory_visit M TOP TOP [] = Inr es" using assms(2) by (simp add: inventory_def)
  have m: "measured found = listed es" by (rule visit_is_inventory(1) [OF d(1) assms(3) d(2) inv])
  have "list_all (\<lambda>x. case snd x of Mapped s \<Rightarrow> ms_logical_bits s = ms_width s * ms_depth s | Retained _ _ _ \<Rightarrow> True) found"
    by (rule visit_decided(1) [OF _ d(2), of "\<lambda>d. case d of Mapped s \<Rightarrow> ms_logical_bits s = ms_width s * ms_depth s | Retained _ _ _ \<Rightarrow> True"]) (auto split: decision.splits dest!: decided_from [OF d(1)] memory_spec_bits)
  then have b: "logical_mapped_bits mp + (\<Sum>(p, r, w, n)\<leftarrow>mp_exceptions mp. w * n) = (\<Sum>(p, w, n)\<leftarrow>listed es. w * n)"
    using logical_bits_measured [of found] by (simp add: logical_mapped_bits_def mp m comp_def case_prod_beta list_all_iff)
  have "(\<Sum>(p, w, n)\<leftarrow>listed es. w * n) = sum_list (map me_bits es)"
    using inventory_bits(1) [OF inv] by (induction es) (auto simp: listed_def)
  then show ?thesis using b instances_split [of found] by (simp add: mp m) (simp add: listed_def)
qed

text \<open>A board around a cluster with one bank and one read-only memory.\<close>

definition example_rom :: cell where
  "example_rom = \<lparr>ce_type = ''$mem_v2'', ce_parameters = [(''WIDTH'', Num 8), (''SIZE'', Num 4), (''RD_PORTS'', Num 1),
     (''WR_PORTS'', Num 0), (''RD_CLK_ENABLE'', Num 0), (''INIT'', Digits ''01010101'')], ce_directions = [], ce_connections = []\<rparr>"

definition example_net :: netlist where
  "example_net =
     [(TOP, \<lparr>mo_attributes = [], mo_ports = [(''s_axi_aclk'', \<lparr>po_direction = ''input'', po_bits = [Net 2]\<rparr>)],
        mo_cells = [(''impl'', \<lparr>ce_type = ''pa_m5_cluster_top'', ce_parameters = [], ce_directions = [(''clk'', ''input'')],
          ce_connections = [(''clk'', [Net 2])]\<rparr>)], mo_netnames = []\<rparr>),
      (''pa_m5_cluster_top'', \<lparr>mo_attributes = [], mo_ports = [(''clk'', \<lparr>po_direction = ''input'', po_bits = [Net 2]\<rparr>)],
        mo_cells = [(''mem'', example_ram), (''rom'', example_rom)], mo_netnames = []\<rparr>)]"

lemma example_maps: "case transform example_net of Inr mp \<Rightarrow> map fst (mp_instances mp) = [''pa_cluster_m5_board/impl/mem'']
    \<and> map fst (mp_exceptions mp) = [''pa_cluster_m5_board/impl/rom''] | Inl _ \<Rightarrow> False"
  by code_simp

lemma example_inventory: "case inventory example_net TOP of Inr es \<Rightarrow> length es = 2 | Inl _ \<Rightarrow> False"
  by code_simp

lemma example_proper: "proper example_net" by code_simp

theorem mapping_covers_inventory_witness:
  "\<exists>mp es. transform example_net = Inr mp \<and> inventory example_net TOP = Inr es \<and> length es = 2 \<and> length (mp_instances mp) = 1
    \<and> logical_mapped_bits mp + (\<Sum>(p, r, w, n)\<leftarrow>mp_exceptions mp. w * n) = sum_list (map me_bits es)"
proof -
  obtain mp where mp: "transform example_net = Inr mp" "map fst (mp_instances mp) = [''pa_cluster_m5_board/impl/mem'']"
    using example_maps by (auto split: sum.splits)
  obtain es where es: "inventory example_net TOP = Inr es" "length es = 2" using example_inventory by (auto split: sum.splits)
  have "length (mp_instances mp) = 1" using arg_cong [OF mp(2), of length] by simp
  with mapping_covers_inventory [OF mp(1) es(1) example_proper] mp(1) es show ?thesis by blast
qed

section \<open>Rewritten modules\<close>

text \<open>The nets that the ports and the cells of a module carry; the rest are names only.\<close>

definition wired :: "net_module \<Rightarrow> int set" where
  "wired m = (\<Union>x \<in> set (mo_ports m). set (net_numbers (po_bits (snd x))))
     \<union> (\<Union>x \<in> set (mo_cells m). \<Union>y \<in> set (ce_connections (snd x)). set (net_numbers (snd y)))"

lemma wired_used: "wired m \<subseteq> set (used_nets m)"
  by (force simp: wired_def used_nets_def)

lemma fresh_net_new: "fresh_net m \<notin> set (used_nets m)"
proof
  assume a: "fresh_net m \<in> set (used_nets m)"
  then have "fresh_net m \<le> Max (set (used_nets m))" "used_nets m \<noteq> []" by auto
  then show False by (simp add: fresh_net_def)
qed

lemma update_new: "k \<notin> fst ` set d \<Longrightarrow> AList.update k v d = d @ [(k, v)]"
  by (induction d) auto

lemma add_port_ok:
  assumes "add_port m k = Inr (m', bits)"
  shows "bits = [Net (fresh_net m)]" "mo_ports m' = mo_ports m @ [(k, \<lparr>po_direction = ''input'', po_bits = bits\<rparr>)]"
    "mo_cells m' = mo_cells m" "wired m' = insert (fresh_net m) (wired m)" "k \<notin> fst ` set (mo_ports m)"
proof -
  have m': "k \<notin> fst ` set (mo_ports m)" "bits = [Net (fresh_net m)]"
    "m' = m\<lparr>mo_ports := mo_ports m @ [(k, \<lparr>po_direction = ''input'', po_bits = bits\<rparr>)],
            mo_netnames := AList.update k bits (mo_netnames m)\<rparr>"
    using assms by (auto simp: add_port_def rbind_Inr_iff Let_def update_new)
  then show "bits = [Net (fresh_net m)]" "mo_ports m' = mo_ports m @ [(k, \<lparr>po_direction = ''input'', po_bits = bits\<rparr>)]"
    "mo_cells m' = mo_cells m" "k \<notin> fst ` set (mo_ports m)" by simp_all
  have "set (net_numbers bits) = {fresh_net m}" by (simp add: m'(2) net_numbers_def)
  then show "wired m' = insert (fresh_net m) (wired m)" by (simp add: m'(3) wired_def)
qed

lemma clock_module_ok:
  assumes "clock_module needs (name, m) = Inr (name', m', clocks)"
  shows "name' = name" "mo_cells m' = mo_cells m"
    and "case clocks of None \<Rightarrow> name \<notin> set needs \<and> m' = m
      | Some (clk, rst) \<Rightarrow> \<exists>a b. clk = [Net a] \<and> rst = [Net b] \<and> a \<noteq> b \<and> a \<notin> wired m \<and> b \<notin> wired m
          \<and> mo_ports m' = mo_ports m @ [(CLK_PORT, \<lparr>po_direction = ''input'', po_bits = clk\<rparr>), (RST_PORT, \<lparr>po_direction = ''input'', po_bits = rst\<rparr>)]"
proof -
  have "name' = name \<and> mo_cells m' = mo_cells m \<and> (case clocks of None \<Rightarrow> name \<notin> set needs \<and> m' = m
      | Some (clk, rst) \<Rightarrow> \<exists>a b. clk = [Net a] \<and> rst = [Net b] \<and> a \<noteq> b \<and> a \<notin> wired m \<and> b \<notin> wired m
          \<and> mo_ports m' = mo_ports m @ [(CLK_PORT, \<lparr>po_direction = ''input'', po_bits = clk\<rparr>), (RST_PORT, \<lparr>po_direction = ''input'', po_bits = rst\<rparr>)])"
  proof (cases "name \<in> set needs")
    case True
    then obtain m1 clk rst where 1: "add_port m CLK_PORT = Inr (m1, clk)" and 2: "add_port m1 RST_PORT = Inr (m', rst)"
        and c: "name' = name" "clocks = Some (clk, rst)" using assms by (auto simp: clock_module_def rbind_Inr_iff)
    note a = add_port_ok [OF 1] and b = add_port_ok [OF 2]
    have "fresh_net m \<notin> wired m" "fresh_net m1 \<notin> wired m1" using fresh_net_new wired_used by blast+
    with a b c show ?thesis by auto
  qed (use assms in \<open>auto simp: clock_module_def\<close>)
  then show "name' = name" "mo_cells m' = mo_cells m"
    and "case clocks of None \<Rightarrow> name \<notin> set needs \<and> m' = m
      | Some (clk, rst) \<Rightarrow> \<exists>a b. clk = [Net a] \<and> rst = [Net b] \<and> a \<noteq> b \<and> a \<notin> wired m \<and> b \<notin> wired m
          \<and> mo_ports m' = mo_ports m @ [(CLK_PORT, \<lparr>po_direction = ''input'', po_bits = clk\<rparr>), (RST_PORT, \<lparr>po_direction = ''input'', po_bits = rst\<rparr>)]"
    by blast+
qed

text \<open>What a bank takes over from its memory, and where its clock comes from.\<close>

definition bank_for :: "mem_spec \<Rightarrow> (net_bit list \<times> net_bit list) \<Rightarrow> cell \<Rightarrow> cell \<Rightarrow> bool" where
  "bank_for s clocks c b \<longleftrightarrow> ce_type b = ms_wrapper s \<and> ce_parameters b = []
     \<and> list_all (\<lambda>(new, old). conn b new = conn c old \<and> conn c old \<noteq> Inl KeyError)
         [(''clk_sys_i'', ''WR_CLK''), (''rd_en_i'', ''RD_EN''), (''rd_addr_i'', ''RD_ADDR''), (''rd_data_o'', ''RD_DATA''),
          (''wr_addr_i'', ''WR_ADDR''), (''wr_data_i'', ''WR_DATA'')]
     \<and> conn b ''wr_mask_i'' = Inr (ms_mask_bits s) \<and> conn b ''clk_mem_i'' = Inr (fst clocks) \<and> conn b ''rst_ni'' = Inr (snd clocks)"

definition same_logic :: "cell \<Rightarrow> cell \<Rightarrow> bool" where
  "same_logic c c' \<longleftrightarrow> ce_type c' = ce_type c \<and> ce_parameters c' = ce_parameters c
     \<and> (\<forall>k. k \<noteq> CLK_PORT \<longrightarrow> k \<noteq> RST_PORT \<longrightarrow> conn c' k = conn c k)"

lemma wire_cell_ok: "wire_cell needs clocks c = Inr c' \<Longrightarrow> same_logic c c'"
  by (auto simp: wire_cell_def same_logic_def conn_def key_of_def update_conv' split: if_splits option.splits)

lemma conn_make [simp]:
  "conn \<lparr>ce_type = t, ce_parameters = ps, ce_directions = ds, ce_connections = d\<rparr> k = key_of d k"
  "key_of ((j, v) # d) k = (if j = k then Inr v else key_of d k)"
  by (simp_all add: conn_def key_of_def)

lemma bank_cell_ok:
  assumes "bank_cell s clocks c' = Inr b" "same_logic c c'"
  shows "\<exists>ck. clocks = Some ck \<and> bank_for s ck c b"
proof -
  obtain clk rst old where o: "clocks = Some (clk, rst)"
      "rmap (conn c') [''WR_CLK'', ''RD_EN'', ''RD_ADDR'', ''RD_DATA'', ''WR_ADDR'', ''WR_DATA''] = Inr old"
      and b: "b = \<lparr>ce_type = ms_wrapper s, ce_parameters = [], ce_directions = BANK_PORTS,
           ce_connections = [(''clk_sys_i'', old ! 0), (''clk_mem_i'', clk), (''rst_ni'', rst),
             (''rd_en_i'', old ! 1), (''rd_addr_i'', old ! 2), (''rd_data_o'', old ! 3),
             (''wr_mask_i'', ms_mask_bits s), (''wr_addr_i'', old ! 4), (''wr_data_i'', old ! 5)]\<rparr>"
    using assms(1) by (auto simp: bank_cell_def rbind_Inr_iff split: option.splits)
  have k: "conn c' ''WR_CLK'' = conn c ''WR_CLK''" "conn c' ''RD_EN'' = conn c ''RD_EN''" "conn c' ''RD_ADDR'' = conn c ''RD_ADDR''"
    "conn c' ''RD_DATA'' = conn c ''RD_DATA''" "conn c' ''WR_ADDR'' = conn c ''WR_ADDR''" "conn c' ''WR_DATA'' = conn c ''WR_DATA''"
    using assms(2) by (simp_all add: same_logic_def CLK_PORT_def RST_PORT_def)
  show ?thesis using o(2) by (auto simp: bank_for_def o(1) b k rbind_Inr_iff)
qed

text \<open>C24: A rewritten module keeps its cells in place: every cell that is not a mapped memory keeps its type,
  its parameters and all its connections but the two clock ports; every mapped memory becomes its bank on the
  same data, address, enable and clock nets, with the memory clock of the module, which comes in on two new
  input ports whose nets no port and no cell of the module carried before.\<close>

theorem rewritten_module_keeps_logic:
  assumes "clock_module needs (name, m) = Inr x" "rewrite_module ds needs x = Inr (name', m')"
  shows "name' = name \<and> map fst (mo_cells m') = map fst (mo_cells m) \<and> (\<exists>clocks.
      (case clocks of None \<Rightarrow> name \<notin> set needs \<and> mo_ports m' = mo_ports m
       | Some (clk, rst) \<Rightarrow> \<exists>a b. clk = [Net a] \<and> rst = [Net b] \<and> a \<noteq> b \<and> a \<notin> wired m \<and> b \<notin> wired m
          \<and> mo_ports m' = mo_ports m @ [(CLK_PORT, \<lparr>po_direction = ''input'', po_bits = clk\<rparr>), (RST_PORT, \<lparr>po_direction = ''input'', po_bits = rst\<rparr>)])
      \<and> list_all2 (\<lambda>(cname, c) (cname', c'). case map_of ds (name, cname) of
          Some (Mapped s) \<Rightarrow> \<exists>ck. clocks = Some ck \<and> bank_for s ck c c' | _ \<Rightarrow> same_logic c c') (mo_cells m) (mo_cells m'))"
proof -
  obtain n m1 clocks where x: "x = (n, m1, clocks)" by (cases x)
  note ck = clock_module_ok [OF assms(1) [unfolded x]]
  obtain cs where cs: "rmap (rewrite_cell ds needs name clocks) (mo_cells m) = Inr cs" and r: "name' = name" "m' = m1\<lparr>mo_cells := cs\<rparr>"
    using assms(2) ck(1,2) by (auto simp: x rewrite_module_def rbind_Inr_iff)
  have cell: "fst d = fst c \<and> (case map_of ds (name, fst c) of Some (Mapped s) \<Rightarrow> \<exists>ck. clocks = Some ck \<and> bank_for s ck (snd c) (snd d)
      | _ \<Rightarrow> same_logic (snd c) (snd d))" if "rewrite_cell ds needs name clocks c = Inr d" for c d
  proof -
    from that obtain e where e: "wire_cell needs clocks (snd c) = Inr e"
        "(case map_of ds (name, fst c) of Some (Mapped s) \<Rightarrow> rbind (bank_cell s clocks e) (\<lambda>b. Inr (fst c, b)) | _ \<Rightarrow> Inr (fst c, e)) = Inr d"
      by (auto simp: rewrite_cell_def rbind_Inr_iff case_prod_beta)
    note w = wire_cell_ok [OF e(1)]
    show ?thesis
    proof (cases "map_of ds (name, fst c)")
      case (Some v)
      then show ?thesis using e(2) w by (cases v) (auto simp: rbind_Inr_iff dest: bank_cell_ok)
    qed (use e(2) w in auto)
  qed
  have all: "list_all2 (\<lambda>c d. rewrite_cell ds needs name clocks c = Inr d) (mo_cells m) cs"
    using cs by (simp add: rmap_Inr list_all2_conv_all_nth)
  have "list_all2 (\<lambda>(cname, c) (cname', c'). case map_of ds (name, cname) of
          Some (Mapped s) \<Rightarrow> \<exists>ck. clocks = Some ck \<and> bank_for s ck c c' | _ \<Rightarrow> same_logic c c') (mo_cells m) cs"
    using all by (rule list_all2_mono) (drule cell, simp add: case_prod_beta)
  moreover have "map fst cs = map fst (mo_cells m)"
    using all by (induction rule: list_all2_induct) (auto dest: cell)
  ultimately show ?thesis using ck(3) r by (intro conjI exI [of _ clocks]) (auto split: option.splits)
qed

text \<open>The cluster of the example, with the decisions on its two memories.\<close>

definition example_core :: net_module where
  "example_core = snd (example_net ! 1)"

lemma example_rewrites:
  "case decide example_net of Inl _ \<Rightarrow> False | Inr ds \<Rightarrow> map_of ds (''pa_m5_cluster_top'', ''mem'') = Some (Mapped (make_spec 32 512 2 9 0 [Net 180, Net 181, Net 182, Net 183]))
    \<and> (case clock_module [''pa_m5_cluster_top'', TOP] (''pa_m5_cluster_top'', example_core) of Inl _ \<Rightarrow> False
       | Inr x \<Rightarrow> (case rewrite_module ds [''pa_m5_cluster_top'', TOP] x of Inl _ \<Rightarrow> False | Inr _ \<Rightarrow> True))"
  by code_simp

theorem rewritten_module_keeps_logic_witness:
  "\<exists>ds x name' m'. decide example_net = Inr ds \<and> clock_module [''pa_m5_cluster_top'', TOP] (''pa_m5_cluster_top'', example_core) = Inr x
    \<and> rewrite_module ds [''pa_m5_cluster_top'', TOP] x = Inr (name', m') \<and> name' = ''pa_m5_cluster_top''
    \<and> map fst (mo_cells m') = [''mem'', ''rom'']"
proof -
  obtain ds x name' m' where w: "decide example_net = Inr ds"
      "clock_module [''pa_m5_cluster_top'', TOP] (''pa_m5_cluster_top'', example_core) = Inr x"
      "rewrite_module ds [''pa_m5_cluster_top'', TOP] x = Inr (name', m')"
    using example_rewrites by (auto split: sum.splits)
  moreover have "map fst (mo_cells example_core) = [''mem'', ''rom'']" by (simp add: example_core_def example_net_def)
  ultimately show ?thesis using rewritten_module_keeps_logic [OF w(2,3)] by auto
qed

end
