(* ===== verification/M4Run.thy ===== *)
theory M4Run
  imports Backends Driver Board
begin

text \<open>
  The runtime's correctness runner \<open>zynq/m4_run.py\<close>: the identity of a staged bundle, the digest of the
  valid KV cache, the backend that checks every packet of the hardware against the native operators, and
  the generation and full-context checks. Files and digests are the record \<open>host\<close>; the resolution of a
  path below the bundle's directory is the file system's, a parameter. The check of captured tensors is
  not modelled, the scheduler's model has no captures.
\<close>

section \<open>The bundle\<close>

definition bundle_entry :: "host \<Rightarrow> (string \<Rightarrow> bool) \<Rightarrow> string \<Rightarrow> py \<times> py \<Rightarrow> unit res" where
  "bundle_entry H inside directory = (\<lambda>(name, expected).
     let p = path [directory, py_str (ho_repr H) name] in
     if \<not> inside p then Inl ValueError
     else rbind (fl_sha (ho_files H) p) (\<lambda>actual. if py_eq (PyStr actual) expected then Inr () else Inl ValueError))"

definition verify_bundle :: "host \<Rightarrow> (string \<Rightarrow> bool) \<Rightarrow> string \<Rightarrow> py res" where
  "verify_bundle H inside directory =
     rbind (fl_json (ho_files H) (path [directory, ''manifest.json''])) (\<lambda>manifest.
     rbind (items (fld (V manifest) ''sha256'')) (\<lambda>es.
     rbind (rmap (bundle_entry H inside directory) es) (\<lambda>_. Inr manifest)))"

section \<open>The cache\<close>

text \<open>\<open>astype('<i2').tobytes()\<close> of the valid positions of a layer.\<close>

definition bytes_i2 :: "int list \<Rightarrow> int list" where
  "bytes_i2 vs = concat (map (\<lambda>v. [v mod 256, v div 256 mod 256]) vs)"

definition layer_bytes :: "int list cache \<Rightarrow> nat \<Rightarrow> nat \<Rightarrow> int list" where
  "layer_bytes c layer n = bytes_i2 (concat (map (\<lambda>head. concat (map (c layer head) [0..<n])) [0..<12]))"

definition shape_label :: "nat \<Rightarrow> nat \<Rightarrow> int list" where
  "shape_label layer n = map (\<lambda>c. int (of_char c)) (str_of_nat layer @ '':(12, '' @ str_of_nat n @ '', 64):<i2'')"

definition runtime_cache_digest :: "host \<Rightarrow> 'b runtime \<Rightarrow> string" where
  "runtime_cache_digest H s = ho_sha H (concat (map (\<lambda>layer.
     shape_label layer (rt_length s) @ layer_bytes (rt_k s) layer (rt_length s) @ layer_bytes (rt_v s) layer (rt_length s)) [0..<12]))"

section \<open>The checking backend\<close>

record ('a, 'o) checked =
  ck_actual :: 'a
  ck_oracle :: 'o
  ck_checks :: int

abbreviation on_actual :: "('a, 'r) act \<Rightarrow> (('a, 'o) checked, 'r) act" where
  "on_actual \<equiv> zoom_res ck_actual (\<lambda>a s. s\<lparr>ck_actual := a\<rparr>)"

abbreviation on_oracle :: "('o, 'r) act \<Rightarrow> (('a, 'o) checked, 'r) act" where
  "on_oracle \<equiv> zoom_res ck_oracle (\<lambda>b s. s\<lparr>ck_oracle := b\<rparr>)"

definition checked_call :: "('r \<Rightarrow> 'r \<Rightarrow> bool) \<Rightarrow> ('a, 'r) act \<Rightarrow> ('o, 'r) act \<Rightarrow> (('a, 'o) checked, 'r) act" where
  "checked_call same m n =
     bind (on_actual m) (\<lambda>result. bind (on_oracle n) (\<lambda>wanted.
     bseq (require (same result wanted) AssertionError)
    (bseq (modify (\<lambda>s. s\<lparr>ck_checks := ck_checks s + 1\<rparr>)) (ret result))))"

definition same_array :: "ndarray \<Rightarrow> ndarray \<Rightarrow> bool" where
  "same_array a b \<longleftrightarrow> nd_shape a = nd_shape b \<and> nd_elems a = nd_elems b"

definition CheckedBackend :: "'a backend \<Rightarrow> 'o backend \<Rightarrow> ('a, 'o) checked backend" where
  "CheckedBackend A O' = \<lparr>be_gemm = (\<lambda>a tiles n. checked_call same_array (be_gemm A a tiles n) (be_gemm O' a tiles n)),
     be_sfpu = (\<lambda>d ws. checked_call (=) (be_sfpu A d ws) (be_sfpu O' d ws))\<rparr>"

text \<open>The hardware driver as a backend.\<close>

definition fpga :: "nat \<Rightarrow> 'd device \<Rightarrow> 'd driver backend" where
  "fpga fuel D = \<lparr>be_gemm = gemm fuel D, be_sfpu = sfpu fuel D\<rparr>"

section \<open>Generation\<close>

definition logits_digest :: "host \<Rightarrow> f64 list list option \<Rightarrow> string" where
  "logits_digest H logits = ho_sha_f8 H (concat (case logits of None \<Rightarrow> [] | Some rows \<Rightarrow> rows))"

fun generation_steps :: "numpy \<Rightarrow> 'b backend \<Rightarrow> host \<Rightarrow> py list \<Rightarrow> f64 list list option \<Rightarrow> ('b runtime, nat list) act" where
  "generation_steps E G H [] logits = ret []"
| "generation_steps E G H (expected # rest) logits =
     bind (lift_res (next_token logits)) (\<lambda>token. bind (gets (runtime_cache_digest H)) (\<lambda>digest.
     bind (lift_res (disjs [ne (I (int token)) (fld (V expected) ''token''), ne (S (logits_digest H logits)) (fld (V expected) ''logits_sha256''),
             ne (S digest) (fld (V expected) ''cache_sha256'')])) (\<lambda>bad.
     bseq (require (\<not> bad) AssertionError)
    (bind (if rest = [] then ret logits else step E G (vec Int64 [int token]) False True) (\<lambda>logits'.
     bind (generation_steps E G H rest logits') (\<lambda>tokens. ret (token # tokens)))))))"

definition generation_case :: "numpy \<Rightarrow> 'b backend \<Rightarrow> host \<Rightarrow> py \<Rightarrow> ('b runtime, nat list) act" where
  "generation_case E G H case' =
     bseq reset
    (bind (lift_res (ints (fld (V case') ''input_tokens''))) (\<lambda>input.
     bind (prefill E G (vec Int64 input) 16) (\<lambda>logits.
     bind (lift_res (iter (fld (V case') ''steps''))) (\<lambda>steps. generation_steps E G H steps logits))))"

section \<open>The full context\<close>

definition context_steps :: "numpy \<Rightarrow> 'b backend \<Rightarrow> int list \<Rightarrow> ('b runtime, f64 list list option) act" where
  "context_steps E G tokens = foldM_act (\<lambda>_ start. step E G (vec Int64 (take 16 (drop start tokens))) False (start = 1008))
     None (starts 1024 16)"

text \<open>The request beyond the context: its \<open>ValueError\<close> is expected.\<close>

definition overflow_rejected :: "numpy \<Rightarrow> 'b backend \<Rightarrow> ('b runtime, unit) act" where
  "overflow_rejected E G s = (case step E G (vec Int64 [0]) False True s of
     (Inl e, t) \<Rightarrow> (if e = ValueError then Inr () else Inl e, t) | (Inr _, t) \<Rightarrow> (Inl AssertionError, t))"

definition boundary_check :: "numpy \<Rightarrow> 'b backend \<Rightarrow> host \<Rightarrow> py \<Rightarrow> ('b runtime, unit) act" where
  "boundary_check E G H case' =
     bseq reset
    (bind (lift_res (ints (fld (V case') ''input_tokens''))) (\<lambda>tokens.
     bind (context_steps E G tokens) (\<lambda>logits. bind (gets (runtime_cache_digest H)) (\<lambda>digest.
     bind (lift_res (if logits = None then Inl AttributeError else disjs [ne (S (logits_digest H logits)) (fld (V case') ''logits_sha256''),
             ne (S digest) (fld (V case') ''cache_sha256'')])) (\<lambda>bad.
     bseq (require (\<not> bad) AssertionError)
    (bseq (overflow_rejected E G)
    (bind (gets (\<lambda>s. runtime_cache_digest H s \<noteq> digest \<or> rt_length s \<noteq> 1024)) (\<lambda>mutated.
     require (\<not> mutated) AssertionError))))))))"

end
