(* ===== verification/M4RunProps.thy ===== *)
theory M4RunProps
  imports M4Run OffloadProps DriverProps
begin

text \<open>
  What the checks of the runtime's correctness runner guarantee. A backend that checks another one against
  an oracle is a view of both (\<open>backend_view\<close>): what a run on it returns, a run on the hardware alone and a
  run on the oracle alone return too.
\<close>

section \<open>Runs on a view\<close>

text \<open>The runtime with a part of its backend's state.\<close>

definition viewed :: "('c \<Rightarrow> 'b) \<Rightarrow> 'c runtime \<Rightarrow> 'b runtime" where
  "viewed f s = \<lparr>rt_pack = rt_pack s, rt_backend = f (rt_backend s), rt_capacity = rt_capacity s, rt_k = rt_k s, rt_v = rt_v s,
     rt_k8 = rt_k8 s, rt_kunits = rt_kunits s, rt_length = rt_length s, rt_failed = rt_failed s, rt_counts = rt_counts s\<rparr>"

lemma viewed_simps [simp]:
  "rt_pack (viewed f s) = rt_pack s" "rt_backend (viewed f s) = f (rt_backend s)" "rt_capacity (viewed f s) = rt_capacity s"
  "rt_k (viewed f s) = rt_k s" "rt_v (viewed f s) = rt_v s" "rt_k8 (viewed f s) = rt_k8 s" "rt_kunits (viewed f s) = rt_kunits s"
  "rt_length (viewed f s) = rt_length s" "rt_failed (viewed f s) = rt_failed s" "rt_counts (viewed f s) = rt_counts s"
  by (simp_all add: viewed_def)

text \<open>What the first run returns, the second returns from the viewed state.\<close>

definition mirrored :: "('c \<Rightarrow> 'b) \<Rightarrow> ('c runtime, 'a) act \<Rightarrow> ('b runtime, 'a) act \<Rightarrow> bool" where
  "mirrored f m n \<longleftrightarrow> (\<forall>s v t. m s = (Inr v, t) \<longrightarrow> n (viewed f s) = (Inr v, viewed f t))"

named_theorems mirror_intros "parts of a run that a view mirrors"

lemma mirrored_ret [mirror_intros]: "mirrored f (ret v) (ret v)"
  by (simp add: mirrored_def)

lemma mirrored_raise [mirror_intros]: "mirrored f (raise e) (raise e')"
  by (simp add: mirrored_def)

lemma mirrored_lift [mirror_intros]: "mirrored f (lift_res r) (lift_res r)"
  by (simp add: mirrored_def)

lemma mirrored_require [mirror_intros]: "mirrored f (require b e) (require b e)"
  by (simp add: mirrored_def require_def)

lemma mirrored_gets [mirror_intros]: "(\<And>s. h (viewed f s) = g s) \<Longrightarrow> mirrored f (gets g) (gets h)"
  by (simp add: mirrored_def)

lemma mirrored_modify [mirror_intros]: "(\<And>s. h (viewed f s) = viewed f (g s)) \<Longrightarrow> mirrored f (modify g) (modify h)"
  by (simp add: mirrored_def)

lemma mirrored_bind [mirror_intros]:
  "mirrored f m n \<Longrightarrow> (\<And>x. mirrored f (g x) (h x)) \<Longrightarrow> mirrored f (bind m g) (bind n h)"
  by (fastforce simp: mirrored_def bind_def split: prod.splits sum.splits)

lemma mirrored_bseq [mirror_intros]: "mirrored f m n \<Longrightarrow> mirrored f g h \<Longrightarrow> mirrored f (bseq m g) (bseq n h)"
  unfolding bseq_def by (rule mirrored_bind)

lemma mirrored_mapM [mirror_intros]: "(\<And>x. mirrored f (g x) (h x)) \<Longrightarrow> mirrored f (mapM_act g xs) (mapM_act h xs)"
  by (induction xs) (auto intro!: mirror_intros)

lemma mirrored_foldM [mirror_intros]: "(\<And>a x. mirrored f (g a x) (h a x)) \<Longrightarrow> mirrored f (foldM_act g a xs) (foldM_act h a xs)"
  by (induction xs arbitrary: a) (auto intro!: mirror_intros)

lemma mirrored_on_error [mirror_intros]: "mirrored f m n \<Longrightarrow> mirrored f (on_error m g) (on_error n h)"
  by (auto simp: mirrored_def on_error_def split: prod.splits sum.splits)

lemma mirrored_if [mirror_intros]: "mirrored f m n \<Longrightarrow> mirrored f k l \<Longrightarrow> mirrored f (if b then m else k) (if b then n else l)"
  by simp

lemma mirrored_case_prod [mirror_intros]:
  "(\<And>x y. mirrored f (g x y) (h x y)) \<Longrightarrow> mirrored f (case p of (x, y) \<Rightarrow> g x y) (case p of (x, y) \<Rightarrow> h x y)"
  by (simp split: prod.split)

lemma mirrored_case_option [mirror_intros]:
  "mirrored f m n \<Longrightarrow> (\<And>x. mirrored f (g x) (h x)) \<Longrightarrow> mirrored f (case p of None \<Rightarrow> m | Some x \<Rightarrow> g x) (case p of None \<Rightarrow> n | Some x \<Rightarrow> h x)"
  by (simp split: option.split)

lemma mirrored_Let [mirror_intros]: "(\<And>x. mirrored f (g x) (h x)) \<Longrightarrow> mirrored f (let x = v in g x) (let x = v in h x)"
  by simp

lemma mirrored_count [mirror_intros]: "mirrored f (metadata_count key n) (metadata_count key n)"
  unfolding metadata_count_def by (rule mirrored_modify) (simp add: viewed_def)

lemma mirrored_pack [mirror_intros]:
  "mirrored f (pack_norm name) (pack_norm name)" "mirrored f (pack_smoothing name) (pack_smoothing name)"
  "mirrored f (pack_linear name) (pack_linear name)" "mirrored f (pack_row name i) (pack_row name i)"
  unfolding pack_norm_def pack_smoothing_def pack_linear_def pack_row_def
  by (intro mirror_intros viewed_simps)+

lemma mirrored_reset [mirror_intros]: "mirrored f reset reset"
  unfolding reset_def by (rule mirrored_modify) (simp add: viewed_def)

locale backend_view =
  fixes C :: "'c backend" and G :: "'b backend" and f :: "'c \<Rightarrow> 'b"
  assumes view_gemm: "be_gemm C a tiles n c = (Inr r, c') \<Longrightarrow>
      \<exists>r'. be_gemm G a tiles n (f c) = (Inr r', f c') \<and> nd_shape r' = nd_shape r \<and> nd_elems r' = nd_elems r"
    and view_sfpu: "be_sfpu C d ws c = (Inr xs, c') \<Longrightarrow> be_sfpu G d ws (f c) = (Inr xs, f c')"
begin

lemma mirrored_sfpu: "mirrored f (on_backend (be_sfpu C d ws)) (on_backend (be_sfpu G d ws))"
  by (auto simp: mirrored_def zoom_res_def viewed_def split: prod.splits dest!: view_sfpu)

lemma mirrored_gemm_rows: "mirrored f (gemm_rows C k q tiles n) (gemm_rows G k q tiles n)"
  unfolding mirrored_def
proof (intro allI impI)
  fix s v t
  assume "gemm_rows C k q tiles n s = (Inr v, t)"
  then obtain a u where a: "on_backend (be_gemm C (matrix Int8 k q) tiles n) s = (Inr a, u)"
      and r: "nd_shape a = [length q, n]" "v = rows_list (length q) n a" "t = u"
    by (auto simp: gemm_rows_def bind_Inr_iff split: if_splits)
  obtain b where b: "be_gemm C (matrix Int8 k q) tiles n (rt_backend s) = (Inr a, b)" "u = s\<lparr>rt_backend := b\<rparr>"
    using a by (auto simp: zoom_res_def split: prod.splits)
  from view_gemm [OF b(1)] obtain a' where "be_gemm G (matrix Int8 k q) tiles n (f (rt_backend s)) = (Inr a', f b)"
      "nd_shape a' = nd_shape a" "nd_elems a' = nd_elems a" by blast
  with r b(2) show "gemm_rows G k q tiles n (viewed f s) = (Inr v, viewed f t)"
    by (simp add: gemm_rows_def bind_def zoom_res_def rows_list_def viewed_def)
qed

lemmas view_intros = mirrored_sfpu mirrored_gemm_rows mirror_intros

lemma mirrored_operator: "mirrored f (operator C x planes shift m) (operator G x planes shift m)"
  unfolding operator_def operator_chunk_def by (intro view_intros)

lemma mirrored_affine: "mirrored f (affine E C raw c b) (affine E G raw c b)"
  unfolding affine_def by (intro view_intros mirrored_operator)

lemma mirrored_requant: "mirrored f (requant C raw u) (requant G raw u)"
  unfolding requant_def by (intro view_intros mirrored_operator)

lemma mirrored_requant_columns: "mirrored f (requant_columns C raw u) (requant_columns G raw u)"
  unfolding requant_columns_def by (intro view_intros mirrored_operator mirrored_requant)

lemma mirrored_norm: "mirrored f (norm_rows E C rows es name) (norm_rows E G rows es name)"
  unfolding norm_rows_def norm_row_def by (intro view_intros mirrored_operator mirrored_affine)

lemma mirrored_smooth: "mirrored f (smooth E C x name) (smooth E G x name)"
  unfolding smooth_def by (intro view_intros mirrored_affine)

lemma mirrored_project: "mirrored f (project E C x bal name res) (project E G x bal name res)"
  unfolding project_def project_row_def
  by (intro view_intros mirrored_requant_columns mirrored_affine mirrored_operator)

lemma mirrored_attend: "mirrored f (attend E C layer head n sc u) (attend E G layer head n sc u)"
  unfolding attend_def
  by (intro view_intros mirrored_affine mirrored_operator mirrored_requant mirrored_requant_columns) simp_all

lemma mirrored_attention: "mirrored f (attention E C qkv layer past) (attention E G qkv layer past)"
  unfolding attention_def attention_head_def
  by (intro view_intros mirrored_requant_columns mirrored_attend) (simp_all add: viewed_def)

lemma mirrored_block: "mirrored f (block E C past xe layer) (block E G past xe layer)"
  unfolding block_def
  by (cases xe) (simp, intro view_intros mirrored_norm mirrored_project mirrored_attention mirrored_smooth mirrored_operator)

lemma mirrored_embed: "mirrored f (embed C past tokens) (embed G past tokens)"
  unfolding embed_def by (intro view_intros mirrored_operator)

lemma mirrored_logits: "mirrored f (logits_of E C all xe) (logits_of E G all xe)"
  unfolding logits_of_def by (intro view_intros mirrored_norm mirrored_project)

lemma mirrored_forward: "mirrored f (forward E C tokens all emit) (forward E G tokens all emit)"
  unfolding forward_def by (intro view_intros mirrored_embed mirrored_block mirrored_logits) (simp_all add: viewed_def)

lemma mirrored_step: "mirrored f (step E C tokens all emit) (step E G tokens all emit)"
  unfolding step_def by (intro view_intros mirrored_forward) simp_all

lemma mirrored_prefill: "mirrored f (prefill E C tokens blk) (prefill E G tokens blk)"
  unfolding prefill_def by (intro view_intros mirrored_step) simp_all

lemma mirrored_decode: "mirrored f (decode E C n logits) (decode E G n logits)"
  by (induction n arbitrary: logits) (auto intro!: view_intros mirrored_step)

lemma mirrored_generate: "mirrored f (generate E C tokens n) (generate E G tokens n)"
  unfolding generate_def by (intro view_intros mirrored_prefill mirrored_decode) simp_all

lemma mirrored_generation_steps:
  "mirrored f (generation_steps E C H steps logits) (generation_steps E G H steps logits)"
proof (induction steps arbitrary: logits)
  case (Cons expected rest)
  show ?case unfolding generation_steps.simps
    by (intro view_intros mirrored_step Cons) (simp add: runtime_cache_digest_def)
qed (simp add: mirrored_ret)

lemma mirrored_generation_case: "mirrored f (generation_case E C H case') (generation_case E G H case')"
  unfolding generation_case_def by (intro view_intros mirrored_prefill mirrored_generation_steps)

end

section \<open>The checking backend is a view of both\<close>

lemma checked_call_Inr:
  assumes "checked_call same m n c = (Inr r, c')"
  shows "m (ck_actual c) = (Inr r, ck_actual c')" "\<exists>r'. n (ck_oracle c) = (Inr r', ck_oracle c') \<and> same r r'"
  using assms by (auto simp: checked_call_def bind_Inr_iff bseq_Inr_iff zoom_res_def split: prod.splits)

interpretation hardware: backend_view "CheckedBackend A G" A ck_actual for A G
  by unfold_locales (auto simp: CheckedBackend_def dest: checked_call_Inr(1))

interpretation native: backend_view "CheckedBackend A G" G ck_oracle for A G
  by unfold_locales (auto simp: CheckedBackend_def same_array_def dest!: checked_call_Inr(2))

text \<open>What a passed generation check has compared.\<close>

lemma disjs_False [simp]: "disjs (c # cs) = Inr False \<longleftrightarrow> c = Inr False \<and> disjs cs = Inr False"
  by (cases c) auto

lemma ne_False [simp]: "ne a b = Inr False \<longleftrightarrow> eq a b = Inr True"
  by (cases a; cases b) (auto simp: ne_def eq_def)

lemma generation_steps_expected:
  "generation_steps E G H steps logits s = (Inr tokens, t) \<Longrightarrow>
     list_all2 (\<lambda>token expected. eq (I (int token)) (fld (V expected) ''token'') = Inr True) tokens steps"
proof (induction steps arbitrary: logits s tokens)
  case (Cons expected rest)
  from Cons.prems obtain token logits' u tokens' where
      "eq (I (int token)) (fld (V expected) ''token'') = Inr True" "tokens = token # tokens'"
      and rest: "generation_steps E G H rest logits' u = (Inr tokens', t)"
    unfolding generation_steps.simps bind_Inr_iff bseq_Inr_iff lift_res_apply require_Inr_iff gets_apply ret_apply prod.inject
    by (auto simp del: disjs.simps)
  with Cons.IH [OF rest] show ?case by simp
qed simp

text \<open>C9: A generation case that passes on the hardware with every packet checked: the tokens are those of the case,
  one per step, and the hardware alone and the native CPU runtime alone pass the same case with the same tokens
  and end in the same session, with the same caches, counters and packs.\<close>

theorem checked_generation_exact:
  "case generation_case E (CheckedBackend (fpga fuel D) (CpuBackend sqrtl)) H case' s of (Inl e, t) \<Rightarrow> True
   | (Inr tokens, t) \<Rightarrow>
       generation_case E (fpga fuel D) H case' (viewed ck_actual s) = (Inr tokens, viewed ck_actual t)
     \<and> generation_case E (CpuBackend sqrtl) H case' (viewed ck_oracle s) = (Inr tokens, viewed ck_oracle t)
     \<and> (\<exists>steps. iter (fld (V case') ''steps'') = Inr steps
          \<and> list_all2 (\<lambda>token expected. eq (I (int token)) (fld (V expected) ''token'') = Inr True) tokens steps)"
proof -
  have "\<exists>steps. iter (fld (V case') ''steps'') = Inr steps
      \<and> list_all2 (\<lambda>token expected. eq (I (int token)) (fld (V expected) ''token'') = Inr True) tokens steps"
    if "generation_case E (CheckedBackend (fpga fuel D) (CpuBackend sqrtl)) H case' s = (Inr tokens, t)" for tokens t
    using that by (auto simp: generation_case_def bind_Inr_iff bseq_Inr_iff dest: generation_steps_expected)
  then show ?thesis
    using hardware.mirrored_generation_case [where A = "fpga fuel D" and G = "CpuBackend sqrtl" and E = E and H = H and case' = case', unfolded mirrored_def]
      native.mirrored_generation_case [where A = "fpga fuel D" and G = "CpuBackend sqrtl" and E = E and H = H and case' = case', unfolded mirrored_def]
    by (auto split: prod.splits sum.splits)
qed

text \<open>A full-context check that passes leaves a session of 1024 positions whose cache has the digest of the
  case; the logits of the last block had the case's digest, and the request beyond the context was refused with
  the session as it was.\<close>

lemma boundary_exact:
  "case boundary_check E G H case' s of (Inl e, t) \<Rightarrow> True
   | (Inr _, t) \<Rightarrow> rt_length t = 1024 \<and> eq (S (runtime_cache_digest H t)) (fld (V case') ''cache_sha256'') = Inr True
     \<and> (\<exists>tokens rows u. ints (fld (V case') ''input_tokens'') = Inr tokens
         \<and> context_steps E G tokens (snd (reset s)) = (Inr (Some rows), u)
         \<and> eq (S (logits_digest H (Some rows))) (fld (V case') ''logits_sha256'') = Inr True
         \<and> step E G (vec Int64 [0]) False True u = (Inl ValueError, t))"
proof -
  have "rt_length t = 1024 \<and> eq (S (runtime_cache_digest H t)) (fld (V case') ''cache_sha256'') = Inr True
     \<and> (\<exists>tokens rows u. ints (fld (V case') ''input_tokens'') = Inr tokens
         \<and> context_steps E G tokens (snd (reset s)) = (Inr (Some rows), u)
         \<and> eq (S (logits_digest H (Some rows))) (fld (V case') ''logits_sha256'') = Inr True
         \<and> step E G (vec Int64 [0]) False True u = (Inl ValueError, t))"
    if "boundary_check E G H case' s = (Inr (), t)" for t
  proof -
    from that obtain s' tokens logits u where r: "reset s = (Inr (), s')" and tokens: "ints (fld (V case') ''input_tokens'') = Inr tokens"
        and c: "context_steps E G tokens s' = (Inr logits, u)"
        and d: "(if logits = None then Inl AttributeError else disjs [ne (S (logits_digest H logits)) (fld (V case') ''logits_sha256''),
             ne (S (runtime_cache_digest H u)) (fld (V case') ''cache_sha256'')]) = Inr False"
        and o: "overflow_rejected E G u = (Inr (), t)"
        and e: "runtime_cache_digest H t = runtime_cache_digest H u" "rt_length t = 1024"
      unfolding boundary_check_def bind_Inr_iff bseq_Inr_iff lift_res_apply require_Inr_iff gets_apply prod.inject
      by (auto simp del: disjs.simps disjs_False)
    from d obtain rows where "logits = Some rows" "eq (S (logits_digest H (Some rows))) (fld (V case') ''logits_sha256'') = Inr True"
        "eq (S (runtime_cache_digest H u)) (fld (V case') ''cache_sha256'') = Inr True" by (auto simp del: disjs.simps(2) split: if_splits)
    moreover have "step E G (vec Int64 [0]) False True u = (Inl ValueError, t)"
      using o by (auto simp: overflow_rejected_def split: prod.splits sum.splits if_splits)
    ultimately show ?thesis using tokens c e r by auto
  qed
  then show ?thesis by (auto split: prod.splits sum.splits)
qed

end
