(* ===== verification/ControlChecks.thy ===== *)
theory ControlChecks
  imports DriverProps Offload
begin

text \<open>
  The fault injection of \<open>zynq/m4_control_checks.py\<close> on the DMA driver: the interlock of the routes, a rejected
  descriptor, a transfer that is never submitted, and a wide product after all recoveries. The two timeouts,
  a tenth of a second and ten seconds, are arguments in the clock's units.
\<close>

section \<open>The checks\<close>

text \<open>\<open>try: m except e: k else: raise AssertionError\<close>.\<close>

definition expect :: "exn \<Rightarrow> ('s, 'a) act \<Rightarrow> ('s, unit) act \<Rightarrow> ('s, unit) act" where
  "expect e m k s = (case m s of (Inr _, t) \<Rightarrow> (Inl AssertionError, t)
     | (Inl e', t) \<Rightarrow> if e' = e then k t else (Inl e', t))"

definition poisoned :: "('d driver, unit) act" where
  "poisoned = bind (gets dr_failed) (\<lambda>b. require b AssertionError)"

definition interlock :: "nat \<Rightarrow> 'd device \<Rightarrow> nat \<Rightarrow> ('d driver, unit) act" where
  "interlock fuel D route =
     bseq (select D (int route))
    (bseq (for_each (\<lambda>(i, v). dev_do (write_reg D route (8 + 4 * int i) v)) (enumerate 0 (if route = 0 then [1, 1, 1, 0x100] else [7, 1, 0, 0])))
    (bseq (dev_do (write_reg D route 0x1c 1))
    (bseq (dev_do (write_reg D 1 0x50 (1 - int route)))
    (bind (dev (read_reg D 1 0x50)) (\<lambda>back.
     bind (if back \<noteq> int route then ret True else bind (dev (read_reg D 1 0x38)) (\<lambda>err. ret (err \<noteq> 9))) (\<lambda>failed.
     bseq (require (\<not> failed) AssertionError) (recover fuel D)))))))"

definition descriptor_rejected :: "nat \<Rightarrow> 'd device \<Rightarrow> ('d driver, unit) act" where
  "descriptor_rejected fuel D = bseq (expect RuntimeError (execute fuel D 1 [0, 1, 0, 0] 1 1) poisoned) (recover fuel D)"

definition add_descriptor :: sfpu_descriptor where
  "add_descriptor = SfpuDescriptor (op_code ADD) 3 0 0 0"

definition add_words :: "int list" where
  "add_words = packet_words ADD [[17, -32768, 32767], [25, -1, 1]]"

definition add_check :: "nat \<Rightarrow> 'd device \<Rightarrow> ('d driver, unit) act" where
  "add_check fuel D = bind (sfpu fuel D add_descriptor (vec UInt32 add_words)) (\<lambda>r. require (r = [42, -32768, 32767]) AssertionError)"

text \<open>The overlay whose input transfers are not submitted.\<close>

definition muted :: "'d device \<Rightarrow> 'd device" where
  "muted D = D\<lparr>send_transfer := (\<lambda>ws. ret ())\<rparr>"

definition missing_producer :: "nat \<Rightarrow> 'd device \<Rightarrow> ('d driver, unit) act" where
  "missing_producer fuel D =
     bseq (expect TimeoutError (sfpu fuel (muted D) add_descriptor (vec UInt32 add_words)) poisoned)
    (bind (gets dr_tx) (\<lambda>saved.
     bseq (expect RuntimeError (sfpu fuel (muted D) add_descriptor (vec UInt32 (map (\<lambda>w. np_cast UInt32 (w + 1)) add_words))) (ret ()))
    (bind (gets dr_tx) (\<lambda>now. require (now = saved) AssertionError))))"

definition constant_matrix :: "nat \<Rightarrow> nat \<Rightarrow> ndarray" where
  "constant_matrix m n = \<lparr>nd_dtype = Int8, nd_shape = [m, n], nd_elems = replicate (m * n) (-128)\<rparr>"

definition wide_check :: "nat \<Rightarrow> 'd device \<Rightarrow> ('d driver, unit) act" where
  "wide_check fuel D = (let a = constant_matrix 16 3072; b = constant_matrix 3072 13 in
     bind (lift_res (tile_weights b)) (\<lambda>tiles. bind (gemm fuel D a tiles 13) (\<lambda>r.
       require (nd_shape r = [16, 13] \<and> nd_elems r = rows_of 16 13 (\<lambda>i j. \<Sum>t\<leftarrow>[0..<3072]. at2 a i t * at2 b t j)) AssertionError)))"

definition CHECKS :: "string list" where
  "CHECKS = [''busy_route_0'', ''busy_route_1'', ''descriptor_rejection_and_recovery'',
     ''actual_dma_timeout_buffer_retention_restart'', ''wide_3072_tail_after_recovery'']"

definition control_body :: "nat \<Rightarrow> 'd device \<Rightarrow> int \<Rightarrow> int \<Rightarrow> ('d driver, string list) act" where
  "control_body fuel D tenth ten =
     bseq (for_each (interlock fuel D) [0, 1])
    (bseq (descriptor_rejected fuel D)
    (bseq (add_check fuel D)
    (bseq (modify (\<lambda>s. s\<lparr>dr_timeout := tenth\<rparr>))
    (bseq (finally' (missing_producer fuel D) (modify (\<lambda>s. s\<lparr>dr_timeout := ten\<rparr>)))
    (bseq (recover fuel D)
    (bseq (add_check fuel D)
    (bseq (wide_check fuel D)
    (bseq (close fuel D)
    (bind (gets dr_closed) (\<lambda>closed. bseq (require closed AssertionError) (ret CHECKS)))))))))))"

definition control_checks :: "nat \<Rightarrow> 'd device \<Rightarrow> int \<Rightarrow> int \<Rightarrow> ('d driver, string list) act" where
  "control_checks fuel D tenth ten = finally' (control_body fuel D tenth ten) (close fuel D)"

section \<open>What they leave\<close>

text \<open>However the checks end, the driver is closed, or its reset has failed and the buffers are retained.\<close>

lemma control_checks_close:
  "outcome (control_checks fuel D tenth ten) s (\<lambda>r t. r = CHECKS \<and> dr_closed t)
     (\<lambda>e t. dr_closed t \<or> (dr_failed t \<and> dr_retained t))"
proof -
  have c: "outcome (close fuel D) u (\<lambda>_. dr_closed) (\<lambda>_ t. dr_failed t \<and> dr_retained t)" for u :: "'a driver"
    by (rule outcome_mono [OF close_sees_reset]) (auto split: if_splits)
  have b: "outcome (control_body fuel D tenth ten) s (\<lambda>r _. r = CHECKS) (\<lambda>_ _. True)"
    unfolding control_body_def outcome_bseq outcome_bind
    by (auto simp: outcome_def bind_Inr_iff bseq_Inr_iff split: prod.splits sum.splits)
  show ?thesis
    unfolding control_checks_def outcome_finally
    by (rule outcome_mono [OF b]) (auto intro: outcome_mono [OF c])
qed

text \<open>A request after the missing producer is refused before the buffer is touched: the check of the saved
  buffer never fails.\<close>

lemma retry_leaves_buffer:
  "dr_failed s \<Longrightarrow> expect RuntimeError (sfpu fuel D d ws) (ret ()) s = (Inr (), s)"
  by (simp add: expect_def sfpu_def require_ready_def bseq_def bind_def require_def)

lemma missing_producer_outcome:
  "outcome (missing_producer fuel D) s (\<lambda>_. dr_failed) (\<lambda>_ _. True)"
proof -
  have "dr_failed t" if m: "missing_producer fuel D s = (Inr (), t)" for t
  proof -
    from m obtain u where u: "expect TimeoutError (sfpu fuel (muted D) add_descriptor (vec UInt32 add_words)) poisoned s = (Inr (), u)"
        and r: "\<exists>saved. (expect RuntimeError (sfpu fuel (muted D) add_descriptor (vec UInt32 (map (\<lambda>w. np_cast UInt32 (w + 1)) add_words))) (ret ()) u) = (Inr (), t)"
      unfolding missing_producer_def bseq_Inr_iff bind_Inr_iff gets_apply require_Inr_iff prod.inject by blast
    from u have "dr_failed u"
      by (auto simp: expect_def poisoned_def bind_Inr_iff split: prod.splits sum.splits if_splits)
    with r retry_leaves_buffer [OF this] show ?thesis by simp
  qed
  then show ?thesis by (auto simp: outcome_def split: prod.splits sum.splits)
qed

end
