(* ===== verification/M3Driver.thy ===== *)
theory M3Driver
  imports M3Packets DriverProps
begin

text \<open>
  The operator driver of \<open>zynq/m3_run.py\<close> and the chains it runs: packets read from files, submitted as they
  are or patched with the results of their predecessors, and compared with their expected words and registers.
  The overlay is the same record of device operations as for the later driver; the reset of the DMA channels
  is that of \<open>zynq/m2_run.py\<close>. The polling loops carry fuel.
\<close>

section \<open>The state\<close>

record 'd m3_driver =
  m3_dev :: 'd
  m3_timeout :: int
  m3_route :: int
  m3_tx :: "int list"
  m3_tx_views :: "nat list"
  m3_rx_views :: "nat list"

abbreviation m3 :: "('d \<Rightarrow> 'a \<times> 'd) \<Rightarrow> ('d m3_driver, 'a) act" where
  "m3 \<equiv> zoom m3_dev (\<lambda>d s. s\<lparr>m3_dev := d\<rparr>)"

abbreviation m3_res :: "('d, 'a) act \<Rightarrow> ('d m3_driver, 'a) act" where
  "m3_res \<equiv> zoom_res m3_dev (\<lambda>d s. s\<lparr>m3_dev := d\<rparr>)"

abbreviation m3_do :: "('d \<Rightarrow> 'd) \<Rightarrow> ('d m3_driver, unit) act" where
  "m3_do f \<equiv> modify (\<lambda>s. s\<lparr>m3_dev := f (m3_dev s)\<rparr>)"

abbreviation m3_read :: "'d device \<Rightarrow> nat \<Rightarrow> int \<Rightarrow> ('d m3_driver, int) act" where
  "m3_read D e off \<equiv> m3 (read_reg D e off)"

abbreviation m3_write :: "'d device \<Rightarrow> nat \<Rightarrow> int \<Rightarrow> int \<Rightarrow> ('d m3_driver, unit) act" where
  "m3_write D e off v \<equiv> m3_do (write_reg D e off v)"

text \<open>Sizes of the packets; the buffers are as large as the largest.\<close>

definition m3_sizes :: "(packet \<Rightarrow> int list) \<Rightarrow> packet list \<Rightarrow> nat list" where
  "m3_sizes f packets = remdups (map (length \<circ> f) packets)"

definition m3_open :: "'d device \<Rightarrow> packet list \<Rightarrow> int \<Rightarrow> ('d m3_driver, unit) act" where
  "m3_open D packets timeout =
     bseq (modify (\<lambda>s. s\<lparr>m3_timeout := timeout\<rparr>))
    (bind (m3_read D 1 0x50) (\<lambda>route.
     bseq (modify (\<lambda>s. s\<lparr>m3_route := route\<rparr>))
    (bseq (require (packets \<noteq> []) ValueError)
    (bseq (m3_res (alloc D (Max (set (m3_sizes pk_inputs packets)))))
    (bseq (m3_res (alloc D (Max (set (m3_sizes pk_expected packets)))))
      (modify (\<lambda>s. s\<lparr>m3_tx := replicate (Max (set (m3_sizes pk_inputs packets))) 0,
         m3_tx_views := m3_sizes pk_inputs packets, m3_rx_views := m3_sizes pk_expected packets\<rparr>)))))))"

section \<open>Waiting, closing\<close>

fun m3_poll :: "nat \<Rightarrow> 'd device \<Rightarrow> channel \<Rightarrow> int \<Rightarrow> ('d m3_driver, unit) act" where
  "m3_poll 0 D ch deadline = raise Diverges"
| "m3_poll (Suc fuel) D ch deadline =
     bind (m3 (chan_idle D ch)) (\<lambda>idle. if idle then ret ()
       else bind (m3 (chan_error D ch)) (\<lambda>err. if err then raise RuntimeError
       else bind (m3 (monotonic D)) (\<lambda>now. if now > deadline then raise TimeoutError else m3_poll fuel D ch deadline)))"

definition m3_wait :: "nat \<Rightarrow> 'd device \<Rightarrow> channel \<Rightarrow> ('d m3_driver, unit) act" where
  "m3_wait fuel D ch =
     bind (m3 (monotonic D)) (\<lambda>now. bind (gets m3_timeout) (\<lambda>timeout.
     bseq (m3_poll fuel D ch (now + timeout)) (m3_res (chan_wait D ch))))"

fun m2_reset_poll :: "nat \<Rightarrow> 'd device \<Rightarrow> int \<Rightarrow> ('d m3_driver, unit) act" where
  "m2_reset_poll 0 D deadline = raise Diverges"
| "m2_reset_poll (Suc fuel) D deadline =
     bind (m3 (dma_read D 0)) (\<lambda>v. if v AND 4 = 0 then ret ()
       else bind (m3 (monotonic D)) (\<lambda>now. if now \<ge> deadline then raise TimeoutError else m2_reset_poll fuel D deadline))"

definition m2_reset_dma :: "nat \<Rightarrow> 'd device \<Rightarrow> ('d m3_driver, unit) act" where
  "m2_reset_dma fuel D =
     bseq (m3_do (dma_write D 0 4))
    (bind (m3 (monotonic D)) (\<lambda>now. bind (gets m3_timeout) (\<lambda>timeout. m2_reset_poll fuel D (now + timeout))))"

text \<open>When the reset raises, the buffers stay allocated.\<close>

definition m3_close :: "nat \<Rightarrow> 'd device \<Rightarrow> ('d m3_driver, unit) act" where
  "m3_close fuel D =
     bseq (m2_reset_dma fuel D)
    (bind (gets m3_rx_views) (\<lambda>rx. bseq (m3_do (freebuffer D (Max (set rx))))
    (bind (gets m3_tx_views) (\<lambda>tx. m3_do (freebuffer D (Max (set tx)))))))"

section \<open>One packet\<close>

definition m3_select :: "'d device \<Rightarrow> int \<Rightarrow> ('d m3_driver, unit) act" where
  "m3_select D route = bind (gets m3_route) (\<lambda>current. if route = current then ret ()
     else bseq (m3_write D 1 0x50 route) (modify (\<lambda>s. s\<lparr>m3_route := route\<rparr>)))"

definition m3_engine :: "packet \<Rightarrow> ('d m3_driver, nat) act" where
  "m3_engine p = (if pk_kind p \<in> {0, 1} then ret (nat (pk_kind p)) else raise IndexError)"

text \<open>\<open>tx[:n] = words\<close>.\<close>

definition m3_fill :: "int list \<Rightarrow> ('d m3_driver, unit) act" where
  "m3_fill ws = bind (gets (\<lambda>s. length ws \<le> length (m3_tx s))) (\<lambda>fits.
     bseq (require fits ValueError) (modify (\<lambda>s. s\<lparr>m3_tx := ws @ drop (length ws) (m3_tx s)\<rparr>)))"

text \<open>The two transfers; a size that no packet has has no view.\<close>

definition m3_transfer :: "nat \<Rightarrow> 'd device \<Rightarrow> nat \<Rightarrow> nat \<Rightarrow> ('d m3_driver, int list) act" where
  "m3_transfer fuel D ni no =
     bind (gets (\<lambda>s. no \<in> set (m3_rx_views s))) (\<lambda>known.
     bseq (require known KeyError)
    (bseq (m3_res (recv_transfer D no))
    (bind (gets (\<lambda>s. ni \<in> set (m3_tx_views s))) (\<lambda>known.
     bseq (require known KeyError)
    (bind (gets (\<lambda>s. take ni (m3_tx s))) (\<lambda>view.
     bseq (m3_res (send_transfer D view))
    (bseq (m3_wait fuel D Send)
    (bseq (m3_wait fuel D Recv)
      (gets (\<lambda>s. take no (rx_memory D (m3_dev s))))))))))))"

definition m3_execute :: "nat \<Rightarrow> 'd device \<Rightarrow> packet \<Rightarrow> bool \<Rightarrow> int list \<Rightarrow> ('d m3_driver, int list) act" where
  "m3_execute fuel D p prepared parameters =
     bseq (m3_select D (pk_kind p))
    (bind (m3_engine p) (\<lambda>e.
     bseq (for_each (\<lambda>(i, v). m3_write D e (8 + 4 * int i) v) (enumerate 0 (if parameters = [] then pk_parameters p else parameters)))
    (bseq (m3_write D e 0x18 (pk_tag p))
    (bseq (if prepared then ret () else m3_fill (pk_inputs p))
    (bseq (m3_write D e 0x1c 1)
      (m3_transfer fuel D (length (pk_inputs p)) (length (pk_expected p))))))))"

text \<open>The registers of a completed packet, in the order in which they are read.\<close>

definition m3_expected :: "packet \<Rightarrow> int option \<Rightarrow> (int \<times> int) list" where
  "m3_expected p expected_count =
     [(0x20, pk_tag p), (0x24, pk_cycles p), (0x28, if pk_kind p \<noteq> 0 then pk_parameters p ! 1 else packet_macs p),
      (0x2c, int (length (pk_inputs p))), (0x30, int (length (pk_expected p))), (0x38, 0)]
     @ (case expected_count of None \<Rightarrow> [] | Some n \<Rightarrow> [(0x34, n AND 0xffffffff)])"

definition m3_check :: "'d device \<Rightarrow> packet \<Rightarrow> int list \<Rightarrow> int option \<Rightarrow> ('d m3_driver, unit) act" where
  "m3_check D p observed expected_count =
     bseq (require (observed = pk_expected p) AssertionError)
    (bind (m3_engine p) (\<lambda>e. let expected = m3_expected p expected_count in
     bind (mapM_act (\<lambda>(off, v). m3_read D e off) expected) (\<lambda>actual.
     bind (if actual \<noteq> map snd expected then ret True else bind (m3_read D e 4) (\<lambda>status. ret (status AND 2 \<noteq> 0))) (\<lambda>bad.
       require (\<not> bad) AssertionError))))"

section \<open>Control checks\<close>

definition m3_capabilities :: "'d device \<Rightarrow> nat \<Rightarrow> int list \<Rightarrow> ('d m3_driver, unit) act" where
  "m3_capabilities D e expected = bind (mapM_act (m3_read D e) [0, 0x3c, 0x44, 0x48, 0x4c]) (\<lambda>vs. require (vs = expected) AssertionError)"

text \<open>A started engine keeps its route; the rejected write is the error 9 of the other register file.\<close>

definition m3_interlock :: "'d device \<Rightarrow> nat \<Rightarrow> int list \<Rightarrow> ('d m3_driver, unit) act" where
  "m3_interlock D route parameters =
     bseq (m3_select D (int route))
    (bseq (for_each (\<lambda>(off, v). m3_write D route off v) (zip [8, 12, 16, 20, 28] parameters))
    (bseq (m3_write D 1 0x50 (1 - int route))
    (bind (m3_read D 1 0x38) (\<lambda>err. bind (if err \<noteq> 9 then ret True else bind (m3_read D 1 0x50) (\<lambda>back. ret (back \<noteq> int route))) (\<lambda>failed.
     require (\<not> failed) AssertionError)))))"

definition m3_rejection :: "'d device \<Rightarrow> int \<times> int \<times> int \<times> int \<Rightarrow> ('d m3_driver, unit) act" where
  "m3_rejection D = (\<lambda>(operation, n, shift, error).
     bseq (m3_write D 1 8 operation) (bseq (m3_write D 1 12 n) (bseq (m3_write D 1 16 shift) (bseq (m3_write D 1 28 1)
    (bind (m3_read D 1 0x38) (\<lambda>err. bind (if err \<noteq> error then ret True else bind (m3_read D 1 4) (\<lambda>status. ret (status AND 2 \<noteq> 0))) (\<lambda>bad.
     bseq (require (\<not> bad) AssertionError) (m3_write D 1 28 2))))))))"

definition m3_control_checks :: "'d device \<Rightarrow> ('d m3_driver, unit) act" where
  "m3_control_checks D =
     bseq (for_each (\<lambda>e. bseq (m3_write D e 0x1c 4) (m3_write D e 0x40 0)) [0, 1])
    (bseq (m3_capabilities D 0 [0x50414732, 0x03001010, 1, 3072, 0x30001])
    (bseq (m3_capabilities D 1 [0x50415333, 0x01000c00, 0xfe, 0x30001, 1024])
    (bseq (m3_interlock D 0 [1, 1, 1, 0, 1])
    (bseq (bseq (m3_write D 0 0x1c 4) (m3_write D 1 0x1c 2))
    (bseq (m3_interlock D 1 [7, 1, 0, 0, 1])
    (bseq (m3_write D 1 0x1c 4)
    (bseq (for_each (m3_rejection D) [(0, 1, 0, 1), (3, 1025, 0, 2), (1, 1, 1, 3)])
      (m3_select D 0))))))))"

section \<open>Qualification and chains\<close>

text \<open>Every packet of a file, with the completion count of its engine.\<close>

fun m3_qualify :: "nat \<Rightarrow> 'd device \<Rightarrow> packet list \<Rightarrow> int list \<Rightarrow> ('d m3_driver, int list) act" where
  "m3_qualify fuel D [] totals = ret totals"
| "m3_qualify fuel D (p # ps) totals =
     bind (m3_execute fuel D p False []) (\<lambda>observed. let totals' = totals[nat (pk_kind p) := totals ! nat (pk_kind p) + 1] in
     bseq (m3_check D p observed (Some (totals' ! nat (pk_kind p)))) (m3_qualify fuel D ps totals'))"

type_synonym tensors = "int \<Rightarrow> int list option"

text \<open>The dynamic scale of a requantisation on the actual predecessor.\<close>

definition chain_parameters :: "packet \<Rightarrow> int list \<Rightarrow> int list res" where
  "chain_parameters p source = (if pk_kind p \<noteq> 0 \<and> pk_parameters p ! 0 = 5
     then rbind (runtime_requant_parameters source) (\<lambda>(mult, shift). Inr [5, pk_parameters p ! 1, shift, mult]) else Inr [])"

text \<open>The input buffer with the predecessor's results, and the parameters.\<close>

definition chain_patch :: "tensors \<Rightarrow> packet \<Rightarrow> ('d m3_driver, int list) act" where
  "chain_patch T p = (if pk_source p = 0 then ret []
     else case T (pk_source p) of None \<Rightarrow> raise KeyError | Some source \<Rightarrow>
       bind (lift_res (patch_input p source (pk_inputs p))) (\<lambda>patched.
       bseq (m3_fill patched) (lift_res (chain_parameters p source))))"

text \<open>\<open>tensors[d][a:a + n] = observed\<close>.\<close>

definition chain_store :: "packet \<Rightarrow> int list \<Rightarrow> tensors \<Rightarrow> tensors res" where
  "chain_store p observed T = (case T (pk_destination p) of None \<Rightarrow> Inl KeyError
     | Some old \<Rightarrow> let a = nat (pk_offset p); slot = take (nat (pk_result_count p)) (drop a old) in
         if length observed = length slot then Inr (T(pk_destination p := Some (take a old @ observed @ drop (a + length slot) old)))
         else if length observed = 1
         then Inr (T(pk_destination p := Some (take a old @ replicate (length slot) (hd observed) @ drop (a + length slot) old)))
         else Inl ValueError)"

definition chain_step :: "nat \<Rightarrow> 'd device \<Rightarrow> tensors \<Rightarrow> packet \<Rightarrow> ('d m3_driver, tensors \<times> int list) act" where
  "chain_step fuel D T p =
     bseq (m3_fill (pk_inputs p))
    (bind (chain_patch T p) (\<lambda>parameters.
     bind (m3_execute fuel D p True parameters) (\<lambda>observed.
     bind (lift_res (chain_store p observed T)) (\<lambda>T'. ret (T', observed)))))"

fun chain_run :: "nat \<Rightarrow> 'd device \<Rightarrow> tensors \<Rightarrow> packet list \<Rightarrow> ('d m3_driver, tensors \<times> int list list) act" where
  "chain_run fuel D T [] = ret (T, [])"
| "chain_run fuel D T (p # ps) =
     bind (chain_step fuel D T p) (\<lambda>(T', observed). bind (chain_run fuel D T' ps) (\<lambda>(U, rest). ret (U, observed # rest)))"

text \<open>The exact checks after a delivered chain: every packet's result, every tensor. The copy of the final tensor
  to the shared scratchpad, and its comparison, are not modelled.\<close>

definition chain_exact :: "packet list \<Rightarrow> int list list \<Rightarrow> tensors \<Rightarrow> (int \<times> int list) list \<Rightarrow> unit res" where
  "chain_exact ps observed T expected =
     (if \<not> list_all2 (\<lambda>p o'. o' = pk_expected p) ps observed then Inl AssertionError
      else if \<not> list_all (\<lambda>(d, ws). T d = Some ws) expected then Inl AssertionError else Inr ())"

text \<open>The registers after the last packet of each engine.\<close>

definition chain_registers :: "'d device \<Rightarrow> packet list \<Rightarrow> int list list \<Rightarrow> int list \<Rightarrow> nat \<Rightarrow> ('d m3_driver, unit) act" where
  "chain_registers D ps observed before kind =
     (case filter (\<lambda>i. pk_kind (ps ! i) = int kind) [0..<length ps] of [] \<Rightarrow> raise ValueError
      | is' \<Rightarrow> m3_check D (ps ! last is') (observed ! last is') (Some (before ! kind + int (length is'))))"

definition chain_iteration :: "nat \<Rightarrow> 'd device \<Rightarrow> tensors \<Rightarrow> (int \<times> int list) list \<Rightarrow> packet list \<Rightarrow> ('d m3_driver, tensors) act" where
  "chain_iteration fuel D T expected ps =
     bind (mapM_act (\<lambda>e. m3_read D e 0x34) [0, 1]) (\<lambda>before.
     bind (chain_run fuel D T ps) (\<lambda>(U, observed).
     bseq (lift_res (chain_exact ps observed U expected))
    (bseq (for_each (chain_registers D ps observed before) [0, 1]) (ret U))))"

section \<open>Laws\<close>

text \<open>The wait ends within as many polls as it takes one to find the channel idle, its error flag, or the deadline
  passed.\<close>

lemma m3_poll_returns:
  fixes s :: "'d m3_driver"
  shows "d = (after_poll D ch ^^ n) (m3_dev s) \<Longrightarrow> idle_at D ch d \<or> error_at D ch d \<or> deadline < time_at D ch d \<Longrightarrow> n < fuel
     \<Longrightarrow> outcome (m3_poll fuel D ch deadline) s (\<lambda>_ _. True) (\<lambda>e _. e \<noteq> Diverges)"
proof (induction n arbitrary: s fuel)
  case 0
  then show ?case
    by (cases fuel) (auto simp: outcome_bind outcome_zoom outcome_raise outcome_ret idle_at_def error_at_def time_at_def)
next
  case (Suc n)
  then obtain m where m: "fuel = Suc m" "n < m" by (cases fuel) simp_all
  have "outcome (m3_poll m D ch deadline) (s\<lparr>m3_dev := after_poll D ch (m3_dev s)\<rparr>) (\<lambda>_ _. True) (\<lambda>e _. e \<noteq> Diverges)"
    by (rule Suc.IH) (use Suc.prems m in \<open>simp_all add: funpow_Suc_right del: funpow.simps\<close>)
  then show ?case by (simp add: m(1) outcome_bind outcome_zoom outcome_raise outcome_ret after_poll_def)
qed

text \<open>What a passed check has compared.\<close>

lemma m3_check_exact:
  "m3_check D p observed n s = (Inr (), t) \<Longrightarrow> observed = pk_expected p \<and> pk_kind p \<in> {0, 1}"
  by (auto simp: m3_check_def m3_engine_def bseq_Inr_iff bind_Inr_iff split: if_splits)

lemma m3_qualify_exact:
  "m3_qualify fuel D ps totals s = (Inr us, t) \<Longrightarrow> length totals = 2 \<Longrightarrow>
     length us = 2 \<and> (\<forall>k < 2. us ! k = totals ! k + int (length (filter (\<lambda>p. pk_kind p = int k) ps)))"
proof (induction ps arbitrary: totals s)
  case (Cons p ps)
  from Cons.prems(1) obtain observed s1 s2 where
      c: "m3_check D p observed (Some (totals[nat (pk_kind p) := totals ! nat (pk_kind p) + 1] ! nat (pk_kind p))) s1 = (Inr (), s2)"
      and r: "m3_qualify fuel D ps (totals[nat (pk_kind p) := totals ! nat (pk_kind p) + 1]) s2 = (Inr us, t)"
    by (auto simp: bind_Inr_iff bseq_Inr_iff Let_def)
  have k: "pk_kind p = 0 \<or> pk_kind p = 1" using m3_check_exact [OF c] by simp
  show ?case using Cons.IH [OF r] Cons.prems(2) k by (auto simp: less_2_cases_iff nth_list_update)
qed simp

text \<open>A chain writes into its tensors and never changes their number or sizes; a packet for a tensor that does not
  exist, or of another size than its slot, stops it.\<close>

definition tensor_sizes :: "tensors \<Rightarrow> int \<Rightarrow> nat option" where
  "tensor_sizes T d = map_option length (T d)"

lemma chain_store_sizes: "chain_store p observed T = Inr U \<Longrightarrow> tensor_sizes U = tensor_sizes T"
  by (auto simp: chain_store_def tensor_sizes_def Let_def min_def intro!: ext split: option.splits if_splits)

lemma chain_step_sizes: "chain_step fuel D T p s = (Inr (U, observed), t) \<Longrightarrow> tensor_sizes U = tensor_sizes T"
  by (auto simp: chain_step_def bind_Inr_iff bseq_Inr_iff lift_res_def ret_def dest: chain_store_sizes)

lemma chain_run_sizes:
  "chain_run fuel D T ps s = (Inr (U, observed), t) \<Longrightarrow> tensor_sizes U = tensor_sizes T \<and> length observed = length ps"
proof (induction ps arbitrary: T s observed)
  case (Cons p ps)
  then obtain T' o' s' rest where "chain_step fuel D T p s = (Inr (T', o'), s')"
    and "chain_run fuel D T' ps s' = (Inr (U, rest), t)" and "observed = o' # rest"
    by (auto simp: bind_Inr_iff ret_def split: prod.splits)
  then show ?case using Cons.IH chain_step_sizes by fastforce
qed (simp add: ret_def)

text \<open>An iteration that passes has delivered every packet's expected words and every expected tensor.\<close>

lemma list_all2_expected: "list_all2 (\<lambda>p o'. o' = pk_expected p) ps os \<longleftrightarrow> os = map pk_expected ps"
  by (induction ps arbitrary: os) (auto simp: list_all2_Cons1)

lemma chain_iteration_exact:
  assumes "chain_iteration fuel D T expected ps s = (Inr U, t)"
  shows "\<exists>s1 s2. chain_run fuel D T ps s1 = (Inr (U, map pk_expected ps), s2)
     \<and> list_all (\<lambda>(d, ws). U d = Some ws) expected \<and> tensor_sizes U = tensor_sizes T"
proof -
  from assms obtain observed s1 s2 where r: "chain_run fuel D T ps s1 = (Inr (U, observed), s2)"
      and e: "chain_exact ps observed U expected = Inr ()"
    unfolding chain_iteration_def by (auto simp: bind_Inr_iff bseq_Inr_iff ret_def split: prod.splits)
  from e have "observed = map pk_expected ps" "list_all (\<lambda>(d, ws). U d = Some ws) expected"
    by (auto simp: chain_exact_def list_all2_expected split: if_splits)
  then show ?thesis using r chain_run_sizes [OF r] by blast
qed

end
