(* ===== verification/Spec2Isabelle.thy ===== *)
theory Spec2Isabelle
  imports SfpuProps GemmProps StreamProps PacketProps ArenaProps ArenaImage ModelPack DriverProps OffloadProps
    SpiProps AuditProps Gpt2Scaled Gpt2Props M5Props SweepProps StartupRun NetHierarchy M4RunProps ControlChecks
    M3Driver
begin

text \<open>
  Verification of the Python side of pocketai, a language model accelerator on an FPGA board: the exact
  integer references, the packet formats, the host runtime and its DMA driver, the model image, the board
  runners of the autonomous firmware, the audits of their evidence, and the mapping of the memories.

  \<^bold>\<open>Parts and how they interact.\<close>
  The references under \<open>src/ref\<close> fix what the two engines compute: \<open>sfpu_ref\<close> (vector operations),
  \<open>gemm_ref\<close> and \<open>gemm_v3_ref\<close> (matrix products). \<open>sfpu_stream\<close> and \<open>m3_packets\<close> turn operands into the
  packets that the hardware takes and files of packets into records. \<open>m4_model_pack\<close> reads the quantised
  model; \<open>m4_offload\<close> under \<open>src/zynq\<close> runs it by sending packets to a backend, either the DMA driver
  \<open>m4_driver\<close> or the native kernels (\<open>m4_cpu\<close>, \<open>m4_cpu_sfpu\<close> with their C sources); \<open>m4_run\<close> checks one
  against the other. \<open>gpt2_quantized\<close>, \<open>gpt2_scaled\<close> and \<open>gpt2_adaptive\<close> are the development references the
  runtime was derived from. \<open>m5_arena\<close> lays the pack out in the memory of the autonomous firmware;
  \<open>m5_run\<close>, \<open>m5_opt_profile\<close>, \<open>m5_sweep\<close> and the three programs that vary them load it, send requests and
  compare the results with recorded references; \<open>audit_m5_sweep\<close>, \<open>analyze_m5_sweep\<close> and
  \<open>audit_m5_startup\<close> under \<open>src/scripts\<close> check the evidence they leave. \<open>m6_spi_host\<close> starts the chip over
  SPI, \<open>m6_map_memories\<close> maps the memories of its netlist.

  \<^bold>\<open>Theories.\<close>
  \<^item> \<open>Prelude\<close>: exceptions as values (\<open>'a res\<close> is \<open>exn + 'a\<close>), actions on a state that survives an
    exception (\<open>('s, 'a) act\<close>), invariants of actions (\<open>keeps\<close>) and their outcomes (\<open>outcome\<close>).
  \<^item> \<open>Ndarray\<close>, \<open>Float64\<close>, \<open>PyData\<close>, \<open>PyText\<close>: what the sources use of NumPy, IEEE binary64, Python values,
    strings and regular expressions.
  \<^item> \<open>Rounding\<close>, \<open>SfpuTables\<close>, \<open>SfpuRef\<close>, \<open>SfpuLaws\<close>, \<open>SfpuProps\<close>: \<open>ref/sfpu_ref.py\<close>. The locale
    \<open>nearest_even\<close> is the contract of the roundings; every implementation of it is an interpretation.
  \<^item> \<open>GemmRef\<close>, \<open>GemmLaws\<close>, \<open>GemmProps\<close>: the two matrix products and their packers.
  \<^item> \<open>SfpuStream\<close>, \<open>StreamProps\<close>, \<open>M3Packets\<close>, \<open>PacketProps\<close>: descriptors, packets, packet files.
  \<^item> \<open>ModelPack\<close>, \<open>M5Arena\<close>, \<open>ArenaLaws\<close>, \<open>ArenaProps\<close>, \<open>ArenaImage\<close>: the pack, the layout, the header, the
    export and its verification.
  \<^item> \<open>Driver\<close>, \<open>DriverLaws\<close>, \<open>DriverProps\<close>: the DMA backend; the record \<open>'d driver\<close> is the object's state,
    the record \<open>'d device\<close> the overlay.
  \<^item> \<open>M3Driver\<close>: the packet driver and the chains of \<open>zynq/m3_run.py\<close> on the same overlay record.
  \<^item> \<open>ControlChecks\<close>: the fault injection of \<open>zynq/m4_control_checks.py\<close> on the driver.
  \<^item> \<open>CpuKernels\<close>, \<open>CpuLaws\<close>: the C kernels with machine integers.
  \<^item> \<open>Offload\<close>, \<open>OffloadLaws\<close>, \<open>Backends\<close>, \<open>OffloadProps\<close>: the runtime. The locale \<open>packet_backend\<close> is what it
    asks of a backend; the native kernels provide it.
  \<^item> \<open>M4Run\<close>, \<open>M4RunProps\<close>: the checking backend. The locale \<open>backend_view\<close> says that a backend shows what
    another one does; the checking backend is a view of the hardware and of the native kernels.
  \<^item> \<open>Gpt2Quantized\<close>, \<open>Gpt2Scaled\<close>, \<open>Gpt2Laws\<close>, \<open>Gpt2Props\<close>: the development references; the locale
    \<open>counting_methods\<close> is what the two later classes keep of the counters.
  \<^item> \<open>Board\<close>, \<open>M5Run\<close>, \<open>Profile\<close>, \<open>SweepRun\<close>, \<open>StartupRun\<close>, \<open>M5Laws\<close>, \<open>M5Props\<close>, \<open>SweepProps\<close>: the board runners.
    The locale \<open>quiet_runners\<close> is what the sweep asks of the request runners that it is given.
  \<^item> \<open>SweepAudit\<close>, \<open>SweepAnalysis\<close>, \<open>StartupFiles\<close>, \<open>StartupAudit\<close>, \<open>AuditProps\<close>: audits and analysis.
  \<^item> \<open>SpiHost\<close>, \<open>SpiProps\<close>: the SPI supervisor.
  \<^item> \<open>NetMemory\<close>, \<open>NetProps\<close>, \<open>NetHierarchy\<close>: the memory mapper and the inventory.

  \<^bold>\<open>What the lemmas show.\<close>
  The references are total on accepted operands and stay in their formats (\<open>SfpuLaws\<close>, \<open>GemmLaws\<close>); packers,
  readers and verifiers are inverse to writers (\<open>PacketProps\<close>, \<open>ArenaImage\<close>); the driver's handlers complete,
  refuse or latch, waiting ends with the first poll that decides it, and recovery and closing only succeed
  after a reset that has been seen complete (\<open>DriverLaws\<close>, \<open>DriverProps\<close>); a runtime's session is only extended
  (\<open>OffloadLaws\<close>), and its operators are those of the references on every backend that keeps the contract
  (\<open>Backends\<close>); a run on a checking backend is a run on each of its parts (\<open>M4RunProps\<close>); a report of a board
  runner says PASS only after all its comparisons and names the failure otherwise (\<open>M5Laws\<close>, \<open>SweepProps\<close>);
  a mapped netlist loses no memory and no logic (\<open>NetHierarchy\<close>).

  \<^bold>\<open>Bounds and fuel.\<close>
  The polling loops of the drivers (\<open>poll_until\<close>, \<open>m3_poll\<close>) and of the board runners (\<open>wait_done\<close>, \<open>wait_within\<close>) end by
  the clock, which is a parameter, so they carry fuel and \<open>Diverges\<close> is the outcome without it. Nothing is
  assumed of the clock: the first poll that finds the channel idle, an error or the deadline reached ends the wait
  with the result of that case, and every amount of fuel beyond it is enough (\<open>wait_decided\<close>); for the runners'
  clock, \<open>wait_done_decided\<close> says the same of the firmware's status. The search for
  a gain factor doubles a float, at most 1025 times (\<open>gain_factor_found\<close>). The number of SPI polls is the
  argument of the source. All other loops are structural or have a measure, among them the propagation of
  the memory clock and the walks over the hierarchy.

  \<^bold>\<open>Parameters.\<close>
  What is not under \<open>src\<close> is an argument of the definitions: the overlay with its registers, DMA channels and
  clock (\<open>'d device\<close>), the kernel driver, mappings and clock of the board (\<open>'w board\<close>), the operating
  system of the sweep (\<open>'w system\<close>), files and SHA-256 (\<open>files\<close>, \<open>host\<close>, \<open>sha\<close>), the SPI wire (a transfer
  function), the C library's \<open>sqrtl\<close>, NumPy's \<open>log2\<close> and the conversion of floats that do not fit an integer
  type (\<open>numpy\<close>). No theorem assumes that SHA-256 is free of collisions.

  \<^bold>\<open>Not modelled.\<close>
  \<^item> The float32 reference \<open>ref/gpt2_float.py\<close> and the float64 accuracy references in \<open>ref/sfpu_ref.py\<close>: their
    results depend on BLAS, \<open>erf\<close> and \<open>exp\<close>.
  \<^item> Command lines, printing, plotting and JSON text; the captured tensors of \<open>zynq/m4_offload.py\<close> and their check
    in \<open>zynq/m4_run.py\<close>; exception messages, of which only the class is kept.
  \<^item> The board programs of the first milestones beyond \<open>M3Driver\<close>, the time measurements of M4
    (\<open>m4_benchmark\<close>, \<open>m4_cold_start\<close>) and the short M5 experiments: sequences of register accesses and time measurements around modelled parts.
  \<^item> Exporters, stagers, collectors and fetchers: copies, archives and digests of files.
  \<^item> The audits of the earlier milestones: comparisons of recorded evidence with literals of one experiment.
  \<^item> The source patchers \<open>scripts/m5_*_sources.py\<close> and \<open>scripts/m5_startup_*.py\<close>: exact text replacements in C
    and SystemVerilog files, whose meaning is that of those languages.
  \<^item> The physical design scripts \<open>scripts/m6_*.py\<close> and \<open>asic/m6/*.py\<close> other than the two mapped above: inputs and
    reports of external tools, and drawings.
  \<^item> The hardware, the firmware and the tests.
\<close>

end
